(* ===== verification/Prelude.thy ===== *)
theory Prelude
  imports Complex_Main "HOL-Library.Char_ord" "HOL-Library.List_Lexorder"
    "HOL-Library.Product_Lexorder" "HOL-Library.Multiset" "HOL-Library.AList" "HOL-Library.Code_Target_Nat"
begin

text \<open>
  Shared vocabulary of the development. It holds:
  \<^item> fallible results: a Python call that may raise is a value of \<open>'e + 'a\<close>, \<open>Inl\<close> for the
    exception; \<open>rbind\<close> is statement sequencing, \<open>ensure\<close> a guard with \<open>raise\<close>, \<open>rmap\<close> a
    loop that stops at the first exception;
  \<^item> Python's list operations used by the program: stable \<open>sorted(key=...)\<close>, its reverse form,
    \<open>max(key=...)\<close>, \<open>next(...)\<close> over a generator;
  \<^item> dictionaries with insertion order, as association lists with distinct keys;
  \<^item> the theorem collections \<open>res_simps\<close> and \<open>dict_simps\<close> the component proofs use.
\<close>

named_theorems res_simps
named_theorems dict_simps

section \<open>Results\<close>

definition rbind :: "'e + 'a \<Rightarrow> ('a \<Rightarrow> 'e + 'b) \<Rightarrow> 'e + 'b" where
  "rbind m f = (case m of Inl e \<Rightarrow> Inl e | Inr x \<Rightarrow> f x)"

definition ensure :: "bool \<Rightarrow> 'e \<Rightarrow> 'e + unit" where
  "ensure b e = (if b then Inr () else Inl e)"

definition rcatch :: "'e + 'a \<Rightarrow> ('e \<Rightarrow> 'f + 'a) \<Rightarrow> 'f + 'a" where
  "rcatch m h = (case m of Inl e \<Rightarrow> h e | Inr x \<Rightarrow> Inr x)"

definition of_option :: "'e \<Rightarrow> 'a option \<Rightarrow> 'e + 'a" where
  "of_option e m = (case m of None \<Rightarrow> Inl e | Some x \<Rightarrow> Inr x)"

primrec rmap :: "('a \<Rightarrow> 'e + 'b) \<Rightarrow> 'a list \<Rightarrow> 'e + 'b list" where
  "rmap f [] = Inr []"
| "rmap f (x # xs) = rbind (f x) (\<lambda>y. rbind (rmap f xs) (\<lambda>ys. Inr (y # ys)))"

primrec rfold :: "('a \<Rightarrow> 's \<Rightarrow> 'e + 's) \<Rightarrow> 'a list \<Rightarrow> 's \<Rightarrow> 'e + 's" where
  "rfold f [] s = Inr s"
| "rfold f (x # xs) s = rbind (f x s) (rfold f xs)"

definition rall :: "('a \<Rightarrow> 'e + unit) \<Rightarrow> 'a list \<Rightarrow> 'e + unit" where
  "rall f xs = rfold (\<lambda>x _. f x) xs ()"

definition is_ok :: "'e + 'a \<Rightarrow> bool" where
  "is_ok m = (case m of Inl _ \<Rightarrow> False | Inr _ \<Rightarrow> True)"

lemma rbind_simps [simp]:
  "rbind (Inl e) f = Inl e"
  "rbind (Inr x) f = f x"
  by (simp_all add: rbind_def)

lemma rbind_Inr_iff [simp, res_simps]:
  "rbind m f = Inr y \<longleftrightarrow> (\<exists>x. m = Inr x \<and> f x = Inr y)"
  by (cases m) auto

lemma Inr_rbind_iff [simp, res_simps]:
  "Inr y = rbind m f \<longleftrightarrow> (\<exists>x. m = Inr x \<and> f x = Inr y)"
  by (cases m) auto

lemma rbind_Inl_iff [res_simps]:
  "rbind m f = Inl e \<longleftrightarrow> m = Inl e \<or> (\<exists>x. m = Inr x \<and> f x = Inl e)"
  by (cases m) auto

lemma rbind_cong [fundef_cong]:
  "m = m' \<Longrightarrow> (\<And>x. m' = Inr x \<Longrightarrow> f x = g x) \<Longrightarrow> rbind m f = rbind m' g"
  by (cases m') auto

lemma rbind_assoc [simp]: "rbind (rbind m f) g = rbind m (\<lambda>x. rbind (f x) g)"
  by (cases m) auto

lemma ensure_simps [simp]:
  "ensure True e = Inr ()"
  "ensure False e = Inl e"
  "ensure b e = Inr u \<longleftrightarrow> b"
  "ensure b e = Inl e' \<longleftrightarrow> \<not> b \<and> e = e'"
  by (auto simp: ensure_def)

lemma rbind_ensure_Inl [res_simps]:
  "rbind (ensure b e) f = Inl e' \<longleftrightarrow> (\<not> b \<and> e = e') \<or> (b \<and> f () = Inl e')"
  by (auto simp: ensure_def)

lemma of_option_simps [simp]:
  "of_option e None = Inl e"
  "of_option e (Some x) = Inr x"
  "of_option e m = Inr y \<longleftrightarrow> m = Some y"
  "of_option e m = Inl e' \<longleftrightarrow> m = None \<and> e = e'"
  by (auto simp: of_option_def split: option.splits)

lemma rcatch_simps [simp]:
  "rcatch (Inl e) h = h e"
  "rcatch (Inr x) h = Inr x"
  by (simp_all add: rcatch_def)

lemma is_ok_simps [simp]:
  "is_ok (Inl e) = False"
  "is_ok (Inr x) = True"
  by (simp_all add: is_ok_def)

lemma is_ok_iff: "is_ok m \<longleftrightarrow> (\<exists>x. m = Inr x)"
  by (cases m) auto

lemma rall_simps [simp]:
  "rall f [] = Inr ()"
  "rall f (x # xs) = rbind (f x) (\<lambda>_. rall f xs)"
  by (simp_all add: rall_def)

lemma rall_Inr_iff [simp, res_simps]: "rall f xs = Inr u \<longleftrightarrow> (\<forall>x \<in> set xs. f x = Inr ())"
  by (induction xs) auto

lemma rall_Inl_first:
  "rall f xs = Inl e \<Longrightarrow> \<exists>ys x zs. xs = ys @ x # zs \<and> (\<forall>y \<in> set ys. f y = Inr ()) \<and> f x = Inl e"
proof (induction xs)
  case Nil
  then show ?case by simp
next
  case (Cons a xs)
  show ?case
  proof (cases "f a")
    case (Inl e')
    with Cons.prems have "a # xs = [] @ a # xs \<and> (\<forall>y \<in> set []. f y = Inr ()) \<and> f a = Inl e"
      by simp
    then show ?thesis by blast
  next
    case (Inr u)
    with Cons.prems obtain ys x zs where
      "xs = ys @ x # zs" "\<forall>y \<in> set ys. f y = Inr ()" "f x = Inl e"
      using Cons.IH by auto
    with Inr have "a # xs = (a # ys) @ x # zs \<and> (\<forall>y \<in> set (a # ys). f y = Inr ()) \<and> f x = Inl e"
      by simp
    then show ?thesis by blast
  qed
qed

lemma rmap_Inr_iff [res_simps]:
  "rmap f xs = Inr ys \<longleftrightarrow> list_all2 (\<lambda>x y. f x = Inr y) xs ys"
  by (induction xs arbitrary: ys) (auto simp: list_all2_Cons1)

lemma rmap_ok: "(\<And>x. x \<in> set xs \<Longrightarrow> f x = Inr (g x)) \<Longrightarrow> rmap f xs = Inr (map g xs)"
  by (induction xs) auto

lemma rmap_Inr_set:
  "rmap f xs = Inr ys \<Longrightarrow> y \<in> set ys \<Longrightarrow> \<exists>x \<in> set xs. f x = Inr y"
  by (induction xs arbitrary: ys) auto

lemma rfold_append: "rfold f (xs @ ys) s = rbind (rfold f xs s) (rfold f ys)"
  by (induction xs arbitrary: s) (auto intro!: rbind_cong)

text \<open>The loop rule: what holds before the loop and is kept by each iteration holds after it.\<close>

lemma rfold_invariant:
  assumes "rfold f xs s = Inr t" and "P s"
    and "\<And>x s t. x \<in> set xs \<Longrightarrow> P s \<Longrightarrow> f x s = Inr t \<Longrightarrow> P t"
  shows "P t"
  using assms
proof (induction xs arbitrary: s)
  case Nil
  then show ?case by simp
next
  case (Cons x xs)
  from Cons.prems(1) obtain s' where s': "f x s = Inr s'" "rfold f xs s' = Inr t" by auto
  from s'(1) Cons.prems(2,3) have "P s'" by (meson list.set_intros(1))
  with s'(2) Cons.prems(3) show ?case by (meson Cons.IH list.set_intros(2))
qed

section \<open>Python's list operations\<close>

abbreviation py_sorted :: "('a \<Rightarrow> 'k::linorder) \<Rightarrow> 'a list \<Rightarrow> 'a list" where
  "py_sorted f xs \<equiv> sort_key f xs"

definition py_sorted_reverse :: "('a \<Rightarrow> 'k::linorder) \<Rightarrow> 'a list \<Rightarrow> 'a list" where
  "py_sorted_reverse f xs = rev (sort_key f (rev xs))"

fun py_max_from :: "('a \<Rightarrow> 'k::linorder) \<Rightarrow> 'a \<Rightarrow> 'a list \<Rightarrow> 'a" where
  "py_max_from f best [] = best"
| "py_max_from f best (x # xs) = py_max_from f (if f best < f x then x else best) xs"

definition py_max :: "('a \<Rightarrow> 'k::linorder) \<Rightarrow> 'a list \<Rightarrow> 'a option" where
  "py_max f xs = (case xs of [] \<Rightarrow> None | x # xs' \<Rightarrow> Some (py_max_from f x xs'))"

abbreviation py_next :: "('a \<Rightarrow> bool) \<Rightarrow> 'a list \<Rightarrow> 'a option" where
  "py_next P xs \<equiv> List.find P xs"

lemma py_sorted_cong:
  assumes "\<And>x. x \<in> set xs \<Longrightarrow> f x = g x"
  shows "py_sorted f xs = py_sorted g xs"
proof -
  have ins: "insort_key f x ys = insort_key g x ys" if "f x = g x" "\<forall>y \<in> set ys. f y = g y" for x ys
    using that by (induction ys) auto
  from assms show ?thesis by (induction xs) (auto intro: ins)
qed

lemma py_max_from_in: "py_max_from f b xs \<in> insert b (set xs)"
  by (induction f b xs rule: py_max_from.induct) (auto split: if_splits)

lemma py_max_from_ge: "y \<in> insert b (set xs) \<Longrightarrow> f y \<le> f (py_max_from f b xs)"
proof (induction f b xs arbitrary: y rule: py_max_from.induct)
  case (1 f best)
  then show ?case by simp
next
  case (2 f best x xs)
  show ?case
  proof (cases "y \<in> set xs")
    case True
    with "2.IH" show ?thesis by simp
  next
    case False
    with "2.prems" have "f y \<le> f (if f best < f x then x else best)" by auto
    moreover have "f (if f best < f x then x else best) \<le> f (py_max_from f best (x # xs))"
      using "2.IH" [of "if f best < f x then x else best"] by simp
    ultimately show ?thesis by (rule order_trans)
  qed
qed

lemma py_max_None_iff [simp]: "py_max f xs = None \<longleftrightarrow> xs = []"
  by (auto simp: py_max_def split: list.splits)

lemma py_max_SomeD:
  assumes "py_max f xs = Some m"
  shows "m \<in> set xs" and "\<And>y. y \<in> set xs \<Longrightarrow> f y \<le> f m"
proof -
  from assms obtain x xs' where xs: "xs = x # xs'" and m: "m = py_max_from f x xs'"
    by (auto simp: py_max_def split: list.splits)
  show "m \<in> set xs" using py_max_from_in [of f x xs'] by (simp add: xs m)
  show "\<And>y. y \<in> set xs \<Longrightarrow> f y \<le> f m"
    using py_max_from_ge [of _ x xs' f] by (simp add: xs m)
qed

lemma set_py_sorted_reverse [simp]: "set (py_sorted_reverse f xs) = set xs"
  by (simp add: py_sorted_reverse_def)

lemma mset_py_sorted_reverse [simp]: "mset (py_sorted_reverse f xs) = mset xs"
  by (simp add: py_sorted_reverse_def)

lemma sorted_py_sorted_reverse: "sorted (rev (map f (py_sorted_reverse f xs)))"
  by (simp add: py_sorted_reverse_def rev_map)

lemma py_sorted_reverse_Nil [simp]: "py_sorted_reverse f xs = [] \<longleftrightarrow> xs = []"
  by (simp add: py_sorted_reverse_def) (metis length_0_conv length_rev length_sort rev_is_Nil_conv)

lemma py_sorted_reverse_hd_max:
  assumes "xs \<noteq> []" and "y \<in> set xs"
  shows "f y \<le> f (hd (py_sorted_reverse f xs))"
proof -
  let ?ys = "py_sorted_reverse f xs"
  have y: "y \<in> set ?ys" and ne: "?ys \<noteq> []" using assms by simp_all
  have s: "sorted (rev (map f ?ys))" by (rule sorted_py_sorted_reverse)
  from ne obtain z zs where zs: "?ys = z # zs" by (cases ?ys) auto
  with s y show ?thesis by (auto simp: sorted_append)
qed

lemma find_SomeD: "List.find P xs = Some x \<Longrightarrow> x \<in> set xs \<and> P x"
  by (auto simp: find_Some_iff)

lemma find_None_D: "List.find P xs = None \<Longrightarrow> x \<in> set xs \<Longrightarrow> \<not> P x"
  by (auto simp: find_None_iff)

section \<open>Dictionaries\<close>

text \<open>
  A Python dict keeps insertion order: an association list with distinct keys, where an
  assignment to a present key keeps its position and a new key goes to the end.
\<close>

type_synonym ('k, 'v) dict = "('k \<times> 'v) list"

abbreviation dict_get :: "('k, 'v) dict \<Rightarrow> 'k \<Rightarrow> 'v option" where
  "dict_get d k \<equiv> map_of d k"

abbreviation dict_set :: "'k \<Rightarrow> 'v \<Rightarrow> ('k, 'v) dict \<Rightarrow> ('k, 'v) dict" where
  "dict_set k v d \<equiv> AList.update k v d"

abbreviation dict_keys :: "('k, 'v) dict \<Rightarrow> 'k list" where
  "dict_keys d \<equiv> map fst d"

definition dict_of :: "('k \<times> 'v) list \<Rightarrow> ('k, 'v) dict" where
  "dict_of ps = foldl (\<lambda>d p. dict_set (fst p) (snd p) d) [] ps"

lemma dict_get_set [simp, dict_simps]: "dict_get (dict_set k v d) k' = (if k' = k then Some v else dict_get d k')"
  by (simp add: update_conv')

lemma dict_keys_set [dict_simps]: "set (dict_keys (dict_set k v d)) = insert k (set (dict_keys d))"
  by (induction d) auto

lemma dict_of_snoc: "dict_of (ps @ [p]) = dict_set (fst p) (snd p) (dict_of ps)"
  by (simp add: dict_of_def)

text \<open>A later pair of the comprehension wins.\<close>

lemma dict_get_dict_of [dict_simps]: "dict_get (dict_of ps) k = map_of (rev ps) k"
proof (induction ps rule: rev_induct)
  case Nil
  show ?case by (simp add: dict_of_def)
next
  case (snoc p ps)
  then show ?case by (cases p) (auto simp: dict_of_snoc)
qed

lemma distinct_dict_of: "distinct (dict_keys (dict_of ps))"
  by (induction ps rule: rev_induct) (auto simp: dict_of_snoc distinct_update, simp add: dict_of_def)

lemma map_of_rev_distinct: "distinct (map fst ps) \<Longrightarrow> map_of (rev ps) = map_of ps"
  by (subst map_of_inject_set) (simp_all flip: rev_map)

lemma dict_get_dict_of_distinct:
  "distinct (map fst ps) \<Longrightarrow> dict_get (dict_of ps) k = map_of ps k"
  by (simp add: dict_get_dict_of map_of_rev_distinct)

end
