(* ===== verification/Pystr.thy ===== *)
theory Pystr
  imports Prelude
begin

text \<open>
  Python's \<open>str\<close>. A text is modelled by its UTF-8 encoding, a \<open>string\<close> of bytes: equality,
  concatenation, slicing at ASCII separators and the order of code points (which UTF-8
  preserves) are then those of lists. Where the program looks at code points
  (\<open>len\<close>, \<open>isspace\<close>, \<open>strip\<close>) the text is decoded first; the decoder replaces ill-formed
  sequences the way \<open>bytes.decode(errors="replace")\<close> does, which is what
  \<open>urllib.parse.unquote\<close> uses. Case mappings are those of the ASCII letters.
\<close>

section \<open>Slicing and searching\<close>

definition py_startswith :: "string \<Rightarrow> string \<Rightarrow> bool" where
  "py_startswith s p = (take (length p) s = p)"

definition py_endswith :: "string \<Rightarrow> string \<Rightarrow> bool" where
  "py_endswith s p = (length p \<le> length s \<and> drop (length s - length p) s = p)"

fun py_in :: "string \<Rightarrow> string \<Rightarrow> bool" where
  "py_in p [] = (p = [])"
| "py_in p (c # s) = (py_startswith (c # s) p \<or> py_in p s)"

fun py_split :: "char \<Rightarrow> string \<Rightarrow> string list" where
  "py_split sep [] = [[]]"
| "py_split sep (c # s) =
     (if c = sep then [] # py_split sep s
      else (case py_split sep s of [] \<Rightarrow> [[c]] | w # ws \<Rightarrow> (c # w) # ws))"

fun py_join :: "string \<Rightarrow> string list \<Rightarrow> string" where
  "py_join sep [] = []"
| "py_join sep [w] = w"
| "py_join sep (w # ws) = w @ sep @ py_join sep ws"

text \<open>\<open>s.partition(c)\<close>: the part before the first \<open>c\<close>, whether it was found, the part after.\<close>

definition py_partition :: "char \<Rightarrow> string \<Rightarrow> string \<times> bool \<times> string" where
  "py_partition c s =
     (let b = takeWhile (\<lambda>x. x \<noteq> c) s in
      if c \<in> set s then (b, True, drop (Suc (length b)) s) else (s, False, []))"

text \<open>\<open>s.rpartition(c)\<close>: split at the last \<open>c\<close>; when there is none the whole text is the last part.\<close>

definition py_rpartition :: "char \<Rightarrow> string \<Rightarrow> string \<times> bool \<times> string" where
  "py_rpartition c s =
     (case py_partition c (rev s) of (a, found, b) \<Rightarrow>
        if found then (rev b, True, rev a) else ([], False, s))"

lemma py_startswith_append [simp]: "py_startswith (p @ s) p"
  by (simp add: py_startswith_def)

lemma py_startswith_iff: "py_startswith s p \<longleftrightarrow> (\<exists>t. s = p @ t)"
  by (auto simp: py_startswith_def) (metis append_take_drop_id)

lemma py_endswith_iff: "py_endswith s p \<longleftrightarrow> (\<exists>t. s = t @ p)"
  by (auto simp: py_endswith_def) (metis append_take_drop_id)

lemma py_in_iff: "py_in p s \<longleftrightarrow> (\<exists>a b. s = a @ p @ b)"
proof (induction s)
  case Nil
  show ?case by auto
next
  case (Cons c s)
  have "(\<exists>a b. c # s = a @ p @ b) \<longleftrightarrow> (\<exists>b. c # s = p @ b) \<or> (\<exists>a b. s = a @ p @ b)"
    by (metis append_Cons append_Nil neq_Nil_conv list.inject)
  with Cons show ?case by (simp add: py_startswith_iff)
qed

lemma py_split_ne [simp]: "py_split sep s \<noteq> []"
  by (induction sep s rule: py_split.induct) (auto split: list.splits)

lemma py_join_split: "py_join [sep] (py_split sep s) = s"
proof (induction sep s rule: py_split.induct)
  case (1 sep)
  show ?case by simp
next
  case (2 sep c s)
  show ?case
  proof (cases "c = sep")
    case True
    obtain w ws where w: "py_split sep s = w # ws" using py_split_ne [of sep s] by (cases "py_split sep s") auto
    with 2 True show ?thesis by (simp del: py_split_ne)
  next
    case False
    obtain w ws where w: "py_split sep s = w # ws" using py_split_ne [of sep s] by (cases "py_split sep s") auto
    have "py_join [sep] ((c # w) # ws) = c # py_join [sep] (w # ws)" by (cases ws) auto
    with 2 w False show ?thesis by (simp del: py_split_ne)
  qed
qed

lemma py_split_no_sep: "w \<in> set (py_split sep s) \<Longrightarrow> sep \<notin> set w"
  by (induction sep s arbitrary: w rule: py_split.induct) (auto split: if_splits list.splits)

lemma py_split_single: "sep \<notin> set w \<Longrightarrow> py_split sep w = [w]"
  by (induction w) auto

lemma py_split_append: "sep \<notin> set w \<Longrightarrow> py_split sep (w @ sep # s) = w # py_split sep s"
  by (induction w) auto

lemma py_split_join:
  "ws \<noteq> [] \<Longrightarrow> (\<And>w. w \<in> set ws \<Longrightarrow> sep \<notin> set w) \<Longrightarrow> py_split sep (py_join [sep] ws) = ws"
  by (induction "[sep]" ws rule: py_join.induct) (auto simp: py_split_single py_split_append)

lemma py_partition_found:
  "py_partition c s = (a, True, b) \<longleftrightarrow> s = a @ c # b \<and> c \<notin> set a"
proof
  assume h: "py_partition c s = (a, True, b)"
  then have c: "c \<in> set s" and a: "a = takeWhile (\<lambda>x. x \<noteq> c) s"
    and b: "b = drop (Suc (length a)) s" by (auto simp: py_partition_def Let_def split: if_splits)
  from c have "dropWhile (\<lambda>x. x \<noteq> c) s \<noteq> []" by (auto simp: dropWhile_eq_Nil_conv)
  then obtain y ys where y: "dropWhile (\<lambda>x. x \<noteq> c) s = y # ys" by (cases "dropWhile (\<lambda>x. x \<noteq> c) s") auto
  then have "y = c" using hd_dropWhile [of "\<lambda>x. x \<noteq> c" s] by auto
  with y a have s: "s = a @ c # ys" by (metis takeWhile_dropWhile_id)
  with b have "b = ys" by simp
  moreover have "c \<notin> set a" using a by (auto dest: set_takeWhileD)
  ultimately show "s = a @ c # b \<and> c \<notin> set a" using s by simp
next
  assume "s = a @ c # b \<and> c \<notin> set a"
  then have "takeWhile (\<lambda>x. x \<noteq> c) s = a" by (induction a arbitrary: s) auto
  with \<open>s = a @ c # b \<and> c \<notin> set a\<close> show "py_partition c s = (a, True, b)"
    by (auto simp: py_partition_def Let_def)
qed

section \<open>ASCII classes and numbers\<close>

lemma char_eq_byte: "c = d \<longleftrightarrow> (of_char c :: nat) = of_char d"
  by (simp add: of_char_eq_iff)

definition is_digit :: "char \<Rightarrow> bool" where
  "is_digit c = (CHR ''0'' \<le> c \<and> c \<le> CHR ''9'')"

definition is_lower :: "char \<Rightarrow> bool" where
  "is_lower c = (CHR ''a'' \<le> c \<and> c \<le> CHR ''z'')"

definition is_upper :: "char \<Rightarrow> bool" where
  "is_upper c = (CHR ''A'' \<le> c \<and> c \<le> CHR ''Z'')"

definition char_lower :: "char \<Rightarrow> char" where
  "char_lower c = (if is_upper c then char_of (of_char c + 32 :: nat) else c)"

definition py_lower :: "string \<Rightarrow> string" where
  "py_lower s = map char_lower s"

definition digit_val :: "char \<Rightarrow> nat" where
  "digit_val c = of_char c - 48"

text \<open>\<open>int(s)\<close> of a text of ASCII digits.\<close>

definition py_nat :: "string \<Rightarrow> nat" where
  "py_nat s = foldl (\<lambda>n c. 10 * n + digit_val c) 0 s"

fun dec_digits :: "nat \<Rightarrow> string" where
  "dec_digits n =
     (if n < 10 then [char_of (n + 48)] else dec_digits (n div 10) @ [char_of (n mod 10 + 48)])"

declare dec_digits.simps [simp del]

text \<open>\<open>str(n)\<close> of an \<open>int\<close>.\<close>

definition py_str_int :: "int \<Rightarrow> string" where
  "py_str_int i = (if i < 0 then ''-'' @ dec_digits (nat (- i)) else dec_digits (nat i))"

lemma py_nat_snoc: "py_nat (s @ [c]) = 10 * py_nat s + digit_val c"
  by (simp add: py_nat_def)

lemma digit_val_char_of: "n < 10 \<Longrightarrow> digit_val (char_of (n + 48)) = n"
  by (simp add: digit_val_def)

lemma py_nat_dec_digits: "py_nat (dec_digits n) = n"
proof (induction n rule: dec_digits.induct)
  case (1 n)
  show ?case
  proof (cases "n < 10")
    case True
    then show ?thesis by (simp add: dec_digits.simps [of n] py_nat_def digit_val_char_of)
  next
    case False
    with "1.IH" show ?thesis
      by (simp add: dec_digits.simps [of n] py_nat_snoc digit_val_char_of)
  qed
qed

section \<open>UTF-8\<close>

abbreviation byte :: "char \<Rightarrow> nat" where
  "byte c \<equiv> of_char c"

definition is_cont :: "nat \<Rightarrow> bool" where
  "is_cont b = (128 \<le> b \<and> b \<le> 191)"

definition second3 :: "nat \<Rightarrow> nat \<Rightarrow> bool" where
  "second3 b c = (if b = 224 then 160 \<le> c \<and> c \<le> 191 else if b = 237 then 128 \<le> c \<and> c \<le> 159 else is_cont c)"

definition second4 :: "nat \<Rightarrow> nat \<Rightarrow> bool" where
  "second4 b c = (if b = 240 then 144 \<le> c \<and> c \<le> 191 else if b = 244 then 128 \<le> c \<and> c \<le> 143 else is_cont c)"

definition replacement :: nat where
  "replacement = 65533"

function utf8_decode :: "nat list \<Rightarrow> nat list" where
  "utf8_decode [] = []"
| "utf8_decode (b # bs) =
     (if b < 128 then b # utf8_decode bs
      else if 194 \<le> b \<and> b \<le> 223 then
        (case bs of
           c # cs \<Rightarrow> if is_cont c then ((b - 192) * 64 + (c - 128)) # utf8_decode cs
                     else replacement # utf8_decode bs
         | [] \<Rightarrow> [replacement])
      else if 224 \<le> b \<and> b \<le> 239 then
        (case bs of
           c # cs \<Rightarrow> if second3 b c then
               (case cs of
                  d # ds \<Rightarrow> if is_cont d
                            then ((b - 224) * 4096 + (c - 128) * 64 + (d - 128)) # utf8_decode ds
                            else replacement # utf8_decode cs
                | [] \<Rightarrow> [replacement])
             else replacement # utf8_decode bs
         | [] \<Rightarrow> [replacement])
      else if 240 \<le> b \<and> b \<le> 244 then
        (case bs of
           c # cs \<Rightarrow> if second4 b c then
               (case cs of
                  d # ds \<Rightarrow> if is_cont d then
                      (case ds of
                         e # es \<Rightarrow> if is_cont e
                           then ((b - 240) * 262144 + (c - 128) * 4096 + (d - 128) * 64 + (e - 128))
                                  # utf8_decode es
                           else replacement # utf8_decode ds
                       | [] \<Rightarrow> [replacement])
                    else replacement # utf8_decode cs
                | [] \<Rightarrow> [replacement])
             else replacement # utf8_decode bs
         | [] \<Rightarrow> [replacement])
      else replacement # utf8_decode bs)"
  by pat_completeness auto
termination
  by (relation "measure length") auto

definition utf8_encode1 :: "nat \<Rightarrow> nat list" where
  "utf8_encode1 p =
     (if p < 128 then [p]
      else if p < 2048 then [192 + p div 64, 128 + p mod 64]
      else if p < 65536 then [224 + p div 4096, 128 + p div 64 mod 64, 128 + p mod 64]
      else [240 + p div 262144, 128 + p div 4096 mod 64, 128 + p div 64 mod 64, 128 + p mod 64])"

definition code_points :: "string \<Rightarrow> nat list" where
  "code_points s = utf8_decode (map byte s)"

definition of_code_points :: "nat list \<Rightarrow> string" where
  "of_code_points ps = map char_of (concat (map utf8_encode1 ps))"

definition is_space :: "nat \<Rightarrow> bool" where
  "is_space p = ((9 \<le> p \<and> p \<le> 13) \<or> (28 \<le> p \<and> p \<le> 32) \<or> p = 133 \<or> p = 160 \<or> p = 5760
     \<or> (8192 \<le> p \<and> p \<le> 8202) \<or> p = 8232 \<or> p = 8233 \<or> p = 8239 \<or> p = 8287 \<or> p = 12288)"

definition py_len :: "string \<Rightarrow> nat" where
  "py_len s = length (code_points s)"

definition py_strip :: "string \<Rightarrow> string" where
  "py_strip s = of_code_points
     (rev (dropWhile is_space (rev (dropWhile is_space (code_points s)))))"

lemma utf8_decode_ascii: "list_all (\<lambda>b. b < 128) bs \<Longrightarrow> utf8_decode bs = bs"
  by (induction bs) auto

lemma utf8_encode_ascii: "list_all (\<lambda>b. b < 128) bs \<Longrightarrow> concat (map utf8_encode1 bs) = bs"
  by (induction bs) (auto simp: utf8_encode1_def)

definition is_ascii :: "string \<Rightarrow> bool" where
  "is_ascii s = list_all (\<lambda>c. byte c < 128) s"

lemma code_points_ascii: "is_ascii s \<Longrightarrow> code_points s = map byte s"
  by (simp add: code_points_def utf8_decode_ascii is_ascii_def list_all_iff)

lemma py_len_ascii: "is_ascii s \<Longrightarrow> py_len s = length s"
  by (simp add: py_len_def code_points_ascii)

end
