(* ===== verification/Regex.thy ===== *)
theory Regex
  imports Pystr
begin

text \<open>
  The part of Python's \<open>re\<close> module the program uses: character classes, concatenation,
  alternation and repetition, matched against a whole text (\<open>re.fullmatch\<close>, for which the
  anchors \<open>^\<close> and \<open>$\<close> of the patterns add nothing). A pattern is a value of \<open>regex\<close>,
  \<open>lang\<close> is the set of texts it stands for, and \<open>fullmatch\<close> decides membership by
  derivatives; \<open>fullmatch_lang\<close> says the two agree.
\<close>

datatype regex =
    RZero
  | REps
  | RClass "(char \<times> char) list"
  | RNot "char list"
  | RSeq regex regex
  | RAlt regex regex
  | RStar regex

definition in_class :: "(char \<times> char) list \<Rightarrow> char \<Rightarrow> bool" where
  "in_class rs c = list_ex (\<lambda>(lo, hi). lo \<le> c \<and> c \<le> hi) rs"

inductive_set star_lang :: "'a list set \<Rightarrow> 'a list set" for A where
  star_Nil: "[] \<in> star_lang A"
| star_step: "a \<in> A \<Longrightarrow> s \<in> star_lang A \<Longrightarrow> a @ s \<in> star_lang A"

primrec lang :: "regex \<Rightarrow> string set" where
  "lang RZero = {}"
| "lang REps = {[]}"
| "lang (RClass rs) = {[c] | c. in_class rs c}"
| "lang (RNot cs) = {[c] | c. c \<notin> set cs}"
| "lang (RSeq r s) = {a @ b | a b. a \<in> lang r \<and> b \<in> lang s}"
| "lang (RAlt r s) = lang r \<union> lang s"
| "lang (RStar r) = star_lang (lang r)"

primrec nullable :: "regex \<Rightarrow> bool" where
  "nullable RZero = False"
| "nullable REps = True"
| "nullable (RClass rs) = False"
| "nullable (RNot cs) = False"
| "nullable (RSeq r s) = (nullable r \<and> nullable s)"
| "nullable (RAlt r s) = (nullable r \<or> nullable s)"
| "nullable (RStar r) = True"

fun rseq :: "regex \<Rightarrow> regex \<Rightarrow> regex" where
  "rseq RZero s = RZero"
| "rseq REps s = s"
| "rseq r s = (if s = RZero then RZero else RSeq r s)"

definition ralt :: "regex \<Rightarrow> regex \<Rightarrow> regex" where
  "ralt r s = (if r = RZero then s else if s = RZero \<or> r = s then r else RAlt r s)"

primrec deriv :: "char \<Rightarrow> regex \<Rightarrow> regex" where
  "deriv c RZero = RZero"
| "deriv c REps = RZero"
| "deriv c (RClass rs) = (if in_class rs c then REps else RZero)"
| "deriv c (RNot cs) = (if c \<in> set cs then RZero else REps)"
| "deriv c (RSeq r s) =
     (if nullable r then ralt (rseq (deriv c r) s) (deriv c s) else rseq (deriv c r) s)"
| "deriv c (RAlt r s) = ralt (deriv c r) (deriv c s)"
| "deriv c (RStar r) = rseq (deriv c r) (RStar r)"

primrec fullmatch :: "regex \<Rightarrow> string \<Rightarrow> bool" where
  "fullmatch r [] = nullable r"
| "fullmatch r (c # s) = fullmatch (deriv c r) s"

text \<open>The pattern operators of the source, as abbreviations over the constructors.\<close>

definition rplus :: "regex \<Rightarrow> regex" where
  "rplus r = RSeq r (RStar r)"

definition ropt :: "regex \<Rightarrow> regex" where
  "ropt r = RAlt REps r"

primrec rtimes :: "nat \<Rightarrow> regex \<Rightarrow> regex" where
  "rtimes 0 r = REps"
| "rtimes (Suc n) r = RSeq r (rtimes n r)"

definition rchar :: "char \<Rightarrow> regex" where
  "rchar c = RClass [(c, c)]"

definition rlit :: "string \<Rightarrow> regex" where
  "rlit s = foldr (\<lambda>c r. RSeq (rchar c) r) s REps"

definition rseqs :: "regex list \<Rightarrow> regex" where
  "rseqs rs = foldr RSeq rs REps"

definition ralts :: "regex list \<Rightarrow> regex" where
  "ralts rs = foldr RAlt rs RZero"

section \<open>The matcher decides the language\<close>

lemma nullable_iff: "nullable r \<longleftrightarrow> [] \<in> lang r"
  by (induction r) (auto intro: star_Nil)

lemma lang_rseq [simp]: "lang (rseq r s) = lang (RSeq r s)"
  by (induction r s rule: rseq.induct) auto

lemma lang_ralt [simp]: "lang (ralt r s) = lang r \<union> lang s"
  by (auto simp: ralt_def)

lemma star_lang_Cons:
  "c # s \<in> star_lang A \<longleftrightarrow> (\<exists>a b. s = a @ b \<and> c # a \<in> A \<and> b \<in> star_lang A)"
proof
  have "w \<in> star_lang A \<Longrightarrow> w = c # s \<Longrightarrow> \<exists>a b. s = a @ b \<and> c # a \<in> A \<and> b \<in> star_lang A" for w
  proof (induction arbitrary: s rule: star_lang.induct)
    case star_Nil
    then show ?case by simp
  next
    case (star_step a t)
    then show ?case by (cases a) auto
  qed
  then show "c # s \<in> star_lang A \<Longrightarrow> \<exists>a b. s = a @ b \<and> c # a \<in> A \<and> b \<in> star_lang A" by blast
next
  assume "\<exists>a b. s = a @ b \<and> c # a \<in> A \<and> b \<in> star_lang A"
  then show "c # s \<in> star_lang A" by (metis append_Cons star_step)
qed

lemma lang_deriv: "s \<in> lang (deriv c r) \<longleftrightarrow> c # s \<in> lang r"
proof (induction r arbitrary: s)
  case (RSeq r1 r2)
  have "c # s \<in> lang (RSeq r1 r2) \<longleftrightarrow>
    (\<exists>a b. s = a @ b \<and> c # a \<in> lang r1 \<and> b \<in> lang r2) \<or> ([] \<in> lang r1 \<and> c # s \<in> lang r2)"
    by (auto simp: Cons_eq_append_conv)
  with RSeq show ?case by (auto simp: nullable_iff)
next
  case (RStar r)
  then show ?case by (auto simp: star_lang_Cons)
qed auto

theorem fullmatch_lang: "fullmatch r s \<longleftrightarrow> s \<in> lang r"
  by (induction s arbitrary: r) (auto simp: nullable_iff lang_deriv)

section \<open>Languages of the operators\<close>

lemma lang_rchar [simp]: "lang (rchar c) = {[c]}"
  by (auto simp: rchar_def in_class_def)

lemma lang_rlit [simp]: "lang (rlit w) = {w}"
proof (induction w)
  case Nil
  show ?case by (simp add: rlit_def)
next
  case (Cons c w)
  have "lang (rlit (c # w)) = {a @ b | a b. a \<in> lang (rchar c) \<and> b \<in> lang (rlit w)}"
    by (simp add: rlit_def del: lang_rchar)
  with Cons show ?case by simp
qed

lemma lang_ropt [simp]: "lang (ropt r) = insert [] (lang r)"
  by (simp add: ropt_def)

lemma lang_rseqs [simp]:
  "lang (rseqs []) = {[]}"
  "lang (rseqs (r # rs)) = {a @ b | a b. a \<in> lang r \<and> b \<in> lang (rseqs rs)}"
  by (simp_all add: rseqs_def)

lemma lang_ralts [simp]: "lang (ralts rs) = (\<Union>r \<in> set rs. lang r)"
  by (induction rs) (auto simp: ralts_def)

lemma lang_seq: "s \<in> lang (RSeq r t) \<longleftrightarrow> (\<exists>a b. s = a @ b \<and> a \<in> lang r \<and> b \<in> lang t)"
  by auto

lemma lang_rseqs_iff:
  "s \<in> lang (rseqs []) \<longleftrightarrow> s = []"
  "s \<in> lang (rseqs (r # rs)) \<longleftrightarrow> (\<exists>a b. s = a @ b \<and> a \<in> lang r \<and> b \<in> lang (rseqs rs))"
  by auto

lemma lang_rseqs_concat:
  "list_all2 (\<lambda>w r. w \<in> lang r) ws rs \<Longrightarrow> concat ws \<in> lang (rseqs rs)"
  by (induction rule: list_all2_induct) (auto simp del: lang.simps)

lemma lang_seqE:
  assumes "s \<in> lang (RSeq r t)"
  obtains a b where "s = a @ b" and "a \<in> lang r" and "b \<in> lang t"
  using assms unfolding lang_seq by blast

lemma lang_seq_class:
  "s \<in> lang (RSeq (RClass rs) r) \<longleftrightarrow> (\<exists>c t. s = c # t \<and> in_class rs c \<and> t \<in> lang r)"
  by auto (metis append_Cons append_Nil)

lemma lang_seq_not:
  "s \<in> lang (RSeq (RNot cs) r) \<longleftrightarrow> (\<exists>c t. s = c # t \<and> c \<notin> set cs \<and> t \<in> lang r)"
  by auto (metis append_Cons append_Nil)

lemma lang_rtimes_class:
  "lang (rtimes n (RClass rs)) = {s. length s = n \<and> list_all (in_class rs) s}"
proof (induction n)
  case 0
  show ?case by auto
next
  case (Suc n)
  have "s \<in> lang (rtimes (Suc n) (RClass rs)) \<longleftrightarrow> length s = Suc n \<and> list_all (in_class rs) s" for s
    by (cases s) (simp_all only: rtimes.simps lang_seq_class Suc, auto)
  then show ?case by blast
qed

lemma star_lang_class: "star_lang {[c] | c. P c} = {s. list_all P s}"
proof
  show "star_lang {[c] | c. P c} \<subseteq> {s. list_all P s}"
  proof
    fix s assume "s \<in> star_lang {[c] | c. P c}"
    then show "s \<in> {s. list_all P s}" by (induction rule: star_lang.induct) auto
  qed
  show "{s. list_all P s} \<subseteq> star_lang {[c] | c. P c}"
  proof
    fix s assume "s \<in> {s. list_all P s}"
    then have "list_all P s" by simp
    then show "s \<in> star_lang {[c] | c. P c}"
    proof (induction s)
      case Nil
      show ?case by (rule star_Nil)
    next
      case (Cons a s)
      then have "[a] @ s \<in> star_lang {[c] | c. P c}" by (intro star_step) auto
      then show ?case by simp
    qed
  qed
qed

lemma lang_rstar_class [simp]: "lang (RStar (RClass rs)) = {s. list_all (in_class rs) s}"
  by (simp add: star_lang_class)

lemma lang_rstar_not [simp]: "lang (RStar (RNot cs)) = {s. list_all (\<lambda>c. c \<notin> set cs) s}"
  by (simp add: star_lang_class)

lemma lang_rplus_class [simp]:
  "lang (rplus (RClass rs)) = {s. s \<noteq> [] \<and> list_all (in_class rs) s}"
proof -
  have "s \<in> lang (rplus (RClass rs)) \<longleftrightarrow> s \<noteq> [] \<and> list_all (in_class rs) s" for s
    unfolding rplus_def lang_seq_class lang_rstar_class by (cases s) auto
  then show ?thesis by blast
qed

lemma lang_rplus_not [simp]:
  "lang (rplus (RNot cs)) = {s. s \<noteq> [] \<and> list_all (\<lambda>c. c \<notin> set cs) s}"
proof -
  have "s \<in> lang (rplus (RNot cs)) \<longleftrightarrow> s \<noteq> [] \<and> list_all (\<lambda>c. c \<notin> set cs) s" for s
    unfolding rplus_def lang_seq_not lang_rstar_not by (cases s) auto
  then show ?thesis by blast
qed

text \<open>Repetition of separator-prefixed words: \<open>(?:\.w)*\<close> is \<open>split\<close> read backwards.\<close>

lemma star_lang_sep:
  "s \<in> star_lang {sep # w | w. w \<in> A} \<longleftrightarrow> (\<exists>ws. set ws \<subseteq> A \<and> s = concat (map (\<lambda>w. sep # w) ws))"
proof
  assume "s \<in> star_lang {sep # w | w. w \<in> A}"
  then show "\<exists>ws. set ws \<subseteq> A \<and> s = concat (map (\<lambda>w. sep # w) ws)"
  proof (induction rule: star_lang.induct)
    case star_Nil
    have "set [] \<subseteq> A \<and> [] = concat (map (\<lambda>w. sep # w) [])" by simp
    then show ?case by blast
  next
    case (star_step a t)
    then obtain w ws where "w \<in> A" "a = sep # w" "set ws \<subseteq> A" "t = concat (map (\<lambda>w. sep # w) ws)"
      by blast
    then have "set (w # ws) \<subseteq> A \<and> a @ t = concat (map (\<lambda>w. sep # w) (w # ws))" by simp
    then show ?case by blast
  qed
next
  assume "\<exists>ws. set ws \<subseteq> A \<and> s = concat (map (\<lambda>w. sep # w) ws)"
  then obtain ws where ws: "set ws \<subseteq> A" and s: "s = concat (map (\<lambda>w. sep # w) ws)" by blast
  from ws have "concat (map (\<lambda>w. sep # w) ws) \<in> star_lang {sep # w | w. w \<in> A}"
  proof (induction ws)
    case Nil
    show ?case by (simp add: star_Nil)
  next
    case (Cons w ws)
    then have "(sep # w) @ concat (map (\<lambda>w. sep # w) ws) \<in> star_lang {sep # w | w. w \<in> A}"
      by (intro star_step) auto
    then show ?case by simp
  qed
  with s show "s \<in> star_lang {sep # w | w. w \<in> A}" by simp
qed

lemma py_join_concat: "py_join [sep] (w # ws) = w @ concat (map (\<lambda>w. sep # w) ws)"
  by (induction ws arbitrary: w) auto

lemma lang_sep_words:
  assumes "\<And>w. w \<in> lang r \<Longrightarrow> sep \<notin> set w"
  shows "s \<in> lang (RSeq r (RStar (RSeq (rchar sep) r))) \<longleftrightarrow> (\<forall>w \<in> set (py_split sep s). w \<in> lang r)"
proof -
  have l: "lang (RSeq (rchar sep) r) = {sep # w | w. w \<in> lang r}" by auto
  have "s \<in> lang (RSeq r (RStar (RSeq (rchar sep) r))) \<longleftrightarrow>
      (\<exists>w ws. w \<in> lang r \<and> set ws \<subseteq> lang r \<and> s = py_join [sep] (w # ws))"
  proof -
    have "s \<in> lang (RSeq r (RStar (RSeq (rchar sep) r))) \<longleftrightarrow>
        (\<exists>w t. s = w @ t \<and> w \<in> lang r \<and> t \<in> star_lang {sep # w | w. w \<in> lang r})"
      unfolding lang.simps(5) [of r] lang.simps(7) l by blast
    then show ?thesis unfolding star_lang_sep py_join_concat by blast
  qed
  also have "\<dots> \<longleftrightarrow> (\<forall>w \<in> set (py_split sep s). w \<in> lang r)"
  proof
    assume "\<exists>w ws. w \<in> lang r \<and> set ws \<subseteq> lang r \<and> s = py_join [sep] (w # ws)"
    then obtain w ws where "w \<in> lang r" "set ws \<subseteq> lang r" "s = py_join [sep] (w # ws)" by blast
    moreover from this have "py_split sep s = w # ws" using assms by (metis list.distinct(1) py_split_join set_ConsD subsetD)
    ultimately show "\<forall>w \<in> set (py_split sep s). w \<in> lang r" by auto
  next
    assume h: "\<forall>w \<in> set (py_split sep s). w \<in> lang r"
    obtain w ws where w: "py_split sep s = w # ws"
      using py_split_ne [of sep s] by (cases "py_split sep s") auto
    then have "s = py_join [sep] (w # ws)" using py_join_split [of sep s] by simp
    with h w show "\<exists>w ws. w \<in> lang r \<and> set ws \<subseteq> lang r \<and> s = py_join [sep] (w # ws)" by auto
  qed
  finally show ?thesis .
qed

end
