(* ===== verification/Json.thy ===== *)
theory Json
  imports Regex
begin

text \<open>
  JSON documents as the program holds them (\<open>dict[str, Any]\<close>), the exceptions its functions
  raise, and the two functions of \<open>scripts/registry.py\<close> between text and value:
  \<open>decode_json\<close> with its duplicate-key hook, and \<open>canonical_json\<close>.
  A document read from disk or from Git is given by its syntax tree (\<open>ptree\<close>, objects still
  as the list of pairs in the text), or \<open>None\<close> when the text is not JSON; the hook is then
  applied to every object, innermost first, as \<open>json.loads\<close> does.
  A float is represented by Python's \<open>repr\<close> of it.
\<close>

section \<open>Exceptions\<close>

datatype exc_class =
    RegistryValidationError
  | ArtifactVerificationError
  | ArtifactStoreError
  | ArtifactConflict
  | InvalidArtifact
  | ArtifactNotFound
  | BuilderError
  | PromotionBlocked
  | CandidateApprovalError
  | RegistryConflict
  | ImmutableRecordError
  | ValueError
  | KeyError
  | TypeError
  | AttributeError
  | IndexError
  | FileNotFoundError
  | FileExistsError
  | OSError
  | RuntimeError
  | AssertionError
  | ConnectionError
  | HTTPException
  | IntegrityError
  | ExpiredSignatureError
  | InvalidTokenError
  | MfaEncryptionError
  | SQLAlchemyError
  | LookupError
  | NotFound
  | V1RepresentabilityError
  | SubprocessError
  | BadZipFile
  | InvalidSpecifier
  | InvalidVersion
  | WebAuthnException
  | HTTPStatusError

text \<open>
  What was wrong: one constructor per \<open>raise\<close> statement of the registry tooling (the prefix
  naming the place in the document is presentation and left out), \<open>Msg\<close> for the texts a
  caller inspects, and \<open>Http\<close> for the status and error code of an \<open>HTTPException\<close> of the web
  application.
\<close>

datatype reason =
    Http nat string
  | Duplicate_key string
  | Invalid_JSON
  | Root_not_object
  | Missing_envelope
  | Duplicate_module string
  | File_name_mismatch
  | Unknown_fields "string list"
  | Missing_fields "string list"
  | Unsupported_schema_version
  | Not_module_id
  | Not_semver
  | Not_range
  | Range_operator
  | Not_trimmed
  | Not_https
  | Unknown_classification
  | Unknown_channel
  | Foreign_source
  | No_versions
  | Duplicate_version string
  | Not_an_object
  | Stable_prerelease
  | Bad_sha256
  | Bad_bundle_format
  | Bad_commit
  | Self_dependency
  | Not_ocp
  | Tag_not_bound
  | Hosting_policy
  | Foreign_artifact
  | Schema_failed
  | Module_removed
  | Release_removed
  | Release_changed
  | Provenance_changed string
  | Unsafe_output
  | Git_failed
  | No_key string
  | Msg string

datatype exn = Raise exc_class reason

primrec exn_class :: "exn \<Rightarrow> exc_class" where
  "exn_class (Raise c r) = c"

definition is_OSError :: "exn \<Rightarrow> bool" where
  "is_OSError e = (exn_class e \<in> {OSError, FileNotFoundError, FileExistsError})"

definition is_ArtifactStoreError :: "exn \<Rightarrow> bool" where
  "is_ArtifactStoreError e =
     (exn_class e \<in> {ArtifactStoreError, ArtifactConflict, InvalidArtifact, ArtifactNotFound})"

definition is_ValueError :: "exn \<Rightarrow> bool" where
  "is_ValueError e =
     (exn_class e \<in> {ValueError, RegistryValidationError, PromotionBlocked,
                     CandidateApprovalError, RegistryConflict, ImmutableRecordError,
                     V1RepresentabilityError, InvalidSpecifier, InvalidVersion})"

abbreviation invalid :: "reason \<Rightarrow> exn" where
  "invalid r \<equiv> Raise RegistryValidationError r"

section \<open>Values\<close>

datatype json =
    JNull
  | JBool bool
  | JInt int
  | JFloat string
  | JStr string
  | JList "json list"
  | JObj "(string \<times> json) list"

fun is_obj :: "json \<Rightarrow> bool" where
  "is_obj (JObj d) = True"
| "is_obj _ = False"

fun is_str :: "json \<Rightarrow> bool" where
  "is_str (JStr s) = True"
| "is_str _ = False"

fun is_bool :: "json \<Rightarrow> bool" where
  "is_bool (JBool b) = True"
| "is_bool _ = False"

fun obj_items :: "json \<Rightarrow> (string \<times> json) list" where
  "obj_items (JObj d) = d"
| "obj_items _ = []"

text \<open>\<open>value[key]\<close> and \<open>value.get(key)\<close>.\<close>

fun getitem :: "json \<Rightarrow> string \<Rightarrow> exn + json" where
  "getitem (JObj d) k = of_option (Raise KeyError (No_key k)) (dict_get d k)"
| "getitem _ k = Inl (Raise TypeError (No_key k))"

fun get_field :: "json \<Rightarrow> string \<Rightarrow> json option" where
  "get_field (JObj d) k = dict_get d k"
| "get_field _ k = None"

fun set_field :: "string \<Rightarrow> json \<Rightarrow> json \<Rightarrow> json" where
  "set_field k v (JObj d) = JObj (dict_set k v d)"
| "set_field k v j = j"

lemma getitem_Inr_iff [simp]: "getitem j k = Inr v \<longleftrightarrow> get_field j k = Some v"
  by (cases j) auto

lemma get_field_set [simp]:
  "is_obj j \<Longrightarrow> get_field (set_field k v j) k' = (if k' = k then Some v else get_field j k')"
  by (cases j) auto

lemma is_obj_set_field [simp]: "is_obj (set_field k v j) = is_obj j"
  by (cases j) auto

lemma get_field_Some_obj: "get_field j k = Some v \<Longrightarrow> is_obj j"
  by (cases j) auto

text \<open>The numeric value of a float given by its \<open>repr\<close>, for comparison with integers.\<close>

definition split_exp :: "string \<Rightarrow> string \<times> string" where
  "split_exp s = (case py_partition CHR ''e'' s of (m, found, e) \<Rightarrow> (m, e))"

definition signed_val :: "string \<Rightarrow> int" where
  "signed_val s = (case s of
       [] \<Rightarrow> 0
     | c # cs \<Rightarrow> if c = CHR ''-'' then - int (py_nat cs)
                 else if c = CHR ''+'' then int (py_nat cs) else int (py_nat s))"

definition float_val :: "string \<Rightarrow> rat" where
  "float_val r =
     (case split_exp r of (m, e) \<Rightarrow>
      case py_partition CHR ''.'' m of (ip, _, fp) \<Rightarrow>
        rat_of_int (signed_val (ip @ fp)) * (if signed_val e - int (length fp) \<ge> 0
           then 10 ^ nat (signed_val e - int (length fp))
           else 1 / 10 ^ nat (int (length fp) - signed_val e)))"

definition is_special :: "string \<Rightarrow> bool" where
  "is_special r = (r \<in> {''nan'', ''inf'', ''-inf''})"

fun num_val :: "json \<Rightarrow> rat option" where
  "num_val (JBool b) = Some (if b then 1 else 0)"
| "num_val (JInt i) = Some (rat_of_int i)"
| "num_val (JFloat r) = (if is_special r then None else Some (float_val r))"
| "num_val _ = None"

text \<open>\<open>isinstance(v, int)\<close> and the integer: a \<open>bool\<close> is one.\<close>

fun int_of :: "json \<Rightarrow> int option" where
  "int_of (JInt i) = Some i"
| "int_of (JBool b) = Some (if b then 1 else 0)"
| "int_of _ = None"

text \<open>\<open>str(value)\<close>, up to the opening bracket of a container.\<close>

fun py_str :: "json \<Rightarrow> string" where
  "py_str JNull = ''None''"
| "py_str (JBool b) = (if b then ''True'' else ''False'')"
| "py_str (JInt i) = py_str_int i"
| "py_str (JFloat r) = r"
| "py_str (JStr s) = s"
| "py_str (JList xs) = ''[''"
| "py_str (JObj d) = ''{''"

definition get_or :: "json \<Rightarrow> string \<Rightarrow> json \<Rightarrow> json" where
  "get_or v k d = (case get_field v k of None \<Rightarrow> d | Some w \<Rightarrow> w)"

text \<open>The truth value of a JSON value.\<close>

fun json_truthy :: "json \<Rightarrow> bool" where
  "json_truthy JNull = False"
| "json_truthy (JBool b) = b"
| "json_truthy (JInt i) = (i \<noteq> 0)"
| "json_truthy (JFloat r) = (is_special r \<or> float_val r \<noteq> 0)"
| "json_truthy (JStr s) = (s \<noteq> [])"
| "json_truthy (JList xs) = (xs \<noteq> [])"
| "json_truthy (JObj d) = (d \<noteq> [])"

lemma size_json_pair [termination_simp]:
  assumes "p \<in> set d"
  shows "size (snd p) < Suc (size_list (size_prod (\<lambda>_. 0) size) d)"
proof -
  have "size (snd p) \<le> size_prod (\<lambda>_. 0) size p" by (cases p) simp
  with assms have "size (snd p) \<le> size_list (size_prod (\<lambda>_. 0) size) d"
    by (rule size_list_estimation')
  then show ?thesis by simp
qed

lemma size_json_zip:
  assumes "p \<in> set (zip xs ys)"
  shows "size (fst p) < Suc (size_list size xs)"
proof -
  from assms have "fst p \<in> set xs" by (metis prod.collapse set_zip_leftD)
  then have "size (fst p) \<le> size_list size xs" by (rule size_list_estimation') simp
  then show ?thesis by simp
qed

text \<open>
  Python's \<open>==\<close>: numbers compare by value across \<open>bool\<close>, \<open>int\<close> and \<open>float\<close>, lists element by
  element, dicts regardless of the order of their keys.
\<close>

function py_eq :: "json \<Rightarrow> json \<Rightarrow> bool" where
  "py_eq x y =
     (case (x, y) of
        (JNull, JNull) \<Rightarrow> True
      | (JStr a, JStr b) \<Rightarrow> a = b
      | (JList xs, JList ys) \<Rightarrow>
          length xs = length ys \<and> (\<forall>p \<in> set (zip xs ys). py_eq (fst p) (snd p))
      | (JObj d, JObj e) \<Rightarrow>
          length d = length e \<and>
          (\<forall>p \<in> set d. case dict_get e (fst p) of None \<Rightarrow> False | Some w \<Rightarrow> py_eq (snd p) w)
      | (JFloat a, JFloat b) \<Rightarrow>
          if is_special a \<or> is_special b then a = b \<and> a \<noteq> ''nan'' else float_val a = float_val b
      | _ \<Rightarrow> (case num_val x of None \<Rightarrow> False
              | Some a \<Rightarrow> (case num_val y of None \<Rightarrow> False | Some b \<Rightarrow> a = b)))"
  by pat_completeness auto

termination
  by (relation "measure (\<lambda>(x, y). size x)") (auto dest: size_json_pair size_json_zip)

declare py_eq.simps [simp del]

lemma py_eq_simps [simp]:
  "py_eq JNull JNull"
  "py_eq (JStr a) (JStr b) \<longleftrightarrow> a = b"
  "py_eq (JList xs) (JList ys) \<longleftrightarrow>
     length xs = length ys \<and> (\<forall>p \<in> set (zip xs ys). py_eq (fst p) (snd p))"
  "py_eq (JObj d) (JObj e) \<longleftrightarrow>
     length d = length e \<and>
     (\<forall>p \<in> set d. case dict_get e (fst p) of None \<Rightarrow> False | Some w \<Rightarrow> py_eq (snd p) w)"
  "py_eq (JInt i) (JInt k) \<longleftrightarrow> i = k"
  "py_eq (JBool p) (JBool q) \<longleftrightarrow> p = q"
  by (simp_all add: py_eq.simps [of "JStr a"] py_eq.simps [of JNull] py_eq.simps [of "JList xs"]
      py_eq.simps [of "JObj d"] py_eq.simps [of "JInt i"] py_eq.simps [of "JBool p"])

lemma py_eq_JStr: "py_eq (JStr a) y \<longleftrightarrow> y = JStr a"
  by (cases y) (simp_all add: py_eq.simps [of "JStr a"], auto simp: py_eq.simps [of "JStr a"])

lemma py_eq_JStr2: "py_eq x (JStr b) \<longleftrightarrow> x = JStr b"
  by (cases x) (simp_all add: py_eq.simps [of _ "JStr b"])

lemma py_eq_obj_field:
  assumes "py_eq x y" and "get_field x k = Some v"
  shows "\<exists>w. get_field y k = Some w \<and> py_eq v w"
proof (cases x)
  case (JObj d)
  with assms(1) obtain e where y: "y = JObj e"
    by (cases y) (simp_all add: py_eq.simps [of "JObj d"])
  from assms(2) JObj have "(k, v) \<in> set d" by (auto dest: map_of_SomeD)
  with assms(1) JObj y have "case dict_get e (fst (k, v)) of None \<Rightarrow> False | Some w \<Rightarrow> py_eq (snd (k, v)) w"
    unfolding JObj y py_eq_simps by (metis (no_types, lifting))
  with y show ?thesis by (auto split: option.splits)
qed (use assms in auto)

lemma py_eq_str_field:
  "py_eq x y \<Longrightarrow> get_field x k = Some (JStr s) \<Longrightarrow> get_field y k = Some (JStr s)"
  using py_eq_obj_field [of x y k "JStr s"] by (auto simp: py_eq_JStr)

section \<open>Reading documents\<close>

datatype ptree =
    PNull
  | PBool bool
  | PInt int
  | PFloat string
  | PStr string
  | PList "ptree list"
  | PObj "(string \<times> ptree) list"

definition object_without_duplicate_keys :: "(string \<times> json) list \<Rightarrow> exn + json" where
  "object_without_duplicate_keys pairs =
     rbind (rfold (\<lambda>p result.
         if fst p \<in> set (dict_keys result) then Inl (invalid (Duplicate_key (fst p)))
         else Inr (dict_set (fst p) (snd p) result)) pairs [])
       (\<lambda>result. Inr (JObj result))"

lemma rmap_cong [fundef_cong]:
  "xs = ys \<Longrightarrow> (\<And>x. x \<in> set ys \<Longrightarrow> f x = g x) \<Longrightarrow> rmap f xs = rmap g ys"
  by (induction xs arbitrary: ys) auto

text \<open>\<open>json.loads(text, object_pairs_hook=...)\<close> on the syntax tree of the text.\<close>

lemma size_ptree_pair [termination_simp]:
  assumes "(k, v) \<in> set d"
  shows "size v < Suc (size_list (size_prod (\<lambda>_. 0) size) d)"
proof -
  have "size v \<le> size_prod (\<lambda>_. 0) size (k, v)" by simp
  with assms have "size v \<le> size_list (size_prod (\<lambda>_. 0) size) d" by (rule size_list_estimation')
  then show ?thesis by simp
qed

fun json_loads :: "ptree \<Rightarrow> exn + json" where
  "json_loads PNull = Inr JNull"
| "json_loads (PBool b) = Inr (JBool b)"
| "json_loads (PInt i) = Inr (JInt i)"
| "json_loads (PFloat r) = Inr (JFloat r)"
| "json_loads (PStr s) = Inr (JStr s)"
| "json_loads (PList xs) = rbind (rmap json_loads xs) (\<lambda>ys. Inr (JList ys))"
| "json_loads (PObj ps) =
     rbind (rmap (\<lambda>(k, v). rbind (json_loads v) (\<lambda>w. Inr (k, w))) ps) object_without_duplicate_keys"

definition decode_json :: "ptree option \<Rightarrow> exn + json" where
  "decode_json text =
     rbind (case text of
         None \<Rightarrow> Inl (invalid Invalid_JSON)
       | Some t \<Rightarrow> rcatch (json_loads t) (\<lambda>_. Inl (invalid Invalid_JSON)))
       (\<lambda>v. if is_obj v then Inr v else Inl (invalid Root_not_object))"

section \<open>Writing documents\<close>

definition hex_digit :: "nat \<Rightarrow> char" where
  "hex_digit n = char_of (if n < 10 then n + 48 else n + 87)"

definition json_escape :: "char \<Rightarrow> string" where
  "json_escape c =
     (if c = CHR 0x22 then [CHR 0x5C, CHR 0x22]
      else if c = CHR 0x5C then [CHR 0x5C, CHR 0x5C]
      else if c = CHR 0x0A then [CHR 0x5C, CHR ''n'']
      else if c = CHR 0x0D then [CHR 0x5C, CHR ''r'']
      else if c = CHR 0x09 then [CHR 0x5C, CHR ''t'']
      else if c = CHR 0x0C then [CHR 0x5C, CHR ''f'']
      else if c = CHR 0x08 then [CHR 0x5C, CHR ''b'']
      else if byte c < 32 then [CHR 0x5C, CHR ''u'', CHR ''0'', CHR ''0'',
             hex_digit (byte c div 16), hex_digit (byte c mod 16)]
      else [c])"

definition json_string :: "string \<Rightarrow> string" where
  "json_string s = [CHR 0x22] @ concat (map json_escape s) @ [CHR 0x22]"

definition newline_indent :: "nat \<Rightarrow> string" where
  "newline_indent n = CHR 0x0A # replicate (2 * n) CHR '' ''"

definition json_float :: "string \<Rightarrow> string" where
  "json_float r = (if r = ''nan'' then ''NaN'' else if r = ''inf'' then ''Infinity''
     else if r = ''-inf'' then ''-Infinity'' else r)"

text \<open>
  \<open>json.dumps(value, ensure_ascii=False, indent=2, sort_keys=True)\<close> at nesting depth \<open>n\<close>.
\<close>

fun json_dumps :: "nat \<Rightarrow> json \<Rightarrow> string" where
  "json_dumps n JNull = ''null''"
| "json_dumps n (JBool b) = (if b then ''true'' else ''false'')"
| "json_dumps n (JInt i) = py_str_int i"
| "json_dumps n (JFloat r) = json_float r"
| "json_dumps n (JStr s) = json_string s"
| "json_dumps n (JList xs) =
     (if xs = [] then ''[]''
      else ''['' @ newline_indent (Suc n)
           @ py_join ('','' @ newline_indent (Suc n)) (map (json_dumps (Suc n)) xs)
           @ newline_indent n @ '']'')"
| "json_dumps n (JObj d) =
     (if d = [] then ''{}''
      else ''{'' @ newline_indent (Suc n)
           @ py_join ('','' @ newline_indent (Suc n))
               (map (\<lambda>(k, t). json_string k @ '': '' @ t)
                 (py_sorted fst (map (\<lambda>(k, v). (k, json_dumps (Suc n) v)) d)))
           @ newline_indent n @ ''}'')"

definition canonical_json :: "json \<Rightarrow> string" where
  "canonical_json v = json_dumps 0 v @ [CHR 0x0A]"

section \<open>Well-formed values\<close>

text \<open>Every dict has distinct keys: what \<open>decode_json\<close> returns, and what the program builds.\<close>

fun json_wf :: "json \<Rightarrow> bool" where
  "json_wf (JList xs) = (\<forall>x \<in> set xs. json_wf x)"
| "json_wf (JObj d) = (distinct (dict_keys d) \<and> (\<forall>p \<in> set d. json_wf (snd p)))"
| "json_wf _ = True"

text \<open>Two values that differ only in the order of the keys of their dicts.\<close>

inductive key_perm :: "json \<Rightarrow> json \<Rightarrow> bool" where
  kp_refl: "key_perm x x"
| kp_list: "list_all2 key_perm xs ys \<Longrightarrow> key_perm (JList xs) (JList ys)"
| kp_obj: "list_all2 (\<lambda>p q. fst p = fst q \<and> key_perm (snd p) (snd q)) d e' \<Longrightarrow> mset e' = mset e \<Longrightarrow>
     distinct (dict_keys d) \<Longrightarrow> key_perm (JObj d) (JObj e)"

lemma object_hook_ok:
  "object_without_duplicate_keys ps = Inr j \<longleftrightarrow> distinct (map fst ps) \<and> j = JObj ps"
proof -
  have "rfold (\<lambda>p result.
      if fst p \<in> set (dict_keys result) then Inl (invalid (Duplicate_key (fst p)))
      else Inr (dict_set (fst p) (snd p) result)) ps acc = Inr r
    \<longleftrightarrow> distinct (map fst ps) \<and> set (map fst ps) \<inter> set (map fst acc) = {} \<and> r = acc @ ps"
    if "distinct (map fst acc)" for acc r
    using that
  proof (induction ps arbitrary: acc)
    case Nil
    then show ?case by auto
  next
    case (Cons p ps)
    show ?case
    proof (cases "fst p \<in> set (map fst acc)")
      case True
      then show ?thesis by auto
    next
      case False
      have upd: "AList.update (fst p) (snd p) acc = acc @ [p]"
        using False by (induction acc) auto
      show ?thesis using False Cons.IH [of "acc @ [p]"] Cons.prems
        by (auto simp: upd)
    qed
  qed
  from this [of "[]"] show ?thesis by (auto simp: object_without_duplicate_keys_def)
qed

lemma json_loads_wf: "json_loads t = Inr j \<Longrightarrow> json_wf j"
proof (induction t arbitrary: j rule: json_loads.induct)
  case (6 xs)
  then show ?case by simp (metis json_wf.simps(1) rmap_Inr_set)
next
  case (7 ps)
  from "7.prems" obtain ws where
    ws: "rmap (\<lambda>(k, v). rbind (json_loads v) (\<lambda>w. Inr (k, w))) ps = Inr ws"
    and j: "distinct (map fst ws)" "j = JObj ws" by (auto simp: object_hook_ok)
  have "json_wf (snd q)" if "q \<in> set ws" for q
    using rmap_Inr_set [OF ws that] "7.IH" by force
  with j show ?case by simp
qed auto

lemma decode_json_ok:
  assumes "decode_json t = Inr j"
  shows "is_obj j" and "json_wf j"
  using assms by (auto simp: decode_json_def rcatch_def split: option.splits sum.splits if_splits
      dest: json_loads_wf)

lemma py_sorted_fst_perm:
  fixes xs :: "(string \<times> 'b) list"
  assumes "mset xs = mset ys" and "distinct (map fst xs)"
  shows "py_sorted fst xs = py_sorted fst ys"
proof (rule map_sorted_distinct_set_unique [where f = fst])
  have d: "distinct (map fst ys)" using assms by (metis mset_eq_imp_distinct_iff mset_map)
  have "set ys = set xs" using assms(1) by (metis set_mset_mset)
  with assms(2) show "inj_on fst (set (py_sorted fst xs) \<union> set (py_sorted fst ys))"
    by (simp add: distinct_map)
  show "set (py_sorted fst xs) = set (py_sorted fst ys)" using \<open>set ys = set xs\<close> by simp
  show "distinct (map fst (py_sorted fst xs))"
    using assms(2) by (metis mset_eq_imp_distinct_iff mset_map mset_sort)
  show "distinct (map fst (py_sorted fst ys))"
    using d by (metis mset_eq_imp_distinct_iff mset_map mset_sort)
qed simp_all

lemma json_dumps_key_perm: "key_perm x y \<Longrightarrow> json_dumps n x = json_dumps n y"
proof (induction arbitrary: n rule: key_perm.induct)
  case (kp_refl x)
  show ?case by simp
next
  case (kp_list xs ys)
  then have "map (json_dumps (Suc n)) xs = map (json_dumps (Suc n)) ys"
    by (auto simp: list_all2_conv_all_nth intro: nth_equalityI)
  moreover from kp_list have "xs = [] \<longleftrightarrow> ys = []" by (auto simp: list_all2_Nil)
  ultimately show ?case by simp
next
  case (kp_obj d e' e)
  let ?r = "\<lambda>(k, v). (k, json_dumps (Suc n) v)"
  from kp_obj(1) have m: "map ?r d = map ?r e'"
    by (auto simp: list_all2_conv_all_nth case_prod_beta intro!: nth_equalityI)
  from kp_obj(2) have "mset (map ?r d) = mset (map ?r e)" unfolding m by (metis mset_map)
  moreover have "distinct (map fst (map ?r d))"
    using kp_obj(3) by (simp add: comp_def case_prod_beta)
  ultimately have "py_sorted fst (map ?r d) = py_sorted fst (map ?r e)" by (rule py_sorted_fst_perm)
  moreover have "d = [] \<longleftrightarrow> e = []" using kp_obj(1,2) by (cases d) (auto simp: list_all2_Cons1)
  ultimately show ?case by simp
qed

text \<open>The rendering is deterministic: it does not depend on the order the keys were written in.\<close>

theorem canonical_json_key_perm: "key_perm x y \<Longrightarrow> canonical_json x = canonical_json y"
  by (simp add: canonical_json_def json_dumps_key_perm)

end
