(* ===== verification/Semver.thy ===== *)
theory Semver
  imports Json
begin

text \<open>
  Versions: the pattern \<open>SEMVER_RE\<close> of \<open>scripts/registry.py\<close>, its groups, and \<open>semver_key\<close>,
  the sort key by which the registry orders releases. The key's tuples become a type of their
  own with a linear order: \<open>(0, int)\<close> and \<open>(1, str)\<close> are \<open>Num_key\<close> and \<open>Text_key\<close>, and the
  last component is \<open>Pre_key\<close> for \<open>(0, identifiers)\<close> or \<open>Rel_key\<close> for \<open>(1,)\<close>.
\<close>

section \<open>The pattern\<close>

definition re_digit :: regex where
  "re_digit = RClass [(CHR ''0'', CHR ''9'')]"

definition re_alnum_dash :: regex where
  "re_alnum_dash = RClass [(CHR ''0'', CHR ''9''), (CHR ''A'', CHR ''Z''), (CHR ''a'', CHR ''z''), (CHR ''-'', CHR ''-'')]"

definition re_alpha_dash :: regex where
  "re_alpha_dash = RClass [(CHR ''A'', CHR ''Z''), (CHR ''a'', CHR ''z''), (CHR ''-'', CHR ''-'')]"

definition re_num :: regex where
  "re_num = RAlt (rlit ''0'') (RSeq (RClass [(CHR ''1'', CHR ''9'')]) (RStar re_digit))"

definition re_pre_id :: regex where
  "re_pre_id = RAlt re_num (RSeq (RStar re_digit) (RSeq re_alpha_dash (RStar re_alnum_dash)))"

definition re_dotted :: "regex \<Rightarrow> regex" where
  "re_dotted r = RSeq r (RStar (RSeq (rchar CHR ''.'') r))"

definition SEMVER_RE :: regex where
  "SEMVER_RE = rseqs [re_num, rchar CHR ''.'', re_num, rchar CHR ''.'', re_num,
     ropt (RSeq (rchar CHR ''-'') (re_dotted re_pre_id)),
     ropt (RSeq (rchar CHR ''+'') (re_dotted (rplus re_alnum_dash)))]"

record semver_groups =
  g_major :: string
  g_minor :: string
  g_patch :: string
  g_pre :: "string option"
  g_build :: "string option"

text \<open>
  \<open>SEMVER_RE.fullmatch(s)\<close> with its groups. No group before the build part can contain a plus
  sign, and the core cannot contain a hyphen, so the groups are what lies between the first
  separators.
\<close>

definition semver_split :: "string \<Rightarrow> semver_groups option" where
  "semver_split s =
     (case py_partition CHR ''+'' s of (rest, has_build, bld) \<Rightarrow>
      case py_partition CHR ''-'' rest of (core, has_pre, pre) \<Rightarrow>
      case py_split CHR ''.'' core of
        [a, b, c] \<Rightarrow> Some \<lparr>g_major = a, g_minor = b, g_patch = c,
            g_pre = (if has_pre then Some pre else None),
            g_build = (if has_build then Some bld else None)\<rparr>
      | _ \<Rightarrow> None)"

definition semver_fullmatch :: "string \<Rightarrow> semver_groups option" where
  "semver_fullmatch s = (if fullmatch SEMVER_RE s then semver_split s else None)"

text \<open>\<open>str.isdigit\<close> on the texts the pattern lets through.\<close>

definition all_digits :: "string \<Rightarrow> bool" where
  "all_digits s = (s \<noteq> [] \<and> list_all is_digit s)"

section \<open>Sort keys\<close>

datatype ident_key = Num_key nat | Text_key string

datatype pre_key = Pre_key "ident_key list" | Rel_key

instantiation ident_key :: linorder
begin

fun less_eq_ident_key :: "ident_key \<Rightarrow> ident_key \<Rightarrow> bool" where
  "Num_key a \<le> Num_key b \<longleftrightarrow> a \<le> b"
| "Num_key a \<le> Text_key b \<longleftrightarrow> True"
| "Text_key a \<le> Num_key b \<longleftrightarrow> False"
| "Text_key a \<le> Text_key b \<longleftrightarrow> a \<le> b"

definition less_ident_key :: "ident_key \<Rightarrow> ident_key \<Rightarrow> bool" where
  "less_ident_key a b \<longleftrightarrow> a \<le> b \<and> \<not> b \<le> a"

instance
proof
  fix x y z :: ident_key
  show "x < y \<longleftrightarrow> x \<le> y \<and> \<not> y \<le> x" by (rule less_ident_key_def)
  show "x \<le> x" by (cases x) auto
  show "x \<le> y \<Longrightarrow> y \<le> z \<Longrightarrow> x \<le> z" by (cases x; cases y; cases z) auto
  show "x \<le> y \<Longrightarrow> y \<le> x \<Longrightarrow> x = y" by (cases x; cases y) auto
  show "x \<le> y \<or> y \<le> x" by (cases x; cases y) auto
qed

end

instantiation pre_key :: linorder
begin

fun less_eq_pre_key :: "pre_key \<Rightarrow> pre_key \<Rightarrow> bool" where
  "Pre_key a \<le> Pre_key b \<longleftrightarrow> a \<le> b"
| "Pre_key a \<le> Rel_key \<longleftrightarrow> True"
| "Rel_key \<le> Pre_key b \<longleftrightarrow> False"
| "Rel_key \<le> Rel_key \<longleftrightarrow> True"

definition less_pre_key :: "pre_key \<Rightarrow> pre_key \<Rightarrow> bool" where
  "less_pre_key a b \<longleftrightarrow> a \<le> b \<and> \<not> b \<le> a"

instance
proof
  fix x y z :: pre_key
  show "x < y \<longleftrightarrow> x \<le> y \<and> \<not> y \<le> x" by (rule less_pre_key_def)
  show "x \<le> x" by (cases x) auto
  show "x \<le> y \<Longrightarrow> y \<le> z \<Longrightarrow> x \<le> z" by (cases x; cases y; cases z) auto
  show "x \<le> y \<Longrightarrow> y \<le> x \<Longrightarrow> x = y" by (cases x; cases y) auto
  show "x \<le> y \<or> y \<le> x" by (cases x; cases y) auto
qed

end

lemma less_ident_key_simps [simp]:
  "Num_key a < Num_key b \<longleftrightarrow> a < b"
  "Num_key a < Text_key s"
  "\<not> Text_key s < Num_key a"
  "Text_key s < Text_key t \<longleftrightarrow> s < t"
  by (auto simp: less_ident_key_def)

lemma less_pre_key_simps [simp]:
  "Pre_key a < Pre_key b \<longleftrightarrow> a < b"
  "Pre_key a < Rel_key"
  "\<not> Rel_key < Pre_key a"
  by (auto simp: less_pre_key_def)

type_synonym version_key = "nat \<times> nat \<times> nat \<times> pre_key"

definition ident_key_of :: "string \<Rightarrow> ident_key" where
  "ident_key_of part = (if all_digits part then Num_key (py_nat part) else Text_key part)"

definition pre_key_of :: "string option \<Rightarrow> pre_key" where
  "pre_key_of pre = (case pre of
       None \<Rightarrow> Rel_key
     | Some p \<Rightarrow> Pre_key (map ident_key_of (py_split CHR ''.'' p)))"

definition semver_key :: "string \<Rightarrow> exn + version_key" where
  "semver_key version =
     (case semver_fullmatch version of
        None \<Rightarrow> Inl (invalid Not_semver)
      | Some m \<Rightarrow> Inr (py_nat (g_major m), py_nat (g_minor m), py_nat (g_patch m), pre_key_of (g_pre m)))"

section \<open>What the pattern accepts\<close>

definition is_num_id :: "string \<Rightarrow> bool" where
  "is_num_id w \<longleftrightarrow> w = ''0'' \<or> (w \<noteq> [] \<and> list_all is_digit w \<and> hd w \<noteq> CHR ''0'')"

definition is_word_char :: "char \<Rightarrow> bool" where
  "is_word_char c \<longleftrightarrow> is_digit c \<or> is_upper c \<or> is_lower c \<or> c = CHR ''-''"

definition is_pre_id :: "string \<Rightarrow> bool" where
  "is_pre_id w \<longleftrightarrow> w \<noteq> [] \<and> list_all is_word_char w \<and> (list_all is_digit w \<longrightarrow> is_num_id w)"

definition is_build_id :: "string \<Rightarrow> bool" where
  "is_build_id w \<longleftrightarrow> w \<noteq> [] \<and> list_all is_word_char w"

definition groups_ok :: "semver_groups \<Rightarrow> bool" where
  "groups_ok g \<longleftrightarrow> is_num_id (g_major g) \<and> is_num_id (g_minor g) \<and> is_num_id (g_patch g) \<and>
     (\<forall>p. g_pre g = Some p \<longrightarrow> list_all is_pre_id (py_split CHR ''.'' p)) \<and>
     (\<forall>b. g_build g = Some b \<longrightarrow> list_all is_build_id (py_split CHR ''.'' b))"

definition semver_print :: "semver_groups \<Rightarrow> string" where
  "semver_print g = g_major g @ ''.'' @ g_minor g @ ''.'' @ g_patch g
     @ (case g_pre g of None \<Rightarrow> [] | Some p \<Rightarrow> ''-'' @ p)
     @ (case g_build g of None \<Rightarrow> [] | Some b \<Rightarrow> ''+'' @ b)"

lemma in_class_digit [simp]: "in_class [(CHR ''0'', CHR ''9'')] = is_digit"
  by (auto simp: in_class_def is_digit_def fun_eq_iff)

lemma in_class_alnum_dash [simp]:
  "in_class [(CHR ''0'', CHR ''9''), (CHR ''A'', CHR ''Z''), (CHR ''a'', CHR ''z''), (CHR ''-'', CHR ''-'')]
     = is_word_char"
  by (auto simp: in_class_def is_digit_def is_upper_def is_lower_def is_word_char_def fun_eq_iff)

lemma in_class_nonzero: "in_class [(CHR ''1'', CHR ''9'')] c \<longleftrightarrow> is_digit c \<and> c \<noteq> CHR ''0''"
  by (auto simp: in_class_def is_digit_def less_eq_char_def char_eq_byte [of c])

lemma in_class_alpha_dash:
  "in_class [(CHR ''A'', CHR ''Z''), (CHR ''a'', CHR ''z''), (CHR ''-'', CHR ''-'')] c
     \<longleftrightarrow> is_word_char c \<and> \<not> is_digit c"
  by (auto simp: in_class_def is_digit_def is_upper_def is_lower_def is_word_char_def
      less_eq_char_def char_eq_byte [of c])

lemma lang_re_num: "w \<in> lang re_num \<longleftrightarrow> is_num_id w"
  unfolding re_num_def lang.simps(6) Un_iff lang_seq_class re_digit_def lang_rstar_class
  by (cases w) (auto simp: is_num_id_def in_class_nonzero)

lemma is_num_id_word: "is_num_id w \<Longrightarrow> is_pre_id w"
  by (auto simp: is_num_id_def is_pre_id_def is_word_char_def is_digit_def list_all_iff)

lemma lang_alpha_tail:
  "w \<in> lang (RSeq (RStar re_digit) (RSeq re_alpha_dash (RStar re_alnum_dash))) \<longleftrightarrow>
     list_all is_word_char w \<and> \<not> list_all is_digit w"
proof
  assume "w \<in> lang (RSeq (RStar re_digit) (RSeq re_alpha_dash (RStar re_alnum_dash)))"
  then obtain a b where w: "w = a @ b" and "a \<in> lang (RStar re_digit)"
    and b: "b \<in> lang (RSeq re_alpha_dash (RStar re_alnum_dash))" by (rule lang_seqE)
  then have a: "list_all is_digit a" unfolding re_digit_def lang_rstar_class by simp
  from b obtain c t where "b = c # t" "is_word_char c" "\<not> is_digit c" "list_all is_word_char t"
    unfolding re_alpha_dash_def re_alnum_dash_def lang_seq_class lang_rstar_class
    by (auto simp: in_class_alpha_dash)
  with w a show "list_all is_word_char w \<and> \<not> list_all is_digit w"
    by (auto simp: is_word_char_def list_all_iff)
next
  assume h: "list_all is_word_char w \<and> \<not> list_all is_digit w"
  let ?a = "takeWhile is_digit w" and ?b = "dropWhile is_digit w"
  from h have "?b \<noteq> []" by (auto simp: list_all_iff dropWhile_eq_Nil_conv)
  then obtain c t where b: "?b = c # t" by (cases ?b) auto
  then have c: "\<not> is_digit c" using hd_dropWhile [of is_digit w] by auto
  have wt: "w = ?a @ c # t" using b by (metis takeWhile_dropWhile_id)
  then have "is_word_char c" "list_all is_word_char t"
    using h by (metis list_all_append list.pred_inject(2))+
  with c have "?b \<in> lang (RSeq re_alpha_dash (RStar re_alnum_dash))"
    unfolding b re_alpha_dash_def re_alnum_dash_def lang_seq_class lang_rstar_class
    by (simp add: in_class_alpha_dash)
  moreover have "?a \<in> lang (RStar re_digit)"
    unfolding re_digit_def lang_rstar_class by (auto simp: list_all_iff dest: set_takeWhileD)
  moreover have "w = ?a @ ?b" by simp
  ultimately show "w \<in> lang (RSeq (RStar re_digit) (RSeq re_alpha_dash (RStar re_alnum_dash)))"
    unfolding lang_seq [of _ "RStar re_digit"] by blast
qed

lemma lang_re_pre_id: "w \<in> lang re_pre_id \<longleftrightarrow> is_pre_id w"
  unfolding re_pre_id_def lang.simps(6) Un_iff lang_alpha_tail lang_re_num
  using is_num_id_word by (auto simp: is_pre_id_def)

lemma lang_re_build_id: "w \<in> lang (rplus re_alnum_dash) \<longleftrightarrow> is_build_id w"
  by (simp add: re_alnum_dash_def is_build_id_def)

lemma lang_re_dotted:
  assumes "\<And>w. w \<in> lang r \<longleftrightarrow> P w" and "\<And>w. P w \<Longrightarrow> CHR ''.'' \<notin> set w"
  shows "s \<in> lang (re_dotted r) \<longleftrightarrow> list_all P (py_split CHR ''.'' s)"
  unfolding re_dotted_def using lang_sep_words [of r "CHR ''.''" s] assms
  by (auto simp: list_all_iff)

lemma word_char_not_sep: "is_word_char c \<Longrightarrow> c \<noteq> CHR ''.'' \<and> c \<noteq> CHR ''+''"
  by (auto simp: is_word_char_def is_digit_def is_upper_def is_lower_def)

lemma word_no_sep:
  assumes "list_all is_word_char w"
  shows "CHR ''.'' \<notin> set w" and "CHR ''+'' \<notin> set w"
  using assms word_char_not_sep by (auto simp: list_all_iff)

lemma pre_id_no_dot: "is_pre_id w \<Longrightarrow> CHR ''.'' \<notin> set w"
  by (simp add: is_pre_id_def word_no_sep)

lemma pre_id_no_plus: "is_pre_id w \<Longrightarrow> CHR ''+'' \<notin> set w"
  by (simp add: is_pre_id_def word_no_sep)

lemma build_id_no_dot: "is_build_id w \<Longrightarrow> CHR ''.'' \<notin> set w"
  by (simp add: is_build_id_def word_no_sep)

lemma lang_dotted_pre: "s \<in> lang (re_dotted re_pre_id) \<longleftrightarrow> list_all is_pre_id (py_split CHR ''.'' s)"
  by (rule lang_re_dotted) (simp_all add: lang_re_pre_id pre_id_no_dot)

lemma lang_dotted_build:
  "s \<in> lang (re_dotted (rplus re_alnum_dash)) \<longleftrightarrow> list_all is_build_id (py_split CHR ''.'' s)"
  by (rule lang_re_dotted) (simp_all add: lang_re_build_id build_id_no_dot)

lemma lang_opt_pre:
  "p \<in> lang (ropt (RSeq (rchar CHR ''-'') (re_dotted re_pre_id))) \<longleftrightarrow>
     p = [] \<or> (\<exists>p'. p = CHR ''-'' # p' \<and> list_all is_pre_id (py_split CHR ''.'' p'))"
  unfolding lang_ropt insert_iff lang_seq lang_rchar lang_dotted_pre by auto

lemma lang_opt_build:
  "q \<in> lang (ropt (RSeq (rchar CHR ''+'') (re_dotted (rplus re_alnum_dash)))) \<longleftrightarrow>
     q = [] \<or> (\<exists>q'. q = CHR ''+'' # q' \<and> list_all is_build_id (py_split CHR ''.'' q'))"
  unfolding lang_ropt insert_iff lang_seq lang_rchar lang_dotted_build by auto

lemma lang_SEMVER_parts:
  "s \<in> lang SEMVER_RE \<longleftrightarrow>
     (\<exists>a b c p q. s = a @ ''.'' @ b @ ''.'' @ c @ p @ q \<and> is_num_id a \<and> is_num_id b \<and> is_num_id c \<and>
        p \<in> lang (ropt (RSeq (rchar CHR ''-'') (re_dotted re_pre_id))) \<and>
        q \<in> lang (ropt (RSeq (rchar CHR ''+'') (re_dotted (rplus re_alnum_dash)))))"
proof
  assume "s \<in> lang SEMVER_RE"
  then obtain a d b d' c p q e where
    "s = a @ (d @ (b @ (d' @ (c @ (p @ (q @ e))))))" "d = ''.''" "d' = ''.''" "e = []"
    "is_num_id a" "is_num_id b" "is_num_id c"
    "p \<in> lang (ropt (RSeq (rchar CHR ''-'') (re_dotted re_pre_id)))"
    "q \<in> lang (ropt (RSeq (rchar CHR ''+'') (re_dotted (rplus re_alnum_dash))))"
    unfolding SEMVER_RE_def lang_rseqs_iff lang_rchar lang_re_num singleton_iff by blast
  then show "\<exists>a b c p q. s = a @ ''.'' @ b @ ''.'' @ c @ p @ q \<and> is_num_id a \<and> is_num_id b \<and> is_num_id c \<and>
        p \<in> lang (ropt (RSeq (rchar CHR ''-'') (re_dotted re_pre_id))) \<and>
        q \<in> lang (ropt (RSeq (rchar CHR ''+'') (re_dotted (rplus re_alnum_dash))))"
    by (metis append_Nil2)
next
  assume "\<exists>a b c p q. s = a @ ''.'' @ b @ ''.'' @ c @ p @ q \<and> is_num_id a \<and> is_num_id b \<and> is_num_id c \<and>
        p \<in> lang (ropt (RSeq (rchar CHR ''-'') (re_dotted re_pre_id))) \<and>
        q \<in> lang (ropt (RSeq (rchar CHR ''+'') (re_dotted (rplus re_alnum_dash))))"
  then obtain a b c p q where s: "s = a @ ''.'' @ b @ ''.'' @ c @ p @ q"
    and parts: "is_num_id a" "is_num_id b" "is_num_id c"
    "p \<in> lang (ropt (RSeq (rchar CHR ''-'') (re_dotted re_pre_id)))"
    "q \<in> lang (ropt (RSeq (rchar CHR ''+'') (re_dotted (rplus re_alnum_dash))))"
    by blast
  from s have "s = concat [a, ''.'', b, ''.'', c, p, q]" by simp
  with parts show "s \<in> lang SEMVER_RE"
    unfolding SEMVER_RE_def
    by (simp only: lang_rseqs_concat list.rel_inject list.rel_intros(1) lang_re_num lang_rchar singleton_iff
        simp_thms)
qed

text \<open>The pattern accepts exactly the printed forms of well-formed groups.\<close>

lemma lang_SEMVER: "s \<in> lang SEMVER_RE \<longleftrightarrow> (\<exists>g. groups_ok g \<and> s = semver_print g)"
proof
  assume "s \<in> lang SEMVER_RE"
  then obtain a b c p q where
    abc: "is_num_id a" "is_num_id b" "is_num_id c"
    and p: "p = [] \<or> (\<exists>p'. p = CHR ''-'' # p' \<and> list_all is_pre_id (py_split CHR ''.'' p'))"
    and q: "q = [] \<or> (\<exists>q'. q = CHR ''+'' # q' \<and> list_all is_build_id (py_split CHR ''.'' q'))"
    and s: "s = a @ ''.'' @ b @ ''.'' @ c @ p @ q"
    unfolding lang_SEMVER_parts lang_opt_pre lang_opt_build by blast
  define g where "g = \<lparr>g_major = a, g_minor = b, g_patch = c,
    g_pre = (if p = [] then None else Some (tl p)), g_build = (if q = [] then None else Some (tl q))\<rparr>"
  have "groups_ok g" using abc p q by (auto simp: g_def groups_ok_def)
  moreover have "s = semver_print g" using p q s by (auto simp: g_def semver_print_def)
  ultimately show "\<exists>g. groups_ok g \<and> s = semver_print g" by blast
next
  assume "\<exists>g. groups_ok g \<and> s = semver_print g"
  then obtain g where g: "groups_ok g" and s: "s = semver_print g" by blast
  let ?p = "case g_pre g of None \<Rightarrow> [] | Some p \<Rightarrow> ''-'' @ p"
  let ?q = "case g_build g of None \<Rightarrow> [] | Some b \<Rightarrow> ''+'' @ b"
  have "?p \<in> lang (ropt (RSeq (rchar CHR ''-'') (re_dotted re_pre_id)))"
    unfolding lang_opt_pre using g by (auto simp: groups_ok_def split: option.splits)
  moreover have "?q \<in> lang (ropt (RSeq (rchar CHR ''+'') (re_dotted (rplus re_alnum_dash))))"
    unfolding lang_opt_build using g by (auto simp: groups_ok_def split: option.splits)
  moreover have "is_num_id (g_major g)" "is_num_id (g_minor g)" "is_num_id (g_patch g)"
    using g by (auto simp: groups_ok_def)
  ultimately show "s \<in> lang SEMVER_RE"
    unfolding lang_SEMVER_parts s semver_print_def by blast
qed

lemma num_id_digits: "is_num_id w \<Longrightarrow> list_all is_digit w \<and> w \<noteq> []"
  by (auto simp: is_num_id_def is_digit_def)

lemma digits_no_sep:
  assumes "list_all is_digit w"
  shows "CHR ''.'' \<notin> set w" and "CHR ''-'' \<notin> set w" and "CHR ''+'' \<notin> set w"
  using assms by (auto simp: list_all_iff is_digit_def)

lemma partition_append: "c \<notin> set a \<Longrightarrow> py_partition c (a @ c # b) = (a, True, b)"
  by (simp add: py_partition_found)

lemma partition_none: "c \<notin> set a \<Longrightarrow> py_partition c a = (a, False, [])"
  by (simp add: py_partition_def Let_def)

lemma set_dotted:
  assumes "list_all P (py_split CHR ''.'' p)" and "\<And>w. P w \<Longrightarrow> c \<notin> set w" and "c \<noteq> CHR ''.''"
  shows "c \<notin> set p"
proof
  assume "c \<in> set p"
  then have "c \<in> set (py_join ''.'' (py_split CHR ''.'' p))" by (simp add: py_join_split)
  moreover have "set (py_join ''.'' ws) \<subseteq> insert CHR ''.'' (\<Union>w \<in> set ws. set w)" for ws
    by (induction "''.''" ws rule: py_join.induct) auto
  ultimately show False using assms by (fastforce simp: list_all_iff)
qed

text \<open>Reading the groups back: \<open>semver_split\<close> inverts \<open>semver_print\<close> on well-formed groups.\<close>

lemma semver_split_print:
  assumes "groups_ok g"
  shows "semver_split (semver_print g) = Some g"
proof -
  let ?core = "g_major g @ ''.'' @ g_minor g @ ''.'' @ g_patch g"
  let ?p = "case g_pre g of None \<Rightarrow> [] | Some p \<Rightarrow> ''-'' @ p"
  from assms have num: "is_num_id (g_major g)" "is_num_id (g_minor g)" "is_num_id (g_patch g)"
    by (auto simp: groups_ok_def)
  note digs = num [THEN num_id_digits, THEN conjunct1]
  have core: "CHR ''-'' \<notin> set ?core" "CHR ''+'' \<notin> set ?core"
    using digs by (auto dest: digits_no_sep)
  have split: "py_split CHR ''.'' ?core = [g_major g, g_minor g, g_patch g]"
    using digs by (simp add: py_split_append py_split_single digits_no_sep)
  have "CHR ''+'' \<notin> set p" if "g_pre g = Some p" for p
  proof (rule set_dotted [of is_pre_id])
    show "list_all is_pre_id (py_split CHR ''.'' p)" using assms that by (simp add: groups_ok_def)
  qed (simp_all add: pre_id_no_plus)
  then have rest: "CHR ''+'' \<notin> set (?core @ ?p)" using core by (auto split: option.splits)
  have b: "py_partition CHR ''+'' (semver_print g) =
      (?core @ ?p, g_build g \<noteq> None, case g_build g of None \<Rightarrow> [] | Some b \<Rightarrow> b)"
  proof (cases "g_build g")
    case None
    with partition_none [OF rest] show ?thesis by (simp add: semver_print_def)
  next
    case (Some b)
    then have "semver_print g = (?core @ ?p) @ CHR ''+'' # b" by (simp add: semver_print_def)
    with Some partition_append [OF rest, of b] show ?thesis by simp
  qed
  have p: "py_partition CHR ''-'' (?core @ ?p) =
      (?core, g_pre g \<noteq> None, case g_pre g of None \<Rightarrow> [] | Some p \<Rightarrow> p)"
  proof (cases "g_pre g")
    case None
    with partition_none [OF core(1)] show ?thesis by simp
  next
    case (Some p)
    then have "?core @ ?p = ?core @ CHR ''-'' # p" by simp
    with Some partition_append [OF core(1), of p] show ?thesis by simp
  qed
  show ?thesis unfolding semver_split_def b prod.case p split list.case
    by (cases g; cases "g_pre g"; cases "g_build g") simp_all
qed

theorem semver_fullmatch_Some_iff:
  "semver_fullmatch s = Some g \<longleftrightarrow> groups_ok g \<and> s = semver_print g"
proof
  assume h: "semver_fullmatch s = Some g"
  then have "s \<in> lang SEMVER_RE" and g: "semver_split s = Some g"
    by (auto simp: semver_fullmatch_def fullmatch_lang split: if_splits)
  then obtain g' where "groups_ok g'" "s = semver_print g'" unfolding lang_SEMVER by blast
  with g show "groups_ok g \<and> s = semver_print g" by (auto simp: semver_split_print)
next
  assume "groups_ok g \<and> s = semver_print g"
  moreover from this have "fullmatch SEMVER_RE s" unfolding fullmatch_lang lang_SEMVER by blast
  ultimately show "semver_fullmatch s = Some g"
    by (simp add: semver_fullmatch_def semver_split_print)
qed

section \<open>Precedence\<close>

lemma semver_key_Inr_iff:
  "semver_key v = Inr k \<longleftrightarrow>
     (\<exists>g. groups_ok g \<and> v = semver_print g \<and>
        k = (py_nat (g_major g), py_nat (g_minor g), py_nat (g_patch g), pre_key_of (g_pre g)))"
proof -
  have "semver_key v = Inr k \<longleftrightarrow> (\<exists>g. semver_fullmatch v = Some g \<and>
      k = (py_nat (g_major g), py_nat (g_minor g), py_nat (g_patch g), pre_key_of (g_pre g)))"
    by (auto simp: semver_key_def split: option.splits)
  then show ?thesis unfolding semver_fullmatch_Some_iff by blast
qed

lemma semver_key_print:
  "groups_ok g \<Longrightarrow> semver_key (semver_print g) =
     Inr (py_nat (g_major g), py_nat (g_minor g), py_nat (g_patch g), pre_key_of (g_pre g))"
  unfolding semver_key_Inr_iff by blast

lemma semver_key_total: "fullmatch SEMVER_RE v \<longleftrightarrow> is_ok (semver_key v)"
  unfolding is_ok_iff semver_key_Inr_iff fullmatch_lang lang_SEMVER by blast

text \<open>Numbers without leading zeros are equal as numbers only if they are equal as texts.\<close>

lemma digit_val_bound: "is_digit c \<Longrightarrow> digit_val c < 10"
  by (auto simp: is_digit_def digit_val_def less_eq_char_def)

lemma digit_val_inj: "is_digit c \<Longrightarrow> is_digit d \<Longrightarrow> digit_val c = digit_val d \<Longrightarrow> c = d"
  by (subst char_eq_byte) (simp add: is_digit_def digit_val_def less_eq_char_def del: of_char_eq_iff, arith)

lemma py_nat_lt: "list_all is_digit w \<Longrightarrow> py_nat w < 10 ^ length w"
proof (induction w rule: rev_induct)
  case Nil
  show ?case by (simp add: py_nat_def)
next
  case (snoc c w)
  then have "py_nat w < 10 ^ length w" "digit_val c < 10" by (auto simp: digit_val_bound)
  then have "10 * py_nat w + digit_val c < 10 * (py_nat w + 1)" by simp
  also have "\<dots> \<le> 10 * 10 ^ length w"
    using \<open>py_nat w < 10 ^ length w\<close> by (intro mult_left_mono) auto
  finally show ?case by (simp add: py_nat_snoc)
qed

lemma py_nat_append: "py_nat (a @ b) = py_nat a * 10 ^ length b + py_nat b"
proof (induction b rule: rev_induct)
  case Nil
  show ?case by (simp add: py_nat_def)
next
  case (snoc c b)
  have "py_nat (a @ b @ [c]) = 10 * py_nat (a @ b) + digit_val c"
    using py_nat_snoc [of "a @ b" c] by simp
  with snoc show ?case by (simp add: py_nat_snoc algebra_simps)
qed

lemma py_nat_ge:
  assumes "list_all is_digit w" and "w \<noteq> []" and "hd w \<noteq> CHR ''0''"
  shows "10 ^ (length w - 1) \<le> py_nat w"
proof -
  from assms(2) obtain c t where w: "w = [c] @ t" by (cases w) auto
  have "digit_val c \<noteq> 0"
    using assms(1,3) w digit_val_inj [of c "CHR ''0''"] by (auto simp: is_digit_def digit_val_def)
  then have "1 * 10 ^ length t \<le> py_nat [c] * 10 ^ length t"
    by (intro mult_right_mono) (auto simp: py_nat_def)
  then have "10 ^ length t \<le> py_nat [c] * 10 ^ length t + py_nat t" by linarith
  then show ?thesis unfolding w py_nat_append by simp
qed

lemma py_nat_inj_len:
  assumes "length a = length b" and "list_all is_digit a" and "list_all is_digit b"
    and "py_nat a = py_nat b"
  shows "a = b"
  using assms
proof (induction a arbitrary: b rule: rev_induct)
  case Nil
  then show ?case by simp
next
  case (snoc c a)
  then obtain b' d where b: "b = b' @ [d]" by (metis length_append_singleton nat.distinct(1) list.size(3) rev_exhaust)
  have cd: "digit_val c < 10" "digit_val d < 10" using snoc.prems b by (auto simp: digit_val_bound)
  have eq: "10 * py_nat a + digit_val c = 10 * py_nat b' + digit_val d"
    using snoc.prems(4) b by (simp add: py_nat_snoc)
  with cd have "digit_val c = digit_val d" "py_nat a = py_nat b'" by presburger+
  with snoc b show ?case by (auto simp: digit_val_inj)
qed

lemma py_nat_num_id_inj:
  assumes "is_num_id a" and "is_num_id b" and "py_nat a = py_nat b"
  shows "a = b"
proof -
  have pos: "0 < py_nat w" if "is_num_id w" "w \<noteq> ''0''" for w
    using that py_nat_ge [of w] by (auto simp: is_num_id_def intro: less_le_trans [rotated])
  have zero: "py_nat ''0'' = 0" by (simp add: py_nat_def digit_val_def)
  show ?thesis
  proof (cases "a = ''0'' \<or> b = ''0''")
    case True
    with assms pos zero show ?thesis by (metis less_numeral_extra(3))
  next
    case False
    with assms have d: "list_all is_digit a" "list_all is_digit b"
      and ne: "a \<noteq> []" "b \<noteq> []" and z: "hd a \<noteq> CHR ''0''" "hd b \<noteq> CHR ''0''"
      by (auto simp: is_num_id_def)
    have "10 ^ (length a - 1) < (10 :: nat) ^ length b" "10 ^ (length b - 1) < (10 :: nat) ^ length a"
      using py_nat_ge [OF d(1) ne(1) z(1)] py_nat_ge [OF d(2) ne(2) z(2)]
        py_nat_lt [OF d(1)] py_nat_lt [OF d(2)] assms(3) by linarith+
    then have "length a - 1 < length b" "length b - 1 < length a" by simp_all
    with ne have "length a = length b" by (cases a; cases b) auto
    with d assms(3) show ?thesis by (intro py_nat_inj_len)
  qed
qed

lemma ident_key_inj:
  assumes "is_pre_id a" and "is_pre_id b" and "ident_key_of a = ident_key_of b"
  shows "a = b"
  using assms py_nat_num_id_inj
  by (auto simp: ident_key_of_def is_pre_id_def all_digits_def split: if_splits)

lemma pre_key_inj:
  assumes "pre_key_of p = pre_key_of q"
    and "\<forall>s. p = Some s \<longrightarrow> list_all is_pre_id (py_split CHR ''.'' s)"
    and "\<forall>s. q = Some s \<longrightarrow> list_all is_pre_id (py_split CHR ''.'' s)"
  shows "p = q"
proof (cases p)
  case None
  with assms(1) show ?thesis by (auto simp: pre_key_of_def split: option.splits)
next
  case (Some a)
  with assms(1) obtain b where q: "q = Some b"
    and m: "map ident_key_of (py_split CHR ''.'' a) = map ident_key_of (py_split CHR ''.'' b)"
    by (auto simp: pre_key_of_def split: option.splits)
  have "inj_on ident_key_of (set (py_split CHR ''.'' a) \<union> set (py_split CHR ''.'' b))"
    using assms(2,3) Some q by (auto simp: inj_on_def list_all_iff intro: ident_key_inj)
  with m have "py_split CHR ''.'' a = py_split CHR ''.'' b" by (simp add: map_inj_on)
  then have "a = b" by (metis py_join_split)
  with Some q show ?thesis by simp
qed

definition without_build :: "string \<Rightarrow> string" where
  "without_build v = fst (py_partition CHR ''+'' v)"

lemma without_build_print:
  assumes "groups_ok g"
  shows "without_build (semver_print g) = semver_print (g\<lparr>g_build := None\<rparr>)"
proof -
  have ok: "groups_ok (g\<lparr>g_build := None\<rparr>)" using assms by (simp add: groups_ok_def)
  have "CHR ''+'' \<notin> set (semver_print (g\<lparr>g_build := None\<rparr>))"
  proof
    assume h: "CHR ''+'' \<in> set (semver_print (g\<lparr>g_build := None\<rparr>))"
    then have "fst (snd (py_partition CHR ''+'' (semver_print (g\<lparr>g_build := None\<rparr>))))"
      by (simp add: py_partition_def Let_def)
    with semver_split_print [OF ok] show False
      by (cases g) (auto simp: semver_split_def split: prod.splits list.splits)
  qed
  note nop = this
  show ?thesis
  proof (cases "g_build g")
    case None
    then have "g\<lparr>g_build := None\<rparr> = g" by (cases g) simp
    with partition_none [OF nop] show ?thesis by (simp add: without_build_def)
  next
    case (Some b)
    then have "semver_print g = semver_print (g\<lparr>g_build := None\<rparr>) @ CHR ''+'' # b"
      by (simp add: semver_print_def)
    with partition_append [OF nop, of b] show ?thesis by (simp add: without_build_def)
  qed
qed

text \<open>Two versions have the same key exactly when they differ in build metadata only.\<close>

theorem semver_key_eq_iff:
  assumes "semver_key v = Inr k" and "semver_key w = Inr l"
  shows "k = l \<longleftrightarrow> without_build v = without_build w"
proof -
  from assms obtain g h where g: "groups_ok g" "v = semver_print g" and h: "groups_ok h" "w = semver_print h"
    and k: "k = (py_nat (g_major g), py_nat (g_minor g), py_nat (g_patch g), pre_key_of (g_pre g))"
    and l: "l = (py_nat (g_major h), py_nat (g_minor h), py_nat (g_patch h), pre_key_of (g_pre h))"
    unfolding semver_key_Inr_iff by blast
  have "k = l \<longleftrightarrow> g\<lparr>g_build := None\<rparr> = h\<lparr>g_build := None\<rparr>"
  proof
    assume kl: "k = l"
    have "g_major g = g_major h" "g_minor g = g_minor h" "g_patch g = g_patch h"
      using kl k l g(1) h(1) by (auto simp: groups_ok_def intro: py_nat_num_id_inj)
    moreover have "g_pre g = g_pre h"
      using kl k l g(1) h(1) by (intro pre_key_inj) (auto simp: groups_ok_def)
    ultimately show "g\<lparr>g_build := None\<rparr> = h\<lparr>g_build := None\<rparr>" by (cases g; cases h) simp
  next
    assume "g\<lparr>g_build := None\<rparr> = h\<lparr>g_build := None\<rparr>"
    then show "k = l" using k l by (cases g; cases h) simp
  qed
  also have "\<dots> \<longleftrightarrow> without_build v = without_build w"
  proof -
    have "groups_ok (g\<lparr>g_build := None\<rparr>)" "groups_ok (h\<lparr>g_build := None\<rparr>)"
      using g(1) h(1) by (simp_all add: groups_ok_def)
    then show ?thesis unfolding g(2) h(2) without_build_print [OF g(1)] without_build_print [OF h(1)]
      by (metis option.inject semver_split_print)
  qed
  finally show ?thesis .
qed

text \<open>A pre-release precedes the release it leads to.\<close>

theorem semver_prerelease_less:
  assumes "groups_ok g" and "g_pre g = None"
    and "groups_ok (g\<lparr>g_pre := Some p, g_build := b\<rparr>)"
  shows "\<exists>k l. semver_key (semver_print (g\<lparr>g_pre := Some p, g_build := b\<rparr>)) = Inr k \<and>
      semver_key (semver_print g) = Inr l \<and> k < l"
  using semver_key_print [OF assms(1)] semver_key_print [OF assms(3)] assms(2)
  by (simp add: pre_key_of_def)

end
