(* ===== verification/Url.thy ===== *)
theory Url
  imports Semver
begin

text \<open>
  URLs: \<open>urllib.parse.urlsplit\<close> and the attributes of its result (\<open>hostname\<close>, \<open>port\<close>,
  \<open>username\<close>, \<open>password\<close>), \<open>unquote\<close>, and the two policies of \<open>scripts/registry.py\<close> built on
  them, \<open>_https_url\<close> and \<open>validate_artifact_url\<close>. \<open>urlsplit\<close> is the one of Python 3.12: control
  characters are stripped first, brackets in the authority must enclose an IPv6 or IPvFuture
  literal, and both failures and a malformed port raise \<open>ValueError\<close>. (The normalisation check
  of non-ASCII authorities is left out; those hosts never equal a policy host.)
\<close>

section \<open>Splitting a URL\<close>

record split_result =
  scheme :: string
  netloc :: string
  path :: string
  query :: string
  fragment :: string

definition scheme_char :: "char \<Rightarrow> bool" where
  "scheme_char c = (is_lower c \<or> is_upper c \<or> is_digit c \<or> c \<in> {CHR ''+'', CHR ''-'', CHR ''.''})"

definition url_clean :: "string \<Rightarrow> string" where
  "url_clean url = filter (\<lambda>c. c \<notin> {CHR 0x09, CHR 0x0D, CHR 0x0A}) (dropWhile (\<lambda>c. byte c \<le> 32) url)"

definition split_scheme :: "string \<Rightarrow> string \<times> string" where
  "split_scheme url =
     (case py_partition CHR '':'' url of (s, found, rest) \<Rightarrow>
        if found \<and> s \<noteq> [] \<and> (is_lower (hd s) \<or> is_upper (hd s)) \<and> list_all scheme_char s
        then (py_lower s, rest) else ([], url))"

definition split_netloc :: "string \<Rightarrow> string \<times> string" where
  "split_netloc url =
     (if take 2 url = ''//'' then
        (takeWhile (\<lambda>c. c \<notin> {CHR ''/'', CHR ''?'', CHR ''#''}) (drop 2 url),
         dropWhile (\<lambda>c. c \<notin> {CHR ''/'', CHR ''?'', CHR ''#''}) (drop 2 url))
      else ([], url))"

text \<open>The literal of a bracketed host: \<open>ipaddress.IPv6Address\<close> or \<open>v<hex>.<text>\<close>.\<close>

definition is_hex :: "char \<Rightarrow> bool" where
  "is_hex c = (is_digit c \<or> (CHR ''a'' \<le> c \<and> c \<le> CHR ''f'') \<or> (CHR ''A'' \<le> c \<and> c \<le> CHR ''F''))"

definition is_hextet :: "string \<Rightarrow> bool" where
  "is_hextet w = (w \<noteq> [] \<and> length w \<le> 4 \<and> list_all is_hex w)"

definition is_octet :: "string \<Rightarrow> bool" where
  "is_octet w = (all_digits w \<and> length w \<le> 3 \<and> py_nat w \<le> 255 \<and> (length w = 1 \<or> hd w \<noteq> CHR ''0''))"

definition is_ipv4 :: "string \<Rightarrow> bool" where
  "is_ipv4 s = (case py_split CHR ''.'' s of [a, b, c, d] \<Rightarrow> list_all is_octet [a, b, c, d] | _ \<Rightarrow> False)"

definition ipv6_parts :: "string \<Rightarrow> string list" where
  "ipv6_parts s =
     (let ps = py_split CHR '':'' s in
      if ps \<noteq> [] \<and> CHR ''.'' \<in> set (last ps) then
        (if is_ipv4 (last ps) then butlast ps @ [''0'', ''0''] else [])
      else ps)"

definition is_ipv6 :: "string \<Rightarrow> bool" where
  "is_ipv6 s =
     (let (addr, has_scope, scope) = py_partition CHR ''%'' s;
          ps = ipv6_parts addr;
          n = length ps;
          inner = filter (\<lambda>i. 0 < i \<and> i < n - 1 \<and> ps ! i = []) [0..<n] in
      (has_scope \<longrightarrow> scope \<noteq> [] \<and> CHR ''%'' \<notin> set scope) \<and>
      3 \<le> n \<and> n \<le> 9 \<and> length inner \<le> 1 \<and>
      list_all (\<lambda>w. w = [] \<or> is_hextet w) ps \<and>
      (case inner of
         i # _ \<Rightarrow>
           (hd ps = [] \<longrightarrow> i = 1) \<and> (last ps = [] \<longrightarrow> i = n - 2) \<and>
           (i - (if hd ps = [] then 1 else 0)) + (n - i - 1 - (if last ps = [] then 1 else 0)) < 8
       | [] \<Rightarrow> n = 8 \<and> hd ps \<noteq> [] \<and> last ps \<noteq> []))"

definition IPVFUTURE_RE :: regex where
  "IPVFUTURE_RE = RSeq (rchar CHR ''v'') (RSeq (rplus (RClass [(CHR ''0'', CHR ''9''), (CHR ''a'', CHR ''f''), (CHR ''A'', CHR ''F'')]))
     (RSeq (rchar CHR ''.'') (rplus (RNot [CHR 0x0A]))))"

definition bracket_ok :: "string \<Rightarrow> bool" where
  "bracket_ok nl =
     (if CHR ''['' \<in> set nl \<or> CHR '']'' \<in> set nl then
        CHR ''['' \<in> set nl \<and> CHR '']'' \<in> set nl \<and>
        (let h = fst (py_partition CHR '']'' (snd (snd (py_partition CHR ''['' nl)))) in
         if py_startswith h ''v'' then fullmatch IPVFUTURE_RE h else is_ipv6 h)
      else True)"

definition urlsplit :: "string \<Rightarrow> exn + split_result" where
  "urlsplit url =
     (case split_scheme (url_clean url) of (sch, u1) \<Rightarrow>
      case split_netloc u1 of (nl, u2) \<Rightarrow>
      case py_partition CHR ''#'' u2 of (u3, _, frag) \<Rightarrow>
      case py_partition CHR ''?'' u3 of (u4, _, qry) \<Rightarrow>
        if bracket_ok nl
        then Inr \<lparr>scheme = sch, netloc = nl, path = u4, query = qry, fragment = frag\<rparr>
        else Inl (Raise ValueError Not_https))"

section \<open>The attributes of the result\<close>

definition hostinfo :: "split_result \<Rightarrow> string \<times> string" where
  "hostinfo r =
     (case py_rpartition CHR ''@'' (netloc r) of (_, _, h) \<Rightarrow>
      case py_partition CHR ''['' h of (_, have_open, bracketed) \<Rightarrow>
        if have_open then
          (case py_partition CHR '']'' bracketed of (host, _, rest) \<Rightarrow>
             (host, snd (snd (py_partition CHR '':'' rest))))
        else (case py_partition CHR '':'' h of (host, _, port) \<Rightarrow> (host, port)))"

definition hostname :: "split_result \<Rightarrow> string option" where
  "hostname r =
     (case hostinfo r of (host, _) \<Rightarrow>
        if host = [] then None
        else (case py_partition CHR ''%'' host of (a, found, b) \<Rightarrow>
                Some (if found then py_lower a @ ''%'' @ b else py_lower host)))"

definition port :: "split_result \<Rightarrow> exn + nat option" where
  "port r =
     (case hostinfo r of (_, p) \<Rightarrow>
        if p = [] then Inr None
        else if all_digits p \<and> py_nat p \<le> 65535 then Inr (Some (py_nat p))
        else Inl (Raise ValueError Not_https))"

definition username :: "split_result \<Rightarrow> string option" where
  "username r =
     (case py_rpartition CHR ''@'' (netloc r) of (u, found, _) \<Rightarrow>
        if found then Some (fst (py_partition CHR '':'' u)) else None)"

definition password :: "split_result \<Rightarrow> string option" where
  "password r =
     (case py_rpartition CHR ''@'' (netloc r) of (u, found, _) \<Rightarrow>
        if found then (case py_partition CHR '':'' u of (_, fp, p) \<Rightarrow> if fp then Some p else None)
        else None)"

text \<open>\<open>unquote\<close>: percent escapes become bytes; the result is decoded as UTF-8 with replacement.\<close>

definition hex_val :: "char \<Rightarrow> nat" where
  "hex_val c = (if is_digit c then byte c - 48 else byte (char_lower c) - 87)"

fun percent_decode :: "string \<Rightarrow> string" where
  "percent_decode (p # h # l # s) =
     (if p = CHR ''%'' \<and> is_hex h \<and> is_hex l
      then char_of (hex_val h * 16 + hex_val l) # percent_decode s
      else p # percent_decode (h # l # s))"
| "percent_decode s = s"

definition unquote :: "string \<Rightarrow> string" where
  "unquote s = (if CHR ''%'' \<in> set s then of_code_points (code_points (percent_decode s)) else s)"

section \<open>The HTTPS policy\<close>

definition invalid_port :: "split_result \<Rightarrow> bool" where
  "invalid_port r = (case port r of Inl _ \<Rightarrow> True | Inr p \<Rightarrow> p \<notin> {None, Some 443})"

definition has_space_or_control :: "string \<Rightarrow> bool" where
  "has_space_or_control s = list_ex (\<lambda>p. is_space p \<or> p < 32) (code_points s)"

definition https_url :: "json \<Rightarrow> exn + split_result" where
  "https_url v =
     (case v of
        JStr s \<Rightarrow>
          if s = [] then Inl (invalid Not_https)
          else rbind (urlsplit s) (\<lambda>parsed.
            if scheme parsed \<noteq> ''https''
              \<or> hostname parsed = None
              \<or> username parsed \<noteq> None
              \<or> password parsed \<noteq> None
              \<or> invalid_port parsed
              \<or> query parsed \<noteq> []
              \<or> fragment parsed \<noteq> []
              \<or> CHR 0x5C \<in> set s
              \<or> has_space_or_control s
            then Inl (invalid Not_https) else Inr parsed)
      | _ \<Rightarrow> Inl (invalid Not_https))"

section \<open>The artifact policy\<close>

definition CANONICAL_REGISTRY_HOST :: string where
  "CANONICAL_REGISTRY_HOST = ''packages.stadtplaner.oklabflensburg.de''"

definition GITHUB_PATH_RE :: regex where
  "GITHUB_PATH_RE = rseqs [rchar CHR ''/'', rplus (RNot ''/''), rchar CHR ''/'', rplus (RNot ''/''),
     rlit ''/releases/download/'', rplus (RNot ''/''), rchar CHR ''/'', rplus (RNot ''/''), rlit ''.ocp'']"

text \<open>The tag group of the pattern: the fifth segment of the path.\<close>

definition github_match :: "string \<Rightarrow> string option" where
  "github_match p = (if fullmatch GITHUB_PATH_RE p then Some (py_split CHR ''/'' p ! 5) else None)"

definition mirror_path :: "string \<Rightarrow> string \<Rightarrow> string" where
  "mirror_path module_id version =
     ''/modules/'' @ module_id @ ''/'' @ version @ ''/'' @ module_id @ ''-'' @ version @ ''.ocp''"

definition validate_artifact_url :: "json \<Rightarrow> string \<Rightarrow> string \<Rightarrow> string \<Rightarrow> exn + split_result" where
  "validate_artifact_url url classification module_id version =
     rbind (https_url url) (\<lambda>parsed.
     let p = unquote (path parsed) in
     rbind (ensure (py_endswith p ''.ocp'') (invalid Not_ocp)) (\<lambda>_.
     let hosted = (hostname parsed = Some CANONICAL_REGISTRY_HOST \<and> p = mirror_path module_id version);
         gm = github_match p;
         github_release = (hostname parsed = Some ''github.com'' \<and> gm \<noteq> None) in
     rbind (ensure (case gm of None \<Rightarrow> True | Some tag \<Rightarrow> tag \<in> {version, ''v'' @ version})
              (invalid Tag_not_bound)) (\<lambda>_.
     rbind (ensure (hosted \<or> github_release) (invalid Hosting_policy)) (\<lambda>_.
     rbind (ensure (\<not> (classification = ''first-party'' \<and> github_release
                       \<and> \<not> py_startswith p ''/oklabflensburg/'')) (invalid Foreign_artifact)) (\<lambda>_.
     Inr parsed)))))"

section \<open>What the policies accept\<close>

lemma https_url_Inr_iff:
  "https_url v = Inr r \<longleftrightarrow>
     (\<exists>s. v = JStr s \<and> s \<noteq> [] \<and> urlsplit s = Inr r \<and> scheme r = ''https'' \<and> hostname r \<noteq> None \<and>
        username r = None \<and> password r = None \<and> \<not> invalid_port r \<and> query r = [] \<and> fragment r = [] \<and>
        CHR 0x5C \<notin> set s \<and> \<not> has_space_or_control s)"
  by (cases v) (auto simp: https_url_def split: if_splits)

lemma https_url_errors:
  assumes "https_url v = Inl e"
  shows "e = invalid Not_https \<or> e = Raise ValueError Not_https"
  using assms
  by (cases v) (auto simp: https_url_def rbind_Inl_iff urlsplit_def split: if_splits prod.splits)

lemma validate_artifact_url_Inr:
  assumes "validate_artifact_url u cl mid ver = Inr r"
  shows "https_url u = Inr r" and "py_endswith (unquote (path r)) ''.ocp''"
    and "(hostname r = Some CANONICAL_REGISTRY_HOST \<and> unquote (path r) = mirror_path mid ver) \<or>
         (hostname r = Some ''github.com'' \<and>
            (\<exists>tag. github_match (unquote (path r)) = Some tag \<and> tag \<in> {ver, ''v'' @ ver}) \<and>
            (cl = ''first-party'' \<longrightarrow> py_startswith (unquote (path r)) ''/oklabflensburg/''))"
  using assms by (auto simp: validate_artifact_url_def Let_def split: option.splits)

end
