(* ===== verification/Registry.thy ===== *)
theory Registry
  imports Url
begin

text \<open>
  The Registry v1 core, \<open>scripts/registry.py\<close>: field validators, \<open>validate_module\<close>,
  \<open>load_registry\<close>, \<open>load_registry_from_git\<close>, \<open>build_index\<close>, \<open>canonical_module\<close>. Modules stay JSON
  documents, as in the source; a missing key is a \<open>KeyError\<close>.
  The JSON Schema validator is a third-party package: it is the parameter \<open>sch\<close>, a predicate on
  the name of the schema file and the value. The source tree is the record \<open>registry_source\<close>.
\<close>

section \<open>Patterns and constants\<close>

definition MODULE_ID_RE :: regex where
  "MODULE_ID_RE =
     RSeq (RClass [(CHR ''a'', CHR ''z'')])
       (RSeq (RStar (RClass [(CHR ''a'', CHR ''z''), (CHR ''0'', CHR ''9'')]))
         (RStar (RSeq (rchar CHR ''-'') (rplus (RClass [(CHR ''a'', CHR ''z''), (CHR ''0'', CHR ''9'')])))))"

definition re_hex :: regex where
  "re_hex = RClass [(CHR ''0'', CHR ''9''), (CHR ''a'', CHR ''f'')]"

definition COMMIT_RE :: regex where
  "COMMIT_RE = RSeq (rtimes 40 re_hex) (ropt (rtimes 24 re_hex))"

definition SHA256_RE :: regex where
  "SHA256_RE = rtimes 64 re_hex"

definition CHANNELS :: "string list" where
  "CHANNELS = [''stable'', ''beta'', ''nightly'']"

definition CLASSIFICATIONS :: "string list" where
  "CLASSIFICATIONS = [''first-party'', ''reviewed-community'']"

definition RELEASE_KEYS :: "string list" where
  "RELEASE_KEYS = [''version'', ''channel'', ''artifact'', ''bundle_format_version'',
     ''source_commit'', ''source_tag'', ''requires'']"

definition MODULE_KEYS :: "string list" where
  "MODULE_KEYS = [''schema_version'', ''id'', ''name'', ''description'', ''publisher'',
     ''classification'', ''source_repository'', ''license'', ''homepage'', ''documentation_url'',
     ''versions'']"

definition REQUIRED_MODULE_KEYS :: "string list" where
  "REQUIRED_MODULE_KEYS = [''schema_version'', ''id'', ''name'', ''publisher'', ''classification'',
     ''source_repository'', ''license'', ''versions'']"

section \<open>Field validators\<close>

definition exact_keys :: "json \<Rightarrow> string list \<Rightarrow> string list \<Rightarrow> exn + unit" where
  "exact_keys v allowed required =
     (let keys = dict_keys (obj_items v);
          unknown = py_sorted id (filter (\<lambda>k. k \<notin> set allowed) keys);
          missing = py_sorted id (filter (\<lambda>k. k \<notin> set keys) required) in
      rbind (ensure (unknown = []) (invalid (Unknown_fields unknown))) (\<lambda>_.
      ensure (missing = []) (invalid (Missing_fields missing))))"

definition schema_version :: "json \<Rightarrow> exn + unit" where
  "schema_version v = ensure (py_eq v (JInt 1) \<and> \<not> is_bool v) (invalid Unsupported_schema_version)"

definition canonical_id :: "json \<Rightarrow> exn + string" where
  "canonical_id v =
     (case v of
        JStr s \<Rightarrow> if py_len s > 63 \<or> \<not> fullmatch MODULE_ID_RE s then Inl (invalid Not_module_id) else Inr s
      | _ \<Rightarrow> Inl (invalid Not_module_id))"

definition validate_module_id :: "json \<Rightarrow> exn + string" where
  "validate_module_id v = canonical_id v"

definition semver :: "json \<Rightarrow> exn + string" where
  "semver v =
     (case v of
        JStr s \<Rightarrow> if fullmatch SEMVER_RE s then Inr s else Inl (invalid Not_semver)
      | _ \<Rightarrow> Inl (invalid Not_semver))"

definition validate_semver :: "json \<Rightarrow> exn + string" where
  "validate_semver v = semver v"

definition nonempty_string :: "json \<Rightarrow> nat \<Rightarrow> exn + unit" where
  "nonempty_string v maximum =
     (case v of
        JStr s \<Rightarrow> ensure (s \<noteq> [] \<and> s = py_strip s \<and> py_len s \<le> maximum) (invalid Not_trimmed)
      | _ \<Rightarrow> Inl (invalid Not_trimmed))"

definition optional_string :: "json \<Rightarrow> string \<Rightarrow> nat \<Rightarrow> exn + unit" where
  "optional_string v key maximum =
     (case get_field v key of None \<Rightarrow> Inr () | Some w \<Rightarrow> nonempty_string w maximum)"

definition optional_https_url :: "json \<Rightarrow> string \<Rightarrow> exn + unit" where
  "optional_https_url v key =
     (case get_field v key of None \<Rightarrow> Inr () | Some w \<Rightarrow> rbind (https_url w) (\<lambda>_. Inr ()))"

text \<open>
  \<open>re.match(r"^(>=|<=|==|!=|>|<)(.+)$", clause)\<close> and its second group: the operators are tried in
  order, the dot does not match a newline, and the dollar also matches before a final one.
\<close>

definition RANGE_OPERATORS :: "string list" where
  "RANGE_OPERATORS = [''>='', ''<='', ''=='', ''!='', ''>'', ''<'']"

definition range_rest :: "string \<Rightarrow> string \<Rightarrow> string option" where
  "range_rest clause op =
     (if py_startswith clause op then
        let r = drop (length op) clause;
            t = (if r \<noteq> [] \<and> last r = CHR 0x0A then butlast r else r) in
        if t \<noteq> [] \<and> CHR 0x0A \<notin> set t then Some t else None
      else None)"

definition range_match :: "string \<Rightarrow> string option" where
  "range_match clause =
     (case List.find (\<lambda>op. range_rest clause op \<noteq> None) RANGE_OPERATORS of
        None \<Rightarrow> None | Some op \<Rightarrow> range_rest clause op)"

definition version_range :: "json \<Rightarrow> exn + unit" where
  "version_range v =
     (case v of
        JStr s \<Rightarrow>
          rbind (ensure (s \<noteq> [] \<and> s = py_strip s) (invalid Not_range)) (\<lambda>_.
          rall (\<lambda>clause. case range_match clause of
                   None \<Rightarrow> Inl (invalid Range_operator)
                 | Some t \<Rightarrow> rbind (semver (JStr t)) (\<lambda>_. Inr ())) (py_split CHR '','' s))
      | _ \<Rightarrow> Inl (invalid Not_range))"

definition validate_json_schema :: "(string \<Rightarrow> json \<Rightarrow> bool) \<Rightarrow> json \<Rightarrow> string \<Rightarrow> exn + unit" where
  "validate_json_schema sch v schema_file = ensure (sch schema_file v) (invalid Schema_failed)"

section \<open>Releases and modules\<close>

definition validate_publisher :: "json \<Rightarrow> exn + unit" where
  "validate_publisher v =
     rbind (ensure (is_obj v) (invalid Not_an_object)) (\<lambda>_.
     rbind (exact_keys v [''id'', ''name''] [''id'', ''name'']) (\<lambda>_.
     rbind (getitem v ''id'') (\<lambda>i. rbind (canonical_id i) (\<lambda>_.
     rbind (getitem v ''name'') (\<lambda>n. nonempty_string n 120)))))"

definition validate_requires :: "json \<Rightarrow> string \<Rightarrow> exn + unit" where
  "validate_requires v module_id =
     rbind (ensure (is_obj v) (invalid Not_an_object)) (\<lambda>_.
     rbind (exact_keys v [''host'', ''sdk'', ''modules''] [''host'', ''sdk'', ''modules'']) (\<lambda>_.
     rbind (getitem v ''host'') (\<lambda>h. rbind (version_range h) (\<lambda>_.
     rbind (getitem v ''sdk'') (\<lambda>s. rbind (version_range s) (\<lambda>_.
     rbind (getitem v ''modules'') (\<lambda>modules.
     rbind (ensure (is_obj modules) (invalid Not_an_object)) (\<lambda>_.
     rall (\<lambda>(dependency, constraint).
         rbind (canonical_id (JStr dependency)) (\<lambda>_.
         rbind (ensure (dependency \<noteq> module_id) (invalid Self_dependency)) (\<lambda>_.
         version_range constraint))) (obj_items modules)))))))))"

fun str_in :: "json \<Rightarrow> string list \<Rightarrow> bool" where
  "str_in (JStr s) xs = (s \<in> set xs)"
| "str_in _ xs = False"

fun matches :: "regex \<Rightarrow> json \<Rightarrow> bool" where
  "matches r (JStr s) = fullmatch r s"
| "matches r _ = False"

definition validate_release :: "json \<Rightarrow> string \<Rightarrow> string \<Rightarrow> exn + unit" where
  "validate_release v module_id classification =
     rbind (ensure (is_obj v) (invalid Not_an_object)) (\<lambda>_.
     rbind (exact_keys v RELEASE_KEYS (filter (\<lambda>k. k \<noteq> ''source_tag'') RELEASE_KEYS)) (\<lambda>_.
     rbind (rbind (getitem v ''version'') semver) (\<lambda>version.
     rbind (getitem v ''channel'') (\<lambda>channel.
     rbind (ensure (str_in channel CHANNELS) (invalid Unknown_channel)) (\<lambda>_.
     rbind (ensure (\<not> (channel = JStr ''stable'' \<and>
         (case semver_fullmatch version of None \<Rightarrow> False | Some g \<Rightarrow> g_pre g \<noteq> None)))
         (invalid Stable_prerelease)) (\<lambda>_.
     rbind (getitem v ''artifact'') (\<lambda>artifact.
     rbind (ensure (is_obj artifact) (invalid Not_an_object)) (\<lambda>_.
     rbind (exact_keys artifact [''url'', ''sha256''] [''url'', ''sha256'']) (\<lambda>_.
     rbind (getitem artifact ''url'') (\<lambda>url.
     rbind (validate_artifact_url url classification module_id version) (\<lambda>_.
     rbind (getitem artifact ''sha256'') (\<lambda>sha.
     rbind (ensure (matches SHA256_RE sha) (invalid Bad_sha256)) (\<lambda>_.
     rbind (getitem v ''bundle_format_version'') (\<lambda>bfv.
     rbind (ensure (py_eq bfv (JInt 1)) (invalid Bad_bundle_format)) (\<lambda>_.
     rbind (getitem v ''source_commit'') (\<lambda>commit.
     rbind (ensure (matches COMMIT_RE commit) (invalid Bad_commit)) (\<lambda>_.
     rbind (optional_string v ''source_tag'' 255) (\<lambda>_.
     rbind (getitem v ''requires'') (\<lambda>requires.
     validate_requires requires module_id)))))))))))))))))))"

text \<open>The loop over \<open>versions\<close> with its set of versions already seen.\<close>

fun validate_versions :: "json list \<Rightarrow> string \<Rightarrow> string \<Rightarrow> json list \<Rightarrow> exn + unit" where
  "validate_versions [] module_id classification seen = Inr ()"
| "validate_versions (release # rest) module_id classification seen =
     rbind (validate_release release module_id classification) (\<lambda>_.
     rbind (getitem release ''version'') (\<lambda>version.
     rbind (ensure (version \<notin> set seen)
         (invalid (Duplicate_version (case version of JStr s \<Rightarrow> s | _ \<Rightarrow> [])))) (\<lambda>_.
     validate_versions rest module_id classification (version # seen))))"

definition versions_of :: "json \<Rightarrow> exn + json list" where
  "versions_of v = (case v of
       JList xs \<Rightarrow> if xs = [] then Inl (invalid No_versions) else Inr xs
     | _ \<Rightarrow> Inl (invalid No_versions))"

definition classification_of :: "json \<Rightarrow> exn + string" where
  "classification_of v = (case v of
       JStr s \<Rightarrow> if s \<in> set CLASSIFICATIONS then Inr s else Inl (invalid Unknown_classification)
     | _ \<Rightarrow> Inl (invalid Unknown_classification))"

definition validate_module ::
    "(string \<Rightarrow> json \<Rightarrow> bool) \<Rightarrow> json \<Rightarrow> string option \<Rightarrow> exn + unit" where
  "validate_module sch md expected_id =
     rbind (exact_keys md MODULE_KEYS REQUIRED_MODULE_KEYS) (\<lambda>_.
     rbind (rbind (getitem md ''schema_version'') schema_version) (\<lambda>_.
     rbind (rbind (getitem md ''id'') canonical_id) (\<lambda>module_id.
     rbind (ensure (expected_id = None \<or> expected_id = Some module_id) (invalid File_name_mismatch)) (\<lambda>_.
     rbind (rbind (getitem md ''name'') (\<lambda>n. nonempty_string n 120)) (\<lambda>_.
     rbind (optional_string md ''description'' 1000) (\<lambda>_.
     rbind (optional_https_url md ''homepage'') (\<lambda>_.
     rbind (optional_https_url md ''documentation_url'') (\<lambda>_.
     rbind (rbind (getitem md ''publisher'') validate_publisher) (\<lambda>_.
     rbind (rbind (getitem md ''classification'') classification_of) (\<lambda>classification.
     rbind (rbind (getitem md ''source_repository'') https_url) (\<lambda>source.
     rbind (ensure (\<not> (classification = ''first-party'' \<and>
         \<not> (hostname source = Some ''github.com'' \<and>
            py_startswith (unquote (path source)) ''/oklabflensburg/''))) (invalid Foreign_source)) (\<lambda>_.
     rbind (rbind (getitem md ''license'') (\<lambda>l. nonempty_string l 255)) (\<lambda>_.
     rbind (rbind (getitem md ''versions'') versions_of) (\<lambda>versions.
     rbind (validate_versions versions module_id classification []) (\<lambda>_.
     validate_json_schema sch md ''module-v1.schema.json'')))))))))))))))"

section \<open>Loading\<close>

text \<open>
  The source tree under \<open>registry/\<close>: the envelope file (\<open>None\<close> when it is missing) and the files
  matched by \<open>modules/*.json\<close>, by name, with the syntax tree of their text.
\<close>

record registry_source =
  src_envelope :: "ptree option option"
  src_modules :: "(string \<times> ptree option) list"

definition path_stem :: "string \<Rightarrow> string" where
  "path_stem name = (if py_endswith name ''.json'' \<and> length name > 5 then take (length name - 5) name else name)"

definition str_item :: "json \<Rightarrow> string \<Rightarrow> exn + string" where
  "str_item v k = rbind (getitem v k) (\<lambda>w. case w of JStr s \<Rightarrow> Inr s | _ \<Rightarrow> Inl (Raise TypeError (No_key k)))"

definition list_item :: "json \<Rightarrow> string \<Rightarrow> exn + json list" where
  "list_item v k = rbind (getitem v k) (\<lambda>w. case w of JList xs \<Rightarrow> Inr xs | _ \<Rightarrow> Inl (Raise TypeError (No_key k)))"

text \<open>\<open>sorted(xs, key=f)\<close> and \<open>max(xs, key=f)\<close> with a key function that may raise.\<close>

definition sorted_by :: "('a \<Rightarrow> exn + 'k::linorder) \<Rightarrow> 'a list \<Rightarrow> exn + 'a list" where
  "sorted_by f xs =
     rbind (rmap (\<lambda>x. rbind (f x) (\<lambda>k. Inr (k, x))) xs) (\<lambda>ps. Inr (map snd (py_sorted fst ps)))"

definition max_by :: "('a \<Rightarrow> exn + 'k::linorder) \<Rightarrow> 'a list \<Rightarrow> exn + 'a" where
  "max_by f xs =
     rbind (rmap (\<lambda>x. rbind (f x) (\<lambda>k. Inr (k, x))) xs) (\<lambda>ps.
     case py_max fst ps of None \<Rightarrow> Inl (Raise ValueError (Msg [])) | Some p \<Rightarrow> Inr (snd p))"

fun load_modules ::
    "(string \<Rightarrow> json \<Rightarrow> bool) \<Rightarrow> (string \<times> ptree option) list \<Rightarrow> string list \<Rightarrow> exn + json list" where
  "load_modules sch [] seen = Inr []"
| "load_modules sch ((name, text) # files) seen =
     rbind (decode_json text) (\<lambda>md.
     rbind (validate_module sch md None) (\<lambda>_.
     rbind (str_item md ''id'') (\<lambda>module_id.
     rbind (ensure (module_id \<notin> set seen) (invalid (Duplicate_module module_id))) (\<lambda>_.
     rbind (ensure (path_stem name = module_id) (invalid File_name_mismatch)) (\<lambda>_.
     rbind (load_modules sch files (module_id # seen)) (\<lambda>rest.
     Inr (md # rest)))))))"

definition load_registry :: "(string \<Rightarrow> json \<Rightarrow> bool) \<Rightarrow> registry_source \<Rightarrow> exn + json list" where
  "load_registry sch tree =
     rbind (of_option (invalid Missing_envelope) (src_envelope tree)) (\<lambda>text.
     rbind (decode_json text) (\<lambda>env.
     rbind (exact_keys env [''schema_version''] [''schema_version'']) (\<lambda>_.
     rbind (rbind (getitem env ''schema_version'') schema_version) (\<lambda>_.
     rbind (load_modules sch (py_sorted fst (src_modules tree)) []) (\<lambda>modules.
     sorted_by (\<lambda>m. str_item m ''id'') modules)))))"

text \<open>
  The published baseline, read through Git: whether \<open>git cat-file -e\<close> finds the envelope, the
  listing of \<open>git ls-tree\<close> (\<open>None\<close> when the command fails) and \<open>git show\<close> of a path (\<open>None\<close> when
  the command fails, else the syntax tree of its output).
\<close>

record git_tree =
  git_has_envelope :: bool
  git_listing :: "string list option"
  git_show :: "string \<Rightarrow> ptree option option"

definition path_name :: "string \<Rightarrow> string" where
  "path_name p = last (py_split CHR ''/'' p)"

definition load_git_module ::
    "(string \<Rightarrow> json \<Rightarrow> bool) \<Rightarrow> git_tree \<Rightarrow> string \<Rightarrow> exn + json" where
  "load_git_module sch tree p =
     rbind (of_option (invalid Git_failed) (git_show tree p)) (\<lambda>text.
     rbind (decode_json text) (\<lambda>md.
     rbind (validate_module sch md (Some (path_stem (path_name p)))) (\<lambda>_. Inr md)))"

definition load_registry_from_git :: "(string \<Rightarrow> json \<Rightarrow> bool) \<Rightarrow> git_tree \<Rightarrow> exn + json list" where
  "load_registry_from_git sch tree =
     (if \<not> git_has_envelope tree then Inr []
      else
        rbind (of_option (invalid Git_failed) (git_show tree ''registry/registry.json'')) (\<lambda>text.
        rbind (decode_json text) (\<lambda>env.
        rbind (schema_version (case get_field env ''schema_version'' of None \<Rightarrow> JNull | Some v \<Rightarrow> v)) (\<lambda>_.
        rbind (of_option (invalid Git_failed) (git_listing tree)) (\<lambda>lines.
        rmap (load_git_module sch tree)
          (py_sorted id (filter (\<lambda>l. py_endswith l ''.json'') lines)))))))"

section \<open>The static index\<close>

definition release_key :: "json \<Rightarrow> exn + version_key" where
  "release_key r = rbind (str_item r ''version'') semver_key"

definition current_release :: "json list \<Rightarrow> string \<Rightarrow> exn + (string \<times> json) option" where
  "current_release versions channel =
     rbind (rmap (\<lambda>r. rbind (getitem r ''channel'') (\<lambda>c. Inr (c, r))) versions) (\<lambda>tagged.
     let releases = map snd (filter (\<lambda>(c, r). c = JStr channel) tagged) in
     if releases = [] then Inr None
     else
       rbind (max_by release_key releases) (\<lambda>current.
       rbind (getitem current ''version'') (\<lambda>v.
       rbind (getitem current ''artifact'') (\<lambda>a.
       rbind (getitem a ''sha256'') (\<lambda>sha.
       Inr (Some (channel, JObj [(''version'', v), (''sha256'', sha)])))))))"

definition channel_map :: "json list \<Rightarrow> exn + json" where
  "channel_map versions =
     rbind (rmap (current_release versions) CHANNELS) (\<lambda>cs. Inr (JObj (List.map_filter id cs)))"

definition index_entry :: "json \<Rightarrow> exn + json" where
  "index_entry md =
     rbind (list_item md ''versions'') (\<lambda>versions.
     rbind (channel_map versions) (\<lambda>channels.
     rbind (str_item md ''id'') (\<lambda>mid.
     rbind (getitem md ''name'') (\<lambda>name.
     rbind (getitem md ''publisher'') (\<lambda>publisher.
     rbind (getitem md ''classification'') (\<lambda>classification.
     Inr (JObj [(''id'', JStr mid), (''name'', name), (''publisher'', publisher),
       (''classification'', classification), (''channels'', channels),
       (''metadata'', JStr (''/modules/'' @ mid @ ''.json''))])))))))"

definition build_index :: "(string \<Rightarrow> json \<Rightarrow> bool) \<Rightarrow> json list \<Rightarrow> exn + json" where
  "build_index sch modules =
     rbind (sorted_by (\<lambda>m. str_item m ''id'') modules) (\<lambda>ms.
     rbind (rmap index_entry ms) (\<lambda>entries.
     let index = JObj [(''schema_version'', JInt 1), (''modules'', JList entries)] in
     rbind (validate_json_schema sch index ''registry-v1.schema.json'') (\<lambda>_. Inr index)))"

definition canonical_module :: "json \<Rightarrow> exn + json" where
  "canonical_module md =
     rbind (list_item md ''versions'') (\<lambda>versions.
     rbind (sorted_by release_key versions) (\<lambda>vs.
     Inr (set_field ''versions'' (JList vs) md)))"

section \<open>Immutability of published history\<close>

definition PROTECTED_MODULE_FIELDS :: "string list" where
  "PROTECTED_MODULE_FIELDS = [''classification'', ''source_repository'', ''license'']"

definition validate_module_provenance_immutability :: "json \<Rightarrow> json \<Rightarrow> exn + unit" where
  "validate_module_provenance_immutability current published =
     rbind (rbind (getitem published ''publisher'') (\<lambda>p. getitem p ''id'')) (\<lambda>published_id.
     rbind (rbind (getitem current ''publisher'') (\<lambda>p. getitem p ''id'')) (\<lambda>proposed_id.
     rbind (ensure (py_eq proposed_id published_id) (invalid (Provenance_changed ''publisher.id''))) (\<lambda>_.
     rall (\<lambda>field.
         rbind (getitem published field) (\<lambda>existing.
         rbind (getitem current field) (\<lambda>proposed.
         ensure (py_eq proposed existing) (invalid (Provenance_changed field)))))
       PROTECTED_MODULE_FIELDS)))"

definition mirror_url :: "string \<Rightarrow> string \<Rightarrow> string" where
  "mirror_url module_id version = ''https://'' @ CANONICAL_REGISTRY_HOST @ mirror_path module_id version"

definition is_mirror_promotion :: "string \<Rightarrow> json \<Rightarrow> json \<Rightarrow> exn + bool" where
  "is_mirror_promotion module_id proposed published =
     rbind (getitem published ''artifact'') (\<lambda>pub_artifact.
     rbind (str_item pub_artifact ''url'') (\<lambda>pub_url.
     rbind (urlsplit pub_url) (\<lambda>published_url.
     rbind (str_item published ''version'') (\<lambda>version.
     if hostname published_url \<noteq> Some ''github.com'' then Inr False
     else
     rbind (getitem proposed ''artifact'') (\<lambda>prop_artifact.
     rbind (getitem prop_artifact ''url'') (\<lambda>prop_url.
     if \<not> py_eq prop_url (JStr (mirror_url module_id version)) then Inr False
     else
       let normalized = set_field ''artifact'' (set_field ''url'' (JStr pub_url) prop_artifact) proposed in
       Inr (py_eq normalized published)))))))"

definition check_release ::
    "string \<Rightarrow> (string, json) dict \<Rightarrow> json \<Rightarrow> exn + unit" where
  "check_release module_id current_releases base_release =
     rbind (str_item base_release ''version'') (\<lambda>version.
     case dict_get current_releases version of
       None \<Rightarrow> Inl (invalid Release_removed)
     | Some proposed \<Rightarrow>
         if py_eq proposed base_release then Inr ()
         else rbind (is_mirror_promotion module_id proposed base_release) (\<lambda>ok.
              ensure ok (invalid Release_changed)))"

definition check_module :: "(string, json) dict \<Rightarrow> json \<Rightarrow> exn + unit" where
  "check_module current_by_id base_module =
     rbind (str_item base_module ''id'') (\<lambda>module_id.
     case dict_get current_by_id module_id of
       None \<Rightarrow> Inl (invalid Module_removed)
     | Some current \<Rightarrow>
         rbind (validate_module_provenance_immutability current base_module) (\<lambda>_.
         rbind (list_item current ''versions'') (\<lambda>current_versions.
         rbind (rmap (\<lambda>r. rbind (str_item r ''version'') (\<lambda>v. Inr (v, r))) current_versions) (\<lambda>pairs.
         rbind (list_item base_module ''versions'') (\<lambda>base_versions.
         rall (check_release module_id (dict_of pairs)) base_versions)))))"

definition validate_immutability :: "json list \<Rightarrow> json list \<Rightarrow> exn + unit" where
  "validate_immutability current_modules base_modules =
     rbind (rmap (\<lambda>m. rbind (str_item m ''id'') (\<lambda>i. Inr (i, m))) current_modules) (\<lambda>pairs.
     rall (check_module (dict_of pairs)) base_modules)"

section \<open>Facts about the helpers\<close>

lemma case_JStr_Inr [simp]:
  "(case w of JStr s \<Rightarrow> Inr s | _ \<Rightarrow> Inl e) = Inr t \<longleftrightarrow> w = JStr t"
  by (cases w) auto

lemma case_JList_Inr [simp]:
  "(case w of JList xs \<Rightarrow> Inr xs | _ \<Rightarrow> Inl e) = Inr ys \<longleftrightarrow> w = JList ys"
  by (cases w) auto

lemma str_item_Inr_iff [simp]: "str_item v k = Inr s \<longleftrightarrow> get_field v k = Some (JStr s)"
  by (simp add: str_item_def)

lemma list_item_Inr_iff [simp]: "list_item v k = Inr xs \<longleftrightarrow> get_field v k = Some (JList xs)"
  by (simp add: list_item_def)

lemma is_ok_projr: "is_ok m \<longleftrightarrow> m = Inr (projr m)"
  by (cases m) auto

lemma sort_key_map_snd:
  "map snd (py_sorted fst (map (\<lambda>x. (f x, x)) xs)) = py_sorted f xs"
proof -
  have "insort_key fst (f x, x) (map (\<lambda>x. (f x, x)) ys) = map (\<lambda>x. (f x, x)) (insort_key f x ys)" for x ys
    by (induction ys) auto
  then have "py_sorted fst (map (\<lambda>x. (f x, x)) xs) = map (\<lambda>x. (f x, x)) (py_sorted f xs)"
    by (induction xs) auto
  then show ?thesis by (simp add: comp_def)
qed

lemma keyed_rmap:
  assumes "rmap (\<lambda>x. rbind (f x) (\<lambda>k. Inr (k, x))) xs = Inr ps"
  shows "ps = map (\<lambda>x. (projr (f x), x)) xs" and "\<And>x. x \<in> set xs \<Longrightarrow> f x = Inr (projr (f x))"
proof -
  have "ps = map (\<lambda>x. (projr (f x), x)) xs \<and> (\<forall>x \<in> set xs. f x = Inr (projr (f x)))"
    using assms by (induction xs arbitrary: ps) auto
  then show "ps = map (\<lambda>x. (projr (f x), x)) xs" "\<And>x. x \<in> set xs \<Longrightarrow> f x = Inr (projr (f x))" by auto
qed

lemma sorted_by_Inr:
  assumes "sorted_by f xs = Inr ys"
  shows "ys = py_sorted (\<lambda>x. projr (f x)) xs" and "\<And>x. x \<in> set xs \<Longrightarrow> f x = Inr (projr (f x))"
proof -
  from assms obtain ps where ps: "rmap (\<lambda>x. rbind (f x) (\<lambda>k. Inr (k, x))) xs = Inr ps"
    and ys: "ys = map snd (py_sorted fst ps)" by (auto simp: sorted_by_def)
  show "ys = py_sorted (\<lambda>x. projr (f x)) xs"
    unfolding ys keyed_rmap(1) [OF ps] by (rule sort_key_map_snd)
  show "\<And>x. x \<in> set xs \<Longrightarrow> f x = Inr (projr (f x))" by (rule keyed_rmap(2) [OF ps])
qed

lemma sorted_by_ok:
  assumes "\<And>x. x \<in> set xs \<Longrightarrow> is_ok (f x)"
  shows "sorted_by f xs = Inr (py_sorted (\<lambda>x. projr (f x)) xs)"
proof -
  have "rmap (\<lambda>x. rbind (f x) (\<lambda>k. Inr (k, x))) xs = Inr (map (\<lambda>x. (projr (f x), x)) xs)"
    using assms unfolding is_ok_projr by (intro rmap_ok) (metis rbind_simps(2))
  then show ?thesis by (simp add: sorted_by_def sort_key_map_snd)
qed

lemma max_by_Inr:
  assumes "max_by f xs = Inr m"
  shows "m \<in> set xs" and "\<And>x. x \<in> set xs \<Longrightarrow> \<exists>k l. f x = Inr k \<and> f m = Inr l \<and> k \<le> l"
proof -
  from assms obtain ps where ps: "rmap (\<lambda>x. rbind (f x) (\<lambda>k. Inr (k, x))) xs = Inr ps"
    and c: "(case py_max fst ps of None \<Rightarrow> Inl (Raise ValueError (Msg [])) | Some p \<Rightarrow> Inr (snd p)) = Inr m"
    unfolding max_by_def rbind_Inr_iff by blast
  from c obtain p where p: "py_max fst ps = Some p" "m = snd p" by (cases "py_max fst ps") auto
  note keyed = keyed_rmap [OF ps]
  from py_max_SomeD(1) [OF p(1)] keyed(1) obtain y where y: "y \<in> set xs" "p = (projr (f y), y)" by auto
  with p show "m \<in> set xs" by simp
  fix x assume x: "x \<in> set xs"
  then have "(projr (f x), x) \<in> set ps" using keyed(1) by auto
  then have "projr (f x) \<le> projr (f m)" using py_max_SomeD(2) [OF p(1), of "(projr (f x), x)"] p y by simp
  with keyed(2) [OF x] keyed(2) [OF y(1)] p y show "\<exists>k l. f x = Inr k \<and> f m = Inr l \<and> k \<le> l"
    by (metis snd_conv)
qed

lemma max_by_ok:
  assumes "xs \<noteq> []" and "\<And>x. x \<in> set xs \<Longrightarrow> is_ok (f x)"
  shows "\<exists>m. max_by f xs = Inr m"
proof -
  have "rmap (\<lambda>x. rbind (f x) (\<lambda>k. Inr (k, x))) xs = Inr (map (\<lambda>x. (projr (f x), x)) xs)"
    using assms(2) unfolding is_ok_projr by (intro rmap_ok) (metis rbind_simps(2))
  with assms(1) show ?thesis by (auto simp: max_by_def split: option.splits)
qed

section \<open>What validation establishes\<close>

definition release_wf :: "string \<Rightarrow> string \<Rightarrow> json \<Rightarrow> bool" where
  "release_wf mid cls r \<longleftrightarrow>
     (\<exists>v c a u h commit req.
        get_field r ''version'' = Some (JStr v) \<and> fullmatch SEMVER_RE v \<and>
        get_field r ''channel'' = Some (JStr c) \<and> c \<in> set CHANNELS \<and>
        (c = ''stable'' \<longrightarrow> (\<exists>g. semver_fullmatch v = Some g \<and> g_pre g = None)) \<and>
        get_field r ''artifact'' = Some a \<and>
        get_field a ''url'' = Some (JStr u) \<and> is_ok (validate_artifact_url (JStr u) cls mid v) \<and>
        get_field a ''sha256'' = Some (JStr h) \<and> fullmatch SHA256_RE h \<and>
        get_field r ''source_commit'' = Some (JStr commit) \<and> fullmatch COMMIT_RE commit \<and>
        get_field r ''requires'' = Some req \<and> validate_requires req mid = Inr ())"

definition module_wf :: "json \<Rightarrow> bool" where
  "module_wf m \<longleftrightarrow>
     (\<exists>mid cls p pid s vs.
        get_field m ''id'' = Some (JStr mid) \<and> fullmatch MODULE_ID_RE mid \<and> py_len mid \<le> 63 \<and>
        get_field m ''publisher'' = Some p \<and> get_field p ''id'' = Some (JStr pid) \<and>
        (\<exists>n. get_field m ''name'' = Some (JStr n)) \<and>
        (\<exists>l. get_field m ''license'' = Some (JStr l)) \<and>
        get_field m ''classification'' = Some (JStr cls) \<and> cls \<in> set CLASSIFICATIONS \<and>
        get_field m ''source_repository'' = Some (JStr s) \<and>
        get_field m ''versions'' = Some (JList vs) \<and> vs \<noteq> [] \<and>
        (\<forall>r \<in> set vs. release_wf mid cls r) \<and>
        distinct (map (\<lambda>r. get_field r ''version'') vs))"

lemma canonical_id_Inr_iff [simp]:
  "canonical_id v = Inr s \<longleftrightarrow> v = JStr s \<and> py_len s \<le> 63 \<and> fullmatch MODULE_ID_RE s"
  by (cases v) (auto simp: canonical_id_def)

lemma semver_Inr_iff [simp]: "semver v = Inr s \<longleftrightarrow> v = JStr s \<and> fullmatch SEMVER_RE s"
  by (cases v) (auto simp: semver_def)

lemma classification_of_Inr_iff [simp]:
  "classification_of v = Inr s \<longleftrightarrow> v = JStr s \<and> s \<in> set CLASSIFICATIONS"
  by (cases v) (auto simp: classification_of_def)

lemma versions_of_Inr_iff [simp]: "versions_of v = Inr xs \<longleftrightarrow> v = JList xs \<and> xs \<noteq> []"
  by (cases v) (auto simp: versions_of_def)

lemma nonempty_string_str: "nonempty_string v n = Inr u \<Longrightarrow> \<exists>s. v = JStr s"
  by (cases v) (auto simp: nonempty_string_def)

lemma str_in_iff: "str_in v xs \<longleftrightarrow> (\<exists>s. v = JStr s \<and> s \<in> set xs)"
  by (cases v) auto

lemma matches_iff: "matches r v \<longleftrightarrow> (\<exists>s. v = JStr s \<and> fullmatch r s)"
  by (cases v) auto

lemma https_url_str: "https_url v = Inr r \<Longrightarrow> \<exists>s. v = JStr s"
  by (auto simp: https_url_Inr_iff)

lemma semver_groups_exist: "fullmatch SEMVER_RE v \<Longrightarrow> \<exists>g. semver_fullmatch v = Some g"
  unfolding fullmatch_lang lang_SEMVER using semver_fullmatch_Some_iff by blast

lemma validate_release_wf:
  assumes "validate_release r mid cls = Inr u"
  shows "release_wf mid cls r"
proof -
  from assms obtain v c a url h commit req parsed where
    v: "get_field r ''version'' = Some (JStr v)" "fullmatch SEMVER_RE v"
    and c: "get_field r ''channel'' = Some c" "str_in c CHANNELS"
    and st: "c = JStr ''stable'' \<longrightarrow> \<not> (case semver_fullmatch v of None \<Rightarrow> False | Some g \<Rightarrow> g_pre g \<noteq> None)"
    and a: "get_field r ''artifact'' = Some a" "get_field a ''url'' = Some url"
    "validate_artifact_url url cls mid v = Inr parsed"
    and h: "get_field a ''sha256'' = Some h" "matches SHA256_RE h"
    and co: "get_field r ''source_commit'' = Some commit" "matches COMMIT_RE commit"
    and rq: "get_field r ''requires'' = Some req" "validate_requires req mid = Inr ()"
    by (auto simp: validate_release_def)
  from a(3) have "https_url url = Inr parsed" by (rule validate_artifact_url_Inr)
  then obtain u where u: "url = JStr u" using https_url_str by blast
  from c(2) obtain c' where c': "c = JStr c'" "c' \<in> set CHANNELS" by (auto simp: str_in_iff)
  from h(2) obtain h' where h': "h = JStr h'" "fullmatch SHA256_RE h'" by (auto simp: matches_iff)
  from co(2) obtain co' where co': "commit = JStr co'" "fullmatch COMMIT_RE co'" by (auto simp: matches_iff)
  have "c' = ''stable'' \<longrightarrow> (\<exists>g. semver_fullmatch v = Some g \<and> g_pre g = None)"
    using st c' semver_groups_exist [OF v(2)] by auto
  then show ?thesis unfolding release_wf_def
    using v c(1) c' a(1,2) u h(1) h' co(1) co' rq a(3) by (auto simp: is_ok_iff)
qed

lemma validate_versions_wf:
  assumes "validate_versions vs mid cls seen = Inr u"
  shows "(\<forall>r \<in> set vs. release_wf mid cls r) \<and> distinct (map (\<lambda>r. get_field r ''version'') vs)
     \<and> (\<forall>r \<in> set vs. \<forall>w \<in> set seen. get_field r ''version'' \<noteq> Some w)"
  using assms
proof (induction vs arbitrary: seen)
  case Nil
  then show ?case by simp
next
  case (Cons r vs)
  from Cons.prems obtain ver where r: "release_wf mid cls r" "get_field r ''version'' = Some ver"
    and ver: "ver \<notin> set seen" and rest: "validate_versions vs mid cls (ver # seen) = Inr u"
    by (auto dest: validate_release_wf)
  from Cons.IH [OF rest] r ver show ?case by auto
qed

lemma validate_publisher_wf:
  "validate_publisher p = Inr u \<Longrightarrow> \<exists>pid. get_field p ''id'' = Some (JStr pid)"
  by (auto simp: validate_publisher_def)

lemma validate_module_fields:
  assumes "validate_module sch m e = Inr u"
  obtains mid cls p s vs n l where
    "get_field m ''id'' = Some (JStr mid)" "fullmatch MODULE_ID_RE mid" "py_len mid \<le> 63"
    "e = None \<or> e = Some mid"
    "get_field m ''publisher'' = Some p" "validate_publisher p = Inr ()"
    "get_field m ''name'' = Some (JStr n)" "get_field m ''license'' = Some (JStr l)"
    "get_field m ''classification'' = Some (JStr cls)" "cls \<in> set CLASSIFICATIONS"
    "get_field m ''source_repository'' = Some (JStr s)"
    "get_field m ''versions'' = Some (JList vs)" "vs \<noteq> []"
    "validate_versions vs mid cls [] = Inr ()"
proof -
  from assms obtain mid cls p sr src vs nm lc where
    "get_field m ''id'' = Some (JStr mid)" "fullmatch MODULE_ID_RE mid" "py_len mid \<le> 63"
    "e = None \<or> e = Some mid"
    "get_field m ''publisher'' = Some p" "validate_publisher p = Inr ()"
    "get_field m ''name'' = Some nm" "nonempty_string nm 120 = Inr ()"
    "get_field m ''license'' = Some lc" "nonempty_string lc 255 = Inr ()"
    "get_field m ''classification'' = Some (JStr cls)" "cls \<in> set CLASSIFICATIONS"
    "get_field m ''source_repository'' = Some sr" "https_url sr = Inr src"
    "get_field m ''versions'' = Some (JList vs)" "vs \<noteq> []"
    "validate_versions vs mid cls [] = Inr ()"
    unfolding validate_module_def by (elim rbind_Inr_iff [THEN iffD1, elim_format]) auto
  then show thesis using that https_url_str nonempty_string_str by (metis (no_types))
qed

theorem validate_module_wf:
  assumes "validate_module sch m e = Inr u"
  shows "module_wf m"
proof -
  from assms obtain mid cls p s vs n l where
    "get_field m ''id'' = Some (JStr mid)" "fullmatch MODULE_ID_RE mid" "py_len mid \<le> 63"
    "get_field m ''publisher'' = Some p" "validate_publisher p = Inr ()"
    "get_field m ''name'' = Some (JStr n)" "get_field m ''license'' = Some (JStr l)"
    "get_field m ''classification'' = Some (JStr cls)" "cls \<in> set CLASSIFICATIONS"
    "get_field m ''source_repository'' = Some (JStr s)"
    "get_field m ''versions'' = Some (JList vs)" "vs \<noteq> []"
    "validate_versions vs mid cls [] = Inr ()"
    by (rule validate_module_fields)
  then show ?thesis using validate_versions_wf [of vs mid cls "[]" "()"] validate_publisher_wf [of p]
    unfolding module_wf_def by auto
qed

section \<open>Loading returns a valid, strictly sorted registry\<close>

definition mod_id :: "json \<Rightarrow> string" where
  "mod_id m = (case get_field m ''id'' of Some (JStr s) \<Rightarrow> s | _ \<Rightarrow> [])"

lemma mod_id_eq: "get_field m ''id'' = Some (JStr s) \<Longrightarrow> mod_id m = s"
  by (simp add: mod_id_def)

lemma load_modules_ok:
  assumes "load_modules sch files seen = Inr ms"
  shows "(\<forall>m \<in> set ms. validate_module sch m None = Inr () \<and> json_wf m \<and>
            get_field m ''id'' = Some (JStr (mod_id m)))
    \<and> distinct (map mod_id ms) \<and> (\<forall>m \<in> set ms. mod_id m \<notin> set seen)
    \<and> map mod_id ms = map (path_stem \<circ> fst) files"
  using assms
proof (induction files arbitrary: seen ms)
  case Nil
  then show ?case by simp
next
  case (Cons f files)
  obtain name tx where f: "f = (name, tx)" by (cases f)
  from Cons.prems obtain m mid rest where m: "decode_json tx = Inr m" "validate_module sch m None = Inr ()"
    "get_field m ''id'' = Some (JStr mid)" "mid \<notin> set seen" "path_stem name = mid"
    and rest: "load_modules sch files (mid # seen) = Inr rest" and ms: "ms = m # rest"
    by (auto simp: f)
  have mid: "mod_id m = mid" using m(3) by (rule mod_id_eq)
  note ih = Cons.IH [OF rest]
  then have new: "\<forall>m \<in> set rest. mod_id m \<noteq> mid \<and> mod_id m \<notin> set seen"
    by simp
  moreover have "distinct (map mod_id rest)" using ih by blast
  ultimately have "distinct (map mod_id ms)" "\<forall>m \<in> set ms. mod_id m \<notin> set seen"
    using mid m(4) by (auto simp: ms)
  moreover have "map mod_id ms = map (path_stem \<circ> fst) (f # files)" using ih mid m(5) by (simp add: ms f)
  ultimately show ?case using ih m(2,3) decode_json_ok(2) [OF m(1)] mid by (simp add: ms)
qed

lemma sorted_by_id:
  assumes "\<And>m. m \<in> set ms \<Longrightarrow> get_field m ''id'' = Some (JStr (mod_id m))"
  shows "sorted_by (\<lambda>m. str_item m ''id'') ms = Inr (py_sorted mod_id ms)"
proof -
  have ok: "str_item m ''id'' = Inr (mod_id m)" if "m \<in> set ms" for m using assms [OF that] by simp
  then have "sorted_by (\<lambda>m. str_item m ''id'') ms = Inr (py_sorted (\<lambda>m. projr (str_item m ''id'')) ms)"
    by (intro sorted_by_ok) (simp add: is_ok_iff)
  moreover have "py_sorted (\<lambda>m. projr (str_item m ''id'')) ms = py_sorted mod_id ms"
    using ok by (intro py_sorted_cong) (simp del: str_item_Inr_iff)
  ultimately show ?thesis by simp
qed

lemma distinct_map_sort_key: "distinct (map f (py_sorted g xs)) = distinct (map f xs)"
  by (metis mset_eq_imp_distinct_iff mset_map mset_sort)

theorem load_registry_ok:
  assumes "load_registry sch tree = Inr ms"
  shows "\<forall>m \<in> set ms. validate_module sch m None = Inr () \<and> json_wf m"
    and "sorted (map mod_id ms)" and "distinct (map mod_id ms)"
    and "set (map mod_id ms) = set (map (path_stem \<circ> fst) (src_modules tree))"
    and "\<And>m. m \<in> set ms \<Longrightarrow> get_field m ''id'' = Some (JStr (mod_id m))"
proof -
  from assms obtain ns where ns: "load_modules sch (py_sorted fst (src_modules tree)) [] = Inr ns"
    and ms: "sorted_by (\<lambda>m. str_item m ''id'') ns = Inr ms" by (auto simp: load_registry_def)
  note ok = load_modules_ok [OF ns]
  then have "ms = py_sorted mod_id ns" using ms sorted_by_id [of ns] by simp
  with ok show "\<forall>m \<in> set ms. validate_module sch m None = Inr () \<and> json_wf m"
    "sorted (map mod_id ms)" "distinct (map mod_id ms)"
    "\<And>m. m \<in> set ms \<Longrightarrow> get_field m ''id'' = Some (JStr (mod_id m))"
    by (auto simp: distinct_map_sort_key)
  have "set (map mod_id ms) = set (map mod_id ns)" using \<open>ms = py_sorted mod_id ns\<close> by simp
  also have "\<dots> = set (map (path_stem \<circ> fst) (src_modules tree))" using ok by (metis list.set_map set_sort)
  finally show "set (map mod_id ms) = set (map (path_stem \<circ> fst) (src_modules tree))" .
qed

text \<open>The result does not depend on the order in which the directory is listed.\<close>

lemma load_registry_perm:
  assumes "mset (src_modules a) = mset (src_modules b)" and "distinct (map fst (src_modules a))"
    and "src_envelope a = src_envelope b"
  shows "load_registry sch a = load_registry sch b"
proof -
  have "py_sorted fst (src_modules a) = py_sorted fst (src_modules b)"
    using assms(1,2) by (rule py_sorted_fst_perm)
  then show ?thesis by (simp add: load_registry_def assms(3))
qed

section \<open>The index of a valid registry\<close>

lemma release_wf_key:
  "release_wf mid cls r \<Longrightarrow> is_ok (release_key r)"
  by (auto simp: release_wf_def release_key_def is_ok_iff semver_key_total [unfolded is_ok_iff])

lemma current_release_Some:
  assumes "current_release vs ch = Inr (Some (c, j))"
  shows "c = ch \<and> (\<exists>r \<in> set vs. \<exists>v a h. get_field r ''channel'' = Some (JStr ch) \<and>
      get_field r ''version'' = Some v \<and> get_field r ''artifact'' = Some a \<and>
      get_field a ''sha256'' = Some h \<and> j = JObj [(''version'', v), (''sha256'', h)] \<and>
      (\<forall>r' \<in> set vs. get_field r' ''channel'' = Some (JStr ch) \<longrightarrow>
         (\<exists>k l. release_key r' = Inr k \<and> release_key r = Inr l \<and> k \<le> l)))"
proof -
  from assms obtain tagged where
    t: "rmap (\<lambda>r. rbind (getitem r ''channel'') (\<lambda>c. Inr (c, r))) vs = Inr tagged"
    by (auto simp: current_release_def)
  have tagged: "tagged = map (\<lambda>r. (projr (getitem r ''channel''), r)) vs"
    "\<And>r. r \<in> set vs \<Longrightarrow> getitem r ''channel'' = Inr (projr (getitem r ''channel''))"
    using keyed_rmap [OF t] by auto
  define rs where "rs = map snd (filter (\<lambda>(c, r). c = JStr ch) tagged)"
  have rs: "r \<in> set rs \<longleftrightarrow> r \<in> set vs \<and> get_field r ''channel'' = Some (JStr ch)" for r
    using tagged by (auto simp: rs_def image_iff)
  from assms t obtain cur v a h where cur: "max_by release_key rs = Inr cur"
    "get_field cur ''version'' = Some v" "get_field cur ''artifact'' = Some a"
    "get_field a ''sha256'' = Some h" "c = ch" "j = JObj [(''version'', v), (''sha256'', h)]"
    by (auto simp: current_release_def Let_def rs_def split: if_splits)
  from max_by_Inr(1) [OF cur(1)] have "cur \<in> set vs" "get_field cur ''channel'' = Some (JStr ch)"
    by (auto simp: rs)
  with cur max_by_Inr(2) [OF cur(1)] show ?thesis by (auto simp: rs)
qed

lemma current_release_ok:
  assumes "\<forall>r \<in> set vs. release_wf mid cls r"
  shows "\<exists>x. current_release vs ch = Inr x \<and>
     (x = None \<longleftrightarrow> (\<forall>r \<in> set vs. get_field r ''channel'' \<noteq> Some (JStr ch)))"
proof -
  have ch: "getitem r ''channel'' = Inr (projr (getitem r ''channel''))" if "r \<in> set vs" for r
  proof -
    from assms that obtain c where "get_field r ''channel'' = Some (JStr c)" by (auto simp: release_wf_def)
    then have "getitem r ''channel'' = Inr (JStr c)" by simp
    then show ?thesis by (simp del: getitem_Inr_iff)
  qed
  define tagged where "tagged = map (\<lambda>r. (projr (getitem r ''channel''), r)) vs"
  have t: "rmap (\<lambda>r. rbind (getitem r ''channel'') (\<lambda>c. Inr (c, r))) vs = Inr tagged"
    unfolding tagged_def by (intro rmap_ok) (metis ch rbind_simps(2))
  define rs where "rs = map snd (filter (\<lambda>(c, r). c = JStr ch) tagged)"
  have rs: "r \<in> set rs \<longleftrightarrow> r \<in> set vs \<and> get_field r ''channel'' = Some (JStr ch)" for r
    using ch by (auto simp: rs_def tagged_def image_iff)
  show ?thesis
  proof (cases "rs = []")
    case True
    then have "current_release vs ch = Inr None" by (simp add: current_release_def t Let_def rs_def)
    moreover have "\<forall>r \<in> set vs. get_field r ''channel'' \<noteq> Some (JStr ch)"
      using True rs by (metis empty_iff empty_set)
    ultimately show ?thesis by simp
  next
    case False
    have "is_ok (release_key r)" if "r \<in> set rs" for r using that rs assms release_wf_key by blast
    with False obtain cur where cur: "max_by release_key rs = Inr cur" using max_by_ok by blast
    then have "cur \<in> set rs" by (rule max_by_Inr)
    then have in_vs: "cur \<in> set vs" "get_field cur ''channel'' = Some (JStr ch)" by (simp_all add: rs)
    then obtain v a h where "get_field cur ''version'' = Some v" "get_field cur ''artifact'' = Some a"
      "get_field a ''sha256'' = Some h" using assms unfolding release_wf_def by blast
    then have "current_release vs ch = Inr (Some (ch, JObj [(''version'', v), (''sha256'', h)]))"
      using False cur by (simp add: current_release_def t Let_def rs_def)
    with in_vs show ?thesis by blast
  qed
qed

lemma index_entry_ok:
  assumes "module_wf m"
  shows "is_ok (index_entry m)"
proof -
  from assms obtain mid cls vs where m: "get_field m ''id'' = Some (JStr mid)"
    "get_field m ''versions'' = Some (JList vs)" "\<forall>r \<in> set vs. release_wf mid cls r"
    "get_field m ''classification'' = Some (JStr cls)"
    and ne: "get_field m ''publisher'' \<noteq> None" "get_field m ''name'' \<noteq> None"
    unfolding module_wf_def by auto
  have "rmap (current_release vs) CHANNELS = Inr (map (\<lambda>c. projr (current_release vs c)) CHANNELS)"
    using current_release_ok [OF m(3)] by (intro rmap_ok) (metis sum.sel(2))
  with m ne show ?thesis by (auto simp: index_entry_def channel_map_def is_ok_iff)
qed

theorem build_index_total:
  assumes "\<forall>m \<in> set ms. module_wf m"
  shows "(\<exists>index. build_index sch ms = Inr index) \<or> build_index sch ms = Inl (invalid Schema_failed)"
proof -
  have "get_field m ''id'' = Some (JStr (mod_id m))" if "m \<in> set ms" for m
    using assms that by (auto simp: module_wf_def mod_id_eq)
  then have s: "sorted_by (\<lambda>m. str_item m ''id'') ms = Inr (py_sorted mod_id ms)" by (rule sorted_by_id)
  have "rmap index_entry (py_sorted mod_id ms) = Inr (map (\<lambda>m. projr (index_entry m)) (py_sorted mod_id ms))"
    using assms index_entry_ok by (intro rmap_ok) (simp add: is_ok_projr)
  then show ?thesis by (auto simp: build_index_def s Let_def validate_json_schema_def ensure_def)
qed

section \<open>What the index says about a channel\<close>

lemma dict_get_map_filter:
  assumes "rmap f chs = Inr cs" and "\<And>ch c j. f ch = Inr (Some (c, j)) \<Longrightarrow> c = ch"
  shows "dict_get (List.map_filter id cs) ch =
    (if ch \<in> set chs then (case f ch of Inr (Some (c, j)) \<Rightarrow> Some j | _ \<Rightarrow> None) else None)"
  using assms(1)
proof (induction chs arbitrary: cs)
  case Nil
  then show ?case by (simp add: map_filter_def)
next
  case (Cons x chs)
  then obtain y ys where y: "f x = Inr y" and ys: "rmap f chs = Inr ys" and cs: "cs = y # ys" by auto
  note ih = Cons.IH [OF ys]
  show ?case
  proof (cases y)
    case None
    with ih y show ?thesis by (auto simp: cs map_filter_def)
  next
    case (Some p)
    with y assms(2) obtain j where "y = Some (x, j)" by (cases p) auto
    with ih y show ?thesis by (auto simp: cs map_filter_def)
  qed
qed

text \<open>\<open>r\<close> is the newest release of the channel: in it, and no release of it has a larger key.\<close>

definition newest_in :: "json list \<Rightarrow> string \<Rightarrow> json \<Rightarrow> bool" where
  "newest_in vs ch r \<longleftrightarrow>
     r \<in> set vs \<and> get_field r ''channel'' = Some (JStr ch) \<and>
     (\<forall>r' \<in> set vs. get_field r' ''channel'' = Some (JStr ch) \<longrightarrow>
        (\<exists>k l. release_key r' = Inr k \<and> release_key r = Inr l \<and> k \<le> l))"

definition pointer_to :: "json \<Rightarrow> json \<Rightarrow> bool" where
  "pointer_to j r \<longleftrightarrow>
     (\<exists>v a h. get_field r ''version'' = Some v \<and> get_field r ''artifact'' = Some a \<and>
        get_field a ''sha256'' = Some h \<and> j = JObj [(''version'', v), (''sha256'', h)])"

lemma channel_map_pointers:
  assumes "channel_map vs = Inr chs" and "\<forall>r \<in> set vs. release_wf mid cls r"
  shows "case get_field chs ch of
      Some j \<Rightarrow> ch \<in> set CHANNELS \<and> (\<exists>r. newest_in vs ch r \<and> pointer_to j r)
    | None \<Rightarrow> ch \<in> set CHANNELS \<longrightarrow> (\<forall>r \<in> set vs. get_field r ''channel'' \<noteq> Some (JStr ch))"
proof -
  from assms(1) obtain cs where cs: "rmap (current_release vs) CHANNELS = Inr cs"
    and chs: "chs = JObj (List.map_filter id cs)" by (auto simp: channel_map_def)
  have get: "get_field chs ch = (if ch \<in> set CHANNELS then
      (case current_release vs ch of Inr (Some (c, j)) \<Rightarrow> Some j | _ \<Rightarrow> None) else None)"
    using dict_get_map_filter [OF cs] current_release_Some by (simp add: chs)
  from current_release_ok [OF assms(2), of ch] obtain x where x: "current_release vs ch = Inr x"
    "x = None \<longleftrightarrow> (\<forall>r \<in> set vs. get_field r ''channel'' \<noteq> Some (JStr ch))" by blast
  show ?thesis
  proof (cases x)
    case None
    with x get show ?thesis by auto
  next
    case (Some p)
    then obtain c j where p: "x = Some (c, j)" by (cases p) auto
    with x(1) have "current_release vs ch = Inr (Some (c, j))" by simp
    from current_release_Some [OF this] have "\<exists>r. newest_in vs ch r \<and> pointer_to j r"
      unfolding newest_in_def pointer_to_def by blast
    with x(1) p get show ?thesis by auto
  qed
qed

lemma index_entry_fields:
  assumes "index_entry m = Inr e" and "module_wf m"
  obtains vs chs where "get_field e ''id'' = get_field m ''id''"
    "get_field m ''versions'' = Some (JList vs)" "get_field e ''channels'' = Some chs"
    "channel_map vs = Inr chs" "\<exists>mid cls. \<forall>r \<in> set vs. release_wf mid cls r"
proof -
  from assms(1) obtain vs chs mid where "get_field m ''versions'' = Some (JList vs)"
    "channel_map vs = Inr chs" "get_field m ''id'' = Some (JStr mid)"
    "get_field e ''id'' = Some (JStr mid)" "get_field e ''channels'' = Some chs"
    by (auto simp: index_entry_def)
  with assms(2) that show thesis unfolding module_wf_def by force
qed

text \<open>The entry of a module points, per channel, to the newest release of the channel.\<close>

definition indexes :: "json \<Rightarrow> json \<Rightarrow> bool" where
  "indexes m e \<longleftrightarrow> get_field e ''id'' = get_field m ''id'' \<and>
     (\<exists>vs chs. get_field m ''versions'' = Some (JList vs) \<and> get_field e ''channels'' = Some chs \<and>
       (\<forall>ch. case get_field chs ch of
           Some j \<Rightarrow> ch \<in> set CHANNELS \<and> (\<exists>r. newest_in vs ch r \<and> pointer_to j r)
         | None \<Rightarrow> ch \<in> set CHANNELS \<longrightarrow> (\<forall>r \<in> set vs. get_field r ''channel'' \<noteq> Some (JStr ch))))"

lemma index_entry_indexes:
  assumes "index_entry m = Inr e" and "module_wf m"
  shows "indexes m e"
proof -
  from assms obtain vs chs mid cls where "get_field e ''id'' = get_field m ''id''"
    "get_field m ''versions'' = Some (JList vs)" "get_field e ''channels'' = Some chs"
    and ch: "channel_map vs = Inr chs" "\<forall>r \<in> set vs. release_wf mid cls r"
    by (elim index_entry_fields exE)
  then show ?thesis unfolding indexes_def using channel_map_pointers [OF ch] by blast
qed

lemma build_index_entries:
  assumes "build_index sch ms = Inr index" and "\<forall>m \<in> set ms. module_wf m"
  obtains entries where "get_field index ''modules'' = Some (JList entries)"
    "rmap index_entry (py_sorted mod_id ms) = Inr entries" "sch ''registry-v1.schema.json'' index"
proof -
  have "get_field m ''id'' = Some (JStr (mod_id m))" if "m \<in> set ms" for m
    using assms(2) that by (auto simp: module_wf_def mod_id_eq)
  then have s: "sorted_by (\<lambda>m. str_item m ''id'') ms = Inr (py_sorted mod_id ms)" by (rule sorted_by_id)
  from assms(1) that show thesis
    by (auto simp: build_index_def s Let_def validate_json_schema_def)
qed

section \<open>The canonical form of a module\<close>

lemma canonical_module_Inr:
  assumes "canonical_module m = Inr c"
  obtains vs where "get_field m ''versions'' = Some (JList vs)"
    "c = set_field ''versions'' (JList (py_sorted (\<lambda>r. projr (release_key r)) vs)) m"
    "\<forall>r \<in> set vs. is_ok (release_key r)"
proof -
  from assms obtain vs ws where "get_field m ''versions'' = Some (JList vs)"
    "sorted_by release_key vs = Inr ws" "c = set_field ''versions'' (JList ws) m"
    by (auto simp: canonical_module_def)
  with that sorted_by_Inr [of release_key vs ws] show thesis by (auto simp: is_ok_projr)
qed

lemma set_field_twice: "set_field k v (set_field k w j) = set_field k v j"
  by (cases j) (simp_all add: update_triv update_swap map_of_eq_None_iff)

lemma canonical_module_idem:
  assumes "canonical_module m = Inr c"
  shows "canonical_module c = Inr c"
proof -
  from assms obtain vs where vs: "get_field m ''versions'' = Some (JList vs)"
    "c = set_field ''versions'' (JList (py_sorted (\<lambda>r. projr (release_key r)) vs)) m"
    "\<forall>r \<in> set vs. is_ok (release_key r)" by (rule canonical_module_Inr)
  let ?ws = "py_sorted (\<lambda>r. projr (release_key r)) vs"
  have "sorted_by release_key ?ws = Inr ?ws"
    using sorted_by_ok [of ?ws release_key] vs(3) by (simp add: sort_key_id_if_sorted)
  moreover have "get_field c ''versions'' = Some (JList ?ws)"
    using get_field_Some_obj [OF vs(1)] by (simp add: vs(2))
  ultimately show ?thesis by (auto simp: canonical_module_def vs(2) set_field_twice)
qed

lemma canonical_module_ok:
  assumes "module_wf m"
  shows "\<exists>c. canonical_module m = Inr c"
proof -
  from assms obtain vs mid cls where "get_field m ''versions'' = Some (JList vs)"
    "\<forall>r \<in> set vs. release_wf mid cls r" unfolding module_wf_def by blast
  moreover from this(2) have "\<exists>ws. sorted_by release_key vs = Inr ws"
    using sorted_by_ok [of vs release_key] release_wf_key by blast
  ultimately show ?thesis by (auto simp: canonical_module_def)
qed

section \<open>Published history is immutable\<close>

definition registry_wf :: "json list \<Rightarrow> bool" where
  "registry_wf ms \<longleftrightarrow> (\<forall>m \<in> set ms. module_wf m) \<and> distinct (map mod_id ms)"

definition find_module :: "json list \<Rightarrow> string \<Rightarrow> json option" where
  "find_module ms mid = List.find (\<lambda>m. get_field m ''id'' = Some (JStr mid)) ms"

definition find_release :: "json \<Rightarrow> string \<Rightarrow> json option" where
  "find_release m ver =
     (case get_field m ''versions'' of
        Some (JList vs) \<Rightarrow> List.find (\<lambda>r. get_field r ''version'' = Some (JStr ver)) vs
      | _ \<Rightarrow> None)"

definition artifact_field :: "json \<Rightarrow> string \<Rightarrow> json option" where
  "artifact_field r k = Option.bind (get_field r ''artifact'') (\<lambda>a. get_field a k)"

lemma find_unique:
  assumes "distinct (map f xs)" and "x \<in> set xs" and "f x = y"
  shows "List.find (\<lambda>z. f z = y) xs = Some x"
  using assms by (induction xs) (auto simp: image_iff)

lemma find_module_iff:
  assumes "registry_wf ms"
  shows "find_module ms mid = Some m \<longleftrightarrow> m \<in> set ms \<and> get_field m ''id'' = Some (JStr mid)"
proof -
  have id: "get_field m ''id'' = Some (JStr (mod_id m))" if "m \<in> set ms" for m
    using assms that by (auto simp: registry_wf_def module_wf_def mod_id_eq)
  have "find_module ms mid = List.find (\<lambda>m. mod_id m = mid) ms"
    unfolding find_module_def using id by (intro find_cong) auto
  then show ?thesis using find_unique [of mod_id ms m mid] assms id
    by (auto simp: registry_wf_def dest: find_SomeD)
qed

lemma find_release_iff:
  assumes "module_wf m"
  shows "find_release m ver = Some r \<longleftrightarrow>
    (\<exists>vs. get_field m ''versions'' = Some (JList vs) \<and> r \<in> set vs) \<and> get_field r ''version'' = Some (JStr ver)"
proof -
  from assms obtain vs where vs: "get_field m ''versions'' = Some (JList vs)"
    "distinct (map (\<lambda>r. get_field r ''version'') vs)" unfolding module_wf_def by blast
  then show ?thesis using find_unique [OF vs(2), of r "Some (JStr ver)"]
    by (auto simp: find_release_def dest: find_SomeD)
qed

lemma dict_of_keyed:
  assumes "rmap (\<lambda>r. rbind (str_item r k) (\<lambda>v. Inr (v, r))) xs = Inr ps"
    and "distinct (map (\<lambda>r. get_field r k) xs)"
  shows "dict_get (dict_of ps) s = List.find (\<lambda>r. get_field r k = Some (JStr s)) xs"
proof -
  have ps: "ps = map (\<lambda>x. (projr (str_item x k), x)) xs"
    and ok: "\<And>x. x \<in> set xs \<Longrightarrow> get_field x k = Some (JStr (projr (str_item x k)))"
    using keyed_rmap [OF assms(1)] by auto
  have "distinct (map fst ps)"
    using assms(2) ok by (auto simp: ps distinct_map inj_on_def)
  then have "dict_get (dict_of ps) s = map_of ps s" by (rule dict_get_dict_of_distinct)
  also have "\<dots> = List.find (\<lambda>r. get_field r k = Some (JStr s)) xs"
    unfolding ps using ok by (induction xs) auto
  finally show ?thesis .
qed

lemma check_module_find:
  assumes "check_module (dict_of pairs) b = Inr ()"
    and "rmap (\<lambda>m. rbind (str_item m ''id'') (\<lambda>i. Inr (i, m))) cur = Inr pairs"
    and "registry_wf cur" and "get_field b ''id'' = Some (JStr mid)"
  obtains c where "find_module cur mid = Some c"
    "validate_module_provenance_immutability c b = Inr ()"
    "\<And>r ver bvs. get_field b ''versions'' = Some (JList bvs) \<Longrightarrow> r \<in> set bvs \<Longrightarrow>
       get_field r ''version'' = Some (JStr ver) \<Longrightarrow>
       \<exists>r'. find_release c ver = Some r' \<and> (py_eq r' r \<or> is_mirror_promotion mid r' r = Inr True)"
proof -
  have "get_field m ''id'' = Some (JStr (mod_id m))" if "m \<in> set cur" for m
    using assms(3) that by (auto simp: registry_wf_def module_wf_def mod_id_eq)
  then have d: "distinct (map (\<lambda>m. get_field m ''id'') cur)"
    using assms(3) by (auto simp: registry_wf_def distinct_map inj_on_def)
  from assms(1,4) obtain c cvs ps bvs where c: "dict_get (dict_of pairs) mid = Some c"
    "validate_module_provenance_immutability c b = Inr ()"
    "get_field c ''versions'' = Some (JList cvs)"
    "rmap (\<lambda>r. rbind (str_item r ''version'') (\<lambda>v. Inr (v, r))) cvs = Inr ps"
    "get_field b ''versions'' = Some (JList bvs)"
    "\<forall>r \<in> set bvs. check_release mid (dict_of ps) r = Inr ()"
    by (auto simp: check_module_def split: option.splits)
  from c(1) have f: "find_module cur mid = Some c"
    by (simp add: find_module_def dict_of_keyed [OF assms(2) d])
  with assms(3) have "module_wf c" by (auto simp: find_module_iff registry_wf_def)
  then have dc: "distinct (map (\<lambda>r. get_field r ''version'') cvs)" using c(3) unfolding module_wf_def by auto
  show thesis
  proof (rule that [OF f c(2)])
    fix r ver ws
    assume "get_field b ''versions'' = Some (JList ws)" "r \<in> set ws" "get_field r ''version'' = Some (JStr ver)"
    with c(5,6) have "check_release mid (dict_of ps) r = Inr ()" "get_field r ''version'' = Some (JStr ver)" by auto
    then show "\<exists>r'. find_release c ver = Some r' \<and> (py_eq r' r \<or> is_mirror_promotion mid r' r = Inr True)"
      using c(3) by (auto simp: check_release_def find_release_def dict_of_keyed [OF c(4) dc]
          split: option.splits if_splits)
  qed
qed

text \<open>What an accepted change keeps of a published release.\<close>

definition same_release :: "string \<Rightarrow> json \<Rightarrow> json \<Rightarrow> bool" where
  "same_release mid r' r \<longleftrightarrow>
     (\<forall>k \<in> {''version'', ''channel'', ''source_commit''}. get_field r' k = get_field r k) \<and>
     artifact_field r' ''sha256'' = artifact_field r ''sha256'' \<and>
     (artifact_field r' ''url'' = artifact_field r ''url'' \<or>
      (\<exists>ver. get_field r ''version'' = Some (JStr ver) \<and>
         artifact_field r' ''url'' = Some (JStr (mirror_url mid ver))))"

lemma release_wf_strings:
  assumes "release_wf mid cls r"
  shows "\<exists>s. get_field r ''version'' = Some (JStr s)" "\<exists>s. get_field r ''channel'' = Some (JStr s)"
    "\<exists>s. get_field r ''source_commit'' = Some (JStr s)"
    "\<exists>a h u. get_field r ''artifact'' = Some a \<and> get_field a ''sha256'' = Some (JStr h) \<and>
       get_field a ''url'' = Some (JStr u)"
  using assms unfolding release_wf_def by blast+

lemma py_eq_same_release:
  assumes "py_eq r' r" and "release_wf mid cls r'"
  shows "same_release mid r' r"
proof -
  have f: "get_field r' k = get_field r k" if "\<exists>s. get_field r' k = Some (JStr s)" for k
    using that py_eq_str_field [OF assms(1)] by fastforce
  from release_wf_strings(4) [OF assms(2)] obtain a h u where a: "get_field r' ''artifact'' = Some a"
    "get_field a ''sha256'' = Some (JStr h)" "get_field a ''url'' = Some (JStr u)" by blast
  from py_eq_obj_field [OF assms(1) a(1)] obtain w where w: "get_field r ''artifact'' = Some w" "py_eq a w"
    by blast
  from py_eq_str_field [OF w(2)] a(2,3) have "get_field w ''sha256'' = Some (JStr h)"
    "get_field w ''url'' = Some (JStr u)" by simp_all
  with a w f release_wf_strings(1-3) [OF assms(2)] show ?thesis
    by (auto simp: same_release_def artifact_field_def)
qed

lemma is_mirror_promotion_True:
  assumes "is_mirror_promotion mid r' r = Inr True"
  obtains ver pa pu split a where
    "get_field r ''version'' = Some (JStr ver)" "get_field r ''artifact'' = Some pa"
    "get_field pa ''url'' = Some (JStr pu)" "urlsplit pu = Inr split" "hostname split = Some ''github.com''"
    "get_field r' ''artifact'' = Some a" "get_field a ''url'' = Some (JStr (mirror_url mid ver))"
    "py_eq (set_field ''artifact'' (set_field ''url'' (JStr pu) a) r') r"
  using assms by (auto simp: is_mirror_promotion_def py_eq_JStr2 Let_def split: if_splits)

lemma mirror_promotion_same_release:
  assumes "is_mirror_promotion mid r' r = Inr True" and "release_wf mid cls r'"
  shows "same_release mid r' r"
proof -
  from assms(1) obtain ver pa pu split a where
    r: "get_field r ''version'' = Some (JStr ver)" "get_field r ''artifact'' = Some pa"
    and a: "get_field r' ''artifact'' = Some a" "get_field a ''url'' = Some (JStr (mirror_url mid ver))"
    and eq: "py_eq (set_field ''artifact'' (set_field ''url'' (JStr pu) a) r') r"
    by (rule is_mirror_promotion_True)
  have obj: "is_obj r'" "is_obj a" using a by (auto dest: get_field_Some_obj)
  have f: "get_field r' k = get_field r k" if "\<exists>s. get_field r' k = Some (JStr s)" "k \<noteq> ''artifact''" for k
    using that py_eq_str_field [OF eq, of k] obj by fastforce
  from release_wf_strings(4) [OF assms(2)] a(1) obtain h where h: "get_field a ''sha256'' = Some (JStr h)" by auto
  from py_eq_obj_field [OF eq, of "''artifact''"] obj r(2)
  have "py_eq (set_field ''url'' (JStr pu) a) pa" by simp
  from py_eq_str_field [OF this, of "''sha256''" h] obj h have "get_field pa ''sha256'' = Some (JStr h)" by simp
  with a r h f release_wf_strings(1-3) [OF assms(2)] show ?thesis
    by (auto simp: same_release_def artifact_field_def)
qed

lemma same_release_trans:
  "same_release mid c b \<Longrightarrow> same_release mid b a \<Longrightarrow> same_release mid c a"
  unfolding same_release_def by auto

definition provenance :: "json \<Rightarrow> json option list" where
  "provenance m = Option.bind (get_field m ''publisher'') (\<lambda>p. get_field p ''id'')
     # map (get_field m) PROTECTED_MODULE_FIELDS"

lemma provenance_kept:
  assumes "validate_module_provenance_immutability c b = Inr ()" and "module_wf b"
  shows "provenance c = provenance b"
  using assms by (auto simp: validate_module_provenance_immutability_def PROTECTED_MODULE_FIELDS_def
      module_wf_def provenance_def py_eq_JStr2)

lemma immutability_step:
  assumes "validate_immutability cur base = Inr ()" and "registry_wf cur" and "registry_wf base"
    and "find_module base mid = Some b"
  obtains c where "find_module cur mid = Some c" "provenance c = provenance b"
    "\<And>ver r. find_release b ver = Some r \<Longrightarrow> \<exists>r'. find_release c ver = Some r' \<and> same_release mid r' r"
proof -
  from assms(3,4) have b: "b \<in> set base" "get_field b ''id'' = Some (JStr mid)" "module_wf b"
    by (auto simp: find_module_iff registry_wf_def)
  from assms(1) b(1) obtain pairs where
    p: "rmap (\<lambda>m. rbind (str_item m ''id'') (\<lambda>i. Inr (i, m))) cur = Inr pairs"
    "check_module (dict_of pairs) b = Inr ()" by (auto simp: validate_immutability_def)
  obtain c where c: "find_module cur mid = Some c" "validate_module_provenance_immutability c b = Inr ()"
    "\<And>r ver bvs. get_field b ''versions'' = Some (JList bvs) \<Longrightarrow> r \<in> set bvs \<Longrightarrow>
       get_field r ''version'' = Some (JStr ver) \<Longrightarrow>
       \<exists>r'. find_release c ver = Some r' \<and> (py_eq r' r \<or> is_mirror_promotion mid r' r = Inr True)"
    by (rule check_module_find [OF p(2,1) assms(2) b(2)]) blast
  from c(1) assms(2) have cw: "module_wf c" "get_field c ''id'' = Some (JStr mid)"
    by (auto simp: find_module_iff registry_wf_def)
  have "\<exists>r'. find_release c ver = Some r' \<and> same_release mid r' r" if "find_release b ver = Some r" for ver r
  proof -
    from that b(3) obtain vs where vs: "get_field b ''versions'' = Some (JList vs)" "r \<in> set vs"
      "get_field r ''version'' = Some (JStr ver)" by (auto simp: find_release_iff)
    from c(3) [OF vs] obtain r' where r': "find_release c ver = Some r'"
      "py_eq r' r \<or> is_mirror_promotion mid r' r = Inr True" by blast
    from r'(1) cw obtain cls where "release_wf mid cls r'"
      by (auto simp: find_release_iff) (auto simp: module_wf_def)
    with r' show ?thesis using py_eq_same_release mirror_promotion_same_release by blast
  qed
  with that c provenance_kept [OF c(2) b(3)] show thesis by blast
qed

text \<open>
  The history of the published registry: the first version is any valid registry, and every later
  one was accepted by \<open>validate_immutability\<close> against the one before.
\<close>

inductive history :: "json list \<Rightarrow> json list \<Rightarrow> bool" where
  start: "registry_wf ms \<Longrightarrow> history ms ms"
| accept: "history base cur \<Longrightarrow> registry_wf next \<Longrightarrow> validate_immutability next cur = Inr () \<Longrightarrow> history base next"

lemma history_wf: "history base cur \<Longrightarrow> registry_wf base \<and> registry_wf cur"
  by (induction rule: history.induct) auto

lemma same_release_refl: "same_release mid r r"
  by (simp add: same_release_def)

lemma history_keeps:
  assumes "history base cur" and "find_module base mid = Some b"
  shows "\<exists>c. find_module cur mid = Some c \<and> provenance c = provenance b \<and>
    (\<forall>ver r. find_release b ver = Some r \<longrightarrow> (\<exists>r'. find_release c ver = Some r' \<and> same_release mid r' r))"
  using assms
proof (induction rule: history.induct)
  case (start ms)
  then show ?case using same_release_refl by blast
next
  case (accept base cur nxt)
  then obtain c where c: "find_module cur mid = Some c" "provenance c = provenance b"
    "\<And>ver r. find_release b ver = Some r \<Longrightarrow> \<exists>r'. find_release c ver = Some r' \<and> same_release mid r' r"
    by blast
  obtain d where d: "find_module nxt mid = Some d" "provenance d = provenance c"
    "\<And>ver r. find_release c ver = Some r \<Longrightarrow> \<exists>r'. find_release d ver = Some r' \<and> same_release mid r' r"
    by (rule immutability_step [OF accept.hyps(3,2) _ c(1)]) (use history_wf [OF accept.hyps(1)] in blast)+
  from c d show ?case using same_release_trans by metis
qed

text \<open>Conversely, adding releases and modules and keeping the rest verbatim is always accepted.\<close>

fun no_nan :: "json \<Rightarrow> bool" where
  "no_nan (JFloat r) = (r \<noteq> ''nan'')"
| "no_nan (JList xs) = (\<forall>x \<in> set xs. no_nan x)"
| "no_nan (JObj d) = (\<forall>p \<in> set d. no_nan (snd p))"
| "no_nan _ = True"

lemma py_eq_refl: "json_wf x \<Longrightarrow> no_nan x \<Longrightarrow> py_eq x x"
proof (induction x)
  case (JFloat r)
  then show ?case by (simp add: py_eq.simps [of "JFloat r"])
next
  case (JList xs)
  then show ?case by (auto simp: in_set_zip)
next
  case (JObj d)
  have "py_eq (snd p) w" if "p \<in> set d" "dict_get d (fst p) = Some w" for p w
  proof -
    have "w = snd p" using that JObj.prems by (metis eq_key_imp_eq_value json_wf.simps(2) map_of_SomeD prod.collapse)
    moreover have "json_wf (snd p) \<Longrightarrow> no_nan (snd p) \<Longrightarrow> py_eq (snd p) (snd p)"
      using JObj.IH [OF that(1), of "snd p"] by (cases p) simp
    ultimately show ?thesis using that(1) JObj.prems by simp
  qed
  moreover have "dict_get d (fst p) \<noteq> None" if "p \<in> set d" for p
    using that by (auto simp: map_of_eq_None_iff)
  ultimately show ?case by (fastforce split: option.splits)
qed simp_all

definition extends :: "json \<Rightarrow> json \<Rightarrow> bool" where
  "extends c b \<longleftrightarrow> get_field c ''id'' = get_field b ''id'' \<and> provenance c = provenance b \<and>
     (\<forall>ver r. find_release b ver = Some r \<longrightarrow> find_release c ver = Some r)"

lemma provenance_accepted:
  assumes "provenance c = provenance b" and "module_wf b" and "module_wf c"
  shows "validate_module_provenance_immutability c b = Inr ()"
  using assms by (auto simp: validate_module_provenance_immutability_def PROTECTED_MODULE_FIELDS_def
      module_wf_def provenance_def py_eq_JStr2)

lemma keyed_ok:
  assumes "\<And>x. x \<in> set xs \<Longrightarrow> \<exists>s. get_field x k = Some (JStr s)"
  shows "\<exists>ps. rmap (\<lambda>r. rbind (str_item r k) (\<lambda>v. Inr (v, r))) xs = Inr ps"
proof -
  have "str_item x k = Inr (projr (str_item x k))" if "x \<in> set xs" for x
    using assms [OF that] by (metis str_item_Inr_iff sum.sel(2))
  then have "rmap (\<lambda>r. rbind (str_item r k) (\<lambda>v. Inr (v, r))) xs = Inr (map (\<lambda>x. (projr (str_item x k), x)) xs)"
    by (intro rmap_ok) (metis rbind_simps(2))
  then show ?thesis by blast
qed

lemma check_module_extends:
  assumes "registry_wf cur" and "c \<in> set cur" and "extends c b" and "module_wf b" and "json_wf b" and "no_nan b"
    and p: "rmap (\<lambda>m. rbind (str_item m ''id'') (\<lambda>i. Inr (i, m))) cur = Inr pairs"
  shows "check_module (dict_of pairs) b = Inr ()"
proof -
  have idf: "get_field m ''id'' = Some (JStr (mod_id m))" if "m \<in> set cur" for m
    using assms(1) that by (auto simp: registry_wf_def module_wf_def mod_id_eq)
  then have d: "distinct (map (\<lambda>m. get_field m ''id'') cur)"
    using assms(1) by (auto simp: registry_wf_def distinct_map inj_on_def)
  have cw: "module_wf c" using assms(1,2) by (simp add: registry_wf_def)
  from cw obtain cvs where cvs: "get_field c ''versions'' = Some (JList cvs)"
    "distinct (map (\<lambda>r. get_field r ''version'') cvs)"
    "\<And>r. r \<in> set cvs \<Longrightarrow> \<exists>s. get_field r ''version'' = Some (JStr s)"
    unfolding module_wf_def release_wf_def by blast
  then obtain ps where ps: "rmap (\<lambda>r. rbind (str_item r ''version'') (\<lambda>v. Inr (v, r))) cvs = Inr ps"
    using keyed_ok by blast
  from assms(4) obtain bvs where bvs: "get_field b ''versions'' = Some (JList bvs)"
    "\<And>r. r \<in> set bvs \<Longrightarrow> \<exists>s. get_field r ''version'' = Some (JStr s)"
    unfolding module_wf_def release_wf_def by blast
  from assms(2) idf obtain mid where mid: "get_field c ''id'' = Some (JStr mid)" by blast
  with assms(3) have bid: "get_field b ''id'' = Some (JStr mid)" by (simp add: extends_def)
  have "dict_get (dict_of pairs) mid = Some c"
    unfolding dict_of_keyed [OF p d] using assms(1,2) mid by (metis find_module_def find_module_iff)
  moreover have "check_release mid (dict_of ps) r = Inr ()" if r: "r \<in> set bvs" for r
  proof -
    from bvs(2) [OF r] obtain v where v: "get_field r ''version'' = Some (JStr v)" by blast
    have "find_release b v = Some r" using assms(4) bvs(1) r v by (simp add: find_release_iff)
    then have "find_release c v = Some r" using assms(3) by (simp add: extends_def)
    then have "dict_get (dict_of ps) v = Some r"
      by (simp add: find_release_def cvs(1) dict_of_keyed [OF ps cvs(2)])
    moreover have "py_eq r r" using r bvs(1) assms(5,6)
      by (cases b) (auto intro!: py_eq_refl dest!: map_of_SomeD)
    ultimately show ?thesis using v by (simp add: check_release_def)
  qed
  ultimately show ?thesis using bid bvs cvs ps provenance_accepted [OF _ assms(4) cw] assms(3)
    by (simp add: check_module_def extends_def)
qed

lemma validate_immutability_extends:
  assumes "registry_wf cur" and "\<forall>b \<in> set base. module_wf b \<and> json_wf b \<and> no_nan b"
    and "\<forall>b \<in> set base. \<exists>c \<in> set cur. extends c b"
  shows "validate_immutability cur base = Inr ()"
proof -
  have "\<exists>s. get_field m ''id'' = Some (JStr s)" if "m \<in> set cur" for m
    using assms(1) that by (auto simp: registry_wf_def module_wf_def)
  then obtain pairs where p: "rmap (\<lambda>m. rbind (str_item m ''id'') (\<lambda>i. Inr (i, m))) cur = Inr pairs"
    using keyed_ok by blast
  have "check_module (dict_of pairs) b = Inr ()" if "b \<in> set base" for b
    using that assms check_module_extends [OF assms(1) _ _ _ _ _ p] by blast
  with p show ?thesis by (simp add: validate_immutability_def)
qed

end
