(* ===== verification/Effects.thy ===== *)
theory Effects
  imports Json
begin

text \<open>
  Statements with effects: an operation takes the state and returns a result or an exception
  together with the new state, which persists when the operation raises. \<open>ebind\<close> is sequencing,
  \<open>ecatch\<close> is \<open>try ... except\<close>, \<open>efinally\<close> is \<open>try ... finally\<close>. The rules in \<open>eff_simps\<close> turn the
  outcome of a composed operation into the outcomes of its parts, and \<open>keeps\<close> is the relation of
  an operation to what it leaves unchanged, closed under the combinators.
\<close>

named_theorems eff_simps
named_theorems keeps_intros

type_synonym ('s, 'a) op = "'s \<Rightarrow> (exn + 'a) \<times> 's"

definition eret :: "'a \<Rightarrow> ('s, 'a) op" where
  "eret x s = (Inr x, s)"

definition eraise :: "exn \<Rightarrow> ('s, 'a) op" where
  "eraise e s = (Inl e, s)"

definition elift :: "exn + 'a \<Rightarrow> ('s, 'a) op" where
  "elift r s = (r, s)"

definition ebind :: "('s, 'a) op \<Rightarrow> ('a \<Rightarrow> ('s, 'b) op) \<Rightarrow> ('s, 'b) op" where
  "ebind m f s = (case m s of (Inl e, t) \<Rightarrow> (Inl e, t) | (Inr x, t) \<Rightarrow> f x t)"

definition ecatch :: "('s, 'a) op \<Rightarrow> (exn \<Rightarrow> ('s, 'a) op) \<Rightarrow> ('s, 'a) op" where
  "ecatch m h s = (case m s of (Inl e, t) \<Rightarrow> h e t | (Inr x, t) \<Rightarrow> (Inr x, t))"

definition efinally :: "('s, 'a) op \<Rightarrow> ('s, unit) op \<Rightarrow> ('s, 'a) op" where
  "efinally m c s = (case m s of (r, t) \<Rightarrow> case c t of (Inl e, u) \<Rightarrow> (Inl e, u) | (Inr _, u) \<Rightarrow> (r, u))"

definition eget :: "('s \<Rightarrow> 'a) \<Rightarrow> ('s, 'a) op" where
  "eget f s = (Inr (f s), s)"

definition emodify :: "('s \<Rightarrow> 's) \<Rightarrow> ('s, unit) op" where
  "emodify f s = (Inr (), f s)"

definition eensure :: "bool \<Rightarrow> exn \<Rightarrow> ('s, unit) op" where
  "eensure b e s = (if b then (Inr (), s) else (Inl e, s))"

primrec emap :: "('a \<Rightarrow> ('s, 'b) op) \<Rightarrow> 'a list \<Rightarrow> ('s, 'b list) op" where
  "emap f [] = eret []"
| "emap f (x # xs) = ebind (f x) (\<lambda>y. ebind (emap f xs) (\<lambda>ys. eret (y # ys)))"

lemma eret_iff [simp, eff_simps]: "eret x s = (r, t) \<longleftrightarrow> r = Inr x \<and> t = s"
  by (auto simp: eret_def)

lemma eraise_iff [simp, eff_simps]: "eraise e s = (r, t) \<longleftrightarrow> r = Inl e \<and> t = s"
  by (auto simp: eraise_def)

lemma elift_iff [simp, eff_simps]: "elift q s = (r, t) \<longleftrightarrow> q = r \<and> t = s"
  by (auto simp: elift_def)

lemma eget_iff [simp, eff_simps]: "eget f s = (r, t) \<longleftrightarrow> r = Inr (f s) \<and> t = s"
  by (auto simp: eget_def)

lemma emodify_iff [simp, eff_simps]: "emodify f s = (r, t) \<longleftrightarrow> r = Inr () \<and> t = f s"
  by (auto simp: emodify_def)

lemma eensure_iff [simp, eff_simps]:
  "eensure b e s = (Inr v, t) \<longleftrightarrow> b \<and> t = s"
  "eensure b e s = (Inl e', t) \<longleftrightarrow> \<not> b \<and> e' = e \<and> t = s"
  by (auto simp: eensure_def)

lemma ebind_Inr [simp, eff_simps]:
  "ebind m f s = (Inr y, u) \<longleftrightarrow> (\<exists>x t. m s = (Inr x, t) \<and> f x t = (Inr y, u))"
  by (auto simp: ebind_def split: prod.splits sum.splits)

lemma ebind_Inl [eff_simps]:
  "ebind m f s = (Inl e, u) \<longleftrightarrow> m s = (Inl e, u) \<or> (\<exists>x t. m s = (Inr x, t) \<and> f x t = (Inl e, u))"
  by (auto simp: ebind_def split: prod.splits sum.splits)

lemma ecatch_Inr [eff_simps]:
  "ecatch m h s = (Inr y, u) \<longleftrightarrow> m s = (Inr y, u) \<or> (\<exists>e t. m s = (Inl e, t) \<and> h e t = (Inr y, u))"
  by (auto simp: ecatch_def split: prod.splits sum.splits)

lemma ecatch_Inl [eff_simps]:
  "ecatch m h s = (Inl e, u) \<longleftrightarrow> (\<exists>e' t. m s = (Inl e', t) \<and> h e' t = (Inl e, u))"
  by (auto simp: ecatch_def split: prod.splits sum.splits)

lemma efinally_Inr [eff_simps]:
  "efinally m c s = (Inr y, u) \<longleftrightarrow> (\<exists>t. m s = (Inr y, t) \<and> c t = (Inr (), u))"
  by (auto simp: efinally_def split: prod.splits sum.splits)

text \<open>\<open>keeps R m\<close>: whatever the outcome, the state after \<open>m\<close> is related by \<open>R\<close> to the one before.\<close>

definition keeps :: "('s \<Rightarrow> 's \<Rightarrow> bool) \<Rightarrow> ('s, 'a) op \<Rightarrow> bool" where
  "keeps R m \<longleftrightarrow> (\<forall>s. R s (snd (m s)))"

lemma keepsD: "keeps R m \<Longrightarrow> m s = (r, t) \<Longrightarrow> R s t"
  by (metis keeps_def snd_conv)

lemma keeps_pure [keeps_intros]:
  assumes "reflp R"
  shows "keeps R (eret x)" "keeps R (eraise e)" "keeps R (elift q)" "keeps R (eget f)" "keeps R (eensure b e)"
  using assms
  by (auto simp: keeps_def eret_def eraise_def elift_def eget_def eensure_def reflp_def)

lemma keeps_ebind [keeps_intros]:
  assumes "transp R" and "keeps R m" and "\<And>x. keeps R (f x)"
  shows "keeps R (ebind m f)"
  using assms unfolding keeps_def ebind_def transp_def
  by (auto split: prod.splits sum.splits) (metis snd_conv)+

lemma keeps_ecatch [keeps_intros]:
  assumes "transp R" and "keeps R m" and "\<And>e. keeps R (h e)"
  shows "keeps R (ecatch m h)"
  using assms unfolding keeps_def ecatch_def transp_def
  by (auto split: prod.splits sum.splits) (metis snd_conv)+

lemma keeps_efinally [keeps_intros]:
  assumes "transp R" and "keeps R m" and "keeps R c"
  shows "keeps R (efinally m c)"
  using assms unfolding keeps_def efinally_def transp_def
  by (auto split: prod.splits sum.splits) (metis snd_conv)+

lemma keeps_emap [keeps_intros]:
  assumes "reflp R" and "transp R" and "\<And>x. keeps R (f x)"
  shows "keeps R (emap f xs)"
  using assms by (induction xs) (auto intro!: keeps_intros)

lemma keeps_cases [keeps_intros]:
  "(b \<Longrightarrow> keeps R m) \<Longrightarrow> (\<not> b \<Longrightarrow> keeps R n) \<Longrightarrow> keeps R (if b then m else n)"
  "(\<And>x y. keeps R (f x y)) \<Longrightarrow> keeps R (case p of (x, y) \<Rightarrow> f x y)"
  "keeps R m \<Longrightarrow> (\<And>x. keeps R (g x)) \<Longrightarrow> keeps R (case q of None \<Rightarrow> m | Some x \<Rightarrow> g x)"
  by (auto split: prod.splits option.splits)

lemma eq_preorder: "reflp (=)" "transp (=)"
  by (auto simp: reflp_def transp_def)

text \<open>An operation that never changes the state.\<close>

definition readonly :: "('s, 'a) op \<Rightarrow> bool" where
  "readonly m \<longleftrightarrow> keeps (=) m"

lemma readonlyD: "readonly m \<Longrightarrow> m s = (r, t) \<Longrightarrow> t = s"
  unfolding readonly_def by (auto dest: keepsD)

text \<open>\<open>raises P m\<close>: every exception of \<open>m\<close> satisfies \<open>P\<close>.\<close>

named_theorems raises_intros

definition raises :: "(exn \<Rightarrow> bool) \<Rightarrow> ('s, 'a) op \<Rightarrow> bool" where
  "raises P m \<longleftrightarrow> (\<forall>s e t. m s = (Inl e, t) \<longrightarrow> P e)"

lemma raises_pure [raises_intros]:
  "raises P (eret x)" "raises P (eget f)" "raises P (emodify g)"
  "P e \<Longrightarrow> raises P (eraise e)"
  "(\<And>e. q = Inl e \<Longrightarrow> P e) \<Longrightarrow> raises P (elift q)"
  "(\<not> b \<Longrightarrow> P e) \<Longrightarrow> raises P (eensure b e)"
  by (auto simp: raises_def)

lemma raises_ebind [raises_intros]:
  "raises P m \<Longrightarrow> (\<And>x. raises P (f x)) \<Longrightarrow> raises P (ebind m f)"
  unfolding raises_def ebind_Inl by blast

lemma raises_ecatch:
  "raises Q m \<Longrightarrow> (\<And>e. Q e \<Longrightarrow> raises P (h e)) \<Longrightarrow> raises P (ecatch m h)"
  unfolding raises_def ecatch_Inl by blast

lemma raises_efinally [raises_intros]:
  "raises P m \<Longrightarrow> raises P c \<Longrightarrow> raises P (efinally m c)"
  unfolding raises_def efinally_def by (auto split: prod.splits sum.splits) blast+

lemma raises_cases [raises_intros]:
  "(b \<Longrightarrow> raises P m) \<Longrightarrow> (\<not> b \<Longrightarrow> raises P n) \<Longrightarrow> raises P (if b then m else n)"
  "(\<And>x y. raises P (f x y)) \<Longrightarrow> raises P (case p of (x, y) \<Rightarrow> f x y)"
  "raises P m \<Longrightarrow> (\<And>x. raises P (g x)) \<Longrightarrow> raises P (case q of None \<Rightarrow> m | Some x \<Rightarrow> g x)"
  by (auto split: prod.splits option.splits)

end
