(* ===== verification/Artifact_Store.thy ===== *)
theory Artifact_Store
  imports Registry Effects
begin

text \<open>
  The immutable artifact store, \<open>scripts/artifact_store.py\<close>: identities and locations, the walk
  with pinned descriptors, \<open>publish\<close>, \<open>verify\<close>, \<open>exists\<close> and \<open>health\<close> of \<open>FilesystemArtifactStore\<close>
  over a model of the POSIX calls it makes. A file system is a table of inodes; a descriptor is an
  inode number; \<open>mkdir\<close>, \<open>open\<close>, \<open>link\<close> and \<open>unlink\<close> raise the exceptions Python maps \<open>errno\<close> to.
  A symbolic link carries its resolved target. SHA-256 is the parameter \<open>H\<close> (every theorem holds for
  any digest function) and the random file name is the parameter \<open>u\<close>. \<open>fsync\<close> has no effect on the
  state of the model.
\<close>

section \<open>Data\<close>

record stored_artifact =
  sa_module_id :: string
  sa_version :: string
  digest_algorithm :: string
  sa_digest :: string
  byte_size :: nat
  storage_locator :: string
  public_url :: string

record publication =
  artifact :: stored_artifact
  status :: string

definition STATUS_PUBLISHED :: string where "STATUS_PUBLISHED = ''published''"

definition STATUS_ALREADY_PRESENT :: string where "STATUS_ALREADY_PRESENT = ''already-present''"

definition FILE_MODE :: nat where "FILE_MODE = 420"

definition DIRECTORY_MODE :: nat where "DIRECTORY_MODE = 493"

definition STAGING_MODE :: nat where "STAGING_MODE = 448"

abbreviation store_error :: "string \<Rightarrow> exn" where
  "store_error m \<equiv> Raise ArtifactStoreError (Msg m)"

abbreviation invalid_artifact :: "string \<Rightarrow> exn" where
  "invalid_artifact m \<equiv> Raise InvalidArtifact (Msg m)"

section \<open>Identities and paths\<close>

definition canonical_artifact_relative_path :: "string \<Rightarrow> string \<Rightarrow> exn + string list" where
  "canonical_artifact_relative_path module_id version =
     rbind (validate_module_id (JStr module_id)) (\<lambda>mid.
     rbind (validate_semver (JStr version)) (\<lambda>ver.
     Inr [''modules'', mid, ver, mid @ ''-'' @ ver @ ''.ocp'']))"

definition as_posix :: "string list \<Rightarrow> string" where
  "as_posix ps = py_join ''/'' ps"

definition canonical_public_artifact_url :: "string \<Rightarrow> string \<Rightarrow> exn + string" where
  "canonical_public_artifact_url module_id version =
     rbind (canonical_artifact_relative_path module_id version) (\<lambda>key.
     Inr (''https://'' @ CANONICAL_REGISTRY_HOST @ ''/'' @ as_posix key))"

definition identity :: "string \<Rightarrow> string \<Rightarrow> string option \<Rightarrow> exn + string list" where
  "identity module_id version digest =
     rbind (rcatch (canonical_artifact_relative_path module_id version)
         (\<lambda>e. if exn_class e = RegistryValidationError
              then Inl (invalid_artifact ''Invalid module ID or SemVer'') else Inl e)) (\<lambda>relative.
     rbind (ensure (case digest of None \<Rightarrow> True | Some d \<Rightarrow> fullmatch SHA256_RE d)
         (invalid_artifact ''Expected SHA-256 must be 64 lowercase hex characters'')) (\<lambda>_.
     Inr relative))"

text \<open>A \<open>Path\<close>: whether it is absolute, and its components after the root.\<close>

record pypath =
  is_absolute :: bool
  parts :: "string list"

definition parse_path :: "string \<Rightarrow> pypath" where
  "parse_path s = \<lparr>is_absolute = py_startswith s ''/'',
     parts = filter (\<lambda>p. p \<noteq> [] \<and> p \<noteq> ''.'') (py_split CHR ''/'' s)\<rparr>"

definition safe_absolute :: "string list \<Rightarrow> pypath \<Rightarrow> exn + string list" where
  "safe_absolute cwd p =
     (if ''..'' \<in> set (parts p) \<or> list_ex (\<lambda>c. CHR 0x00 \<in> set c \<or> CHR 0x5C \<in> set c) (parts p)
      then Inl (invalid_artifact ''Path contains forbidden components'')
      else Inr (if is_absolute p then parts p else cwd @ parts p))"

definition file_name :: "string list \<Rightarrow> string" where
  "file_name p = (if p = [] then [] else last p)"

text \<open>The constructor: the root of the store as components.\<close>

definition store_init :: "string list \<Rightarrow> pypath \<Rightarrow> exn + string list" where
  "store_init cwd p =
     rbind (ensure (is_absolute p \<and> parts p \<noteq> [])
         (invalid_artifact ''Artifact root must be an explicit absolute directory'')) (\<lambda>_.
     rbind (safe_absolute cwd p) (\<lambda>rt.
     rbind (ensure (''releases'' \<notin> set rt \<and> ''current'' \<notin> set rt)
         (invalid_artifact ''Artifact root must be outside application releases/current'')) (\<lambda>_.
     Inr rt)))"

definition from_environment :: "string list \<Rightarrow> string option \<Rightarrow> exn + string list" where
  "from_environment cwd env =
     (case env of
        None \<Rightarrow> Inl (invalid_artifact ''PACKAGES_REGISTRY_ARTIFACT_ROOT is required'')
      | Some s \<Rightarrow> if s = [] then Inl (invalid_artifact ''PACKAGES_REGISTRY_ARTIFACT_ROOT is required'')
                   else store_init cwd (parse_path s))"

section \<open>The file system\<close>

record meta =
  st_uid :: nat
  st_dev :: nat
  st_mode :: nat

datatype inode =
    IDir "string \<rightharpoonup> nat" meta
  | IFile string meta
  | ILink "string list"
  | IOther

record fsys =
  inodes :: "nat \<rightharpoonup> inode"
  next_ino :: nat
  euid :: nat

definition ROOT_INO :: nat where "ROOT_INO = 0"

definition fs_entry :: "fsys \<Rightarrow> nat \<Rightarrow> string \<Rightarrow> nat option" where
  "fs_entry s d name = (case inodes s d of Some (IDir es m) \<Rightarrow> es name | _ \<Rightarrow> None)"

definition file_bytes :: "fsys \<Rightarrow> nat \<Rightarrow> string" where
  "file_bytes s i = (case inodes s i of Some (IFile b m) \<Rightarrow> b | _ \<Rightarrow> [])"

definition fstat :: "fsys \<Rightarrow> nat \<Rightarrow> meta" where
  "fstat s i = (case inodes s i of
       Some (IDir es m) \<Rightarrow> m | Some (IFile b m) \<Rightarrow> m | _ \<Rightarrow> \<lparr>st_uid = 0, st_dev = 0, st_mode = 0\<rparr>)"

definition set_entry :: "nat \<Rightarrow> string \<Rightarrow> nat option \<Rightarrow> fsys \<Rightarrow> fsys" where
  "set_entry d name e s =
     (case inodes s d of
        Some (IDir es m) \<Rightarrow> s\<lparr>inodes := (inodes s)(d \<mapsto> IDir (es(name := e)) m)\<rparr>
      | _ \<Rightarrow> s)"

definition new_inode :: "inode \<Rightarrow> fsys \<Rightarrow> fsys" where
  "new_inode n s = s\<lparr>inodes := (inodes s)(next_ino s \<mapsto> n), next_ino := Suc (next_ino s)\<rparr>"

definition is_dir :: "fsys \<Rightarrow> nat \<Rightarrow> bool" where
  "is_dir s d = (case inodes s d of Some (IDir es m) \<Rightarrow> True | _ \<Rightarrow> False)"

definition os_mkdir :: "nat \<Rightarrow> string \<Rightarrow> nat \<Rightarrow> (fsys, unit) op" where
  "os_mkdir d name mode s =
     (if \<not> is_dir s d then (Inl (Raise OSError (Msg name)), s)
      else if fs_entry s d name \<noteq> None then (Inl (Raise FileExistsError (Msg name)), s)
      else (Inr (), set_entry d name (Some (next_ino s))
              (new_inode (IDir Map.empty \<lparr>st_uid = euid s, st_dev = st_dev (fstat s d), st_mode = mode\<rparr>) s)))"

definition os_open_directory :: "nat \<Rightarrow> string \<Rightarrow> (fsys, nat) op" where
  "os_open_directory d name s =
     (case fs_entry s d name of
        None \<Rightarrow> (Inl (Raise FileNotFoundError (Msg name)), s)
      | Some i \<Rightarrow> if is_dir s i then (Inr i, s) else (Inl (Raise OSError (Msg name)), s))"

definition os_open_nofollow :: "nat \<Rightarrow> string \<Rightarrow> (fsys, nat) op" where
  "os_open_nofollow d name s =
     (case fs_entry s d name of
        None \<Rightarrow> (Inl (Raise FileNotFoundError (Msg name)), s)
      | Some i \<Rightarrow> (case inodes s i of
            Some (ILink t) \<Rightarrow> (Inl (Raise OSError (Msg name)), s)
          | _ \<Rightarrow> (Inr i, s)))"

definition s_isreg :: "fsys \<Rightarrow> nat \<Rightarrow> bool" where
  "s_isreg s i = (case inodes s i of Some (IFile b m) \<Rightarrow> True | _ \<Rightarrow> False)"

definition os_open_excl :: "nat \<Rightarrow> string \<Rightarrow> nat \<Rightarrow> (fsys, nat) op" where
  "os_open_excl d name mode s =
     (if \<not> is_dir s d then (Inl (Raise OSError (Msg name)), s)
      else if fs_entry s d name \<noteq> None then (Inl (Raise FileExistsError (Msg name)), s)
      else (Inr (next_ino s), set_entry d name (Some (next_ino s))
              (new_inode (IFile [] \<lparr>st_uid = euid s, st_dev = st_dev (fstat s d), st_mode = mode\<rparr>) s)))"

definition os_write :: "nat \<Rightarrow> string \<Rightarrow> (fsys, unit) op" where
  "os_write i b s =
     (case inodes s i of
        Some (IFile c m) \<Rightarrow> (Inr (), s\<lparr>inodes := (inodes s)(i \<mapsto> IFile (c @ b) m)\<rparr>)
      | _ \<Rightarrow> (Inl (Raise OSError (Msg [])), s))"

definition os_fchmod :: "nat \<Rightarrow> nat \<Rightarrow> (fsys, unit) op" where
  "os_fchmod i mode s =
     (case inodes s i of
        Some (IFile c m) \<Rightarrow> (Inr (), s\<lparr>inodes := (inodes s)(i \<mapsto> IFile c (m\<lparr>st_mode := mode\<rparr>))\<rparr>)
      | Some (IDir es m) \<Rightarrow> (Inr (), s\<lparr>inodes := (inodes s)(i \<mapsto> IDir es (m\<lparr>st_mode := mode\<rparr>))\<rparr>)
      | _ \<Rightarrow> (Inl (Raise OSError (Msg [])), s))"

definition os_link :: "nat \<Rightarrow> string \<Rightarrow> nat \<Rightarrow> string \<Rightarrow> (fsys, unit) op" where
  "os_link sd source dd target s =
     (case fs_entry s sd source of
        None \<Rightarrow> (Inl (Raise FileNotFoundError (Msg source)), s)
      | Some i \<Rightarrow>
          if \<not> is_dir s dd then (Inl (Raise OSError (Msg target)), s)
          else if fs_entry s dd target \<noteq> None then (Inl (Raise FileExistsError (Msg target)), s)
          else (Inr (), set_entry dd target (Some i) s))"

definition os_unlink :: "nat \<Rightarrow> string \<Rightarrow> (fsys, unit) op" where
  "os_unlink d name s =
     (case fs_entry s d name of
        None \<Rightarrow> (Inl (Raise FileNotFoundError (Msg name)), s)
      | Some i \<Rightarrow> (Inr (), set_entry d name None s))"

section \<open>Walking and reading\<close>

definition enter :: "bool \<Rightarrow> nat \<Rightarrow> nat \<Rightarrow> string \<Rightarrow> (fsys, nat) op" where
  "enter create mode descriptor component =
     ebind (if create then
              ecatch (ebind (os_mkdir descriptor component mode) (\<lambda>_. eret True))
                (\<lambda>e. if exn_class e = FileExistsError then eret False else eraise e)
            else eret False) (\<lambda>created.
     ebind (ecatch (os_open_directory descriptor component)
         (\<lambda>e. if exn_class e = FileNotFoundError then eraise e
              else if is_OSError e
              then eraise (invalid_artifact ''Directory path must not contain symlinks or non-directories'')
              else eraise e)) (\<lambda>child.
     ebind (if created then os_fchmod child mode else eret ()) (\<lambda>_.
     eret child)))"

fun walk :: "bool \<Rightarrow> nat \<Rightarrow> nat \<Rightarrow> string list \<Rightarrow> (fsys, nat) op" where
  "walk create mode descriptor [] = eret descriptor"
| "walk create mode descriptor (c # cs) =
     ebind (enter create mode descriptor c) (\<lambda>child. walk create mode child cs)"

definition directory :: "string list \<Rightarrow> bool \<Rightarrow> nat \<Rightarrow> (fsys, nat) op" where
  "directory p create mode = walk create mode ROOT_INO p"

definition regular_file :: "nat \<Rightarrow> string \<Rightarrow> (fsys, nat) op" where
  "regular_file parent name =
     ebind (ecatch (os_open_nofollow parent name)
         (\<lambda>e. if exn_class e = FileNotFoundError then eraise e
              else if is_OSError e
              then eraise (invalid_artifact ''File must be readable and must not be a symlink'')
              else eraise e)) (\<lambda>descriptor.
     ebind (eget (\<lambda>s. s_isreg s descriptor)) (\<lambda>reg.
     ebind (eensure reg (invalid_artifact ''Artifact must be a regular file'')) (\<lambda>_.
     eret descriptor)))"

definition CHUNK :: nat where "CHUNK = 1024 * 1024"

text \<open>The reading loop of \<open>_digest\<close>; the hash object is the bytes it was given so far.\<close>

function digest_loop :: "(string \<Rightarrow> string) \<Rightarrow> string \<Rightarrow> string \<Rightarrow> nat \<Rightarrow> string \<times> nat" where
  "digest_loop H data acc sz =
     (let chunk = take CHUNK data in
      if chunk = [] then (H acc, sz)
      else digest_loop H (drop CHUNK data) (acc @ chunk) (sz + length chunk))"
  by pat_completeness auto
termination
  by (relation "measure (\<lambda>(H, data, acc, sz). length data)") (auto simp: CHUNK_def)

definition digest_of :: "(string \<Rightarrow> string) \<Rightarrow> string \<Rightarrow> string \<times> nat" where
  "digest_of H data = digest_loop H data [] 0"

section \<open>The store\<close>

definition store_public_url :: "string \<Rightarrow> string \<Rightarrow> exn + string" where
  "store_public_url module_id version =
     rbind (identity module_id version None) (\<lambda>_. canonical_public_artifact_url module_id version)"

definition metadata :: "string \<Rightarrow> string \<Rightarrow> string \<Rightarrow> nat \<Rightarrow> exn + stored_artifact" where
  "metadata module_id version digest sz =
     rbind (identity module_id version None) (\<lambda>key.
     rbind (store_public_url module_id version) (\<lambda>url.
     Inr \<lparr>sa_module_id = module_id, sa_version = version, digest_algorithm = ''sha256'',
       sa_digest = digest, byte_size = sz, storage_locator = as_posix key, public_url = url\<rparr>))"

definition verify_at :: "(string \<Rightarrow> string) \<Rightarrow> nat \<Rightarrow> string \<Rightarrow> string \<Rightarrow> string \<Rightarrow> (fsys, stored_artifact) op" where
  "verify_at H parent module_id version expected =
     ebind (elift (identity module_id version (Some expected))) (\<lambda>relative.
     ebind (regular_file parent (last relative)) (\<lambda>stream.
     ebind (eget (\<lambda>s. digest_of H (file_bytes s stream))) (\<lambda>(actual, sz).
     ebind (eensure (actual = expected)
         (Raise ArtifactConflict (Msg ''Existing artifact SHA-256 mismatch; refusing overwrite''))) (\<lambda>_.
     elift (metadata module_id version actual sz)))))"

text \<open>The two \<open>except\<close> clauses of the public operations.\<close>

definition translate :: "exn + 'a \<Rightarrow> string \<Rightarrow> exn \<Rightarrow> (fsys, 'a) op" where
  "translate missing failed e =
     (if exn_class e = FileNotFoundError then elift missing
      else if is_OSError e then eraise (store_error failed) else eraise e)"

definition store_exists :: "string list \<Rightarrow> string \<Rightarrow> string \<Rightarrow> (fsys, bool) op" where
  "store_exists rt module_id version =
     ebind (elift (identity module_id version None)) (\<lambda>relative.
     ecatch (ebind (directory (rt @ butlast relative) False DIRECTORY_MODE) (\<lambda>parent.
             ebind (regular_file parent (last relative)) (\<lambda>_. eret True)))
       (translate (Inr False) ''Unable to inspect artifact storage''))"

definition store_verify ::
    "(string \<Rightarrow> string) \<Rightarrow> string list \<Rightarrow> string \<Rightarrow> string \<Rightarrow> string \<Rightarrow> (fsys, stored_artifact) op" where
  "store_verify H rt module_id version expected =
     ebind (elift (identity module_id version (Some expected))) (\<lambda>relative.
     ecatch (ebind (directory (rt @ butlast relative) False DIRECTORY_MODE) (\<lambda>parent.
             verify_at H parent module_id version expected))
       (translate (Inl (Raise ArtifactNotFound (Msg ''Artifact is not stored'')))
          ''Unable to verify stored artifact''))"

definition staging_directory :: "string list \<Rightarrow> (fsys, nat) op" where
  "staging_directory rt =
     ebind (directory (rt @ [''.staging'']) True STAGING_MODE) (\<lambda>staging.
     ebind (eget (\<lambda>s. st_uid (fstat s staging) = euid s \<and> st_mode (fstat s staging) = STAGING_MODE)) (\<lambda>ok.
     ebind (eensure ok (invalid_artifact ''Staging must be private to the trusted publisher (0700)'')) (\<lambda>_.
     eret staging)))"

text \<open>\<open>Path.resolve\<close> of the target: its directory was just walked without symbolic links.\<close>

definition resolve :: "fsys \<Rightarrow> nat \<Rightarrow> string list \<Rightarrow> string list" where
  "resolve s parent p =
     (case fs_entry s parent (last p) of
        Some i \<Rightarrow> (case inodes s i of Some (ILink t) \<Rightarrow> t | _ \<Rightarrow> p)
      | None \<Rightarrow> p)"

definition check_parent :: "string list \<Rightarrow> string list \<Rightarrow> nat \<Rightarrow> (fsys, unit) op" where
  "check_parent rt relative parent =
     ebind (directory (rt @ butlast relative) False DIRECTORY_MODE) (\<lambda>current.
     ebind (eget (\<lambda>s. (st_dev (fstat s parent), parent) = (st_dev (fstat s current), current))) (\<lambda>same.
     ebind (eensure same (invalid_artifact ''Artifact directory changed during publication'')) (\<lambda>_.
     ebind (eget (\<lambda>s. take (length rt) (resolve s current (rt @ relative)) = rt)) (\<lambda>inside.
     eensure inside (invalid_artifact ''Artifact target escapes the configured root'')))))"

definition publish_staged ::
    "(string \<Rightarrow> string) \<Rightarrow> string list \<Rightarrow> string \<Rightarrow> string \<Rightarrow> string list \<Rightarrow> nat \<Rightarrow> string \<Rightarrow> nat \<Rightarrow> nat \<Rightarrow>
      string \<Rightarrow> nat \<Rightarrow> (fsys, publication) op" where
  "publish_staged H rt module_id version relative source expected parent staging temporary descriptor =
     ebind (eget (\<lambda>s. file_bytes s source)) (\<lambda>data.
     ebind (os_write descriptor data) (\<lambda>_.
     ebind (os_fchmod descriptor FILE_MODE) (\<lambda>_.
     ebind (eget (\<lambda>s. digest_of H (file_bytes s descriptor))) (\<lambda>(digest, sz).
     ebind (eensure (digest = expected) (invalid_artifact ''Copied artifact SHA-256 mismatch'')) (\<lambda>_.
     ebind (check_parent rt relative parent) (\<lambda>_.
     ebind (ecatch (ebind (os_link staging temporary parent (last relative)) (\<lambda>_. eret STATUS_PUBLISHED))
         (\<lambda>e. if exn_class e = FileExistsError then eret STATUS_ALREADY_PRESENT else eraise e)) (\<lambda>st.
     ebind (verify_at H parent module_id version expected) (\<lambda>a.
     eret \<lparr>artifact = a, status = st\<rparr>))))))))"

definition publish_new ::
    "(string \<Rightarrow> string) \<Rightarrow> string list \<Rightarrow> string \<Rightarrow> string \<Rightarrow> string list \<Rightarrow> nat \<Rightarrow> string \<Rightarrow> string \<Rightarrow> nat \<Rightarrow>
      (fsys, publication) op" where
  "publish_new H rt module_id version relative source expected u parent =
     ebind (staging_directory rt) (\<lambda>staging.
     ebind (eget (\<lambda>s. st_dev (fstat s parent) = st_dev (fstat s staging))) (\<lambda>same.
     ebind (eensure same (store_error ''Staging and final path must share a filesystem'')) (\<lambda>_.
     ebind (os_open_excl staging (u @ ''.partial'') 384) (\<lambda>descriptor.
     efinally
       (publish_staged H rt module_id version relative source expected parent staging (u @ ''.partial'') descriptor)
       (os_unlink staging (u @ ''.partial''))))))"

definition publish_verified ::
    "(string \<Rightarrow> string) \<Rightarrow> string list \<Rightarrow> string \<Rightarrow> string \<Rightarrow> string list \<Rightarrow> nat \<Rightarrow> string \<Rightarrow> string \<Rightarrow>
      (fsys, publication) op" where
  "publish_verified H rt module_id version relative source expected u =
     ebind (directory (rt @ butlast relative) True DIRECTORY_MODE) (\<lambda>parent.
     ebind (ecatch (ebind (verify_at H parent module_id version expected) (\<lambda>a. eret (Some a)))
         (\<lambda>e. if exn_class e = FileNotFoundError then eret None else eraise e)) (\<lambda>present.
     case present of
       Some a \<Rightarrow> ebind (regular_file parent (last relative)) (\<lambda>_.
                  eret \<lparr>artifact = a, status = STATUS_ALREADY_PRESENT\<rparr>)
     | None \<Rightarrow> publish_new H rt module_id version relative source expected u parent))"

definition store_publish ::
    "(string \<Rightarrow> string) \<Rightarrow> string list \<Rightarrow> string list \<Rightarrow> string \<Rightarrow> string \<Rightarrow> pypath \<Rightarrow> string \<Rightarrow> string \<Rightarrow>
      (fsys, publication) op" where
  "store_publish H cwd rt module_id version source expected u =
     ebind (elift (identity module_id version (Some expected))) (\<lambda>relative.
     ebind (elift (safe_absolute cwd source)) (\<lambda>src.
     ecatch (ebind (directory (butlast src) False DIRECTORY_MODE) (\<lambda>source_parent.
             ebind (regular_file source_parent (file_name src)) (\<lambda>stream.
             ebind (eget (\<lambda>s. digest_of H (file_bytes s stream))) (\<lambda>(actual, sz).
             ebind (eensure (actual = expected) (invalid_artifact ''Source SHA-256 does not match expected digest'')) (\<lambda>_.
             publish_verified H rt module_id version relative stream expected u)))))
       (translate (Inl (invalid_artifact ''Source or storage directory is missing''))
          ''Artifact storage operation failed; verify before retry'')))"

definition store_health :: "string list \<Rightarrow> bool \<Rightarrow> string \<Rightarrow> (fsys, bool \<times> bool \<times> string) op" where
  "store_health rt publisher u =
     ecatch
       (ebind (directory rt False DIRECTORY_MODE) (\<lambda>rd.
        ebind (if publisher then
                 ebind (staging_directory rt) (\<lambda>staging.
                 ebind (eget (\<lambda>s. st_dev (fstat s rd) = st_dev (fstat s staging))) (\<lambda>same.
                 ebind (eensure same (store_error ''Staging must share the root filesystem'')) (\<lambda>_.
                 ebind (os_open_excl staging (u @ ''.health'') 384) (\<lambda>descriptor.
                 os_unlink staging (u @ ''.health'')))))
               else eret ()) (\<lambda>_.
        eret (True, publisher, if publisher then ''publisher'' else ''reader''))))
       (\<lambda>e. if is_OSError e then eraise (store_error ''Artifact storage health check failed'') else eraise e)"

section \<open>The file system only grows\<close>

declare digest_loop.simps [simp del]

lemma digest_loop_eq: "digest_loop H data acc sz = (H (acc @ data), sz + length data)"
proof (induction H data acc sz rule: digest_loop.induct)
  case (1 H data acc sz)
  show ?case
  proof (cases "take CHUNK data = []")
    case True
    then have "data = []" by (auto simp: CHUNK_def)
    then show ?thesis by (simp add: digest_loop.simps [of H "[]"])
  next
    case False
    then show ?thesis using 1 [OF refl False]
      by (simp add: digest_loop.simps [of H data] min_def flip: append_assoc) (simp add: append_assoc)
  qed
qed

lemma digest_of_eq: "digest_of H data = (H data, length data)"
  by (simp add: digest_of_def digest_loop_eq)

fun inode_le :: "inode \<Rightarrow> inode \<Rightarrow> bool" where
  "inode_le (IDir es m) (IDir es' m') = (st_uid m = st_uid m' \<and> st_dev m = st_dev m')"
| "inode_le (IFile b m) (IFile b' m') = (b = b')"
| "inode_le (ILink t) (ILink t') = (t = t')"
| "inode_le IOther IOther = True"
| "inode_le _ _ = False"

lemma inode_le_refl [simp]: "inode_le x x"
  by (cases x) auto

lemma inode_le_trans: "inode_le x y \<Longrightarrow> inode_le y z \<Longrightarrow> inode_le x z"
  by (cases x; cases y; cases z) auto

definition fs_wf :: "fsys \<Rightarrow> bool" where
  "fs_wf s \<longleftrightarrow> (\<forall>i \<ge> next_ino s. inodes s i = None)"

text \<open>
  Everything in \<open>s\<close> is still in \<open>t\<close>: inodes (outside \<open>X\<close>) keep their kind and content, names
  (outside \<open>Y\<close>) their inode.
\<close>

definition fs_ext :: "nat set \<Rightarrow> (nat \<times> string) set \<Rightarrow> fsys \<Rightarrow> fsys \<Rightarrow> bool" where
  "fs_ext X Y s t \<longleftrightarrow>
     (\<forall>i x. inodes s i = Some x \<longrightarrow> i \<notin> X \<longrightarrow> (\<exists>y. inodes t i = Some y \<and> inode_le x y)) \<and>
     (\<forall>d nm i. fs_entry s d nm = Some i \<longrightarrow> (d, nm) \<notin> Y \<longrightarrow> fs_entry t d nm = Some i)"

definition grow :: "nat set \<Rightarrow> (nat \<times> string) set \<Rightarrow> fsys \<Rightarrow> fsys \<Rightarrow> bool" where
  "grow X Y s t \<longleftrightarrow> (fs_wf s \<longrightarrow> fs_wf t \<and> fs_ext X Y s t)"

lemma fs_ext_refl [simp]: "fs_ext X Y s s"
  by (auto simp: fs_ext_def intro: inode_le_refl)

lemma fs_ext_trans: "fs_ext X Y s t \<Longrightarrow> fs_ext X Y t u \<Longrightarrow> fs_ext X Y s u"
  unfolding fs_ext_def by (meson inode_le_trans)

lemma grow_preorder [intro, simp]: "reflp (grow X Y)" "transp (grow X Y)"
  unfolding reflp_def transp_def grow_def by (auto intro: fs_ext_trans)

lemma fs_entry_set_entry:
  "fs_entry (set_entry d nm e s) d' nm' = (if is_dir s d \<and> d' = d \<and> nm' = nm then e else fs_entry s d' nm')"
  by (auto simp: fs_entry_def set_entry_def is_dir_def split: option.splits inode.splits)

lemma inodes_set_entry:
  "inodes s i = Some x \<Longrightarrow> \<exists>y. inodes (set_entry d nm e s) i = Some y \<and> inode_le x y"
  by (auto simp: set_entry_def split: option.splits inode.splits)

lemma fs_wf_set_entry [simp]: "fs_wf (set_entry d nm e s) = fs_wf s"
  by (auto simp: fs_wf_def set_entry_def split: option.splits inode.splits)

lemma fs_ext_set_entry:
  "(e = None \<longrightarrow> (d, nm) \<in> Y) \<Longrightarrow> (fs_entry s d nm = None \<or> (d, nm) \<in> Y) \<Longrightarrow> fs_ext X Y s (set_entry d nm e s)"
  unfolding fs_ext_def using inodes_set_entry by (auto simp: fs_entry_set_entry)

lemma grow_new_inode: "grow X Y s (new_inode n s)"
  by (auto simp: grow_def fs_wf_def fs_ext_def new_inode_def fs_entry_def split: option.splits inode.splits)

lemma is_dir_new_inode: "is_dir s d \<Longrightarrow> fs_wf s \<Longrightarrow> is_dir (new_inode n s) d"
  by (auto simp: is_dir_def new_inode_def fs_wf_def)


lemma grow_create:
  assumes "fs_entry s d nm = None"
  shows "grow X Y s (set_entry d nm (Some i) (new_inode n s))"
proof -
  have "fs_ext X Y s (set_entry d nm (Some i) (new_inode n s))" if "fs_ext X Y s (new_inode n s)"
    using that assms inodes_set_entry [of "new_inode n s"] inode_le_trans unfolding fs_ext_def
    by (fastforce simp: fs_entry_set_entry)
  then show ?thesis using grow_new_inode [of X Y s n] by (auto simp: grow_def)
qed

lemma grow_refl [simp]: "grow X Y s s"
  by (simp add: grow_def)

lemma keeps_os [keeps_intros]:
  "keeps (grow X Y) (os_mkdir d nm mode)"
  "keeps (grow X Y) (os_open_excl d nm mode)"
  "keeps (grow X Y) (os_open_directory d nm)"
  "keeps (grow X Y) (os_open_nofollow d nm)"
  by (auto simp: keeps_def os_mkdir_def os_open_excl_def os_open_directory_def os_open_nofollow_def
      grow_create split: option.splits inode.splits)

lemma keeps_os_fchmod [keeps_intros]: "keeps (grow X Y) (os_fchmod i mode)"
proof -
  have upd: "grow X Y s (s\<lparr>inodes := (inodes s)(i \<mapsto> y)\<rparr>)"
    if "inodes s i = Some x" "inode_le x y" "\<And>es m. x = IDir es m \<Longrightarrow> \<exists>m'. y = IDir es m'" for s x y
    using that by (cases x) (auto simp: grow_def fs_wf_def fs_ext_def fs_entry_def split: option.splits inode.splits)
  show ?thesis by (auto simp: keeps_def os_fchmod_def split: option.splits inode.splits) (rule upd, assumption, simp, simp)+
qed

lemma keeps_os_write [keeps_intros]:
  "i \<in> X \<Longrightarrow> keeps (grow X Y) (os_write i b)"
  by (auto simp: keeps_def os_write_def grow_def fs_wf_def fs_ext_def fs_entry_def
      split: option.splits inode.splits)

lemma keeps_os_link [keeps_intros]: "keeps (grow X Y) (os_link sd a dd b)"
  by (auto simp: keeps_def os_link_def grow_def intro!: fs_ext_set_entry split: option.splits)

lemma keeps_os_unlink [keeps_intros]:
  "(d, nm) \<in> Y \<Longrightarrow> keeps (grow X Y) (os_unlink d nm)"
  by (auto simp: keeps_def os_unlink_def grow_def intro!: fs_ext_set_entry split: option.splits)

text \<open>A block that creates a file exclusively may write it and remove its name again.\<close>

lemma keeps_excl:
  assumes "\<And>n. keeps (grow {n} {(d, nm)}) (f n)"
  shows "keeps (grow {} {}) (ebind (os_open_excl d nm mode) f)"
  unfolding keeps_def
proof (intro allI)
  fix s
  obtain r t where m: "os_open_excl d nm mode s = (r, t)" by fastforce
  have st: "grow {} {} s t" using keepsD [OF keeps_os(2) m] .
  show "grow {} {} s (snd (ebind (os_open_excl d nm mode) f s))"
  proof (cases r)
    case (Inl e)
    then show ?thesis using m st by (simp add: ebind_def)
  next
    case (Inr n)
    from m Inr have n: "n = next_ino s" "fs_entry s d nm = None"
      by (auto simp: os_open_excl_def split: if_splits)
    have "grow {n} {(d, nm)} t (snd (f n t))" using assms [of n] by (simp add: keeps_def)
    moreover have "inodes s n = None" if "fs_wf s" using that n by (simp add: fs_wf_def)
    ultimately have "grow {} {} s (snd (f n t))" using st n(2)
      unfolding grow_def fs_ext_def by (auto) (metis inode_le_trans option.distinct(1))+
    then show ?thesis using m Inr by (simp add: ebind_def)
  qed
qed

lemma keeps_enter [keeps_intros]: "keeps (grow X Y) (enter create mode d c)"
  unfolding enter_def by (intro keeps_intros grow_preorder)

lemma keeps_walk [keeps_intros]: "keeps (grow X Y) (walk create mode d cs)"
  by (induction cs arbitrary: d) (auto intro!: keeps_intros)

lemma keeps_directory [keeps_intros]: "keeps (grow X Y) (directory p create mode)"
  unfolding directory_def by (rule keeps_walk)

lemma keeps_regular_file [keeps_intros]: "keeps (grow X Y) (regular_file d nm)"
  unfolding regular_file_def by (intro keeps_intros grow_preorder)

lemma keeps_verify_at [keeps_intros]: "keeps (grow X Y) (verify_at H d mid ver h)"
  unfolding verify_at_def by (intro keeps_intros grow_preorder)

lemma keeps_translate [keeps_intros]: "keeps (grow X Y) (translate a b e)"
  unfolding translate_def by (intro keeps_intros grow_preorder)

lemma keeps_staging [keeps_intros]: "keeps (grow X Y) (staging_directory rt)"
  unfolding staging_directory_def by (intro keeps_intros grow_preorder)

lemma keeps_check_parent [keeps_intros]: "keeps (grow X Y) (check_parent rt rel d)"
  unfolding check_parent_def by (intro keeps_intros grow_preorder)

lemma keeps_publish_staged [keeps_intros]:
  "keeps (grow {n} {(sd, tmp)}) (publish_staged H rt mid ver rel src h d sd tmp n)"
  unfolding publish_staged_def by (intro keeps_intros grow_preorder) simp

lemma keeps_publish_new [keeps_intros]:
  "keeps (grow {} {}) (publish_new H rt mid ver rel src h u d)"
  unfolding publish_new_def by (intro keeps_excl keeps_intros grow_preorder) simp

lemma keeps_publish_verified [keeps_intros]:
  "keeps (grow {} {}) (publish_verified H rt mid ver rel src h u)"
  unfolding publish_verified_def by (intro keeps_intros grow_preorder)

lemma keeps_publish: "keeps (grow {} {}) (store_publish H cwd rt mid ver src h u)"
  unfolding store_publish_def by (intro keeps_intros grow_preorder)

lemma keeps_health: "keeps (grow {} {}) (store_health rt p u)"
  unfolding store_health_def by (intro keeps_excl keeps_intros grow_preorder) simp

section \<open>What the read operations see\<close>

fun walks :: "fsys \<Rightarrow> nat \<Rightarrow> string list \<Rightarrow> nat \<Rightarrow> bool" where
  "walks s d [] e = (e = d)"
| "walks s d (c # cs) e = (\<exists>i. fs_entry s d c = Some i \<and> is_dir s i \<and> walks s i cs e)"

lemma os_open_directory_iff [simp]:
  "os_open_directory d c s = (Inr i, t) \<longleftrightarrow> t = s \<and> fs_entry s d c = Some i \<and> is_dir s i"
  by (auto simp: os_open_directory_def split: option.splits)

lemma enter_False_iff:
  "enter False mode d c s = (Inr i, t) \<longleftrightarrow> t = s \<and> fs_entry s d c = Some i \<and> is_dir s i"
  by (auto simp: enter_def ecatch_Inr)

lemma walk_False_iff: "walk False mode d cs s = (Inr e, t) \<longleftrightarrow> t = s \<and> walks s d cs e"
  by (induction cs arbitrary: d) (auto simp: enter_False_iff)

lemma directory_False_iff:
  "directory p False mode s = (Inr e, t) \<longleftrightarrow> t = s \<and> walks s ROOT_INO p e"
  by (simp add: directory_def walk_False_iff)

lemma regular_file_iff:
  "regular_file d nm s = (Inr i, t) \<longleftrightarrow> t = s \<and> fs_entry s d nm = Some i \<and> s_isreg s i"
  by (auto simp: regular_file_def ecatch_Inr os_open_nofollow_def s_isreg_def
      split: option.splits inode.splits if_splits)

definition stored_at ::
    "(string \<Rightarrow> string) \<Rightarrow> fsys \<Rightarrow> nat \<Rightarrow> string \<Rightarrow> string \<Rightarrow> string \<Rightarrow> stored_artifact \<Rightarrow> bool" where
  "stored_at H s d mid ver h a \<longleftrightarrow>
     (\<exists>rel i. identity mid ver (Some h) = Inr rel \<and> fs_entry s d (last rel) = Some i \<and> s_isreg s i \<and>
        H (file_bytes s i) = h \<and> metadata mid ver h (length (file_bytes s i)) = Inr a)"

lemma verify_at_iff: "verify_at H d mid ver h s = (Inr a, t) \<longleftrightarrow> t = s \<and> stored_at H s d mid ver h a"
  by (auto simp: verify_at_def stored_at_def regular_file_iff digest_of_eq split: if_splits)

text \<open>The store under \<open>rt\<close> holds the version with digest \<open>h\<close>.\<close>

definition stored ::
    "(string \<Rightarrow> string) \<Rightarrow> fsys \<Rightarrow> string list \<Rightarrow> string \<Rightarrow> string \<Rightarrow> string \<Rightarrow> stored_artifact \<Rightarrow> bool" where
  "stored H s rt mid ver h a \<longleftrightarrow>
     (\<exists>rel d. identity mid ver (Some h) = Inr rel \<and> walks s ROOT_INO (rt @ butlast rel) d \<and>
        stored_at H s d mid ver h a)"

lemma store_verify_iff:
  "store_verify H rt mid ver h s = (Inr a, t) \<longleftrightarrow> t = s \<and> stored H s rt mid ver h a"
  by (auto simp: store_verify_def stored_def ecatch_Inr verify_at_iff directory_False_iff translate_def
      split: if_splits)

section \<open>What is stored stays stored\<close>

lemma fs_ext_dir: "fs_ext {} {} s t \<Longrightarrow> is_dir s i \<Longrightarrow> is_dir t i"
  unfolding fs_ext_def is_dir_def
  by (auto split: option.splits inode.splits) (metis inode.distinct inode_le.simps option.inject option.distinct(1))+

lemma fs_ext_file:
  assumes "fs_ext {} {} s t" and "s_isreg s i"
  shows "s_isreg t i" and "file_bytes t i = file_bytes s i"
proof -
  from assms(2) obtain b m where i: "inodes s i = Some (IFile b m)"
    by (auto simp: s_isreg_def split: option.splits inode.splits)
  with assms(1) obtain y where y: "inodes t i = Some y" "inode_le (IFile b m) y" unfolding fs_ext_def by blast
  then obtain m' where "y = IFile b m'" by (cases y) auto
  with i y show "s_isreg t i" "file_bytes t i = file_bytes s i" by (simp_all add: s_isreg_def file_bytes_def)
qed

lemma walks_ext: "fs_ext {} {} s t \<Longrightarrow> walks s d cs e \<Longrightarrow> walks t d cs e"
  using fs_ext_dir [of s t] by (induction cs arbitrary: d) (auto simp: fs_ext_def)

lemma stored_at_ext: "fs_ext {} {} s t \<Longrightarrow> stored_at H s d mid ver h a \<Longrightarrow> stored_at H t d mid ver h a"
  unfolding stored_at_def using fs_ext_file by (fastforce simp: fs_ext_def)

lemma stored_ext: "fs_ext {} {} s t \<Longrightarrow> stored H s rt mid ver h a \<Longrightarrow> stored H t rt mid ver h a"
  unfolding stored_def using walks_ext stored_at_ext by blast

lemma walks_unique: "walks s d cs e \<Longrightarrow> walks s d cs e' \<Longrightarrow> e = e'"
  by (induction cs arbitrary: d) auto

lemma identity_Inr_iff:
  "identity mid ver dg = Inr rel \<longleftrightarrow>
     py_len mid \<le> 63 \<and> fullmatch MODULE_ID_RE mid \<and> fullmatch SEMVER_RE ver \<and>
     (\<forall>d. dg = Some d \<longrightarrow> fullmatch SHA256_RE d) \<and>
     rel = [''modules'', mid, ver, mid @ ''-'' @ ver @ ''.ocp'']"
proof -
  have "rcatch m (\<lambda>e. if exn_class e = RegistryValidationError then Inl e1 else Inl e) = Inr x \<longleftrightarrow> m = Inr x"
    for m :: "exn + string list" and e1 x by (cases m) auto
  then show ?thesis
    by (auto simp: identity_def canonical_artifact_relative_path_def validate_module_id_def
        validate_semver_def split: option.splits)
qed

lemma stored_unique:
  assumes "stored H s rt mid ver h a" and "stored H s rt mid ver h' a'"
  shows "h = h' \<and> a = a'"
proof -
  from assms obtain rel rel' d d' where
    "identity mid ver (Some h) = Inr rel" "walks s ROOT_INO (rt @ butlast rel) d" "stored_at H s d mid ver h a"
    "identity mid ver (Some h') = Inr rel'" "walks s ROOT_INO (rt @ butlast rel') d'" "stored_at H s d' mid ver h' a'"
    unfolding stored_def by blast
  moreover from this have "rel = rel'" "d = d'" using walks_unique by (auto simp: identity_Inr_iff)
  ultimately show ?thesis unfolding stored_at_def by (auto simp: identity_Inr_iff)
qed

section \<open>Publishing\<close>

lemma growD: "keeps (grow X Y) m \<Longrightarrow> m s = (r, t) \<Longrightarrow> fs_wf s \<Longrightarrow> fs_wf t \<and> fs_ext X Y s t"
  by (auto dest: keepsD simp: grow_def)

lemma os_fchmod_dir:
  assumes "os_fchmod i mode s = (r, t)"
  shows "is_dir t j = is_dir s j" and "fs_entry t d nm = fs_entry s d nm"
proof -
  have "is_dir t j = is_dir s j \<and> fs_entry t d nm = fs_entry s d nm"
  proof (cases "inodes s i")
    case None
    with assms show ?thesis by (simp add: os_fchmod_def)
  next
    case (Some x)
    with assms show ?thesis by (cases x) (auto simp: os_fchmod_def is_dir_def fs_entry_def split: if_splits)
  qed
  then show "is_dir t j = is_dir s j" "fs_entry t d nm = fs_entry s d nm" by auto
qed

lemma enter_entry:
  assumes "enter create mode d c s = (Inr i, t)"
  shows "fs_entry t d c = Some i \<and> is_dir t i"
  using assms by (auto simp: enter_def ecatch_Inr os_fchmod_dir split: if_splits)

lemma walk_walks:
  assumes "walk create mode d cs s = (Inr e, t)" and "fs_wf s"
  shows "walks t d cs e"
  using assms
proof (induction cs arbitrary: d s)
  case Nil
  then show ?case by simp
next
  case (Cons c cs)
  then obtain i s1 where e: "enter create mode d c s = (Inr i, s1)" and w: "walk create mode i cs s1 = (Inr e, t)"
    by auto
  have wf: "fs_wf s1" using growD [OF keeps_enter e Cons.prems(2)] by blast
  have "fs_ext {} {} s1 t" using growD [OF keeps_walk w wf] by blast
  with enter_entry [OF e] Cons.IH [OF w wf] show ?case by (auto simp: fs_ext_def intro: fs_ext_dir [of s1 t])
qed

lemma partial_not_ocp: "u @ ''.partial'' \<noteq> v @ ''.ocp''"
proof
  assume "u @ ''.partial'' = v @ ''.ocp''"
  then have "last (u @ ''.partial'') = last (v @ ''.ocp'')" by simp
  then show False by simp
qed

lemma stored_at_unlink:
  assumes "stored_at H s d mid ver h a"
  shows "stored_at H (set_entry sd (u @ ''.partial'') None s) d mid ver h a"
proof -
  from assms obtain rel i where r: "identity mid ver (Some h) = Inr rel" "fs_entry s d (last rel) = Some i"
    "s_isreg s i" "H (file_bytes s i) = h" "metadata mid ver h (length (file_bytes s i)) = Inr a"
    unfolding stored_at_def by blast
  have "last rel \<noteq> u @ ''.partial''" using r(1) partial_not_ocp [of u "mid @ ''-'' @ ver"]
    by (auto simp: identity_Inr_iff)
  moreover have "s_isreg (set_entry sd n e s) i = s_isreg s i" "file_bytes (set_entry sd n e s) i = file_bytes s i" for n e
    using r(3) by (auto simp: set_entry_def s_isreg_def file_bytes_def split: option.splits inode.splits)
  ultimately show ?thesis using r unfolding stored_at_def by (auto simp: fs_entry_set_entry)
qed

lemma readonly_verify_at: "readonly (verify_at H d mid ver h)"
proof -
  have "keeps (=) (os_open_nofollow d nm)" for nm
    by (auto simp: keeps_def os_open_nofollow_def split: option.splits inode.splits)
  then show ?thesis unfolding readonly_def verify_at_def regular_file_def
    by (intro keeps_intros eq_preorder)
qed

lemma publish_new_stored:
  assumes p: "publish_new H rt mid ver rel src h u d s = (Inr p, t)"
  shows "stored_at H t d mid ver h (artifact p)"
proof -
  from p obtain sd s1 s2 s3 n where
    "publish_staged H rt mid ver rel src h d sd (u @ ''.partial'') n s2 = (Inr p, s3)"
    and t: "os_unlink sd (u @ ''.partial'') s3 = (Inr (), t)"
    unfolding publish_new_def by (auto simp: efinally_Inr)
  then have "stored_at H s3 d mid ver h (artifact p)"
    unfolding publish_staged_def by (auto simp: verify_at_iff digest_of_eq)
  with stored_at_unlink t show ?thesis by (auto simp: os_unlink_def split: option.splits)
qed

lemma publish_verified_Inr:
  assumes "publish_verified H rt mid ver rel src h u s = (Inr p, t)"
  obtains d s1 where "directory (rt @ butlast rel) True DIRECTORY_MODE s = (Inr d, s1)"
    "stored_at H s1 d mid ver h (artifact p) \<and> t = s1 \<or> publish_new H rt mid ver rel src h u d s1 = (Inr p, t)"
proof -
  from assms obtain d s1 present s2 where d: "directory (rt @ butlast rel) True DIRECTORY_MODE s = (Inr d, s1)"
    and c: "ecatch (ebind (verify_at H d mid ver h) (\<lambda>a. eret (Some a)))
         (\<lambda>e. if exn_class e = FileNotFoundError then eret None else eraise e) s1 = (Inr present, s2)"
    and r: "(case present of
       Some a \<Rightarrow> ebind (regular_file d (last rel)) (\<lambda>_. eret \<lparr>artifact = a, status = STATUS_ALREADY_PRESENT\<rparr>)
     | None \<Rightarrow> publish_new H rt mid ver rel src h u d) s2 = (Inr p, t)"
    unfolding publish_verified_def by auto
  from c have s2: "s2 = s1" "\<And>a. present = Some a \<Longrightarrow> stored_at H s1 d mid ver h a"
    by (auto simp: ecatch_Inr ebind_Inl verify_at_iff split: if_splits dest: readonlyD [OF readonly_verify_at])
  from that [OF d] r s2 show thesis by (cases present) (auto simp: regular_file_iff)
qed

lemma publish_verified_stored:
  assumes p: "publish_verified H rt mid ver rel src h u s = (Inr p, t)" and wf: "fs_wf s"
    and rel: "identity mid ver (Some h) = Inr rel"
  shows "stored H t rt mid ver h (artifact p)"
proof -
  from p obtain d s1 where d: "directory (rt @ butlast rel) True DIRECTORY_MODE s = (Inr d, s1)"
    and r: "stored_at H s1 d mid ver h (artifact p) \<and> t = s1 \<or> publish_new H rt mid ver rel src h u d s1 = (Inr p, t)"
    by (rule publish_verified_Inr)
  have w1: "walks s1 ROOT_INO (rt @ butlast rel) d" using d wf unfolding directory_def by (rule walk_walks)
  have wf1: "fs_wf s1" using growD [OF keeps_directory d wf] by blast
  from r show ?thesis
  proof
    assume "publish_new H rt mid ver rel src h u d s1 = (Inr p, t)"
    moreover from growD [OF keeps_publish_new this wf1] have "walks t ROOT_INO (rt @ butlast rel) d"
      using w1 walks_ext by blast
    ultimately show ?thesis using rel publish_new_stored unfolding stored_def by blast
  qed (use w1 rel in \<open>auto simp: stored_def\<close>)
qed

lemma store_publish_Inr:
  assumes "store_publish H cwd rt mid ver src h u s = (Inr p, t)"
  obtains rel i where "identity mid ver (Some h) = Inr rel" "H (file_bytes s i) = h"
    "publish_verified H rt mid ver rel i h u s = (Inr p, t)"
  using assms that unfolding store_publish_def
  by (auto simp: ecatch_Inr directory_False_iff regular_file_iff digest_of_eq translate_def split: if_splits prod.splits)

lemma store_publish_stored:
  assumes "store_publish H cwd rt mid ver src h u s = (Inr p, t)" and "fs_wf s"
  shows "stored H t rt mid ver h (artifact p)"
  using assms(1) by (rule store_publish_Inr) (rule publish_verified_stored [OF _ assms(2)])

lemma store_publish_keeps:
  assumes "store_publish H cwd rt mid ver src h u s = (r, t)" and "fs_wf s"
  shows "fs_wf t" and "fs_ext {} {} s t"
  using growD [OF keeps_publish assms] by auto

section \<open>Only store errors leave the store\<close>

definition os_or_store :: "exn \<Rightarrow> bool" where
  "os_or_store e \<longleftrightarrow> is_OSError e \<or> is_ArtifactStoreError e"

lemma store_error_classes [simp]:
  "is_ArtifactStoreError (Raise ArtifactStoreError m)" "is_ArtifactStoreError (Raise ArtifactConflict m)"
  "is_ArtifactStoreError (Raise InvalidArtifact m)" "is_ArtifactStoreError (Raise ArtifactNotFound m)"
  by (simp_all add: is_ArtifactStoreError_def)

lemma os_or_store_store [simp, intro]: "is_ArtifactStoreError e \<Longrightarrow> os_or_store e"
  by (simp add: os_or_store_def)

lemma raises_os [raises_intros]:
  "raises os_or_store (os_mkdir d nm mode)" "raises os_or_store (os_open_directory d nm)"
  "raises os_or_store (os_open_nofollow d nm)" "raises os_or_store (os_open_excl d nm mode)"
  "raises os_or_store (os_write i b)" "raises os_or_store (os_fchmod i mode)"
  "raises os_or_store (os_link sd a dd b)" "raises os_or_store (os_unlink d nm)"
  by (auto simp: raises_def os_or_store_def is_OSError_def os_mkdir_def os_open_directory_def os_open_nofollow_def
      os_open_excl_def os_write_def os_fchmod_def os_link_def os_unlink_def
      split: if_splits option.splits inode.splits)

lemma identity_errors: "identity mid ver dg = Inl e \<Longrightarrow> is_ArtifactStoreError e"
  by (auto simp: identity_def canonical_artifact_relative_path_def validate_module_id_def
      validate_semver_def canonical_id_def semver_def rbind_Inl_iff rcatch_def is_ArtifactStoreError_def
      split: sum.splits if_splits)

lemma canonical_path_ok:
  "identity mid ver dg = Inr rel \<Longrightarrow> canonical_artifact_relative_path mid ver = Inr rel"
  by (auto simp: identity_Inr_iff canonical_artifact_relative_path_def validate_module_id_def validate_semver_def)

lemma metadata_errors:
  assumes "metadata mid ver h n = Inl e"
  shows "is_ArtifactStoreError e"
proof (cases "identity mid ver None")
  case (Inl e')
  with assms show ?thesis by (auto simp: metadata_def intro: identity_errors)
next
  case (Inr rel)
  with assms canonical_path_ok [OF Inr] show ?thesis
    by (simp add: metadata_def store_public_url_def canonical_public_artifact_url_def)
qed

lemma safe_absolute_errors: "safe_absolute cwd p = Inl e \<Longrightarrow> is_ArtifactStoreError e"
  by (auto simp: safe_absolute_def is_ArtifactStoreError_def split: if_splits)

lemma raises_ecatch_os [raises_intros]:
  "raises os_or_store m \<Longrightarrow> (\<And>e. os_or_store e \<Longrightarrow> raises P (h e)) \<Longrightarrow> raises P (ecatch m h)"
  by (rule raises_ecatch)

lemmas store_errors = identity_errors metadata_errors safe_absolute_errors

lemma raises_walk [raises_intros]: "raises os_or_store (walk create mode d cs)"
proof (induction cs arbitrary: d)
  case (Cons c cs)
  have "raises os_or_store (enter create mode d c)"
    unfolding enter_def by (intro raises_intros) (auto intro: store_errors)
  with Cons show ?case by (auto intro: raises_intros)
qed (auto intro: raises_intros)

lemma raises_directory [raises_intros]: "raises os_or_store (directory p create mode)"
  unfolding directory_def by (rule raises_walk)

lemma raises_regular_file [raises_intros]: "raises os_or_store (regular_file d nm)"
  unfolding regular_file_def by (intro raises_intros) (auto intro: store_errors)

lemma raises_verify_at [raises_intros]: "raises os_or_store (verify_at H d mid ver h)"
  unfolding verify_at_def by (intro raises_intros) (auto intro: store_errors)

lemma raises_staging [raises_intros]: "raises os_or_store (staging_directory rt)"
  unfolding staging_directory_def by (intro raises_intros) (auto intro: store_errors)

lemma raises_check_parent [raises_intros]: "raises os_or_store (check_parent rt rel d)"
  unfolding check_parent_def by (intro raises_intros) (auto intro: store_errors)

lemma raises_publish_staged [raises_intros]:
  "raises os_or_store (publish_staged H rt mid ver rel src h d sd tmp n)"
  unfolding publish_staged_def by (intro raises_intros) (auto intro: store_errors)

lemma raises_publish_new [raises_intros]: "raises os_or_store (publish_new H rt mid ver rel src h u d)"
  unfolding publish_new_def by (intro raises_intros) (auto intro: store_errors)

lemma raises_publish_verified [raises_intros]:
  "raises os_or_store (publish_verified H rt mid ver rel src h u)"
  unfolding publish_verified_def by (intro raises_intros) auto

lemma raises_translate:
  "os_or_store e \<Longrightarrow> (\<And>x. missing = Inl x \<Longrightarrow> is_ArtifactStoreError x) \<Longrightarrow>
     raises is_ArtifactStoreError (translate missing msg e)"
  by (auto simp: raises_def translate_def os_or_store_def is_OSError_def split: if_splits)

lemma raises_publish: "raises is_ArtifactStoreError (store_publish H cwd rt mid ver src h u)"
  unfolding store_publish_def
  by (rule raises_ebind, rule raises_pure, erule identity_errors, rule raises_ebind, rule raises_pure,
      erule safe_absolute_errors, rule raises_ecatch [where Q = os_or_store])
    (intro raises_intros, auto intro: store_errors intro!: raises_translate)

lemma raises_verify: "raises is_ArtifactStoreError (store_verify H rt mid ver h)"
  unfolding store_verify_def
  by (rule raises_ebind, rule raises_pure, erule identity_errors, rule raises_ecatch [where Q = os_or_store])
    (intro raises_intros, auto intro: store_errors intro!: raises_translate)

lemma raises_exists: "raises is_ArtifactStoreError (store_exists rt mid ver)"
  unfolding store_exists_def
  by (rule raises_ebind, rule raises_pure, erule identity_errors, rule raises_ecatch [where Q = os_or_store])
    (intro raises_intros, auto intro: store_errors intro!: raises_translate)

section \<open>The interface\<close>

text \<open>
  The protocol \<open>ArtifactStore\<close>, as its clients use it: a successful publication can be verified, and
  what can be verified stays so whatever is published later.
\<close>

locale artifact_store =
  fixes publish :: "string \<Rightarrow> string \<Rightarrow> 'src \<Rightarrow> string \<Rightarrow> ('s, publication) op"
    and verify :: "string \<Rightarrow> string \<Rightarrow> string \<Rightarrow> ('s, stored_artifact) op"
    and inv :: "'s \<Rightarrow> bool"
  assumes publish_inv: "inv s \<Longrightarrow> publish m v src h s = (r, t) \<Longrightarrow> inv t"
    and publish_verify: "inv s \<Longrightarrow> publish m v src h s = (Inr p, t) \<Longrightarrow> verify m v h t = (Inr (artifact p), t)"
    and publish_keeps: "inv s \<Longrightarrow> verify m v h s = (Inr a, s) \<Longrightarrow> publish m' v' src h' s = (r, t) \<Longrightarrow>
      verify m v h t = (Inr a, t)"
    and verify_unique: "verify m v h s = (Inr a, s) \<Longrightarrow> verify m v h' s = (Inr a', s) \<Longrightarrow> h = h'"
begin

lemma no_overwrite:
  assumes "inv s" and "verify m v h s = (Inr a, s)" and "h' \<noteq> h"
  shows "publish m v src h' s \<noteq> (Inr p, t)"
proof
  assume p: "publish m v src h' s = (Inr p, t)"
  have "verify m v h t = (Inr a, t)" using publish_keeps [OF assms(1,2) p] .
  moreover have "verify m v h' t = (Inr (artifact p), t)" using publish_verify [OF assms(1) p] .
  ultimately show False using verify_unique assms(3) by blast
qed

text \<open>Any sequence of publications, whatever their outcomes.\<close>

fun publish_seq :: "(string \<times> string \<times> 'src \<times> string) list \<Rightarrow> 's \<Rightarrow> 's" where
  "publish_seq [] s = s"
| "publish_seq ((m, v, src, h) # reqs) s = publish_seq reqs (snd (publish m v src h s))"

lemma publish_seq_keeps:
  assumes "inv s" and "verify m v h s = (Inr a, s)"
  shows "inv (publish_seq reqs s) \<and>
    verify m v h (publish_seq reqs s) = (Inr a, publish_seq reqs s)"
  using assms
proof (induction reqs arbitrary: s)
  case Nil
  then show ?case by simp
next
  case (Cons req reqs)
  obtain m' v' src h' where req: "req = (m', v', src, h')" by (cases req)
  obtain r t where p: "publish m' v' src h' s = (r, t)" by fastforce
  have "inv t" "verify m v h t = (Inr a, t)"
    using publish_inv [OF Cons.prems(1) p] publish_keeps [OF Cons.prems p] by auto
  with Cons.IH p show ?case by (simp add: req)
qed

end

interpretation fstore: artifact_store
  "\<lambda>m v (src, u) h. store_publish H cwd rt m v src h u" "store_verify H rt" fs_wf
  for H cwd rt
proof
  fix m v h h' m' v' :: string and src :: "pypath \<times> string" and s t :: fsys and r p a a'
  assume wf: "fs_wf s"
  {
    assume "(case src of (src, u) \<Rightarrow> \<lambda>h. store_publish H cwd rt m v src h u) h s = (r, t)"
    then show "fs_wf t" using store_publish_keeps(1) wf by (auto split: prod.splits)
  }
  {
    assume "(case src of (src, u) \<Rightarrow> \<lambda>h. store_publish H cwd rt m v src h u) h s = (Inr p, t)"
    then show "store_verify H rt m v h t = (Inr (artifact p), t)"
      using store_publish_stored wf by (auto simp: store_verify_iff split: prod.splits)
  }
  {
    assume "store_verify H rt m v h s = (Inr a, s)"
      and "(case src of (src, u) \<Rightarrow> \<lambda>h. store_publish H cwd rt m' v' src h u) h' s = (r, t)"
    then show "store_verify H rt m v h t = (Inr a, t)"
      using stored_ext [OF store_publish_keeps(2) [OF _ wf]] by (auto simp: store_verify_iff split: prod.splits)
  }
next
  fix m v h h' :: string and s :: fsys and a a'
  assume "store_verify H rt m v h s = (Inr a, s)" "store_verify H rt m v h' s = (Inr a', s)"
  then show "h = h'" using stored_unique by (auto simp: store_verify_iff)
qed

section \<open>Publishing again\<close>

lemma fs_entry_dir: "fs_entry s d c = Some i \<Longrightarrow> is_dir s d"
  by (auto simp: fs_entry_def is_dir_def split: option.splits inode.splits)

lemma enter_existing:
  assumes "fs_entry s d c = Some i" and "is_dir s i"
  shows "enter create mode d c s = (Inr i, s)"
  using assms fs_entry_dir [OF assms(1)]
  by (auto simp: enter_def ebind_def ecatch_def os_mkdir_def os_open_directory_def eret_def)

lemma walk_existing: "walks s d cs e \<Longrightarrow> walk create mode d cs s = (Inr e, s)"
proof (induction cs arbitrary: d)
  case Nil
  then show ?case by simp
next
  case (Cons c cs)
  then obtain i where "enter create mode d c s = (Inr i, s)" "walks s i cs e" using enter_existing by auto
  with Cons.IH show ?case by (simp add: ebind_def)
qed

lemma publish_verified_again:
  assumes "stored H s rt mid ver h a" and "identity mid ver (Some h) = Inr rel"
  shows "publish_verified H rt mid ver rel i h u s = (Inr \<lparr>artifact = a, status = STATUS_ALREADY_PRESENT\<rparr>, s)"
proof -
  from assms obtain d where d: "walks s ROOT_INO (rt @ butlast rel) d" "stored_at H s d mid ver h a"
    by (auto simp: stored_def)
  have dir: "directory (rt @ butlast rel) True DIRECTORY_MODE s = (Inr d, s)"
    using d(1) by (simp add: directory_def walk_existing)
  have v: "verify_at H d mid ver h s = (Inr a, s)" using d(2) by (simp add: verify_at_iff)
  from d(2) assms(2) obtain f where "regular_file d (last rel) s = (Inr f, s)"
    by (auto simp: stored_at_def regular_file_iff)
  with dir v show ?thesis by (simp add: publish_verified_def ebind_def ecatch_def eret_def)
qed

lemma store_publish_source:
  assumes "store_publish H cwd rt mid ver src h u s = (Inr p, t)"
  obtains rel sp sd i where "identity mid ver (Some h) = Inr rel" "safe_absolute cwd src = Inr sp"
    "walks s ROOT_INO (butlast sp) sd" "fs_entry s sd (file_name sp) = Some i"
    "s_isreg s i" "H (file_bytes s i) = h" "publish_verified H rt mid ver rel i h u s = (Inr p, t)"
  using assms that unfolding store_publish_def
  by (auto simp: ecatch_Inr directory_False_iff regular_file_iff digest_of_eq translate_def split: if_splits prod.splits)

lemma store_publish_again:
  assumes p: "store_publish H cwd rt mid ver src h u s = (Inr p, t)" and wf: "fs_wf s"
  shows "store_publish H cwd rt mid ver src h u' t =
    (Inr \<lparr>artifact = artifact p, status = STATUS_ALREADY_PRESENT\<rparr>, t)"
proof -
  from p obtain rel sp sd i where r: "identity mid ver (Some h) = Inr rel" "safe_absolute cwd src = Inr sp"
    and w: "walks s ROOT_INO (butlast sp) sd" and e: "fs_entry s sd (file_name sp) = Some i"
    and i: "s_isreg s i" "H (file_bytes s i) = h" by (rule store_publish_source)
  note ext = store_publish_keeps(2) [OF p wf]
  have "directory (butlast sp) False DIRECTORY_MODE t = (Inr sd, t)"
    using walks_ext [OF ext w] by (simp add: directory_False_iff)
  moreover have "regular_file sd (file_name sp) t = (Inr i, t)"
    using ext e fs_ext_file [OF ext i(1)] unfolding regular_file_iff fs_ext_def by blast
  moreover have "H (file_bytes t i) = h" using fs_ext_file [OF ext i(1)] i(2) by simp
  moreover have "stored H t rt mid ver h (artifact p)" using store_publish_stored [OF p wf] .
  ultimately show ?thesis using r publish_verified_again [of H t rt mid ver h "artifact p" rel]
    by (simp add: store_publish_def ebind_def ecatch_def elift_def eget_def eensure_def digest_of_eq)
qed

lemma metadata_Inr:
  assumes "metadata mid ver h n = Inr a"
  shows "a = \<lparr>sa_module_id = mid, sa_version = ver, digest_algorithm = ''sha256'', sa_digest = h,
    byte_size = n, storage_locator = tl (mirror_path mid ver), public_url = mirror_url mid ver\<rparr>"
proof -
  from assms obtain rel where rel: "identity mid ver None = Inr rel" by (auto simp: metadata_def)
  then have p: "rel = [''modules'', mid, ver, mid @ ''-'' @ ver @ ''.ocp'']" by (simp add: identity_Inr_iff)
  have j: "as_posix rel = tl (mirror_path mid ver)" by (simp add: as_posix_def p mirror_path_def)
  have u: "mirror_path mid ver = ''/'' @ as_posix rel" by (simp add: j mirror_path_def)
  show ?thesis using assms rel canonical_path_ok [OF rel] u
    by (auto simp: metadata_def store_public_url_def canonical_public_artifact_url_def mirror_url_def)
qed

end
