(* ===== verification/Artifact_Props.thy ===== *)
theory Artifact_Props
  imports Artifact_Store
begin

text \<open>
  The properties of the artifact store, with a concrete file system as witness: a store root
  \<open>/srv/store\<close> on one device and a source file \<open>/in/a.ocp\<close>.
\<close>

definition sample_meta :: meta where
  "sample_meta = \<lparr>st_uid = 7, st_dev = 1, st_mode = 493\<rparr>"

definition sample_fs :: fsys where
  "sample_fs = \<lparr>inodes =
     [0 \<mapsto> IDir [''srv'' \<mapsto> 1, ''in'' \<mapsto> 3] sample_meta,
      1 \<mapsto> IDir [''store'' \<mapsto> 2] sample_meta,
      2 \<mapsto> IDir Map.empty sample_meta,
      3 \<mapsto> IDir [''a.ocp'' \<mapsto> 4, ''b.ocp'' \<mapsto> 5] sample_meta,
      4 \<mapsto> IFile ''AAAA'' sample_meta,
      5 \<mapsto> IFile ''BBBB'' sample_meta],
     next_ino = 6, euid = 7\<rparr>"

text \<open>A toy digest: the first byte, repeated.\<close>

definition sample_hash :: "string \<Rightarrow> string" where
  "sample_hash b = replicate 64 (case b of [] \<Rightarrow> CHR ''0'' | c # _ \<Rightarrow> char_lower c)"

definition sample_publish :: "string \<Rightarrow> char \<Rightarrow> (fsys, publication) op" where
  "sample_publish name c = store_publish sample_hash [] [''srv'', ''store''] ''maps'' ''1.0.0''
     \<lparr>is_absolute = True, parts = [''in'', name]\<rparr> (replicate 64 c) ''u1''"

lemma sample_fs_wf: "fs_wf sample_fs"
  by (simp add: fs_wf_def sample_fs_def)

lemma sample_published: "is_ok (fst (sample_publish ''a.ocp'' CHR ''a'' sample_fs))"
  by code_simp

definition sample_after :: fsys where
  "sample_after = snd (sample_publish ''a.ocp'' CHR ''a'' sample_fs)"

lemma sample_run: "\<exists>p. sample_publish ''a.ocp'' CHR ''a'' sample_fs = (Inr p, sample_after)"
  using sample_published unfolding is_ok_iff sample_after_def by (metis prod.collapse)

section \<open>Properties\<close>

text \<open>C17. A successful publication is verifiable: \<open>verify\<close> with the same digest then returns the
  artifact that \<open>publish\<close> returned, whose digest is the expected one and whose public URL is the
  mirror URL that the registry accepts for the release.\<close>

theorem publish_then_verify:
  assumes "fs_wf s" and "store_publish H cwd rt mid ver src h u s = (Inr p, t)"
  shows "store_verify H rt mid ver h t = (Inr (artifact p), t) \<and> sa_digest (artifact p) = h \<and>
    public_url (artifact p) = mirror_url mid ver \<and>
    (\<exists>data. H data = h \<and> byte_size (artifact p) = length data)"
proof -
  have st: "stored H t rt mid ver h (artifact p)" using assms(2,1) by (rule store_publish_stored)
  then obtain data where "metadata mid ver h (length data) = Inr (artifact p)" "H data = h"
    by (auto simp: stored_def stored_at_def)
  with st metadata_Inr [OF this(1)] show ?thesis by (auto simp: store_verify_iff)
qed

theorem publish_then_verify_witness:
  "\<exists>p. store_verify sample_hash [''srv'', ''store''] ''maps'' ''1.0.0'' (replicate 64 CHR ''a'') sample_after =
     (Inr p, sample_after)"
  using sample_run publish_then_verify [OF sample_fs_wf] unfolding sample_publish_def by blast

text \<open>The state after any sequence of publications, whether they succeed or fail.\<close>

definition publications ::
    "(string \<Rightarrow> string) \<Rightarrow> string list \<Rightarrow> string list \<Rightarrow> (string \<times> string \<times> (pypath \<times> string) \<times> string) list \<Rightarrow>
      fsys \<Rightarrow> fsys" where
  "publications H cwd rt reqs s =
     foldl (\<lambda>s (m, v, (src, u), h). snd (store_publish H cwd rt m v src h u s)) s reqs"

lemma publications_seq: "publications H cwd rt reqs s = fstore.publish_seq H cwd rt reqs s"
  by (induction reqs arbitrary: s) (auto simp: publications_def)

text \<open>C25. Stored artifacts are immutable: what \<open>verify\<close> confirms once it confirms, with the same
  answer, after any sequence of publications of any modules and versions, successful or not.\<close>

theorem stored_artifacts_immutable:
  assumes "fs_wf s" and "store_verify H rt mid ver h s = (Inr a, s)"
  shows "store_verify H rt mid ver h (publications H cwd rt reqs s) = (Inr a, publications H cwd rt reqs s)"
  using fstore.publish_seq_keeps [OF assms] by (simp add: publications_seq)

lemma sample_after_wf: "fs_wf sample_after"
  using sample_run store_publish_keeps(1) [OF _ sample_fs_wf] unfolding sample_publish_def by blast

lemma sample_after_verified:
  "\<exists>a. store_verify sample_hash [''srv'', ''store''] ''maps'' ''1.0.0'' (replicate 64 CHR ''a'') sample_after =
     (Inr a, sample_after)"
  using sample_run store_publish_stored [OF _ sample_fs_wf] unfolding sample_publish_def store_verify_iff by blast

theorem stored_artifacts_immutable_witness:
  "\<exists>a. store_verify sample_hash [''srv'', ''store''] ''maps'' ''1.0.0'' (replicate 64 CHR ''a'')
     (publications sample_hash [] [''srv'', ''store'']
        [(''maps'', ''1.0.0'', (\<lparr>is_absolute = True, parts = [''in'', ''b.ocp'']\<rparr>, ''u2''), replicate 64 CHR ''b'')] sample_after) =
     (Inr a, publications sample_hash [] [''srv'', ''store'']
        [(''maps'', ''1.0.0'', (\<lparr>is_absolute = True, parts = [''in'', ''b.ocp'']\<rparr>, ''u2''), replicate 64 CHR ''b'')] sample_after)"
  using sample_after_verified stored_artifacts_immutable [OF sample_after_wf] by blast

text \<open>A version that is stored with one digest cannot be published with another.\<close>

theorem publish_no_overwrite:
  assumes "fs_wf s" and "store_verify H rt mid ver h s = (Inr a, s)" and "h' \<noteq> h"
  shows "store_publish H cwd rt mid ver src h' u s \<noteq> (Inr p, t)"
  using fstore.no_overwrite [OF assms, of cwd "(src, u)" p t] by simp

theorem publish_no_overwrite_witness:
  "\<forall>p t. sample_publish ''b.ocp'' CHR ''b'' sample_after \<noteq> (Inr p, t)"
proof -
  have "replicate 64 CHR ''b'' \<noteq> replicate 64 CHR ''a''" by code_simp
  with sample_after_verified publish_no_overwrite [OF sample_after_wf] show ?thesis
    unfolding sample_publish_def by blast
qed

text \<open>Publishing is idempotent: repeating a successful publication changes nothing and
  reports the same artifact as already present.\<close>

theorem publish_idempotent:
  assumes "fs_wf s" and "store_publish H cwd rt mid ver src h u s = (Inr p, t)"
  shows "store_publish H cwd rt mid ver src h u' t =
    (Inr \<lparr>artifact = artifact p, status = STATUS_ALREADY_PRESENT\<rparr>, t)"
  using assms(2,1) by (rule store_publish_again)

theorem publish_idempotent_witness:
  "\<exists>p. sample_publish ''a.ocp'' CHR ''a'' sample_after =
     (Inr \<lparr>artifact = p, status = STATUS_ALREADY_PRESENT\<rparr>, sample_after)"
  using sample_run publish_idempotent [OF sample_fs_wf] unfolding sample_publish_def by blast

text \<open>No operation of the store lets a raw operating-system exception out: every failure is
  an \<open>ArtifactStoreError\<close> or one of its subclasses.\<close>

theorem store_failures:
  assumes "store_publish H cwd rt mid ver src h u s = (Inl e, t) \<or> store_verify H rt mid ver h s = (Inl e, t) \<or>
    store_exists rt mid ver s = (Inl e, t)"
  shows "is_ArtifactStoreError e"
  using assms raises_publish [of H cwd rt mid ver src h u] raises_verify [of H rt mid ver h]
    raises_exists [of rt mid ver] unfolding raises_def by blast

theorem store_failures_witness:
  "\<exists>e t. store_verify sample_hash [''srv'', ''store''] ''maps'' ''1.0.0'' (replicate 64 CHR ''a'') sample_fs = (Inl e, t) \<and>
     is_ArtifactStoreError e"
proof -
  have "\<not> is_ok (fst (store_verify sample_hash [''srv'', ''store''] ''maps'' ''1.0.0'' (replicate 64 CHR ''a'') sample_fs))"
    by code_simp
  then obtain e t where "store_verify sample_hash [''srv'', ''store''] ''maps'' ''1.0.0'' (replicate 64 CHR ''a'') sample_fs = (Inl e, t)"
    by (metis is_ok_simps(2) obj_sumE prod.collapse)
  with store_failures show ?thesis by blast
qed

end
