(* ===== verification/Artifact_Race.thy ===== *)
theory Artifact_Race
  imports Artifact_Props
begin

text \<open>
  Several publishers at once. \<open>FilesystemArtifactStore._publish_verified\<close> holds no lock: it relies on
  an exclusively created staging file and on \<open>link\<close> failing when the final name exists. Here each
  publisher is a process that runs the calls of \<open>publish_verified\<close> one at a time on the shared file
  system, interleaved with the others in any order; a process may fail or crash anywhere, and what
  it copies may be any bytes (its source may change under it) until the digest check.
\<close>

record job =
  j_mid :: string
  j_ver :: string
  j_expected :: string
  j_u :: string
  j_parent :: nat
  j_staging :: nat

definition tmp_name :: "job \<Rightarrow> string" where
  "tmp_name j = j_u j @ ''.partial''"

definition final_name :: "job \<Rightarrow> string" where
  "final_name j = j_mid j @ ''-'' @ j_ver j @ ''.ocp''"

datatype pc =
    Checking
  | Creating
  | Copying nat
  | Copied nat
  | Linked nat
  | Cleanup nat "stored_artifact option"
  | Finished "stored_artifact option"
  | Crashed

fun active :: "pc \<Rightarrow> nat option" where
  "active (Copying n) = Some n"
| "active (Copied n) = Some n"
| "active (Linked n) = Some n"
| "active (Cleanup n r) = Some n"
| "active _ = None"

type_synonym cstate = "fsys \<times> (nat \<Rightarrow> pc)"

definition job_stored :: "(string \<Rightarrow> string) \<Rightarrow> fsys \<Rightarrow> job \<Rightarrow> stored_artifact \<Rightarrow> bool" where
  "job_stored H s j a = stored_at H s (j_parent j) (j_mid j) (j_ver j) (j_expected j) a"

inductive pub_step :: "(string \<Rightarrow> string) \<Rightarrow> (nat \<Rightarrow> job) \<Rightarrow> cstate \<Rightarrow> cstate \<Rightarrow> bool" for H jobs where
  check_absent: "pcs i = Checking \<Longrightarrow> fs_entry s (j_parent (jobs i)) (final_name (jobs i)) = None \<Longrightarrow>
    pub_step H jobs (s, pcs) (s, pcs(i := Creating))"
| check_present: "pcs i = Checking \<Longrightarrow> job_stored H s (jobs i) a \<Longrightarrow>
    pub_step H jobs (s, pcs) (s, pcs(i := Finished (Some a)))"
| check_fail: "pcs i \<in> {Checking, Creating} \<Longrightarrow> pub_step H jobs (s, pcs) (s, pcs(i := Finished None))"
| create: "pcs i = Creating \<Longrightarrow> os_open_excl (j_staging (jobs i)) (tmp_name (jobs i)) 384 s = (Inr n, t) \<Longrightarrow>
    pub_step H jobs (s, pcs) (t, pcs(i := Copying n))"
| write_chunk: "pcs i = Copying n \<Longrightarrow> os_write n b s = (Inr (), t) \<Longrightarrow> pub_step H jobs (s, pcs) (t, pcs)"
| copied: "pcs i = Copying n \<Longrightarrow> os_fchmod n FILE_MODE s = (Inr (), t) \<Longrightarrow>
    fst (digest_of H (file_bytes t n)) = j_expected (jobs i) \<Longrightarrow> s_isreg t n \<Longrightarrow>
    pub_step H jobs (s, pcs) (t, pcs(i := Copied n))"
| link_new: "pcs i = Copied n \<Longrightarrow>
    os_link (j_staging (jobs i)) (tmp_name (jobs i)) (j_parent (jobs i)) (final_name (jobs i)) s = (Inr (), t) \<Longrightarrow>
    pub_step H jobs (s, pcs) (t, pcs(i := Linked n))"
| link_exists: "pcs i = Copied n \<Longrightarrow> fs_entry s (j_parent (jobs i)) (final_name (jobs i)) \<noteq> None \<Longrightarrow>
    pub_step H jobs (s, pcs) (s, pcs(i := Linked n))"
| verified: "pcs i = Linked n \<Longrightarrow> job_stored H s (jobs i) a \<Longrightarrow>
    pub_step H jobs (s, pcs) (s, pcs(i := Cleanup n (Some a)))"
| failed: "pcs i \<in> {Copying n, Copied n, Linked n} \<Longrightarrow> pub_step H jobs (s, pcs) (s, pcs(i := Cleanup n None))"
| cleanup: "pcs i = Cleanup n r \<Longrightarrow> os_unlink (j_staging (jobs i)) (tmp_name (jobs i)) s = (Inr (), t) \<Longrightarrow>
    pub_step H jobs (s, pcs) (t, pcs(i := Finished r))"
| crash: "pub_step H jobs (s, pcs) (s, pcs(i := Crashed))"

inductive_cases pub_stepE: "pub_step H jobs c d"

inductive reachable :: "(string \<Rightarrow> string) \<Rightarrow> (nat \<Rightarrow> job) \<Rightarrow> cstate \<Rightarrow> cstate \<Rightarrow> bool" for H jobs c where
  here: "reachable H jobs c c"
| more: "reachable H jobs c d \<Longrightarrow> pub_step H jobs d e \<Longrightarrow> reachable H jobs c e"

section \<open>The invariant\<close>

definition no_dangling :: "fsys \<Rightarrow> bool" where
  "no_dangling s \<longleftrightarrow> (\<forall>d nm i. fs_entry s d nm = Some i \<longrightarrow> inodes s i \<noteq> None)"

text \<open>Every process at work owns the inode of its staging file, under its staging name.\<close>

definition owned :: "(nat \<Rightarrow> job) \<Rightarrow> fsys \<Rightarrow> (nat \<Rightarrow> pc) \<Rightarrow> bool" where
  "owned jobs s pcs \<longleftrightarrow>
     (\<forall>i n. active (pcs i) = Some n \<longrightarrow> fs_entry s (j_staging (jobs i)) (tmp_name (jobs i)) = Some n) \<and>
     (\<forall>i j n. active (pcs i) = Some n \<longrightarrow> active (pcs j) = Some n \<longrightarrow> i = j)"

text \<open>While it is written, the inode has no other name.\<close>

definition private_inode :: "(nat \<Rightarrow> job) \<Rightarrow> fsys \<Rightarrow> (nat \<Rightarrow> pc) \<Rightarrow> bool" where
  "private_inode jobs s pcs \<longleftrightarrow>
     (\<forall>i n d nm. pcs i = Copying n \<longrightarrow> fs_entry s d nm = Some n \<longrightarrow>
        d = j_staging (jobs i) \<and> nm = tmp_name (jobs i))"

definition digests_ok :: "(string \<Rightarrow> string) \<Rightarrow> (nat \<Rightarrow> job) \<Rightarrow> fsys \<Rightarrow> (nat \<Rightarrow> pc) \<Rightarrow> bool" where
  "digests_ok H jobs s pcs \<longleftrightarrow>
     (\<forall>i n. pcs i = Copied n \<longrightarrow> s_isreg s n \<and> H (file_bytes s n) = j_expected (jobs i))"

definition results_ok :: "(string \<Rightarrow> string) \<Rightarrow> (nat \<Rightarrow> job) \<Rightarrow> fsys \<Rightarrow> (nat \<Rightarrow> pc) \<Rightarrow> bool" where
  "results_ok H jobs s pcs \<longleftrightarrow>
     (\<forall>i a n. pcs i = Cleanup n (Some a) \<or> pcs i = Finished (Some a) \<longrightarrow> job_stored H s (jobs i) a)"

definition race_inv :: "(string \<Rightarrow> string) \<Rightarrow> (nat \<Rightarrow> job) \<Rightarrow> cstate \<Rightarrow> bool" where
  "race_inv H jobs c \<longleftrightarrow> (case c of (s, pcs) \<Rightarrow>
     fs_wf s \<and> no_dangling s \<and> owned jobs s pcs \<and> private_inode jobs s pcs \<and> digests_ok H jobs s pcs \<and>
     results_ok H jobs s pcs)"

text \<open>What one step keeps: every name but the staging names, every byte but those being copied.\<close>

definition partials :: "(nat \<times> string) set" where
  "partials = {(d, nm). \<exists>u. nm = u @ ''.partial''}"

definition copying :: "(nat \<Rightarrow> pc) \<Rightarrow> nat set" where
  "copying pcs = {n. \<exists>i. pcs i = Copying n}"

lemma step_ext:
  assumes "pub_step H jobs (s, pcs) (t, pcs')" and "fs_wf s"
  shows "fs_wf t \<and> fs_ext (copying pcs) partials s t"
  using assms
proof (cases rule: pub_step.cases)
  case (create i n)
  then show ?thesis using growD [OF keeps_os(2) _ assms(2)] by blast
next
  case (write_chunk i n b)
  then have "n \<in> copying pcs" by (auto simp: copying_def)
  then show ?thesis using growD [OF keeps_os_write _ assms(2)] write_chunk by blast
next
  case (copied i n)
  then show ?thesis using growD [OF keeps_os_fchmod _ assms(2)] by blast
next
  case (link_new i n)
  then show ?thesis using growD [OF keeps_os_link _ assms(2)] by blast
next
  case (cleanup i n r)
  then have "(j_staging (jobs i), tmp_name (jobs i)) \<in> partials" by (auto simp: partials_def tmp_name_def)
  then show ?thesis using growD [OF keeps_os_unlink _ assms(2)] cleanup by blast
qed auto

lemma fs_ext_bytes:
  assumes "fs_ext X Y s t" and "s_isreg s i" and "i \<notin> X"
  shows "s_isreg t i" and "file_bytes t i = file_bytes s i"
proof -
  from assms(2) obtain b m where i: "inodes s i = Some (IFile b m)"
    by (auto simp: s_isreg_def split: option.splits inode.splits)
  with assms(1,3) obtain y where y: "inodes t i = Some y" "inode_le (IFile b m) y" unfolding fs_ext_def by blast
  then obtain m' where "y = IFile b m'" by (cases y) auto
  with i y show "s_isreg t i" "file_bytes t i = file_bytes s i" by (simp_all add: s_isreg_def file_bytes_def)
qed

lemma ocp_not_partial: "(d, v @ ''.ocp'') \<notin> partials"
  using partial_not_ocp [of _ v] by (auto simp: partials_def)

lemma stored_at_step:
  assumes "fs_ext (copying pcs) partials s t" and "private_inode jobs s pcs" and "stored_at H s d mid ver h a"
  shows "stored_at H t d mid ver h a"
proof -
  from assms(3) obtain rel i where r: "identity mid ver (Some h) = Inr rel" "fs_entry s d (last rel) = Some i"
    "s_isreg s i" "H (file_bytes s i) = h" "metadata mid ver h (length (file_bytes s i)) = Inr a"
    unfolding stored_at_def by blast
  from r(1) have l: "last rel = (mid @ ''-'' @ ver) @ ''.ocp''" by (simp add: identity_Inr_iff)
  have "i \<notin> copying pcs"
    using assms(2) r(2) partial_not_ocp [of _ "mid @ ''-'' @ ver"]
    unfolding private_inode_def copying_def l tmp_name_def by fastforce
  with fs_ext_bytes [OF assms(1) r(3)] have "s_isreg t i" "file_bytes t i = file_bytes s i" by auto
  moreover have "fs_entry t d (last rel) = Some i"
    using assms(1) r(2) ocp_not_partial unfolding l fs_ext_def by blast
  ultimately show ?thesis unfolding stored_at_def using r by auto
qed


lemma create_facts:
  assumes "os_open_excl d nm mode s = (Inr n, t)" and "fs_wf s"
  shows "n = next_ino s" and "fs_entry s d nm = None"
    and "fs_entry t d' nm' = (if d' = d \<and> nm' = nm then Some n else fs_entry s d' nm')"
    and "inodes s n = None" and "inodes t n \<noteq> None" and "inodes s i \<noteq> None \<Longrightarrow> inodes t i \<noteq> None"
proof -
  have o: "is_dir s d" "fs_entry s d nm = None" "n = next_ino s"
    "t = set_entry d nm (Some n) (new_inode (IFile [] \<lparr>st_uid = euid s, st_dev = st_dev (fstat s d), st_mode = mode\<rparr>) s)"
    using assms(1) by (auto simp: os_open_excl_def split: if_splits)
  have none: "inodes s (next_ino s) = None" using assms(2) by (simp add: fs_wf_def)
  have e: "fs_entry (new_inode (IFile b m) s) d' nm' = fs_entry s d' nm'" for b m
    using none by (auto simp: fs_entry_def new_inode_def)
  show "n = next_ino s" "fs_entry s d nm = None" "inodes s n = None" using o none by auto
  show "fs_entry t d' nm' = (if d' = d \<and> nm' = nm then Some n else fs_entry s d' nm')"
    using o is_dir_new_inode [OF o(1) assms(2)] by (auto simp: fs_entry_set_entry e)
  show "inodes t n \<noteq> None" "inodes s i \<noteq> None \<Longrightarrow> inodes t i \<noteq> None"
    using o none inodes_set_entry [of "new_inode _ s" _ _ d nm "Some n"]
    by (auto simp: set_entry_def new_inode_def split: option.splits inode.splits)
qed

lemma link_facts:
  assumes "os_link sd a dd b s = (Inr (), t)"
  obtains i where "fs_entry s sd a = Some i" "fs_entry s dd b = None"
    "\<And>d nm. fs_entry t d nm = (if d = dd \<and> nm = b then Some i else fs_entry s d nm)"
    "\<And>i. inodes s i \<noteq> None \<Longrightarrow> inodes t i \<noteq> None"
proof -
  from assms obtain i where i: "fs_entry s sd a = Some i" "is_dir s dd" "fs_entry s dd b = None" "t = set_entry dd b (Some i) s"
    by (auto simp: os_link_def split: option.splits if_splits)
  have "inodes t k \<noteq> None" if "inodes s k \<noteq> None" for k
    using that i(4) inodes_set_entry [of s k _ dd b "Some i"] by auto
  with i that show thesis by (auto simp: fs_entry_set_entry)
qed

lemma unlink_facts:
  assumes "os_unlink d nm s = (Inr (), t)"
  shows "fs_entry t d' nm' = (if d' = d \<and> nm' = nm then None else fs_entry s d' nm')"
    and "inodes s i \<noteq> None \<Longrightarrow> inodes t i \<noteq> None"
proof -
  from assms have o: "t = set_entry d nm None s" "is_dir s d"
    by (auto simp: os_unlink_def fs_entry_def is_dir_def split: option.splits inode.splits)
  then show "fs_entry t d' nm' = (if d' = d \<and> nm' = nm then None else fs_entry s d' nm')"
    by (auto simp: fs_entry_set_entry)
  show "inodes s i \<noteq> None \<Longrightarrow> inodes t i \<noteq> None"
    using o inodes_set_entry [of s i _ d nm None] by auto
qed

lemma write_facts:
  assumes "os_write n b s = (Inr (), t)"
  shows "fs_entry t d nm = fs_entry s d nm" and "inodes s i \<noteq> None \<Longrightarrow> inodes t i \<noteq> None"
    and "i \<noteq> n \<Longrightarrow> inodes t i = inodes s i"
proof -
  from assms obtain c m where o: "inodes s n = Some (IFile c m)" "t = s\<lparr>inodes := (inodes s)(n \<mapsto> IFile (c @ b) m)\<rparr>"
    by (auto simp: os_write_def split: option.splits inode.splits)
  then show "fs_entry t d nm = fs_entry s d nm" "inodes s i \<noteq> None \<Longrightarrow> inodes t i \<noteq> None"
    "i \<noteq> n \<Longrightarrow> inodes t i = inodes s i" by (auto simp: fs_entry_def)
qed

lemma fchmod_dom:
  assumes "os_fchmod n mode s = (Inr (), t)" and "inodes s i \<noteq> None"
  shows "inodes t i \<noteq> None"
proof (cases "inodes s n")
  case None
  with assms show ?thesis by (simp add: os_fchmod_def)
next
  case (Some x)
  with assms show ?thesis by (cases x) (auto simp: os_fchmod_def)
qed

text \<open>Where the entries of the next state come from.\<close>

lemma step_entries:
  assumes "pub_step H jobs (s, pcs) (t, pcs')" and "fs_wf s" and "fs_entry t d nm = Some i"
  shows "fs_entry s d nm = Some i \<or>
    (\<exists>k. pcs k = Creating \<and> pcs' = pcs(k := Copying i) \<and> i = next_ino s \<and> inodes s i = None \<and> inodes t i \<noteq> None \<and>
       d = j_staging (jobs k) \<and> nm = tmp_name (jobs k)) \<or>
    (\<exists>k n. pcs k = Copied n \<and> pcs' = pcs(k := Linked n) \<and>
       fs_entry s (j_staging (jobs k)) (tmp_name (jobs k)) = Some i \<and>
       d = j_parent (jobs k) \<and> nm = final_name (jobs k))"
  using assms(1)
proof (cases rule: pub_step.cases)
  case (create k n)
  then show ?thesis using create_facts [OF create(3) assms(2)] assms(3) by (auto split: if_splits)
next
  case (write_chunk k n b)
  then show ?thesis using write_facts(1) [OF write_chunk(3)] assms(3) by simp
next
  case (copied k n)
  then show ?thesis using os_fchmod_dir(2) [OF copied(3)] assms(3) by simp
next
  case (link_new k n)
  obtain j where "fs_entry s (j_staging (jobs k)) (tmp_name (jobs k)) = Some j"
    "\<And>d nm. fs_entry t d nm = (if d = j_parent (jobs k) \<and> nm = final_name (jobs k) then Some j else fs_entry s d nm)"
    using link_new(3) by (rule link_facts) blast
  with link_new assms(3) show ?thesis by (auto split: if_splits)
next
  case (cleanup k n r)
  then show ?thesis using unlink_facts(1) [OF cleanup(3)] assms(3) by (auto split: if_splits)
qed (use assms(3) in auto)

lemma step_dom:
  assumes "pub_step H jobs (s, pcs) (t, pcs')" and "fs_wf s" and "inodes s i \<noteq> None"
  shows "inodes t i \<noteq> None"
  using assms(1)
proof (cases rule: pub_step.cases)
  case (create k n)
  then show ?thesis using create_facts(6) [OF create(3) assms(2,3)] by simp
next
  case (write_chunk k n b)
  then show ?thesis using write_facts(2) [OF write_chunk(3) assms(3)] by simp
next
  case (copied k n)
  then show ?thesis using fchmod_dom [OF copied(3) assms(3)] by simp
next
  case (link_new k n)
  show ?thesis using link_new(3) by (rule link_facts) (use assms(3) in blast)
next
  case (cleanup k n r)
  then show ?thesis using unlink_facts(2) [OF cleanup(3) assms(3)] by simp
qed (use assms(3) in auto)

lemma no_dangling_step:
  assumes "pub_step H jobs (s, pcs) (t, pcs')" and "fs_wf s" and "no_dangling s"
  shows "no_dangling t"
  unfolding no_dangling_def
  using step_entries [OF assms(1,2)] step_dom [OF assms(1,2)] assms(3) unfolding no_dangling_def by metis

lemma owned_mono:
  assumes "owned jobs s pcs" and "\<And>d nm m. fs_entry s d nm = Some m \<Longrightarrow> fs_entry t d nm = Some m"
  shows "owned jobs t pcs"
  using assms unfolding owned_def by blast

lemma owned_step:
  assumes step: "pub_step H jobs (s, pcs) (t, pcs')" and "fs_wf s" and "no_dangling s" and own: "owned jobs s pcs"
  shows "owned jobs t pcs'"
proof -
  have ent: "fs_entry s (j_staging (jobs i)) (tmp_name (jobs i)) = Some n" if "active (pcs i) = Some n" for i n
    using own that by (simp add: owned_def)
  have uni: "i = j" if "active (pcs i) = Some n" "active (pcs j) = Some n" for i j n
    using own that by (auto simp: owned_def)
  have same: "owned jobs s (pcs(k := p))" if "active p = None \<or> active p = active (pcs k)" for k p
  proof -
    have "active (pcs j) = Some n" if "active ((pcs(k := p)) j) = Some n" for j n
      using that \<open>active p = None \<or> active p = active (pcs k)\<close> by (auto split: if_splits)
    then show ?thesis unfolding owned_def using ent uni by blast
  qed
  show ?thesis using step
  proof (cases rule: pub_step.cases)
    case (create k n)
    note f = create_facts [OF create(3) assms(2)]
    have fresh: "active (pcs j) \<noteq> Some n" for j
      using ent [of j n] f(4) assms(3) unfolding no_dangling_def by blast
    have "fs_entry t (j_staging (jobs j)) (tmp_name (jobs j)) = Some m"
      if "active (pcs j) = Some m" for j m using ent [OF that] f(2,3) by auto
    moreover have "fs_entry t (j_staging (jobs k)) (tmp_name (jobs k)) = Some n" using f(3) by simp
    ultimately show ?thesis using fresh uni create(1) by (auto simp: owned_def)
  next
    case (write_chunk k n b)
    then show ?thesis using owned_mono [OF own] write_facts(1) [OF write_chunk(3)] by simp
  next
    case (copied k n)
    then have "owned jobs s pcs'" using same [of "Copied n" k] by simp
    then show ?thesis by (rule owned_mono) (simp add: os_fchmod_dir(2) [OF copied(3)])
  next
    case (link_new k n)
    obtain i where "fs_entry s (j_parent (jobs k)) (final_name (jobs k)) = None"
      "\<And>d nm. fs_entry t d nm = (if d = j_parent (jobs k) \<and> nm = final_name (jobs k) then Some i else fs_entry s d nm)"
      using link_new(3) by (rule link_facts) blast
    then have "fs_entry t d nm = Some m" if "fs_entry s d nm = Some m" for d nm m using that by auto
    moreover have "owned jobs s pcs'" using link_new same [of "Linked n" k] by simp
    ultimately show ?thesis using owned_mono by blast
  next
    case (cleanup k n r)
    have "fs_entry t (j_staging (jobs j)) (tmp_name (jobs j)) = Some m" if j: "active (pcs j) = Some m" "j \<noteq> k" for j m
      using unlink_facts(1) [OF cleanup(3)] ent [OF j(1)] ent [of k n] uni [OF j(1), of k] cleanup(2) j(2) by auto
    then show ?thesis using cleanup uni by (auto simp: owned_def)
  qed (use same in auto)
qed

lemma private_step:
  assumes step: "pub_step H jobs (s, pcs) (t, pcs')" and "fs_wf s" and "no_dangling s" and own: "owned jobs s pcs"
    and "private_inode jobs s pcs"
  shows "private_inode jobs t pcs'"
  unfolding private_inode_def
proof (intro allI impI)
  fix i n d nm
  assume c: "pcs' i = Copying n" and e: "fs_entry t d nm = Some n"
  have old: "pcs i = Copying n \<or> (pcs i = Creating \<and> inodes s n = None)"
    using step c by (cases rule: pub_step.cases)
      (auto split: if_splits dest: create_facts(4) [OF _ assms(2)])
  from step_entries [OF step assms(2) e] consider
      "fs_entry s d nm = Some n"
    | k where "pcs' = pcs(k := Copying n)" "inodes s n = None" "d = j_staging (jobs k)" "nm = tmp_name (jobs k)"
    | k m where "pcs k = Copied m" "pcs' = pcs(k := Linked m)"
        "fs_entry s (j_staging (jobs k)) (tmp_name (jobs k)) = Some n" by blast
  then show "d = j_staging (jobs i) \<and> nm = tmp_name (jobs i)"
  proof cases
    case 1
    then have "inodes s n \<noteq> None" using assms(3) unfolding no_dangling_def by blast
    with old 1 assms(5) show ?thesis unfolding private_inode_def by blast
  next
    case (2 k)
    have "fs_entry s (j_staging (jobs i)) (tmp_name (jobs i)) = Some n" if "pcs i = Copying n"
      using own that by (simp add: owned_def)
    with 2(2) assms(3) have "pcs i \<noteq> Copying n" unfolding no_dangling_def by blast
    with 2 c show ?thesis by (cases "i = k") auto
  next
    case (3 k m)
    then have "i \<noteq> k" "pcs i = Copying n" using c by (auto split: if_splits)
    moreover have "m = n" using own 3(1,3) by (auto simp: owned_def dest!: spec [of _ k])
    ultimately show ?thesis using own 3(1) by (auto simp: owned_def dest!: spec [of _ i])
  qed
qed

lemma digests_step:
  assumes step: "pub_step H jobs (s, pcs) (t, pcs')" and "fs_wf s" and own: "owned jobs s pcs"
    and "digests_ok H jobs s pcs"
  shows "digests_ok H jobs t pcs'"
  unfolding digests_ok_def
proof (intro allI impI)
  fix i n
  assume c: "pcs' i = Copied n"
  show "s_isreg t n \<and> H (file_bytes t n) = j_expected (jobs i)"
  proof (cases "pcs i = Copied n")
    case True
    with assms(4) have ok: "s_isreg s n" "H (file_bytes s n) = j_expected (jobs i)" by (auto simp: digests_ok_def)
    have "n \<notin> copying pcs"
    proof
      assume "n \<in> copying pcs"
      then obtain j where "pcs j = Copying n" by (auto simp: copying_def)
      moreover from this own True have "i = j" by (auto simp: owned_def)
      ultimately show False using True by simp
    qed
    with fs_ext_bytes [of "copying pcs" partials s t n] step_ext [OF step assms(2)] ok show ?thesis by simp
  next
    case False
    with step c show ?thesis by (cases rule: pub_step.cases) (auto simp: digest_of_eq split: if_splits)
  qed
qed

lemma results_step:
  assumes step: "pub_step H jobs (s, pcs) (t, pcs')" and "fs_wf s" and "private_inode jobs s pcs"
    and "results_ok H jobs s pcs"
  shows "results_ok H jobs t pcs'"
proof -
  have keep: "job_stored H t (jobs i) a" if "job_stored H s (jobs i) a" for i a
    using that stored_at_step [of pcs s t jobs H] step_ext [OF step assms(2)] assms(3) by (simp add: job_stored_def)
  have old: "results_ok H jobs t pcs" using assms(4) keep unfolding results_ok_def by blast
  show ?thesis using step old keep by (cases rule: pub_step.cases) (auto simp: results_ok_def)
qed

lemma race_inv_step:
  assumes "pub_step H jobs c d" and "race_inv H jobs c"
  shows "race_inv H jobs d"
proof -
  obtain s pcs t pcs' where c: "c = (s, pcs)" "d = (t, pcs')" by (cases c, cases d)
  with assms have st: "pub_step H jobs (s, pcs) (t, pcs')" and inv: "fs_wf s" "no_dangling s" "owned jobs s pcs"
    "private_inode jobs s pcs" "digests_ok H jobs s pcs" "results_ok H jobs s pcs" by (auto simp: race_inv_def)
  show ?thesis unfolding race_inv_def c
    using step_ext [OF st inv(1)] no_dangling_step [OF st inv(1,2)] owned_step [OF st inv(1,2,3)]
      private_step [OF st inv(1,2,3,4)] digests_step [OF st inv(1,3,5)] results_step [OF st inv(1,4,6)] by simp
qed

lemma race_inv_reachable: "reachable H jobs c d \<Longrightarrow> race_inv H jobs c \<Longrightarrow> race_inv H jobs d"
  by (induction rule: reachable.induct) (auto intro: race_inv_step)

lemma race_inv_init:
  "fs_wf s \<Longrightarrow> no_dangling s \<Longrightarrow> race_inv H jobs (s, \<lambda>_. Checking)"
  by (simp add: race_inv_def owned_def private_inode_def digests_ok_def results_ok_def)

section \<open>Properties\<close>

lemma race_stored_keeps:
  assumes "reachable H jobs c d" and "race_inv H jobs c" and "stored_at H (fst c) p mid ver h a"
  shows "stored_at H (fst d) p mid ver h a"
  using assms
proof (induction rule: reachable.induct)
  case here
  then show ?case by simp
next
  case (more d e)
  obtain s pcs t pcs' where de: "d = (s, pcs)" "e = (t, pcs')" by (cases d, cases e)
  have inv: "race_inv H jobs (s, pcs)" using race_inv_reachable [OF more.hyps(1) more.prems(1)] de by simp
  then have "fs_wf s" "private_inode jobs s pcs" by (auto simp: race_inv_def)
  moreover have "pub_step H jobs (s, pcs) (t, pcs')" using more.hyps(2) de by simp
  moreover have "stored_at H s p mid ver h a" using more.IH more.prems de by simp
  ultimately show ?case using stored_at_step step_ext unfolding de by fastforce
qed

lemma stored_at_unique:
  assumes "stored_at H s d mid ver h a" and "stored_at H s d mid ver h' a'"
  shows "h = h' \<and> a = a'"
  using assms by (auto simp: stored_at_def identity_Inr_iff)

text \<open>A small store that already holds the version, and a publisher of it.\<close>

definition race_fs :: fsys where
  "race_fs = \<lparr>inodes = [0 \<mapsto> IDir [''maps-1.0.0.ocp'' \<mapsto> 1] sample_meta, 1 \<mapsto> IFile ''AAAA'' sample_meta],
     next_ino = 2, euid = 7\<rparr>"

definition race_job :: job where
  "race_job = \<lparr>j_mid = ''maps'', j_ver = ''1.0.0'', j_expected = replicate 64 CHR ''a'', j_u = ''u'',
     j_parent = 0, j_staging = 0\<rparr>"

lemma race_fs_ok: "fs_wf race_fs" "no_dangling race_fs"
  by (auto simp: fs_wf_def no_dangling_def race_fs_def fs_entry_def split: if_splits)

lemma race_run:
  obtains a where "job_stored sample_hash race_fs race_job a"
    "reachable sample_hash (\<lambda>_. race_job) (race_fs, \<lambda>_. Checking) (race_fs, (\<lambda>_. Checking)(0 := Finished (Some a)))"
proof -
  have "is_ok (fst (verify_at sample_hash 0 ''maps'' ''1.0.0'' (replicate 64 CHR ''a'') race_fs))" by code_simp
  then obtain a t where "verify_at sample_hash 0 ''maps'' ''1.0.0'' (replicate 64 CHR ''a'') race_fs = (Inr a, t)"
    by (metis is_ok_iff prod.collapse)
  then have st: "job_stored sample_hash race_fs race_job a"
    by (simp add: job_stored_def race_job_def verify_at_iff)
  have "pub_step sample_hash (\<lambda>_. race_job) (race_fs, \<lambda>_. Checking) (race_fs, (\<lambda>_. Checking)(0 := Finished (Some a)))"
    by (rule check_present) (simp_all add: st)
  with that [OF st] show thesis using more [OF here] by blast
qed



text \<open>Once an artifact is complete under its final name, every later state of the race, at
  every single step, still holds exactly these bytes there: no reader ever sees a partial or
  replaced artifact.\<close>

theorem concurrent_artifact_stable:
  assumes "fs_wf s" and "no_dangling s" and "reachable H jobs (s, \<lambda>_. Checking) c" and "reachable H jobs c d"
    and "stored_at H (fst c) p mid ver h a"
  shows "stored_at H (fst d) p mid ver h a"
  using race_stored_keeps [OF assms(4) race_inv_reachable [OF assms(3) race_inv_init [OF assms(1,2)]] assms(5)] .

theorem concurrent_artifact_stable_witness:
  "\<exists>a. stored_at sample_hash
     (fst (race_fs, (\<lambda>_. Checking)(0 := Finished (Some a)))) 0 ''maps'' ''1.0.0'' (replicate 64 CHR ''a'') a"
proof -
  obtain a where a: "job_stored sample_hash race_fs race_job a"
    "reachable sample_hash (\<lambda>_. race_job) (race_fs, \<lambda>_. Checking) (race_fs, (\<lambda>_. Checking)(0 := Finished (Some a)))"
    by (rule race_run)
  have "stored_at sample_hash (fst (race_fs, (\<lambda>_. Checking)(0 := Finished (Some a)))) 0 ''maps'' ''1.0.0'' (replicate 64 CHR ''a'') a"
    using concurrent_artifact_stable [OF race_fs_ok here a(2), of 0 "''maps''" "''1.0.0''"] a(1)
    by (simp add: job_stored_def race_job_def)
  then show ?thesis by blast
qed

end
