(* ===== verification/Registry_Props.thy ===== *)
theory Registry_Props
  imports Registry
begin

text \<open>
  The properties of the registry core (\<open>scripts/registry.py\<close>), each with a witness on a concrete
  registry: what loading, indexing and the canonical form guarantee, and that published history
  is immutable.
\<close>

section \<open>A concrete registry\<close>

definition sample_sha :: "char \<Rightarrow> string" where
  "sample_sha c = replicate 64 c"

definition sample_release :: "string \<Rightarrow> string \<Rightarrow> char \<Rightarrow> string \<Rightarrow> json" where
  "sample_release ver ch h url =
     JObj [(''version'', JStr ver), (''channel'', JStr ch),
       (''artifact'', JObj [(''url'', JStr url), (''sha256'', JStr (sample_sha h))]),
       (''bundle_format_version'', JInt 1), (''source_commit'', JStr (replicate 40 CHR ''c'')),
       (''requires'', JObj [(''host'', JStr ''>=1.0.0,<2.0.0''), (''sdk'', JStr ''>=1.0.0''), (''modules'', JObj [])])]"

definition sample_github :: "string \<Rightarrow> string" where
  "sample_github ver = ''https://github.com/oklabflensburg/maps/releases/download/v'' @ ver @ ''/maps-'' @ ver @ ''.ocp''"

definition sample_module :: "json list \<Rightarrow> json" where
  "sample_module vs =
     JObj [(''schema_version'', JInt 1), (''id'', JStr ''maps''), (''name'', JStr ''Maps''),
       (''publisher'', JObj [(''id'', JStr ''oklab''), (''name'', JStr ''OK Lab'')]),
       (''classification'', JStr ''first-party''),
       (''source_repository'', JStr ''https://github.com/oklabflensburg/maps''),
       (''license'', JStr ''MIT''), (''versions'', JList vs)]"

definition sample_v1 :: json where
  "sample_v1 = sample_module [sample_release ''1.0.0'' ''stable'' CHR ''a'' (sample_github ''1.0.0'')]"

definition sample_v2 :: json where
  "sample_v2 = sample_module
     [sample_release ''1.10.0'' ''stable'' CHR ''b'' (sample_github ''1.10.0''),
      sample_release ''1.0.0'' ''stable'' CHR ''a'' (mirror_url ''maps'' ''1.0.0'')]"

lemma sample_v1_valid: "validate_module (\<lambda>_ _. True) sample_v1 None = Inr ()"
  by code_simp

lemma sample_v2_valid: "validate_module (\<lambda>_ _. True) sample_v2 None = Inr ()"
  by code_simp

lemma sample_step: "validate_immutability [sample_v2] [sample_v1] = Inr ()"
  by code_simp

primrec to_ptree :: "json \<Rightarrow> ptree" where
  "to_ptree JNull = PNull"
| "to_ptree (JBool b) = PBool b"
| "to_ptree (JInt i) = PInt i"
| "to_ptree (JFloat r) = PFloat r"
| "to_ptree (JStr s) = PStr s"
| "to_ptree (JList xs) = PList (map to_ptree xs)"
| "to_ptree (JObj d) = PObj (map (map_prod id to_ptree) d)"

definition sample_tree :: "json \<Rightarrow> registry_source" where
  "sample_tree m = \<lparr>src_envelope = Some (Some (PObj [(''schema_version'', PInt 1)])),
     src_modules = [(''maps.json'', Some (to_ptree m))]\<rparr>"

lemma sample_load: "load_registry (\<lambda>_ _. True) (sample_tree sample_v2) = Inr [sample_v2]"
  by code_simp

lemma sample_v2_index: "is_ok (build_index (\<lambda>_ _. True) [sample_v2])"
  by code_simp

lemma sample_wf: "registry_wf [sample_v1]" "registry_wf [sample_v2]"
  using validate_module_wf [OF sample_v1_valid] validate_module_wf [OF sample_v2_valid]
  by (simp_all add: registry_wf_def)

lemma sample_history: "history [sample_v1] [sample_v2]"
  by (rule accept [OF start sample_wf(2) sample_step]) (rule sample_wf(1))

section \<open>History\<close>



text \<open>Publishing more is always allowed: a valid registry that contains, for each module of
  the published one, a module with the same provenance and all its releases unchanged passes
  \<open>validate_immutability\<close> (NaN values aside, which differ from themselves).\<close>

theorem append_accepted:
  assumes "registry_wf cur" and "\<forall>b \<in> set base. module_wf b \<and> json_wf b \<and> no_nan b"
    and "\<forall>b \<in> set base. \<exists>c \<in> set cur. extends c b"
  shows "validate_immutability cur base = Inr ()"
  using assms by (rule validate_immutability_extends)

lemma extends_self: "extends m m"
  by (simp add: extends_def)

theorem append_accepted_witness: "validate_immutability [sample_v2] [sample_v2] = Inr ()"
proof (rule append_accepted)
  have "json_wf sample_v2" "no_nan sample_v2" by code_simp+
  with sample_wf(2) show "\<forall>b \<in> set [sample_v2]. module_wf b \<and> json_wf b \<and> no_nan b"
    by (simp add: registry_wf_def)
  show "\<forall>b \<in> set [sample_v2]. \<exists>c \<in> set [sample_v2]. extends c b" by (simp add: extends_self)
qed (rule sample_wf(2))

section \<open>Loading\<close>



text \<open>The loaded registry does not depend on the order in which the directory lists its files.\<close>

theorem load_registry_order_independent:
  assumes "mset (src_modules a) = mset (src_modules b)" and "distinct (map fst (src_modules a))"
    and "src_envelope a = src_envelope b"
  shows "load_registry sch a = load_registry sch b"
  using assms by (rule load_registry_perm)

theorem load_registry_order_independent_witness:
  "load_registry (\<lambda>_ _. True) \<lparr>src_envelope = None, src_modules = [(''a.json'', None), (''b.json'', None)]\<rparr> =
   load_registry (\<lambda>_ _. True) \<lparr>src_envelope = None, src_modules = [(''b.json'', None), (''a.json'', None)]\<rparr>"
  by (rule load_registry_order_independent) simp_all

section \<open>The index and the canonical form\<close>

text \<open>C8. In the index built from a loaded registry there is one entry per module, in the order of
  the registry, and its channel map points, for exactly the channels that have a release, to the
  release of the channel with the greatest version and to the digest of that release.\<close>

theorem build_index_newest:
  assumes "load_registry sch tree = Inr ms" and "build_index sch ms = Inr index"
  shows "\<exists>entries. get_field index ''modules'' = Some (JList entries) \<and>
    list_all2 indexes ms entries"
proof -
  note ok = load_registry_ok [OF assms(1)]
  have wf: "\<forall>m \<in> set ms. module_wf m" using ok(1) validate_module_wf by blast
  from build_index_entries [OF assms(2) wf] obtain entries where
    e: "get_field index ''modules'' = Some (JList entries)"
    "rmap index_entry (py_sorted mod_id ms) = Inr entries" by blast
  have "rmap index_entry ms = Inr entries" using e(2) ok(2) by (simp add: sort_key_id_if_sorted)
  then have "list_all2 (\<lambda>m e. index_entry m = Inr e) ms entries" by (simp add: rmap_Inr_iff)
  then have "list_all2 indexes ms entries"
    using wf by (auto elim!: list.rel_mono_strong intro: index_entry_indexes)
  with e(1) show ?thesis by blast
qed

theorem build_index_newest_witness:
  "\<exists>index entries. build_index (\<lambda>_ _. True) [sample_v2] = Inr index \<and>
     get_field index ''modules'' = Some (JList entries) \<and> list_all2 indexes [sample_v2] entries"
  using build_index_newest [OF sample_load] sample_v2_index unfolding is_ok_iff by blast

text \<open>Building the index of a loaded registry cannot fail in the code itself: the only
  possible failure is the JSON Schema check of the result.\<close>

theorem build_index_only_schema_fails:
  assumes "load_registry sch tree = Inr ms"
  shows "(\<exists>index. build_index sch ms = Inr index) \<or> build_index sch ms = Inl (invalid Schema_failed)"
  using load_registry_ok(1) [OF assms] validate_module_wf build_index_total by blast

theorem build_index_only_schema_fails_witness:
  "build_index (\<lambda>_ _. True) [sample_v2] \<noteq> Inl (invalid Not_semver)"
  using build_index_only_schema_fails [OF sample_load] by auto

text \<open>The canonical form of a module exists for every valid module, changes nothing but the
  order of its releases, which are then sorted by version, and is its own canonical form.\<close>

theorem canonical_module_spec:
  assumes "validate_module sch m None = Inr ()"
  shows "\<exists>c vs ws. canonical_module m = Inr c \<and> canonical_module c = Inr c \<and>
    get_field m ''versions'' = Some (JList vs) \<and> get_field c ''versions'' = Some (JList ws) \<and>
    mset ws = mset vs \<and> sorted (map (\<lambda>r. projr (release_key r)) ws) \<and>
    (\<forall>k. k \<noteq> ''versions'' \<longrightarrow> get_field c k = get_field m k)"
proof -
  from canonical_module_ok [OF validate_module_wf [OF assms]] obtain c where c: "canonical_module m = Inr c" ..
  then obtain vs where "get_field m ''versions'' = Some (JList vs)"
    "c = set_field ''versions'' (JList (py_sorted (\<lambda>r. projr (release_key r)) vs)) m"
    by (rule canonical_module_Inr)
  with c canonical_module_idem [OF c] show ?thesis by (auto dest: get_field_Some_obj)
qed

theorem canonical_module_spec_witness:
  "\<exists>c vs ws. canonical_module sample_v2 = Inr c \<and> canonical_module c = Inr c \<and>
    get_field sample_v2 ''versions'' = Some (JList vs) \<and> get_field c ''versions'' = Some (JList ws) \<and>
    mset ws = mset vs \<and> sorted (map (\<lambda>r. projr (release_key r)) ws) \<and>
    (\<forall>k. k \<noteq> ''versions'' \<longrightarrow> get_field c k = get_field sample_v2 k)"
  by (rule canonical_module_spec [OF sample_v2_valid])

text \<open>The canonical rendering of a document does not depend on the order in which the keys of
  its objects were written, at any depth.\<close>

theorem canonical_json_deterministic:
  assumes "key_perm x y"
  shows "canonical_json x = canonical_json y"
  using assms by (rule canonical_json_key_perm)

theorem canonical_json_deterministic_witness:
  "canonical_json (JObj [(''b'', JInt 1), (''a'', JNull)]) = canonical_json (JObj [(''a'', JNull), (''b'', JInt 1)])"
proof (rule canonical_json_deterministic)
  show "key_perm (JObj [(''b'', JInt 1), (''a'', JNull)]) (JObj [(''a'', JNull), (''b'', JInt 1)])"
    by (rule kp_obj [where e' = "[(''b'', JInt 1), (''a'', JNull)]"]) (simp_all add: kp_refl add_mset_commute)
qed

section \<open>Policies\<close>

text \<open>An artifact URL that passes is an HTTPS URL of an \<open>.ocp\<close> file which is either exactly the
  mirror path of the release on the canonical host or a GitHub release asset whose tag is the
  version or \<open>v\<close> and the version, and of the organisation itself for first-party modules.\<close>

theorem artifact_url_policy:
  assumes "validate_artifact_url u cls mid ver = Inr r"
  shows "https_url u = Inr r \<and> scheme r = ''https'' \<and> username r = None \<and>
    py_endswith (unquote (path r)) ''.ocp'' \<and>
    ((hostname r = Some CANONICAL_REGISTRY_HOST \<and> unquote (path r) = mirror_path mid ver) \<or>
     (hostname r = Some ''github.com'' \<and>
        (\<exists>tag. github_match (unquote (path r)) = Some tag \<and> tag \<in> {ver, ''v'' @ ver}) \<and>
        (cls = ''first-party'' \<longrightarrow> py_startswith (unquote (path r)) ''/oklabflensburg/'')))"
  using validate_artifact_url_Inr [OF assms] by (auto simp: https_url_Inr_iff)

theorem artifact_url_policy_witness:
  "\<exists>r. validate_artifact_url (JStr (sample_github ''1.0.0'')) ''first-party'' ''maps'' ''1.0.0'' = Inr r \<and>
     py_startswith (unquote (path r)) ''/oklabflensburg/''"
proof -
  have "is_ok (validate_artifact_url (JStr (sample_github ''1.0.0'')) ''first-party'' ''maps'' ''1.0.0'')"
    by code_simp
  then obtain r where r: "validate_artifact_url (JStr (sample_github ''1.0.0'')) ''first-party'' ''maps'' ''1.0.0'' = Inr r"
    by (auto simp: is_ok_iff)
  have "hostname (projr (validate_artifact_url (JStr (sample_github ''1.0.0'')) ''first-party'' ''maps'' ''1.0.0''))
    = Some ''github.com''" by code_simp
  with r artifact_url_policy [OF r] show ?thesis by (auto simp: CANONICAL_REGISTRY_HOST_def)
qed

section \<open>Versions\<close>

text \<open>Parsing and printing a version are inverse: the groups of a match are well-formed
  and print back to the text, and every well-formed group of parts prints to a text that matches
  with exactly these groups.\<close>

theorem semver_roundtrip:
  "semver_fullmatch v = Some g \<longleftrightarrow> groups_ok g \<and> v = semver_print g"
  by (rule semver_fullmatch_Some_iff)



text \<open>A bracket in the authority makes \<open>urlsplit\<close> raise, and the URL policy passes the exception on
  instead of reporting a validation error.\<close>

lemma https_url_raw_value_error: "https_url (JStr ''https://['') = Inl (Raise ValueError Not_https)"
  by code_simp

end
