(* ===== verification/Verify_Artifacts.thy ===== *)
theory Verify_Artifacts
  imports Artifact_Store Registry_Props
begin

text \<open>
  Release verification, \<open>scripts/verify_artifacts.py\<close>: which releases are new, the redirect policy,
  the bounded download, the host verifier's contract and the verification of all candidates.
  The network is the parameter \<open>net\<close>, from a URL to what the server answers; the clock is the
  sequence of values \<open>time.monotonic\<close> returns during the download; the host verifier is an external
  program, given by its exit status and output. \<open>urllib\<close>'s own limits (four repeats of a URL, ten
  redirects) lie above \<open>MAX_REDIRECTS\<close> and are not modelled. Times are integers.
\<close>

section \<open>Candidates\<close>

record release_candidate =
  rc_module_id :: string
  rc_version :: string
  rc_channel :: string
  artifact_url :: string
  expected_sha256 :: string
  rc_classification :: string

definition rc_identity :: "release_candidate \<Rightarrow> string" where
  "rc_identity c = rc_module_id c @ ''@'' @ rc_version c"

definition candidate_of :: "json \<Rightarrow> json \<Rightarrow> exn + release_candidate" where
  "candidate_of md release =
     rbind (str_item md ''id'') (\<lambda>mid.
     rbind (str_item release ''version'') (\<lambda>ver.
     rbind (str_item release ''channel'') (\<lambda>ch.
     rbind (getitem release ''artifact'') (\<lambda>a.
     rbind (str_item a ''url'') (\<lambda>url.
     rbind (str_item a ''sha256'') (\<lambda>sha.
     rbind (str_item md ''classification'') (\<lambda>cls.
     Inr \<lparr>rc_module_id = mid, rc_version = ver, rc_channel = ch, artifact_url = url,
       expected_sha256 = sha, rc_classification = cls\<rparr>)))))))"

definition releases_of :: "json list \<Rightarrow> exn + (json \<times> json) list" where
  "releases_of modules =
     rbind (rmap (\<lambda>m. rbind (list_item m ''versions'') (\<lambda>vs. Inr (map (\<lambda>r. (m, r)) vs))) modules) (\<lambda>xss.
     Inr (concat xss))"

definition release_identity :: "json \<times> json \<Rightarrow> exn + string \<times> string" where
  "release_identity p =
     rbind (str_item (fst p) ''id'') (\<lambda>mid. rbind (str_item (snd p) ''version'') (\<lambda>ver. Inr (mid, ver)))"

definition candidate_key :: "release_candidate \<Rightarrow> exn + string \<times> version_key" where
  "candidate_key c = rbind (semver_key (rc_version c)) (\<lambda>k. Inr (rc_module_id c, k))"

definition find_new_releases :: "json list \<Rightarrow> json list \<Rightarrow> exn + release_candidate list" where
  "find_new_releases current_modules base_modules =
     rbind (releases_of base_modules) (\<lambda>base.
     rbind (rmap release_identity base) (\<lambda>published.
     rbind (releases_of current_modules) (\<lambda>current.
     rbind (rmap (\<lambda>p. rbind (release_identity p) (\<lambda>i. Inr (i, p))) current) (\<lambda>tagged.
     rbind (rmap (\<lambda>(i, m, r). candidate_of m r) (filter (\<lambda>(i, p). i \<notin> set published) tagged)) (\<lambda>candidates.
     sorted_by candidate_key candidates)))))"

definition validate_candidate_url :: "release_candidate \<Rightarrow> exn + split_result" where
  "validate_candidate_url c =
     validate_artifact_url (JStr (artifact_url c)) (rc_classification c) (rc_module_id c) (rc_version c)"

section \<open>Redirects\<close>

definition MAX_ARTIFACT_BYTES :: nat where "MAX_ARTIFACT_BYTES = 512 * 1024 * 1024"

definition MAX_REDIRECTS :: nat where "MAX_REDIRECTS = 3"

definition MAX_DOWNLOAD_SECONDS :: int where "MAX_DOWNLOAD_SECONDS = 600"

definition DOWNLOAD_CHUNK_BYTES :: nat where "DOWNLOAD_CHUNK_BYTES = 1024 * 1024"

definition GITHUB_RELEASE_REDIRECT_HOSTS :: "string list" where
  "GITHUB_RELEASE_REDIRECT_HOSTS = [''release-assets.githubusercontent.com'']"

abbreviation unverified :: "string \<Rightarrow> exn" where
  "unverified m \<equiv> Raise ArtifactVerificationError (Msg m)"

definition validate_redirect_target :: "string \<Rightarrow> string \<Rightarrow> exn + unit" where
  "validate_redirect_target target_url initial_hostname =
     rbind (urlsplit target_url) (\<lambda>parsed.
     if initial_hostname \<noteq> ''github.com''
       \<or> scheme parsed \<noteq> ''https''
       \<or> (case hostname parsed of None \<Rightarrow> True | Some h \<Rightarrow> h \<notin> set GITHUB_RELEASE_REDIRECT_HOSTS)
       \<or> username parsed \<noteq> None
       \<or> password parsed \<noteq> None
       \<or> invalid_port parsed
       \<or> fragment parsed \<noteq> []
       \<or> \<not> py_startswith (path parsed) ''/github-production-release-asset/''
       \<or> CHR 0x5C \<in> set target_url
       \<or> has_space_or_control target_url
     then Inl (unverified ''artifact redirect target is not policy-approved'')
     else Inr ())"

section \<open>The download\<close>

datatype answer =
    Redirect string
  | Response "int option" "string option" string
  | HTTP_error int
  | Timeout_error
  | URL_error
  | Socket_error

text \<open>\<open>_PolicyRedirectHandler.redirect_request\<close>: counts, limits and validates one redirect.\<close>

definition redirect_request :: "nat \<Rightarrow> string \<Rightarrow> nat \<Rightarrow> string \<Rightarrow> exn + nat" where
  "redirect_request max_redirects initial_hostname redirects new_url =
     (let redirects = redirects + 1 in
      rbind (ensure (redirects \<le> max_redirects) (unverified ''artifact redirect limit exceeded'')) (\<lambda>_.
      rbind (validate_redirect_target new_url initial_hostname) (\<lambda>_. Inr redirects)))"

text \<open>\<open>opener.open\<close>: follow redirects to an answer, with the URLs that were requested.\<close>

function open_url ::
    "(string \<Rightarrow> answer) \<Rightarrow> nat \<Rightarrow> string \<Rightarrow> nat \<Rightarrow> string \<Rightarrow> exn + answer \<times> string list" where
  "open_url net max_redirects initial_hostname redirects url =
     (case net url of
        Redirect new_url \<Rightarrow>
          (case redirect_request max_redirects initial_hostname redirects new_url of
             Inl e \<Rightarrow> Inl e
           | Inr n \<Rightarrow> rbind (open_url net max_redirects initial_hostname n new_url) (\<lambda>(a, us).
                        Inr (a, url # us)))
      | a \<Rightarrow> Inr (a, [url]))"
  by pat_completeness auto
termination
proof (relation "measure (\<lambda>(net, m, h, r, u). m + 1 - r)", simp)
  fix net :: "string \<Rightarrow> answer" and m r n :: nat and h url u :: string
  assume "net url = Redirect u" and "redirect_request m h r u = Inr n"
  then have "n = r + 1" "r + 1 \<le> m" by (auto simp: redirect_request_def Let_def)
  then show "((net, m, h, n, u), (net, m, h, r, url)) \<in> measure (\<lambda>(net, m, h, r, u). m + 1 - r)" by simp
qed

declare open_url.simps [simp del]

text \<open>
  The reading loop. \<open>clock k\<close> is the time of the \<open>k\<close>-th check; the result is what was written to the
  destination and hashed.
\<close>

function read_body :: "(nat \<Rightarrow> int) \<Rightarrow> int \<Rightarrow> nat \<Rightarrow> nat \<Rightarrow> string \<Rightarrow> nat \<Rightarrow> string \<Rightarrow> exn + string" where
  "read_body clock deadline max_bytes k body downloaded written =
     (if deadline < clock k then Inl (unverified ''artifact download exceeded total timeout'')
      else
        let n = min DOWNLOAD_CHUNK_BYTES (max_bytes + 1 - downloaded); chunk = take n body in
        if chunk = [] then Inr written
        else if max_bytes < downloaded + length chunk
        then Inl (unverified ''artifact download exceeds size limit'')
        else read_body clock deadline max_bytes (Suc k) (drop n body) (downloaded + length chunk) (written @ chunk))"
  by pat_completeness auto
termination
  by (relation "measure (\<lambda>(c, d, m, k, body, dl, w). length body)") auto

declare read_body.simps [simp del]

definition parse_int :: "string \<Rightarrow> int option" where
  "parse_int s = (if all_digits s then Some (int (py_nat s))
     else case s of CHR ''-'' # t \<Rightarrow> if all_digits t then Some (- int (py_nat t)) else None | _ \<Rightarrow> None)"

definition check_content_length :: "nat \<Rightarrow> string option \<Rightarrow> exn + unit" where
  "check_content_length max_bytes content_length =
     (case content_length of
        None \<Rightarrow> Inr ()
      | Some s \<Rightarrow>
          (case parse_int s of
             None \<Rightarrow> Inl (unverified ''artifact Content-Length is invalid'')
           | Some n \<Rightarrow> ensure (0 \<le> n \<and> n \<le> int max_bytes)
                         (unverified ''artifact Content-Length exceeds size limit'')))"

definition download_artifact ::
    "(string \<Rightarrow> string) \<Rightarrow> (string \<Rightarrow> answer) \<Rightarrow> (nat \<Rightarrow> int) \<Rightarrow> int \<Rightarrow> nat \<Rightarrow> int \<Rightarrow> nat \<Rightarrow> bool \<Rightarrow>
      release_candidate \<Rightarrow> exn + string \<times> string" where
  "download_artifact H net clock timeout max_bytes max_download_seconds max_redirects destination_exists c =
     rbind (ensure (0 < timeout \<and> 0 < max_download_seconds \<and> 0 < max_bytes)
         (unverified ''download limits must be positive'')) (\<lambda>_.
     rbind (validate_candidate_url c) (\<lambda>initial.
     rbind (of_option (unverified ''artifact URL has no hostname'') (hostname initial)) (\<lambda>host.
     rbind (open_url net max_redirects host 0 (artifact_url c)) (\<lambda>(a, urls).
     case a of
       Response st content_length body \<Rightarrow>
         rbind (ensure (case st of None \<Rightarrow> False | Some c \<Rightarrow> 200 \<le> c \<and> c < 300)
             (unverified ''artifact request returned HTTP'')) (\<lambda>_.
         rbind (check_content_length max_bytes content_length) (\<lambda>_.
         rbind (ensure (\<not> destination_exists) (unverified ''artifact download failed'')) (\<lambda>_.
         rbind (read_body clock (clock 0 + max_download_seconds) max_bytes 1 body 0 []) (\<lambda>written.
         Inr (H written, written)))))
     | HTTP_error code \<Rightarrow> Inl (unverified (''artifact request failed with HTTP '' @ py_str_int code))
     | Timeout_error \<Rightarrow> Inl (unverified ''artifact request timed out'')
     | URL_error \<Rightarrow> Inl (unverified ''artifact network request failed'')
     | _ \<Rightarrow> Inl (unverified ''artifact download failed'')))))"

section \<open>The host verifier\<close>

text \<open>\<open>json.loads\<close> without a hook: of equal keys the last one wins.\<close>

fun json_loads_plain :: "ptree \<Rightarrow> json" where
  "json_loads_plain PNull = JNull"
| "json_loads_plain (PBool b) = JBool b"
| "json_loads_plain (PInt i) = JInt i"
| "json_loads_plain (PFloat r) = JFloat r"
| "json_loads_plain (PStr s) = JStr s"
| "json_loads_plain (PList xs) = JList (map json_loads_plain xs)"
| "json_loads_plain (PObj ps) = JObj (dict_of (map (\<lambda>(k, v). (k, json_loads_plain v)) ps))"

definition load_host_verifier_contract :: "ptree option option \<Rightarrow> exn + json" where
  "load_host_verifier_contract config =
     (case config of
        Some (Some t) \<Rightarrow>
          (let contract = json_loads_plain t in
          rbind (ensure (is_obj contract \<and>
              set (dict_keys (obj_items contract)) = {''OCP_HOST_VERIFIER_REPOSITORY'', ''OCP_HOST_VERIFIER_REF''})
              (unverified ''host verifier config has unknown or missing fields'')) (\<lambda>_.
          rbind (getitem contract ''OCP_HOST_VERIFIER_REF'') (\<lambda>reference.
          rbind (ensure (case reference of
                JStr s \<Rightarrow> py_len s = 40 \<and> list_all (\<lambda>ch. ch \<in> set ''0123456789abcdef'') s
              | _ \<Rightarrow> False)
              (unverified ''host verifier ref must be a full lowercase commit SHA'')) (\<lambda>_.
          rbind (getitem contract ''OCP_HOST_VERIFIER_REPOSITORY'') (\<lambda>repository.
          rbind (ensure (py_eq repository (JStr ''oklabflensburg/open-city-planner''))
              (unverified ''host verifier repository is not policy-approved'')) (\<lambda>_.
          Inr contract))))))
      | _ \<Rightarrow> Inl (unverified ''invalid host verifier config''))"

text \<open>
  The host checkout: what \<open>git rev-parse HEAD\<close> prints (\<open>None\<close> when it fails), whether the Python of its
  environment exists and which built-in modules it contains.
\<close>

record host_checkout =
  host_head :: "string option"
  host_python :: bool
  host_module_paths :: "string list"

definition validate_host_verifier_checkout :: "ptree option option \<Rightarrow> host_checkout \<Rightarrow> exn + unit" where
  "validate_host_verifier_checkout config host =
     rbind (load_host_verifier_contract config) (\<lambda>contract.
     rbind (getitem contract ''OCP_HOST_VERIFIER_REF'') (\<lambda>reference.
     rbind (ensure (case host_head host of None \<Rightarrow> False | Some out \<Rightarrow> JStr (py_strip out) = reference)
         (unverified ''host verifier checkout does not match the pinned commit'')) (\<lambda>_.
     ensure (host_python host) (unverified ''pinned host verifier environment is not installed''))))"

definition host_has_builtin_module :: "host_checkout \<Rightarrow> string \<Rightarrow> bool" where
  "host_has_builtin_module host module_id =
     (fullmatch MODULE_ID_RE module_id \<and>
      map (\<lambda>c. if c = CHR ''-'' then CHR ''_'' else c) module_id \<in> set (host_module_paths host))"

text \<open>
  What the verifier program does with a candidate, the file's bytes and its environment (the value
  of \<open>OCP_EXCLUDED_BUILTIN_MODULES\<close>, if set): it times out, or ends with a status, a syntax tree per
  output line (\<open>None\<close> for a line that is not JSON) and perhaps a lock file.
\<close>

datatype verifier_run = Timed_out | Exited int "ptree option list" bool

definition run_host_verifier ::
    "(string option \<Rightarrow> string \<Rightarrow> verifier_run) \<Rightarrow> host_checkout \<Rightarrow> release_candidate \<Rightarrow> string \<Rightarrow> exn + unit" where
  "run_host_verifier program host c data =
     (case program (if host_has_builtin_module host (rc_module_id c) then Some (rc_module_id c) else None) data of
        Timed_out \<Rightarrow> Inl (unverified ''host verifier timed out'')
      | Exited returncode lines lock_exists \<Rightarrow>
          rbind (ensure (returncode = 0) (unverified ''host verifier failed'')) (\<lambda>_.
          case (if lines = [] then None else last lines) of
            None \<Rightarrow> Inl (unverified ''host verifier returned invalid JSON'')
          | Some t \<Rightarrow>
              (let verified = json_loads_plain t in
               rbind (ensure (is_obj verified) (unverified ''host verifier JSON must be an object'')) (\<lambda>_.
               rbind (ensure (get_field verified ''module_id'' = Some (JStr (rc_module_id c)) \<and>
                              get_field verified ''version'' = Some (JStr (rc_version c)))
                   (unverified ''registry identity does not match verified bundle identity'')) (\<lambda>_.
               ensure (\<not> lock_exists) (unverified ''host verify unexpectedly created modules.lock''))))))"

text \<open>\<open>downloader\<close> returns the digest and the bytes of the file it wrote; \<open>verifier\<close> reads that file.\<close>

fun verify_candidates ::
    "(release_candidate \<Rightarrow> exn + string \<times> string) \<Rightarrow> (release_candidate \<Rightarrow> string \<Rightarrow> exn + unit) \<Rightarrow>
      release_candidate list \<Rightarrow> exn + unit" where
  "verify_candidates downloader verifier [] = Inr ()"
| "verify_candidates downloader verifier (c # cs) =
     rbind (downloader c) (\<lambda>(actual, data).
     rbind (ensure (actual = expected_sha256 c) (unverified ''SHA-256 does not match registry metadata'')) (\<lambda>_.
     rbind (verifier c data) (\<lambda>_.
     verify_candidates downloader verifier cs)))"

definition verify_release_candidates ::
    "exn + unit \<Rightarrow> (release_candidate \<Rightarrow> exn + string \<times> string) \<Rightarrow> (release_candidate \<Rightarrow> string \<Rightarrow> exn + unit) \<Rightarrow>
      release_candidate list \<Rightarrow> exn + unit" where
  "verify_release_candidates checkout downloader verifier cs =
     (if cs = [] then Inr ()
      else rbind checkout (\<lambda>_. verify_candidates downloader verifier cs))"

text \<open>\<open>main\<close>: the exit status, or the exception that no clause catches.\<close>

definition verify_main ::
    "(string \<Rightarrow> json \<Rightarrow> bool) \<Rightarrow> registry_source \<Rightarrow> git_tree \<Rightarrow> bool \<Rightarrow> bool \<Rightarrow> exn + unit \<Rightarrow>
      (release_candidate \<Rightarrow> exn + string \<times> string) \<Rightarrow> (release_candidate \<Rightarrow> string \<Rightarrow> exn + unit) \<Rightarrow> exn + nat" where
  "verify_main sch tree base_tree count_only has_host_root checkout downloader verifier =
     rcatch
       (rbind (load_registry sch tree) (\<lambda>current.
        rbind (load_registry_from_git sch base_tree) (\<lambda>base.
        rbind (find_new_releases current base) (\<lambda>candidates.
        if count_only then Inr 0
        else
          rbind (ensure (candidates = [] \<or> has_host_root)
              (unverified ''--host-verifier-root is required for new releases'')) (\<lambda>_.
          rbind (verify_release_candidates checkout downloader verifier candidates) (\<lambda>_. Inr 0))))))
       (\<lambda>e. if is_OSError e \<or> exn_class e \<in> {RegistryValidationError, ArtifactVerificationError}
            then Inr 1 else Inl e)"

section \<open>Bounds of the download\<close>

lemma read_body_Inr:
  assumes "read_body clock deadline max_bytes k body downloaded written = Inr r" and "downloaded \<le> max_bytes"
  shows "r = written @ body \<and> downloaded + length body \<le> max_bytes \<and> clock k \<le> deadline"
  using assms
proof (induction clock deadline max_bytes k body downloaded written rule: read_body.induct)
  case (1 clock deadline max_bytes k body downloaded written)
  define n where "n = min DOWNLOAD_CHUNK_BYTES (max_bytes + 1 - downloaded)"
  have n: "0 < n" using "1.prems"(2) by (simp add: n_def DOWNLOAD_CHUNK_BYTES_def)
  have time: "clock k \<le> deadline" using "1.prems"(1)
    by (simp add: read_body.simps [of clock deadline max_bytes k body] split: if_splits)
  show ?case
  proof (cases "body = []")
    case True
    with "1.prems" time show ?thesis
      by (simp add: read_body.simps [of clock deadline max_bytes k "[]"])
  next
    case False
    with n have ne: "take n body \<noteq> []" by simp
    from "1.prems"(1) ne time have step: "downloaded + length (take n body) \<le> max_bytes"
      "read_body clock deadline max_bytes (Suc k) (drop n body) (downloaded + length (take n body)) (written @ take n body) = Inr r"
      by (auto simp: read_body.simps [of clock deadline max_bytes k body] Let_def n_def split: if_splits)
    have "r = (written @ take n body) @ drop n body \<and> (downloaded + length (take n body)) + length (drop n body) \<le> max_bytes"
      using "1.IH" [OF _ n_def refl] time ne step by (simp add: n_def)
    then show ?thesis using time by auto
  qed
qed

lemma open_url_Inr:
  assumes "open_url net max_redirects host redirects url = Inr (a, us)" and "redirects \<le> max_redirects"
  shows "us \<noteq> [] \<and> hd us = url \<and> length us \<le> max_redirects + 1 - redirects \<and>
    (\<forall>u \<in> set (tl us). validate_redirect_target u host = Inr ()) \<and> a = net (last us) \<and> (\<forall>u. a \<noteq> Redirect u)"
  using assms
proof (induction net max_redirects host redirects url arbitrary: a us rule: open_url.induct)
  case (1 net max_redirects host redirects url)
  show ?case
  proof (cases "net url")
    case (Redirect u)
    with "1.prems"(1) obtain n vs where n: "redirect_request max_redirects host redirects u = Inr n"
      and r: "open_url net max_redirects host n u = Inr (a, vs)" and us: "us = url # vs"
      by (auto simp: open_url.simps [of net max_redirects host redirects url] split: sum.splits)
    have v: "n = redirects + 1" "n \<le> max_redirects" "validate_redirect_target u host = Inr ()"
      using n by (auto simp: redirect_request_def Let_def)
    have "vs \<noteq> [] \<and> hd vs = u \<and> length vs \<le> max_redirects + 1 - n \<and>
      (\<forall>u \<in> set (tl vs). validate_redirect_target u host = Inr ()) \<and> a = net (last vs) \<and> (\<forall>u. a \<noteq> Redirect u)"
      using "1.IH" [OF Redirect n r v(2)] .
    then show ?thesis using v "1.prems"(2) by (cases vs) (auto simp: us)
  qed (use "1.prems" in \<open>auto simp: open_url.simps [of net max_redirects host redirects url]\<close>)
qed

lemma download_Inr:
  assumes "download_artifact H net clock timeout max_bytes seconds max_redirects ex c = Inr (sha, data)"
  obtains parsed host us st len where "validate_candidate_url c = Inr parsed" "hostname parsed = Some host"
    "open_url net max_redirects host 0 (artifact_url c) = Inr (Response (Some st) len data, us)"
    "200 \<le> st" "st < 300" "sha = H data" "length data \<le> max_bytes" "\<not> ex"
    "clock 1 \<le> clock 0 + seconds"
proof -
  from assms obtain parsed host a us where
    d: "validate_candidate_url c = Inr parsed" "hostname parsed = Some host"
    "open_url net max_redirects host 0 (artifact_url c) = Inr (a, us)"
    and a: "(case a of
       Response st content_length body \<Rightarrow>
         rbind (ensure (case st of None \<Rightarrow> False | Some c \<Rightarrow> 200 \<le> c \<and> c < 300)
             (unverified ''artifact request returned HTTP'')) (\<lambda>_.
         rbind (check_content_length max_bytes content_length) (\<lambda>_.
         rbind (ensure (\<not> ex) (unverified ''artifact download failed'')) (\<lambda>_.
         rbind (read_body clock (clock 0 + seconds) max_bytes 1 body 0 []) (\<lambda>written.
         Inr (H written, written)))))
     | HTTP_error code \<Rightarrow> Inl (unverified (''artifact request failed with HTTP '' @ py_str_int code))
     | Timeout_error \<Rightarrow> Inl (unverified ''artifact request timed out'')
     | URL_error \<Rightarrow> Inl (unverified ''artifact network request failed'')
     | _ \<Rightarrow> Inl (unverified ''artifact download failed'')) = Inr (sha, data)"
    unfolding download_artifact_def by auto
  from a obtain st len body where r: "a = Response (Some st) len body" "200 \<le> st" "st < 300" "\<not> ex" "sha = H data"
    "read_body clock (clock 0 + seconds) max_bytes 1 body 0 [] = Inr data"
    by (cases a) (auto split: option.splits)
  from read_body_Inr [OF r(6)] d r that show thesis by auto
qed

section \<open>Which releases are new\<close>

definition vers :: "json \<Rightarrow> json list" where
  "vers m = (case get_field m ''versions'' of Some (JList vs) \<Rightarrow> vs | _ \<Rightarrow> [])"

definition all_releases :: "json list \<Rightarrow> (json \<times> json) list" where
  "all_releases ms = concat (map (\<lambda>m. map (Pair m) (vers m)) ms)"

definition release_version :: "json \<Rightarrow> string" where
  "release_version r = (case get_field r ''version'' of Some (JStr v) \<Rightarrow> v | _ \<Rightarrow> [])"

lemma set_all_releases: "(m, r) \<in> set (all_releases ms) \<longleftrightarrow> m \<in> set ms \<and> r \<in> set (vers m)"
  by (auto simp: all_releases_def)

lemma module_wf_vers:
  assumes "module_wf m"
  shows "get_field m ''versions'' = Some (JList (vers m))"
    and "get_field m ''id'' = Some (JStr (mod_id m))"
    and "r \<in> set (vers m) \<Longrightarrow> get_field r ''version'' = Some (JStr (release_version r))"
    and "r \<in> set (vers m) \<Longrightarrow> is_ok (candidate_of m r)"
    and "r \<in> set (vers m) \<Longrightarrow> is_ok (release_key r)"
    and "distinct (map release_version (vers m))"
proof -
  from assms obtain mid cls vs where m: "get_field m ''id'' = Some (JStr mid)"
    "get_field m ''classification'' = Some (JStr cls)" "get_field m ''versions'' = Some (JList vs)"
    "\<And>r. r \<in> set vs \<Longrightarrow> release_wf mid cls r" "distinct (map (\<lambda>r. get_field r ''version'') vs)"
    unfolding module_wf_def by blast
  then have vs: "vers m = vs" by (simp add: vers_def)
  show "get_field m ''versions'' = Some (JList (vers m))" "get_field m ''id'' = Some (JStr (mod_id m))"
    using m by (simp_all add: vs mod_id_def)
  show v: "get_field r ''version'' = Some (JStr (release_version r))" if "r \<in> set (vers m)" for r
    using m(4) [of r] that by (auto simp: vs release_wf_def release_version_def)
  show "is_ok (release_key r)" if "r \<in> set (vers m)" for r
    using m(4) [of r] that release_wf_key by (auto simp: vs)
  show "is_ok (candidate_of m r)" if "r \<in> set (vers m)" for r
    using release_wf_strings [OF m(4), of r] that m(1,2) by (auto simp: vs candidate_of_def is_ok_iff)
  have "map (\<lambda>r. get_field r ''version'') vs = map (Some \<circ> JStr) (map release_version vs)"
    using v by (auto simp: vs)
  with m(5) have "distinct (map (Some \<circ> JStr) (map release_version vs))" by simp
  then show "distinct (map release_version (vers m))" unfolding vs by (rule distinct_map [THEN iffD1, THEN conjunct1])
qed

lemma candidate_of_Inr:
  assumes "candidate_of m r = Inr c" and "module_wf m" and "r \<in> set (vers m)"
  shows "rc_module_id c = mod_id m" and "rc_version c = release_version r"
    and "\<exists>a. get_field r ''artifact'' = Some a \<and> get_field a ''url'' = Some (JStr (artifact_url c)) \<and>
      get_field a ''sha256'' = Some (JStr (expected_sha256 c))"
  using assms module_wf_vers(2,3) [OF assms(2)]
  by (auto simp: candidate_of_def)

lemma releases_of_ok: "\<forall>m \<in> set ms. module_wf m \<Longrightarrow> releases_of ms = Inr (all_releases ms)"
proof -
  assume wf: "\<forall>m \<in> set ms. module_wf m"
  have "rmap (\<lambda>m. rbind (list_item m ''versions'') (\<lambda>vs. Inr (map (\<lambda>r. (m, r)) vs))) ms
    = Inr (map (\<lambda>m. map (Pair m) (vers m)) ms)"
    using wf module_wf_vers(1) by (intro rmap_ok) auto
  then show ?thesis by (simp add: releases_of_def all_releases_def)
qed

lemma release_identity_ok:
  "module_wf m \<Longrightarrow> r \<in> set (vers m) \<Longrightarrow> release_identity (m, r) = Inr (mod_id m, release_version r)"
  using module_wf_vers by (auto simp: release_identity_def)

lemma candidate_key_ok:
  assumes "candidate_of m r = Inr c" and "module_wf m" and "r \<in> set (vers m)"
  shows "is_ok (candidate_key c)"
proof -
  obtain k where "release_key r = Inr k" using module_wf_vers(5) [OF assms(2,3)] by (auto simp: is_ok_iff)
  then have "semver_key (release_version r) = Inr k"
    using module_wf_vers(3) [OF assms(2,3)] by (simp add: release_key_def)
  then show ?thesis by (cases k) (simp add: candidate_key_def candidate_of_Inr(2) [OF assms] is_ok_iff)
qed

lemma find_new_releases_ok:
  assumes "registry_wf cur" and "registry_wf base"
  obtains cs where "find_new_releases cur base = Inr cs"
    "sorted (map (\<lambda>c. projr (candidate_key c)) cs)"
    "mset cs = mset (map (\<lambda>(m, r). projr (candidate_of m r))
       (filter (\<lambda>(m, r). (mod_id m, release_version r) \<notin> (\<lambda>(m, r). (mod_id m, release_version r)) ` set (all_releases base))
         (all_releases cur)))"
proof -
  let ?id = "\<lambda>(m, r). (mod_id m, release_version r)"
  let ?new = "filter (\<lambda>p. ?id p \<notin> ?id ` set (all_releases base)) (all_releases cur)"
  let ?cand = "\<lambda>(m, r). projr (candidate_of m r)"
  have wf: "\<forall>m \<in> set cur. module_wf m" "\<forall>m \<in> set base. module_wf m" using assms by (auto simp: registry_wf_def)
  have idb: "rmap release_identity (all_releases base) = Inr (map ?id (all_releases base))"
    using wf(2) release_identity_ok by (intro rmap_ok) (auto simp: set_all_releases)
  have idc: "rmap (\<lambda>p. rbind (release_identity p) (\<lambda>i. Inr (i, p))) (all_releases cur)
    = Inr (map (\<lambda>p. (?id p, p)) (all_releases cur))"
    using wf(1) release_identity_ok by (intro rmap_ok) (auto simp: set_all_releases)
  have new: "filter (\<lambda>(i, p). i \<notin> set (map ?id (all_releases base))) (map (\<lambda>p. (?id p, p)) (all_releases cur))
    = map (\<lambda>p. (?id p, p)) ?new" by (simp add: filter_map comp_def case_prod_beta)
  have ok: "candidate_of m r = Inr (?cand (m, r))" if "(m, r) \<in> set ?new" for m r
    using that wf(1) module_wf_vers(4) [of m r] by (auto simp: set_all_releases is_ok_projr)
  have cand: "rmap (\<lambda>(i, m, r). candidate_of m r) (map (\<lambda>p. (?id p, p)) ?new) = Inr (map ?cand ?new)"
  proof -
    have "rmap (\<lambda>(i, m, r). candidate_of m r) (map (\<lambda>p. (?id p, p)) ?new)
      = Inr (map (\<lambda>(i, m, r). projr (candidate_of m r)) (map (\<lambda>p. (?id p, p)) ?new))"
    proof (rule rmap_ok)
      fix x assume "x \<in> set (map (\<lambda>p. (?id p, p)) ?new)"
      then obtain m r where "(m, r) \<in> set ?new" "x = (?id (m, r), m, r)" by auto
      then show "(\<lambda>(i, m, r). candidate_of m r) x = Inr ((\<lambda>(i, m, r). projr (candidate_of m r)) x)"
        using ok [of m r] by (simp only: prod.case)
    qed
    then show ?thesis by (simp add: comp_def case_prod_beta)
  qed
  have "is_ok (candidate_key c)" if "c \<in> set (map ?cand ?new)" for c
  proof -
    from that obtain m r where mr: "(m, r) \<in> set ?new" "c = ?cand (m, r)" by auto
    then have "module_wf m" "r \<in> set (vers m)" using wf(1) by (auto simp: set_all_releases)
    moreover have "candidate_of m r = Inr c" using ok [OF mr(1)] unfolding mr(2) .
    ultimately show ?thesis using candidate_key_ok by blast
  qed
  then have s: "sorted_by candidate_key (map ?cand ?new) = Inr (py_sorted (\<lambda>c. projr (candidate_key c)) (map ?cand ?new))"
    by (rule sorted_by_ok)
  have "find_new_releases cur base = Inr (py_sorted (\<lambda>c. projr (candidate_key c)) (map ?cand ?new))"
    unfolding find_new_releases_def releases_of_ok [OF wf(1)] releases_of_ok [OF wf(2)] rbind_simps idb idc new cand
    by (rule s)
  then show thesis by (rule that) (simp_all add: case_prod_beta)
qed

lemma find_release_vers:
  assumes "module_wf m"
  shows "find_release m ver = Some r \<longleftrightarrow> r \<in> set (vers m) \<and> release_version r = ver"
  using module_wf_vers(1,3) [OF assms] by (auto simp: find_release_iff [OF assms])

lemma find_both:
  assumes "registry_wf ms"
  shows "find_module ms mid = Some m \<and> find_release m ver = Some r \<longleftrightarrow>
    m \<in> set ms \<and> mod_id m = mid \<and> r \<in> set (vers m) \<and> release_version r = ver"
proof (cases "m \<in> set ms")
  case True
  then have "module_wf m" using assms by (simp add: registry_wf_def)
  then show ?thesis using True find_module_iff [OF assms] find_release_vers module_wf_vers(2) by auto
qed (use find_module_iff [OF assms] in auto)

lemma published_identity:
  assumes "registry_wf ms"
  shows "(mid, ver) \<in> (\<lambda>(m, r). (mod_id m, release_version r)) ` set (all_releases ms) \<longleftrightarrow>
    (\<exists>m r. find_module ms mid = Some m \<and> find_release m ver = Some r)"
proof -
  have "x \<in> set (all_releases ms) \<longleftrightarrow> fst x \<in> set ms \<and> snd x \<in> set (vers (fst x))" for x
    using set_all_releases [of "fst x" "snd x" ms] by simp
  then show ?thesis unfolding find_both [OF assms] by (auto simp: image_iff case_prod_beta) (metis fst_conv snd_conv)
qed

section \<open>Properties\<close>

text \<open>On valid registries, \<open>find_new_releases\<close> returns exactly the releases whose module id and
  version the base does not have, each with the URL and digest of the registry, sorted by module
  and then by version.\<close>

theorem find_new_releases_spec:
  assumes "registry_wf cur" and "registry_wf base"
  shows "\<exists>cs. find_new_releases cur base = Inr cs \<and> sorted (map (\<lambda>c. projr (candidate_key c)) cs) \<and>
    (\<forall>c. c \<in> set cs \<longleftrightarrow>
      (\<exists>m r. (find_module cur (rc_module_id c) = Some m \<and> find_release m (rc_version c) = Some r) \<and>
         candidate_of m r = Inr c) \<and>
      (\<nexists>b r. find_module base (rc_module_id c) = Some b \<and> find_release b (rc_version c) = Some r))"
proof -
  obtain cs where cs: "find_new_releases cur base = Inr cs" "sorted (map (\<lambda>c. projr (candidate_key c)) cs)"
    "mset cs = mset (map (\<lambda>(m, r). projr (candidate_of m r))
       (filter (\<lambda>(m, r). (mod_id m, release_version r) \<notin> (\<lambda>(m, r). (mod_id m, release_version r)) ` set (all_releases base))
         (all_releases cur)))" by (rule find_new_releases_ok [OF assms])
  have wf: "\<forall>m \<in> set cur. module_wf m" using assms by (auto simp: registry_wf_def)
  have c: "candidate_of m r = Inr (projr (candidate_of m r))" "rc_module_id (projr (candidate_of m r)) = mod_id m"
    "rc_version (projr (candidate_of m r)) = release_version r" if "m \<in> set cur" "r \<in> set (vers m)" for m r
    using wf that module_wf_vers(4) [of m r] candidate_of_Inr(1,2) [of m r] by (auto simp: is_ok_projr)
  have "set cs = (\<lambda>(m, r). projr (candidate_of m r)) ` {(m, r). m \<in> set cur \<and> r \<in> set (vers m) \<and>
      \<not> (\<exists>b r'. find_module base (mod_id m) = Some b \<and> find_release b (release_version r) = Some r')}"
    using mset_eq_setD [OF cs(3)] by (auto simp: published_identity [OF assms(2)] set_all_releases)
  then have iff: "x \<in> set cs \<longleftrightarrow> (\<exists>m r. m \<in> set cur \<and> r \<in> set (vers m) \<and> x = projr (candidate_of m r) \<and>
      (\<nexists>b r'. find_module base (mod_id m) = Some b \<and> find_release b (release_version r) = Some r'))" for x
    by auto
  have "x \<in> set cs \<longleftrightarrow> (\<exists>m r. (m \<in> set cur \<and> mod_id m = rc_module_id x \<and> r \<in> set (vers m) \<and> release_version r = rc_version x) \<and>
      candidate_of m r = Inr x) \<and> (\<nexists>b r'. find_module base (rc_module_id x) = Some b \<and> find_release b (rc_version x) = Some r')" for x
  proof
    assume "x \<in> set cs"
    then obtain m r where mr: "m \<in> set cur" "r \<in> set (vers m)" "x = projr (candidate_of m r)"
      "\<nexists>b r'. find_module base (mod_id m) = Some b \<and> find_release b (release_version r) = Some r'" unfolding iff by blast
    with c [OF mr(1,2)] show "(\<exists>m r. (m \<in> set cur \<and> mod_id m = rc_module_id x \<and> r \<in> set (vers m) \<and> release_version r = rc_version x) \<and>
      candidate_of m r = Inr x) \<and> (\<nexists>b r'. find_module base (rc_module_id x) = Some b \<and> find_release b (rc_version x) = Some r')"
      by auto
  next
    assume "(\<exists>m r. (m \<in> set cur \<and> mod_id m = rc_module_id x \<and> r \<in> set (vers m) \<and> release_version r = rc_version x) \<and>
      candidate_of m r = Inr x) \<and> (\<nexists>b r'. find_module base (rc_module_id x) = Some b \<and> find_release b (rc_version x) = Some r')"
    then show "x \<in> set cs" unfolding iff by (metis sum.sel(2))
  qed
  then show ?thesis unfolding find_both [OF assms(1)] using cs(1,2) by blast
qed

theorem find_new_releases_spec_witness:
  "\<exists>cs. find_new_releases [sample_v2] [sample_v1] = Inr cs \<and> map rc_version cs = [''1.10.0'']"
proof -
  have "\<exists>cs. find_new_releases [sample_v2] [sample_v1] = Inr cs"
    using find_new_releases_spec [OF sample_wf(2) sample_wf(1)] by blast
  moreover have "map rc_version (projr (find_new_releases [sample_v2] [sample_v1])) = [''1.10.0'']" by code_simp
  ultimately show ?thesis by fastforce
qed


definition sample_candidate :: release_candidate where
  "sample_candidate = \<lparr>rc_module_id = ''maps'', rc_version = ''1.0.0'', rc_channel = ''stable'',
     artifact_url = sample_github ''1.0.0'', expected_sha256 = replicate 64 CHR ''a'', rc_classification = ''first-party''\<rparr>"

definition sample_asset :: string where
  "sample_asset = ''https://release-assets.githubusercontent.com/github-production-release-asset/1''"

definition sample_net :: "string \<Rightarrow> answer" where
  "sample_net url = (if url = sample_asset then Response (Some 200) (Some ''4'') ''AAAA'' else Redirect sample_asset)"

definition sample_download :: "release_candidate \<Rightarrow> exn + string \<times> string" where
  "sample_download = download_artifact (\<lambda>b. replicate 64 (char_lower (hd b))) sample_net (\<lambda>_. 0) 30
     MAX_ARTIFACT_BYTES MAX_DOWNLOAD_SECONDS MAX_REDIRECTS False"

lemma sample_download_ok: "sample_download sample_candidate = Inr (replicate 64 CHR ''a'', ''AAAA'')"
  by code_simp


section \<open>The download always ends\<close>

lemma read_body_prefix:
  assumes "downloaded \<le> max_bytes" and "k + max_bytes \<le> last_check + downloaded"
  shows "read_body (\<lambda>j. clock (min j last_check)) deadline max_bytes k (take (max_bytes + 1 - downloaded) body) downloaded written
    = read_body clock deadline max_bytes k body downloaded written"
  using assms
proof (induction clock deadline max_bytes k body downloaded written rule: read_body.induct)
  case (1 clock deadline max_bytes k body downloaded written)
  define n where "n = min DOWNLOAD_CHUNK_BYTES (max_bytes + 1 - downloaded)"
  have n: "0 < n" "n \<le> max_bytes + 1 - downloaded" using "1.prems"(1) by (simp_all add: n_def DOWNLOAD_CHUNK_BYTES_def)
  let ?cut = "take (max_bytes + 1 - downloaded) body" and ?clock = "\<lambda>j. clock (min j last_check)"
  have k: "min k last_check = k" using "1.prems" by simp
  have chunk: "take n ?cut = take n body" using n(2) by (simp add: min_def)
  let ?next = "\<lambda>c b. read_body c deadline max_bytes (Suc k) b (downloaded + length (take n body)) (written @ take n body)"
  have unfold: "read_body c deadline max_bytes k b downloaded written =
      (if deadline < c k then Inl (unverified ''artifact download exceeded total timeout'')
       else if take n b = [] then Inr written
       else if max_bytes < downloaded + length (take n b) then Inl (unverified ''artifact download exceeds size limit'')
       else read_body c deadline max_bytes (Suc k) (drop n b) (downloaded + length (take n b)) (written @ take n b))" for c b
    by (subst read_body.simps) (simp only: Let_def n_def)
  have "?next ?clock (drop n ?cut) = ?next clock (drop n body)"
    if "\<not> deadline < clock k" "take n body \<noteq> []" "\<not> max_bytes < downloaded + length (take n body)"
  proof -
    have cut: "drop n ?cut = take (max_bytes + 1 - (downloaded + length (take n body))) (drop n body)"
      by (cases "n \<le> length body") (simp_all add: drop_take)
    have "Suc k + max_bytes \<le> last_check + (downloaded + length (take n body))"
      using that(2) "1.prems"(2) by (cases "take n body") auto
    then show ?thesis
      unfolding cut using "1.IH" [OF _ n_def refl] that by simp
  qed
  then show ?case unfolding unfold [of ?clock ?cut] unfold [of clock body] chunk k by simp
qed

text \<open>The first \<open>n\<close> bytes of an answer's body.\<close>

fun first_bytes :: "nat \<Rightarrow> answer \<Rightarrow> answer" where
  "first_bytes n (Response st len body) = Response st len (take n body)"
| "first_bytes n a = a"

lemma open_url_first_bytes:
  "open_url (\<lambda>u. first_bytes n (net u)) max_redirects host redirects url
    = rbind (open_url net max_redirects host redirects url) (\<lambda>(a, us). Inr (first_bytes n a, us))"
proof (induction net max_redirects host redirects url rule: open_url.induct)
  case (1 net max_redirects host redirects url)
  note step = open_url.simps [of _ max_redirects host redirects url]
  show ?case
  proof (cases "net url")
    case (Redirect v)
    show ?thesis
    proof (cases "redirect_request max_redirects host redirects v")
      case (Inl e)
      with Redirect show ?thesis by (simp add: step)
    next
      case (Inr m)
      with Redirect "1.IH" [OF Redirect Inr] show ?thesis by (simp add: step case_prod_beta)
    qed
  qed (simp_all add: step)
qed

lemma open_url_all_redirects: "\<exists>e. open_url (\<lambda>u. Redirect (f u)) max_redirects host redirects url = Inl e"
proof (induction "\<lambda>u. Redirect (f u)" max_redirects host redirects url rule: open_url.induct)
  case (1 max_redirects host redirects url)
  show ?case
  proof (cases "redirect_request max_redirects host redirects (f url)")
    case (Inl e)
    then show ?thesis by (simp add: open_url.simps [of _ max_redirects host redirects url])
  next
    case (Inr n)
    from "1.hyps" [OF refl Inr] obtain e where "open_url (\<lambda>u. Redirect (f u)) max_redirects host n (f url) = Inl e" by blast
    with Inr show ?thesis by (simp add: open_url.simps [of _ max_redirects host redirects url])
  qed
qed

text \<open>C27. A download always ends: whatever a server sends, the outcome depends only on the first
  \<open>max_bytes + 1\<close> bytes of a body and on the readings of the clock up to number \<open>max_bytes + 1\<close>, so an
  endless body stops the job no later than that; and a server that answers every request with another
  redirect makes the download fail.\<close>

theorem download_terminates:
  "download_artifact H (\<lambda>u. first_bytes (max_bytes + 1) (net u)) (\<lambda>k. clock (min k (max_bytes + 1)))
     timeout max_bytes max_download_seconds max_redirects destination_exists c
   = download_artifact H net clock timeout max_bytes max_download_seconds max_redirects destination_exists c
   \<and> (\<exists>e. download_artifact H (\<lambda>u. Redirect (f u)) clock timeout max_bytes max_download_seconds max_redirects
       destination_exists c = Inl e)"
proof
  have body: "read_body (\<lambda>j. clock (min j (max_bytes + 1))) deadline max_bytes 1 (take (max_bytes + 1) body) 0 []
      = read_body clock deadline max_bytes 1 body 0 []" for deadline body
    using read_body_prefix [of 0 max_bytes 1 "max_bytes + 1" clock deadline body "[]"] by simp
  let ?finish = "\<lambda>clk a. case a of
       Response st content_length body \<Rightarrow>
         rbind (ensure (case st of None \<Rightarrow> False | Some c \<Rightarrow> 200 \<le> c \<and> c < 300)
             (unverified ''artifact request returned HTTP'')) (\<lambda>_.
         rbind (check_content_length max_bytes content_length) (\<lambda>_.
         rbind (ensure (\<not> destination_exists) (unverified ''artifact download failed'')) (\<lambda>_.
         rbind (read_body clk (clock 0 + max_download_seconds) max_bytes 1 body 0 []) (\<lambda>written.
         Inr (H written, written)))))
     | HTTP_error code \<Rightarrow> Inl (unverified (''artifact request failed with HTTP '' @ py_str_int code))
     | Timeout_error \<Rightarrow> Inl (unverified ''artifact request timed out'')
     | URL_error \<Rightarrow> Inl (unverified ''artifact network request failed'')
     | _ \<Rightarrow> Inl (unverified ''artifact download failed'')"
  have finish: "?finish (\<lambda>k. clock (min k (max_bytes + 1))) (first_bytes (max_bytes + 1) a) = ?finish clock a" for a
    by (cases a) (simp_all only: first_bytes.simps answer.case body)
  show "download_artifact H (\<lambda>u. first_bytes (max_bytes + 1) (net u)) (\<lambda>k. clock (min k (max_bytes + 1)))
     timeout max_bytes max_download_seconds max_redirects destination_exists c
   = download_artifact H net clock timeout max_bytes max_download_seconds max_redirects destination_exists c"
    unfolding download_artifact_def open_url_first_bytes rbind_assoc
    by (intro rbind_cong refl) (simp only: case_prod_beta rbind_simps fst_conv min_0L finish)
  show "\<exists>e. download_artifact H (\<lambda>u. Redirect (f u)) clock timeout max_bytes max_download_seconds max_redirects
      destination_exists c = Inl e"
  proof -
    define net where "net = (\<lambda>u. Redirect (f u))"
    have "\<not> is_ok (download_artifact H net clock timeout max_bytes max_download_seconds max_redirects destination_exists c)"
    proof
      assume "is_ok (download_artifact H net clock timeout max_bytes max_download_seconds max_redirects destination_exists c)"
      then obtain host p where "open_url net max_redirects host 0 (artifact_url c) = Inr p"
        by (auto simp: download_artifact_def is_ok_iff)
      moreover obtain e where "open_url net max_redirects host 0 (artifact_url c) = Inl e"
        using open_url_all_redirects unfolding net_def by blast
      ultimately show False by simp
    qed
    then show ?thesis unfolding net_def by (metis is_ok_simps(2) obj_sumE)
  qed
qed

lemma verify_candidates_Inr:
  "verify_candidates downloader verifier cs = Inr () \<longleftrightarrow>
     (\<forall>c \<in> set cs. \<exists>data. downloader c = Inr (expected_sha256 c, data) \<and> verifier c data = Inr ())"
  by (induction cs) auto

lemma run_host_verifier_Inr:
  "run_host_verifier program host c data = Inr () \<longleftrightarrow>
     (\<exists>lines t. program (if host_has_builtin_module host (rc_module_id c) then Some (rc_module_id c) else None) data
          = Exited 0 lines False \<and> lines \<noteq> [] \<and> last lines = Some t \<and>
        get_field (json_loads_plain t) ''module_id'' = Some (JStr (rc_module_id c)) \<and>
        get_field (json_loads_plain t) ''version'' = Some (JStr (rc_version c)))"
  by (auto simp: run_host_verifier_def Let_def split: verifier_run.splits option.splits dest: get_field_Some_obj)

lemma verify_main_0:
  assumes "verify_main sch tree base_tree False hr checkout downloader verifier = Inr 0"
  obtains cur base cs where "load_registry sch tree = Inr cur" "load_registry_from_git sch base_tree = Inr base"
    "find_new_releases cur base = Inr cs" "verify_release_candidates checkout downloader verifier cs = Inr ()"
  using assms that unfolding verify_main_def by (auto simp: rcatch_def split: sum.splits if_splits)

definition sample_git :: git_tree where
  "sample_git = \<lparr>git_has_envelope = True, git_listing = Some [''registry/modules/maps.json''],
     git_show = (\<lambda>p. if p = ''registry/registry.json'' then Some (Some (PObj [(''schema_version'', PInt 1)]))
       else Some (Some (to_ptree sample_v1)))\<rparr>"

definition sample_program :: "string option \<Rightarrow> string \<Rightarrow> verifier_run" where
  "sample_program env data = Exited 0 [None, Some (PObj [(''module_id'', PStr ''maps''), (''version'', PStr ''1.10.0'')])] False"


end
