(* ===== verification/Publish_Artifacts.thy ===== *)
theory Publish_Artifacts
  imports Verify_Artifacts
begin

text \<open>
  The mirror, \<open>scripts/publish_artifacts.py\<close> and \<open>scripts/publish_artifact.py\<close>: selecting releases
  of a validated registry, publishing one candidate (download, digest check, host verifier, store)
  and all of them. The intake directory is created under \<open>tmp\<close> with the random name \<open>r\<close>; removing it
  detaches it from its parent. The downloader returns the digest and the bytes it wrote.
\<close>

section \<open>Selecting releases\<close>

definition candidate_from_release :: "json \<Rightarrow> json \<Rightarrow> exn + release_candidate" where
  "candidate_from_release md release =
     rbind (candidate_of md release) (\<lambda>c. rbind (validate_candidate_url c) (\<lambda>_. Inr c))"

definition find_item :: "string \<Rightarrow> string \<Rightarrow> json list \<Rightarrow> exn + json option" where
  "find_item key s xs =
     rbind (rmap (\<lambda>x. rbind (getitem x key) (\<lambda>v. Inr (v, x))) xs) (\<lambda>ps.
     Inr (map_option snd (py_next (\<lambda>(v, x). v = JStr s) ps)))"

definition select_release :: "(string \<Rightarrow> json \<Rightarrow> bool) \<Rightarrow> registry_source \<Rightarrow> string \<Rightarrow> string \<Rightarrow> exn + release_candidate" where
  "select_release sch tree mid ver =
     rbind (validate_module_id (JStr mid)) (\<lambda>canonical_id.
     rbind (validate_semver (JStr ver)) (\<lambda>canonical_version.
     rbind (load_registry sch tree) (\<lambda>modules.
     rbind (rbind (find_item ''id'' canonical_id modules) (of_option (store_error ''module is not published''))) (\<lambda>md.
     rbind (list_item md ''versions'') (\<lambda>versions.
     rbind (rbind (find_item ''version'' canonical_version versions) (of_option (store_error ''release is not published''))) (\<lambda>release.
     candidate_from_release md release))))))"

definition select_all_releases :: "(string \<Rightarrow> json \<Rightarrow> bool) \<Rightarrow> registry_source \<Rightarrow> exn + release_candidate list" where
  "select_all_releases sch tree =
     rbind (load_registry sch tree) (\<lambda>modules.
     rbind (releases_of modules) (\<lambda>releases.
     rbind (rmap (\<lambda>(m, r). candidate_from_release m r) releases) (\<lambda>candidates.
     sorted_by candidate_key candidates)))"

section \<open>Publishing one candidate\<close>

primrec exn_reason :: "exn \<Rightarrow> reason" where
  "exn_reason (Raise c r) = r"

record publish_result =
  pr_candidate :: release_candidate
  target_path :: pypath
  pr_status :: string

definition mkdtemp :: "nat \<Rightarrow> string \<Rightarrow> (fsys, nat) op" where
  "mkdtemp d name s =
     (if \<not> is_dir s d then (Inl (Raise OSError (Msg name)), s)
      else if fs_entry s d name \<noteq> None then (Inl (Raise FileExistsError (Msg name)), s)
      else (Inr (next_ino s), set_entry d name (Some (next_ino s))
              (new_inode (IDir Map.empty \<lparr>st_uid = euid s, st_dev = st_dev (fstat s d), st_mode = 448\<rparr>) s)))"

text \<open>The file the downloader leaves at \<open>destination\<close>.\<close>

definition write_new_file :: "nat \<Rightarrow> string \<Rightarrow> string \<Rightarrow> (fsys, unit) op" where
  "write_new_file d name data = ebind (os_open_excl d name 420) (\<lambda>i. os_write i data)"

definition verify_partial_artifact ::
    "(release_candidate \<Rightarrow> string \<Rightarrow> exn + unit) \<Rightarrow> release_candidate \<Rightarrow> nat \<Rightarrow> string \<Rightarrow> string \<Rightarrow> (fsys, unit) op" where
  "verify_partial_artifact verifier c d partial verifier_path =
     efinally
       (ebind (os_link d partial d verifier_path) (\<lambda>_.
        ebind (regular_file d verifier_path) (\<lambda>i.
        ebind (eget (\<lambda>s. file_bytes s i)) (\<lambda>data. elift (verifier c data)))))
       (ecatch (os_unlink d verifier_path)
          (\<lambda>e. if exn_class e = FileNotFoundError then eret () else eraise e))"

text \<open>The body of the intake: download into directory \<open>d\<close>, check, verify, hand over to the store.\<close>

definition intake ::
    "(string \<Rightarrow> string) \<Rightarrow> string list \<Rightarrow> string list \<Rightarrow> (release_candidate \<Rightarrow> exn + string \<times> string) \<Rightarrow>
      (release_candidate \<Rightarrow> string \<Rightarrow> exn + unit) option \<Rightarrow> release_candidate \<Rightarrow> nat \<Rightarrow> string list \<Rightarrow> string \<Rightarrow> string \<Rightarrow>
      (fsys, publication) op" where
  "intake H cwd rt downloader verifier c d dir partial u =
     ebind (elift (downloader c)) (\<lambda>(actual, data).
     ebind (write_new_file d partial data) (\<lambda>_.
     ebind (eensure (actual = expected_sha256 c)
         (store_error ''downloaded SHA-256 does not match Registry metadata'')) (\<lambda>_.
     ebind (case verifier of None \<Rightarrow> eret () | Some v \<Rightarrow> verify_partial_artifact v c d partial (''.verify.ocp'')) (\<lambda>_.
     store_publish H cwd rt (rc_module_id c) (rc_version c)
       \<lparr>is_absolute = True, parts = dir @ [partial]\<rparr> (expected_sha256 c) u))))"

definition publish_missing ::
    "(string \<Rightarrow> string) \<Rightarrow> string list \<Rightarrow> string list \<Rightarrow> (release_candidate \<Rightarrow> exn + string \<times> string) \<Rightarrow>
      (release_candidate \<Rightarrow> string \<Rightarrow> exn + unit) option \<Rightarrow> exn + unit \<Rightarrow> string list \<Rightarrow> split_result \<Rightarrow> string list \<Rightarrow> pypath \<Rightarrow>
      release_candidate \<Rightarrow> string \<Rightarrow> string \<Rightarrow> (fsys, publish_result) op" where
  "publish_missing H cwd tmp downloader verifier checkout rt source relative target c r u =
     ebind (eensure (hostname source \<noteq> Some CANONICAL_REGISTRY_HOST)
         (store_error ''canonical mirror metadata references a missing local artifact'')) (\<lambda>_.
     ebind (case verifier of None \<Rightarrow> eret () | Some _ \<Rightarrow> elift checkout) (\<lambda>_.
     ebind (directory tmp False DIRECTORY_MODE) (\<lambda>td.
     ebind (mkdtemp td r) (\<lambda>d.
     efinally
       (ecatch
         (ebind (intake H cwd rt downloader verifier c d (tmp @ [r])
             (''.'' @ last relative @ ''.download.partial'') u) (\<lambda>result.
          eret \<lparr>pr_candidate = c, target_path = target, pr_status = status result\<rparr>))
         (\<lambda>e. if exn_class e = ArtifactVerificationError then eraise (Raise ArtifactStoreError (exn_reason e))
              else if is_OSError e then eraise (store_error ''Artifact intake failed'')
              else eraise e))
       (os_unlink td r)))))"

definition publish_candidate ::
    "(string \<Rightarrow> string) \<Rightarrow> string list \<Rightarrow> string list \<Rightarrow> (release_candidate \<Rightarrow> exn + string \<times> string) \<Rightarrow>
      (release_candidate \<Rightarrow> string \<Rightarrow> exn + unit) option \<Rightarrow> exn + unit \<Rightarrow> pypath \<Rightarrow> release_candidate \<Rightarrow> string \<Rightarrow> string \<Rightarrow>
      (fsys, publish_result) op" where
  "publish_candidate H cwd tmp downloader verifier checkout artifact_root c r u =
     ebind (elift (validate_candidate_url c)) (\<lambda>source.
     ebind (elift (store_init cwd artifact_root)) (\<lambda>rt.
     ebind (elift (canonical_artifact_relative_path (rc_module_id c) (rc_version c))) (\<lambda>relative.
     let target = artifact_root\<lparr>parts := parts artifact_root @ relative\<rparr> in
     ebind (ecatch (ebind (store_verify H rt (rc_module_id c) (rc_version c) (expected_sha256 c)) (\<lambda>_. eret True))
         (\<lambda>e. if exn_class e = ArtifactNotFound then eret False else eraise e)) (\<lambda>present.
     if present then
       ebind (store_publish H cwd rt (rc_module_id c) (rc_version c) target (expected_sha256 c) u) (\<lambda>result.
       eret \<lparr>pr_candidate = c, target_path = target, pr_status = status result\<rparr>)
     else publish_missing H cwd tmp downloader verifier checkout rt source relative target c r u))))"

definition publish_from_registry ::
    "(string \<Rightarrow> json \<Rightarrow> bool) \<Rightarrow> registry_source \<Rightarrow> string \<Rightarrow> string \<Rightarrow>
      (release_candidate \<Rightarrow> (fsys, publish_result) op) \<Rightarrow> (fsys, publish_result) op" where
  "publish_from_registry sch tree mid ver publish =
     ebind (elift (select_release sch tree mid ver)) publish"

text \<open>
  Publishing all releases, in order; a failure is re-raised as a publishing error (the text of the
  error, which gets the release's identity as a prefix if it lacks one, is not modelled).
\<close>

definition wrap_failure :: "exn \<Rightarrow> exn" where
  "wrap_failure e =
     (if is_ArtifactStoreError e \<or> exn_class e = ArtifactVerificationError \<or> is_OSError e
      then Raise ArtifactStoreError (exn_reason e) else e)"

definition publish_all_from_registry ::
    "(string \<Rightarrow> json \<Rightarrow> bool) \<Rightarrow> registry_source \<Rightarrow> (release_candidate \<Rightarrow> (fsys, publish_result) op) \<Rightarrow>
      (fsys, publish_result list) op" where
  "publish_all_from_registry sch tree publish =
     ebind (elift (select_all_releases sch tree))
       (emap (\<lambda>c. ecatch (publish c) (\<lambda>e. eraise (wrap_failure e))))"

definition bulk_published :: "publish_result list \<Rightarrow> publish_result list" where
  "bulk_published results = filter (\<lambda>p. pr_status p = STATUS_PUBLISHED) results"

definition bulk_already_present :: "publish_result list \<Rightarrow> publish_result list" where
  "bulk_already_present results = filter (\<lambda>p. pr_status p = STATUS_ALREADY_PRESENT) results"

definition verify_public_release ::
    "(string \<Rightarrow> json \<Rightarrow> bool) \<Rightarrow> registry_source \<Rightarrow> string \<Rightarrow> string \<Rightarrow> (release_candidate \<Rightarrow> exn + string \<times> string) \<Rightarrow>
      exn + string" where
  "verify_public_release sch tree mid ver downloader =
     rbind (select_release sch tree mid ver) (\<lambda>selected.
     rbind (canonical_public_artifact_url mid ver) (\<lambda>url.
     let public_candidate = selected\<lparr>artifact_url := url\<rparr> in
     rbind (validate_candidate_url public_candidate) (\<lambda>_.
     rbind (downloader public_candidate) (\<lambda>(actual, data).
     rbind (ensure (actual = expected_sha256 selected)
         (store_error ''public SHA-256 does not match Registry metadata'')) (\<lambda>_.
     Inr url)))))"

text \<open>\<open>publish_artifact.py\<close>: the exit status of publishing a local file.\<close>

definition publish_cli ::
    "(string \<Rightarrow> string) \<Rightarrow> string list \<Rightarrow> pypath option \<Rightarrow> string option \<Rightarrow> string \<Rightarrow> string \<Rightarrow> pypath \<Rightarrow> string \<Rightarrow> string \<Rightarrow>
      (fsys, nat) op" where
  "publish_cli H cwd root_arg env mid ver source expected u =
     ecatch
       (ebind (elift (case root_arg of Some p \<Rightarrow> store_init cwd p | None \<Rightarrow> from_environment cwd env)) (\<lambda>rt.
        ebind (store_publish H cwd rt mid ver source expected u) (\<lambda>result. eret 0)))
       (\<lambda>e. if exn_class e = ArtifactConflict then eret 3
            else if exn_class e = InvalidArtifact then eret 2
            else if is_ArtifactStoreError e then eret 4 else eraise e)"

section \<open>What a publication leaves unchanged\<close>

lemma keeps_create_block:
  assumes m: "keeps (grow X Y) m"
    and new: "\<And>s n t. m s = (Inr n, t) \<Longrightarrow> n = next_ino s \<and> (fs_wf s \<longrightarrow> fs_entry s d nm = None)"
    and body: "\<And>n. keeps (grow (insert n X) (insert (d, nm) ({n} \<times> UNIV \<union> Y))) (f n)"
  shows "keeps (grow X Y) (ebind m f)"
  unfolding keeps_def
proof (intro allI)
  fix s
  obtain r t where mt: "m s = (r, t)" by fastforce
  have st: "grow X Y s t" using keepsD [OF m mt] .
  show "grow X Y s (snd (ebind m f s))"
  proof (cases r)
    case (Inl e)
    then show ?thesis using mt st by (simp add: ebind_def)
  next
    case (Inr n)
    with new mt have n: "n = next_ino s" "fs_wf s \<Longrightarrow> fs_entry s d nm = None" by auto
    have b: "grow (insert n X) (insert (d, nm) ({n} \<times> UNIV \<union> Y)) t (snd (f n t))" using body [of n] by (simp add: keeps_def)
    have "grow X Y s (snd (f n t))" unfolding grow_def
    proof (intro impI)
      assume wf: "fs_wf s"
      then have none: "inodes s n = None" "\<And>x. fs_entry s n x = None" using n by (auto simp: fs_wf_def fs_entry_def)
      from st b wf have "fs_wf (snd (f n t))" "fs_ext X Y s t"
        and e: "fs_ext (insert n X) (insert (d, nm) ({n} \<times> UNIV \<union> Y)) t (snd (f n t))" by (auto simp: grow_def)
      moreover have "fs_ext (insert n X) (insert (d, nm) ({n} \<times> UNIV \<union> Y)) s t"
        using \<open>fs_ext X Y s t\<close> unfolding fs_ext_def by blast
      note tr = fs_ext_trans [OF this e]
      have "fs_ext X Y s (snd (f n t))" unfolding fs_ext_def
      proof (intro conjI allI impI)
        fix i x assume "inodes s i = Some x" "i \<notin> X"
        moreover from this none(1) have "i \<notin> insert n X" by auto
        ultimately show "\<exists>y. inodes (snd (f n t)) i = Some y \<and> inode_le x y" using tr unfolding fs_ext_def by blast
      next
        fix d' nm' i assume "fs_entry s d' nm' = Some i" "(d', nm') \<notin> Y"
        moreover from this none(2) n(2) [OF wf] have "(d', nm') \<notin> insert (d, nm) ({n} \<times> UNIV \<union> Y)" by auto
        ultimately show "fs_entry (snd (f n t)) d' nm' = Some i" using tr unfolding fs_ext_def by blast
      qed
      ultimately show "fs_wf (snd (f n t)) \<and> fs_ext X Y s (snd (f n t))" by blast
    qed
    then show ?thesis using mt Inr by (simp add: ebind_def)
  qed
qed

lemma keeps_mono:
  assumes "keeps (grow X Y) m" and "X \<subseteq> X'" and "Y \<subseteq> Y'"
  shows "keeps (grow X' Y') m"
  using assms unfolding keeps_def grow_def fs_ext_def by blast

lemma keeps_mkdtemp [keeps_intros]: "keeps (grow X Y) (mkdtemp d nm)"
  by (auto simp: keeps_def mkdtemp_def grow_create)

lemma mkdtemp_new: "mkdtemp d nm s = (Inr n, t) \<Longrightarrow> n = next_ino s \<and> (fs_wf s \<longrightarrow> fs_entry s d nm = None)"
  by (auto simp: mkdtemp_def split: if_splits)

lemma excl_new: "os_open_excl d nm mode s = (Inr n, t) \<Longrightarrow> n = next_ino s \<and> (fs_wf s \<longrightarrow> fs_entry s d nm = None)"
  by (auto simp: os_open_excl_def split: if_splits)

lemma keeps_write_new_file [keeps_intros]: "keeps (grow X Y) (write_new_file d nm data)"
  unfolding write_new_file_def
  by (rule keeps_create_block [OF keeps_os(2) excl_new]) (assumption, rule keeps_os_write, simp)

lemma keeps_verify_partial [keeps_intros]:
  "{d} \<times> UNIV \<subseteq> Y \<Longrightarrow> keeps (grow X Y) (verify_partial_artifact v c d p q)"
  unfolding verify_partial_artifact_def by (intro keeps_intros grow_preorder) auto

lemma keeps_store_publish [keeps_intros]: "keeps (grow X Y) (store_publish H cwd rt mid ver src h u)"
  using keeps_publish by (rule keeps_mono) auto

lemma keeps_store_verify [keeps_intros]: "keeps (grow X Y) (store_verify H rt mid ver h)"
  unfolding store_verify_def by (intro keeps_intros grow_preorder)

lemma keeps_intake [keeps_intros]:
  "{d} \<times> UNIV \<subseteq> Y \<Longrightarrow> keeps (grow X Y) (intake H cwd rt dl v c d dir p u)"
  unfolding intake_def by (intro keeps_intros grow_preorder) auto

lemma keeps_publish_missing [keeps_intros]:
  "keeps (grow {} {}) (publish_missing H cwd tmp dl v co rt src rel tg c r u)"
  unfolding publish_missing_def
  by (intro keeps_intros grow_preorder keeps_create_block [OF keeps_mkdtemp mkdtemp_new]) auto

lemma keeps_publish_candidate [keeps_intros]:
  "keeps (grow {} {}) (publish_candidate H cwd tmp dl v co ar c r u)"
  unfolding publish_candidate_def Let_def by (intro keeps_intros grow_preorder)

section \<open>What a publication establishes\<close>

lemma is_dir_set_entry [simp]: "is_dir (set_entry d nm e s) i = is_dir s i"
  by (auto simp: is_dir_def set_entry_def split: option.splits inode.splits)

lemma s_isreg_set_entry [simp]: "s_isreg (set_entry d nm e s) i = s_isreg s i"
  by (auto simp: s_isreg_def set_entry_def split: option.splits inode.splits)

lemma file_bytes_set_entry [simp]: "file_bytes (set_entry d nm e s) i = file_bytes s i"
  by (auto simp: file_bytes_def set_entry_def split: option.splits inode.splits)

lemma walks_set_entry: "nm \<notin> set cs \<Longrightarrow> walks (set_entry d nm e s) x cs y = walks s x cs y"
  by (induction cs arbitrary: x) (auto simp: fs_entry_set_entry)

lemma stored_detach:
  assumes "stored H s rt mid ver h a" and "canonical_artifact_relative_path mid ver = Inr rel"
    and "nm \<notin> set (rt @ rel)"
  shows "stored H (set_entry d nm None s) rt mid ver h a"
proof -
  from assms(1) obtain rel' p i where st: "identity mid ver (Some h) = Inr rel'"
    "walks s ROOT_INO (rt @ butlast rel') p" "fs_entry s p (last rel') = Some i" "s_isreg s i"
    "H (file_bytes s i) = h" "metadata mid ver h (length (file_bytes s i)) = Inr a"
    unfolding stored_def stored_at_def by fastforce
  have rel: "rel' = rel" using canonical_path_ok [OF st(1)] assms(2) by simp
  then have ne: "rel' \<noteq> []" using st(1) by (simp add: identity_Inr_iff)
  have nm: "nm \<notin> set (rt @ butlast rel')" "last rel' \<noteq> nm"
    using assms(3) ne by (auto simp: rel dest: in_set_butlastD) 
  from st nm walks_set_entry [OF nm(1)] show ?thesis
    unfolding stored_def stored_at_def by (auto simp: fs_entry_set_entry)
qed

lemma intake_stored:
  assumes "intake H cwd rt dl v c d dir p u s = (Inr q, t)" and "fs_wf s"
  shows "stored H t rt (rc_module_id c) (rc_version c) (expected_sha256 c) (artifact q)"
    and "\<exists>data. dl c = Inr (expected_sha256 c, data)"
proof -
  from assms(1) obtain actual data s1 s2 where
    dl: "dl c = Inr (expected_sha256 c, data)" and w: "write_new_file d p data s = (Inr (), s1)"
    and vf: "(case v of None \<Rightarrow> eret () | Some v \<Rightarrow> verify_partial_artifact v c d p (''.verify.ocp'')) s1 = (Inr (), s2)"
    and pub: "store_publish H cwd rt (rc_module_id c) (rc_version c) \<lparr>is_absolute = True, parts = dir @ [p]\<rparr> (expected_sha256 c) u s2 = (Inr q, t)"
    unfolding intake_def by auto
  have wf1: "fs_wf s1" using growD [OF keeps_write_new_file w assms(2)] by blast
  have "keeps (grow {} ({d} \<times> UNIV)) (case v of None \<Rightarrow> eret () | Some v \<Rightarrow> verify_partial_artifact v c d p (''.verify.ocp''))"
    by (intro keeps_intros grow_preorder) simp
  from growD [OF this vf wf1] have "fs_wf s2" by blast
  with pub dl show "stored H t rt (rc_module_id c) (rc_version c) (expected_sha256 c) (artifact q)"
    "\<exists>data. dl c = Inr (expected_sha256 c, data)" by (auto intro: store_publish_stored)
qed

lemma publish_missing_stored:
  assumes p: "publish_missing H cwd tmp dl v co rt src rel tg c r u s = (Inr p, t)" and wf: "fs_wf s"
    and rel: "canonical_artifact_relative_path (rc_module_id c) (rc_version c) = Inr rel" and r: "r \<notin> set (rt @ rel)"
  shows "\<exists>a. stored H t rt (rc_module_id c) (rc_version c) (expected_sha256 c) a"
proof -
  from p obtain td d s1 q s2 where m: "mkdtemp td r s = (Inr d, s1)"
    and i: "intake H cwd rt dl v c d (tmp @ [r]) (''.'' @ last rel @ ''.download.partial'') u s1 = (Inr q, s2)"
    and u: "os_unlink td r s2 = (Inr (), t)"
    unfolding publish_missing_def
    by (auto simp: efinally_Inr ecatch_Inr directory_False_iff split: if_splits option.splits)
  have "fs_wf s1" using growD [OF keeps_mkdtemp m wf] by blast
  from intake_stored(1) [OF i this] have "stored H s2 rt (rc_module_id c) (rc_version c) (expected_sha256 c) (artifact q)" .
  from stored_detach [OF this rel r] u show ?thesis by (auto simp: os_unlink_def split: option.splits)
qed

lemma ebind_eret: "ebind (eret x) f = f x"
  by (rule ext) (simp add: ebind_def eret_def)

lemma store_verify_readonly: "readonly (store_verify H rt mid ver h)"
proof -
  have "keeps (=) (enter False mode d c)" for mode d c
  proof -
    have "keeps (=) (os_open_directory d c)"
      by (auto simp: keeps_def os_open_directory_def split: option.splits)
    then show ?thesis unfolding enter_def by (simp add: ebind_eret) (intro keeps_intros eq_preorder)
  qed
  then have w: "keeps (=) (walk False mode d cs)" for mode d cs
    by (induction cs arbitrary: d) (auto intro!: keeps_intros simp: eq_preorder)
  show ?thesis unfolding readonly_def store_verify_def directory_def translate_def
    using readonly_verify_at unfolding readonly_def
    by (intro keeps_intros eq_preorder w) auto
qed

lemma publish_candidate_stored:
  assumes p: "publish_candidate H cwd tmp dl v co ar c r u s = (Inr p, t)" and wf: "fs_wf s"
    and rt: "store_init cwd ar = Inr rt"
    and rel: "canonical_artifact_relative_path (rc_module_id c) (rc_version c) = Inr rel" and r: "r \<notin> set (rt @ rel)"
  shows "\<exists>a. stored H t rt (rc_module_id c) (rc_version c) (expected_sha256 c) a"
proof -
  from p rt rel obtain src present s1 where
    c: "ecatch (ebind (store_verify H rt (rc_module_id c) (rc_version c) (expected_sha256 c)) (\<lambda>_. eret True))
         (\<lambda>e. if exn_class e = ArtifactNotFound then eret False else eraise e) s = (Inr present, s1)"
    and b: "(if present then
       ebind (store_publish H cwd rt (rc_module_id c) (rc_version c) (ar\<lparr>parts := parts ar @ rel\<rparr>) (expected_sha256 c) u) (\<lambda>result.
       eret \<lparr>pr_candidate = c, target_path = ar\<lparr>parts := parts ar @ rel\<rparr>, pr_status = status result\<rparr>)
     else publish_missing H cwd tmp dl v co rt src rel (ar\<lparr>parts := parts ar @ rel\<rparr>) c r u) s1 = (Inr p, t)"
    unfolding publish_candidate_def Let_def by auto
  have "s1 = s" using c
    by (auto simp: ecatch_Inr ebind_Inl split: if_splits dest: readonlyD [OF store_verify_readonly])
  with b wf publish_missing_stored [OF _ wf rel r] show ?thesis
    by (auto split: if_splits intro: store_publish_stored)
qed

text \<open>A loop whose body establishes \<open>Q x\<close>, which later iterations keep.\<close>

lemma emap_establish:
  assumes "emap f xs s = (Inr ys, t)" and "P s"
    and step: "\<And>x s r t. P s \<Longrightarrow> f x s = (r, t) \<Longrightarrow> P t \<and> R s t"
    and est: "\<And>x s y t. x \<in> set xs \<Longrightarrow> P s \<Longrightarrow> f x s = (Inr y, t) \<Longrightarrow> Q x t"
    and keep: "\<And>x s t. Q x s \<Longrightarrow> R s t \<Longrightarrow> Q x t" and R: "reflp R" "transp R"
  shows "(\<forall>x \<in> set xs. Q x t) \<and> R s t"
  using assms(1,2) est
proof (induction xs arbitrary: s ys)
  case Nil
  then show ?case using R(1) by (auto simp: reflp_def)
next
  case (Cons x xs)
  from Cons.prems(1) obtain y s1 zs where x: "f x s = (Inr y, s1)" and xs: "emap f xs s1 = (Inr zs, t)" by auto
  have s1: "P s1" "R s s1" using step [OF Cons.prems(2) x] by auto
  have ih: "(\<forall>x \<in> set xs. Q x t) \<and> R s1 t" using Cons.IH [OF xs s1(1)] Cons.prems(3) by simp
  moreover have "Q x t" using keep Cons.prems(3) [OF _ Cons.prems(2) x] ih by auto
  moreover have "R s t" using s1(2) ih R(2) by (meson transpE)
  ultimately show ?case by simp
qed

lemma wrapped_Inr: "ecatch m (\<lambda>e. eraise (g e)) s = (Inr y, t) \<longleftrightarrow> m s = (Inr y, t)"
  by (auto simp: ecatch_Inr)

lemma publish_all_stored:
  assumes p: "publish_all_from_registry sch tree (\<lambda>c. publish_candidate H cwd tmp dl v co ar c (rnd c) (u c)) s = (Inr ps, t)"
    and wf: "fs_wf s" and rt: "store_init cwd ar = Inr rt" and cs: "select_all_releases sch tree = Inr cs"
    and fresh: "\<And>c rel. c \<in> set cs \<Longrightarrow> canonical_artifact_relative_path (rc_module_id c) (rc_version c) = Inr rel \<Longrightarrow>
       rnd c \<notin> set (rt @ rel)"
  shows "\<forall>c \<in> set cs. \<exists>a. stored H t rt (rc_module_id c) (rc_version c) (expected_sha256 c) a"
proof -
  let ?f = "\<lambda>c. ecatch (publish_candidate H cwd tmp dl v co ar c (rnd c) (u c)) (\<lambda>e. eraise (wrap_failure e))"
  have k: "keeps (grow {} {}) (?f c)" for c by (intro keeps_intros grow_preorder)
  have em: "emap ?f cs s = (Inr ps, t)" using p cs by (simp add: publish_all_from_registry_def)
  have "(\<forall>c \<in> set cs. \<exists>a. stored H t rt (rc_module_id c) (rc_version c) (expected_sha256 c) a) \<and> fs_ext {} {} s t"
  proof (rule emap_establish [OF em, where P = fs_wf and R = "fs_ext {} {}"])
    show "fs_wf s" by (rule wf)
    show "\<And>x s r t. fs_wf s \<Longrightarrow> ?f x s = (r, t) \<Longrightarrow> fs_wf t \<and> fs_ext {} {} s t" using growD [OF k] by blast
    show "\<And>x s t. \<exists>a. stored H s rt (rc_module_id x) (rc_version x) (expected_sha256 x) a \<Longrightarrow> fs_ext {} {} s t \<Longrightarrow>
      \<exists>a. stored H t rt (rc_module_id x) (rc_version x) (expected_sha256 x) a" using stored_ext by blast
    show "reflp (fs_ext {} {})" "transp (fs_ext {} {})" by (auto simp: reflp_def transp_def intro: fs_ext_trans)
    fix x s y t
    assume x: "x \<in> set cs" "fs_wf s" and r: "?f x s = (Inr y, t)"
    then have pc: "publish_candidate H cwd tmp dl v co ar x (rnd x) (u x) s = (Inr y, t)" by (simp add: wrapped_Inr)
    then obtain rel where rel: "canonical_artifact_relative_path (rc_module_id x) (rc_version x) = Inr rel"
      unfolding publish_candidate_def by auto
    from publish_candidate_stored [OF pc x(2) rt rel fresh [OF x(1) rel]]
    show "\<exists>a. stored H t rt (rc_module_id x) (rc_version x) (expected_sha256 x) a" .
  qed
  then show ?thesis by blast
qed

lemma select_all_complete:
  assumes "load_registry sch tree = Inr ms" and "select_all_releases sch tree = Inr cs"
    and "m \<in> set ms" and "r \<in> set (vers m)"
  shows "\<exists>c \<in> set cs. candidate_of m r = Inr c"
proof -
  have "module_wf x" if "x \<in> set ms" for x using load_registry_ok(1) [OF assms(1)] that validate_module_wf by blast
  then have "releases_of ms = Inr (all_releases ms)" using releases_of_ok by blast
  with assms(1,2) obtain ds where ds: "rmap (\<lambda>(m, r). candidate_from_release m r) (all_releases ms) = Inr ds"
    and s: "sorted_by candidate_key ds = Inr cs" by (auto simp: select_all_releases_def)
  have "(m, r) \<in> set (all_releases ms)" using assms(3,4) by (simp add: set_all_releases)
  with ds obtain c where "c \<in> set ds" "candidate_from_release m r = Inr c"
    unfolding rmap_Inr_iff by (auto simp: list_all2_conv_all_nth in_set_conv_nth) (metis prod.case)
  moreover have "set ds = set cs" using sorted_by_Inr(1) [OF s] by simp
  ultimately show ?thesis by (auto simp: candidate_from_release_def)
qed

section \<open>Properties\<close>

text \<open>C12. When the mirror job publishes all releases successfully, the store holds every release of the
  validated registry: for each of them, \<open>verify\<close> succeeds with the digest the registry names. (The
  random name of the intake directory must not occur in the target path.)\<close>

theorem publish_all_complete:
  assumes "publish_all_from_registry sch tree (\<lambda>c. publish_candidate H cwd tmp dl v co ar c (rnd c) (u c)) s = (Inr ps, t)"
    and "fs_wf s" and "store_init cwd ar = Inr rt" and "load_registry sch tree = Inr ms"
    and "\<forall>c \<in> set (projr (select_all_releases sch tree)).
       rnd c \<notin> set (rt @ [''modules'', rc_module_id c, rc_version c, rc_module_id c @ ''-'' @ rc_version c @ ''.ocp''])"
  shows "\<forall>m \<in> set ms. \<forall>r \<in> set (vers m). \<exists>h a. artifact_field r ''sha256'' = Some (JStr h) \<and>
    store_verify H rt (mod_id m) (release_version r) h t = (Inr a, t)"
proof (intro ballI)
  fix m r assume m: "m \<in> set ms" and r: "r \<in> set (vers m)"
  obtain cs where cs: "select_all_releases sch tree = Inr cs"
    using assms(1) by (auto simp: publish_all_from_registry_def)
  have fresh: "rnd c \<notin> set (rt @ rel)" if "c \<in> set cs"
    "canonical_artifact_relative_path (rc_module_id c) (rc_version c) = Inr rel" for c rel
    using assms(5) cs that
    by (auto simp: canonical_artifact_relative_path_def validate_module_id_def validate_semver_def)
  obtain c where c: "c \<in> set cs" "candidate_of m r = Inr c" using select_all_complete [OF assms(4) cs m r] by blast
  have wf: "module_wf m" using load_registry_ok(1) [OF assms(4)] m validate_module_wf by blast
  from publish_all_stored [OF assms(1-3) cs fresh] c(1) obtain a where
    "stored H t rt (rc_module_id c) (rc_version c) (expected_sha256 c) a" by blast
  with candidate_of_Inr [OF c(2) wf r] show "\<exists>h a. artifact_field r ''sha256'' = Some (JStr h) \<and>
    store_verify H rt (mod_id m) (release_version r) h t = (Inr a, t)"
    by (auto simp: store_verify_iff artifact_field_def)
qed

definition mirror_fs :: fsys where
  "mirror_fs = \<lparr>inodes =
     [0 \<mapsto> IDir [''srv'' \<mapsto> 1, ''tmp'' \<mapsto> 3] \<lparr>st_uid = 7, st_dev = 1, st_mode = 493\<rparr>,
      1 \<mapsto> IDir [''store'' \<mapsto> 2] \<lparr>st_uid = 7, st_dev = 1, st_mode = 493\<rparr>,
      2 \<mapsto> IDir Map.empty \<lparr>st_uid = 7, st_dev = 1, st_mode = 493\<rparr>,
      3 \<mapsto> IDir Map.empty \<lparr>st_uid = 7, st_dev = 1, st_mode = 511\<rparr>],
     next_ino = 4, euid = 7\<rparr>"

definition mirror_hash :: "string \<Rightarrow> string" where
  "mirror_hash b = replicate 64 (char_lower (hd b))"

definition mirror_run :: "(fsys, publish_result list) op" where
  "mirror_run = publish_all_from_registry (\<lambda>_ _. True) (sample_tree sample_v1)
     (\<lambda>c. publish_candidate mirror_hash [] [''tmp''] sample_download None (Inr ())
        \<lparr>is_absolute = True, parts = [''srv'', ''store'']\<rparr> c ''intake x'' ''u'')"

lemma sample_load1: "load_registry (\<lambda>_ _. True) (sample_tree sample_v1) = Inr [sample_v1]"
  by code_simp

theorem publish_all_complete_witness:
  "\<exists>t. \<forall>r \<in> set (vers sample_v1). \<exists>h a. artifact_field r ''sha256'' = Some (JStr h) \<and>
     store_verify mirror_hash [''srv'', ''store''] (mod_id sample_v1) (release_version r) h t = (Inr a, t)"
proof -
  have "is_ok (fst (mirror_run mirror_fs))" by code_simp
  then obtain ps t where run: "mirror_run mirror_fs = (Inr ps, t)" by (metis is_ok_iff prod.collapse)
  have wf: "fs_wf mirror_fs" by (simp add: fs_wf_def mirror_fs_def)
  have init: "store_init [] \<lparr>is_absolute = True, parts = [''srv'', ''store'']\<rparr> = Inr [''srv'', ''store'']" by code_simp
  have fresh: "\<forall>c \<in> set (projr (select_all_releases (\<lambda>_ _. True) (sample_tree sample_v1))).
      ''intake x'' \<notin> set ([''srv'', ''store''] @ [''modules'', rc_module_id c, rc_version c,
        rc_module_id c @ ''-'' @ rc_version c @ ''.ocp''])" by code_simp
  from publish_all_complete [OF run [unfolded mirror_run_def] wf init sample_load1 fresh] show ?thesis by auto
qed

end
