(* ===== verification/Build_Registry.thy ===== *)
theory Build_Registry
  imports Registry_Props Effects
begin

text \<open>
  \<open>scripts/build_registry.py\<close> and the command lines of \<open>validate_registry.py\<close> and
  \<open>build_registry.py\<close>: the static output is built in a staging directory and swapped in. The state is
  what exists at the output path, at the backup path and at the staging path; every call that can
  fail is a numbered step and the parameter \<open>fault\<close> says which steps raise \<open>OSError\<close>.
\<close>

section \<open>The files of the output\<close>

type_synonym dist = "(string \<times> string) list"

definition module_file :: "json \<Rightarrow> exn + string \<times> string" where
  "module_file m =
     rbind (str_item m ''id'') (\<lambda>mid.
     rbind (canonical_module m) (\<lambda>c.
     Inr (''modules/'' @ mid @ ''.json'', canonical_json c)))"

definition dist_files :: "(string \<Rightarrow> json \<Rightarrow> bool) \<Rightarrow> json list \<Rightarrow> exn + dist" where
  "dist_files sch modules =
     rbind (build_index sch modules) (\<lambda>index.
     rbind (rmap module_file modules) (\<lambda>files.
     Inr ((''index.json'', canonical_json index) # files)))"

section \<open>Swapping the output\<close>

record dirs =
  d_output :: "dist option"
  d_backup :: "dist option"
  d_staging :: "dist option"

text \<open>The resolved paths \<open>build\<close> compares, and whether the output path is a symbolic link.\<close>

record build_paths =
  bp_repository :: "string list"
  bp_registry :: "string list"
  bp_output :: "string list"
  bp_is_symlink :: bool

definition is_relative_to :: "string list \<Rightarrow> string list \<Rightarrow> bool" where
  "is_relative_to p base = (take (length base) p = base)"

definition unsafe_output :: "build_paths \<Rightarrow> bool" where
  "unsafe_output p =
     (bp_output p \<in> {[], bp_repository p, bp_registry p} \<or>
      is_relative_to (bp_repository p) (bp_output p) \<or> is_relative_to (bp_output p) (bp_registry p) \<or>
      bp_is_symlink p)"

definition attempt :: "(nat \<Rightarrow> bool) \<Rightarrow> nat \<Rightarrow> (dirs \<Rightarrow> dirs) \<Rightarrow> (dirs, unit) op" where
  "attempt fault k f s = (if fault k then (Inl (Raise OSError (Msg [])), s) else (Inr (), f s))"

text \<open>The body of the \<open>try\<close>: returns whether a backup path was chosen when it raises.\<close>

definition swap_in :: "(nat \<Rightarrow> bool) \<Rightarrow> (exn + dist) \<Rightarrow> (dirs, unit) op" where
  "swap_in fault files =
     ebind (elift files) (\<lambda>new.
     ebind (attempt fault 1 (\<lambda>s. s\<lparr>d_staging := Some new\<rparr>)) (\<lambda>_.
     ebind (eget (\<lambda>s. d_output s \<noteq> None)) (\<lambda>present.
     ebind (if present then attempt fault 2 (\<lambda>s. s\<lparr>d_backup := d_output s, d_output := None\<rparr>) else eret ()) (\<lambda>_.
     ebind (attempt fault 3 (\<lambda>s. s\<lparr>d_output := d_staging s, d_staging := None\<rparr>)) (\<lambda>_.
     ebind (eget (\<lambda>s. d_backup s \<noteq> None)) (\<lambda>leftover.
     if leftover then attempt fault 4 (\<lambda>s. s\<lparr>d_backup := None\<rparr>) else eret ()))))))"

definition roll_back :: "(nat \<Rightarrow> bool) \<Rightarrow> exn \<Rightarrow> (dirs, unit) op" where
  "roll_back fault e =
     ebind (eget (\<lambda>s. d_output s = None \<and> d_backup s \<noteq> None)) (\<lambda>restore.
     ebind (if restore then attempt fault 5 (\<lambda>s. s\<lparr>d_output := d_backup s, d_backup := None\<rparr>) else eret ()) (\<lambda>_.
     eraise e))"

definition remove_staging :: "(nat \<Rightarrow> bool) \<Rightarrow> (dirs, unit) op" where
  "remove_staging fault =
     ebind (eget (\<lambda>s. d_staging s \<noteq> None)) (\<lambda>present.
     if present then attempt fault 6 (\<lambda>s. s\<lparr>d_staging := None\<rparr>) else eret ())"

definition build ::
    "(string \<Rightarrow> json \<Rightarrow> bool) \<Rightarrow> registry_source \<Rightarrow> build_paths \<Rightarrow> (nat \<Rightarrow> bool) \<Rightarrow> (dirs, unit) op" where
  "build sch tree p fault =
     ebind (elift (load_registry sch tree)) (\<lambda>modules.
     ebind (eensure (\<not> unsafe_output p) (invalid Unsafe_output)) (\<lambda>_.
     ebind (attempt fault 0 (\<lambda>s. s\<lparr>d_staging := Some []\<rparr>)) (\<lambda>_.
     efinally (ecatch (swap_in fault (dist_files sch modules)) (roll_back fault)) (remove_staging fault))))"

section \<open>Command lines\<close>

definition build_main ::
    "(string \<Rightarrow> json \<Rightarrow> bool) \<Rightarrow> registry_source \<Rightarrow> build_paths \<Rightarrow> (nat \<Rightarrow> bool) \<Rightarrow> (dirs, nat) op" where
  "build_main sch tree p fault =
     ecatch (ebind (build sch tree p fault) (\<lambda>_. eret 0))
       (\<lambda>e. if is_OSError e \<or> exn_class e = RegistryValidationError then eret 1 else eraise e)"

definition validate_main ::
    "(string \<Rightarrow> json \<Rightarrow> bool) \<Rightarrow> registry_source \<Rightarrow> git_tree option \<Rightarrow> exn + nat" where
  "validate_main sch tree base_ref =
     rcatch
       (rbind (load_registry sch tree) (\<lambda>modules.
        case base_ref of
          None \<Rightarrow> Inr 0
        | Some git \<Rightarrow>
            rbind (load_registry_from_git sch git) (\<lambda>base_modules.
            rbind (validate_immutability modules base_modules) (\<lambda>_. Inr 0))))
       (\<lambda>e. if is_OSError e \<or> exn_class e = RegistryValidationError then Inr 1 else Inl e)"

section \<open>The output is swapped atomically\<close>

lemma attempt_cases:
  "attempt fault k f s = (r, t) \<longleftrightarrow>
     (fault k \<and> r = Inl (Raise OSError (Msg [])) \<and> t = s) \<or> (\<not> fault k \<and> r = Inr () \<and> t = f s)"
  by (auto simp: attempt_def)

lemma swap_in_outcome:
  assumes "swap_in fault files s = (r, t)" and "d_backup s = None"
  shows "case r of
      Inr _ \<Rightarrow> (\<exists>new. files = Inr new \<and> d_output t = Some new) \<and> d_backup t = None
    | Inl e \<Rightarrow> (d_output t = d_output s \<and> d_backup t = None) \<or>
        (d_output t = None \<and> d_backup t = d_output s \<and> d_output s \<noteq> None) \<or>
        (\<exists>new. files = Inr new \<and> d_output t = Some new)"
proof (cases files)
  case (Inl e)
  with assms show ?thesis by (auto simp: swap_in_def ebind_def elift_def)
next
  case (Inr new)
  with assms show ?thesis
    by (auto simp: swap_in_def ebind_def elift_def attempt_def eget_def eret_def split: if_splits)
qed

lemma roll_back_outcome:
  assumes "roll_back fault e s = (r, t)"
  shows "(\<exists>e'. r = Inl e') \<and> (d_output t = d_output s \<and> d_backup t = d_backup s \<and> (d_output s \<noteq> None \<or> d_backup s = None \<or> fault 5)
     \<or> d_output s = None \<and> d_output t = d_backup s \<and> d_backup s \<noteq> None)"
  using assms by (auto simp: roll_back_def ebind_def attempt_def eget_def eret_def eraise_def split: if_splits)

lemma remove_staging_outcome:
  assumes "remove_staging fault s = (r, t)"
  shows "d_output t = d_output s" and "d_backup t = d_backup s"
  using assms by (auto simp: remove_staging_def ebind_def attempt_def eget_def eret_def split: if_splits)

lemma build_outcome:
  assumes "build sch tree p fault s = (r, t)" and "d_backup s = None" and "\<not> fault 5"
  shows "(d_output t = d_output s \<and> (\<exists>e. r = Inl e)) \<or>
    (\<exists>modules new. load_registry sch tree = Inr modules \<and> dist_files sch modules = Inr new \<and> d_output t = Some new)"
proof (cases "load_registry sch tree")
  case (Inl e)
  with assms show ?thesis by (auto simp: build_def ebind_def elift_def)
next
  case (Inr modules)
  let ?body = "ecatch (swap_in fault (dist_files sch modules)) (roll_back fault)"
  let ?s0 = "s\<lparr>d_staging := Some []\<rparr>"
  consider "d_output t = d_output s \<and> (\<exists>e. r = Inl e)"
    | "efinally ?body (remove_staging fault) ?s0 = (r, t)"
    using assms(1) Inr by (auto simp: build_def ebind_def elift_def eensure_def attempt_def split: if_splits)
  then show ?thesis
  proof cases
    case 2
    obtain r1 t1 where sw: "swap_in fault (dist_files sch modules) ?s0 = (r1, t1)" by fastforce
    note o = swap_in_outcome [OF sw]
    show ?thesis
    proof (cases r1)
      case (Inr u)
      with 2 sw o assms(2) Inr \<open>load_registry sch tree = Inr modules\<close> show ?thesis
        by (auto simp: efinally_def ecatch_def dest: remove_staging_outcome split: prod.splits sum.splits)
    next
      case (Inl e)
      obtain r2 t2 where rb: "roll_back fault e t1 = (r2, t2)" by fastforce
      from roll_back_outcome [OF rb] o Inl assms(2,3)
      have "(\<exists>e. r2 = Inl e) \<and> (d_output t2 = d_output s \<or> (\<exists>new. dist_files sch modules = Inr new \<and> d_output t2 = Some new))"
        by auto
      moreover have "?body ?s0 = (r2, t2)" using sw rb Inl by (simp add: ecatch_def)
      with 2 have "d_output t = d_output t2"
        by (auto simp: efinally_def dest: remove_staging_outcome split: prod.splits sum.splits)
      moreover have "(\<exists>e. r2 = Inl e) \<longrightarrow> (\<exists>e. r = Inl e)" using 2 \<open>?body ?s0 = (r2, t2)\<close>
        by (auto simp: efinally_def split: prod.splits sum.splits)
      ultimately show ?thesis using \<open>load_registry sch tree = Inr modules\<close> by auto
    qed
  qed blast
qed

section \<open>Properties\<close>


definition sample_paths :: build_paths where
  "sample_paths = \<lparr>bp_repository = [''repo''], bp_registry = [''repo'', ''registry''],
     bp_output = [''repo'', ''dist''], bp_is_symlink = False\<rparr>"


lemma build_rolls_back:
  "build (\<lambda>_ _. True) (sample_tree sample_v2) sample_paths (\<lambda>k. k = 3)
     \<lparr>d_output = Some [(''old'', [])], d_backup = None, d_staging = None\<rparr> =
   (Inl (Raise OSError (Msg [])), \<lparr>d_output = Some [(''old'', [])], d_backup = None, d_staging = None\<rparr>)"
  by code_simp

lemma build_succeeds:
  "is_ok (fst (build (\<lambda>_ _. True) (sample_tree sample_v2) sample_paths (\<lambda>k. False)
     \<lparr>d_output = Some [(''old'', [])], d_backup = None, d_staging = None\<rparr>))"
  by code_simp

end
