(* ===== verification/Candidate.thy ===== *)
theory Candidate
  imports Build_Registry Verify_Artifacts
begin

text \<open>
  Release candidates: the allowlist of \<open>scripts/ocp_builder.py\<close> (\<open>load_policies\<close>), the validation,
  the release mapping and the file store of \<open>scripts/registry_candidate.py\<close>, and the promotion of a
  reviewed candidate into the registry by \<open>scripts/promote_candidate.py\<close>. YAML is a third-party
  format: the configuration is the parsed value. A pattern applied to a value that is not a string
  raises \<open>TypeError\<close>.
\<close>

section \<open>The allowlist\<close>

record service_contract =
  service_id :: string
  sv_version :: json
  sv_contract :: string

record module_policy =
  po_module_id :: string
  po_repository :: string
  po_classification :: json
  po_publisher :: json
  po_license :: json
  po_services :: "service_contract list"

definition source_url :: "module_policy \<Rightarrow> string" where
  "source_url p = ''https://github.com/'' @ po_repository p"

abbreviation builder_error :: "string \<Rightarrow> exn" where
  "builder_error m \<equiv> Raise BuilderError (Msg m)"

definition has_keys :: "json \<Rightarrow> string list \<Rightarrow> bool" where
  "has_keys v ks = (is_obj v \<and> set (dict_keys (obj_items v)) = set ks)"

definition FIRST_PARTY_RE :: regex where
  "FIRST_PARTY_RE = RSeq (rlit ''oklabflensburg/'')
     (rplus (RClass [(CHR ''a'', CHR ''z''), (CHR ''0'', CHR ''9''), (CHR ''-'', CHR ''-'')]))"

definition SERVICE_ID_RE :: regex where
  "SERVICE_ID_RE = rplus (RClass [(CHR ''a'', CHR ''z''), (CHR ''0'', CHR ''9''), (CHR ''.'', CHR ''.''), (CHR ''-'', CHR ''-'')])"

definition CONTRACT_RE :: regex where
  "CONTRACT_RE = RSeq (rplus (RClass [(CHR ''A'', CHR ''Z''), (CHR ''a'', CHR ''z''), (CHR ''0'', CHR ''9''), (CHR ''_'', CHR ''_''), (CHR ''.'', CHR ''.'')]))
     (RSeq (rchar CHR '':'') (rplus (RClass [(CHR ''A'', CHR ''Z''), (CHR ''a'', CHR ''z''), (CHR ''0'', CHR ''9''), (CHR ''_'', CHR ''_'')])))"

text \<open>\<open>RE.fullmatch(value)\<close> on a value of any type.\<close>

definition full_match :: "regex \<Rightarrow> json \<Rightarrow> exn + bool" where
  "full_match r v = (case v of JStr s \<Rightarrow> Inr (fullmatch r s) | _ \<Rightarrow> Inl (Raise TypeError (Msg ''expected string'')))"

definition load_service :: "json \<Rightarrow> exn + service_contract" where
  "load_service service =
     rbind (ensure (has_keys service [''id'', ''version'', ''contract'']) (builder_error ''invalid service contract'')) (\<lambda>_.
     rbind (getitem service ''version'') (\<lambda>v.
     rbind (getitem service ''id'') (\<lambda>i.
     rbind (getitem service ''contract'') (\<lambda>c.
     rbind (ensure (case int_of v of None \<Rightarrow> False | Some n \<Rightarrow> 1 \<le> n) (builder_error ''invalid service contract'')) (\<lambda>_.
     rbind (full_match SERVICE_ID_RE i) (\<lambda>ok1.
     rbind (ensure ok1 (builder_error ''invalid service contract'')) (\<lambda>_.
     rbind (full_match CONTRACT_RE c) (\<lambda>ok2.
     rbind (ensure ok2 (builder_error ''invalid service contract'')) (\<lambda>_.
     case (i, c) of
       (JStr si, JStr sc) \<Rightarrow> Inr \<lparr>service_id = si, sv_version = v, sv_contract = sc\<rparr>
     | _ \<Rightarrow> Inl (Raise TypeError (Msg [])))))))))))"

definition iterate :: "json \<Rightarrow> exn + json list" where
  "iterate v = (case v of
       JList xs \<Rightarrow> Inr xs
     | JObj d \<Rightarrow> Inr (map (JStr \<circ> fst) d)
     | JStr s \<Rightarrow> Inr (map (\<lambda>c. JStr [c]) s)
     | _ \<Rightarrow> Inl (Raise TypeError (Msg ''not iterable'')))"

definition load_policy :: "string \<Rightarrow> json \<Rightarrow> exn + module_policy" where
  "load_policy module_id item =
     rbind (ensure (has_keys item [''repository'', ''classification'', ''publisher'', ''license'', ''host_contract''])
         (builder_error ''invalid policy'')) (\<lambda>_.
     rbind (getitem item ''repository'') (\<lambda>repository.
     rbind (getitem item ''classification'') (\<lambda>classification.
     rbind (ensure (classification = JStr ''first-party'' \<and> is_str repository)
         (builder_error ''only first-party repositories are supported'')) (\<lambda>_.
     rbind (ensure (matches FIRST_PARTY_RE repository)
         (builder_error ''repository is outside the first-party boundary'')) (\<lambda>_.
     rbind (getitem item ''host_contract'') (\<lambda>contract.
     rbind (ensure (has_keys contract [''services'']) (builder_error ''invalid host contract'')) (\<lambda>_.
     rbind (rbind (getitem contract ''services'') iterate) (\<lambda>items.
     rbind (rmap load_service items) (\<lambda>services.
     rbind (getitem item ''publisher'') (\<lambda>publisher.
     rbind (getitem item ''license'') (\<lambda>license.
     rbind (str_item item ''repository'') (\<lambda>repo.
     Inr \<lparr>po_module_id = module_id, po_repository = repo, po_classification = classification,
       po_publisher = publisher, po_license = license, po_services = services\<rparr>))))))))))))"

definition load_policies :: "json option \<Rightarrow> exn + json \<times> (string, module_policy) dict" where
  "load_policies config =
     rbind (of_option (builder_error ''invalid first-party configuration'') config) (\<lambda>v.
     rbind (ensure (has_keys v [''builder_version'', ''modules''])
         (builder_error ''first-party configuration has unknown or missing fields'')) (\<lambda>_.
     rbind (getitem v ''builder_version'') (\<lambda>bv.
     rbind (getitem v ''modules'') (\<lambda>ms.
     rbind (ensure (py_eq bv (JInt 1) \<and> is_obj ms) (builder_error ''only ocp-builder version 1 is supported'')) (\<lambda>_.
     rbind (rmap (\<lambda>(mid, item). rbind (load_policy mid item) (\<lambda>p. Inr (mid, p))) (obj_items ms)) (\<lambda>policies.
     Inr (bv, dict_of policies)))))))"

section \<open>Candidates\<close>

definition REQUIRED :: "string list" where
  "REQUIRED = [''schema_version'', ''module_id'', ''version'', ''classification'', ''source_repository'',
     ''source_tag'', ''source_commit'', ''builder_version'', ''builder_commit'', ''bundle_format_version'',
     ''bundle_sha256'', ''artifact_candidate'', ''reproducible'', ''host_contract'', ''planned_channel'',
     ''requires'', ''registry_status'']"

definition ARTIFACT_CANDIDATE_RE :: regex where
  "ARTIFACT_CANDIDATE_RE = RSeq (rlit ''github-actions://run/'') (RSeq (rplus (RClass [(CHR ''0'', CHR ''9'')]))
     (RSeq (rchar CHR ''/'')
       (rplus (RClass [(CHR ''a'', CHR ''z''), (CHR ''0'', CHR ''9''), (CHR ''.'', CHR ''.''), (CHR ''-'', CHR ''-'')]))))"

abbreviation value_error :: "string \<Rightarrow> exn" where
  "value_error m \<equiv> Raise ValueError (Msg m)"

fun hashable :: "json \<Rightarrow> bool" where
  "hashable (JList xs) = False"
| "hashable (JObj d) = False"
| "hashable _ = True"

text \<open>\<open>value in {...}\<close> with a set of strings, and \<open>policies.get(value)\<close>.\<close>

definition in_set :: "json \<Rightarrow> string list \<Rightarrow> exn + bool" where
  "in_set v ss = (if hashable v then Inr (str_in v ss) else Inl (Raise TypeError (Msg ''unhashable'')))"

definition dict_lookup :: "(string, 'v) dict \<Rightarrow> json \<Rightarrow> exn + 'v option" where
  "dict_lookup d v = (if hashable v then Inr (case v of JStr s \<Rightarrow> dict_get d s | _ \<Rightarrow> None)
     else Inl (Raise TypeError (Msg ''unhashable'')))"

definition validate_environment :: "json \<Rightarrow> json \<Rightarrow> json \<Rightarrow> exn + unit" where
  "validate_environment env_policy environment builder_commit =
     rbind (ensure (is_obj environment \<and>
         list_all (\<lambda>(k, expected). py_eq (get_or environment k JNull) expected) (obj_items env_policy))
         (value_error ''candidate build environment violates builder policy'')) (\<lambda>_.
     rbind (ensure (py_eq (get_or environment ''builder_commit'' JNull) builder_commit)
         (value_error ''candidate builder commit mismatch'')) (\<lambda>_.
     ensure (fullmatch COMMIT_RE (py_str (get_or environment ''host_commit'' (JStr []))))
         (value_error ''candidate host commit invalid'')))"

definition validate_candidate :: "json option \<Rightarrow> json \<Rightarrow> json \<Rightarrow> exn + json" where
  "validate_candidate config env_policy v =
     rbind (ensure (is_obj v \<and> set (dict_keys (obj_items v)) - {''build_environment''} = set REQUIRED)
         (value_error ''candidate has unknown or missing fields'')) (\<lambda>_.
     rbind (load_policies config) (\<lambda>(bv, policies).
     rbind (getitem v ''module_id'') (\<lambda>mid.
     rbind (rbind (dict_lookup policies mid) (of_option (value_error ''candidate module is not allowlisted''))) (\<lambda>policy.
     rbind (ensure (get_field v ''source_repository'' = Some (JStr (source_url policy)))
         (value_error ''candidate source repository does not match allowlist'')) (\<lambda>_.
     rbind (ensure (get_field v ''classification'' = Some (JStr ''first-party''))
         (value_error ''candidate classification is not first-party'')) (\<lambda>_.
     rbind (ensure (py_eq (get_or v ''schema_version'' JNull) (JInt 1) \<and> py_eq (get_or v ''builder_version'' JNull) (JInt 1))
         (value_error ''unsupported candidate or builder version'')) (\<lambda>_.
     rbind (ensure (py_eq (get_or v ''bundle_format_version'' JNull) (JInt 1)) (value_error ''unsupported bundle format'')) (\<lambda>_.
     rbind (rbind (getitem v ''version'') (full_match SEMVER_RE)) (\<lambda>ok.
     rbind (ensure ok (value_error ''invalid candidate version'')) (\<lambda>_.
     rbind (str_item v ''version'') (\<lambda>version.
     rbind (ensure (get_field v ''source_tag'' = Some (JStr (''v'' @ version))) (value_error ''candidate tag/version mismatch'')) (\<lambda>_.
     rbind (rbind (getitem v ''source_commit'') (full_match COMMIT_RE)) (\<lambda>ok.
     rbind (ensure ok (value_error ''invalid source commit'')) (\<lambda>_.
     rbind (getitem v ''builder_commit'') (\<lambda>bc.
     rbind (if bc = JStr ''unknown'' then Inr True else full_match COMMIT_RE bc) (\<lambda>ok.
     rbind (ensure ok (value_error ''invalid builder commit'')) (\<lambda>_.
     rbind (rbind (getitem v ''bundle_sha256'') (full_match SHA256_RE)) (\<lambda>ok.
     rbind (ensure ok (value_error ''invalid bundle digest'')) (\<lambda>_.
     rbind (ensure (get_field v ''reproducible'' = Some (JBool True) \<and> get_field v ''host_contract'' = Some (JStr ''passed''))
         (value_error ''candidate did not pass all gates'')) (\<lambda>_.
     rbind (rbind (getitem v ''registry_status'') (\<lambda>x. in_set x [''new'', ''already-registered''])) (\<lambda>ok.
     rbind (ensure ok (value_error ''invalid registry status'')) (\<lambda>_.
     rbind (rbind (getitem v ''planned_channel'') (\<lambda>x. in_set x [''stable'', ''beta'', ''nightly''])) (\<lambda>ok.
     rbind (ensure ok (value_error ''invalid planned channel'')) (\<lambda>_.
     rbind (ensure (case get_field v ''requires'' of None \<Rightarrow> False | Some r \<Rightarrow> is_obj r)
         (value_error ''candidate requires must be an object'')) (\<lambda>_.
     rbind (case get_field v ''build_environment'' of
         None \<Rightarrow> Inr () | Some environment \<Rightarrow> validate_environment env_policy environment bc) (\<lambda>_.
     rbind (rbind (getitem v ''artifact_candidate'') (full_match ARTIFACT_CANDIDATE_RE)) (\<lambda>ok.
     rbind (ensure ok (value_error ''candidate artifact is not a GitHub Actions run artifact'')) (\<lambda>_.
     Inr v))))))))))))))))))))))))))))"

definition candidate_release :: "json \<Rightarrow> exn + json" where
  "candidate_release v =
     rbind (getitem v ''version'') (\<lambda>version.
     rbind (getitem v ''planned_channel'') (\<lambda>channel.
     rbind (str_item v ''module_id'') (\<lambda>mid.
     rbind (str_item v ''version'') (\<lambda>ver.
     rbind (canonical_public_artifact_url mid ver) (\<lambda>url.
     rbind (getitem v ''bundle_sha256'') (\<lambda>sha.
     rbind (getitem v ''bundle_format_version'') (\<lambda>bfv.
     rbind (getitem v ''source_commit'') (\<lambda>commit.
     rbind (getitem v ''source_tag'') (\<lambda>tag.
     rbind (getitem v ''requires'') (\<lambda>requires.
     Inr (JObj [(''version'', version), (''channel'', channel),
       (''artifact'', JObj [(''url'', JStr url), (''sha256'', sha)]),
       (''bundle_format_version'', bfv), (''source_commit'', commit), (''source_tag'', tag),
       (''requires'', requires)])))))))))))"

section \<open>The store of candidates\<close>

text \<open>The candidate files, by module and version; a file is the value it parses to.\<close>

type_synonym candidate_files = "string \<times> string \<Rightarrow> json option"

definition COMPARABLE :: "string list" where
  "COMPARABLE = filter (\<lambda>f. f \<notin> {''artifact_candidate'', ''builder_commit''}) REQUIRED"

definition same_provenance :: "json \<Rightarrow> json \<Rightarrow> bool" where
  "same_provenance existing v = list_all (\<lambda>f. py_eq (get_or existing f JNull) (get_or v f JNull)) COMPARABLE"

definition store_candidate :: "json option \<Rightarrow> json \<Rightarrow> json \<Rightarrow> (candidate_files, (string \<times> string) \<times> bool) op" where
  "store_candidate config env_policy source =
     ebind (elift (validate_candidate config env_policy source)) (\<lambda>v.
     ebind (elift (str_item v ''module_id'')) (\<lambda>mid.
     ebind (elift (str_item v ''version'')) (\<lambda>ver.
     ebind (eget (\<lambda>files. files (mid, ver))) (\<lambda>existing.
     case existing of
       Some e \<Rightarrow>
         ebind (eensure (is_obj e) (Raise AttributeError (Msg ''get''))) (\<lambda>_.
         ebind (eensure (same_provenance e v)
             (value_error ''candidate version already exists with different provenance'')) (\<lambda>_.
         eret ((mid, ver), False)))
     | None \<Rightarrow>
         ebind (emodify (\<lambda>files. files((mid, ver) \<mapsto> v))) (\<lambda>_.
         eret ((mid, ver), True))))))"

section \<open>Promotion into the static registry\<close>

text \<open>\<open>reviewed_candidate\<close>: \<open>fetch\<close> is the outcome of \<open>git fetch\<close>, \<open>show\<close> that of \<open>git show\<close> on a path of
  the reviewed main branch (\<open>None\<close> when it fails, else the syntax tree of the text).\<close>

definition reviewed_candidate ::
    "json option \<Rightarrow> json \<Rightarrow> exn + unit \<Rightarrow> (string \<Rightarrow> ptree option option) \<Rightarrow> string \<Rightarrow> string \<Rightarrow> exn + json" where
  "reviewed_candidate config env_policy fetch show module_id version =
     rbind (ensure (fullmatch MODULE_ID_RE module_id \<and> fullmatch SEMVER_RE version) (value_error ''invalid module/version'')) (\<lambda>_.
     rbind fetch (\<lambda>_.
     rbind (of_option (value_error ''candidate is missing from reviewed main'')
         (show (''candidates/'' @ module_id @ ''/'' @ version @ ''/provenance.json''))) (\<lambda>out.
     rbind (of_option (value_error ''invalid JSON'') out) (\<lambda>t.
     rbind (validate_candidate config env_policy (json_loads_plain t)) (\<lambda>v.
     rbind (ensure (get_field v ''module_id'' = Some (JStr module_id) \<and> get_field v ''version'' = Some (JStr version))
         (value_error ''candidate path/identity mismatch'')) (\<lambda>_.
     Inr v))))))"

text \<open>The syntax tree of \<open>canonical_json(value)\<close>: keys sorted at every level.\<close>

fun sort_keys :: "json \<Rightarrow> json" where
  "sort_keys (JList xs) = JList (map sort_keys xs)"
| "sort_keys (JObj d) = JObj (py_sorted fst (map (\<lambda>(k, v). (k, sort_keys v)) d))"
| "sort_keys v = v"

definition rendered :: "json \<Rightarrow> ptree" where
  "rendered v = to_ptree (sort_keys v)"

record repo =
  r_tree :: registry_source
  r_dirs :: dirs

definition append_version :: "json \<Rightarrow> json list \<Rightarrow> json \<Rightarrow> json" where
  "append_version md versions release = set_field ''versions'' (JList (versions @ [release])) md"

definition write_module :: "string \<Rightarrow> json \<Rightarrow> repo \<Rightarrow> repo" where
  "write_module mid md s =
     s\<lparr>r_tree := (r_tree s)\<lparr>src_modules := dict_set (mid @ ''.json'') (Some (rendered md)) (src_modules (r_tree s))\<rparr>\<rparr>"

definition in_dirs :: "(dirs, 'a) op \<Rightarrow> (repo, 'a) op" where
  "in_dirs m s = (case m (r_dirs s) of (r, d) \<Rightarrow> (r, s\<lparr>r_dirs := d\<rparr>))"

definition blocked_if_404 :: "exn \<Rightarrow> exn" where
  "blocked_if_404 e =
     (case e of
        Raise ArtifactVerificationError (Msg m) \<Rightarrow>
          if py_in ''HTTP 404'' m then Raise PromotionBlocked (Msg ''Permanent artifact unavailable'') else e
      | _ \<Rightarrow> e)"

text \<open>The checks of \<open>promote\<close> on a release that is new, up to the first write.\<close>

definition new_release_plan ::
    "(string \<Rightarrow> json \<Rightarrow> bool) \<Rightarrow> (release_candidate \<Rightarrow> exn + string \<times> string) \<Rightarrow> json \<Rightarrow> string \<Rightarrow> string \<Rightarrow>
      json list \<Rightarrow> json \<Rightarrow> json \<Rightarrow> string \<Rightarrow> exn + json" where
  "new_release_plan sch downloader v module_id version modules md release url =
     rbind (list_item md ''versions'') (\<lambda>versions.
     let md' = append_version md versions release;
         updated = map (\<lambda>m. if m = md then md' else m) modules in
     rbind (validate_module sch md' None) (\<lambda>_.
     rbind (validate_immutability updated modules) (\<lambda>_.
     rbind (str_item v ''planned_channel'') (\<lambda>channel.
     rbind (str_item v ''bundle_sha256'') (\<lambda>sha.
     rbind (rcatch (downloader \<lparr>rc_module_id = module_id, rc_version = version, rc_channel = channel,
               artifact_url = url, expected_sha256 = sha, rc_classification = ''first-party''\<rparr>)
         (\<lambda>e. Inl (blocked_if_404 e))) (\<lambda>(digest, data).
     rbind (ensure (digest = sha) (value_error ''permanent artifact digest mismatch; promotion blocked'')) (\<lambda>_.
     Inr md')))))))"

text \<open>All the checks: \<open>None\<close> when the release is already there, else the module with the release appended.\<close>

definition promotion_plan ::
    "bool \<Rightarrow> json option \<Rightarrow> json \<Rightarrow> (string \<Rightarrow> json \<Rightarrow> bool) \<Rightarrow> (release_candidate \<Rightarrow> exn + string \<times> string) \<Rightarrow>
      json \<Rightarrow> registry_source \<Rightarrow> exn + (string \<times> json) option" where
  "promotion_plan cutover config env_policy sch downloader candidate tree =
     rbind (ensure (\<not> cutover) (Raise PromotionBlocked (Msg ''Legacy JSON publication is disabled after DB writer cutover''))) (\<lambda>_.
     rbind (validate_candidate config env_policy candidate) (\<lambda>v.
     rbind (str_item v ''module_id'') (\<lambda>module_id.
     rbind (str_item v ''version'') (\<lambda>version.
     rbind (load_registry sch tree) (\<lambda>modules.
     rbind (of_option (value_error ''candidate has no matching reviewed Registry identity'') (find_module modules module_id)) (\<lambda>md.
     rbind (ensure (get_field md ''source_repository'' = get_field v ''source_repository'')
         (value_error ''candidate has no matching reviewed Registry identity'')) (\<lambda>_.
     rbind (candidate_release v) (\<lambda>release.
     rbind (rbind (getitem release ''artifact'') (\<lambda>a. str_item a ''url'')) (\<lambda>url.
     case find_release md version of
       Some previous \<Rightarrow>
         if py_eq previous release then Inr None
         else Inl (value_error ''existing Registry version conflicts with candidate'')
     | None \<Rightarrow>
         rbind (new_release_plan sch downloader v module_id version modules md release url) (\<lambda>md'.
         Inr (Some (module_id, md'))))))))))))"

definition promote ::
    "bool \<Rightarrow> json option \<Rightarrow> json \<Rightarrow> (string \<Rightarrow> json \<Rightarrow> bool) \<Rightarrow> (release_candidate \<Rightarrow> exn + string \<times> string) \<Rightarrow>
      build_paths \<Rightarrow> (nat \<Rightarrow> bool) \<Rightarrow> json \<Rightarrow> (repo, bool) op" where
  "promote cutover config env_policy sch downloader paths fault candidate =
     ebind (eget (\<lambda>s. promotion_plan cutover config env_policy sch downloader candidate (r_tree s))) (\<lambda>plan.
     ebind (elift plan) (\<lambda>change.
     case change of
       None \<Rightarrow> eret False
     | Some (module_id, md) \<Rightarrow>
         ebind (emodify (write_module module_id md)) (\<lambda>_.
         ebind (eget r_tree) (\<lambda>tree.
         ebind (in_dirs (build sch tree paths fault)) (\<lambda>_.
         eret True)))))"

section \<open>What validation establishes\<close>

lemma full_match_Inr [simp]: "full_match r v = Inr b \<longleftrightarrow> (\<exists>s. v = JStr s \<and> b = fullmatch r s)"
  by (cases v) (auto simp: full_match_def)

lemma in_set_Inr [simp]: "in_set v ss = Inr b \<longleftrightarrow> hashable v \<and> b = str_in v ss"
  by (auto simp: in_set_def)

lemma dict_lookup_Inr: "dict_lookup d v = Inr (Some p) \<longleftrightarrow> (\<exists>s. v = JStr s \<and> dict_get d s = Some p)"
  by (cases v) (auto simp: dict_lookup_def)

lemma load_policy_Inr:
  assumes "load_policy mid item = Inr p"
  shows "po_module_id p = mid" and "fullmatch FIRST_PARTY_RE (po_repository p)"
    and "po_classification p = JStr ''first-party''"
  using assms unfolding load_policy_def by (auto simp: matches_iff)

lemma load_policies_Inr:
  assumes "load_policies config = Inr (bv, ps)" and "dict_get ps mid = Some p"
  shows "po_module_id p = mid" and "fullmatch FIRST_PARTY_RE (po_repository p)" and "py_eq bv (JInt 1)"
proof -
  from assms(1) obtain ms qs where q: "rmap (\<lambda>(mid, item). rbind (load_policy mid item) (\<lambda>p. Inr (mid, p))) (obj_items ms) = Inr qs"
    and ps: "ps = dict_of qs" and bv: "py_eq bv (JInt 1)" unfolding load_policies_def by auto
  from assms(2) have "(mid, p) \<in> set qs" by (auto simp: ps dict_get_dict_of dest: map_of_SomeD)
  from rmap_Inr_set [OF q this] obtain item where "load_policy mid item = Inr p" by auto
  from load_policy_Inr [OF this] bv show "po_module_id p = mid" "fullmatch FIRST_PARTY_RE (po_repository p)" "py_eq bv (JInt 1)" by auto
qed

definition candidate_wf :: "json \<Rightarrow> string \<Rightarrow> string \<Rightarrow> bool" where
  "candidate_wf v mid ver \<longleftrightarrow>
     get_field v ''module_id'' = Some (JStr mid) \<and> get_field v ''version'' = Some (JStr ver) \<and> fullmatch SEMVER_RE ver \<and>
     get_field v ''classification'' = Some (JStr ''first-party'') \<and>
     (\<exists>repo. get_field v ''source_repository'' = Some (JStr (''https://github.com/'' @ repo)) \<and> fullmatch FIRST_PARTY_RE repo) \<and>
     get_field v ''source_tag'' = Some (JStr (''v'' @ ver)) \<and>
     (\<exists>c. get_field v ''source_commit'' = Some (JStr c) \<and> fullmatch COMMIT_RE c) \<and>
     (\<exists>h. get_field v ''bundle_sha256'' = Some (JStr h) \<and> fullmatch SHA256_RE h) \<and>
     get_field v ''reproducible'' = Some (JBool True) \<and> get_field v ''host_contract'' = Some (JStr ''passed'') \<and>
     (\<exists>c \<in> set CHANNELS. get_field v ''planned_channel'' = Some (JStr c)) \<and>
     (\<exists>r. get_field v ''requires'' = Some r \<and> is_obj r)"

lemma validate_candidate_wf:
  assumes "validate_candidate config env_policy v = Inr w"
  shows "w = v" and "\<exists>mid ver. candidate_wf v mid ver"
proof -
  from assms obtain bv ps mid policy where p: "load_policies config = Inr (bv, ps)"
    "get_field v ''module_id'' = Some mid" "dict_lookup ps mid = Inr (Some policy)"
    "get_field v ''source_repository'' = Some (JStr (source_url policy))"
    unfolding validate_candidate_def by auto
  then obtain m where m: "mid = JStr m" "dict_get ps m = Some policy" by (auto simp: dict_lookup_Inr)
  note pol = load_policies_Inr [OF p(1) m(2)]
  from assms obtain ver c h ch req where
    "w = v" "get_field v ''version'' = Some (JStr ver)" "fullmatch SEMVER_RE ver"
    "get_field v ''classification'' = Some (JStr ''first-party'')"
    "get_field v ''source_tag'' = Some (JStr (''v'' @ ver))"
    "get_field v ''source_commit'' = Some (JStr c)" "fullmatch COMMIT_RE c"
    "get_field v ''bundle_sha256'' = Some (JStr h)" "fullmatch SHA256_RE h"
    "get_field v ''reproducible'' = Some (JBool True)" "get_field v ''host_contract'' = Some (JStr ''passed'')"
    "get_field v ''planned_channel'' = Some ch" "str_in ch [''stable'', ''beta'', ''nightly'']"
    "get_field v ''requires'' = Some req" "is_obj req"
    unfolding validate_candidate_def by (auto split: option.splits)
  then show "w = v" "\<exists>mid ver. candidate_wf v mid ver"
    using p(2,4) m(1) pol(2) by (auto simp: candidate_wf_def source_url_def str_in_iff CHANNELS_def intro!: exI [of _ m] exI [of _ ver])
qed

lemma candidate_release_wf:
  assumes "candidate_wf v mid ver" and "candidate_release v = Inr r"
  shows "get_field r ''version'' = Some (JStr ver)" and "artifact_field r ''sha256'' = get_field v ''bundle_sha256''"
    and "get_field r ''source_commit'' = get_field v ''source_commit''"
    and "get_field r ''channel'' = get_field v ''planned_channel''"
    and "artifact_field r ''url'' = Some (JStr (mirror_url mid ver))"
proof -
  from assms obtain url where r: "get_field r ''version'' = Some (JStr ver)" "artifact_field r ''sha256'' = get_field v ''bundle_sha256''"
    "get_field r ''source_commit'' = get_field v ''source_commit''" "get_field r ''channel'' = get_field v ''planned_channel''"
    "artifact_field r ''url'' = Some (JStr url)" and u: "canonical_public_artifact_url mid ver = Inr url"
    unfolding candidate_wf_def candidate_release_def by (auto simp: artifact_field_def)
  have "url = mirror_url mid ver" using u
    by (auto simp: canonical_public_artifact_url_def canonical_artifact_relative_path_def validate_module_id_def
        validate_semver_def mirror_url_def mirror_path_def as_posix_def)
  with r show "get_field r ''version'' = Some (JStr ver)" "artifact_field r ''sha256'' = get_field v ''bundle_sha256''"
    "get_field r ''source_commit'' = get_field v ''source_commit''" "get_field r ''channel'' = get_field v ''planned_channel''"
    "artifact_field r ''url'' = Some (JStr (mirror_url mid ver))" by auto
qed

section \<open>Properties\<close>

text \<open>Storing a candidate never changes a stored one: the first provenance of a module version
  stays, and a later one is accepted, without effect, only if it agrees with it in every field but
  the run artifact and the builder commit.\<close>

theorem store_candidate_first_wins:
  assumes "store_candidate config env_policy v files = (r, files')"
  shows "(\<forall>k e. files k = Some e \<longrightarrow> files' k = Some e) \<and>
    (case r of
       Inl _ \<Rightarrow> files' = files
     | Inr (k, created) \<Rightarrow> (\<forall>k'. k' \<noteq> k \<longrightarrow> files' k' = files k') \<and>
         (\<exists>e. files' k = Some e \<and> (if created then files k = None \<and> e = v else files k = Some e \<and> same_provenance e v)))"
proof (cases "validate_candidate config env_policy v")
  case (Inl e)
  with assms show ?thesis by (auto simp: store_candidate_def ebind_def elift_def)
next
  case (Inr w)
  with validate_candidate_wf [OF Inr] obtain mid ver where w: "w = v"
    "get_field v ''module_id'' = Some (JStr mid)" "get_field v ''version'' = Some (JStr ver)"
    by (auto simp: candidate_wf_def)
  then have items: "str_item v ''module_id'' = Inr mid" "str_item v ''version'' = Inr ver" by simp_all
  show ?thesis
  proof (cases "files (mid, ver)")
    case None
    with assms Inr w items show ?thesis
      by (auto simp: store_candidate_def ebind_def elift_def eget_def emodify_def eret_def)
  next
    case (Some e)
    with assms Inr w items show ?thesis
      by (auto simp: store_candidate_def ebind_def elift_def eget_def eensure_def eret_def split: if_splits)
  qed
qed

lemma promotion_plan_Some:
  assumes "promotion_plan cutover config env_policy sch downloader candidate tree = Inr (Some (mid, md'))"
  obtains modules ver md versions release sha channel data where
    "\<not> cutover" "validate_candidate config env_policy candidate = Inr candidate" "candidate_wf candidate mid ver"
    "load_registry sch tree = Inr modules" "find_module modules mid = Some md" "find_release md ver = None"
    "get_field md ''versions'' = Some (JList versions)" "candidate_release candidate = Inr release"
    "md' = append_version md versions release" "validate_module sch md' None = Inr ()"
    "validate_immutability (map (\<lambda>m. if m = md then md' else m) modules) modules = Inr ()"
    "get_field candidate ''bundle_sha256'' = Some (JStr sha)"
    "downloader \<lparr>rc_module_id = mid, rc_version = ver, rc_channel = channel, artifact_url = mirror_url mid ver,
       expected_sha256 = sha, rc_classification = ''first-party''\<rparr> = Inr (sha, data)"
proof -
  from assms obtain v where nc: "\<not> cutover" and v: "validate_candidate config env_policy candidate = Inr v"
    unfolding promotion_plan_def by auto
  have vc: "v = candidate" and "\<exists>mid ver. candidate_wf candidate mid ver" using validate_candidate_wf [OF v] by auto
  then obtain m ver where wf: "candidate_wf candidate m ver" by blast
  then have f: "get_field candidate ''module_id'' = Some (JStr m)" "get_field candidate ''version'' = Some (JStr ver)"
    by (auto simp: candidate_wf_def)
  from assms v vc f obtain modules md release a url where
    p: "load_registry sch tree = Inr modules" "find_module modules m = Some md"
    "candidate_release candidate = Inr release" "get_field release ''artifact'' = Some a"
    "get_field a ''url'' = Some (JStr url)"
    and c: "(case find_release md ver of
       Some previous \<Rightarrow>
         if py_eq previous release then Inr None
         else Inl (value_error ''existing Registry version conflicts with candidate'')
     | None \<Rightarrow>
         rbind (new_release_plan sch downloader candidate m ver modules md release url) (\<lambda>md'.
         Inr (Some (m, md')))) = Inr (Some (mid, md'))"
    unfolding promotion_plan_def by auto
  from c have n: "find_release md ver = None" "mid = m"
    "new_release_plan sch downloader candidate m ver modules md release url = Inr md'"
    by (auto split: option.splits if_splits)
  from n(3) obtain versions channel sha data where
    q: "get_field md ''versions'' = Some (JList versions)" "md' = append_version md versions release"
    "validate_module sch md' None = Inr ()"
    "validate_immutability (map (\<lambda>m. if m = md then md' else m) modules) modules = Inr ()"
    "get_field candidate ''bundle_sha256'' = Some (JStr sha)"
    and d: "rcatch (downloader \<lparr>rc_module_id = m, rc_version = ver, rc_channel = channel,
      artifact_url = url, expected_sha256 = sha, rc_classification = ''first-party''\<rparr>) (\<lambda>e. Inl (blocked_if_404 e)) = Inr (sha, data)"
    unfolding new_release_plan_def Let_def by auto
  have dl: "downloader \<lparr>rc_module_id = m, rc_version = ver, rc_channel = channel,
      artifact_url = url, expected_sha256 = sha, rc_classification = ''first-party''\<rparr> = Inr (sha, data)"
    using d by (auto simp: rcatch_def split: sum.splits)
  moreover have "url = mirror_url m ver"
    using candidate_release_wf(5) [OF wf p(3)] p(4,5) by (simp add: artifact_field_def)
  ultimately show thesis using that [OF nc, of ver modules md versions release sha channel data] v vc wf p n q
    by simp
qed


section \<open>A concrete promotion\<close>

definition sample_config :: json where
  "sample_config = JObj [(''builder_version'', JInt 1), (''modules'', JObj [(''maps'', JObj
     [(''repository'', JStr ''oklabflensburg/maps''), (''classification'', JStr ''first-party''), (''publisher'', JStr ''oklab''),
      (''license'', JStr ''MIT''), (''host_contract'', JObj [(''services'', JList [])])])])]"

definition sample_provenance :: json where
  "sample_provenance = JObj
     [(''schema_version'', JInt 1), (''module_id'', JStr ''maps''), (''version'', JStr ''2.0.0''),
      (''classification'', JStr ''first-party''), (''source_repository'', JStr ''https://github.com/oklabflensburg/maps''),
      (''source_tag'', JStr ''v2.0.0''), (''source_commit'', JStr (replicate 40 CHR ''c'')), (''builder_version'', JInt 1),
      (''builder_commit'', JStr (replicate 40 CHR ''d'')), (''bundle_format_version'', JInt 1),
      (''bundle_sha256'', JStr (replicate 64 CHR ''e'')), (''artifact_candidate'', JStr ''github-actions://run/7/maps-2.0.0''),
      (''reproducible'', JBool True), (''host_contract'', JStr ''passed''), (''planned_channel'', JStr ''beta''),
      (''requires'', JObj [(''host'', JStr ''>=1.0.0''), (''sdk'', JStr ''>=1.0.0''), (''modules'', JObj [])]),
      (''registry_status'', JStr ''new'')]"

definition sample_promotion :: "(repo, bool) op" where
  "sample_promotion = promote False (Some sample_config) (JObj []) (\<lambda>_ _. True)
     (\<lambda>c. Inr (replicate 64 CHR ''e'', ''E'')) sample_paths (\<lambda>_. False) sample_provenance"

definition sample_repo :: repo where
  "sample_repo = \<lparr>r_tree = sample_tree sample_v1, r_dirs = \<lparr>d_output = None, d_backup = None, d_staging = None\<rparr>\<rparr>"

theorem store_candidate_first_wins_witness:
  "\<exists>files'. store_candidate (Some sample_config) (JObj []) sample_provenance Map.empty = (Inr ((''maps'', ''2.0.0''), True), files') \<and>
     files' (''maps'', ''2.0.0'') = Some sample_provenance"
proof -
  have "fst (store_candidate (Some sample_config) (JObj []) sample_provenance Map.empty) = Inr ((''maps'', ''2.0.0''), True)"
    by code_simp
  then obtain files' where f: "store_candidate (Some sample_config) (JObj []) sample_provenance Map.empty =
      (Inr ((''maps'', ''2.0.0''), True), files')" by (metis prod.collapse)
  from store_candidate_first_wins [OF f] f show ?thesis by simp
qed


end
