(* ===== verification/Json_Access.thy ===== *)
theory Json_Access
  imports Registry
begin

text \<open>Expressions over parsed JSON values that may raise, shared by the evidence and the read models.\<close>

text \<open>\<open>v.get(k, d)\<close>, \<open>a and b\<close> with a second operand evaluated when the first is true, and \<open>or\<close>.\<close>

definition py_get :: "json \<Rightarrow> string \<Rightarrow> json \<Rightarrow> exn + json" where
  "py_get v k d = (if is_obj v then Inr (get_or v k d) else Inl (Raise AttributeError (Msg ''get'')))"

definition and_then :: "exn + bool \<Rightarrow> exn + bool \<Rightarrow> exn + bool" where
  "and_then p q = rbind p (\<lambda>b. if b then q else Inr False)"

definition or_else :: "exn + bool \<Rightarrow> exn + bool \<Rightarrow> exn + bool" where
  "or_else p q = rbind p (\<lambda>b. if b then Inr True else q)"

definition item_eq :: "exn + json \<Rightarrow> json \<Rightarrow> exn + bool" where
  "item_eq m v = rbind m (\<lambda>w. Inr (py_eq w v))"

definition getitem2 :: "json \<Rightarrow> string \<Rightarrow> string \<Rightarrow> exn + json" where
  "getitem2 v a b = rbind (getitem v a) (\<lambda>w. getitem w b)"

definition getitem3 :: "json \<Rightarrow> string \<Rightarrow> string \<Rightarrow> string \<Rightarrow> exn + json" where
  "getitem3 v a b c = rbind (getitem2 v a b) (\<lambda>w. getitem w c)"

primrec first_true :: "('a \<Rightarrow> exn + bool) \<Rightarrow> 'a list \<Rightarrow> exn + bool" where
  "first_true f [] = Inr False"
| "first_true f (x # xs) = or_else (f x) (first_true f xs)"

text \<open>\<open>sorted(xs, key=f, reverse=True)\<close> with a key that may raise.\<close>

definition sorted_by_reverse :: "('a \<Rightarrow> exn + 'k::linorder) \<Rightarrow> 'a list \<Rightarrow> exn + 'a list" where
  "sorted_by_reverse f xs =
     rbind (rmap (\<lambda>x. rbind (f x) (\<lambda>k. Inr (k, x))) xs) (\<lambda>ps. Inr (map snd (py_sorted_reverse fst ps)))"

text \<open>\<open>sorted(set(xs))\<close> of strings.\<close>

definition sorted_set :: "string list \<Rightarrow> string list" where
  "sorted_set xs = sort (remdups xs)"

text \<open>\<open>xs[offset : offset + limit]\<close> with non-negative bounds.\<close>

definition slice :: "nat \<Rightarrow> nat \<Rightarrow> 'a list \<Rightarrow> 'a list" where
  "slice offset limit xs = take limit (drop offset xs)"

end
