(* ===== verification/Auth_Base.thy ===== *)
theory Auth_Base
  imports Effects Url Json_Access
begin

text \<open>
  The ground of the web application's authentication (\<open>web/backend/app/auth\<close>): the tables
  (\<open>models/*.py\<close>), the settings the services read, the request and the response, and the world a
  request handler runs in.

  The world holds the committed database and the working copy of the current SQLAlchemy session
  (\<open>database.get_session\<close>): statements change the working copy, \<open>commit\<close> makes it the committed
  one if the schema's constraints hold and raises \<open>IntegrityError\<close> otherwise, and what a request
  has not committed is lost when it ends. Requests run one after the other (the code serialises
  writers of one row with \<open>SELECT ... FOR UPDATE\<close>); the one race the code handles itself, a rival
  sign-up, is an argument of \<open>signup\<close>.

  Code that is not part of the repository is given by the functions of \<open>auth_env\<close>: the wall and
  the monotonic clock, the random generators (each reading or draw is numbered), SHA-256, the
  password hash (pwdlib), PyJWT, pyotp, Fernet, the keyed hashes (recovery codes, OAuth state),
  Redis, the \<open>ipaddress\<close> module, Unicode case folding, the JSON parser, py\_webauthn, the HTTP
  clients of the OAuth providers (their calls are numbered by the clock), e-mail validation and mail
  delivery. Times are integers in microseconds.
\<close>

section \<open>UUIDs\<close>

text \<open>A UUID is its 32 lowercase hexadecimal digits; \<open>uuid_str\<close> is \<open>str(u)\<close>.\<close>

type_synonym uuid = string

definition is_hex_lower :: "char \<Rightarrow> bool" where
  "is_hex_lower c = (is_digit c \<or> c \<in> set ''abcdef'')"

definition is_uuid :: "string \<Rightarrow> bool" where
  "is_uuid u = (length u = 32 \<and> list_all is_hex_lower u)"

definition uuid_str :: "uuid \<Rightarrow> string" where
  "uuid_str u = take 8 u @ ''-'' @ take 4 (drop 8 u) @ ''-'' @ take 4 (drop 12 u) @ ''-'' @ take 4 (drop 16 u) @ ''-'' @ drop 20 u"

text \<open>
  \<open>int(text, 16)\<close> on the 32 characters that are left of a UUID text: an optional sign, an optional
  \<open>0x\<close>, digits with single underscores between them. The result is again given by its digits.
\<close>

fun hex_groups :: "bool \<Rightarrow> string \<Rightarrow> string option" where
  "hex_groups after_digit [] = (if after_digit then Some [] else None)"
| "hex_groups after_digit (c # cs) =
     (if c = CHR ''_'' then (if after_digit then hex_groups False cs else None)
      else if is_hex c then map_option (\<lambda>r. char_lower c # r) (hex_groups True cs)
      else None)"

definition int_base_16 :: "string \<Rightarrow> (bool \<times> string) option" where
  "int_base_16 s =
     (let s = py_strip s; neg = py_startswith s ''-'';
          s = (if s \<noteq> [] \<and> hd s \<in> {CHR ''-'', CHR ''+''} then tl s else s)
      in map_option (\<lambda>d. (neg, d))
           (if py_startswith (py_lower s) ''0x'' then hex_groups True (drop 2 s) else hex_groups False s))"

definition pad_hex :: "string \<Rightarrow> string" where
  "pad_hex d = replicate (32 - length d) CHR ''0'' @ d"

definition strip_braces :: "string \<Rightarrow> string" where
  "strip_braces s = rev (dropWhile (\<lambda>c. c \<in> set ''{}'') (rev (dropWhile (\<lambda>c. c \<in> set ''{}'') s)))"

fun remove_sub :: "nat \<Rightarrow> string \<Rightarrow> string \<Rightarrow> string" where
  "remove_sub 0 sub s = s"
| "remove_sub (Suc n) sub [] = []"
| "remove_sub (Suc n) sub (c # cs) =
     (if py_startswith (c # cs) sub then remove_sub n sub (drop (length sub) (c # cs)) else c # remove_sub n sub cs)"

lemma remove_sub_code [code]:
  "remove_sub n sub s = (if n = 0 then s else case s of [] \<Rightarrow> [] | c # cs \<Rightarrow>
     if py_startswith s sub then remove_sub (n - 1) sub (drop (length sub) s) else c # remove_sub (n - 1) sub cs)"
  by (cases n; cases s) simp_all

text \<open>\<open>uuid.UUID(text)\<close>, \<open>None\<close> where it raises \<open>ValueError\<close>.\<close>

definition uuid_parse :: "string \<Rightarrow> uuid option" where
  "uuid_parse s =
     (let drop_all = (\<lambda>sub s. remove_sub (length s) sub s);
          hex = filter (\<lambda>c. c \<noteq> CHR ''-'') (strip_braces (drop_all ''uuid:'' (drop_all ''urn:'' s)))
      in if length hex \<noteq> 32 then None
         else case int_base_16 hex of
             None \<Rightarrow> None
           | Some (neg, d) \<Rightarrow> if neg \<and> list_ex (\<lambda>c. c \<noteq> CHR ''0'') d then None else Some (pad_hex d))"

section \<open>Tables\<close>

datatype deactivation = SELF_DEACTIVATED | ADMIN_DEACTIVATED

record user =
  u_id :: uuid
  u_email :: string
  u_password_hash :: "string option"
  u_first_name :: string
  u_last_name :: string
  u_display_name :: "string option"
  u_avatar_url :: "string option"
  u_is_active :: bool
  u_deactivated_at :: "int option"
  u_deactivation_reason :: "deactivation option"
  u_is_verified :: bool
  u_email_pending :: bool
  u_is_superuser :: bool
  u_roles :: "string list"
  u_updated_at :: "int option"
  u_last_login_at :: "int option"

record user_session =
  us_id :: uuid
  us_user_id :: uuid
  us_token_hash :: string
  us_jti :: string
  us_family_id :: uuid
  us_expires_at :: int
  us_last_used_at :: "int option"
  us_revoked_at :: "int option"
  us_rotated_at :: "int option"
  us_replaced_by_jti :: "string option"
  us_revocation_reason :: "string option"
  us_ip_address :: "string option"
  us_user_agent :: "string option"

record verification_token =
  vt_id :: uuid
  vt_user_id :: uuid
  vt_token_hash :: string
  vt_expires_at :: int
  vt_used_at :: "int option"

record password_reset_token =
  prt_id :: uuid
  prt_user_id :: uuid
  prt_token_hash :: string
  prt_expires_at :: int
  prt_used_at :: "int option"
  prt_invalidated_at :: "int option"
  prt_requested_ip :: "string option"

record audit_log =
  al_actor_user_id :: "uuid option"
  al_target_user_id :: "uuid option"
  al_action :: string
  al_resource_type :: "string option"
  al_resource_id :: "uuid option"
  al_event_metadata :: "json option"

record mfa_method =
  mm_id :: uuid
  mm_user_id :: uuid
  mm_type :: string
  mm_secret_encrypted :: string
  mm_is_enabled :: bool
  mm_verified_at :: "int option"
  mm_setup_expires_at :: "int option"
  mm_last_used_at :: "int option"
  mm_last_used_counter :: "int option"

record mfa_recovery_code =
  mrc_id :: uuid
  mrc_user_id :: uuid
  mrc_code_hash :: string
  mrc_used_at :: "int option"

record mfa_challenge =
  mc_id :: uuid
  mc_user_id :: uuid
  mc_token_hash :: string
  mc_purpose :: string
  mc_primary_method :: string
  mc_redirect_path :: "string option"
  mc_expires_at :: int
  mc_used_at :: "int option"
  mc_invalidated_at :: "int option"
  mc_attempt_count :: int
  mc_ip_address :: "string option"
  mc_user_agent :: "string option"

record webauthn_credential =
  wc_id :: uuid
  wc_user_id :: uuid
  wc_credential_id :: string
  wc_public_key :: string
  wc_sign_count :: int
  wc_name :: string
  wc_aaguid :: "uuid option"
  wc_transports :: "json list option"
  wc_device_type :: "string option"
  wc_backed_up :: "bool option"
  wc_last_used_at :: "int option"

record webauthn_challenge =
  wac_id :: uuid
  wac_user_id :: "uuid option"
  wac_mfa_challenge_id :: "uuid option"
  wac_token_hash :: string
  wac_challenge :: string
  wac_purpose :: string
  wac_expires_at :: int
  wac_used_at :: "int option"
  wac_invalidated_at :: "int option"
  wac_attempt_count :: int
  wac_ip_address :: "string option"
  wac_user_agent :: "string option"

record oauth_account =
  oa_id :: uuid
  oa_user_id :: uuid
  oa_provider :: string
  oa_provider_subject :: string
  oa_provider_email :: "string option"
  oa_provider_username :: "string option"
  oa_provider_avatar_url :: "string option"
  oa_provider_profile_url :: "string option"
  oa_last_login_at :: "int option"

record db =
  users :: "user list"
  sessions :: "user_session list"
  verification_tokens :: "verification_token list"
  reset_tokens :: "password_reset_token list"
  audit_logs :: "audit_log list"
  mfa_methods :: "mfa_method list"
  recovery_codes :: "mfa_recovery_code list"
  mfa_challenges :: "mfa_challenge list"
  credentials :: "webauthn_credential list"
  webauthn_challenges :: "webauthn_challenge list"
  oauth_accounts :: "oauth_account list"

text \<open>
  The constraints of the schema: primary keys, unique indexes (\<open>uq_users_email_lower\<close> is on the
  lowered address), foreign keys, and the CHECK on the provider of an OAuth account.
\<close>

definition user_ids :: "db \<Rightarrow> uuid list" where
  "user_ids d = map u_id (users d)"

definition unique_ok :: "db \<Rightarrow> bool" where
  "unique_ok d =
     (distinct (user_ids d) \<and> distinct (map (\<lambda>u. py_lower (u_email u)) (users d)) \<and>
      distinct (map us_id (sessions d)) \<and> distinct (map us_jti (sessions d)) \<and>
      distinct (map vt_id (verification_tokens d)) \<and> distinct (map prt_id (reset_tokens d)) \<and>
      distinct (map mm_id (mfa_methods d)) \<and>
      distinct (map mm_user_id (filter (\<lambda>m. mm_type m = ''totp'') (mfa_methods d))) \<and>
      distinct (map mrc_id (recovery_codes d)) \<and> distinct (map mrc_code_hash (recovery_codes d)) \<and>
      distinct (map mc_id (mfa_challenges d)) \<and> distinct (map mc_token_hash (mfa_challenges d)) \<and>
      distinct (map wc_id (credentials d)) \<and> distinct (map wc_credential_id (credentials d)) \<and>
      distinct (map wac_id (webauthn_challenges d)) \<and> distinct (map wac_token_hash (webauthn_challenges d)) \<and>
      distinct (map oa_id (oauth_accounts d)) \<and>
      distinct (map (\<lambda>a. (oa_user_id a, oa_provider a)) (oauth_accounts d)) \<and>
      distinct (map (\<lambda>a. (oa_provider a, oa_provider_subject a)) (oauth_accounts d)))"

text \<open>A nullable foreign key.\<close>

definition refers :: "uuid list \<Rightarrow> uuid option \<Rightarrow> bool" where
  "refers keys r = (r = None \<or> the r \<in> set keys)"

definition references_ok :: "db \<Rightarrow> bool" where
  "references_ok d =
     (let ids = user_ids d in
      list_all (\<lambda>r. us_user_id r \<in> set ids) (sessions d) \<and>
      list_all (\<lambda>r. vt_user_id r \<in> set ids) (verification_tokens d) \<and>
      list_all (\<lambda>r. prt_user_id r \<in> set ids) (reset_tokens d) \<and>
      list_all (\<lambda>r. mm_user_id r \<in> set ids) (mfa_methods d) \<and>
      list_all (\<lambda>r. mrc_user_id r \<in> set ids) (recovery_codes d) \<and>
      list_all (\<lambda>r. mc_user_id r \<in> set ids) (mfa_challenges d) \<and>
      list_all (\<lambda>r. wc_user_id r \<in> set ids) (credentials d) \<and>
      list_all (\<lambda>r. oa_user_id r \<in> set ids) (oauth_accounts d) \<and>
      list_all (\<lambda>r. refers ids (wac_user_id r)) (webauthn_challenges d) \<and>
      list_all (\<lambda>r. refers (map mc_id (mfa_challenges d)) (wac_mfa_challenge_id r)) (webauthn_challenges d))"

definition checks_ok :: "db \<Rightarrow> bool" where
  "checks_ok d = list_all (\<lambda>r. oa_provider r \<in> {''github'', ''google''}) (oauth_accounts d)"

definition db_ok :: "db \<Rightarrow> bool" where
  "db_ok d = (unique_ok d \<and> references_ok d \<and> checks_ok d)"

section \<open>Settings, requests, the environment\<close>

record settings =
  cors_origins :: string
  app_environment :: string
  app_base_url :: string
  jwt_issuer :: string
  jwt_audience :: string
  access_token_expire_minutes :: int
  refresh_token_expire_days :: int
  refresh_token_reuse_grace_seconds :: int
  account_deletion_recent_auth_seconds :: int
  refresh_rate_limit_attempts :: int
  refresh_rate_limit_window_seconds :: int
  refresh_require_origin :: bool
  email_verification_expire_hours :: int
  password_reset_expire_minutes :: int
  auth_access_cookie_name :: string
  auth_refresh_cookie_name :: string
  auth_csrf_cookie_name :: string
  auth_mfa_cookie_name :: string
  auth_cookie_path :: string
  auth_rate_limit_attempts :: int
  auth_rate_limit_window_seconds :: int
  auth_rate_limit_backend :: string
  rate_limit_fail_closed :: bool
  rate_limit_memory_max_keys :: nat
  mfa_challenge_expire_seconds :: int
  mfa_max_attempts :: int
  mfa_totp_valid_window :: int
  mfa_recovery_code_count :: nat
  mfa_setup_expire_seconds :: int
  mfa_encryption_key :: "string option"
  redis_enabled :: bool
  cache_prefix :: string
  trusted_proxies :: string
  reauth_max_age_seconds :: int
  api_base_url :: string
  github_client_id :: "string option"
  github_client_secret :: "string option"
  google_client_id :: "string option"
  google_client_secret :: "string option"
  oauth_redirect_base_url :: "string option"
  webauthn_rp_id :: string
  webauthn_rp_name :: string
  webauthn_origin :: string
  webauthn_challenge_expire_seconds :: int
  webauthn_timeout_ms :: int

definition production :: "settings \<Rightarrow> bool" where
  "production c = (py_lower (app_environment c) = ''production'')"

text \<open>\<open>s.rstrip('/')\<close>\<close>

definition rstrip_slash :: "string \<Rightarrow> string" where
  "rstrip_slash s = rev (dropWhile (\<lambda>c. c = CHR ''/'') (rev s))"

definition cors_origin_list :: "settings \<Rightarrow> string list" where
  "cors_origin_list c =
     map (\<lambda>v. rstrip_slash (py_strip v)) (filter (\<lambda>v. py_strip v \<noteq> []) (py_split CHR '','' (cors_origins c)))"

definition truthy :: "string option \<Rightarrow> bool" where
  "truthy v = (v \<noteq> None \<and> v \<noteq> Some [])"

definition configured_oauth_providers :: "settings \<Rightarrow> string list" where
  "configured_oauth_providers c =
     (if truthy (github_client_id c) \<and> truthy (github_client_secret c) then [''github''] else []) @
     (if truthy (google_client_id c) \<and> truthy (google_client_secret c) then [''google''] else [])"

record request =
  rq_method :: string
  rq_cookies :: "(string, string) dict"
  rq_headers :: "(string, string) dict"
  rq_client :: "string option"

text \<open>A cookie of the response: name, value (\<open>None\<close> deletes it), \<open>httponly\<close>, path, maximal age.\<close>

record cookie =
  ck_name :: string
  ck_value :: "string option"
  ck_httponly :: bool
  ck_path :: string
  ck_max_age :: int

datatype mail =
    Verification_email string string
  | Password_reset_email string string
  | Password_changed_email string
  | Mfa_security_email string string

text \<open>
  What the WebAuthn library takes and returns: the descriptor of a known credential, the arguments
  of the two option generators, and the results of the two verifications.
\<close>

record credential_descriptor =
  cdr_id :: string
  cdr_transports :: "json list option"

record registration_args =
  ra_rp_id :: string
  ra_rp_name :: string
  ra_user_id :: string
  ra_user_name :: string
  ra_user_display_name :: string
  ra_challenge :: string
  ra_timeout :: int
  ra_exclude_credentials :: "credential_descriptor list"

record authentication_args =
  aa_rp_id :: string
  aa_challenge :: string
  aa_timeout :: int
  aa_allow_credentials :: "credential_descriptor list option"

record verified_registration =
  vr_credential_id :: string
  vr_credential_public_key :: string
  vr_sign_count :: int
  vr_aaguid :: string
  vr_device_type :: string
  vr_backed_up :: bool

record verified_authentication =
  va_new_sign_count :: int
  va_device_type :: string
  va_backed_up :: bool

text \<open>A response of an HTTP client: the status and what its \<open>json()\<close> gives.\<close>

record http_response =
  hr_status :: int
  hr_json :: "exn + json"

record auth_env =
  conf :: settings
  clock :: "nat \<Rightarrow> int"
  monotonic :: "nat \<Rightarrow> int"
  uuid4 :: "nat \<Rightarrow> uuid"
  token_urlsafe :: "nat \<Rightarrow> string"
  sha256_hex :: "string \<Rightarrow> string"
  pwd_hash :: "nat \<Rightarrow> string \<Rightarrow> string"
  pwd_verify :: "string \<Rightarrow> string \<Rightarrow> bool"
  jwt_encode :: "json \<Rightarrow> string"
  jwt_decode :: "int \<Rightarrow> string \<Rightarrow> exn + json"
  mail_failure :: "nat \<Rightarrow> exn option"
  hmac_hex :: "string \<Rightarrow> string"
  str_isdigit :: "string \<Rightarrow> bool"
  totp_at :: "string \<Rightarrow> int \<Rightarrow> string"
  random_base32 :: "nat \<Rightarrow> string"
  provisioning_uri :: "string \<Rightarrow> string \<Rightarrow> string"
  choice_index :: "nat \<Rightarrow> nat"
  fernet_key_ok :: "string \<Rightarrow> bool"
  fernet_encrypt :: "string \<Rightarrow> nat \<Rightarrow> string \<Rightarrow> string"
  fernet_decrypt :: "string \<Rightarrow> string \<Rightarrow> string option"
  redis_eval :: "nat \<Rightarrow> string \<Rightarrow> int \<Rightarrow> exn + int \<times> int"
  ip_address :: "string \<Rightarrow> string option"
  ip_in_network :: "string \<Rightarrow> string \<Rightarrow> bool option"
  casefold :: "string \<Rightarrow> string"
  parse_json :: "string \<Rightarrow> exn + json"
  token_bytes :: "nat \<Rightarrow> string"
  base64url_to_bytes :: "json \<Rightarrow> exn + string"
  transport_known :: "json \<Rightarrow> bool"
  registration_options_json :: "registration_args \<Rightarrow> exn + json"
  authentication_options_json :: "authentication_args \<Rightarrow> exn + json"
  verify_registration_response :: "json \<Rightarrow> string \<Rightarrow> string \<Rightarrow> string \<Rightarrow> exn + verified_registration"
  verify_authentication_response :: "json \<Rightarrow> string \<Rightarrow> string \<Rightarrow> string \<Rightarrow> string \<Rightarrow> exn + verified_authentication"
  state_hmac_hex :: "string \<Rightarrow> string"
  oauth_nonce :: "nat \<Rightarrow> string"
  fetch_token :: "nat \<Rightarrow> string \<Rightarrow> string \<Rightarrow> exn + json"
  http_get :: "nat \<Rightarrow> string \<Rightarrow> string \<Rightarrow> exn + http_response"
  email_str :: "string \<Rightarrow> string option"

record memory_window =
  mw_count :: nat
  mw_expires_at :: int

record world =
  committed :: db
  working :: db
  ticks :: nat
  draws :: nat
  outbox :: "mail list"
  response :: "cookie list"
  memory_windows :: "(string \<times> memory_window) list"

definition microseconds :: "int \<Rightarrow> int" where
  "microseconds seconds = seconds * 1000000"

section \<open>The session and the environment's effects\<close>

definition query :: "(db \<Rightarrow> 'a) \<Rightarrow> (world, 'a) op" where
  "query f = eget (\<lambda>w. f (working w))"

definition statement :: "(db \<Rightarrow> db) \<Rightarrow> (world, unit) op" where
  "statement f = emodify (\<lambda>w. w\<lparr>working := f (working w)\<rparr>)"

definition commit :: "(world, unit) op" where
  "commit = ebind (query db_ok) (\<lambda>ok.
     if ok then emodify (\<lambda>w. w\<lparr>committed := working w\<rparr>) else eraise (Raise IntegrityError (Msg [])))"

definition rollback :: "(world, unit) op" where
  "rollback = emodify (\<lambda>w. w\<lparr>working := committed w\<rparr>)"

text \<open>\<open>UPDATE ... SET f WHERE P\<close> on the rows of a table.\<close>

definition update_where :: "('r \<Rightarrow> bool) \<Rightarrow> ('r \<Rightarrow> 'r) \<Rightarrow> 'r list \<Rightarrow> 'r list" where
  "update_where P f rows = map (\<lambda>r. if P r then f r else r) rows"

definition utcnow :: "auth_env \<Rightarrow> (world, int) op" where
  "utcnow env = ebind (eget (\<lambda>w. clock env (ticks w))) (\<lambda>t.
     ebind (emodify (\<lambda>w. w\<lparr>ticks := Suc (ticks w)\<rparr>)) (\<lambda>_. eret t))"

definition time_monotonic :: "auth_env \<Rightarrow> (world, int) op" where
  "time_monotonic env = ebind (eget (\<lambda>w. monotonic env (ticks w))) (\<lambda>t.
     ebind (emodify (\<lambda>w. w\<lparr>ticks := Suc (ticks w)\<rparr>)) (\<lambda>_. eret t))"

text \<open>A call over the network, which may answer differently each time.\<close>

definition call :: "(nat \<Rightarrow> exn + 'a) \<Rightarrow> (world, 'a) op" where
  "call f = ebind (eget (\<lambda>w. f (ticks w))) (\<lambda>r.
     ebind (emodify (\<lambda>w. w\<lparr>ticks := Suc (ticks w)\<rparr>)) (\<lambda>_. elift r))"

definition draw :: "(nat \<Rightarrow> 'a) \<Rightarrow> (world, 'a) op" where
  "draw f = ebind (eget (\<lambda>w. f (draws w))) (\<lambda>x.
     ebind (emodify (\<lambda>w. w\<lparr>draws := Suc (draws w)\<rparr>)) (\<lambda>_. eret x))"

definition deliver :: "auth_env \<Rightarrow> mail \<Rightarrow> (world, unit) op" where
  "deliver env m = ebind (eget (\<lambda>w. mail_failure env (length (outbox w)))) (\<lambda>failure.
     case failure of
       Some e \<Rightarrow> eraise e
     | None \<Rightarrow> emodify (\<lambda>w. w\<lparr>outbox := outbox w @ [m]\<rparr>))"

definition set_cookie :: "cookie \<Rightarrow> (world, unit) op" where
  "set_cookie c = emodify (\<lambda>w. w\<lparr>response := response w @ [c]\<rparr>)"

text \<open>When the request ends its session is closed: what is not committed is gone.\<close>

definition end_request :: "world \<Rightarrow> world" where
  "end_request w = w\<lparr>working := committed w, response := []\<rparr>"

section \<open>Tokens, passwords, JWTs\<close>

definition generate_token :: "auth_env \<Rightarrow> (world, string) op" where
  "generate_token env = draw (token_urlsafe env)"

definition hash_token :: "auth_env \<Rightarrow> string \<Rightarrow> string" where
  "hash_token env token = sha256_hex env token"

definition validate_password_policy :: "string \<Rightarrow> exn + unit" where
  "validate_password_policy pw = ensure (12 \<le> py_len pw) (Raise ValueError (Msg ''password too short''))"

definition hash_password :: "auth_env \<Rightarrow> string \<Rightarrow> (world, string) op" where
  "hash_password env pw = ebind (elift (validate_password_policy pw)) (\<lambda>_. draw (\<lambda>n. pwd_hash env n pw))"

definition verify_password :: "auth_env \<Rightarrow> string \<Rightarrow> string \<Rightarrow> bool" where
  "verify_password env pw hashed = pwd_verify env pw hashed"

definition http_error :: "nat \<Rightarrow> string \<Rightarrow> exn" where
  "http_error st code = Raise HTTPException (Http st code)"

definition timestamp :: "int \<Rightarrow> int" where
  "timestamp t = t div 1000000"

text \<open>\<open>payload.update(extra)\<close>\<close>

definition update_payload :: "(string \<times> json) list \<Rightarrow> (string \<times> json) list \<Rightarrow> (string \<times> json) list" where
  "update_payload payload extra = fold (\<lambda>(k, v) d. dict_set k v d) extra payload"

definition create_jwt ::
    "auth_env \<Rightarrow> string \<Rightarrow> string \<Rightarrow> int \<Rightarrow> (string \<times> json) list \<Rightarrow> (world, string \<times> string) op" where
  "create_jwt env subject token_type expires_delta extra =
     ebind (utcnow env) (\<lambda>now.
     ebind (draw (\<lambda>n. uuid_str (uuid4 env n))) (\<lambda>jti.
     let payload = [(''sub'', JStr subject), (''type'', JStr token_type), (''iat'', JInt (timestamp now)),
                    (''exp'', JInt (timestamp (now + expires_delta))), (''jti'', JStr jti),
                    (''iss'', JStr (jwt_issuer (conf env))), (''aud'', JStr (jwt_audience (conf env)))]
     in eret (jwt_encode env (JObj (update_payload payload extra)), jti)))"

text \<open>
  \<open>jwt.decode\<close> reads the clock itself; it raises \<open>ExpiredSignatureError\<close> or another
  \<open>PyJWTError\<close> (\<open>InvalidTokenError\<close>).
\<close>

definition is_PyJWTError :: "exn \<Rightarrow> bool" where
  "is_PyJWTError e = (exn_class e \<in> {ExpiredSignatureError, InvalidTokenError})"

definition decode_jwt :: "auth_env \<Rightarrow> string \<Rightarrow> string \<Rightarrow> (world, json) op" where
  "decode_jwt env token expected_type =
     ebind (utcnow env) (\<lambda>now.
     ebind (elift (jwt_decode env now token)) (\<lambda>payload.
     ebind (eensure (get_field payload ''type'' = Some (JStr expected_type)) (Raise InvalidTokenError (Msg []))) (\<lambda>_.
     eret payload)))"

section \<open>Cross-site request forgery\<close>

definition UNSAFE_METHODS :: "string list" where
  "UNSAFE_METHODS = [''POST'', ''PUT'', ''PATCH'', ''DELETE'']"

definition py_upper :: "string \<Rightarrow> string" where
  "py_upper s = map (\<lambda>c. if is_lower c then char_of (of_char c - 32 :: nat) else c) s"

definition create_csrf_token :: "auth_env \<Rightarrow> (world, string) op" where
  "create_csrf_token env = draw (token_urlsafe env)"

definition validate_csrf :: "auth_env \<Rightarrow> request \<Rightarrow> exn + unit" where
  "validate_csrf env rq =
     (if py_upper (rq_method rq) \<notin> set UNSAFE_METHODS then Inr ()
      else
        let cookie_token = dict_get (rq_cookies rq) (auth_csrf_cookie_name (conf env));
            header_token = dict_get (rq_headers rq) ''x-csrf-token''
        in if truthy cookie_token \<and> truthy header_token \<and> \<not> (is_ascii (the cookie_token) \<and> is_ascii (the header_token))
           then Inl (Raise TypeError (Msg ''comparing strings with non-ASCII characters''))
           else ensure (truthy cookie_token \<and> truthy header_token \<and> cookie_token = header_token)
             (http_error 403 ''CSRF_FAILED''))"

definition validate_refresh_origin :: "auth_env \<Rightarrow> request \<Rightarrow> exn + unit" where
  "validate_refresh_origin env rq =
     (let origin = dict_get (rq_headers rq) ''origin'';
          allowed = map rstrip_slash (cors_origin_list (conf env)) @ [rstrip_slash (app_base_url (conf env))];
          candidate = (if truthy origin then rstrip_slash (the origin) else [])
      in rbind (if candidate \<noteq> [] then Inr candidate
                else case dict_get (rq_headers rq) ''referer'' of
                    None \<Rightarrow> Inr []
                  | Some referer \<Rightarrow>
                      if referer = [] then Inr []
                      else rbind (urlsplit referer) (\<lambda>parsed.
                           Inr (rstrip_slash (scheme parsed @ ''://'' @ netloc parsed)))) (\<lambda>candidate.
         if candidate = [] \<and> \<not> refresh_require_origin (conf env) \<and> \<not> production (conf env) then Inr ()
         else ensure (candidate \<in> set allowed) (http_error 403 ''CSRF_FAILED'')))"


end
