(* ===== verification/Auth_Service.thy ===== *)
theory Auth_Service
  imports Auth_Base
begin

text \<open>
  \<open>web/backend/app/auth/services/auth_service.py\<close>: sign-up, password login, sessions with rotating
  refresh tokens, e-mail verification and password reset, one definition per function, over the
  world of \<open>Auth_Base\<close>. A user object is the row it was loaded as; assigning to its attributes
  updates the row with its key. Error texts are left out, status and code are kept.
\<close>

section \<open>Users\<close>

datatype verification_result = Verification_result string bool uuid

definition inactive_account_error :: "user \<Rightarrow> exn" where
  "inactive_account_error u =
     (if u_deactivation_reason u = Some SELF_DEACTIVATED then http_error 403 ''ACCOUNT_SELF_DEACTIVATED''
      else http_error 403 ''ACCOUNT_DISABLED'')"

definition add_audit :: "audit_log \<Rightarrow> (world, unit) op" where
  "add_audit a = statement (\<lambda>d. d\<lparr>audit_logs := audit_logs d @ [a]\<rparr>)"

definition user_audit :: "uuid \<Rightarrow> string \<Rightarrow> json option \<Rightarrow> audit_log" where
  "user_audit i action md = \<lparr>al_actor_user_id = Some i, al_target_user_id = Some i, al_action = action,
     al_resource_type = Some ''USER'', al_resource_id = Some i, al_event_metadata = md\<rparr>"

definition reason_value :: "deactivation \<Rightarrow> string" where
  "reason_value r = (case r of SELF_DEACTIVATED \<Rightarrow> ''SELF_DEACTIVATED'' | ADMIN_DEACTIVATED \<Rightarrow> ''ADMIN_DEACTIVATED'')"

definition ensure_user_can_authenticate :: "user \<Rightarrow> string \<Rightarrow> bool \<Rightarrow> (world, unit) op" where
  "ensure_user_can_authenticate u provider audit_interactive_attempt =
     (if u_is_active u then eret ()
      else
        ebind (if audit_interactive_attempt
               then ebind (add_audit (user_audit (u_id u) ''LOGIN_BLOCKED''
                      (Some (JObj [(''reason'', JStr (reason_value (case u_deactivation_reason u of
                                      None \<Rightarrow> ADMIN_DEACTIVATED | Some r \<Rightarrow> r))),
                                   (''provider'', JStr provider)])))) (\<lambda>_. commit)
               else eret ()) (\<lambda>_.
        eraise (inactive_account_error u)))"

definition get_user_by_email :: "string \<Rightarrow> (world, user option) op" where
  "get_user_by_email email = query (\<lambda>d. find (\<lambda>u. py_lower (u_email u) = py_lower email) (users d))"

definition user_row :: "uuid \<Rightarrow> (world, user option) op" where
  "user_row i = query (\<lambda>d. find (\<lambda>u. u_id u = i) (users d))"

definition get_user_by_id :: "string \<Rightarrow> (world, user option) op" where
  "get_user_by_id user_id = (case uuid_parse user_id of None \<Rightarrow> eret None | Some i \<Rightarrow> user_row i)"

definition set_user :: "uuid \<Rightarrow> (user \<Rightarrow> user) \<Rightarrow> (world, unit) op" where
  "set_user i f = statement (\<lambda>d. d\<lparr>users := update_where (\<lambda>u. u_id u = i) f (users d)\<rparr>)"

definition insert_user :: "user \<Rightarrow> db \<Rightarrow> db" where
  "insert_user u d = d\<lparr>users := users d @ [u]\<rparr>"

definition create_verification_token :: "auth_env \<Rightarrow> user \<Rightarrow> (world, string) op" where
  "create_verification_token env u =
     ebind (generate_token env) (\<lambda>token.
     ebind (utcnow env) (\<lambda>now.
     ebind (draw (uuid4 env)) (\<lambda>i.
     ebind (statement (\<lambda>d. d\<lparr>verification_tokens := verification_tokens d @
         [\<lparr>vt_id = i, vt_user_id = u_id u, vt_token_hash = hash_token env token,
           vt_expires_at = now + microseconds (email_verification_expire_hours (conf env) * 3600),
           vt_used_at = None\<rparr>]\<rparr>)) (\<lambda>_.
     ebind commit (\<lambda>_.
     eret token)))))"

definition send_verification_email :: "auth_env \<Rightarrow> user \<Rightarrow> string \<Rightarrow> (world, unit) op" where
  "send_verification_email env u token = deliver env (Verification_email (u_email u) token)"

definition new_user :: "uuid \<Rightarrow> string \<Rightarrow> string option \<Rightarrow> string \<Rightarrow> string \<Rightarrow> user" where
  "new_user i email hash first_name last_name =
     \<lparr>u_id = i, u_email = email, u_password_hash = hash, u_first_name = first_name, u_last_name = last_name,
      u_display_name = None, u_avatar_url = None, u_is_active = True, u_deactivated_at = None,
      u_deactivation_reason = None, u_is_verified = False, u_email_pending = False, u_is_superuser = False,
      u_roles = [], u_updated_at = None, u_last_login_at = None\<rparr>"

text \<open>
  A sign-up of another request (address, password hash, names) that commits between the check and
  the insert of this one; its row has a key of its own.
\<close>

type_synonym rival = "(string \<times> string \<times> string \<times> string) option"

definition rival_commits :: "auth_env \<Rightarrow> rival \<Rightarrow> (world, unit) op" where
  "rival_commits env rival =
     (case rival of
        None \<Rightarrow> eret ()
      | Some (email, hash, first_name, last_name) \<Rightarrow>
          ebind (draw (uuid4 env)) (\<lambda>i.
          let r = new_user i email (Some hash) first_name last_name in
          emodify (\<lambda>w. if db_ok (insert_user r (committed w))
            then w\<lparr>committed := insert_user r (committed w), working := insert_user r (working w)\<rparr> else w)))"

definition on_class :: "exc_class \<Rightarrow> (world, 'a) op \<Rightarrow> exn \<Rightarrow> (world, 'a) op" where
  "on_class c m e = (if exn_class e = c then m else eraise e)"

definition signup ::
    "auth_env \<Rightarrow> rival \<Rightarrow> string \<Rightarrow> string \<Rightarrow> string \<Rightarrow> string \<Rightarrow> (world, user) op" where
  "signup env rival email pw first_name last_name =
     ebind (get_user_by_email email) (\<lambda>existing.
     ebind (eensure (existing = None) (http_error 409 ''EMAIL_ALREADY_REGISTERED'')) (\<lambda>_.
     ebind (ecatch (hash_password env pw) (on_class ValueError (eraise (http_error 422 ''INVALID_PASSWORD'')))) (\<lambda>hash.
     ebind (draw (uuid4 env)) (\<lambda>i.
     let u = new_user i email (Some hash) first_name last_name in
     ebind (statement (insert_user u)) (\<lambda>_.
     ebind (rival_commits env rival) (\<lambda>_.
     ebind (ecatch commit (on_class IntegrityError
         (ebind rollback (\<lambda>_. eraise (http_error 409 ''EMAIL_ALREADY_REGISTERED''))))) (\<lambda>_.
     ebind (create_verification_token env u) (\<lambda>token.
     ebind (send_verification_email env u token) (\<lambda>_.
     eret u)))))))))"

definition complete_oauth_email :: "auth_env \<Rightarrow> user \<Rightarrow> string \<Rightarrow> (world, unit) op" where
  "complete_oauth_email env u email =
     ebind (eensure (u_email_pending u) (http_error 409 ''OAUTH_EMAIL_ALREADY_SET'')) (\<lambda>_.
     let normalized = py_lower (py_strip email) in
     ebind (get_user_by_email normalized) (\<lambda>existing.
     ebind (eensure (existing = None) (http_error 409 ''EMAIL_ALREADY_REGISTERED'')) (\<lambda>_.
     let set_email = (\<lambda>r. r\<lparr>u_email := normalized, u_is_verified := False, u_email_pending := False\<rparr>) in
     ebind (set_user (u_id u) set_email) (\<lambda>_.
     ebind commit (\<lambda>_.
     ebind (create_verification_token env u) (\<lambda>token.
     send_verification_email env (set_email u) token))))))"

definition authenticate :: "auth_env \<Rightarrow> string \<Rightarrow> string \<Rightarrow> (world, user) op" where
  "authenticate env email pw =
     ebind (get_user_by_email email) (\<lambda>found.
     case found of
       None \<Rightarrow> eraise (http_error 401 ''INVALID_CREDENTIALS'')
     | Some u \<Rightarrow>
         ebind (eensure (truthy (u_password_hash u) \<and> verify_password env pw (the (u_password_hash u)))
             (http_error 401 ''INVALID_CREDENTIALS'')) (\<lambda>_.
         ebind (ensure_user_can_authenticate u ''password'' True) (\<lambda>_.
         ebind (utcnow env) (\<lambda>now.
         ebind (set_user (u_id u) (\<lambda>r. r\<lparr>u_last_login_at := Some now\<rparr>)) (\<lambda>_.
         ebind commit (\<lambda>_.
         eret (u\<lparr>u_last_login_at := Some now\<rparr>)))))))"

section \<open>Sessions\<close>

definition create_session_record ::
    "auth_env \<Rightarrow> user \<Rightarrow> request \<Rightarrow> uuid \<Rightarrow> int option \<Rightarrow> string list option \<Rightarrow>
      (world, string \<times> string \<times> user_session) op" where
  "create_session_record env u rq family authenticated_at amr =
     (let claim = (case authenticated_at of
              Some t \<Rightarrow> if t \<noteq> 0 then [(''auth_time'', JInt t)] else [] | None \<Rightarrow> []) @
            (case amr of Some (m # ms) \<Rightarrow> [(''amr'', JList (map JStr (m # ms)))] | _ \<Rightarrow> [])
      in
     ebind (create_jwt env (uuid_str (u_id u)) ''access''
         (microseconds (access_token_expire_minutes (conf env) * 60))
         ([(''email'', JStr (u_email u)), (''role'', JStr (if u_is_superuser u then ''superuser'' else ''user''))] @ claim)) (\<lambda>(access, _).
     ebind (create_jwt env (uuid_str (u_id u)) ''refresh''
         (microseconds (refresh_token_expire_days (conf env) * 86400)) claim) (\<lambda>(refresh, jti).
     ebind (utcnow env) (\<lambda>now.
     ebind (draw (uuid4 env)) (\<lambda>i.
     eret (access, refresh,
       \<lparr>us_id = i, us_user_id = u_id u, us_token_hash = hash_token env refresh, us_jti = jti,
        us_family_id = family, us_expires_at = now + microseconds (refresh_token_expire_days (conf env) * 86400),
        us_last_used_at = None, us_revoked_at = None, us_rotated_at = None, us_replaced_by_jti = None,
        us_revocation_reason = None, us_ip_address = rq_client rq,
        us_user_agent = dict_get (rq_headers rq) ''user-agent''\<rparr>))))))"

definition set_auth_cookies :: "auth_env \<Rightarrow> string \<Rightarrow> string \<Rightarrow> string \<Rightarrow> (world, unit) op" where
  "set_auth_cookies env access refresh csrf =
     (let c = conf env in
     ebind (set_cookie \<lparr>ck_name = auth_access_cookie_name c, ck_value = Some access, ck_httponly = True,
         ck_path = auth_cookie_path c, ck_max_age = access_token_expire_minutes c * 60\<rparr>) (\<lambda>_.
     ebind (set_cookie \<lparr>ck_name = auth_refresh_cookie_name c, ck_value = Some refresh, ck_httponly = True,
         ck_path = ''/'', ck_max_age = refresh_token_expire_days c * 86400\<rparr>) (\<lambda>_.
     set_cookie \<lparr>ck_name = auth_csrf_cookie_name c, ck_value = Some csrf, ck_httponly = False,
         ck_path = auth_cookie_path c, ck_max_age = refresh_token_expire_days c * 86400\<rparr>)))"

definition delete_cookie :: "string \<Rightarrow> string \<Rightarrow> (world, unit) op" where
  "delete_cookie name p = set_cookie \<lparr>ck_name = name, ck_value = None, ck_httponly = False, ck_path = p, ck_max_age = 0\<rparr>"

definition clear_auth_cookies :: "auth_env \<Rightarrow> (world, unit) op" where
  "clear_auth_cookies env =
     (let c = conf env in
     ebind (delete_cookie (auth_access_cookie_name c) (auth_cookie_path c)) (\<lambda>_.
     ebind (delete_cookie (auth_refresh_cookie_name c) ''/'') (\<lambda>_.
     delete_cookie (auth_csrf_cookie_name c) (auth_cookie_path c))))"

definition add_session :: "user_session \<Rightarrow> (world, unit) op" where
  "add_session r = statement (\<lambda>d. d\<lparr>sessions := sessions d @ [r]\<rparr>)"

definition update_sessions :: "(user_session \<Rightarrow> bool) \<Rightarrow> (user_session \<Rightarrow> user_session) \<Rightarrow> (world, unit) op" where
  "update_sessions P f = statement (\<lambda>d. d\<lparr>sessions := update_where P f (sessions d)\<rparr>)"

definition revoke :: "int \<Rightarrow> string \<Rightarrow> user_session \<Rightarrow> user_session" where
  "revoke when why r = r\<lparr>us_revoked_at := Some when, us_revocation_reason := Some why\<rparr>"

definition issue_session ::
    "auth_env \<Rightarrow> user \<Rightarrow> request \<Rightarrow> string list option \<Rightarrow> (world, string) op" where
  "issue_session env u rq amr =
     ebind (draw (uuid4 env)) (\<lambda>family.
     ebind (utcnow env) (\<lambda>now.
     ebind (create_session_record env u rq family (Some (timestamp now)) amr) (\<lambda>(access, refresh, r).
     ebind (add_session r) (\<lambda>_.
     ebind commit (\<lambda>_.
     ebind (create_csrf_token env) (\<lambda>csrf.
     ebind (set_auth_cookies env access refresh csrf) (\<lambda>_.
     eret csrf)))))))"

definition revoke_token_family :: "uuid \<Rightarrow> int \<Rightarrow> string \<Rightarrow> (world, unit) op" where
  "revoke_token_family family revoked_at why =
     update_sessions (\<lambda>r. us_family_id r = family \<and> us_revoked_at r = None) (revoke revoked_at why)"

definition session_by_jti :: "json \<Rightarrow> (world, user_session option) op" where
  "session_by_jti jti = query (\<lambda>d. find (\<lambda>r. JStr (us_jti r) = jti) (sessions d))"

text \<open>The refresh token's claims, checked: the payload of a decodable token of type \<open>refresh\<close>.\<close>

definition refresh_payload :: "auth_env \<Rightarrow> string \<Rightarrow> (world, json) op" where
  "refresh_payload env token =
     ebind (ecatch (decode_jwt env token ''refresh'') (\<lambda>e.
         if exn_class e = ExpiredSignatureError then eraise (http_error 401 ''REFRESH_TOKEN_EXPIRED'')
         else if is_PyJWTError e then eraise (http_error 401 ''REFRESH_TOKEN_INVALID'')
         else eraise e)) (\<lambda>payload.
     ebind (eensure (json_truthy (get_or payload ''sub'' JNull) \<and> json_truthy (get_or payload ''jti'' JNull))
         (http_error 401 ''REFRESH_TOKEN_INVALID'')) (\<lambda>_.
     eret payload))"

text \<open>The checks on the stored session, up to and including its expiry.\<close>

definition check_session_record ::
    "auth_env \<Rightarrow> string \<Rightarrow> json \<Rightarrow> int \<Rightarrow> user_session option \<Rightarrow> (world, user_session) op" where
  "check_session_record env token subject now found =
     (case found of
        None \<Rightarrow> eraise (http_error 401 ''REFRESH_TOKEN_INVALID'')
      | Some r \<Rightarrow>
          ebind (eensure (us_token_hash r = hash_token env token \<and> JStr (uuid_str (us_user_id r)) = subject)
              (http_error 401 ''REFRESH_TOKEN_INVALID'')) (\<lambda>_.
          ebind (case us_rotated_at r of
              None \<Rightarrow> eret ()
            | Some rotated_at \<Rightarrow>
                ebind (eensure (\<not> now - rotated_at \<le> microseconds (refresh_token_reuse_grace_seconds (conf env)))
                    (http_error 409 ''REFRESH_ALREADY_ROTATED'')) (\<lambda>_.
                ebind (revoke_token_family (us_family_id r) now ''refresh_token_reuse'') (\<lambda>_.
                ebind (add_audit \<lparr>al_actor_user_id = None, al_target_user_id = Some (us_user_id r),
                    al_action = ''REFRESH_TOKEN_REUSE_DETECTED'', al_resource_type = None,
                    al_resource_id = None, al_event_metadata = None\<rparr>) (\<lambda>_.
                ebind commit (\<lambda>_.
                eraise (http_error 401 ''REFRESH_TOKEN_REUSE_DETECTED'')))))) (\<lambda>_.
          ebind (eensure (us_revoked_at r = None) (http_error 401 ''SESSION_REVOKED'')) (\<lambda>_.
          if us_expires_at r \<le> now
          then ebind (update_sessions (\<lambda>q. us_id q = us_id r) (revoke now ''expired'')) (\<lambda>_.
               ebind commit (\<lambda>_.
               eraise (http_error 401 ''REFRESH_TOKEN_EXPIRED'')))
          else eret r))))"

text \<open>The user of the session, who must exist and be active; otherwise the family is revoked.\<close>

definition refreshing_user :: "user_session \<Rightarrow> int \<Rightarrow> (world, user) op" where
  "refreshing_user r now =
     ebind (get_user_by_id (uuid_str (us_user_id r))) (\<lambda>found.
     case found of
       None \<Rightarrow>
         ebind (revoke_token_family (us_family_id r) now ''user_inactive'') (\<lambda>_.
         ebind commit (\<lambda>_.
         eraise (http_error 401 ''USER_INACTIVE'')))
     | Some u \<Rightarrow>
         ebind (ecatch (ensure_user_can_authenticate u ''refresh'' False) (\<lambda>e.
             if exn_class e = HTTPException
             then ebind (revoke_token_family (us_family_id r) now ''user_inactive'') (\<lambda>_.
                  ebind commit (\<lambda>_.
                  eraise e))
             else eraise e)) (\<lambda>_.
         eret u))"

definition claimed_amr :: "json \<Rightarrow> string list option" where
  "claimed_amr payload = (case get_field payload ''amr'' of Some (JList vs) \<Rightarrow> Some (map py_str vs) | _ \<Rightarrow> None)"

definition claimed_auth_time :: "json \<Rightarrow> int option" where
  "claimed_auth_time payload = (case get_field payload ''auth_time'' of Some v \<Rightarrow> int_of v | None \<Rightarrow> None)"

definition refresh_session :: "auth_env \<Rightarrow> string \<Rightarrow> request \<Rightarrow> (world, user \<times> string) op" where
  "refresh_session env refresh_token rq =
     ebind (refresh_payload env refresh_token) (\<lambda>payload.
     ebind (session_by_jti (get_or payload ''jti'' JNull)) (\<lambda>found.
     ebind (utcnow env) (\<lambda>now.
     ebind (check_session_record env refresh_token (get_or payload ''sub'' JNull) now found) (\<lambda>r.
     ebind (refreshing_user r now) (\<lambda>u.
     ebind (create_session_record env u rq (us_family_id r) (claimed_auth_time payload) (claimed_amr payload)) (\<lambda>(access, refresh, r').
     ebind (update_sessions (\<lambda>q. us_id q = us_id r) (\<lambda>q. (revoke now ''rotated'' q)\<lparr>us_rotated_at := Some now,
         us_last_used_at := Some now, us_replaced_by_jti := Some (us_jti r')\<rparr>)) (\<lambda>_.
     ebind (add_session r') (\<lambda>_.
     ebind commit (\<lambda>_.
     ebind (create_csrf_token env) (\<lambda>csrf.
     ebind (set_auth_cookies env access refresh csrf) (\<lambda>_.
     eret (u, csrf))))))))))))"

definition revoke_current_session :: "auth_env \<Rightarrow> string option \<Rightarrow> (world, unit) op" where
  "revoke_current_session env refresh_token =
     (if \<not> truthy refresh_token then eret ()
      else
        ebind (ecatch (ebind (decode_jwt env (the refresh_token) ''refresh'') (\<lambda>p. eret (Some p)))
            (\<lambda>e. if is_PyJWTError e then eret None else eraise e)) (\<lambda>decoded.
        case decoded of
          None \<Rightarrow> eret ()
        | Some payload \<Rightarrow>
            ebind (elift (getitem payload ''jti'')) (\<lambda>jti.
            ebind (session_by_jti jti) (\<lambda>found.
            case found of
              None \<Rightarrow> eret ()
            | Some r \<Rightarrow>
                ebind (utcnow env) (\<lambda>now.
                ebind (revoke_token_family (us_family_id r) now ''logout'') (\<lambda>_.
                commit))))))"

definition revoke_all_sessions :: "auth_env \<Rightarrow> uuid \<Rightarrow> bool \<Rightarrow> string \<Rightarrow> (world, unit) op" where
  "revoke_all_sessions env user_id do_commit why =
     ebind (utcnow env) (\<lambda>now.
     ebind (update_sessions (\<lambda>r. us_user_id r = user_id \<and> us_revoked_at r = None) (revoke now why)) (\<lambda>_.
     if do_commit then commit else eret ()))"

section \<open>E-mail verification and passwords\<close>

definition verify_email :: "auth_env \<Rightarrow> string \<Rightarrow> (world, verification_result) op" where
  "verify_email env token =
     ebind (query (\<lambda>d. find (\<lambda>r. vt_token_hash r = hash_token env token) (verification_tokens d))) (\<lambda>found.
     ebind (utcnow env) (\<lambda>now.
     case found of
       None \<Rightarrow> eraise (http_error 400 ''VERIFICATION_TOKEN_INVALID'')
     | Some r \<Rightarrow>
         ebind (user_row (vt_user_id r)) (\<lambda>owner.
         case owner of
           None \<Rightarrow> eraise (http_error 400 ''VERIFICATION_TOKEN_INVALID'')
         | Some u \<Rightarrow>
             if u_is_verified u
             then ebind commit (\<lambda>_. eret (Verification_result ''already_verified'' False (u_id u)))
             else
               ebind (eensure (vt_used_at r = None) (http_error 409 ''VERIFICATION_STATE_INVALID'')) (\<lambda>_.
               ebind (eensure (\<not> vt_expires_at r \<le> now) (http_error 400 ''VERIFICATION_TOKEN_EXPIRED'')) (\<lambda>_.
               ebind (set_user (u_id u) (\<lambda>q. q\<lparr>u_is_verified := True\<rparr>)) (\<lambda>_.
               ebind (statement (\<lambda>d. d\<lparr>verification_tokens :=
                   update_where (\<lambda>q. vt_id q = vt_id r) (\<lambda>q. q\<lparr>vt_used_at := Some now\<rparr>) (verification_tokens d)\<rparr>)) (\<lambda>_.
               ebind commit (\<lambda>_.
               eret (Verification_result ''verified'' True (u_id u)))))))))) "

definition resend_verification :: "auth_env \<Rightarrow> user \<Rightarrow> (world, bool) op" where
  "resend_verification env u =
     ebind (user_row (u_id u)) (\<lambda>found.
     case found of
       None \<Rightarrow> eraise (http_error 401 ''AUTH_REQUIRED'')
     | Some locked \<Rightarrow>
         if u_is_verified locked then ebind commit (\<lambda>_. eret False)
         else
           ebind (eensure (\<not> u_email_pending locked) (http_error 409 ''OAUTH_EMAIL_REQUIRED'')) (\<lambda>_.
           ebind (create_verification_token env locked) (\<lambda>token.
           ebind (send_verification_email env locked token) (\<lambda>_.
           eret True))))"

definition live_reset :: "password_reset_token \<Rightarrow> bool" where
  "live_reset t = (prt_used_at t = None \<and> prt_invalidated_at t = None)"

definition invalidate_resets :: "(password_reset_token \<Rightarrow> bool) \<Rightarrow> int \<Rightarrow> (world, unit) op" where
  "invalidate_resets P now = statement (\<lambda>d. d\<lparr>reset_tokens :=
     update_where (\<lambda>t. P t \<and> live_reset t) (\<lambda>t. t\<lparr>prt_invalidated_at := Some now\<rparr>) (reset_tokens d)\<rparr>)"

definition forgot_password :: "auth_env \<Rightarrow> string \<Rightarrow> request \<Rightarrow> (world, unit) op" where
  "forgot_password env email rq =
     ebind (get_user_by_email email) (\<lambda>found.
     case found of
       None \<Rightarrow> eret ()
     | Some u0 \<Rightarrow>
         if \<not> u_is_active u0 then eret ()
         else
           ebind (user_row (u_id u0)) (\<lambda>locked.
           case locked of
             None \<Rightarrow> eret ()
           | Some u \<Rightarrow>
               if \<not> u_is_active u then eret ()
               else
                 ebind (utcnow env) (\<lambda>now.
                 ebind (invalidate_resets (\<lambda>t. prt_user_id t = u_id u) now) (\<lambda>_.
                 ebind (generate_token env) (\<lambda>token.
                 ebind (draw (uuid4 env)) (\<lambda>i.
                 ebind (statement (\<lambda>d. d\<lparr>reset_tokens := reset_tokens d @
                     [\<lparr>prt_id = i, prt_user_id = u_id u, prt_token_hash = hash_token env token,
                       prt_expires_at = now + microseconds (password_reset_expire_minutes (conf env) * 60),
                       prt_used_at = None, prt_invalidated_at = None, prt_requested_ip = rq_client rq\<rparr>]\<rparr>)) (\<lambda>_.
                 ebind commit (\<lambda>_.
                 deliver env (Password_reset_email (u_email u) token)))))))))"

definition reset_password :: "auth_env \<Rightarrow> string \<Rightarrow> string \<Rightarrow> (world, user) op" where
  "reset_password env token pw =
     ebind (ecatch (elift (validate_password_policy pw)) (on_class ValueError (eraise (http_error 422 ''INVALID_PASSWORD'')))) (\<lambda>_.
     ebind (query (\<lambda>d. find (\<lambda>t. prt_token_hash t = hash_token env token) (reset_tokens d))) (\<lambda>found.
     ebind (utcnow env) (\<lambda>now.
     case found of
       None \<Rightarrow> eraise (http_error 400 ''INVALID_RESET_TOKEN'')
     | Some r \<Rightarrow>
         ebind (eensure (live_reset r) (http_error 400 ''INVALID_RESET_TOKEN'')) (\<lambda>_.
         ebind (eensure (\<not> prt_expires_at r \<le> now) (http_error 400 ''RESET_TOKEN_EXPIRED'')) (\<lambda>_.
         ebind (user_row (prt_user_id r)) (\<lambda>owner.
         case owner of
           None \<Rightarrow> eraise (http_error 400 ''INVALID_RESET_TOKEN'')
         | Some u \<Rightarrow>
             ebind (hash_password env pw) (\<lambda>hash.
             ebind (set_user (u_id u) (\<lambda>q. q\<lparr>u_password_hash := Some hash, u_updated_at := Some now\<rparr>)) (\<lambda>_.
             ebind (statement (\<lambda>d. d\<lparr>reset_tokens :=
                 update_where (\<lambda>t. prt_id t = prt_id r) (\<lambda>t. t\<lparr>prt_used_at := Some now\<rparr>) (reset_tokens d)\<rparr>)) (\<lambda>_.
             ebind (invalidate_resets (\<lambda>t. prt_user_id t = u_id u \<and> prt_id t \<noteq> prt_id r) now) (\<lambda>_.
             ebind (revoke_all_sessions env (u_id u) False ''password_reset'') (\<lambda>_.
             ebind commit (\<lambda>_.
             ebind (deliver env (Password_changed_email (u_email u))) (\<lambda>_.
             eret (u\<lparr>u_password_hash := Some hash, u_updated_at := Some now\<rparr>)))))))))))))) "

definition change_password :: "auth_env \<Rightarrow> user \<Rightarrow> string \<Rightarrow> string \<Rightarrow> (world, unit) op" where
  "change_password env u current_password new_password =
     ebind (eensure (truthy (u_password_hash u) \<and> verify_password env current_password (the (u_password_hash u)))
         (http_error 401 ''INVALID_CREDENTIALS'')) (\<lambda>_.
     ebind (hash_password env new_password) (\<lambda>hash.
     ebind (utcnow env) (\<lambda>now.
     ebind (set_user (u_id u) (\<lambda>q. q\<lparr>u_password_hash := Some hash, u_updated_at := Some now\<rparr>)) (\<lambda>_.
     ebind (revoke_all_sessions env (u_id u) False ''password_changed'') (\<lambda>_.
     ebind commit (\<lambda>_.
     deliver env (Password_changed_email (u_email u))))))))"

end
