(* ===== verification/Mfa_Service.thy ===== *)
theory Mfa_Service
  imports Auth_Service
begin

text \<open>
  \<open>web/backend/app/auth/services/mfa_service.py\<close> and \<open>auth/encryption.py\<close>: TOTP and recovery
  codes as second factors, the login challenge between password and second factor, set-up,
  regeneration and removal. pyotp, Fernet, the peppered HMAC and \<open>str.isdigit\<close> on texts beyond
  ASCII are functions of the environment.
\<close>

section \<open>Secrets and codes\<close>

definition fernet :: "auth_env \<Rightarrow> exn + string" where
  "fernet env =
     (case mfa_encryption_key (conf env) of
        None \<Rightarrow> Inl (Raise MfaEncryptionError (Msg ''not configured''))
      | Some key \<Rightarrow>
          if key = [] then Inl (Raise MfaEncryptionError (Msg ''not configured''))
          else rbind (ensure (fernet_key_ok env key) (Raise MfaEncryptionError (Msg ''invalid key''))) (\<lambda>_. Inr key))"

definition encrypt_mfa_secret :: "auth_env \<Rightarrow> string \<Rightarrow> (world, string) op" where
  "encrypt_mfa_secret env secret = ebind (elift (fernet env)) (\<lambda>key. draw (\<lambda>n. fernet_encrypt env key n secret))"

definition decrypt_mfa_secret :: "auth_env \<Rightarrow> string \<Rightarrow> exn + string" where
  "decrypt_mfa_secret env ciphertext =
     rbind (fernet env) (\<lambda>key.
     of_option (Raise MfaEncryptionError (Msg ''cannot be decrypted'')) (fernet_decrypt env key ciphertext))"

definition configuration_error :: exn where
  "configuration_error = http_error 503 ''MFA_SECRET_CONFIGURATION_ERROR''"

definition secret_encrypt :: "auth_env \<Rightarrow> string \<Rightarrow> (world, string) op" where
  "secret_encrypt env secret =
     ecatch (encrypt_mfa_secret env secret) (on_class MfaEncryptionError (eraise configuration_error))"

definition secret_decrypt :: "auth_env \<Rightarrow> string \<Rightarrow> (world, string) op" where
  "secret_decrypt env ciphertext =
     ecatch (elift (decrypt_mfa_secret env ciphertext)) (on_class MfaEncryptionError (eraise configuration_error))"

text \<open>Letters and digits, upper case; characters beyond ASCII stay as they are.\<close>

definition normalize_recovery_code :: "string \<Rightarrow> string" where
  "normalize_recovery_code code =
     filter (\<lambda>c. is_digit c \<or> is_upper c \<or> is_lower c \<or> 128 \<le> byte c) (py_upper code)"

definition recovery_code_hash :: "auth_env \<Rightarrow> string \<Rightarrow> string" where
  "recovery_code_hash env code = hmac_hex env (normalize_recovery_code code)"

definition RECOVERY_ALPHABET :: string where
  "RECOVERY_ALPHABET = ''ABCDEFGHJKLMNPQRSTUVWXYZ23456789''"

definition generate_recovery_code :: "auth_env \<Rightarrow> (world, string) op" where
  "generate_recovery_code env =
     ebind (emap (\<lambda>_. draw (\<lambda>n. RECOVERY_ALPHABET ! (choice_index env n mod length RECOVERY_ALPHABET))) [0..<12]) (\<lambda>raw.
     eret (py_join ''-'' [take 4 raw, take 4 (drop 4 raw), drop 8 raw]))"

definition generate_recovery_codes :: "auth_env \<Rightarrow> (world, string list) op" where
  "generate_recovery_codes env =
     emap (\<lambda>_. generate_recovery_code env) [0..<mfa_recovery_code_count (conf env)]"

section \<open>Methods\<close>

definition is_totp_of :: "uuid \<Rightarrow> mfa_method \<Rightarrow> bool" where
  "is_totp_of user_id m = (mm_user_id m = user_id \<and> mm_type m = ''totp'')"

definition enabled_method :: "uuid \<Rightarrow> (world, mfa_method option) op" where
  "enabled_method user_id =
     query (\<lambda>d. find (\<lambda>m. is_totp_of user_id m \<and> mm_is_enabled m) (mfa_methods d))"

definition available_methods :: "db \<Rightarrow> uuid \<Rightarrow> string list" where
  "available_methods d user_id =
     (if list_ex (\<lambda>c. wc_user_id c = user_id) (credentials d) then [''passkey''] else []) @
     (if list_ex (\<lambda>m. is_totp_of user_id m \<and> mm_is_enabled m) (mfa_methods d)
      then ''totp'' #
        (if list_ex (\<lambda>c. mrc_user_id c = user_id \<and> mrc_used_at c = None) (recovery_codes d) then [''recovery_code''] else [])
      else [])"

definition available_mfa_methods :: "uuid \<Rightarrow> (world, string list) op" where
  "available_mfa_methods user_id = query (\<lambda>d. available_methods d user_id)"

definition preferred_mfa_method :: "string list \<Rightarrow> exn + string" where
  "preferred_mfa_method methods =
     of_option (Raise ValueError (Msg [])) (find (\<lambda>m. m \<in> set methods) [''passkey'', ''totp'', ''recovery_code''])"

section \<open>The login challenge\<close>

record challenge_details =
  cd_methods :: "string list"
  cd_preferred :: string
  cd_expires_in :: int

definition challenge_by_token :: "auth_env \<Rightarrow> string \<Rightarrow> (world, mfa_challenge option) op" where
  "challenge_by_token env token = query (\<lambda>d. find (\<lambda>c. mc_token_hash c = hash_token env token) (mfa_challenges d))"

definition login_challenge_details :: "auth_env \<Rightarrow> string \<Rightarrow> (world, challenge_details) op" where
  "login_challenge_details env token =
     ebind (challenge_by_token env token) (\<lambda>found.
     ebind (utcnow env) (\<lambda>now.
     case found of
       None \<Rightarrow> eraise (http_error 400 ''MFA_CHALLENGE_EXPIRED'')
     | Some c \<Rightarrow>
         ebind (eensure (mc_used_at c = None \<and> mc_invalidated_at c = None \<and> \<not> mc_expires_at c \<le> now)
             (http_error 400 ''MFA_CHALLENGE_EXPIRED'')) (\<lambda>_.
         ebind (user_row (mc_user_id c)) (\<lambda>owner.
         ebind (available_mfa_methods (mc_user_id c)) (\<lambda>methods.
         ebind (eensure ((case owner of None \<Rightarrow> False | Some u \<Rightarrow> u_is_active u) \<and> methods \<noteq> [])
             (http_error 400 ''MFA_CHALLENGE_INVALID'')) (\<lambda>_.
         ebind (elift (preferred_mfa_method methods)) (\<lambda>preferred.
         eret \<lparr>cd_methods = methods, cd_preferred = preferred,
               cd_expires_in = max 1 ((mc_expires_at c - now) div 1000000)\<rparr>)))))))"

definition update_challenges :: "(mfa_challenge \<Rightarrow> bool) \<Rightarrow> (mfa_challenge \<Rightarrow> mfa_challenge) \<Rightarrow> (world, unit) op" where
  "update_challenges P f = statement (\<lambda>d. d\<lparr>mfa_challenges := update_where P f (mfa_challenges d)\<rparr>)"

definition create_login_challenge ::
    "auth_env \<Rightarrow> user \<Rightarrow> request \<Rightarrow> string \<Rightarrow> string option \<Rightarrow> (world, string \<times> int) op" where
  "create_login_challenge env u rq primary_method redirect_path =
     ebind (utcnow env) (\<lambda>now.
     ebind (generate_token env) (\<lambda>token.
     ebind (update_challenges (\<lambda>c. mc_user_id c = u_id u \<and> mc_purpose c = ''login'' \<and> mc_used_at c = None \<and> mc_invalidated_at c = None)
         (\<lambda>c. c\<lparr>mc_invalidated_at := Some now\<rparr>)) (\<lambda>_.
     ebind (draw (uuid4 env)) (\<lambda>i.
     ebind (statement (\<lambda>d. d\<lparr>mfa_challenges := mfa_challenges d @
         [\<lparr>mc_id = i, mc_user_id = u_id u, mc_token_hash = hash_token env token, mc_purpose = ''login'',
           mc_primary_method = primary_method, mc_redirect_path = redirect_path,
           mc_expires_at = now + microseconds (mfa_challenge_expire_seconds (conf env)),
           mc_used_at = None, mc_invalidated_at = None, mc_attempt_count = 0,
           mc_ip_address = rq_client rq, mc_user_agent = dict_get (rq_headers rq) ''user-agent''\<rparr>]\<rparr>)) (\<lambda>_.
     ebind commit (\<lambda>_.
     eret (token, mfa_challenge_expire_seconds (conf env))))))))"

text \<open>The counters \<open>current - window\<close>, ..., \<open>current + window\<close> in order.\<close>

definition counters :: "auth_env \<Rightarrow> int \<Rightarrow> int list" where
  "counters env current =
     (let w = mfa_totp_valid_window (conf env) in map (\<lambda>k. current - w + int k) [0..<nat (2 * w + 1)])"

definition matching_counter :: "auth_env \<Rightarrow> string \<Rightarrow> string \<Rightarrow> (world, int option) op" where
  "matching_counter env secret code =
     (if py_len code \<noteq> 6 \<or> \<not> str_isdigit env code then eret None
      else
        ebind (utcnow env) (\<lambda>now.
        if \<not> is_ascii code \<and> counters env (timestamp now div 30) \<noteq> []
        then eraise (Raise TypeError (Msg ''comparing strings with non-ASCII characters''))
        else eret (find (\<lambda>counter. totp_at env secret (counter * 30) = code) (counters env (timestamp now div 30)))))"

definition update_methods :: "(mfa_method \<Rightarrow> bool) \<Rightarrow> (mfa_method \<Rightarrow> mfa_method) \<Rightarrow> (world, unit) op" where
  "update_methods P f = statement (\<lambda>d. d\<lparr>mfa_methods := update_where P f (mfa_methods d)\<rparr>)"

definition consume_totp :: "auth_env \<Rightarrow> mfa_method \<Rightarrow> int \<Rightarrow> string \<Rightarrow> (world, string option) op" where
  "consume_totp env m now code =
     ebind (secret_decrypt env (mm_secret_encrypted m)) (\<lambda>secret.
     ebind (matching_counter env secret (py_strip code)) (\<lambda>found.
     case found of
       None \<Rightarrow> eret None
     | Some counter \<Rightarrow>
         if (case mm_last_used_counter m of None \<Rightarrow> False | Some used \<Rightarrow> counter \<le> used) then eret None
         else
           ebind (update_methods (\<lambda>q. mm_id q = mm_id m)
               (\<lambda>q. q\<lparr>mm_last_used_counter := Some counter, mm_last_used_at := Some now\<rparr>)) (\<lambda>_.
           eret (Some ''totp''))))"

definition consume_recovery_code :: "auth_env \<Rightarrow> mfa_method \<Rightarrow> int \<Rightarrow> string \<Rightarrow> (world, string option) op" where
  "consume_recovery_code env m now code =
     ebind (query (\<lambda>d. find (\<lambda>c. mrc_user_id c = mm_user_id m \<and> mrc_code_hash c = recovery_code_hash env code \<and>
         mrc_used_at c = None) (recovery_codes d))) (\<lambda>found.
     case found of
       None \<Rightarrow> eret None
     | Some r \<Rightarrow>
         ebind (statement (\<lambda>d. d\<lparr>recovery_codes :=
             update_where (\<lambda>c. mrc_id c = mrc_id r) (\<lambda>c. c\<lparr>mrc_used_at := Some now\<rparr>) (recovery_codes d)\<rparr>)) (\<lambda>_.
         ebind (update_methods (\<lambda>q. mm_id q = mm_id m) (\<lambda>q. q\<lparr>mm_last_used_at := Some now\<rparr>)) (\<lambda>_.
         eret (Some ''recovery''))))"

definition consume_factor ::
    "auth_env \<Rightarrow> mfa_method \<Rightarrow> string option \<Rightarrow> string option \<Rightarrow> (world, string option) op" where
  "consume_factor env m code recovery_code =
     ebind (utcnow env) (\<lambda>now.
     if truthy code then consume_totp env m now (the code)
     else case recovery_code of
         None \<Rightarrow> eraise (Raise AssertionError (Msg []))
       | Some rc \<Rightarrow> consume_recovery_code env m now rc)"

definition invalidate_challenge :: "mfa_challenge \<Rightarrow> int \<Rightarrow> exn \<Rightarrow> (world, 'a) op" where
  "invalidate_challenge c now e =
     ebind (update_challenges (\<lambda>q. mc_id q = mc_id c) (\<lambda>q. q\<lparr>mc_invalidated_at := Some now\<rparr>)) (\<lambda>_.
     ebind commit (\<lambda>_.
     eraise e))"

definition failed_factor ::
    "auth_env \<Rightarrow> mfa_challenge \<Rightarrow> user \<Rightarrow> int \<Rightarrow> string option \<Rightarrow> (world, 'a) op" where
  "failed_factor env c u now recovery_code =
     (let attempts = mc_attempt_count c + 1; blocked = (mfa_max_attempts (conf env) \<le> attempts) in
     ebind (update_challenges (\<lambda>q. mc_id q = mc_id c) (\<lambda>q. q\<lparr>mc_attempt_count := attempts,
         mc_invalidated_at := (if blocked then Some now else mc_invalidated_at q)\<rparr>)) (\<lambda>_.
     ebind (add_audit (user_audit (u_id u) (if blocked then ''MFA_CHALLENGE_BLOCKED'' else ''MFA_LOGIN_FAILED'')
         (Some (JObj [(''method'', JStr (if truthy recovery_code then ''recovery'' else ''totp''))])))) (\<lambda>_.
     ebind commit (\<lambda>_.
     if blocked then eraise (http_error 429 ''MFA_TOO_MANY_ATTEMPTS'')
     else eraise (http_error 401 (if truthy recovery_code then ''MFA_RECOVERY_CODE_INVALID'' else ''MFA_CODE_INVALID''))))))"

definition verify_login_challenge ::
    "auth_env \<Rightarrow> string \<Rightarrow> string option \<Rightarrow> string option \<Rightarrow> (world, user \<times> string \<times> string) op" where
  "verify_login_challenge env token code recovery_code =
     ebind (challenge_by_token env token) (\<lambda>found.
     ebind (utcnow env) (\<lambda>now.
     case found of
       None \<Rightarrow> eraise (http_error 400 ''MFA_CHALLENGE_INVALID'')
     | Some c \<Rightarrow>
         ebind (eensure (mc_used_at c = None) (http_error 409 ''MFA_CHALLENGE_USED'')) (\<lambda>_.
         ebind (eensure (mc_invalidated_at c = None) (http_error 400 ''MFA_CHALLENGE_INVALID'')) (\<lambda>_.
         if mc_expires_at c \<le> now then invalidate_challenge c now (http_error 400 ''MFA_CHALLENGE_EXPIRED'')
         else if mfa_max_attempts (conf env) \<le> mc_attempt_count c
         then invalidate_challenge c now (http_error 429 ''MFA_TOO_MANY_ATTEMPTS'')
         else
           ebind (enabled_method (mc_user_id c)) (\<lambda>enabled.
           ebind (user_row (mc_user_id c)) (\<lambda>owner.
           case (enabled, owner) of
             (Some m, Some u) \<Rightarrow>
               if \<not> u_is_active u then invalidate_challenge c now (http_error 400 ''MFA_CHALLENGE_INVALID'')
               else
                 ebind (consume_factor env m code recovery_code) (\<lambda>used.
                 case used of
                   None \<Rightarrow> failed_factor env c u now recovery_code
                 | Some factor \<Rightarrow>
                     ebind (update_challenges (\<lambda>q. mc_id q = mc_id c) (\<lambda>q. q\<lparr>mc_used_at := Some now\<rparr>)) (\<lambda>_.
                     ebind (set_user (u_id u) (\<lambda>q. q\<lparr>u_last_login_at := Some now\<rparr>)) (\<lambda>_.
                     ebind (add_audit (user_audit (u_id u)
                         (if factor = ''recovery'' then ''MFA_RECOVERY_CODE_USED'' else ''MFA_LOGIN_SUCCESS'')
                         (Some (JObj [(''method'', JStr factor), (''primary'', JStr (mc_primary_method c))])))) (\<lambda>_.
                     ebind commit (\<lambda>_.
                     eret (u\<lparr>u_last_login_at := Some now\<rparr>, factor, mc_primary_method c))))))
           | _ \<Rightarrow> invalidate_challenge c now (http_error 400 ''MFA_CHALLENGE_INVALID'')))))))"

section \<open>Set-up, regeneration, removal\<close>

definition start_totp_setup :: "auth_env \<Rightarrow> user \<Rightarrow> (world, string \<times> string) op" where
  "start_totp_setup env u =
     ebind (enabled_method (u_id u)) (\<lambda>enabled.
     ebind (eensure (enabled = None) (http_error 409 ''MFA_ALREADY_ENABLED'')) (\<lambda>_.
     ebind (draw (random_base32 env)) (\<lambda>secret.
     ebind (query (\<lambda>d. find (is_totp_of (u_id u)) (mfa_methods d))) (\<lambda>found.
     ebind (secret_encrypt env secret) (\<lambda>encrypted.
     ebind (utcnow env) (\<lambda>now.
     let expires = now + microseconds (mfa_setup_expire_seconds (conf env)) in
     ebind (case found of
         Some m \<Rightarrow> update_methods (\<lambda>q. mm_id q = mm_id m) (\<lambda>q. q\<lparr>mm_secret_encrypted := encrypted,
             mm_setup_expires_at := Some expires, mm_last_used_counter := None\<rparr>)
       | None \<Rightarrow>
           ebind (draw (uuid4 env)) (\<lambda>i.
           statement (\<lambda>d. d\<lparr>mfa_methods := mfa_methods d @
             [\<lparr>mm_id = i, mm_user_id = u_id u, mm_type = ''totp'', mm_secret_encrypted = encrypted, mm_is_enabled = False,
               mm_verified_at = None, mm_setup_expires_at = Some expires, mm_last_used_at = None,
               mm_last_used_counter = None\<rparr>]\<rparr>))) (\<lambda>_.
     ebind (add_audit (user_audit (u_id u) ''MFA_SETUP_STARTED'' None)) (\<lambda>_.
     ebind commit (\<lambda>_.
     eret (secret, provisioning_uri env secret (u_email u)))))))))))"

definition delete_recovery_codes :: "uuid \<Rightarrow> (world, unit) op" where
  "delete_recovery_codes user_id =
     statement (\<lambda>d. d\<lparr>recovery_codes := filter (\<lambda>c. mrc_user_id c \<noteq> user_id) (recovery_codes d)\<rparr>)"

definition add_recovery_code :: "auth_env \<Rightarrow> uuid \<Rightarrow> string \<Rightarrow> (world, unit) op" where
  "add_recovery_code env user_id code =
     ebind (draw (uuid4 env)) (\<lambda>i.
     statement (\<lambda>d. d\<lparr>recovery_codes := recovery_codes d @
       [\<lparr>mrc_id = i, mrc_user_id = user_id, mrc_code_hash = recovery_code_hash env code, mrc_used_at = None\<rparr>]\<rparr>))"

definition replace_recovery_codes :: "auth_env \<Rightarrow> uuid \<Rightarrow> (world, string list) op" where
  "replace_recovery_codes env user_id =
     ebind (generate_recovery_codes env) (\<lambda>codes.
     ebind (delete_recovery_codes user_id) (\<lambda>_.
     ebind (emap (add_recovery_code env user_id) codes) (\<lambda>_.
     eret codes)))"

definition confirm_totp_setup :: "auth_env \<Rightarrow> user \<Rightarrow> string \<Rightarrow> (world, string list) op" where
  "confirm_totp_setup env u code =
     ebind (query (\<lambda>d. find (is_totp_of (u_id u)) (mfa_methods d))) (\<lambda>found.
     ebind (utcnow env) (\<lambda>now.
     case found of
       None \<Rightarrow> eraise (http_error 400 ''MFA_SETUP_EXPIRED'')
     | Some m \<Rightarrow>
         ebind (eensure (\<not> mm_is_enabled m \<and> (case mm_setup_expires_at m of None \<Rightarrow> False | Some t \<Rightarrow> \<not> t \<le> now))
             (http_error 400 ''MFA_SETUP_EXPIRED'')) (\<lambda>_.
         ebind (secret_decrypt env (mm_secret_encrypted m)) (\<lambda>secret.
         ebind (matching_counter env secret code) (\<lambda>matched.
         case matched of
           None \<Rightarrow> eraise (http_error 401 ''MFA_CODE_INVALID'')
         | Some counter \<Rightarrow>
             ebind (update_methods (\<lambda>q. mm_id q = mm_id m) (\<lambda>q. q\<lparr>mm_is_enabled := True, mm_verified_at := Some now,
                 mm_setup_expires_at := None, mm_last_used_counter := Some counter, mm_last_used_at := Some now\<rparr>)) (\<lambda>_.
             ebind (replace_recovery_codes env (u_id u)) (\<lambda>codes.
             ebind (add_audit (user_audit (u_id u) ''MFA_ENABLED'' None)) (\<lambda>_.
             ebind commit (\<lambda>_.
             eret codes))))))))) "

record security_state =
  ss_enabled :: bool
  ss_method :: "string option"
  ss_enabled_at :: "int option"
  ss_last_used_at :: "int option"
  ss_recovery_codes_remaining :: nat

definition security_status :: "uuid \<Rightarrow> (world, security_state) op" where
  "security_status user_id =
     ebind (enabled_method user_id) (\<lambda>found.
     case found of
       None \<Rightarrow> eret \<lparr>ss_enabled = False, ss_method = None, ss_enabled_at = None, ss_last_used_at = None,
                    ss_recovery_codes_remaining = 0\<rparr>
     | Some m \<Rightarrow>
         ebind (query (\<lambda>d. length (filter (\<lambda>c. mrc_user_id c = user_id \<and> mrc_used_at c = None) (recovery_codes d)))) (\<lambda>remaining.
         eret \<lparr>ss_enabled = True, ss_method = Some ''totp'', ss_enabled_at = mm_verified_at m,
               ss_last_used_at = mm_last_used_at m, ss_recovery_codes_remaining = remaining\<rparr>))"

definition current_family :: "auth_env \<Rightarrow> uuid \<Rightarrow> request \<Rightarrow> (world, uuid option) op" where
  "current_family env user_id rq =
     (case dict_get (rq_cookies rq) (auth_refresh_cookie_name (conf env)) of
        None \<Rightarrow> eret None
      | Some token \<Rightarrow>
          if token = [] then eret None
          else
            ecatch
              (ebind (decode_jwt env token ''refresh'') (\<lambda>payload.
               ebind (session_by_jti (get_or payload ''jti'' JNull)) (\<lambda>found.
               eret (case found of None \<Rightarrow> None
                     | Some r \<Rightarrow> if us_user_id r = user_id then Some (us_family_id r) else None))))
              (\<lambda>e. if is_PyJWTError e then eret None else eraise e))"

definition revoke_other_sessions :: "auth_env \<Rightarrow> uuid \<Rightarrow> request \<Rightarrow> string \<Rightarrow> (world, unit) op" where
  "revoke_other_sessions env user_id rq why =
     ebind (current_family env user_id rq) (\<lambda>current.
     ebind (utcnow env) (\<lambda>now.
     ebind (update_sessions (\<lambda>r. us_user_id r = user_id \<and> us_revoked_at r = None \<and> Some (us_family_id r) \<noteq> current)
         (revoke now why)) (\<lambda>_.
     commit)))"

definition verify_sensitive_action ::
    "auth_env \<Rightarrow> user \<Rightarrow> string option \<Rightarrow> string option \<Rightarrow> string option \<Rightarrow> (world, mfa_method) op" where
  "verify_sensitive_action env u current_password code recovery_code =
     ebind (enabled_method (u_id u)) (\<lambda>found.
     case found of
       None \<Rightarrow> eraise (http_error 409 ''MFA_NOT_ENABLED'')
     | Some m \<Rightarrow>
         ebind (eensure (truthy (u_password_hash u) \<longrightarrow>
               truthy current_password \<and> verify_password env (the current_password) (the (u_password_hash u)))
             (http_error 401 ''INVALID_CREDENTIALS'')) (\<lambda>_.
         ebind (consume_factor env m code recovery_code) (\<lambda>used.
         ebind (eensure (used \<noteq> None) (http_error 401 ''MFA_CODE_INVALID'')) (\<lambda>_.
         eret m))))"

definition regenerate_recovery_codes ::
    "auth_env \<Rightarrow> user \<Rightarrow> string option \<Rightarrow> string option \<Rightarrow> string option \<Rightarrow> (world, string list) op" where
  "regenerate_recovery_codes env u current_password code recovery_code =
     ebind (verify_sensitive_action env u current_password code recovery_code) (\<lambda>_.
     ebind (replace_recovery_codes env (u_id u)) (\<lambda>codes.
     ebind (add_audit (user_audit (u_id u) ''MFA_RECOVERY_CODES_REGENERATED'' None)) (\<lambda>_.
     ebind commit (\<lambda>_.
     eret codes))))"

definition disable_mfa ::
    "auth_env \<Rightarrow> user \<Rightarrow> string option \<Rightarrow> string option \<Rightarrow> string option \<Rightarrow> (world, unit) op" where
  "disable_mfa env u current_password code recovery_code =
     ebind (verify_sensitive_action env u current_password code recovery_code) (\<lambda>_.
     ebind (utcnow env) (\<lambda>now.
     ebind (delete_recovery_codes (u_id u)) (\<lambda>_.
     ebind (statement (\<lambda>d. d\<lparr>mfa_methods := filter (\<lambda>m. mm_user_id m \<noteq> u_id u) (mfa_methods d)\<rparr>)) (\<lambda>_.
     ebind (update_challenges (\<lambda>c. mc_user_id c = u_id u \<and> mc_used_at c = None) (\<lambda>c. c\<lparr>mc_invalidated_at := Some now\<rparr>)) (\<lambda>_.
     ebind (update_sessions (\<lambda>r. us_user_id r = u_id u \<and> us_revoked_at r = None) (revoke now ''mfa_disabled'')) (\<lambda>_.
     ebind (add_audit (user_audit (u_id u) ''MFA_DISABLED'' None)) (\<lambda>_.
     commit)))))))"

end
