(* ===== verification/Account_Service.thy ===== *)
theory Account_Service
  imports Auth_Service
begin

text \<open>
  \<open>web/backend/app/auth/services/account_service.py\<close> (deactivating and deleting one's own
  account), \<open>auth/dependencies.py\<close> (the authenticated user of a request) and
  \<open>auth/recent_auth.py\<close>.
\<close>

section \<open>Deactivation and deletion\<close>

definition active_superusers :: "db \<Rightarrow> uuid list" where
  "active_superusers d = map u_id (filter (\<lambda>u. u_is_superuser u \<and> u_is_active u) (users d))"

definition lock_user_and_protect_last_superuser :: "uuid \<Rightarrow> (world, user) op" where
  "lock_user_and_protect_last_superuser user_id =
     ebind (user_row user_id) (\<lambda>found.
     case found of
       None \<Rightarrow> eraise (http_error 401 ''AUTH_REQUIRED'')
     | Some u \<Rightarrow>
         if u_is_superuser u
         then ebind (query active_superusers) (\<lambda>active_ids.
              ebind (eensure (\<not> length active_ids \<le> 1) (http_error 409 ''LAST_SUPERUSER_REQUIRED'')) (\<lambda>_.
              eret u))
         else eret u)"

definition deactivate_own_account :: "auth_env \<Rightarrow> uuid \<Rightarrow> (world, unit) op" where
  "deactivate_own_account env user_id =
     ebind (lock_user_and_protect_last_superuser user_id) (\<lambda>u.
     if \<not> u_is_active u then eret ()
     else
       ebind (utcnow env) (\<lambda>now.
       ebind (set_user (u_id u) (\<lambda>q. q\<lparr>u_is_active := False, u_deactivated_at := Some now,
           u_deactivation_reason := Some SELF_DEACTIVATED\<rparr>)) (\<lambda>_.
       ebind (update_sessions (\<lambda>r. us_user_id r = u_id u \<and> us_revoked_at r = None) (revoke now ''account_deactivated'')) (\<lambda>_.
       ebind (add_audit (user_audit (u_id u) ''ACCOUNT_DEACTIVATED'' (Some (JObj [(''self_service'', JBool True)])))) (\<lambda>_.
       commit)))))"

text \<open>
  The confirmation is compared after \<open>strip().casefold()\<close> with the German word for "delete"
  (\<open>DELETE_WORD\<close>, as code points): the characters that fold to the ones of this word are its
  letters in both cases and the long s.
\<close>

definition fold_point :: "nat \<Rightarrow> nat" where
  "fold_point p = (if 65 \<le> p \<and> p \<le> 90 then p + 32 else if p = 214 then 246 else if p = 383 then 115 else p)"

definition DELETE_WORD :: "nat list" where
  "DELETE_WORD = [108, 246, 115, 99, 104, 101, 110]"

definition confirms_deletion :: "string \<Rightarrow> bool" where
  "confirms_deletion s = (map fold_point (code_points (py_strip s)) = DELETE_WORD)"

text \<open>Deleting the user row: the foreign keys cascade, those of the audit log are set to null.\<close>

definition cascade_delete :: "uuid \<Rightarrow> db \<Rightarrow> db" where
  "cascade_delete i d =
     (let challenges = map mc_id (filter (\<lambda>r. mc_user_id r = i) (mfa_challenges d)) in
      d\<lparr>users := filter (\<lambda>u. u_id u \<noteq> i) (users d),
        sessions := filter (\<lambda>r. us_user_id r \<noteq> i) (sessions d),
        verification_tokens := filter (\<lambda>r. vt_user_id r \<noteq> i) (verification_tokens d),
        reset_tokens := filter (\<lambda>r. prt_user_id r \<noteq> i) (reset_tokens d),
        audit_logs := map (\<lambda>a. a\<lparr>
            al_actor_user_id := (if al_actor_user_id a = Some i then None else al_actor_user_id a),
            al_target_user_id := (if al_target_user_id a = Some i then None else al_target_user_id a)\<rparr>) (audit_logs d),
        mfa_methods := filter (\<lambda>r. mm_user_id r \<noteq> i) (mfa_methods d),
        recovery_codes := filter (\<lambda>r. mrc_user_id r \<noteq> i) (recovery_codes d),
        mfa_challenges := filter (\<lambda>r. mc_user_id r \<noteq> i) (mfa_challenges d),
        credentials := filter (\<lambda>r. wc_user_id r \<noteq> i) (credentials d),
        webauthn_challenges := filter (\<lambda>r. wac_user_id r \<noteq> Some i \<and>
            (case wac_mfa_challenge_id r of None \<Rightarrow> True | Some m \<Rightarrow> m \<notin> set challenges)) (webauthn_challenges d),
        oauth_accounts := filter (\<lambda>r. oa_user_id r \<noteq> i) (oauth_accounts d)\<rparr>)"

definition check_delete_credentials ::
    "auth_env \<Rightarrow> user \<Rightarrow> string option \<Rightarrow> int option \<Rightarrow> int \<Rightarrow> (world, unit) op" where
  "check_delete_credentials env u current_password authenticated_at recent_auth_seconds =
     (if truthy (u_password_hash u)
      then eensure (truthy current_password \<and> verify_password env (the current_password) (the (u_password_hash u)))
             (http_error 403 ''INVALID_CURRENT_PASSWORD'')
      else
        ebind (utcnow env) (\<lambda>now.
        eensure (case authenticated_at of None \<Rightarrow> False | Some t \<Rightarrow> \<not> now - t > microseconds recent_auth_seconds)
          (http_error 403 ''RECENT_AUTH_REQUIRED'')))"

definition delete_own_account ::
    "auth_env \<Rightarrow> uuid \<Rightarrow> string \<Rightarrow> string option \<Rightarrow> int option \<Rightarrow> int \<Rightarrow> (world, string option) op" where
  "delete_own_account env user_id confirmation_text current_password authenticated_at recent_auth_seconds =
     ebind (eensure (confirms_deletion confirmation_text) (http_error 422 ''INVALID_DELETE_CONFIRMATION'')) (\<lambda>_.
     ebind (lock_user_and_protect_last_superuser user_id) (\<lambda>u.
     ebind (check_delete_credentials env u current_password authenticated_at recent_auth_seconds) (\<lambda>_.
     ebind (statement (\<lambda>d. d\<lparr>audit_logs := update_where (\<lambda>a. al_actor_user_id a = Some (u_id u))
         (\<lambda>a. a\<lparr>al_actor_user_id := None\<rparr>) (audit_logs d)\<rparr>)) (\<lambda>_.
     ebind (statement (\<lambda>d. d\<lparr>audit_logs := update_where (\<lambda>a. al_target_user_id a = Some (u_id u))
         (\<lambda>a. a\<lparr>al_target_user_id := None\<rparr>) (audit_logs d)\<rparr>)) (\<lambda>_.
     ebind (statement (\<lambda>d. d\<lparr>
         oauth_accounts := filter (\<lambda>r. oa_user_id r \<noteq> u_id u) (oauth_accounts d),
         sessions := filter (\<lambda>r. us_user_id r \<noteq> u_id u) (sessions d),
         reset_tokens := filter (\<lambda>r. prt_user_id r \<noteq> u_id u) (reset_tokens d),
         verification_tokens := filter (\<lambda>r. vt_user_id r \<noteq> u_id u) (verification_tokens d)\<rparr>)) (\<lambda>_.
     ebind (add_audit \<lparr>al_actor_user_id = None, al_target_user_id = None, al_action = ''ACCOUNT_DELETED'',
         al_resource_type = Some ''USER'', al_resource_id = Some (u_id u),
         al_event_metadata = Some (JObj [(''self_service'', JBool True)])\<rparr>) (\<lambda>_.
     ebind (statement (cascade_delete (u_id u))) (\<lambda>_.
     ebind commit (\<lambda>_.
     eret (u_avatar_url u))))))))))"

section \<open>The user of a request\<close>

definition access_cookie :: "auth_env \<Rightarrow> request \<Rightarrow> string option" where
  "access_cookie env rq = dict_get (rq_cookies rq) (auth_access_cookie_name (conf env))"

definition get_optional_user :: "auth_env \<Rightarrow> request \<Rightarrow> (world, user option) op" where
  "get_optional_user env rq =
     (case access_cookie env rq of
        None \<Rightarrow> eret None
      | Some token \<Rightarrow>
          if token = [] then eret None
          else
            ebind (ecatch (ebind (decode_jwt env token ''access'') (\<lambda>p. eret (Some p)))
                (\<lambda>e. if is_PyJWTError e then eret None else eraise e)) (\<lambda>decoded.
            case decoded of
              None \<Rightarrow> eret None
            | Some payload \<Rightarrow>
                ebind (get_user_by_id (py_str (get_or payload ''sub'' (JStr [])))) (\<lambda>found.
                eret (case found of None \<Rightarrow> None | Some u \<Rightarrow> if u_is_active u then Some u else None))))"

definition get_current_user :: "auth_env \<Rightarrow> request \<Rightarrow> (world, user) op" where
  "get_current_user env rq =
     ebind (eensure (truthy (access_cookie env rq)) (http_error 401 ''AUTH_REQUIRED'')) (\<lambda>_.
     ebind (ecatch (decode_jwt env (the (access_cookie env rq)) ''access'') (\<lambda>e.
         if exn_class e = ExpiredSignatureError then eraise (http_error 401 ''ACCESS_TOKEN_EXPIRED'')
         else if is_PyJWTError e then eraise (http_error 401 ''ACCESS_TOKEN_INVALID'')
         else eraise e)) (\<lambda>payload.
     ebind (get_user_by_id (py_str (get_or payload ''sub'' (JStr [])))) (\<lambda>found.
     case found of
       None \<Rightarrow> eraise (http_error 401 ''AUTH_REQUIRED'')
     | Some u \<Rightarrow> if \<not> u_is_active u then eraise (inactive_account_error u) else eret u)))"

definition get_current_active_user :: "auth_env \<Rightarrow> request \<Rightarrow> (world, user) op" where
  "get_current_active_user env rq =
     ebind (get_current_user env rq) (\<lambda>u.
     ebind (eensure (u_is_active u) (http_error 403 ''ACCOUNT_INACTIVE'')) (\<lambda>_.
     eret u))"

definition get_csrf_protected_active_user :: "auth_env \<Rightarrow> request \<Rightarrow> (world, user) op" where
  "get_csrf_protected_active_user env rq =
     ebind (get_current_active_user env rq) (\<lambda>u.
     ebind (elift (validate_csrf env rq)) (\<lambda>_.
     eret u))"

definition get_verified_user :: "auth_env \<Rightarrow> request \<Rightarrow> (world, user) op" where
  "get_verified_user env rq =
     ebind (get_current_active_user env rq) (\<lambda>u.
     ebind (elift (validate_csrf env rq)) (\<lambda>_.
     ebind (eensure (u_is_verified u) (http_error 403 ''EMAIL_NOT_VERIFIED'')) (\<lambda>_.
     eret u)))"

definition require_recent_auth :: "auth_env \<Rightarrow> request \<Rightarrow> (world, unit) op" where
  "require_recent_auth env rq =
     ebind (ecatch (decode_jwt env (case access_cookie env rq of None \<Rightarrow> [] | Some t \<Rightarrow> t) ''access'')
         (\<lambda>e. eraise (http_error 401 ''MFA_REAUTH_REQUIRED''))) (\<lambda>payload.
     case claimed_auth_time payload of
       None \<Rightarrow> eraise (http_error 401 ''MFA_REAUTH_REQUIRED'')
     | Some auth_time \<Rightarrow>
         ebind (utcnow env) (\<lambda>now.
         eensure (\<not> timestamp now - auth_time > reauth_max_age_seconds (conf env))
           (http_error 401 ''MFA_REAUTH_REQUIRED'')))"

end
