(* ===== verification/Rate_Limit.thy ===== *)
theory Rate_Limit
  imports Auth_Base
begin

text \<open>
  \<open>web/backend/app/auth/services/rate_limit.py\<close>: fixed windows per key, in memory (a bounded
  ordered dictionary with the least recently used key first) or in Redis, whose script is a
  function of the environment. Monotonic time is in microseconds.
\<close>

definition trusted_proxy_list :: "settings \<Rightarrow> string list" where
  "trusted_proxy_list c = filter (\<lambda>v. v \<noteq> []) (map py_strip (py_split CHR '','' (trusted_proxies c)))"

definition client_ip :: "auth_env \<Rightarrow> request \<Rightarrow> string" where
  "client_ip env rq =
     (let peer = (case rq_client rq of None \<Rightarrow> ''unknown'' | Some h \<Rightarrow> h) in
      case ip_address env peer of
        None \<Rightarrow> peer
      | Some peer_address \<Rightarrow>
          if \<not> list_ex (\<lambda>network. ip_in_network env network peer_address = Some True) (trusted_proxy_list (conf env))
          then peer
          else
            let forwarded = (case dict_get (rq_headers rq) ''x-forwarded-for'' of None \<Rightarrow> [] | Some h \<Rightarrow> h);
                candidate = py_strip (hd (py_split CHR '','' forwarded))
            in case ip_address env candidate of None \<Rightarrow> peer | Some canonical \<Rightarrow> canonical)"

definition rate_limit_key :: "auth_env \<Rightarrow> request \<Rightarrow> string \<Rightarrow> string option \<Rightarrow> string" where
  "rate_limit_key env rq scope discriminator =
     (let ip = client_ip env rq;
          who = (if truthy discriminator then ip @ '':'' @ py_lower (py_strip (the discriminator)) else ip)
      in scope @ '':'' @ sha256_hex env who)"

definition rate_limit_error :: "string \<Rightarrow> exn" where
  "rate_limit_error code = http_error 429 code"

text \<open>One check against the ordered dictionary: the new dictionary, the count and the seconds to wait.\<close>

definition memory_check ::
    "nat \<Rightarrow> int \<Rightarrow> string \<Rightarrow> int \<Rightarrow> (string \<times> memory_window) list \<Rightarrow> (string \<times> memory_window) list \<times> nat \<times> int" where
  "memory_check max_keys now key window ws =
     (let alive = filter (\<lambda>(name, v). \<not> mw_expires_at v \<le> now) ws;
          current = (case dict_get alive key of
              None \<Rightarrow> \<lparr>mw_count = 0, mw_expires_at = now + microseconds window\<rparr> | Some v \<Rightarrow> v);
          counted = current\<lparr>mw_count := mw_count current + 1\<rparr>;
          moved = filter (\<lambda>(name, v). name \<noteq> key) alive @ [(key, counted)]
      in (drop (length moved - max_keys) moved, mw_count counted,
          max 1 ((mw_expires_at counted - now + 999000) div 1000000)))"

definition check_memory :: "auth_env \<Rightarrow> string \<Rightarrow> int \<Rightarrow> (world, int \<times> int) op" where
  "check_memory env key window =
     ebind (time_monotonic env) (\<lambda>now.
     ebind (eget (\<lambda>w. memory_check (rate_limit_memory_max_keys (conf env)) now key window (memory_windows w))) (\<lambda>(ws, count, retry_after).
     ebind (emodify (\<lambda>w. w\<lparr>memory_windows := ws\<rparr>)) (\<lambda>_.
     eret (int count, retry_after))))"

definition check_redis :: "auth_env \<Rightarrow> string \<Rightarrow> int \<Rightarrow> (world, int \<times> int) op" where
  "check_redis env key window =
     ebind (eensure (redis_enabled (conf env)) (Raise ConnectionError (Msg ''unavailable''))) (\<lambda>_.
     ebind (draw (\<lambda>n. redis_eval env n (cache_prefix (conf env) @ '':rate-limit:'' @ key) window)) (\<lambda>result.
     ebind (elift result) (\<lambda>(count, ttl).
     eret (count, max 1 ttl))))"

definition default_or :: "int option \<Rightarrow> int \<Rightarrow> int" where
  "default_or v d = (case v of None \<Rightarrow> d | Some x \<Rightarrow> x)"

definition check_rate_limit ::
    "auth_env \<Rightarrow> string \<Rightarrow> int option \<Rightarrow> int option \<Rightarrow> string option \<Rightarrow> string \<Rightarrow> (world, unit) op" where
  "check_rate_limit env key attempts window_seconds scope code =
     (let c = conf env;
          limit = default_or attempts (auth_rate_limit_attempts c);
          window = default_or window_seconds (auth_rate_limit_window_seconds c);
          scoped_key = (if truthy scope then the scope @ '':'' @ key else key)
      in
     ebind (ecatch (if auth_rate_limit_backend c = ''redis'' then check_redis env scoped_key window
                    else check_memory env scoped_key window)
         (\<lambda>e. if rate_limit_fail_closed c \<or> production c
              then eraise (http_error 503 ''RATE_LIMIT_UNAVAILABLE'')
              else check_memory env scoped_key window)) (\<lambda>(count, retry_after).
     eensure (\<not> limit < count) (rate_limit_error code)))"

definition reset_memory_rate_limits :: "(world, unit) op" where
  "reset_memory_rate_limits = emodify (\<lambda>w. w\<lparr>memory_windows := []\<rparr>)"

end
