(* ===== verification/Auth_Api.thy ===== *)
theory Auth_Api
  imports Mfa_Service Account_Service Rate_Limit
begin

text \<open>
  The request handlers of \<open>web/backend/app/auth/api.py\<close> and \<open>users_api.py\<close> for sign-up, login,
  sessions, e-mail verification, passwords, second factors and the account. Dependencies
  (\<open>get_current_active_user\<close>) run before the body, as FastAPI runs them.
\<close>

definition cookie_of :: "request \<Rightarrow> string \<Rightarrow> string option" where
  "cookie_of rq name = dict_get (rq_cookies rq) name"

definition fingerprint :: "auth_env \<Rightarrow> string \<Rightarrow> string" where
  "fingerprint env token = take 24 (hash_token env token)"

definition limited :: "auth_env \<Rightarrow> string \<Rightarrow> int \<Rightarrow> int \<Rightarrow> (world, unit) op" where
  "limited env key attempts seconds = check_rate_limit env key (Some attempts) (Some seconds) None ''RATE_LIMITED''"

definition post_signup ::
    "auth_env \<Rightarrow> rival \<Rightarrow> request \<Rightarrow> string \<Rightarrow> string \<Rightarrow> string \<Rightarrow> string \<Rightarrow> (world, user \<times> string) op" where
  "post_signup env rival rq email pw first_name last_name =
     ebind (limited env (rate_limit_key env rq ''signup'' None) 10 3600) (\<lambda>_.
     ebind (limited env (rate_limit_key env rq ''signup-account'' (Some email)) 3 3600) (\<lambda>_.
     ebind (signup env rival email pw first_name last_name) (\<lambda>u.
     ebind (issue_session env u rq None) (\<lambda>csrf.
     eret (u, csrf)))))"

text \<open>A refresh either renews the session or answers with the failure and clears the cookies.\<close>

datatype refresh_answer = Refreshed user string | Refresh_failure exn

definition refresh_failure :: "auth_env \<Rightarrow> exn \<Rightarrow> (world, refresh_answer) op" where
  "refresh_failure env e = ebind (clear_auth_cookies env) (\<lambda>_. eret (Refresh_failure e))"

definition clears_session :: "exn \<Rightarrow> bool" where
  "clears_session e =
     (case e of
        Raise HTTPException (Http st code) \<Rightarrow> st = 401 \<or> code \<in> {''ACCOUNT_SELF_DEACTIVATED'', ''ACCOUNT_DISABLED''}
      | _ \<Rightarrow> False)"

definition post_refresh :: "auth_env \<Rightarrow> request \<Rightarrow> (world, refresh_answer) op" where
  "post_refresh env rq =
     ebind (elift (validate_refresh_origin env rq)) (\<lambda>_.
     let token = cookie_of rq (auth_refresh_cookie_name (conf env)) in
     if \<not> truthy token then refresh_failure env (http_error 401 ''REFRESH_TOKEN_MISSING'')
     else
       ebind (check_rate_limit env (rate_limit_key env rq ''refresh'' (Some (fingerprint env (the token))))
           (Some (refresh_rate_limit_attempts (conf env))) (Some (refresh_rate_limit_window_seconds (conf env)))
           None ''REFRESH_RATE_LIMITED'') (\<lambda>_.
       ecatch (ebind (refresh_session env (the token) rq) (\<lambda>(u, csrf). eret (Refreshed u csrf)))
         (\<lambda>e. if clears_session e then refresh_failure env e else eraise e)))"

definition post_logout :: "auth_env \<Rightarrow> request \<Rightarrow> (world, unit) op" where
  "post_logout env rq =
     ebind (elift (validate_csrf env rq)) (\<lambda>_.
     ebind (revoke_current_session env (cookie_of rq (auth_refresh_cookie_name (conf env)))) (\<lambda>_.
     clear_auth_cookies env))"

definition post_logout_all :: "auth_env \<Rightarrow> request \<Rightarrow> (world, unit) op" where
  "post_logout_all env rq =
     ebind (get_csrf_protected_active_user env rq) (\<lambda>u.
     ebind (revoke_all_sessions env (u_id u) True ''logout_all'') (\<lambda>_.
     clear_auth_cookies env))"

definition get_auth_session :: "auth_env \<Rightarrow> request \<Rightarrow> (world, user \<times> string) op" where
  "get_auth_session env rq =
     ebind (get_current_active_user env rq) (\<lambda>u.
     let c = conf env; present = cookie_of rq (auth_csrf_cookie_name c) in
     if truthy present then eret (u, the present)
     else
       ebind (create_csrf_token env) (\<lambda>csrf.
       ebind (set_cookie \<lparr>ck_name = auth_csrf_cookie_name c, ck_value = Some csrf, ck_httponly = False,
           ck_path = auth_cookie_path c, ck_max_age = refresh_token_expire_days c * 86400\<rparr>) (\<lambda>_.
       eret (u, csrf))))"

definition post_verify_email :: "auth_env \<Rightarrow> string \<Rightarrow> (world, string) op" where
  "post_verify_email env token =
     ebind (verify_email env token) (\<lambda>result.
     case result of Verification_result st changed i \<Rightarrow>
       eret (if st = ''already_verified'' then ''EMAIL_ALREADY_VERIFIED'' else ''EMAIL_VERIFIED''))"

definition post_resend_verification :: "auth_env \<Rightarrow> request \<Rightarrow> (world, string) op" where
  "post_resend_verification env rq =
     ebind (get_csrf_protected_active_user env rq) (\<lambda>u.
     ebind (check_rate_limit env (''resend-verification:'' @ uuid_str (u_id u)) None None None ''RATE_LIMITED'') (\<lambda>_.
     ebind (resend_verification env u) (\<lambda>sent.
     eret (if sent then ''VERIFICATION_EMAIL_SENT'' else ''EMAIL_ALREADY_VERIFIED''))))"

definition post_forgot_password :: "auth_env \<Rightarrow> request \<Rightarrow> string \<Rightarrow> (world, unit) op" where
  "post_forgot_password env rq email =
     ebind (check_rate_limit env (rate_limit_key env rq ''forgot-password'' (Some email)) None None None ''RATE_LIMITED'') (\<lambda>_.
     forgot_password env email rq)"

definition post_reset_password :: "auth_env \<Rightarrow> request \<Rightarrow> string \<Rightarrow> string \<Rightarrow> (world, unit) op" where
  "post_reset_password env rq token pw =
     ebind (check_rate_limit env (rate_limit_key env rq ''reset-password'' (Some (fingerprint env token))) None None None ''RATE_LIMITED'') (\<lambda>_.
     ebind (reset_password env token pw) (\<lambda>_.
     eret ()))"

definition post_change_password :: "auth_env \<Rightarrow> request \<Rightarrow> string \<Rightarrow> string \<Rightarrow> (world, unit) op" where
  "post_change_password env rq current_password new_password =
     ebind (get_csrf_protected_active_user env rq) (\<lambda>u.
     ebind (change_password env u current_password new_password) (\<lambda>_.
     clear_auth_cookies env))"

definition mfa_challenge_token :: "auth_env \<Rightarrow> request \<Rightarrow> string option \<Rightarrow> exn + string" where
  "mfa_challenge_token env rq supplied =
     (let token = (if truthy supplied then supplied else cookie_of rq (auth_mfa_cookie_name (conf env)))
      in rbind (ensure (truthy token) (http_error 400 ''MFA_CHALLENGE_MISSING'')) (\<lambda>_. Inr (the token)))"

definition clear_mfa_cookie :: "auth_env \<Rightarrow> (world, unit) op" where
  "clear_mfa_cookie env = delete_cookie (auth_mfa_cookie_name (conf env)) ''/api/v1/auth/mfa''"

text \<open>A login ends with a session or, when the user has a second factor, with a challenge.\<close>

datatype login_answer = Logged_in user string | Challenge string string string "string list" int

definition post_login :: "auth_env \<Rightarrow> request \<Rightarrow> string \<Rightarrow> string \<Rightarrow> (world, login_answer) op" where
  "post_login env rq email pw =
     ebind (check_rate_limit env (rate_limit_key env rq ''login'' (Some email)) None None None ''RATE_LIMITED'') (\<lambda>_.
     ebind (authenticate env email pw) (\<lambda>u.
     ebind (available_mfa_methods (u_id u)) (\<lambda>methods.
     if methods \<noteq> []
     then ebind (create_login_challenge env u rq ''password'' None) (\<lambda>(token, expires_in).
          ebind (elift (preferred_mfa_method methods)) (\<lambda>preferred.
          eret (Challenge token (if ''passkey'' \<in> set methods then ''passkey'' else ''totp'') preferred methods expires_in)))
     else
       ebind (issue_session env u rq (Some [''pwd''])) (\<lambda>csrf.
       eret (Logged_in u csrf)))))"

definition get_mfa_challenge :: "auth_env \<Rightarrow> request \<Rightarrow> (world, challenge_details) op" where
  "get_mfa_challenge env rq =
     ebind (elift (mfa_challenge_token env rq None)) (\<lambda>token.
     ebind (limited env (rate_limit_key env rq ''mfa-challenge'' (Some (fingerprint env token))) 10 300) (\<lambda>_.
     login_challenge_details env token))"

definition primary_amr :: "string \<Rightarrow> string" where
  "primary_amr primary_method = (if py_startswith primary_method ''oauth'' then ''oauth'' else ''pwd'')"

definition post_mfa_verify ::
    "auth_env \<Rightarrow> request \<Rightarrow> string option \<Rightarrow> string option \<Rightarrow> string option \<Rightarrow> (world, user \<times> string) op" where
  "post_mfa_verify env rq supplied code recovery_code =
     ebind (elift (mfa_challenge_token env rq supplied)) (\<lambda>token.
     ebind (check_rate_limit env (rate_limit_key env rq ''mfa-verify'' (Some (fingerprint env token)))
         (Some (mfa_max_attempts (conf env))) (Some (mfa_challenge_expire_seconds (conf env))) None ''MFA_TOO_MANY_ATTEMPTS'') (\<lambda>_.
     ebind (verify_login_challenge env token code recovery_code) (\<lambda>(u, factor, primary_method).
     ebind (issue_session env u rq (Some [primary_amr primary_method, if factor = ''totp'' then ''otp'' else ''recovery''])) (\<lambda>csrf.
     ebind (if factor = ''recovery'' then deliver env (Mfa_security_email (u_email u) ''recovery_used'') else eret ()) (\<lambda>_.
     ebind (clear_mfa_cookie env) (\<lambda>_.
     eret (u, csrf)))))))"

definition get_mfa_security :: "auth_env \<Rightarrow> request \<Rightarrow> (world, security_state) op" where
  "get_mfa_security env rq = ebind (get_current_active_user env rq) (\<lambda>u. security_status (u_id u))"

definition post_totp_setup :: "auth_env \<Rightarrow> request \<Rightarrow> (world, string \<times> string) op" where
  "post_totp_setup env rq =
     ebind (get_csrf_protected_active_user env rq) (\<lambda>u.
     ebind (require_recent_auth env rq) (\<lambda>_.
     ebind (limited env (''mfa-setup:'' @ uuid_str (u_id u)) 3 600) (\<lambda>_.
     start_totp_setup env u)))"

definition post_totp_confirm :: "auth_env \<Rightarrow> request \<Rightarrow> string \<Rightarrow> (world, string list) op" where
  "post_totp_confirm env rq code =
     ebind (get_csrf_protected_active_user env rq) (\<lambda>u.
     ebind (limited env (''mfa-confirm:'' @ uuid_str (u_id u)) 5 600) (\<lambda>_.
     ebind (confirm_totp_setup env u code) (\<lambda>codes.
     ebind (revoke_other_sessions env (u_id u) rq ''mfa_enabled'') (\<lambda>_.
     ebind (deliver env (Mfa_security_email (u_email u) ''enabled'')) (\<lambda>_.
     eret codes)))))"

definition post_recovery_codes ::
    "auth_env \<Rightarrow> request \<Rightarrow> string option \<Rightarrow> string option \<Rightarrow> string option \<Rightarrow> (world, string list) op" where
  "post_recovery_codes env rq current_password code recovery_code =
     ebind (get_csrf_protected_active_user env rq) (\<lambda>u.
     ebind (limited env (''mfa-recovery-regenerate:'' @ uuid_str (u_id u)) 3 600) (\<lambda>_.
     ebind (regenerate_recovery_codes env u current_password code recovery_code) (\<lambda>codes.
     ebind (revoke_other_sessions env (u_id u) rq ''mfa_recovery_regenerated'') (\<lambda>_.
     ebind (deliver env (Mfa_security_email (u_email u) ''recovery_regenerated'')) (\<lambda>_.
     eret codes)))))"

definition delete_totp ::
    "auth_env \<Rightarrow> request \<Rightarrow> string option \<Rightarrow> string option \<Rightarrow> string option \<Rightarrow> (world, unit) op" where
  "delete_totp env rq current_password code recovery_code =
     ebind (get_csrf_protected_active_user env rq) (\<lambda>u.
     ebind (limited env (''mfa-disable:'' @ uuid_str (u_id u)) 3 600) (\<lambda>_.
     ebind (disable_mfa env u current_password code recovery_code) (\<lambda>_.
     ebind (clear_auth_cookies env) (\<lambda>_.
     deliver env (Mfa_security_email (u_email u) ''disabled'')))))"

section \<open>The account (users\_api.py)\<close>

text \<open>
  \<open>PATCH /users/me\<close> sets the fields that were sent; \<open>None\<close> was not sent, \<open>Some None\<close> was sent as
  null, which the columns of the first and last name refuse when the session is flushed.
\<close>

definition patch_user_me ::
    "auth_env \<Rightarrow> request \<Rightarrow> string option option \<Rightarrow> string option option \<Rightarrow> string option option \<Rightarrow> (world, unit) op" where
  "patch_user_me env rq first_name last_name display_name =
     ebind (get_csrf_protected_active_user env rq) (\<lambda>u.
     if first_name = Some None \<or> last_name = Some None then eraise (Raise IntegrityError (Msg ''not null''))
     else
       ebind (set_user (u_id u) (\<lambda>q. q\<lparr>
           u_first_name := (case first_name of Some (Some v) \<Rightarrow> v | _ \<Rightarrow> u_first_name q),
           u_last_name := (case last_name of Some (Some v) \<Rightarrow> v | _ \<Rightarrow> u_last_name q),
           u_display_name := (case display_name of Some v \<Rightarrow> v | None \<Rightarrow> u_display_name q)\<rparr>)) (\<lambda>_.
       commit))"

definition access_authenticated_at :: "auth_env \<Rightarrow> request \<Rightarrow> (world, int option) op" where
  "access_authenticated_at env rq =
     (case access_cookie env rq of
        None \<Rightarrow> eret None
      | Some token \<Rightarrow>
          if token = [] then eret None
          else ecatch (ebind (decode_jwt env token ''access'') (\<lambda>payload.
                 eret (map_option microseconds (claimed_auth_time payload))))
               (\<lambda>e. if is_PyJWTError e then eret None else eraise e))"

definition post_deactivate_user_me :: "auth_env \<Rightarrow> request \<Rightarrow> (world, unit) op" where
  "post_deactivate_user_me env rq =
     ebind (get_csrf_protected_active_user env rq) (\<lambda>u.
     ebind (deactivate_own_account env (u_id u)) (\<lambda>_.
     clear_auth_cookies env))"

definition delete_user_me :: "auth_env \<Rightarrow> request \<Rightarrow> string \<Rightarrow> string option \<Rightarrow> (world, unit) op" where
  "delete_user_me env rq confirmation_text current_password =
     ebind (get_csrf_protected_active_user env rq) (\<lambda>u.
     ebind (access_authenticated_at env rq) (\<lambda>authenticated_at.
     ebind (delete_own_account env (u_id u) confirmation_text current_password authenticated_at
         (account_deletion_recent_auth_seconds (conf env))) (\<lambda>_.
     clear_auth_cookies env)))"

text \<open>A handler whose answer is not looked at.\<close>

definition ignore :: "(world, 'a) op \<Rightarrow> (world, unit) op" where
  "ignore m = ebind m (\<lambda>_. eret ())"

end
