(* ===== verification/Passkey_Service.thy ===== *)
theory Passkey_Service
  imports Auth_Service
begin

text \<open>
  Passkeys, \<open>web/backend/app/auth/services/passkey_service.py\<close>: the WebAuthn ceremonies for
  registration, passwordless login, re-authentication and as second factor of a login, and the
  management of a user's passkeys. The cryptography is py\_webauthn's (\<open>verify_registration_response\<close>,
  \<open>verify_authentication_response\<close>); a \<open>WebAuthnException\<close> carries the name of its class. A
  \<open>credential_payload\<close> is the JSON object a client sends.
\<close>

section \<open>Ceremonies\<close>

record ceremony_options =
  co_token :: string
  co_options :: json

definition passkey_audit :: "uuid option \<Rightarrow> string \<Rightarrow> (string \<times> json) list \<Rightarrow> audit_log" where
  "passkey_audit i action md = \<lparr>al_actor_user_id = i, al_target_user_id = i, al_action = action,
     al_resource_type = Some ''USER'', al_resource_id = i,
     al_event_metadata = (if md = [] then None else Some (JObj md))\<rparr>"

definition new_ceremony ::
    "auth_env \<Rightarrow> request \<Rightarrow> string \<Rightarrow> string \<Rightarrow> uuid option \<Rightarrow> uuid option \<Rightarrow> string \<Rightarrow> int \<Rightarrow> uuid \<Rightarrow> webauthn_challenge" where
  "new_ceremony env rq purpose challenge user_id mfa_challenge_id token now i =
     \<lparr>wac_id = i, wac_user_id = user_id, wac_mfa_challenge_id = mfa_challenge_id, wac_token_hash = hash_token env token,
      wac_challenge = challenge, wac_purpose = purpose,
      wac_expires_at = now + microseconds (webauthn_challenge_expire_seconds (conf env)),
      wac_used_at = None, wac_invalidated_at = None, wac_attempt_count = 0,
      wac_ip_address = rq_client rq, wac_user_agent = dict_get (rq_headers rq) ''user-agent''\<rparr>"

definition create_ceremony ::
    "auth_env \<Rightarrow> request \<Rightarrow> string \<Rightarrow> string \<Rightarrow> uuid option \<Rightarrow> uuid option \<Rightarrow> (world, string) op" where
  "create_ceremony env rq purpose challenge user_id mfa_challenge_id =
     ebind (generate_token env) (\<lambda>token.
     ebind (utcnow env) (\<lambda>now.
     ebind (draw (uuid4 env)) (\<lambda>i.
     ebind (statement (\<lambda>d. d\<lparr>webauthn_challenges := webauthn_challenges d @
         [new_ceremony env rq purpose challenge user_id mfa_challenge_id token now i]\<rparr>)) (\<lambda>_.
     eret token))))"

definition update_ceremony :: "webauthn_challenge \<Rightarrow> (webauthn_challenge \<Rightarrow> webauthn_challenge) \<Rightarrow> (world, unit) op" where
  "update_ceremony c f = statement (\<lambda>d. d\<lparr>webauthn_challenges :=
     update_where (\<lambda>r. wac_id r = wac_id c) f (webauthn_challenges d)\<rparr>)"

definition ceremony_by_token :: "auth_env \<Rightarrow> string \<Rightarrow> (world, webauthn_challenge option) op" where
  "ceremony_by_token env token = query (\<lambda>d. find (\<lambda>c. wac_token_hash c = hash_token env token) (webauthn_challenges d))"

definition locked_ceremony :: "auth_env \<Rightarrow> string \<Rightarrow> string \<Rightarrow> (world, webauthn_challenge) op" where
  "locked_ceremony env token purpose =
     ebind (ceremony_by_token env token) (\<lambda>found.
     case found of
       None \<Rightarrow> eraise (http_error 400 ''PASSKEY_CHALLENGE_INVALID'')
     | Some c \<Rightarrow>
         ebind (eensure (wac_purpose c = purpose \<and> wac_invalidated_at c = None) (http_error 400 ''PASSKEY_CHALLENGE_INVALID'')) (\<lambda>_.
         ebind (eensure (wac_used_at c = None) (http_error 409 ''PASSKEY_CHALLENGE_INVALID'')) (\<lambda>_.
         ebind (utcnow env) (\<lambda>now.
         if wac_expires_at c \<le> now
         then ebind (utcnow env) (\<lambda>now.
              ebind (update_ceremony c (\<lambda>r. r\<lparr>wac_invalidated_at := Some now\<rparr>)) (\<lambda>_.
              ebind commit (\<lambda>_.
              eraise (http_error 400 ''PASSKEY_CHALLENGE_EXPIRED''))))
         else eret c))))"

text \<open>A failed attempt is counted and recorded, then reported.\<close>

definition failed_attempt :: "webauthn_challenge \<Rightarrow> audit_log \<Rightarrow> exn \<Rightarrow> (world, 'a) op" where
  "failed_attempt c a e =
     ebind (update_ceremony c (\<lambda>r. r\<lparr>wac_attempt_count := wac_attempt_count r + 1\<rparr>)) (\<lambda>_.
     ebind (add_audit a) (\<lambda>_.
     ebind commit (\<lambda>_.
     eraise e)))"

definition describe_credential :: "auth_env \<Rightarrow> webauthn_credential \<Rightarrow> credential_descriptor" where
  "describe_credential env r = \<lparr>cdr_id = wc_credential_id r,
     cdr_transports = (case wc_transports r of None \<Rightarrow> None | Some [] \<Rightarrow> None
       | Some vs \<Rightarrow> Some (filter (transport_known env) vs))\<rparr>"

definition verification_failed :: exn where
  "verification_failed = http_error 401 ''PASSKEY_VERIFICATION_FAILED''"

definition credential_key :: "auth_env \<Rightarrow> json \<Rightarrow> exn + string" where
  "credential_key env payload =
     (let raw = get_or payload ''rawId'' JNull;
          encoded = (if json_truthy raw then raw else get_or payload ''id'' JNull)
      in rbind (ensure (is_str encoded) verification_failed) (\<lambda>_.
         rcatch (base64url_to_bytes env encoded) (\<lambda>_. Inl verification_failed)))"

definition user_passkeys :: "uuid \<Rightarrow> db \<Rightarrow> webauthn_credential list" where
  "user_passkeys i d = filter (\<lambda>r. wc_user_id r = i) (credentials d)"

definition has_passkeys :: "uuid \<Rightarrow> (world, bool) op" where
  "has_passkeys user_id = query (\<lambda>d. user_passkeys user_id d \<noteq> [])"

text \<open>\<open>uuid.bytes\<close>.\<close>

fun uuid_bytes :: "uuid \<Rightarrow> string" where
  "uuid_bytes (a # b # s) = char_of (hex_val a * 16 + hex_val b) # uuid_bytes s"
| "uuid_bytes _ = []"

section \<open>Registration\<close>

definition user_display_name :: "user \<Rightarrow> string" where
  "user_display_name u =
     (let full = py_join '' '' (filter (\<lambda>v. v \<noteq> []) [u_first_name u, u_last_name u])
      in if truthy (u_display_name u) then the (u_display_name u) else if full \<noteq> [] then full else u_email u)"

definition registration_options :: "auth_env \<Rightarrow> user \<Rightarrow> request \<Rightarrow> (world, ceremony_options) op" where
  "registration_options env u rq =
     ebind (query (user_passkeys (u_id u))) (\<lambda>rows.
     ebind (draw (token_bytes env)) (\<lambda>challenge.
     ebind (elift (registration_options_json env
         \<lparr>ra_rp_id = webauthn_rp_id (conf env), ra_rp_name = webauthn_rp_name (conf env), ra_user_id = uuid_bytes (u_id u),
          ra_user_name = u_email u, ra_user_display_name = user_display_name u, ra_challenge = challenge,
          ra_timeout = webauthn_timeout_ms (conf env),
          ra_exclude_credentials = map (describe_credential env) rows\<rparr>)) (\<lambda>options.
     ebind (create_ceremony env rq ''passkey_register'' challenge (Some (u_id u)) None) (\<lambda>token.
     ebind (add_audit (passkey_audit (Some (u_id u)) ''PASSKEY_REGISTRATION_STARTED'' [])) (\<lambda>_.
     ebind commit (\<lambda>_.
     eret \<lparr>co_token = token, co_options = options\<rparr>))))))"

text \<open>\<open>type(exc).__name__\<close> of a \<open>WebAuthnException\<close>.\<close>

definition exn_name :: "exn \<Rightarrow> string" where
  "exn_name e = (case e of Raise _ (Msg s) \<Rightarrow> s | _ \<Rightarrow> ''WebAuthnException'')"

definition parsed_aaguid :: "string \<Rightarrow> exn + uuid option" where
  "parsed_aaguid s = (if s = [] then Inr None
     else case uuid_parse s of None \<Rightarrow> Inl (Raise ValueError (Msg ''uuid'')) | Some i \<Rightarrow> Inr (Some i))"

definition payload_response :: "json \<Rightarrow> string \<Rightarrow> exn + json" where
  "payload_response payload k = py_get (get_or payload ''response'' (JObj [])) k JNull"

definition new_passkey :: "uuid \<Rightarrow> uuid \<Rightarrow> verified_registration \<Rightarrow> string \<Rightarrow> uuid option \<Rightarrow> json \<Rightarrow> webauthn_credential" where
  "new_passkey i user_id v name aaguid transports =
     \<lparr>wc_id = i, wc_user_id = user_id, wc_credential_id = vr_credential_id v, wc_public_key = vr_credential_public_key v,
      wc_sign_count = vr_sign_count v, wc_name = name, wc_aaguid = aaguid,
      wc_transports = (case transports of JList vs \<Rightarrow> Some vs | _ \<Rightarrow> None),
      wc_device_type = Some (vr_device_type v), wc_backed_up = Some (vr_backed_up v), wc_last_used_at = None\<rparr>"

definition save_passkey :: "auth_env \<Rightarrow> user \<Rightarrow> webauthn_challenge \<Rightarrow> webauthn_credential \<Rightarrow> (world, webauthn_credential) op" where
  "save_passkey env u c r =
     ebind (utcnow env) (\<lambda>now.
     ebind (update_ceremony c (\<lambda>q. q\<lparr>wac_used_at := Some now\<rparr>)) (\<lambda>_.
     ebind (statement (\<lambda>d. d\<lparr>credentials := credentials d @ [r]\<rparr>)) (\<lambda>_.
     ebind (add_audit (passkey_audit (Some (u_id u)) ''PASSKEY_REGISTERED''
         [(''device_type'', JStr (the (wc_device_type r))), (''backed_up'', JBool (the (wc_backed_up r)))])) (\<lambda>_.
     ebind (ecatch commit (on_class IntegrityError
         (ebind rollback (\<lambda>_.
          ebind (add_audit (passkey_audit (Some (u_id u)) ''PASSKEY_REGISTRATION_FAILED'' [(''reason'', JStr ''duplicate_race'')])) (\<lambda>_.
          ebind commit (\<lambda>_.
          eraise (http_error 409 ''PASSKEY_ALREADY_REGISTERED''))))))) (\<lambda>_.
     eret r)))))"

definition verify_registration ::
    "auth_env \<Rightarrow> user \<Rightarrow> string \<Rightarrow> json \<Rightarrow> string option \<Rightarrow> (world, webauthn_credential) op" where
  "verify_registration env u ceremony_token payload name =
     ebind (locked_ceremony env ceremony_token ''passkey_register'') (\<lambda>c.
     ebind (eensure (wac_user_id c = Some (u_id u)) (http_error 400 ''PASSKEY_CHALLENGE_INVALID'')) (\<lambda>_.
     ebind (ecatch (elift (verify_registration_response env payload (wac_challenge c)
           (webauthn_rp_id (conf env)) (webauthn_origin (conf env))))
         (\<lambda>e. if exn_class e = WebAuthnException
            then failed_attempt c (passkey_audit (Some (u_id u)) ''PASSKEY_REGISTRATION_FAILED'' [(''reason'', JStr (exn_name e))])
                   (http_error 400 ''PASSKEY_VERIFICATION_FAILED'')
            else eraise e)) (\<lambda>v.
     ebind (query (\<lambda>d. list_ex (\<lambda>r. wc_credential_id r = vr_credential_id v) (credentials d))) (\<lambda>taken.
     if taken
     then failed_attempt c (passkey_audit (Some (u_id u)) ''PASSKEY_REGISTRATION_FAILED'' [(''reason'', JStr ''duplicate'')])
            (http_error 409 ''PASSKEY_ALREADY_REGISTERED'')
     else
       ebind (query (\<lambda>d. length (user_passkeys (u_id u) d))) (\<lambda>number.
       ebind (elift (payload_response payload ''transports'')) (\<lambda>transports.
       ebind (elift (parsed_aaguid (vr_aaguid v))) (\<lambda>aaguid.
       ebind (draw (uuid4 env)) (\<lambda>i.
       save_passkey env u c (new_passkey i (u_id u) v
         (py_strip (if truthy name then the name else ''Passkey '' @ py_str_int (int number + 1))) aaguid transports)))))))))"

section \<open>Authentication\<close>

definition authentication_options ::
    "auth_env \<Rightarrow> request \<Rightarrow> uuid option \<Rightarrow> string \<Rightarrow> uuid option \<Rightarrow> (world, ceremony_options) op" where
  "authentication_options env rq user_id purpose mfa_challenge_id =
     ebind (query (\<lambda>d. case user_id of None \<Rightarrow> [] | Some i \<Rightarrow> user_passkeys i d)) (\<lambda>rows.
     ebind (eensure (user_id = None \<or> rows \<noteq> []) (http_error 404 ''PASSKEY_NOT_FOUND'')) (\<lambda>_.
     ebind (draw (token_bytes env)) (\<lambda>challenge.
     ebind (elift (authentication_options_json env
         \<lparr>aa_rp_id = webauthn_rp_id (conf env), aa_challenge = challenge, aa_timeout = webauthn_timeout_ms (conf env),
          aa_allow_credentials = (if rows = [] then None else Some (map (describe_credential env) rows))\<rparr>)) (\<lambda>options.
     ebind (create_ceremony env rq purpose challenge user_id mfa_challenge_id) (\<lambda>token.
     ebind commit (\<lambda>_.
     eret \<lparr>co_token = token, co_options = options\<rparr>))))))"

definition failure_action :: "webauthn_challenge \<Rightarrow> string" where
  "failure_action c = (if wac_purpose c = ''passkey_step_up'' then ''PASSKEY_MFA_FAILED'' else ''PASSKEY_LOGIN_FAILED'')"

text \<open>The passkey and its owner, an active user whom the client's user handle, if sent, names.\<close>

definition passkey_owner ::
    "auth_env \<Rightarrow> webauthn_challenge \<Rightarrow> json \<Rightarrow> uuid option \<Rightarrow> (world, user \<times> webauthn_credential) op" where
  "passkey_owner env c payload expected_user_id =
     ebind (elift (credential_key env payload)) (\<lambda>key.
     ebind (query (\<lambda>d. find (\<lambda>r. wc_credential_id r = key) (credentials d))) (\<lambda>found.
     case found of
       None \<Rightarrow> failed_attempt c (passkey_audit (wac_user_id c) (failure_action c) []) verification_failed
     | Some r \<Rightarrow>
         if expected_user_id \<noteq> None \<and> Some (wc_user_id r) \<noteq> expected_user_id
         then failed_attempt c (passkey_audit (wac_user_id c) (failure_action c) []) verification_failed
         else
           ebind (user_row (wc_user_id r)) (\<lambda>owner.
           case owner of
             None \<Rightarrow> eraise verification_failed
           | Some u \<Rightarrow>
               ebind (eensure (u_is_active u) (inactive_account_error u)) (\<lambda>_.
               ebind (elift (payload_response payload ''userHandle'')) (\<lambda>handle.
               ebind (eensure (json_truthy handle \<longrightarrow> base64url_to_bytes env handle = Inr (uuid_bytes (u_id u)))
                   verification_failed) (\<lambda>_.
               eret (u, r)))))))"

definition update_passkey :: "webauthn_credential \<Rightarrow> (webauthn_credential \<Rightarrow> webauthn_credential) \<Rightarrow> (world, unit) op" where
  "update_passkey r f = statement (\<lambda>d. d\<lparr>credentials := update_where (\<lambda>q. wc_id q = wc_id r) f (credentials d)\<rparr>)"

text \<open>The counter only moves forward; a regression is recorded and does not fail the login.\<close>

definition record_counter :: "user \<Rightarrow> webauthn_credential \<Rightarrow> verified_authentication \<Rightarrow> (world, unit) op" where
  "record_counter u r v =
     (if 0 < wc_sign_count r \<and> va_new_sign_count v \<le> wc_sign_count r
      then add_audit (passkey_audit (Some (u_id u)) ''PASSKEY_COUNTER_REGRESSION''
          [(''previous'', JInt (wc_sign_count r)), (''received'', JInt (va_new_sign_count v)),
           (''device_type'', JStr (va_device_type v))])
      else update_passkey r (\<lambda>q. q\<lparr>wc_sign_count := va_new_sign_count v\<rparr>))"

definition accept_passkey ::
    "auth_env \<Rightarrow> webauthn_challenge \<Rightarrow> user \<Rightarrow> webauthn_credential \<Rightarrow> verified_authentication \<Rightarrow> (world, user) op" where
  "accept_passkey env c u r v =
     ebind (record_counter u r v) (\<lambda>_.
     ebind (utcnow env) (\<lambda>t1.
     ebind (update_passkey r (\<lambda>q. q\<lparr>wc_device_type := Some (va_device_type v), wc_backed_up := Some (va_backed_up v),
         wc_last_used_at := Some t1\<rparr>)) (\<lambda>_.
     ebind (utcnow env) (\<lambda>t2.
     ebind (update_ceremony c (\<lambda>q. q\<lparr>wac_used_at := Some t2\<rparr>)) (\<lambda>_.
     ebind (utcnow env) (\<lambda>t3.
     ebind (set_user (u_id u) (\<lambda>q. q\<lparr>u_last_login_at := Some t3\<rparr>)) (\<lambda>_.
     eret (u\<lparr>u_last_login_at := Some t3\<rparr>))))))))"

definition verify_authentication ::
    "auth_env \<Rightarrow> webauthn_challenge \<Rightarrow> json \<Rightarrow> uuid option \<Rightarrow> (world, user) op" where
  "verify_authentication env c payload expected_user_id =
     ebind (passkey_owner env c payload expected_user_id) (\<lambda>(u, r).
     ebind (ecatch (elift (verify_authentication_response env payload (wac_challenge c)
           (webauthn_rp_id (conf env)) (webauthn_origin (conf env)) (wc_public_key r)))
         (\<lambda>e. if exn_class e = WebAuthnException
            then failed_attempt c (passkey_audit (Some (u_id u)) (failure_action c) [(''reason'', JStr (exn_name e))]) verification_failed
            else eraise e)) (\<lambda>v.
     accept_passkey env c u r v))"

definition verify_passwordless_login :: "auth_env \<Rightarrow> string \<Rightarrow> json \<Rightarrow> (world, user) op" where
  "verify_passwordless_login env ceremony_token payload =
     ebind (locked_ceremony env ceremony_token ''passkey_authenticate'') (\<lambda>c.
     ebind (verify_authentication env c payload None) (\<lambda>u.
     ebind (add_audit (passkey_audit (Some (u_id u)) ''PASSKEY_LOGIN_SUCCESS'' [])) (\<lambda>_.
     ebind commit (\<lambda>_.
     eret u))))"

definition verify_reauthentication :: "auth_env \<Rightarrow> uuid \<Rightarrow> string \<Rightarrow> json \<Rightarrow> (world, user) op" where
  "verify_reauthentication env user_id ceremony_token payload =
     ebind (locked_ceremony env ceremony_token ''passkey_step_up'') (\<lambda>c.
     ebind (eensure (wac_user_id c = Some user_id \<and> wac_mfa_challenge_id c = None) (http_error 400 ''PASSKEY_CHALLENGE_INVALID'')) (\<lambda>_.
     ebind (verify_authentication env c payload (Some user_id)) (\<lambda>u.
     ebind (add_audit (passkey_audit (Some (u_id u)) ''PASSKEY_MFA_SUCCESS'' [(''purpose'', JStr ''reauthentication'')])) (\<lambda>_.
     ebind commit (\<lambda>_.
     eret u)))))"

section \<open>As second factor\<close>

text \<open>The open login challenge of a token, locked.\<close>

definition open_challenge :: "auth_env \<Rightarrow> string \<Rightarrow> (world, mfa_challenge) op" where
  "open_challenge env challenge_token =
     ebind (query (\<lambda>d. find (\<lambda>c. mc_token_hash c = hash_token env challenge_token) (mfa_challenges d))) (\<lambda>found.
     case found of
       None \<Rightarrow> eraise (http_error 400 ''MFA_CHALLENGE_INVALID'')
     | Some m \<Rightarrow>
         ebind (eensure (mc_used_at m = None \<and> mc_invalidated_at m = None) (http_error 400 ''MFA_CHALLENGE_INVALID'')) (\<lambda>_.
         ebind (utcnow env) (\<lambda>now.
         ebind (eensure (\<not> mc_expires_at m \<le> now) (http_error 400 ''MFA_CHALLENGE_INVALID'')) (\<lambda>_.
         eret m))))"

definition mfa_options :: "auth_env \<Rightarrow> request \<Rightarrow> string \<Rightarrow> (world, ceremony_options) op" where
  "mfa_options env rq challenge_token =
     ebind (open_challenge env challenge_token) (\<lambda>m.
     authentication_options env rq (Some (mc_user_id m)) ''passkey_step_up'' (Some (mc_id m)))"

definition verify_mfa :: "auth_env \<Rightarrow> string \<Rightarrow> string \<Rightarrow> json \<Rightarrow> (world, user \<times> string) op" where
  "verify_mfa env challenge_token ceremony_token payload =
     ebind (open_challenge env challenge_token) (\<lambda>m.
     ebind (locked_ceremony env ceremony_token ''passkey_step_up'') (\<lambda>c.
     ebind (eensure (wac_mfa_challenge_id c = Some (mc_id m) \<and> wac_user_id c = Some (mc_user_id m))
         (http_error 400 ''PASSKEY_CHALLENGE_INVALID'')) (\<lambda>_.
     ebind (verify_authentication env c payload (Some (mc_user_id m))) (\<lambda>u.
     ebind (utcnow env) (\<lambda>now.
     ebind (statement (\<lambda>d. d\<lparr>mfa_challenges := update_where (\<lambda>q. mc_id q = mc_id m) (\<lambda>q. q\<lparr>mc_used_at := Some now\<rparr>)
         (mfa_challenges d)\<rparr>)) (\<lambda>_.
     ebind (add_audit (passkey_audit (Some (u_id u)) ''PASSKEY_MFA_SUCCESS'' [(''primary'', JStr (mc_primary_method m))])) (\<lambda>_.
     ebind commit (\<lambda>_.
     eret (u, mc_primary_method m)))))))))"

section \<open>Management\<close>

text \<open>Rows are in the order of \<open>created_at\<close>.\<close>

definition list_passkeys :: "uuid \<Rightarrow> (world, webauthn_credential list) op" where
  "list_passkeys user_id = query (user_passkeys user_id)"

definition passkey_of :: "uuid \<Rightarrow> uuid \<Rightarrow> (world, webauthn_credential option) op" where
  "passkey_of user_id i = query (\<lambda>d. find (\<lambda>r. wc_id r = i \<and> wc_user_id r = user_id) (credentials d))"

definition rename_passkey :: "uuid \<Rightarrow> uuid \<Rightarrow> string \<Rightarrow> (world, webauthn_credential) op" where
  "rename_passkey user_id i name =
     ebind (passkey_of user_id i) (\<lambda>found.
     case found of
       None \<Rightarrow> eraise (http_error 404 ''PASSKEY_NOT_FOUND'')
     | Some r \<Rightarrow>
         ebind (update_passkey r (\<lambda>q. q\<lparr>wc_name := name\<rparr>)) (\<lambda>_.
         ebind (add_audit (passkey_audit (Some user_id) ''PASSKEY_RENAMED'' [])) (\<lambda>_.
         ebind commit (\<lambda>_.
         eret (r\<lparr>wc_name := name\<rparr>)))))"

text \<open>What the last-method guard counts beside the passkey itself.\<close>

definition other_passkey :: "webauthn_credential \<Rightarrow> db \<Rightarrow> bool" where
  "other_passkey r d = list_ex (\<lambda>q. wc_user_id q = wc_user_id r \<and> wc_id q \<noteq> wc_id r) (credentials d)"

definition other_method :: "user \<Rightarrow> webauthn_credential \<Rightarrow> db \<Rightarrow> bool" where
  "other_method u r d =
     (truthy (u_password_hash u) \<or> other_passkey r d \<or>
      list_ex (\<lambda>m. mm_user_id m = u_id u \<and> mm_is_enabled m) (mfa_methods d) \<or>
      list_ex (\<lambda>a. oa_user_id a = u_id u) (oauth_accounts d) \<or>
      list_ex (\<lambda>c. mrc_user_id c = u_id u \<and> mrc_used_at c = None) (recovery_codes d))"

definition remove_passkey :: "user \<Rightarrow> uuid \<Rightarrow> (world, bool) op" where
  "remove_passkey u i =
     ebind (passkey_of (u_id u) i) (\<lambda>found.
     case found of
       None \<Rightarrow> eraise (http_error 404 ''PASSKEY_NOT_FOUND'')
     | Some r \<Rightarrow>
         ebind (query (other_passkey r)) (\<lambda>remaining.
         ebind (query (other_method u r)) (\<lambda>allowed.
         ebind (eensure allowed (http_error 409 ''PASSKEY_LAST_METHOD'')) (\<lambda>_.
         ebind (statement (\<lambda>d. d\<lparr>credentials := filter (\<lambda>q. wc_id q \<noteq> wc_id r) (credentials d)\<rparr>)) (\<lambda>_.
         ebind (add_audit (passkey_audit (Some (u_id u)) ''PASSKEY_REMOVED'' [(''remaining'', JBool remaining)])) (\<lambda>_.
         ebind commit (\<lambda>_.
         eret remaining)))))))"

end
