(* ===== verification/Passkey_Api.thy ===== *)
theory Passkey_Api
  imports Auth_Api Passkey_Service
begin

text \<open>The passkey endpoints of \<open>web/backend/app/auth/api.py\<close> and \<open>users_api.py\<close>.\<close>

section \<open>Registration and login\<close>

definition post_passkey_registration_options :: "auth_env \<Rightarrow> request \<Rightarrow> (world, ceremony_options) op" where
  "post_passkey_registration_options env rq =
     ebind (get_csrf_protected_active_user env rq) (\<lambda>u.
     ebind (require_recent_auth env rq) (\<lambda>_.
     ebind (limited env (''passkey-register-options:'' @ uuid_str (u_id u)) 5 600) (\<lambda>_.
     registration_options env u rq)))"

definition post_passkey_registration_verify ::
    "auth_env \<Rightarrow> request \<Rightarrow> string \<Rightarrow> json \<Rightarrow> string option \<Rightarrow> (world, webauthn_credential) op" where
  "post_passkey_registration_verify env rq ceremony_token credential name =
     ebind (get_csrf_protected_active_user env rq) (\<lambda>u.
     ebind (require_recent_auth env rq) (\<lambda>_.
     ebind (limited env (''passkey-register-verify:'' @ uuid_str (u_id u)) 5 600) (\<lambda>_.
     ebind (verify_registration env u ceremony_token credential name) (\<lambda>r.
     ebind (deliver env (Mfa_security_email (u_email u) ''passkey_added'')) (\<lambda>_.
     eret r)))))"

definition post_passkey_login_options :: "auth_env \<Rightarrow> request \<Rightarrow> (world, ceremony_options) op" where
  "post_passkey_login_options env rq =
     ebind (limited env (rate_limit_key env rq ''passkey-login-options'' None) 10 300) (\<lambda>_.
     authentication_options env rq None ''passkey_authenticate'' None)"

definition post_passkey_login_verify :: "auth_env \<Rightarrow> request \<Rightarrow> string \<Rightarrow> json \<Rightarrow> (world, user \<times> string) op" where
  "post_passkey_login_verify env rq ceremony_token credential =
     ebind (limited env (rate_limit_key env rq ''passkey-login-verify'' None) 8 300) (\<lambda>_.
     ebind (verify_passwordless_login env ceremony_token credential) (\<lambda>u.
     ebind (issue_session env u rq (Some [''webauthn''])) (\<lambda>csrf.
     eret (u, csrf))))"

section \<open>As second factor\<close>

definition post_mfa_passkey_options :: "auth_env \<Rightarrow> request \<Rightarrow> string option \<Rightarrow> (world, ceremony_options) op" where
  "post_mfa_passkey_options env rq supplied =
     ebind (elift (mfa_challenge_token env rq supplied)) (\<lambda>token.
     ebind (limited env (rate_limit_key env rq ''passkey-mfa-options'' (Some (fingerprint env token))) 5 300) (\<lambda>_.
     mfa_options env rq token))"

definition post_mfa_passkey_verify ::
    "auth_env \<Rightarrow> request \<Rightarrow> string option \<Rightarrow> string \<Rightarrow> json \<Rightarrow> (world, user \<times> string) op" where
  "post_mfa_passkey_verify env rq supplied ceremony_token credential =
     ebind (elift (mfa_challenge_token env rq supplied)) (\<lambda>token.
     ebind (limited env (rate_limit_key env rq ''passkey-mfa-verify'' (Some (fingerprint env token))) 5 300) (\<lambda>_.
     ebind (verify_mfa env token ceremony_token credential) (\<lambda>(u, primary_method).
     ebind (issue_session env u rq (Some [primary_amr primary_method, ''webauthn''])) (\<lambda>csrf.
     ebind (clear_mfa_cookie env) (\<lambda>_.
     eret (u, csrf))))))"

section \<open>Re-authentication\<close>

definition post_passkey_reauth_options :: "auth_env \<Rightarrow> request \<Rightarrow> (world, ceremony_options) op" where
  "post_passkey_reauth_options env rq =
     ebind (get_csrf_protected_active_user env rq) (\<lambda>u.
     ebind (limited env (''passkey-reauth-options:'' @ uuid_str (u_id u)) 5 300) (\<lambda>_.
     authentication_options env rq (Some (u_id u)) ''passkey_step_up'' None))"

definition post_passkey_reauth_verify :: "auth_env \<Rightarrow> request \<Rightarrow> string \<Rightarrow> json \<Rightarrow> (world, user \<times> string) op" where
  "post_passkey_reauth_verify env rq ceremony_token credential =
     ebind (get_csrf_protected_active_user env rq) (\<lambda>u.
     ebind (limited env (''passkey-reauth-verify:'' @ uuid_str (u_id u)) 5 300) (\<lambda>_.
     ebind (verify_reauthentication env (u_id u) ceremony_token credential) (\<lambda>v.
     ebind (revoke_current_session env (cookie_of rq (auth_refresh_cookie_name (conf env)))) (\<lambda>_.
     ebind (issue_session env v rq (Some [''webauthn''])) (\<lambda>csrf.
     eret (v, csrf))))))"

section \<open>The user's passkeys\<close>

definition get_user_passkeys :: "auth_env \<Rightarrow> request \<Rightarrow> (world, webauthn_credential list) op" where
  "get_user_passkeys env rq = ebind (get_current_active_user env rq) (\<lambda>u. list_passkeys (u_id u))"

definition patch_user_passkey :: "auth_env \<Rightarrow> request \<Rightarrow> uuid \<Rightarrow> string \<Rightarrow> (world, webauthn_credential) op" where
  "patch_user_passkey env rq credential_id name =
     ebind (get_csrf_protected_active_user env rq) (\<lambda>u.
     ebind (require_recent_auth env rq) (\<lambda>_.
     rename_passkey (u_id u) credential_id name))"

definition delete_user_passkey :: "auth_env \<Rightarrow> request \<Rightarrow> uuid \<Rightarrow> (world, unit) op" where
  "delete_user_passkey env rq credential_id =
     ebind (get_csrf_protected_active_user env rq) (\<lambda>u.
     ebind (require_recent_auth env rq) (\<lambda>_.
     ebind (remove_passkey u credential_id) (\<lambda>remaining.
     deliver env (Mfa_security_email (u_email u) (if remaining then ''passkey_removed'' else ''passkeys_removed'')))))"

text \<open>The requests and their handlers.\<close>

datatype passkey_request =
    Passkey_register_options
  | Passkey_register_verify string json "string option"
  | Passkey_login_options
  | Passkey_login_verify string json
  | Mfa_passkey_options "string option"
  | Mfa_passkey_verify "string option" string json
  | Passkey_reauth_options
  | Passkey_reauth_verify string json
  | Get_passkeys
  | Patch_passkey uuid string
  | Delete_passkey uuid

primrec handle_passkey :: "auth_env \<Rightarrow> request \<Rightarrow> passkey_request \<Rightarrow> (world, unit) op" where
  "handle_passkey env rq Passkey_register_options = ignore (post_passkey_registration_options env rq)"
| "handle_passkey env rq (Passkey_register_verify token cred name) = ignore (post_passkey_registration_verify env rq token cred name)"
| "handle_passkey env rq Passkey_login_options = ignore (post_passkey_login_options env rq)"
| "handle_passkey env rq (Passkey_login_verify token cred) = ignore (post_passkey_login_verify env rq token cred)"
| "handle_passkey env rq (Mfa_passkey_options supplied) = ignore (post_mfa_passkey_options env rq supplied)"
| "handle_passkey env rq (Mfa_passkey_verify supplied token cred) = ignore (post_mfa_passkey_verify env rq supplied token cred)"
| "handle_passkey env rq Passkey_reauth_options = ignore (post_passkey_reauth_options env rq)"
| "handle_passkey env rq (Passkey_reauth_verify token cred) = ignore (post_passkey_reauth_verify env rq token cred)"
| "handle_passkey env rq Get_passkeys = ignore (get_user_passkeys env rq)"
| "handle_passkey env rq (Patch_passkey i name) = ignore (patch_user_passkey env rq i name)"
| "handle_passkey env rq (Delete_passkey i) = delete_user_passkey env rq i"

end
