(* ===== verification/OAuth_Service.thy ===== *)
theory OAuth_Service
  imports Auth_Service
begin

text \<open>
  External accounts, \<open>web/backend/app/auth/services/oauth_account_service.py\<close>: login with the identity
  a provider vouches for, linking one to an account and unlinking it. \<open>oauth_identity\<close> is the
  validated \<open>OAuthIdentity\<close> of \<open>schemas/oauth.py\<close>. As in \<open>signup\<close>, another first login that commits
  between the lookup and the commit of this one is an argument, \<open>rival\<close>.
\<close>

record oauth_identity =
  oi_provider :: string
  oi_subject :: string
  oi_email :: "string option"
  oi_email_verified :: bool
  oi_username :: "string option"
  oi_display_name :: "string option"
  oi_avatar_url :: "string option"
  oi_profile_url :: "string option"

definition normalize_provider :: "string \<Rightarrow> string" where
  "normalize_provider provider = py_lower (py_strip provider)"

section \<open>Accounts\<close>

definition get_by_provider_subject :: "string \<Rightarrow> string \<Rightarrow> (world, oauth_account option) op" where
  "get_by_provider_subject provider subject = query (\<lambda>d.
     find (\<lambda>a. oa_provider a = normalize_provider provider \<and> oa_provider_subject a = subject) (oauth_accounts d))"

definition get_for_user :: "uuid \<Rightarrow> (world, oauth_account list) op" where
  "get_for_user user_id = query (\<lambda>d. py_sorted oa_provider (filter (\<lambda>a. oa_user_id a = user_id) (oauth_accounts d)))"

definition get_for_user_provider :: "uuid \<Rightarrow> string \<Rightarrow> (world, oauth_account option) op" where
  "get_for_user_provider user_id provider = query (\<lambda>d.
     find (\<lambda>a. oa_user_id a = user_id \<and> oa_provider a = normalize_provider provider) (oauth_accounts d))"

definition new_oauth_account :: "uuid \<Rightarrow> uuid \<Rightarrow> oauth_identity \<Rightarrow> int \<Rightarrow> oauth_account" where
  "new_oauth_account i user_id idn now =
     \<lparr>oa_id = i, oa_user_id = user_id, oa_provider = normalize_provider (oi_provider idn), oa_provider_subject = oi_subject idn,
      oa_provider_email = (if truthy (oi_email idn) then oi_email idn else None), oa_provider_username = oi_username idn,
      oa_provider_avatar_url = oi_avatar_url idn, oa_provider_profile_url = oi_profile_url idn, oa_last_login_at = Some now\<rparr>"

definition add_oauth_account :: "oauth_account \<Rightarrow> db \<Rightarrow> db" where
  "add_oauth_account a d = d\<lparr>oauth_accounts := oauth_accounts d @ [a]\<rparr>"

definition create_oauth_account :: "auth_env \<Rightarrow> uuid \<Rightarrow> oauth_identity \<Rightarrow> (world, oauth_account) op" where
  "create_oauth_account env user_id idn =
     ebind (utcnow env) (\<lambda>now.
     ebind (draw (uuid4 env)) (\<lambda>i.
     ebind (statement (add_oauth_account (new_oauth_account i user_id idn now))) (\<lambda>_.
     eret (new_oauth_account i user_id idn now))))"

definition set_account :: "oauth_account \<Rightarrow> (oauth_account \<Rightarrow> oauth_account) \<Rightarrow> (world, unit) op" where
  "set_account a f = statement (\<lambda>d. d\<lparr>oauth_accounts := update_where (\<lambda>q. oa_id q = oa_id a) f (oauth_accounts d)\<rparr>)"

text \<open>\<open>updated_at\<close> is not a field of the model; the clock is read for it.\<close>

definition update_oauth_account :: "auth_env \<Rightarrow> oauth_account \<Rightarrow> oauth_identity \<Rightarrow> (world, unit) op" where
  "update_oauth_account env a idn =
     ebind (utcnow env) (\<lambda>_.
     set_account a (\<lambda>q. q\<lparr>oa_provider_email := (if truthy (oi_email idn) then oi_email idn else None),
       oa_provider_username := oi_username idn, oa_provider_avatar_url := oi_avatar_url idn,
       oa_provider_profile_url := oi_profile_url idn\<rparr>))"

definition touch_last_login :: "auth_env \<Rightarrow> oauth_account \<Rightarrow> user \<Rightarrow> (world, int) op" where
  "touch_last_login env a u =
     ebind (utcnow env) (\<lambda>now.
     ebind (set_account a (\<lambda>q. q\<lparr>oa_last_login_at := Some now\<rparr>)) (\<lambda>_.
     ebind (set_user (u_id u) (\<lambda>q. q\<lparr>u_last_login_at := Some now\<rparr>)) (\<lambda>_.
     eret now)))"

text \<open>A provider that vouches for the address of the user verifies it.\<close>

definition vouches :: "auth_env \<Rightarrow> user \<Rightarrow> oauth_identity \<Rightarrow> bool" where
  "vouches env u idn =
     (oi_email_verified idn \<and> truthy (oi_email idn) \<and>
      casefold env (py_strip (u_email u)) = casefold env (py_strip (the (oi_email idn))))"

definition verify_matching_provider_email :: "auth_env \<Rightarrow> user \<Rightarrow> oauth_identity \<Rightarrow> (world, unit) op" where
  "verify_matching_provider_email env u idn =
     (if vouches env u idn then set_user (u_id u) (\<lambda>q. q\<lparr>u_is_verified := True\<rparr>) else eret ())"

definition seen_user :: "auth_env \<Rightarrow> user \<Rightarrow> oauth_identity \<Rightarrow> int \<Rightarrow> user" where
  "seen_user env u idn now = u\<lparr>u_is_verified := (vouches env u idn \<or> u_is_verified u), u_last_login_at := Some now\<rparr>"

section \<open>Login\<close>

text \<open>The login of a user through an account of theirs, up to the commit.\<close>

definition login_linked :: "auth_env \<Rightarrow> oauth_account \<Rightarrow> user \<Rightarrow> oauth_identity \<Rightarrow> string \<Rightarrow> (world, user) op" where
  "login_linked env a u idn provider =
     ebind (ensure_user_can_authenticate u provider True) (\<lambda>_.
     ebind (update_oauth_account env a idn) (\<lambda>_.
     ebind (verify_matching_provider_email env u idn) (\<lambda>_.
     ebind (touch_last_login env a u) (\<lambda>now.
     eret (seen_user env u idn now)))))"

definition placeholder_email :: "auth_env \<Rightarrow> string \<Rightarrow> string \<Rightarrow> string" where
  "placeholder_email env provider subject =
     provider @ ''-'' @ take 32 (sha256_hex env (provider @ '':'' @ subject)) @ ''@pending.packages.stadtplaner.oklabflensburg.de''"

definition identity_display_name :: "oauth_identity \<Rightarrow> string" where
  "identity_display_name idn =
     (if truthy (oi_display_name idn) then the (oi_display_name idn)
      else if truthy (oi_username idn) then the (oi_username idn) else [])"

definition oauth_user :: "auth_env \<Rightarrow> uuid \<Rightarrow> oauth_identity \<Rightarrow> user" where
  "oauth_user env i idn =
     (new_user i (if truthy (oi_email idn) then the (oi_email idn)
          else placeholder_email env (normalize_provider (oi_provider idn)) (oi_subject idn)) None [] [])
     \<lparr>u_email_pending := \<not> truthy (oi_email idn), u_display_name := Some (identity_display_name idn),
      u_is_verified := truthy (oi_email idn) \<and> oi_email_verified idn\<rparr>"

text \<open>A rival: another first login, whose user and account are committed at once.\<close>

definition oauth_rival_commits :: "auth_env \<Rightarrow> oauth_identity option \<Rightarrow> (world, unit) op" where
  "oauth_rival_commits env rival =
     (case rival of
        None \<Rightarrow> eret ()
      | Some idn \<Rightarrow>
          ebind (draw (uuid4 env)) (\<lambda>i.
          ebind (draw (uuid4 env)) (\<lambda>j.
          ebind (utcnow env) (\<lambda>now.
          let f = add_oauth_account (new_oauth_account j i idn now) \<circ> insert_user (oauth_user env i idn) in
          emodify (\<lambda>w. if db_ok (f (committed w)) then w\<lparr>committed := f (committed w), working := f (working w)\<rparr> else w)))))"

definition login_audit :: "uuid \<Rightarrow> (string \<times> json) list \<Rightarrow> audit_log" where
  "login_audit i md = user_audit i ''OAUTH_LOGIN_SUCCESS'' (Some (JObj md))"

text \<open>The first login of an identity: the user is flushed, the account and the audit entry follow.\<close>

definition create_oauth_user :: "auth_env \<Rightarrow> oauth_identity option \<Rightarrow> oauth_identity \<Rightarrow> (world, user) op" where
  "create_oauth_user env rival idn =
     ebind (draw (uuid4 env)) (\<lambda>i.
     ebind (statement (insert_user (oauth_user env i idn))) (\<lambda>_.
     ebind (oauth_rival_commits env rival) (\<lambda>_.
     ebind (create_oauth_account env i idn) (\<lambda>_.
     ebind (utcnow env) (\<lambda>now.
     ebind (set_user i (\<lambda>q. q\<lparr>u_last_login_at := Some now\<rparr>)) (\<lambda>_.
     ebind (add_audit (login_audit i [(''provider'', JStr (normalize_provider (oi_provider idn))), (''new_user'', JBool True)])) (\<lambda>_.
     ebind commit (\<lambda>_.
     eret ((oauth_user env i idn)\<lparr>u_last_login_at := Some now\<rparr>)))))))))"

text \<open>After an integrity error: the account a rival has created, if there is one.\<close>

definition login_rival_account :: "auth_env \<Rightarrow> oauth_identity \<Rightarrow> (world, user) op" where
  "login_rival_account env idn =
     ebind rollback (\<lambda>_.
     ebind (get_by_provider_subject (normalize_provider (oi_provider idn)) (oi_subject idn)) (\<lambda>existing.
     case existing of
       None \<Rightarrow> eraise (http_error 409 ''OAUTH_LOGIN_FAILED'')
     | Some a \<Rightarrow>
         ebind (user_row (oa_user_id a)) (\<lambda>linked.
         case linked of
           None \<Rightarrow> eraise (http_error 409 ''OAUTH_LOGIN_FAILED'')
         | Some u \<Rightarrow>
             ebind (login_linked env a u idn (normalize_provider (oi_provider idn))) (\<lambda>u'.
             ebind commit (\<lambda>_.
             eret u')))))"

definition authenticate_oauth_identity :: "auth_env \<Rightarrow> oauth_identity option \<Rightarrow> oauth_identity \<Rightarrow> (world, user) op" where
  "authenticate_oauth_identity env rival idn =
     (let provider = normalize_provider (oi_provider idn) in
     ebind (get_by_provider_subject provider (oi_subject idn)) (\<lambda>account.
     case account of
       Some a \<Rightarrow>
         ebind (user_row (oa_user_id a)) (\<lambda>owner.
         case owner of
           None \<Rightarrow> eraise (http_error 403 ''ACCOUNT_DISABLED'')
         | Some u \<Rightarrow>
             ebind (login_linked env a u idn provider) (\<lambda>u'.
             ebind (add_audit (login_audit (u_id u) [(''provider'', JStr provider)])) (\<lambda>_.
             ebind commit (\<lambda>_.
             eret u'))))
     | None \<Rightarrow>
         ebind (if truthy (oi_email idn) then get_user_by_email (the (oi_email idn)) else eret None) (\<lambda>existing_user.
         ebind (eensure (existing_user = None) (http_error 409 ''OAUTH_EMAIL_CONFLICT'')) (\<lambda>_.
         ecatch (create_oauth_user env rival idn) (on_class IntegrityError (login_rival_account env idn))))))"

section \<open>Linking\<close>

definition link_oauth_account :: "auth_env \<Rightarrow> user \<Rightarrow> oauth_identity \<Rightarrow> (world, unit) op" where
  "link_oauth_account env u idn =
     (let provider = normalize_provider (oi_provider idn); taken = http_error 409 ''OAUTH_ACCOUNT_ALREADY_LINKED'' in
     ebind (get_by_provider_subject provider (oi_subject idn)) (\<lambda>existing_identity.
     ebind (eensure (case existing_identity of None \<Rightarrow> True | Some a \<Rightarrow> oa_user_id a = u_id u) taken) (\<lambda>_.
     ebind (get_for_user_provider (u_id u) provider) (\<lambda>existing_provider.
     ebind (eensure (case existing_provider of None \<Rightarrow> True | Some a \<Rightarrow> map_option oa_id existing_identity = Some (oa_id a)) taken) (\<lambda>_.
     ebind (case existing_identity of None \<Rightarrow> create_oauth_account env (u_id u) idn | Some a \<Rightarrow> eret a) (\<lambda>a.
     ebind (update_oauth_account env a idn) (\<lambda>_.
     ebind (verify_matching_provider_email env u idn) (\<lambda>_.
     ebind (touch_last_login env a u) (\<lambda>_.
     ebind (add_audit (user_audit (u_id u) ''OAUTH_ACCOUNT_LINKED'' (Some (JObj [(''provider'', JStr provider)])))) (\<lambda>_.
     ecatch commit (on_class IntegrityError (ebind rollback (\<lambda>_. eraise taken)))))))))))))"

definition unlink_oauth_account :: "user \<Rightarrow> string \<Rightarrow> (world, unit) op" where
  "unlink_oauth_account u provider =
     (let normalized = normalize_provider provider in
     ebind (get_for_user_provider (u_id u) normalized) (\<lambda>account.
     case account of
       None \<Rightarrow> eraise (http_error 404 ''OAUTH_ACCOUNT_NOT_LINKED'')
     | Some a \<Rightarrow>
         ebind (query (\<lambda>d. length (filter (\<lambda>q. oa_user_id q = u_id u \<and> oa_provider q \<noteq> normalized) (oauth_accounts d)))) (\<lambda>other_count.
         ebind (eensure (truthy (u_password_hash u) \<or> other_count \<noteq> 0) (http_error 409 ''LAST_AUTH_METHOD'')) (\<lambda>_.
         ebind (statement (\<lambda>d. d\<lparr>oauth_accounts := filter (\<lambda>q. oa_id q \<noteq> oa_id a) (oauth_accounts d)\<rparr>)) (\<lambda>_.
         ebind (add_audit (user_audit (u_id u) ''OAUTH_ACCOUNT_UNLINKED'' (Some (JObj [(''provider'', JStr normalized)])))) (\<lambda>_.
         commit))))))"

definition provider_label :: "string \<Rightarrow> string" where
  "provider_label provider =
     (if provider = ''github'' then ''GitHub'' else if provider = ''google'' then ''Google''
      else case provider of [] \<Rightarrow> [] | c # cs \<Rightarrow> py_upper [c] @ py_lower cs)"

end
