(* ===== verification/Base64.thy ===== *)
theory Base64
  imports Json
begin

text \<open>
  Base64 as Python's \<open>base64\<close> module reads and writes it (RFC 4648): the lenient \<open>b64decode\<close> of the
  reviewed evidence, and the URL alphabet of the OAuth flow cookie, whose padding is stripped when
  it is written and put back when it is read. What is written is read back.
\<close>

section \<open>Decoding\<close>

definition b64_val :: "char \<Rightarrow> nat option" where
  "b64_val c =
     (if is_upper c then Some (byte c - 65)
      else if is_lower c then Some (byte c - 71)
      else if is_digit c then Some (byte c + 4)
      else if c = CHR ''+'' then Some 62
      else if c = CHR ''/'' then Some 63
      else None)"

text \<open>
  \<open>base64.b64decode\<close>: characters outside the alphabet are skipped, a complete padding ends the
  input, an incomplete last group is an error. \<open>q\<close> is the position in the group, \<open>left\<close> the bits not
  yet written, \<open>pads\<close> the consecutive padding characters.
\<close>

fun b64_loop :: "nat \<Rightarrow> nat \<Rightarrow> nat \<Rightarrow> string \<Rightarrow> exn + string" where
  "b64_loop q left pads [] =
     (if q = 0 then Inr [] else Inl (Raise ValueError (Msg ''Incorrect padding'')))"
| "b64_loop q left pads (c # cs) =
     (if c = CHR ''='' then
        if 2 \<le> q \<and> 4 \<le> q + Suc pads then Inr []
        else b64_loop q left (if 2 \<le> q then Suc pads else pads) cs
      else
        case b64_val c of
          None \<Rightarrow> b64_loop q left pads cs
        | Some v \<Rightarrow>
            if q = 0 then b64_loop 1 v 0 cs
            else if q = 1 then rbind (b64_loop 2 (v mod 16) 0 cs) (\<lambda>r. Inr (char_of (left * 4 + v div 16) # r))
            else if q = 2 then rbind (b64_loop 3 (v mod 4) 0 cs) (\<lambda>r. Inr (char_of (left * 16 + v div 4) # r))
            else rbind (b64_loop 0 0 0 cs) (\<lambda>r. Inr (char_of (left * 64 + v) # r)))"

definition b64decode :: "json \<Rightarrow> exn + string" where
  "b64decode v = (case v of
       JStr s \<Rightarrow> if is_ascii s then b64_loop 0 0 0 s else Inl (Raise ValueError (Msg ''non-ASCII''))
     | _ \<Rightarrow> Inl (Raise TypeError (Msg ''bytes-like'')))"

text \<open>\<open>base64.urlsafe_b64decode\<close>.\<close>

definition url_char :: "char \<Rightarrow> char" where
  "url_char c = (if c = CHR ''+'' then CHR ''-'' else if c = CHR ''/'' then CHR ''_'' else c)"

definition std_char :: "char \<Rightarrow> char" where
  "std_char c = (if c = CHR ''-'' then CHR ''+'' else if c = CHR ''_'' then CHR ''/'' else c)"

definition urlsafe_b64decode :: "string \<Rightarrow> exn + string" where
  "urlsafe_b64decode s = b64decode (JStr (map std_char s))"

section \<open>Encoding\<close>

definition b64_char :: "nat \<Rightarrow> char" where
  "b64_char v =
     (if v < 26 then char_of (v + 65)
      else if v < 52 then char_of (v + 71)
      else if v < 62 then char_of (v - 4)
      else if v = 62 then CHR ''+''
      else CHR ''/'')"

fun b64encode :: "string \<Rightarrow> string" where
  "b64encode [] = []"
| "b64encode [a] = [b64_char (byte a div 4), b64_char (byte a mod 4 * 16), CHR ''='', CHR ''='']"
| "b64encode [a, b] = [b64_char (byte a div 4), b64_char (byte a mod 4 * 16 + byte b div 16),
     b64_char (byte b mod 16 * 4), CHR ''='']"
| "b64encode (a # b # c # s) = b64_char (byte a div 4) # b64_char (byte a mod 4 * 16 + byte b div 16) #
     b64_char (byte b mod 16 * 4 + byte c div 64) # b64_char (byte c mod 64) # b64encode s"

definition urlsafe_b64encode :: "string \<Rightarrow> string" where
  "urlsafe_b64encode s = map url_char (b64encode s)"

text \<open>\<open>s.rstrip("=")\<close>, and \<open>s + "=" * (-len(s) % 4)\<close>.\<close>

definition rstrip_pads :: "string \<Rightarrow> string" where
  "rstrip_pads s = rev (dropWhile (\<lambda>c. c = CHR ''='') (rev s))"

definition b64_padding :: "string \<Rightarrow> string" where
  "b64_padding s = replicate (nat (- int (py_len s) mod 4)) CHR ''=''"

section \<open>Round trip\<close>

text \<open>The encoding without its padding.\<close>

fun b64_body :: "string \<Rightarrow> string" where
  "b64_body [] = []"
| "b64_body [a] = [b64_char (byte a div 4), b64_char (byte a mod 4 * 16)]"
| "b64_body [a, b] = [b64_char (byte a div 4), b64_char (byte a mod 4 * 16 + byte b div 16), b64_char (byte b mod 16 * 4)]"
| "b64_body (a # b # c # s) = b64_char (byte a div 4) # b64_char (byte a mod 4 * 16 + byte b div 16) #
     b64_char (byte b mod 16 * 4 + byte c div 64) # b64_char (byte c mod 64) # b64_body s"

text \<open>The bytes of the alphabet.\<close>

definition b64_ok :: "char \<Rightarrow> bool" where
  "b64_ok c \<longleftrightarrow> (65 \<le> byte c \<and> byte c \<le> 90) \<or> (97 \<le> byte c \<and> byte c \<le> 122) \<or>
     (47 \<le> byte c \<and> byte c \<le> 57) \<or> byte c = 43"

lemma b64_char_byte:
  assumes "v < 64"
  shows "byte (b64_char v) =
    (if v < 26 then v + 65 else if v < 52 then v + 71 else if v < 62 then v - 4 else if v = 62 then 43 else 47)"
  using assms by (simp add: b64_char_def)

lemma b64_char_ok: "v < 64 \<Longrightarrow> b64_ok (b64_char v)"
  by (auto simp: b64_ok_def b64_char_byte)

lemma std_url: "b64_ok c \<Longrightarrow> std_char (url_char c) = c"
  by (auto simp: b64_ok_def std_char_def url_char_def)

lemma b64_char_val:
  assumes "v < 64"
  shows "b64_val (std_char (url_char (b64_char v))) = Some v"
proof -
  have "b64_val (b64_char v) = Some v"
  proof (cases "v < 62")
    case True
    then show ?thesis
      using b64_char_byte [OF assms]
      by (cases "v < 26"; cases "v < 52") (auto simp: b64_val_def is_upper_def is_lower_def is_digit_def less_eq_char_def)
  next
    case False
    with assms have "v = 62 \<or> v = 63" by auto
    then show ?thesis by (auto simp: b64_char_def b64_val_def is_upper_def is_lower_def is_digit_def less_eq_char_def)
  qed
  then show ?thesis using std_url b64_char_ok [OF assms] by simp
qed

lemma digit_sum:
  fixes x y k l :: nat
  assumes "y < k" and "x < l"
  shows "x * k + y < l * k"
proof -
  have "x * k + k \<le> l * k" using assms(2) by (metis Suc_leI add.commute mult_Suc mult_le_mono1)
  with assms(1) show ?thesis by simp
qed

lemma small_parts:
  fixes n :: nat
  assumes "n < 256"
  shows "n div 4 < 64" "n div 16 < 16" "n div 64 < 4"
  using assms by (simp_all add: less_mult_imp_div_less)

lemma byte_parts:
  "byte a div 4 < 64" "byte a mod 4 * 16 < 64" "byte a mod 4 * 16 + byte b div 16 < 64"
  "byte b mod 16 * 4 < 64" "byte b mod 16 * 4 + byte c div 64 < 64" "byte c mod 64 < 64"
proof -
  show "byte a div 4 < 64" "byte c mod 64 < 64" by (simp_all add: small_parts)
  show "byte a mod 4 * 16 < 64" using digit_sum [of 0 16 "byte a mod 4" 4] by simp
  show "byte a mod 4 * 16 + byte b div 16 < 64"
    using digit_sum [of "byte b div 16" 16 "byte a mod 4" 4] by (simp add: small_parts)
  show "byte b mod 16 * 4 < 64" using digit_sum [of 0 4 "byte b mod 16" 16] by simp
  show "byte b mod 16 * 4 + byte c div 64 < 64"
    using digit_sum [of "byte c div 64" 4 "byte b mod 16" 16] by (simp add: small_parts)
qed

text \<open>One character of the alphabet moves the decoder by one position.\<close>

lemma b64_step:
  assumes "v < 64"
  shows "b64_loop q left k (std_char (url_char (b64_char v)) # cs) =
     (if q = 0 then b64_loop 1 v 0 cs
      else if q = 1 then rbind (b64_loop 2 (v mod 16) 0 cs) (\<lambda>r. Inr (char_of (left * 4 + v div 16) # r))
      else if q = 2 then rbind (b64_loop 3 (v mod 4) 0 cs) (\<lambda>r. Inr (char_of (left * 16 + v div 4) # r))
      else rbind (b64_loop 0 0 0 cs) (\<lambda>r. Inr (char_of (left * 64 + v) # r)))"
proof -
  have "std_char (url_char (b64_char v)) \<noteq> CHR ''=''"
    using b64_char_val [OF assms] by (auto simp: b64_val_def is_upper_def is_lower_def is_digit_def)
  then show ?thesis using b64_char_val [OF assms] by simp
qed

lemma b64_pad:
  "b64_loop q left k (CHR ''='' # cs) =
     (if 2 \<le> q \<and> 4 \<le> q + Suc k then Inr [] else b64_loop q left (if 2 \<le> q then Suc k else k) cs)"
  by simp

lemma url_pad: "url_char CHR ''='' = CHR ''=''" "std_char CHR ''='' = CHR ''=''"
  by (simp_all add: url_char_def std_char_def)

text \<open>The padding of an encoding, by the length of the text.\<close>

definition pad_count :: "nat \<Rightarrow> nat" where
  "pad_count n = (if n mod 3 = 0 then 0 else if n mod 3 = 1 then 2 else 1)"

lemma pad_count_simps: "pad_count 0 = 0" "pad_count (Suc 0) = 2" "pad_count (Suc (Suc 0)) = 1" "pad_count (Suc (Suc (Suc n))) = pad_count n"
proof -
  have "Suc (Suc (Suc n)) mod 3 = n mod 3" by presburger
  then show "pad_count (Suc (Suc (Suc n))) = pad_count n" by (simp add: pad_count_def)
qed (simp_all add: pad_count_def)

lemma length_b64_body: "nat (- int (length (b64_body s)) mod 4) = pad_count (length s)"
proof (induction s rule: b64_body.induct)
  case (4 a b c s)
  have "(- 4 - x) mod 4 = - x mod 4" for x :: int by presburger
  with 4 show ?case by (simp add: pad_count_simps)
qed (simp_all add: pad_count_simps)

lemma decode_body:
  "b64_loop 0 0 0 (map (std_char \<circ> url_char) (b64_body s) @ replicate (pad_count (length s)) CHR ''='') = Inr s"
  by (induction s rule: b64_body.induct)
    (simp_all add: b64_step b64_pad url_pad byte_parts small_parts pad_count_simps numeral_2_eq_2 del: b64_loop.simps(2))

lemma b64encode_body: "\<exists>k. b64encode s = b64_body s @ replicate k CHR ''=''"
proof (induction s rule: b64encode.induct)
  case 1
  show ?case by (rule exI [of _ 0]) simp
next
  case (2 a)
  show ?case by (rule exI [of _ 2]) (simp add: numeral_2_eq_2)
next
  case (3 a b)
  show ?case by (rule exI [of _ 1]) simp
next
  case (4 a b c s)
  then show ?case by auto
qed

lemma b64_body_ok: "c \<in> set (b64_body s) \<Longrightarrow> b64_ok c"
  by (induction s rule: b64_body.induct) (auto intro: b64_char_ok byte_parts)

lemma url_alphabet:
  assumes "b64_ok c"
  shows "url_char c \<noteq> CHR ''='' \<and> url_char c \<noteq> CHR ''.'' \<and> byte (url_char c) < 128"
  using assms by (auto simp: b64_ok_def url_char_def)

lemma dropWhile_pads: "dropWhile (\<lambda>c. c = x) (replicate k x @ ys) = dropWhile (\<lambda>c. c = x) ys"
  by (induction k) simp_all

lemma stripped:
  "rstrip_pads (urlsafe_b64encode s) = map url_char (b64_body s)"
proof -
  obtain k where k: "b64encode s = b64_body s @ replicate k CHR ''=''" using b64encode_body by blast
  have "map url_char (replicate k CHR ''='') = replicate k CHR ''=''" by (simp add: url_char_def)
  then have "urlsafe_b64encode s = map url_char (b64_body s) @ replicate k CHR ''=''"
    by (simp add: urlsafe_b64encode_def k)
  moreover have "\<And>c. c \<in> set (map url_char (b64_body s)) \<Longrightarrow> c \<noteq> CHR ''=''"
    by (auto dest!: b64_body_ok url_alphabet)
  then have "dropWhile (\<lambda>c. c = CHR ''='') (rev (map url_char (b64_body s))) = rev (map url_char (b64_body s))"
    unfolding dropWhile_eq_self_iff by (metis hd_in_set set_rev)
  ultimately show ?thesis
    by (simp add: rstrip_pads_def rev_map dropWhile_pads)
qed

lemma stripped_chars:
  assumes "c \<in> set (rstrip_pads (urlsafe_b64encode s))"
  shows "c \<noteq> CHR ''.'' \<and> byte c < 128"
  using assms unfolding stripped by (auto dest!: b64_body_ok url_alphabet)

lemma urlsafe_roundtrip:
  "urlsafe_b64decode (rstrip_pads (urlsafe_b64encode s) @ b64_padding (rstrip_pads (urlsafe_b64encode s))) = Inr s"
proof -
  let ?t = "map url_char (b64_body s)"
  have ascii: "is_ascii ?t" by (auto simp: is_ascii_def list_all_iff dest!: b64_body_ok url_alphabet)
  have "b64_padding ?t = replicate (pad_count (length s)) CHR ''=''"
    unfolding b64_padding_def py_len_ascii [OF ascii] using length_b64_body [of s] by simp
  moreover have "std_char CHR ''='' = CHR ''=''" by (simp add: std_char_def)
  moreover have decoded: "is_ascii (map (std_char \<circ> url_char) (b64_body s) @ replicate (pad_count (length s)) CHR ''='')"
    by (auto simp: is_ascii_def list_all_iff std_url b64_ok_def dest!: b64_body_ok)
  ultimately show ?thesis
    using decode_body [of s] decoded by (simp add: stripped urlsafe_b64decode_def b64decode_def)
qed

end
