(* ===== verification/OAuth_Flow.thy ===== *)
theory OAuth_Flow
  imports OAuth_Service Base64
begin

text \<open>
  The OAuth protocol, \<open>web/backend/app/auth/oauth.py\<close>: the signed cookie that carries a flow from the
  redirect to the callback, the redirect targets, and the exchange of a code for an identity at GitHub
  and Google. HMAC-SHA-256 with the state secret is \<open>state_hmac_hex\<close>, the providers' endpoints are
  \<open>fetch_token\<close> and \<open>http_get\<close>.
\<close>

section \<open>Redirect targets\<close>

definition safe_redirect_path :: "string option \<Rightarrow> string" where
  "safe_redirect_path p =
     (if \<not> truthy p then ''/''
      else let candidate = py_strip (the p) in
        if \<not> py_startswith candidate ''/'' \<or> py_startswith candidate ''//'' \<or> CHR 0x5C \<in> set candidate
          \<or> list_ex (\<lambda>c. byte c < 32) candidate
        then ''/'' else candidate)"

section \<open>The flow cookie\<close>

record oauth_flow =
  of_state :: string
  of_mode :: string
  of_redirect_path :: string
  of_user_id :: "string option"

text \<open>
  \<open>json.dumps(..., separators=(",", ":"), sort_keys=True)\<close> of the payload: every character outside
  printable ASCII is written as an escape of its UTF-16 code units.
\<close>

definition hex4 :: "nat \<Rightarrow> string" where
  "hex4 n = [CHR 0x5C, CHR ''u'', Json.hex_digit (n div 4096), Json.hex_digit (n div 256 mod 16),
     Json.hex_digit (n div 16 mod 16), Json.hex_digit (n mod 16)]"

definition ascii_escape :: "nat \<Rightarrow> string" where
  "ascii_escape p =
     (if p = 34 then [CHR 0x5C, CHR 0x22] else if p = 92 then [CHR 0x5C, CHR 0x5C]
      else if p = 8 then [CHR 0x5C, CHR ''b''] else if p = 12 then [CHR 0x5C, CHR ''f'']
      else if p = 10 then [CHR 0x5C, CHR ''n''] else if p = 13 then [CHR 0x5C, CHR ''r'']
      else if p = 9 then [CHR 0x5C, CHR ''t'']
      else if 32 \<le> p \<and> p < 127 then [char_of p]
      else if p < 65536 then hex4 p
      else hex4 (55296 + (p - 65536) div 1024) @ hex4 (56320 + (p - 65536) mod 1024))"

definition ascii_string :: "string \<Rightarrow> string" where
  "ascii_string s = CHR 0x22 # concat (map ascii_escape (code_points s)) @ [CHR 0x22]"

definition flow_payload :: "oauth_flow \<Rightarrow> int \<Rightarrow> string" where
  "flow_payload f issued_at =
     ''{'' @ ascii_string ''issued_at'' @ '':'' @ py_str_int issued_at @
     '','' @ ascii_string ''mode'' @ '':'' @ ascii_string (of_mode f) @
     '','' @ ascii_string ''redirect_path'' @ '':'' @ ascii_string (safe_redirect_path (Some (of_redirect_path f))) @
     '','' @ ascii_string ''state'' @ '':'' @ ascii_string (of_state f) @
     '','' @ ascii_string ''user_id'' @ '':'' @ (case of_user_id f of None \<Rightarrow> ''null'' | Some i \<Rightarrow> ascii_string i) @ ''}''"

definition encode_oauth_flow :: "auth_env \<Rightarrow> oauth_flow \<Rightarrow> (world, string) op" where
  "encode_oauth_flow env f =
     ebind (utcnow env) (\<lambda>now.
     let encoded = rstrip_pads (urlsafe_b64encode (flow_payload f (timestamp now)))
     in eret (encoded @ ''.'' @ state_hmac_hex env encoded))"

text \<open>\<open>hmac.compare_digest\<close> of two texts.\<close>

definition compare_digest :: "string \<Rightarrow> string \<Rightarrow> exn + bool" where
  "compare_digest a b = (if is_ascii a \<and> is_ascii b then Inr (a = b)
     else Inl (Raise TypeError (Msg ''comparing strings with non-ASCII characters'')))"

fun str_option :: "json \<Rightarrow> string option" where
  "str_option (JStr s) = Some s"
| "str_option _ = None"

text \<open>The claims of a payload that was issued at most ten minutes ago.\<close>

definition flow_of_payload :: "json \<Rightarrow> int \<Rightarrow> oauth_flow option" where
  "flow_of_payload payload now =
     (let state = get_or payload ''state'' JNull; mode = get_or payload ''mode'' JNull;
          redirect_path = get_or payload ''redirect_path'' JNull; user_id = get_or payload ''user_id'' JNull
      in case int_of (get_or payload ''issued_at'' JNull) of
           None \<Rightarrow> None
         | Some issued_at \<Rightarrow>
             if \<not> (0 \<le> now - microseconds issued_at \<and> now - microseconds issued_at \<le> microseconds 600) then None
             else if \<not> is_str state \<or> mode \<notin> {JStr ''login'', JStr ''link''} then None
             else if \<not> is_str redirect_path then None
             else if user_id \<noteq> JNull \<and> \<not> is_str user_id then None
             else if mode = JStr ''link'' \<and> \<not> json_truthy user_id then None
             else Some \<lparr>of_state = the (str_option state), of_mode = the (str_option mode),
                    of_redirect_path = safe_redirect_path (str_option redirect_path), of_user_id = str_option user_id\<rparr>)"

definition signed_payload :: "auth_env \<Rightarrow> string \<Rightarrow> exn + json option" where
  "signed_payload env v =
     (case py_rpartition CHR ''.'' v of (encoded, found, signature) \<Rightarrow>
        rbind (ensure found (Raise ValueError (Msg ''not enough values to unpack''))) (\<lambda>_.
        rbind (compare_digest signature (state_hmac_hex env encoded)) (\<lambda>valid.
        if \<not> valid then Inr None
        else
          rbind (urlsafe_b64decode (encoded @ b64_padding encoded)) (\<lambda>text.
          rbind (parse_json env text) (\<lambda>payload.
          rbind (ensure (is_obj payload) (Raise AttributeError (Msg ''get''))) (\<lambda>_.
          Inr (Some payload)))))))"

definition decode_oauth_flow :: "auth_env \<Rightarrow> string option \<Rightarrow> (world, oauth_flow option) op" where
  "decode_oauth_flow env v =
     (if \<not> truthy v then eret None
      else
        ebind (ecatch (elift (signed_payload env (the v)))
          (\<lambda>e. if is_ValueError e \<or> exn_class e = TypeError then eret None else eraise e)) (\<lambda>checked.
        case checked of
          None \<Rightarrow> eret None
        | Some payload \<Rightarrow>
            if int_of (get_or payload ''issued_at'' JNull) = None then eret None
            else ebind (utcnow env) (\<lambda>now. eret (flow_of_payload payload now))))"

section \<open>Authorization\<close>

definition oauth_cookie_name :: "string \<Rightarrow> string" where
  "oauth_cookie_name provider = ''ocp_hub_oauth_state_'' @ normalize_provider provider"

definition oauth_redirect_uri :: "auth_env \<Rightarrow> string \<Rightarrow> string" where
  "oauth_redirect_uri env provider =
     (let c = conf env;
          base = (if truthy (oauth_redirect_base_url c) then the (oauth_redirect_base_url c) else api_base_url c)
      in rstrip_slash base @ ''/api/v1/auth/oauth/'' @ normalize_provider provider @ ''/callback'')"

definition provider_is_configured :: "auth_env \<Rightarrow> string \<Rightarrow> bool" where
  "provider_is_configured env provider = (normalize_provider provider \<in> set (configured_oauth_providers (conf env)))"

text \<open>\<open>urllib.parse.urlencode\<close>: UTF-8 bytes outside the unreserved characters as percent escapes.\<close>

definition hex_upper :: "nat \<Rightarrow> char" where
  "hex_upper n = char_of (if n < 10 then n + 48 else n + 55)"

definition quote_plus :: "string \<Rightarrow> string" where
  "quote_plus s = concat (map (\<lambda>c.
     if is_lower c \<or> is_upper c \<or> is_digit c \<or> c \<in> set ''_.-~'' then [c]
     else if c = CHR '' '' then ''+''
     else [CHR ''%'', hex_upper (byte c div 16), hex_upper (byte c mod 16)]) s)"

definition urlencode :: "(string \<times> string) list \<Rightarrow> string" where
  "urlencode ps = py_join ''&'' (map (\<lambda>(k, v). quote_plus k @ ''='' @ quote_plus v) ps)"

definition authorization_url :: "auth_env \<Rightarrow> string \<Rightarrow> string \<Rightarrow> (world, string) op" where
  "authorization_url env provider state =
     (let provider = normalize_provider provider; c = conf env; redirect_uri = oauth_redirect_uri env provider in
      if provider = ''github'' then
        eret (''https://github.com/login/oauth/authorize?'' @ urlencode
          [(''client_id'', the (github_client_id c)), (''redirect_uri'', redirect_uri),
           (''scope'', ''read:user user:email''), (''state'', state)])
      else if provider = ''google'' then
        ebind (draw (oauth_nonce env)) (\<lambda>nonce.
        eret (''https://accounts.google.com/o/oauth2/v2/auth?'' @ urlencode
          [(''client_id'', the (google_client_id c)), (''redirect_uri'', redirect_uri), (''response_type'', ''code''),
           (''scope'', ''openid email profile''), (''state'', state), (''nonce'', nonce)]))
      else eraise (http_error 404 ''OAUTH_PROVIDER_DISABLED''))"

section \<open>The exchange of a code\<close>

definition oauth_error :: exn where
  "oauth_error = http_error 401 ''INVALID_OAUTH_CALLBACK''"

text \<open>The fields of \<open>OAuthIdentity\<close>, validated by pydantic.\<close>

definition text_field :: "(string \<Rightarrow> bool) \<Rightarrow> json \<Rightarrow> exn + string" where
  "text_field P v = (case v of JStr s \<Rightarrow> rbind (ensure (P s) (Raise ValueError (Msg ''validation''))) (\<lambda>_. Inr s)
     | _ \<Rightarrow> Inl (Raise ValueError (Msg ''validation'')))"

definition optional_field :: "(json \<Rightarrow> exn + string) \<Rightarrow> json \<Rightarrow> exn + string option" where
  "optional_field f v = (if v = JNull then Inr None else rbind (f v) (\<lambda>s. Inr (Some s)))"

definition email_field :: "auth_env \<Rightarrow> json \<Rightarrow> exn + string" where
  "email_field env v = rbind (text_field (\<lambda>_. True) v) (\<lambda>s. of_option (Raise ValueError (Msg ''validation'')) (email_str env s))"

definition make_identity ::
    "auth_env \<Rightarrow> string \<Rightarrow> string \<Rightarrow> json \<Rightarrow> bool \<Rightarrow> json \<Rightarrow> json \<Rightarrow> json \<Rightarrow> exn + oauth_identity" where
  "make_identity env provider subject email email_verified user_name display_name avatar_url =
     rbind (text_field (\<lambda>s. 1 \<le> py_len s \<and> py_len s \<le> 255) (JStr subject)) (\<lambda>subject.
     rbind (optional_field (email_field env) email) (\<lambda>email.
     rbind (optional_field (text_field (\<lambda>s. py_len s \<le> 255)) user_name) (\<lambda>user_name.
     rbind (optional_field (text_field (\<lambda>s. py_len s \<le> 180)) display_name) (\<lambda>display_name.
     rbind (optional_field (text_field (\<lambda>_. True)) avatar_url) (\<lambda>avatar_url.
     Inr \<lparr>oi_provider = provider, oi_subject = subject, oi_email = email, oi_email_verified = email_verified,
          oi_username = user_name, oi_display_name = display_name, oi_avatar_url = avatar_url, oi_profile_url = None\<rparr>)))))"

text \<open>Iterating over a JSON value.\<close>

definition py_iter :: "json \<Rightarrow> exn + json list" where
  "py_iter v = (case v of
       JList xs \<Rightarrow> Inr xs
     | JObj d \<Rightarrow> Inr (map JStr (dict_keys d))
     | JStr s \<Rightarrow> Inr (map (\<lambda>p. JStr (of_code_points [p])) (code_points s))
     | _ \<Rightarrow> Inl (Raise TypeError (Msg ''not iterable'')))"

text \<open>\<open>next((item.get("email") for item in emails if item.get("primary") and item.get("verified")), None)\<close>\<close>

fun primary_email :: "json list \<Rightarrow> exn + json" where
  "primary_email [] = Inr JNull"
| "primary_email (x # xs) =
     rbind (and_then (rbind (py_get x ''primary'' JNull) (\<lambda>v. Inr (json_truthy v)))
         (rbind (py_get x ''verified'' JNull) (\<lambda>v. Inr (json_truthy v)))) (\<lambda>chosen.
     if chosen then py_get x ''email'' JNull else primary_email xs)"

text \<open>The body of a response after \<open>raise_for_status()\<close>.\<close>

definition successful_json :: "http_response \<Rightarrow> exn + json" where
  "successful_json r = rbind (ensure (200 \<le> hr_status r \<and> hr_status r < 300) (Raise HTTPStatusError (Msg [])))
     (\<lambda>_. hr_json r)"

definition provider_token :: "auth_env \<Rightarrow> string \<Rightarrow> string \<Rightarrow> (world, string) op" where
  "provider_token env provider code =
     ebind (call (\<lambda>n. fetch_token env n provider code)) (\<lambda>token.
     ebind (elift (py_get token ''access_token'' JNull)) (\<lambda>access_token.
     ebind (eensure (json_truthy access_token) oauth_error) (\<lambda>_.
     eret (py_str access_token))))"

definition exchange_github :: "auth_env \<Rightarrow> string \<Rightarrow> (world, oauth_identity) op" where
  "exchange_github env code =
     ebind (provider_token env ''github'' code) (\<lambda>access_token.
     ebind (call (\<lambda>n. http_get env n ''https://api.github.com/user'' access_token)) (\<lambda>user_response.
     ebind (elift (successful_json user_response)) (\<lambda>profile.
     ebind (call (\<lambda>n. http_get env n ''https://api.github.com/user/emails'' access_token)) (\<lambda>emails_response.
     ebind (elift (if hr_status emails_response = 200 then hr_json emails_response else Inr (JList []))) (\<lambda>emails.
     elift (
       rbind (py_iter emails) (\<lambda>items.
       rbind (primary_email items) (\<lambda>verified_email.
       rbind (getitem profile ''id'') (\<lambda>i.
       rbind (py_get profile ''login'' JNull) (\<lambda>login.
       rbind (py_get profile ''name'' JNull) (\<lambda>name.
       rbind (py_get profile ''avatar_url'' JNull) (\<lambda>avatar_url.
       make_identity env ''github'' (py_str i) verified_email (json_truthy verified_email) login
         (if json_truthy name then name else login) avatar_url)))))))))))) "

definition exchange_google :: "auth_env \<Rightarrow> string \<Rightarrow> (world, oauth_identity) op" where
  "exchange_google env code =
     ebind (provider_token env ''google'' code) (\<lambda>access_token.
     ebind (call (\<lambda>n. http_get env n ''https://openidconnect.googleapis.com/v1/userinfo'' access_token)) (\<lambda>user_response.
     ebind (elift (successful_json user_response)) (\<lambda>profile.
     elift (
       rbind (getitem profile ''sub'') (\<lambda>sub.
       rbind (py_get profile ''email_verified'' JNull) (\<lambda>verified.
       rbind (py_get profile ''email'' JNull) (\<lambda>email.
       rbind (py_get profile ''name'' JNull) (\<lambda>name.
       rbind (py_get profile ''picture'' JNull) (\<lambda>picture.
       make_identity env ''google'' (py_str sub) (if json_truthy verified then email else JNull) (json_truthy verified)
         email name picture)))))))))"

definition exchange_oauth_code :: "auth_env \<Rightarrow> string \<Rightarrow> string \<Rightarrow> (world, oauth_identity) op" where
  "exchange_oauth_code env provider code =
     (let provider = normalize_provider provider in
      if provider = ''github'' then exchange_github env code
      else if provider = ''google'' then exchange_google env code
      else eraise (http_error 404 ''OAUTH_PROVIDER_DISABLED''))"

end
