(* ===== verification/OAuth_Api.thy ===== *)
theory OAuth_Api
  imports Auth_Api OAuth_Flow
begin

text \<open>
  The OAuth endpoints, \<open>web/backend/app/auth/oauth_api.py\<close>, and those of the linked accounts in
  \<open>users_api.py\<close>. A \<open>RedirectResponse\<close> is the address it redirects to; its cookies are the cookies of the
  response.
\<close>

section \<open>Redirects\<close>

definition app_url :: "auth_env \<Rightarrow> string" where
  "app_url env = rstrip_slash (app_base_url (conf env))"

definition oauth_login_error_redirect :: "auth_env \<Rightarrow> string \<Rightarrow> string" where
  "oauth_login_error_redirect env code = app_url env @ ''/anmelden?auth_error='' @ code"

definition oauth_link_result_redirect :: "auth_env \<Rightarrow> string \<Rightarrow> string option \<Rightarrow> string option \<Rightarrow> string" where
  "oauth_link_result_redirect env provider success error =
     app_url env @ ''/profil?'' @ urlencode ([(''provider'', normalize_provider provider)] @
       (if truthy success then [(''oauth_link'', the success)] else []) @
       (if truthy error then [(''oauth_link_error'', the error)] else []))"

definition clear_oauth_cookie :: "string \<Rightarrow> (world, unit) op" where
  "clear_oauth_cookie provider = delete_cookie (oauth_cookie_name provider) ''/api/v1/auth/oauth''"

definition set_oauth_cookie :: "string \<Rightarrow> string \<Rightarrow> (world, unit) op" where
  "set_oauth_cookie provider v = set_cookie \<lparr>ck_name = oauth_cookie_name provider, ck_value = Some v, ck_httponly = True,
     ck_path = ''/api/v1/auth/oauth'', ck_max_age = 600\<rparr>"

text \<open>A redirect that also clears the cookie of the flow.\<close>

definition flow_end :: "string \<Rightarrow> string \<Rightarrow> (world, string) op" where
  "flow_end provider location = ebind (clear_oauth_cookie provider) (\<lambda>_. eret location)"

definition oauth_flow_error_redirect :: "auth_env \<Rightarrow> string \<Rightarrow> string \<Rightarrow> string \<Rightarrow> (world, string) op" where
  "oauth_flow_error_redirect env mode provider code =
     flow_end provider (if mode = ''link'' then oauth_link_result_redirect env provider None (Some code)
       else oauth_login_error_redirect env code)"

definition flow_error_code :: "string \<Rightarrow> string" where
  "flow_error_code mode = (if mode = ''link'' then ''OAUTH_LINK_FAILED'' else ''OAUTH_LOGIN_FAILED'')"

text \<open>The error code in the detail of an \<open>HTTPException\<close>.\<close>

definition detail_code :: "string \<Rightarrow> exn \<Rightarrow> string" where
  "detail_code fallback e = (case e of Raise _ (Http st code) \<Rightarrow> code | _ \<Rightarrow> fallback)"

section \<open>Starting a flow\<close>

definition get_auth_providers :: "auth_env \<Rightarrow> string list" where
  "get_auth_providers env = configured_oauth_providers (conf env)"

definition get_oauth_providers :: "auth_env \<Rightarrow> (string \<times> string) list" where
  "get_oauth_providers env = map (\<lambda>p. (p, provider_label p)) (configured_oauth_providers (conf env))"

definition post_complete_oauth_email :: "auth_env \<Rightarrow> request \<Rightarrow> string \<Rightarrow> (world, unit) op" where
  "post_complete_oauth_email env rq email =
     ebind (get_csrf_protected_active_user env rq) (\<lambda>u.
     complete_oauth_email env u email)"

definition start_flow :: "auth_env \<Rightarrow> string \<Rightarrow> (string \<Rightarrow> oauth_flow) \<Rightarrow> (world, string) op" where
  "start_flow env provider f =
     ebind (generate_token env) (\<lambda>state.
     ebind (authorization_url env provider state) (\<lambda>location.
     ebind (encode_oauth_flow env (f state)) (\<lambda>v.
     ebind (set_oauth_cookie provider v) (\<lambda>_.
     eret location))))"

definition oauth_login :: "auth_env \<Rightarrow> request \<Rightarrow> string \<Rightarrow> string option \<Rightarrow> (world, string) op" where
  "oauth_login env rq provider redirect =
     (let provider = normalize_provider provider in
     ebind (eensure (provider_is_configured env provider) (http_error 404 ''OAUTH_PROVIDER_DISABLED'')) (\<lambda>_.
     ebind (check_rate_limit env (rate_limit_key env rq (''oauth-start:'' @ provider) None) None None None ''RATE_LIMITED'') (\<lambda>_.
     start_flow env provider (\<lambda>state. \<lparr>of_state = state, of_mode = ''login'',
       of_redirect_path = safe_redirect_path redirect, of_user_id = None\<rparr>))))"

definition oauth_link :: "auth_env \<Rightarrow> request \<Rightarrow> string \<Rightarrow> (world, string) op" where
  "oauth_link env rq provider =
     ebind (get_current_active_user env rq) (\<lambda>u.
     ebind (require_recent_auth env rq) (\<lambda>_.
     let provider = normalize_provider provider in
     ebind (eensure (provider_is_configured env provider) (http_error 404 ''OAUTH_PROVIDER_DISABLED'')) (\<lambda>_.
     ebind (get_for_user_provider (u_id u) provider) (\<lambda>connected.
     if connected \<noteq> None
     then flow_end provider (oauth_link_result_redirect env provider (Some ''already_connected'') None)
     else start_flow env provider (\<lambda>state. \<lparr>of_state = state, of_mode = ''link'', of_redirect_path = ''/profil'',
            of_user_id = Some (uuid_str (u_id u))\<rparr>)))))"

section \<open>The callback\<close>

definition on_http :: "(exn \<Rightarrow> (world, 'a) op) \<Rightarrow> exn \<Rightarrow> (world, 'a) op" where
  "on_http h e = (if exn_class e = HTTPException then h e else eraise e)"

definition finish_link ::
    "auth_env \<Rightarrow> request \<Rightarrow> string \<Rightarrow> oauth_flow \<Rightarrow> oauth_identity \<Rightarrow> (world, string) op" where
  "finish_link env rq provider flow idn =
     ebind (get_optional_user env rq) (\<lambda>current.
     case current of
       None \<Rightarrow> oauth_flow_error_redirect env ''link'' provider ''AUTH_REQUIRED''
     | Some u \<Rightarrow>
         if Some (uuid_str (u_id u)) \<noteq> of_user_id flow
         then oauth_flow_error_redirect env ''link'' provider ''AUTH_REQUIRED''
         else
           ebind (ecatch (ebind (link_oauth_account env u idn) (\<lambda>_. eret (oauth_link_result_redirect env provider (Some ''success'') None)))
             (on_http (\<lambda>e. eret (oauth_link_result_redirect env provider None (Some (detail_code ''OAUTH_LINK_FAILED'' e)))))) (\<lambda>location.
           flow_end provider location))"

definition mfa_redirect :: "auth_env \<Rightarrow> request \<Rightarrow> string \<Rightarrow> user \<Rightarrow> string \<Rightarrow> (world, string) op" where
  "mfa_redirect env rq provider u redirect_path =
     ebind (create_login_challenge env u rq (''oauth:'' @ provider) (Some redirect_path)) (\<lambda>(token, expires_in).
     ebind (set_cookie \<lparr>ck_name = auth_mfa_cookie_name (conf env), ck_value = Some token, ck_httponly = True,
         ck_path = ''/api/v1/auth/mfa'', ck_max_age = mfa_challenge_expire_seconds (conf env)\<rparr>) (\<lambda>_.
     flow_end provider (app_url env @ ''/auth/mfa?'' @ urlencode [(''redirect'', redirect_path)])))"

definition finish_login ::
    "auth_env \<Rightarrow> request \<Rightarrow> string \<Rightarrow> oauth_flow \<Rightarrow> user \<Rightarrow> (world, string) op" where
  "finish_login env rq provider flow u =
     (let redirect_path = (if u_email_pending u then ''/profil?oauth_onboarding=email''
            else safe_redirect_path (Some (of_redirect_path flow))) in
     ebind (available_mfa_methods (u_id u)) (\<lambda>methods.
     if methods \<noteq> [] then mfa_redirect env rq provider u redirect_path
     else
       ebind (issue_session env u rq (Some [''oauth''])) (\<lambda>_.
       flow_end provider (app_url env @ ''/auth/callback?'' @ urlencode [(''redirect'', redirect_path)]))))"

definition callback_login ::
    "auth_env \<Rightarrow> oauth_identity option \<Rightarrow> request \<Rightarrow> string \<Rightarrow> oauth_flow \<Rightarrow> oauth_identity \<Rightarrow> (world, string) op" where
  "callback_login env rival rq provider flow idn =
     ebind (ecatch (ebind (authenticate_oauth_identity env rival idn) (\<lambda>u. eret (Inr u)))
         (on_http (\<lambda>e. eret (Inl e)))) (\<lambda>outcome.
     case outcome of
       Inl e \<Rightarrow> oauth_flow_error_redirect env ''login'' provider (detail_code ''OAUTH_LOGIN_FAILED'' e)
     | Inr u \<Rightarrow> finish_login env rq provider flow u)"

text \<open>The identity behind a code; every exception of the exchange is answered in the same way.\<close>

definition exchanged :: "auth_env \<Rightarrow> string \<Rightarrow> string \<Rightarrow> (world, oauth_identity option) op" where
  "exchanged env provider code =
     ecatch (ebind (exchange_oauth_code env provider code) (\<lambda>idn. eret (Some idn))) (\<lambda>e. eret None)"

definition oauth_callback ::
    "auth_env \<Rightarrow> oauth_identity option \<Rightarrow> request \<Rightarrow> string \<Rightarrow> string \<Rightarrow> string option \<Rightarrow> string option \<Rightarrow> (world, string) op" where
  "oauth_callback env rival rq provider state code error =
     (let provider = normalize_provider provider in
     ebind (eensure (provider_is_configured env provider) (http_error 404 ''OAUTH_PROVIDER_DISABLED'')) (\<lambda>_.
     ebind (decode_oauth_flow env (cookie_of rq (oauth_cookie_name provider))) (\<lambda>decoded.
     case decoded of
       None \<Rightarrow> flow_end provider (oauth_login_error_redirect env ''INVALID_OAUTH_STATE'')
     | Some flow \<Rightarrow>
         ebind (elift (compare_digest (of_state flow) state)) (\<lambda>same_state.
         if \<not> same_state then oauth_flow_error_redirect env (of_mode flow) provider ''INVALID_OAUTH_STATE''
         else if truthy error \<or> \<not> truthy code then oauth_flow_error_redirect env (of_mode flow) provider ''OAUTH_ACCESS_DENIED''
         else
           ebind (exchanged env provider (the code)) (\<lambda>identified.
           case identified of
             None \<Rightarrow> oauth_flow_error_redirect env (of_mode flow) provider (flow_error_code (of_mode flow))
           | Some idn \<Rightarrow>
               if of_mode flow = ''link'' then finish_link env rq provider flow idn
               else callback_login env rival rq provider flow idn)))))"

section \<open>The user's linked accounts\<close>

definition get_user_oauth_accounts :: "auth_env \<Rightarrow> request \<Rightarrow> (world, oauth_account list) op" where
  "get_user_oauth_accounts env rq = ebind (get_current_active_user env rq) (\<lambda>u. get_for_user (u_id u))"

definition delete_user_oauth_account :: "auth_env \<Rightarrow> request \<Rightarrow> string \<Rightarrow> (world, unit) op" where
  "delete_user_oauth_account env rq provider =
     ebind (get_csrf_protected_active_user env rq) (\<lambda>u.
     ebind (require_recent_auth env rq) (\<lambda>_.
     unlink_oauth_account u (normalize_provider provider)))"

text \<open>The requests and their handlers.\<close>

datatype oauth_request =
    Complete_oauth_email string
  | Oauth_login string "string option"
  | Oauth_link string
  | Oauth_callback "oauth_identity option" string string "string option" "string option"
  | Get_oauth_accounts
  | Delete_oauth_account string

primrec handle_oauth :: "auth_env \<Rightarrow> request \<Rightarrow> oauth_request \<Rightarrow> (world, unit) op" where
  "handle_oauth env rq (Complete_oauth_email email) = post_complete_oauth_email env rq email"
| "handle_oauth env rq (Oauth_login provider redirect) = ignore (oauth_login env rq provider redirect)"
| "handle_oauth env rq (Oauth_link provider) = ignore (oauth_link env rq provider)"
| "handle_oauth env rq (Oauth_callback rival provider state code error) = ignore (oauth_callback env rival rq provider state code error)"
| "handle_oauth env rq Get_oauth_accounts = ignore (get_user_oauth_accounts env rq)"
| "handle_oauth env rq (Delete_oauth_account provider) = delete_user_oauth_account env rq provider"

end
