(* ===== verification/Auth_Serve.thy ===== *)
theory Auth_Serve
  imports Passkey_Api OAuth_Api
begin

text \<open>
  The application as a server: \<open>auth_request\<close> is a request with its validated payload (and the rival of
  a sign-up or first login), \<open>handle\<close> its handler, \<open>serve\<close> a whole request, that is the handler and then
  the end of its database session, and \<open>serve_all\<close> a sequence of requests.
\<close>

section \<open>Serving requests\<close>

datatype auth_request =
    Signup rival string string string string
  | Refresh
  | Logout
  | Logout_all
  | Get_session
  | Verify_email string
  | Resend_verification
  | Forgot_password string
  | Reset_password string string
  | Change_password string string
  | Login string string
  | Get_challenge
  | Mfa_verify "string option" "string option" "string option"
  | Get_security
  | Totp_setup
  | Totp_confirm string
  | Recovery_codes "string option" "string option" "string option"
  | Delete_totp "string option" "string option" "string option"
  | Patch_me "string option option" "string option option" "string option option"
  | Deactivate_me
  | Delete_me string "string option"
  | Passkey passkey_request
  | OAuth oauth_request

primrec handle :: "auth_env \<Rightarrow> request \<Rightarrow> auth_request \<Rightarrow> (world, unit) op" where
  "handle env rq (Signup rival email pw first_name last_name) = ignore (post_signup env rival rq email pw first_name last_name)"
| "handle env rq Refresh = ignore (post_refresh env rq)"
| "handle env rq Logout = post_logout env rq"
| "handle env rq Logout_all = post_logout_all env rq"
| "handle env rq Get_session = ignore (get_auth_session env rq)"
| "handle env rq (Verify_email token) = ignore (post_verify_email env token)"
| "handle env rq Resend_verification = ignore (post_resend_verification env rq)"
| "handle env rq (Forgot_password email) = post_forgot_password env rq email"
| "handle env rq (Reset_password token pw) = post_reset_password env rq token pw"
| "handle env rq (Change_password old new) = post_change_password env rq old new"
| "handle env rq (Login email pw) = ignore (post_login env rq email pw)"
| "handle env rq Get_challenge = ignore (get_mfa_challenge env rq)"
| "handle env rq (Mfa_verify token code rc) = ignore (post_mfa_verify env rq token code rc)"
| "handle env rq Get_security = ignore (get_mfa_security env rq)"
| "handle env rq Totp_setup = ignore (post_totp_setup env rq)"
| "handle env rq (Totp_confirm code) = ignore (post_totp_confirm env rq code)"
| "handle env rq (Recovery_codes pw code rc) = ignore (post_recovery_codes env rq pw code rc)"
| "handle env rq (Delete_totp pw code rc) = delete_totp env rq pw code rc"
| "handle env rq (Patch_me first_name last_name display_name) = patch_user_me env rq first_name last_name display_name"
| "handle env rq Deactivate_me = post_deactivate_user_me env rq"
| "handle env rq (Delete_me confirmation pw) = delete_user_me env rq confirmation pw"
| "handle env rq (Passkey q) = handle_passkey env rq q"
| "handle env rq (OAuth q) = handle_oauth env rq q"

definition serve :: "auth_env \<Rightarrow> request \<times> auth_request \<Rightarrow> world \<Rightarrow> world" where
  "serve env r w = end_request (snd (handle env (fst r) (snd r) w))"

primrec serve_all :: "auth_env \<Rightarrow> (request \<times> auth_request) list \<Rightarrow> world \<Rightarrow> world" where
  "serve_all env [] w = w"
| "serve_all env (r # rs) w = serve_all env rs (serve env r w)"

end
