(* ===== verification/Auth_Steps.thy ===== *)
theory Auth_Steps
  imports Auth_Serve
begin

text \<open>
  An abstract specification of the authentication store, and the refinement: \<open>astep\<close> are the
  changes of the database the services may make, each with its guard, \<open>wstep\<close> adds the
  transactions, and every request handler of \<open>Auth_Api\<close> is shown to run through such steps only
  (\<open>run_handle\<close>). A property of the whole application is then proved by rule induction on
  \<open>astep\<close>: the locale \<open>auth_invariant\<close>.
\<close>

section \<open>The steps\<close>

definition active_row :: "uuid \<Rightarrow> db \<Rightarrow> bool" where
  "active_row i d \<longleftrightarrow> (\<exists>u \<in> set (users d). u_id u = i \<and> u_is_active u)"

text \<open>Updates of a user row that leave key, activity and privilege alone.\<close>

definition profile :: "(user \<Rightarrow> user) \<Rightarrow> bool" where
  "profile f \<longleftrightarrow> (\<forall>u. u_id (f u) = u_id u \<and> u_is_active (f u) = u_is_active u \<and> u_is_superuser (f u) = u_is_superuser u)"

definition may_leave :: "uuid \<Rightarrow> db \<Rightarrow> bool" where
  "may_leave i d \<longleftrightarrow> (\<exists>u. find (\<lambda>u. u_id u = i) (users d) = Some u \<and>
     (u_is_superuser u \<longrightarrow> 1 < length (active_superusers d)))"

definition fresh_session :: "auth_env \<Rightarrow> nat \<Rightarrow> nat \<Rightarrow> user_session \<Rightarrow> bool" where
  "fresh_session env n m r \<longleftrightarrow>
     (\<exists>j. n \<le> j \<and> j < m \<and> us_jti r = uuid_str (uuid4 env j)) \<and> us_revoked_at r = None \<and> us_rotated_at r = None"

text \<open>Updates of a challenge that keep its identity, count at most one more attempt and only below the limit.\<close>

definition challenge_update :: "auth_env \<Rightarrow> mfa_challenge \<Rightarrow> mfa_challenge \<Rightarrow> bool" where
  "challenge_update env c c' \<longleftrightarrow> mc_id c' = mc_id c \<and> mc_user_id c' = mc_user_id c \<and> mc_token_hash c' = mc_token_hash c \<and>
     (mc_used_at c \<noteq> None \<longrightarrow> mc_used_at c' \<noteq> None) \<and> (mc_invalidated_at c \<noteq> None \<longrightarrow> mc_invalidated_at c' \<noteq> None) \<and>
     (mc_attempt_count c' = mc_attempt_count c \<or>
      mc_attempt_count c' = mc_attempt_count c + 1 \<and> mc_attempt_count c < mfa_max_attempts (conf env) \<and>
      (mfa_max_attempts (conf env) \<le> mc_attempt_count c' \<longrightarrow> mc_invalidated_at c' \<noteq> None))"

text \<open>Updates of an enabled TOTP method: it stays enabled with its secret and its counter only grows.\<close>

definition method_update :: "mfa_method \<Rightarrow> mfa_method \<Rightarrow> bool" where
  "method_update m m' \<longleftrightarrow> mm_id m' = mm_id m \<and> mm_user_id m' = mm_user_id m \<and> mm_type m' = mm_type m \<and>
     (mm_is_enabled m \<longrightarrow> mm_is_enabled m' \<and> mm_secret_encrypted m' = mm_secret_encrypted m \<and>
        (\<forall>c. mm_last_used_counter m = Some c \<longrightarrow> (\<exists>c' \<ge> c. mm_last_used_counter m' = Some c')))"

text \<open>Updates of a WebAuthn ceremony: a used or invalidated one stays so.\<close>

definition ceremony_update :: "webauthn_challenge \<Rightarrow> webauthn_challenge \<Rightarrow> bool" where
  "ceremony_update c c' \<longleftrightarrow> wac_id c' = wac_id c \<and> wac_token_hash c' = wac_token_hash c \<and>
     (wac_used_at c \<noteq> None \<longrightarrow> wac_used_at c' \<noteq> None) \<and> (wac_invalidated_at c \<noteq> None \<longrightarrow> wac_invalidated_at c' \<noteq> None)"

inductive astep :: "auth_env \<Rightarrow> nat \<times> db \<Rightarrow> nat \<times> db \<Rightarrow> bool" for env where
  a_draw: "astep env (n, d) (Suc n, d)"
| a_audit: "astep env (n, d) (n, d\<lparr>audit_logs := a\<rparr>)"
| a_verification: "astep env (n, d) (n, d\<lparr>verification_tokens := v\<rparr>)"
| a_profile: "profile f \<Longrightarrow> astep env (n, d) (n, d\<lparr>users := update_where (\<lambda>u. u_id u = i) f (users d)\<rparr>)"
| a_signup: "u_id u = uuid4 env n \<Longrightarrow> u_is_active u \<Longrightarrow> \<not> u_is_superuser u \<Longrightarrow> astep env (n, d) (Suc n, insert_user u d)"
| a_deactivate: "may_leave i d \<Longrightarrow>
    astep env (n, d) (n, d\<lparr>users := update_where (\<lambda>u. u_id u = i) (\<lambda>u. u\<lparr>u_is_active := False,
      u_deactivated_at := t, u_deactivation_reason := why\<rparr>) (users d)\<rparr>)"
| a_purge: "astep env (n, d) (n, d\<lparr>
      oauth_accounts := filter (\<lambda>r. oa_user_id r \<noteq> i) (oauth_accounts d),
      sessions := filter (\<lambda>r. us_user_id r \<noteq> i) (sessions d),
      reset_tokens := filter (\<lambda>r. prt_user_id r \<noteq> i) (reset_tokens d),
      verification_tokens := filter (\<lambda>r. vt_user_id r \<noteq> i) (verification_tokens d)\<rparr>)"
| a_delete: "may_leave i d \<Longrightarrow> astep env (n, d) (n, cascade_delete i d)"
| a_revoke: "astep env (n, d) (n, d\<lparr>sessions := update_where p (revoke t why) (sessions d)\<rparr>)"
| a_issue: "active_row (us_user_id r) d \<Longrightarrow> fresh_session env n m r \<Longrightarrow> us_family_id r = uuid4 env k \<Longrightarrow> n \<le> k \<Longrightarrow> k < m \<Longrightarrow>
    astep env (n, d) (m, d\<lparr>sessions := sessions d @ [r]\<rparr>)"
| a_rotate: "r \<in> set (sessions d) \<Longrightarrow> us_revoked_at r = None \<Longrightarrow> us_rotated_at r = None \<Longrightarrow>
    active_row (us_user_id r') d \<Longrightarrow> fresh_session env n m r' \<Longrightarrow> us_family_id r' = us_family_id r \<Longrightarrow>
    astep env (n, d) (m, d\<lparr>sessions := update_where (\<lambda>q. us_id q = us_id r) (\<lambda>q. (revoke t why q)\<lparr>us_rotated_at := Some t,
      us_last_used_at := Some t, us_replaced_by_jti := Some j\<rparr>) (sessions d) @ [r']\<rparr>)"
| a_reset_invalidate: "astep env (n, d) (n, d\<lparr>reset_tokens :=
      update_where p (\<lambda>t. t\<lparr>prt_invalidated_at := Some now\<rparr>) (reset_tokens d)\<rparr>)"
| a_reset_use: "astep env (n, d) (n, d\<lparr>reset_tokens :=
      update_where p (\<lambda>t. t\<lparr>prt_used_at := Some now\<rparr>) (reset_tokens d)\<rparr>)"
| a_reset_issue: "(\<forall>q \<in> set (reset_tokens d). prt_user_id q = prt_user_id t \<longrightarrow> \<not> live_reset q) \<Longrightarrow>
    prt_token_hash t = hash_token env (token_urlsafe env k) \<Longrightarrow> n \<le> k \<Longrightarrow> k < m \<Longrightarrow>
    astep env (n, d) (m, d\<lparr>reset_tokens := reset_tokens d @ [t]\<rparr>)"
| a_recovery: "astep env (n, d) (n, d\<lparr>recovery_codes := c\<rparr>)"
| a_challenge: "mc_attempt_count c = 0 \<Longrightarrow> astep env (n, d) (n, d\<lparr>mfa_challenges := mfa_challenges d @ [c]\<rparr>)"
| a_challenges: "list_all2 (\<lambda>c c'. c' = c \<or> challenge_update env c c') (mfa_challenges d) cs \<Longrightarrow>
    astep env (n, d) (n, d\<lparr>mfa_challenges := cs\<rparr>)"
| a_methods: "list_all2 method_update (mfa_methods d) ms \<Longrightarrow> astep env (n, d) (n, d\<lparr>mfa_methods := ms\<rparr>)"
| a_method: "mm_id m = uuid4 env n \<Longrightarrow> \<not> mm_is_enabled m \<Longrightarrow> astep env (n, d) (Suc n, d\<lparr>mfa_methods := mfa_methods d @ [m]\<rparr>)"
| a_drop_methods: "astep env (n, d) (n, d\<lparr>mfa_methods := filter p (mfa_methods d)\<rparr>)"
| a_credentials: "astep env (n, d) (n, d\<lparr>credentials := k\<rparr>)"
| a_oauth: "astep env (n, d) (n, d\<lparr>oauth_accounts := oa\<rparr>)"
| a_ceremony: "wac_used_at c = None \<Longrightarrow> wac_token_hash c = hash_token env (token_urlsafe env k) \<Longrightarrow> n \<le> k \<Longrightarrow> k < m \<Longrightarrow>
    astep env (n, d) (m, d\<lparr>webauthn_challenges := webauthn_challenges d @ [c]\<rparr>)"
| a_ceremonies: "list_all2 ceremony_update (webauthn_challenges d) cs \<Longrightarrow> astep env (n, d) (n, d\<lparr>webauthn_challenges := cs\<rparr>)"

inductive wstep :: "auth_env \<Rightarrow> world \<Rightarrow> world \<Rightarrow> bool" for env where
  w_env: "wstep env w (w\<lparr>ticks := a, outbox := b, response := c, memory_windows := e\<rparr>)"
| w_db: "astep env (draws w, working w) (m, d) \<Longrightarrow> wstep env w (w\<lparr>draws := m, working := d\<rparr>)"
| w_commit: "db_ok (working w) \<Longrightarrow> wstep env w (w\<lparr>committed := working w\<rparr>)"
| w_rollback: "wstep env w (w\<lparr>working := committed w\<rparr>)"
| w_rival: "u_id u = uuid4 env k \<Longrightarrow> u_is_active u \<Longrightarrow> \<not> u_is_superuser u \<Longrightarrow> draws w \<le> k \<Longrightarrow> k < m \<Longrightarrow>
    db_ok ((insert_user u (committed w))\<lparr>oauth_accounts := a\<rparr>) \<Longrightarrow>
    wstep env w (w\<lparr>draws := m, committed := (insert_user u (committed w))\<lparr>oauth_accounts := a\<rparr>,
      working := (insert_user u (working w))\<lparr>oauth_accounts := b\<rparr>\<rparr>)"

abbreviation wsteps :: "auth_env \<Rightarrow> world \<Rightarrow> world \<Rightarrow> bool" where
  "wsteps env \<equiv> (wstep env)\<^sup>*\<^sup>*"

lemma astep_mono: "astep env s t \<Longrightarrow> fst s \<le> fst t"
  by (induction rule: astep.induct) (auto simp: fresh_session_def)

section \<open>Invariants of the store\<close>

locale auth_invariant =
  fixes env :: auth_env
    and P :: "nat \<Rightarrow> db \<Rightarrow> bool"
  assumes step: "P n d \<Longrightarrow> astep env (n, d) (m, e) \<Longrightarrow> P m e"
begin

definition holds :: "world \<Rightarrow> bool" where
  "holds w \<longleftrightarrow> P (draws w) (committed w) \<and> P (draws w) (working w)"

lemma later:
  assumes "n \<le> m" and "P n d"
  shows "P m d"
  using assms by (induction rule: dec_induct) (auto intro: step a_draw)

lemma holds_wstep: "wstep env w v \<Longrightarrow> holds w \<Longrightarrow> holds v"
proof (induction rule: wstep.induct)
  case (w_db w m d)
  from w_db.hyps have "draws w \<le> m" using astep_mono by fastforce
  with w_db show ?case by (auto simp: holds_def intro: step later)
next
  case (w_rival u k w m a b)
  have "P m ((insert_user u d)\<lparr>oauth_accounts := c\<rparr>)" if "P (draws w) d" for d c
  proof -
    have "P (Suc k) (insert_user u d)" by (rule step [OF later [OF w_rival.hyps(4) that] a_signup]) (use w_rival.hyps in auto)
    then have "P m (insert_user u d)" by (rule later [rotated]) (use w_rival.hyps in simp)
    then show ?thesis by (rule step) (rule a_oauth)
  qed
  with w_rival.prems show ?case by (simp add: holds_def)
qed (auto simp: holds_def)

lemma holds_wsteps: "wsteps env w v \<Longrightarrow> holds w \<Longrightarrow> holds v"
  by (induction rule: rtranclp_induct) (auto intro: holds_wstep)

end

section \<open>Running through steps\<close>

text \<open>
  \<open>run env P m Q\<close>: started where \<open>P\<close> holds, \<open>m\<close> goes through steps only, and when it returns, \<open>Q\<close> holds
  of the result and the final world.
\<close>

definition run :: "auth_env \<Rightarrow> (world \<Rightarrow> bool) \<Rightarrow> (world, 'a) op \<Rightarrow> ('a \<Rightarrow> world \<Rightarrow> bool) \<Rightarrow> bool" where
  "run env P m Q \<longleftrightarrow> (\<forall>w. P w \<longrightarrow> wsteps env w (snd (m w)) \<and> (\<forall>x. fst (m w) = Inr x \<longrightarrow> Q x (snd (m w))))"

abbreviation sim :: "auth_env \<Rightarrow> (world, 'a) op \<Rightarrow> bool" where
  "sim env m \<equiv> run env (\<lambda>_. True) m (\<lambda>_ _. True)"

named_theorems run_intros

lemma run_ebind [run_intros]:
  assumes "run env P m R" and "\<And>x. run env (R x) (f x) Q"
  shows "run env P (ebind m f) Q"
  unfolding run_def
proof (intro allI impI)
  fix w
  assume w: "P w"
  obtain r v where mw: "m w = (r, v)" by (cases "m w")
  with assms(1) w have 1: "wsteps env w v" "\<And>x. r = Inr x \<Longrightarrow> R x v" by (auto simp: run_def)
  show "wsteps env w (snd (ebind m f w)) \<and> (\<forall>y. fst (ebind m f w) = Inr y \<longrightarrow> Q y (snd (ebind m f w)))"
  proof (cases r)
    case (Inl e)
    with mw 1 show ?thesis by (simp add: ebind_def)
  next
    case (Inr x)
    with 1 assms(2) [of x] have "wsteps env v (snd (f x v))" "\<forall>y. fst (f x v) = Inr y \<longrightarrow> Q y (snd (f x v))"
      by (auto simp: run_def)
    with Inr mw 1 show ?thesis by (auto simp: ebind_def)
  qed
qed

lemma run_weaken: "run env P m Q \<Longrightarrow> (\<And>w. P' w \<Longrightarrow> P w) \<Longrightarrow> (\<And>x w. Q x w \<Longrightarrow> Q' x w) \<Longrightarrow> run env P' m Q'"
  by (auto simp: run_def)

lemma run_pre: "sim env m \<Longrightarrow> run env P m (\<lambda>_ _. True)"
  by (auto simp: run_def)

lemma run_pure [run_intros]:
  "run env P (eraise e) Q"
  "run env P (eensure b e) (\<lambda>_ w. b \<and> P w)"
  "run env P (elift q) (\<lambda>x w. q = Inr x \<and> P w)"
  "run env P (eret x) (\<lambda>y w. y = x \<and> P w)"
  "run env P (eget f) (\<lambda>y w. y = f w \<and> P w)"
  by (auto simp: run_def eraise_def eensure_def elift_def eret_def eget_def)

lemma run_ecatch:
  assumes "run env P m Q" and "\<And>e. sim env (h e)"
  shows "run env P (ecatch m h) (\<lambda>_ _. True)"
  using assms unfolding run_def ecatch_def
  by (auto split: prod.splits sum.splits) (metis rtranclp_trans snd_conv)+

lemma run_ecatch_post:
  assumes "run env P m Q" and "\<And>e. run env (\<lambda>_. True) (h e) Q"
  shows "run env P (ecatch m h) Q"
  using assms unfolding run_def ecatch_def
  by (auto split: prod.splits sum.splits) (metis rtranclp_trans snd_conv)+

lemma sim_cases [run_intros]:
  "(b \<Longrightarrow> run env P m Q) \<Longrightarrow> (\<not> b \<Longrightarrow> run env P n Q) \<Longrightarrow> run env P (if b then m else n) Q"
  "(\<And>x y. run env P (f x y) Q) \<Longrightarrow> run env P (case p of (x, y) \<Rightarrow> f x y) Q"
  "run env P m Q \<Longrightarrow> (\<And>x. run env P (g x) Q) \<Longrightarrow> run env P (case q of None \<Rightarrow> m | Some x \<Rightarrow> g x) Q"
  by (auto split: prod.splits option.splits)

text \<open>The same without assertions.\<close>

named_theorems sim_intros

lemma sim_ebind [sim_intros]: "sim env m \<Longrightarrow> (\<And>x. sim env (f x)) \<Longrightarrow> sim env (ebind m f)"
  by (rule run_ebind)

lemma sim_ecatch [sim_intros]: "sim env m \<Longrightarrow> (\<And>e. sim env (h e)) \<Longrightarrow> sim env (ecatch m h)"
  by (rule run_ecatch)

lemma sim_pure [sim_intros]:
  "sim env (eret x)" "sim env (eraise e)" "sim env (elift q)" "sim env (eensure b e)" "sim env (eget f)"
  by (auto simp: run_def eraise_def eensure_def elift_def eret_def eget_def)

lemma sim_if [sim_intros]: "sim env m \<Longrightarrow> sim env n \<Longrightarrow> sim env (if b then m else n)"
  by simp

lemma sim_option [sim_intros]: "sim env m \<Longrightarrow> (\<And>x. sim env (g x)) \<Longrightarrow> sim env (case q of None \<Rightarrow> m | Some x \<Rightarrow> g x)"
  by (simp split: option.splits)

lemma sim_pair [sim_intros]: "(\<And>x y. sim env (f x y)) \<Longrightarrow> sim env (case p of (x, y) \<Rightarrow> f x y)"
  by (simp split: prod.splits)

lemma sim_emap [sim_intros]: "(\<And>x. sim env (f x)) \<Longrightarrow> sim env (emap f xs)"
  by (induction xs) (auto intro!: sim_intros)

lemma sim_statement:
  assumes "\<And>n d. astep env (n, d) (n, f d)"
  shows "sim env (statement f)"
  unfolding run_def statement_def emodify_def
proof (intro allI impI conjI; simp)
  fix w
  from w_db [OF assms [of "draws w" "working w"]]
  show "wsteps env w (w\<lparr>working := f (working w)\<rparr>)" by simp
qed

lemma wsteps_env: "wsteps env w (w\<lparr>ticks := a, outbox := b, response := c, memory_windows := e\<rparr>)"
  by (rule r_into_rtranclp, rule w_env)

lemma wsteps_parts:
  "wsteps env w (w\<lparr>ticks := a\<rparr>)" "wsteps env w (w\<lparr>outbox := b\<rparr>)"
  "wsteps env w (w\<lparr>response := c\<rparr>)" "wsteps env w (w\<lparr>memory_windows := e\<rparr>)"
  using wsteps_env [of env w "memory_windows w" "response w" "outbox w" a]
    wsteps_env [of env w "memory_windows w" "response w" b "ticks w"]
    wsteps_env [of env w "memory_windows w" c "outbox w" "ticks w"]
    wsteps_env [of env w e "response w" "outbox w" "ticks w"]
  by simp_all

lemma wsteps_ext:
  assumes "draws v = draws w" and "working v = working w" and "committed v = committed w"
  shows "wsteps env w v"
proof -
  have "v = w\<lparr>ticks := ticks v, outbox := outbox v, response := response v, memory_windows := memory_windows v\<rparr>"
    using assms by (cases v, cases w) simp
  then show ?thesis using wsteps_env by metis
qed

lemma wsteps_db:
  assumes "astep env (draws w, working w) (draws v, working v)" and "committed v = committed w"
  shows "wsteps env w v"
proof -
  let ?u = "w\<lparr>draws := draws v, working := working v\<rparr>"
  have "wstep env w ?u" using assms(1) by (rule w_db)
  moreover have "wsteps env ?u v" by (rule wsteps_ext) (use assms in auto)
  ultimately show ?thesis by (rule converse_rtranclp_into_rtranclp)
qed

lemma wsteps_draw: "wsteps env w (w\<lparr>draws := Suc (draws w)\<rparr>)"
  using w_db [OF a_draw [of env "draws w" "working w"]] by (auto intro: r_into_rtranclp)

text \<open>The primitives, evaluated.\<close>

lemma prim_simps:
  "utcnow env w = (Inr (clock env (ticks w)), w\<lparr>ticks := Suc (ticks w)\<rparr>)"
  "time_monotonic env w = (Inr (monotonic env (ticks w)), w\<lparr>ticks := Suc (ticks w)\<rparr>)"
  "draw g w = (Inr (g (draws w)), w\<lparr>draws := Suc (draws w)\<rparr>)"
  "query q w = (Inr (q (working w)), w)"
  "statement f w = (Inr (), w\<lparr>working := f (working w)\<rparr>)"
  "commit w = (if db_ok (working w) then (Inr (), w\<lparr>committed := working w\<rparr>) else (Inl (Raise IntegrityError (Msg [])), w))"
  "rollback w = (Inr (), w\<lparr>working := committed w\<rparr>)"
  by (simp_all add: utcnow_def time_monotonic_def draw_def query_def statement_def commit_def rollback_def
      ebind_def eget_def emodify_def eret_def eraise_def)

lemma sim_prims [sim_intros]:
  "sim env (utcnow env')" "sim env (time_monotonic env')" "sim env (draw g)" "sim env (query q)"
  "sim env commit" "sim env rollback" "sim env (deliver env' m)" "sim env (set_cookie c)"
  by (auto simp: run_def prim_simps deliver_def set_cookie_def emodify_def ebind_def eget_def eraise_def
      intro: wsteps_parts wsteps_draw r_into_rtranclp w_commit w_rollback split: option.splits)

lemma sim_windows [sim_intros]: "sim env (emodify (\<lambda>w. w\<lparr>memory_windows := ws\<rparr>))"
  by (auto simp: run_def emodify_def intro: wsteps_parts)

lemma sim_memory_check [sim_intros]: "sim env (check_memory env' key window)"
  unfolding check_memory_def by (intro sim_intros)

lemma sim_check_rate_limit [sim_intros]: "sim env (check_rate_limit env' key a b c code)"
  unfolding check_rate_limit_def check_redis_def Let_def by (intro sim_intros)

lemma sim_limited [sim_intros]: "sim env (limited env' key a b)"
  unfolding limited_def by (intro sim_intros)

lemma sim_on_class [sim_intros]: "sim env m \<Longrightarrow> sim env (on_class c m e)"
  unfolding on_class_def by (intro sim_intros)

lemma sim_decode [sim_intros]: "sim env (decode_jwt env' t ty)" "sim env (hash_password env' pw)"
    "sim env (generate_token env')" "sim env (create_csrf_token env')"
  unfolding decode_jwt_def hash_password_def generate_token_def create_csrf_token_def by (intro sim_intros)+

lemma sim_tables [sim_intros]:
  "sim env (add_audit a)"
  "sim env (update_sessions p (revoke t why))"
  "sim env (revoke_token_family f t why)"
  "profile f' \<Longrightarrow> sim env (set_user i f')"
  "sim env (invalidate_resets p' t)"
  unfolding add_audit_def update_sessions_def revoke_token_family_def set_user_def invalidate_resets_def
  by (rule sim_statement, blast intro: astep.intros)+

lemma sim_cookies [sim_intros]:
  "sim env (set_auth_cookies env' a b c)" "sim env (clear_auth_cookies env')" "sim env (delete_cookie n p)"
  "sim env (clear_mfa_cookie env')" "sim env (refresh_failure env' e)"
  unfolding set_auth_cookies_def clear_auth_cookies_def delete_cookie_def clear_mfa_cookie_def refresh_failure_def Let_def
  by (intro sim_intros)+

lemma sim_users [sim_intros]:
  "sim env (get_user_by_email e)" "sim env (user_row i)" "sim env (get_user_by_id s)" "sim env (session_by_jti j)"
  unfolding get_user_by_email_def user_row_def get_user_by_id_def session_by_jti_def by (intro sim_intros)+

lemma sim_verification [sim_intros]:
  "sim env (statement (\<lambda>d. d\<lparr>verification_tokens := v d\<rparr>))"
  "sim env (create_verification_token env' u)" "sim env (send_verification_email env' u t)"
proof -
  show s: "sim env (statement (\<lambda>d. d\<lparr>verification_tokens := v d\<rparr>))" for v
    by (rule sim_statement) (rule a_verification)
  show "sim env (create_verification_token env' u)"
    unfolding create_verification_token_def by (intro sim_intros s)
  show "sim env (send_verification_email env' u t)"
    unfolding send_verification_email_def by (intro sim_intros)
qed

lemma sim_ensure_user [sim_intros]: "sim env (ensure_user_can_authenticate u p b)"
  unfolding ensure_user_can_authenticate_def by (intro sim_intros)

lemma profileI:
  "profile (\<lambda>q. q\<lparr>u_last_login_at := a\<rparr>)" "profile (\<lambda>q. q\<lparr>u_is_verified := b\<rparr>)"
  "profile (\<lambda>q. q\<lparr>u_password_hash := c, u_updated_at := e\<rparr>)"
  by (simp_all add: profile_def)


section \<open>Sign-up and login\<close>

text \<open>Facts about a part of the world that an operation leaves alone hold afterwards.\<close>

definition same :: "(db \<Rightarrow> 'a) \<Rightarrow> world \<Rightarrow> world \<Rightarrow> bool" where
  "same part w v \<longleftrightarrow> part (working v) = part (working w)"

lemma same_preorder: "reflp (same part)" "transp (same part)"
  by (auto simp: same_def reflp_def transp_def)

lemmas same_intros = keeps_pure [OF same_preorder(1)] keeps_ebind [OF same_preorder(2)]
  keeps_ecatch [OF same_preorder(2)] keeps_cases keeps_emap [OF same_preorder]

lemma same_prims:
  "keeps (same part) (utcnow env)" "keeps (same part) (draw g)" "keeps (same part) (query q)"
  "keeps (same part) commit" "keeps (same part) (deliver env m)" "keeps (same part) (set_cookie c)"
  "(\<And>d. part (f d) = part d) \<Longrightarrow> keeps (same part) (statement f)"
  by (auto simp: keeps_def same_def prim_simps deliver_def set_cookie_def emodify_def ebind_def eget_def eraise_def
      split: option.splits)

lemma run_part:
  assumes "sim env m" and "keeps (same part) m"
  shows "run env (\<lambda>w. A (part (working w))) m (\<lambda>_ w. A (part (working w)))"
  using assms by (auto simp: run_def keeps_def same_def)

lemma active_row_users: "active_row i d \<longleftrightarrow> (\<exists>u \<in> set (users d). u_id u = i \<and> u_is_active u)"
  by (rule active_row_def)

lemma run_insert_user:
  assumes "\<And>i. u_id (g i) = i \<and> u_is_active (g i) \<and> \<not> u_is_superuser (g i)"
  shows "run env P (ebind (draw (uuid4 env)) (\<lambda>i. ebind (statement (insert_user (g i))) (\<lambda>_. eret i)))
     (\<lambda>i w. active_row i (working w))"
proof -
  have "wsteps env w (w\<lparr>draws := Suc (draws w), working := insert_user (g (uuid4 env (draws w))) (working w)\<rparr>)" for w
    by (rule r_into_rtranclp, rule w_db, rule a_signup) (simp_all add: assms)
  then show ?thesis
    using assms by (auto simp: run_def ebind_def prim_simps eret_def active_row_def insert_user_def)
qed

lemma run_new_user:
  "run env P (ebind (draw (uuid4 env)) (\<lambda>i. ebind (statement (insert_user (new_user i email hash fname lname))) (\<lambda>_. eret i)))
     (\<lambda>i w. active_row i (working w))"
  by (rule run_insert_user) (simp add: new_user_def)

lemma run_rival: "run env (\<lambda>w. active_row i (working w)) (rival_commits env rival) (\<lambda>_ w. active_row i (working w))"
proof (cases rival)
  case None
  then show ?thesis by (auto simp: run_def rival_commits_def eret_def)
next
  case (Some q)
  obtain e h f l where q: "q = (e, h, f, l)" by (cases q)
  show ?thesis
    unfolding run_def
  proof (intro allI impI)
    fix w :: world
    assume a: "active_row i (working w)"
    let ?u = "new_user (uuid4 env (draws w)) e (Some h) f l"
    show "wsteps env w (snd (rival_commits env rival w)) \<and>
      (\<forall>x. fst (rival_commits env rival w) = Inr x \<longrightarrow> active_row i (working (snd (rival_commits env rival w))))"
    proof (cases "db_ok (insert_user ?u (committed w))")
      case True
      then have "wsteps env w (w\<lparr>draws := Suc (draws w), committed := insert_user ?u (committed w), working := insert_user ?u (working w)\<rparr>)"
        using w_rival [of ?u env "draws w" w "Suc (draws w)" "oauth_accounts (committed w)" "oauth_accounts (working w)"]
        by (auto simp: insert_user_def new_user_def)
      with True a Some q show ?thesis
        by (auto simp: rival_commits_def ebind_def prim_simps emodify_def active_row_def insert_user_def Let_def)
    next
      case False
      with wsteps_draw [of env w] a Some q show ?thesis
        by (auto simp: rival_commits_def ebind_def prim_simps emodify_def Let_def)
    qed
  qed
qed


lemma ebind_pair: "ebind m (\<lambda>i. ebind (s i) (\<lambda>_. k i)) = ebind (ebind m (\<lambda>i. ebind (s i) (\<lambda>_. eret i))) k"
  by (rule ext) (auto simp: ebind_def eret_def split: prod.splits sum.splits)

lemma sim_hash_or_422 [sim_intros]:
  "sim env (ecatch (hash_password env' pw) (on_class ValueError (eraise e)))"
  by (intro sim_intros)

lemma run_commit_or_409:
  "run env (\<lambda>w. A (users (working w))) (ecatch commit (on_class IntegrityError (ebind rollback (\<lambda>_. eraise e))))
     (\<lambda>_ w. A (users (working w)))"
proof -
  have "wsteps env w (w\<lparr>committed := working w\<rparr>)" if "db_ok (working w)" for w
    using that by (blast intro: w_commit)
  moreover have "wsteps env w (w\<lparr>working := committed w\<rparr>)" for w by (blast intro: w_rollback)
  ultimately show ?thesis
    by (auto simp: run_def ecatch_def prim_simps on_class_def ebind_def eraise_def)
qed

lemma run_verification_token:
  "run env (\<lambda>w. A (users (working w))) (create_verification_token env' u) (\<lambda>_ w. A (users (working w)))"
  by (rule run_part, rule sim_intros, unfold create_verification_token_def generate_token_def)
    (intro same_intros same_prims, simp)

lemma run_verification_email:
  "run env (\<lambda>w. A (users (working w))) (send_verification_email env' u t) (\<lambda>_ w. A (users (working w)))"
  by (rule run_part, rule sim_intros, unfold send_verification_email_def) (rule same_prims)

lemma run_ebind_pair:
  assumes "run env P (ebind m (\<lambda>i. ebind (s i) (\<lambda>_. eret i))) R" and "\<And>i. run env (R i) (k i) Q"
  shows "run env P (ebind m (\<lambda>i. ebind (s i) (\<lambda>_. k i))) Q"
  unfolding ebind_pair [of m s k] using assms by (rule run_ebind)

lemma run_signup:
  "run env (\<lambda>_. True) (signup env rival email pw fname lname) (\<lambda>u w. active_row (u_id u) (working w))"
  unfolding signup_def Let_def
  by (rule run_ebind [where R = "\<lambda>_ _. True"], rule sim_intros,
      rule run_ebind [where R = "\<lambda>_ _. True"], rule sim_intros,
      rule run_ebind [where R = "\<lambda>_ _. True"], rule sim_hash_or_422,
      rule run_ebind_pair [OF run_new_user], rule run_ebind [OF run_rival], unfold active_row_users,
      rule run_ebind [OF run_commit_or_409], rule run_ebind [OF run_verification_token],
      rule run_ebind [OF run_verification_email], rule run_weaken [OF run_pure(4)])
    (auto simp: new_user_def)

section \<open>Sessions\<close>

lemma create_session_record_eval:
  "\<exists>access refresh r. create_session_record env u rq fam at_time amr w =
       (Inr (access, refresh, r), w\<lparr>ticks := ticks w + 3, draws := draws w + 3\<rparr>) \<and>
     us_user_id r = u_id u \<and> us_family_id r = fam \<and> us_jti r = uuid_str (uuid4 env (draws w + 1)) \<and>
     us_revoked_at r = None \<and> us_rotated_at r = None"
  by (auto simp: create_session_record_def create_jwt_def Let_def ebind_def prim_simps eret_def numeral_3_eq_3)

lemma run_issue_session:
  "run env (\<lambda>w. active_row (u_id u) (working w)) (issue_session env u rq amr) (\<lambda>_ _. True)"
proof -
  define rest where "rest = (\<lambda>access refresh. ebind commit (\<lambda>_.
     ebind (create_csrf_token env) (\<lambda>csrf. ebind (set_auth_cookies env access refresh csrf) (\<lambda>_. eret csrf))))"
  have sim: "sim env (rest access refresh)" for access refresh unfolding rest_def by (intro sim_intros)
  show ?thesis
    unfolding run_def
  proof (intro allI impI)
    fix w :: world
    assume a: "active_row (u_id u) (working w)"
    let ?w = "w\<lparr>draws := Suc (draws w), ticks := Suc (ticks w)\<rparr>"
    obtain access refresh r where r: "create_session_record env u rq (uuid4 env (draws w)) (Some (timestamp (clock env (ticks w)))) amr ?w =
         (Inr (access, refresh, r), ?w\<lparr>ticks := ticks ?w + 3, draws := draws ?w + 3\<rparr>)"
        "us_user_id r = u_id u" "us_family_id r = uuid4 env (draws w)" "us_jti r = uuid_str (uuid4 env (draws ?w + 1))"
        "us_revoked_at r = None" "us_rotated_at r = None"
      using create_session_record_eval [of env u rq "uuid4 env (draws w)" "Some (timestamp (clock env (ticks w)))" amr ?w] by auto
    let ?v = "w\<lparr>ticks := 4 + ticks w, draws := 4 + draws w, working := (working w)\<lparr>sessions := sessions (working w) @ [r]\<rparr>\<rparr>"
    have i: "issue_session env u rq amr w = rest access refresh ?v"
      using r(1) by (simp add: issue_session_def rest_def ebind_def prim_simps add_session_def)
    have "fresh_session env (draws w) (draws w + 4) r"
      using r(4-6) by (auto simp: fresh_session_def intro: exI [of _ "draws w + 2"])
    with a r(2,3) have "astep env (draws w, working w) (draws w + 4, (working w)\<lparr>sessions := sessions (working w) @ [r]\<rparr>)"
      by (intro a_issue [where k = "draws w"]) auto
    then have "wsteps env w ?v" by (intro wsteps_db) (auto simp: add.commute)
    moreover have "wsteps env ?v (snd (rest access refresh ?v))" using sim by (simp add: run_def)
    ultimately show "wsteps env w (snd (issue_session env u rq amr w)) \<and> (\<forall>x. fst (issue_session env u rq amr w) = Inr x \<longrightarrow> True)"
      unfolding i by (auto intro: rtranclp_trans)
  qed
qed


lemma find_user: "find (\<lambda>u. u_id u = i) us = Some u \<Longrightarrow> u \<in> set us \<and> u_id u = i"
  by (auto dest: find_SomeD)

lemma ensure_user_eval:
  assumes "ensure_user_can_authenticate u p b w = (Inr x, v)"
  shows "u_is_active u \<and> v = w"
  using assms by (auto simp: ensure_user_can_authenticate_def split: if_splits)

lemma active_update:
  assumes "q \<in> set us" and "u_is_active q" and "profile f"
  shows "\<exists>u \<in> set (update_where p f us). u_id u = u_id q \<and> u_is_active u"
  using assms by (intro bexI [of _ "if p q then f q else q"]) (auto simp: profile_def update_where_def)

lemma run_authenticate:
  "run env (\<lambda>_. True) (authenticate env email pw) (\<lambda>u w. active_row (u_id u) (working w))"
proof -
  have s: "sim env (authenticate env email pw)"
    unfolding authenticate_def by (intro sim_intros profileI)
  have "active_row (u_id u) (working v)" if r: "authenticate env email pw w = (Inr u, v)" for w v u
  proof -
    from r obtain q where q: "find (\<lambda>u. py_lower (u_email u) = py_lower email) (users (working w)) = Some q" "u_is_active q"
      and v: "users (working v) = update_where (\<lambda>x. u_id x = u_id q) (\<lambda>r. r\<lparr>u_last_login_at := Some (clock env (ticks w))\<rparr>) (users (working w))"
      and u: "u_id u = u_id q"
      by (auto simp: authenticate_def get_user_by_email_def prim_simps set_user_def split: option.splits if_splits dest!: ensure_user_eval)
    from q have "q \<in> set (users (working w))" by (auto dest: find_SomeD)
    with v u q(2) show ?thesis by (auto simp: active_row_def intro: active_update profileI)
  qed
  with s show ?thesis by (auto simp: run_def) (metis prod.collapse)
qed

lemma check_session_record_Inr:
  assumes "check_session_record env token subject now found w = (Inr r, v)"
  shows "v = w \<and> found = Some r \<and> us_rotated_at r = None \<and> us_revoked_at r = None \<and>
    us_token_hash r = hash_token env token \<and> JStr (uuid_str (us_user_id r)) = subject \<and> now < us_expires_at r"
  using assms by (auto simp: check_session_record_def split: option.splits if_splits)

lemma sim_check_session_record [sim_intros]: "sim env (check_session_record env' token subject now found)"
  unfolding check_session_record_def by (intro sim_intros)

lemma refreshing_user_Inr:
  assumes "refreshing_user r now w = (Inr u, v)"
  shows "v = w \<and> u \<in> set (users (working w)) \<and> u_is_active u"
  using assms
  by (auto simp: refreshing_user_def get_user_by_id_def user_row_def prim_simps ecatch_Inr
      split: option.splits if_splits dest!: ensure_user_eval find_user)

lemma sim_refreshing_user [sim_intros]: "sim env (refreshing_user r now)"
  unfolding refreshing_user_def by (intro sim_intros)

lemma sim_refresh_payload [sim_intros]: "sim env (refresh_payload env' t)"
  unfolding refresh_payload_def by (intro sim_intros)

text \<open>The last part of a refresh: the new session replaces the old one.\<close>

definition rotate_tail :: "auth_env \<Rightarrow> request \<Rightarrow> json \<Rightarrow> int \<Rightarrow> user_session \<Rightarrow> user \<Rightarrow> (world, user \<times> string) op" where
  "rotate_tail env rq payload now r u =
     ebind (create_session_record env u rq (us_family_id r) (claimed_auth_time payload) (claimed_amr payload)) (\<lambda>(access, refresh, r').
     ebind (update_sessions (\<lambda>q. us_id q = us_id r) (\<lambda>q. (revoke now ''rotated'' q)\<lparr>us_rotated_at := Some now,
         us_last_used_at := Some now, us_replaced_by_jti := Some (us_jti r')\<rparr>)) (\<lambda>_.
     ebind (add_session r') (\<lambda>_.
     ebind commit (\<lambda>_.
     ebind (create_csrf_token env) (\<lambda>csrf.
     ebind (set_auth_cookies env access refresh csrf) (\<lambda>_.
     eret (u, csrf)))))))"

lemma refresh_session_tail:
  "refresh_session env token rq =
     ebind (refresh_payload env token) (\<lambda>payload.
     ebind (session_by_jti (get_or payload ''jti'' JNull)) (\<lambda>found.
     ebind (utcnow env) (\<lambda>now.
     ebind (check_session_record env token (get_or payload ''sub'' JNull) now found) (\<lambda>r.
     ebind (refreshing_user r now) (\<lambda>u.
     rotate_tail env rq payload now r u)))))"
  by (simp add: refresh_session_def rotate_tail_def)

lemma run_rotate_tail:
  "run env (\<lambda>w. r \<in> set (sessions (working w)) \<and> us_revoked_at r = None \<and> us_rotated_at r = None \<and> active_row (u_id u) (working w))
     (rotate_tail env rq payload now r u) (\<lambda>_ _. True)"
proof -
  define rest where "rest = (\<lambda>access refresh. ebind commit (\<lambda>_.
     ebind (create_csrf_token env) (\<lambda>csrf. ebind (set_auth_cookies env access refresh csrf) (\<lambda>_. eret (u, csrf)))))"
  have sim: "sim env (rest access refresh)" for access refresh unfolding rest_def by (intro sim_intros)
  show ?thesis
    unfolding run_def
  proof (intro allI impI)
    fix w :: world
    assume a: "r \<in> set (sessions (working w)) \<and> us_revoked_at r = None \<and> us_rotated_at r = None \<and> active_row (u_id u) (working w)"
    obtain access refresh r' where c: "create_session_record env u rq (us_family_id r) (claimed_auth_time payload) (claimed_amr payload) w =
         (Inr (access, refresh, r'), w\<lparr>ticks := ticks w + 3, draws := draws w + 3\<rparr>)"
        "us_user_id r' = u_id u" "us_family_id r' = us_family_id r" "us_jti r' = uuid_str (uuid4 env (draws w + 1))"
        "us_revoked_at r' = None" "us_rotated_at r' = None"
      using create_session_record_eval [of env u rq "us_family_id r" "claimed_auth_time payload" "claimed_amr payload" w] by auto
    let ?ss = "update_where (\<lambda>q. us_id q = us_id r) (\<lambda>q. (revoke now ''rotated'' q)\<lparr>us_rotated_at := Some now,
         us_last_used_at := Some now, us_replaced_by_jti := Some (us_jti r')\<rparr>) (sessions (working w)) @ [r']"
    let ?v = "w\<lparr>ticks := ticks w + 3, draws := draws w + 3, working := (working w)\<lparr>sessions := ?ss\<rparr>\<rparr>"
    have t: "rotate_tail env rq payload now r u w = rest access refresh ?v"
      using c(1) by (simp add: rotate_tail_def rest_def ebind_def prim_simps add_session_def update_sessions_def)
    have "fresh_session env (draws w) (draws w + 3) r'"
      using c(4-6) by (auto simp: fresh_session_def intro: exI [of _ "draws w + 1"])
    with a c(2,3) have "astep env (draws w, working w) (draws w + 3, (working w)\<lparr>sessions := ?ss\<rparr>)"
      by (intro a_rotate) auto
    then have "wsteps env w ?v" by (intro wsteps_db) auto
    moreover have "wsteps env ?v (snd (rest access refresh ?v))" using sim by (simp add: run_def)
    ultimately show "wsteps env w (snd (rotate_tail env rq payload now r u w)) \<and>
        (\<forall>x. fst (rotate_tail env rq payload now r u w) = Inr x \<longrightarrow> True)"
      unfolding t by (auto intro: rtranclp_trans)
  qed
qed

lemma run_result:
  assumes "sim env m" and "\<And>w x v. P w \<Longrightarrow> m w = (Inr x, v) \<Longrightarrow> Q x v"
  shows "run env P m Q"
  using assms unfolding run_def by (metis prod.collapse)

lemma sim_refresh_session [sim_intros]: "sim env (refresh_session env token rq)"
  unfolding refresh_session_tail
proof (rule run_ebind [where R = "\<lambda>_ _. True"], rule sim_intros)
  fix payload
  let ?f = "\<lambda>w. find (\<lambda>r. JStr (us_jti r) = get_or payload ''jti'' JNull) (sessions (working w))"
  show "sim env (ebind (session_by_jti (get_or payload ''jti'' JNull)) (\<lambda>found. ebind (utcnow env) (\<lambda>now.
     ebind (check_session_record env token (get_or payload ''sub'' JNull) now found) (\<lambda>r.
     ebind (refreshing_user r now) (\<lambda>u. rotate_tail env rq payload now r u)))))"
  proof (rule run_ebind [where R = "\<lambda>found w. found = ?f w"])
    show "run env (\<lambda>_. True) (session_by_jti (get_or payload ''jti'' JNull)) (\<lambda>found w. found = ?f w)"
      by (rule run_result, rule sim_intros) (auto simp: session_by_jti_def prim_simps)
    fix found
    show "run env (\<lambda>w. found = ?f w) (ebind (utcnow env) (\<lambda>now.
       ebind (check_session_record env token (get_or payload ''sub'' JNull) now found) (\<lambda>r.
       ebind (refreshing_user r now) (\<lambda>u. rotate_tail env rq payload now r u)))) (\<lambda>_ _. True)"
    proof (rule run_ebind [where R = "\<lambda>_ w. found = ?f w"])
      show "run env (\<lambda>w. found = ?f w) (utcnow env) (\<lambda>_ w. found = ?f w)"
        by (rule run_result, rule sim_intros) (auto simp: prim_simps)
      fix now
      show "run env (\<lambda>w. found = ?f w) (ebind (check_session_record env token (get_or payload ''sub'' JNull) now found) (\<lambda>r.
         ebind (refreshing_user r now) (\<lambda>u. rotate_tail env rq payload now r u))) (\<lambda>_ _. True)"
      proof (rule run_ebind [where R = "\<lambda>r w. r \<in> set (sessions (working w)) \<and> us_revoked_at r = None \<and> us_rotated_at r = None"])
        show "run env (\<lambda>w. found = ?f w) (check_session_record env token (get_or payload ''sub'' JNull) now found)
            (\<lambda>r w. r \<in> set (sessions (working w)) \<and> us_revoked_at r = None \<and> us_rotated_at r = None)"
          by (rule run_result, rule sim_intros) (auto dest!: check_session_record_Inr find_SomeD simp: eq_commute [of "Some _"])
        fix r
        show "run env (\<lambda>w. r \<in> set (sessions (working w)) \<and> us_revoked_at r = None \<and> us_rotated_at r = None)
            (ebind (refreshing_user r now) (\<lambda>u. rotate_tail env rq payload now r u)) (\<lambda>_ _. True)"
          by (rule run_ebind [OF _ run_rotate_tail], rule run_result, rule sim_intros)
            (auto dest!: refreshing_user_Inr simp: active_row_def)
      qed
    qed
  qed
qed


section \<open>The other services\<close>

lemma sim_revocation [sim_intros]:
  "sim env (revoke_current_session env' t)" "sim env (revoke_all_sessions env' i b why)"
  unfolding revoke_current_session_def revoke_all_sessions_def by (intro sim_intros)+

lemma sim_resend [sim_intros]: "sim env (resend_verification env' u)"
  unfolding resend_verification_def by (intro sim_intros)

lemma sim_verify_email [sim_intros]: "sim env (verify_email env' t)"
  unfolding verify_email_def by (intro sim_intros profileI)

lemma sim_reset_use [sim_intros]:
  "sim env (statement (\<lambda>d. d\<lparr>reset_tokens := update_where p (\<lambda>t. t\<lparr>prt_used_at := Some now\<rparr>) (reset_tokens d)\<rparr>))"
  by (rule sim_statement) (rule a_reset_use)

lemma sim_passwords [sim_intros]: "sim env (reset_password env' t pw)" "sim env (change_password env' u old new)"
  unfolding reset_password_def change_password_def by (intro sim_intros profileI)+

lemma sim_complete_oauth_email [sim_intros]: "sim env (complete_oauth_email env' u email)"
proof -
  have p: "profile (\<lambda>r. r\<lparr>u_email := n, u_is_verified := False, u_email_pending := False\<rparr>)" for n
    by (simp add: profile_def)
  show ?thesis unfolding complete_oauth_email_def Let_def by (intro sim_intros p)
qed

lemma run_forgot_tail:
  "run env (\<lambda>w. \<forall>q \<in> set (reset_tokens (working w)). prt_user_id q = i \<longrightarrow> \<not> live_reset q)
     (ebind (generate_token env) (\<lambda>token. ebind (draw (uuid4 env)) (\<lambda>j.
      ebind (statement (\<lambda>d. d\<lparr>reset_tokens := reset_tokens d @
         [\<lparr>prt_id = j, prt_user_id = i, prt_token_hash = hash_token env token, prt_expires_at = e,
           prt_used_at = None, prt_invalidated_at = None, prt_requested_ip = ip\<rparr>]\<rparr>)) (\<lambda>_.
      ebind commit (\<lambda>_. deliver env (Password_reset_email m token)))))) (\<lambda>_ _. True)"
  (is "run env ?P ?m _")
  unfolding run_def
proof (intro allI impI)
  fix w
  assume P: "?P w"
  let ?t = "token_urlsafe env (draws w)"
  let ?r = "\<lparr>prt_id = uuid4 env (Suc (draws w)), prt_user_id = i, prt_token_hash = hash_token env ?t, prt_expires_at = e,
           prt_used_at = None, prt_invalidated_at = None, prt_requested_ip = ip\<rparr>"
  let ?v = "w\<lparr>draws := Suc (Suc (draws w)), working := (working w)\<lparr>reset_tokens := reset_tokens (working w) @ [?r]\<rparr>\<rparr>"
  let ?rest = "ebind commit (\<lambda>_. deliver env (Password_reset_email m ?t))"
  have m: "?m w = ?rest ?v" by (simp add: generate_token_def ebind_def prim_simps)
  have "astep env (draws w, working w) (draws ?v, working ?v)"
    using P by (simp, intro a_reset_issue [where k = "draws w"]) auto
  then have "wsteps env w ?v" by (rule wsteps_db) simp
  moreover have "sim env ?rest" by (intro sim_intros)
  ultimately show "wsteps env w (snd (?m w)) \<and> (\<forall>x. fst (?m w) = Inr x \<longrightarrow> True)"
    unfolding m by (auto simp: run_def intro: rtranclp_trans)
qed

lemma not_live_reset: "\<not> live_reset (t\<lparr>prt_invalidated_at := Some now\<rparr>)" "\<not> live_reset (t\<lparr>prt_used_at := Some now\<rparr>)"
  by (simp_all add: live_reset_def)

lemma update_where_ball:
  "(\<forall>r \<in> set (update_where p f rows). Q r) \<longleftrightarrow> (\<forall>r \<in> set rows. if p r then Q (f r) else Q r)"
  by (auto simp: update_where_def)

lemma run_invalidate:
  "run env P (invalidate_resets (\<lambda>t. prt_user_id t = i) now)
     (\<lambda>_ w. \<forall>q \<in> set (reset_tokens (working w)). prt_user_id q = i \<longrightarrow> \<not> live_reset q)"
proof (rule run_result, rule sim_intros)
  fix w x v
  assume "invalidate_resets (\<lambda>t. prt_user_id t = i) now w = (Inr x, v)"
  then have v: "reset_tokens (working v) = update_where (\<lambda>t. prt_user_id t = i \<and> live_reset t)
      (\<lambda>t. t\<lparr>prt_invalidated_at := Some now\<rparr>) (reset_tokens (working w))"
    by (auto simp: invalidate_resets_def prim_simps)
  show "\<forall>q \<in> set (reset_tokens (working v)). prt_user_id q = i \<longrightarrow> \<not> live_reset q"
    unfolding v update_where_ball by (simp add: not_live_reset)
qed

lemma sim_forgot_password [sim_intros]: "sim env (forgot_password env email rq)"
  unfolding forgot_password_def
  by (rule run_ebind [OF run_invalidate run_forgot_tail] | rule sim_intros)+

lemma run_lock: "run env (\<lambda>_. True) (lock_user_and_protect_last_superuser i) (\<lambda>u w. may_leave (u_id u) (working w))"
  unfolding lock_user_and_protect_last_superuser_def
  by (rule run_result, intro sim_intros)
    (auto simp: user_row_def prim_simps may_leave_def split: option.splits if_splits dest: find_user)

lemma run_leave:
  assumes "\<And>n d. may_leave i d \<Longrightarrow> astep env (n, d) (n, f d)"
  shows "run env (\<lambda>w. may_leave i (working w)) (statement f) (\<lambda>_ _. True)"
proof -
  have "wsteps env w (w\<lparr>working := f (working w)\<rparr>)" if "may_leave i (working w)" for w
    using assms [OF that, of "draws w"] by (intro wsteps_db) auto
  then show ?thesis by (auto simp: run_def prim_simps)
qed

lemma run_time: "run env (\<lambda>w. A (working w)) (utcnow env') (\<lambda>_ w. A (working w))"
  by (rule run_result, rule sim_intros) (auto simp: prim_simps)

lemma sim_deactivate [sim_intros]: "sim env (deactivate_own_account env' i)"
proof -
  have d: "run env (\<lambda>w. may_leave j (working w)) (set_user j (\<lambda>q. q\<lparr>u_is_active := False, u_deactivated_at := Some now,
           u_deactivation_reason := Some SELF_DEACTIVATED\<rparr>)) (\<lambda>_ _. True)" for j now
    unfolding set_user_def by (rule run_leave) (rule a_deactivate)
  have "run env (\<lambda>w. may_leave (u_id u) (working w)) (if \<not> u_is_active u then eret () else
       ebind (utcnow env') (\<lambda>now.
       ebind (set_user (u_id u) (\<lambda>q. q\<lparr>u_is_active := False, u_deactivated_at := Some now,
           u_deactivation_reason := Some SELF_DEACTIVATED\<rparr>)) (\<lambda>_.
       ebind (update_sessions (\<lambda>r. us_user_id r = u_id u \<and> us_revoked_at r = None) (revoke now ''account_deactivated'')) (\<lambda>_.
       ebind (add_audit (user_audit (u_id u) ''ACCOUNT_DEACTIVATED'' (Some (JObj [(''self_service'', JBool True)])))) (\<lambda>_.
       commit))))) (\<lambda>_ _. True)" for u
    by (rule sim_cases(1), rule run_pre, rule sim_intros, rule run_ebind [OF run_time], rule run_ebind [OF d])
      (intro sim_intros)
  then show ?thesis unfolding deactivate_own_account_def by (rule run_ebind [OF run_lock])
qed


lemma may_leave_users: "may_leave i d \<longleftrightarrow> (\<exists>u. find (\<lambda>u. u_id u = i) (users d) = Some u \<and>
     (u_is_superuser u \<longrightarrow> 1 < length (filter (\<lambda>u. u_is_superuser u \<and> u_is_active u) (users d))))"
  by (simp add: may_leave_def active_superusers_def)

lemma run_may_leave:
  assumes "sim env m" and "keeps (same users) m"
  shows "run env (\<lambda>w. may_leave i (working w)) m (\<lambda>_ w. may_leave i (working w))"
  unfolding may_leave_users by (rule run_part [OF assms])

lemma sim_delete_own_account [sim_intros]: "sim env (delete_own_account env' i text1 pw at1 secs)"
proof -
  have audit: "run env (\<lambda>w. may_leave j (working w)) (statement (\<lambda>d. d\<lparr>audit_logs := f d\<rparr>)) (\<lambda>_ w. may_leave j (working w))" for f j
    by (rule run_may_leave, rule sim_statement, rule a_audit, rule same_prims) simp
  have add: "run env (\<lambda>w. may_leave j (working w)) (add_audit a) (\<lambda>_ w. may_leave j (working w))" for a j
    unfolding add_audit_def by (rule audit)
  have creds: "run env (\<lambda>w. may_leave j (working w)) (check_delete_credentials env' u pw at1 secs) (\<lambda>_ w. may_leave j (working w))" for u j
    unfolding check_delete_credentials_def by (rule run_may_leave, intro sim_intros, intro same_intros same_prims)
  have purge: "run env (\<lambda>w. may_leave j (working w)) (statement (\<lambda>d. d\<lparr>
         oauth_accounts := filter (\<lambda>r. oa_user_id r \<noteq> j) (oauth_accounts d),
         sessions := filter (\<lambda>r. us_user_id r \<noteq> j) (sessions d),
         reset_tokens := filter (\<lambda>r. prt_user_id r \<noteq> j) (reset_tokens d),
         verification_tokens := filter (\<lambda>r. vt_user_id r \<noteq> j) (verification_tokens d)\<rparr>)) (\<lambda>_ w. may_leave j (working w))" for j
    by (rule run_may_leave, rule sim_statement, rule a_purge, rule same_prims) simp
  have del: "run env (\<lambda>w. may_leave j (working w)) (statement (cascade_delete j)) (\<lambda>_ _. True)" for j
    by (rule run_leave) (rule a_delete)
  have body: "run env (\<lambda>w. may_leave j (working w)) (ebind (check_delete_credentials env' u pw at1 secs) (\<lambda>_.
     ebind (statement (\<lambda>d. d\<lparr>audit_logs := update_where (\<lambda>a. al_actor_user_id a = Some j)
         (\<lambda>a. a\<lparr>al_actor_user_id := None\<rparr>) (audit_logs d)\<rparr>)) (\<lambda>_.
     ebind (statement (\<lambda>d. d\<lparr>audit_logs := update_where (\<lambda>a. al_target_user_id a = Some j)
         (\<lambda>a. a\<lparr>al_target_user_id := None\<rparr>) (audit_logs d)\<rparr>)) (\<lambda>_.
     ebind (statement (\<lambda>d. d\<lparr>
         oauth_accounts := filter (\<lambda>r. oa_user_id r \<noteq> j) (oauth_accounts d),
         sessions := filter (\<lambda>r. us_user_id r \<noteq> j) (sessions d),
         reset_tokens := filter (\<lambda>r. prt_user_id r \<noteq> j) (reset_tokens d),
         verification_tokens := filter (\<lambda>r. vt_user_id r \<noteq> j) (verification_tokens d)\<rparr>)) (\<lambda>_.
     ebind (add_audit a) (\<lambda>_.
     ebind (statement (cascade_delete j)) (\<lambda>_. ebind commit (\<lambda>_. eret (u_avatar_url u)))))))))
     (\<lambda>_ _. True)" for u a j
    by (rule run_ebind [OF creds], rule run_ebind [OF audit], rule run_ebind [OF audit], rule run_ebind [OF purge],
        rule run_ebind [OF add], rule run_ebind [OF del]) (intro sim_intros)
  show ?thesis
    unfolding delete_own_account_def
    by (rule sim_ebind, rule sim_intros, rule run_ebind [OF run_lock], rule body)
qed

lemma sim_dependencies [sim_intros]:
  "sim env (get_current_user env' rq)" "sim env (get_current_active_user env' rq)"
  "sim env (get_csrf_protected_active_user env' rq)" "sim env (require_recent_auth env' rq)"
  "sim env (get_optional_user env' rq)" "sim env (get_verified_user env' rq)"
  "sim env (access_authenticated_at env' rq)"
  unfolding get_current_active_user_def get_csrf_protected_active_user_def get_verified_user_def
    get_current_user_def require_recent_auth_def get_optional_user_def access_authenticated_at_def
  by (intro sim_intros)+


section \<open>Second factors\<close>

text \<open>Primary keys are unique in the working copy, so a row is identified by its key.\<close>

definition keys_ok :: "db \<Rightarrow> bool" where
  "keys_ok d \<longleftrightarrow> distinct (map mm_id (mfa_methods d)) \<and> distinct (map mc_id (mfa_challenges d))"

lemma same_key: "distinct (map g xs) \<Longrightarrow> x \<in> set xs \<Longrightarrow> y \<in> set xs \<Longrightarrow> g x = g y \<Longrightarrow> x = y"
  by (auto simp: distinct_map inj_on_def)

lemma list_all2_update_where:
  assumes "\<And>x. R x x" and "\<And>x. x \<in> set xs \<Longrightarrow> p x \<Longrightarrow> R x (f x)"
  shows "list_all2 R xs (update_where p f xs)"
  using assms by (auto simp: update_where_def list_all2_conv_all_nth)

lemma method_update_refl: "method_update m m"
  by (auto simp: method_update_def)

lemma run_update_methods:
  assumes "\<And>w q. P w \<Longrightarrow> q \<in> set (mfa_methods (working w)) \<Longrightarrow> p q \<Longrightarrow> method_update q (f q)"
  shows "run env P (update_methods p f) (\<lambda>_ _. True)"
proof -
  have "wsteps env w (w\<lparr>working := (working w)\<lparr>mfa_methods := update_where p f (mfa_methods (working w))\<rparr>\<rparr>)" if "P w" for w
    by (rule wsteps_db)
      (auto intro!: a_methods list_all2_update_where method_update_refl assms [OF that])
  then show ?thesis by (auto simp: run_def update_methods_def prim_simps)
qed

lemma run_update_challenges:
  assumes "\<And>w q. P w \<Longrightarrow> q \<in> set (mfa_challenges (working w)) \<Longrightarrow> p q \<Longrightarrow> challenge_update env q (f q)"
  shows "run env P (update_challenges p f) (\<lambda>_ _. True)"
proof -
  have "wsteps env w (w\<lparr>working := (working w)\<lparr>mfa_challenges := update_where p f (mfa_challenges (working w))\<rparr>\<rparr>)" if "P w" for w
  proof -
    have "list_all2 (\<lambda>c c'. c' = c \<or> challenge_update env c c') (mfa_challenges (working w)) (update_where p f (mfa_challenges (working w)))"
      by (rule list_all2_update_where) (auto intro: assms [OF that])
    then show ?thesis by (intro wsteps_db) (auto intro: a_challenges)
  qed
  then show ?thesis by (auto simp: run_def update_challenges_def prim_simps)
qed

lemma sim_challenge_marks [sim_intros]:
  "sim env (update_challenges p (\<lambda>c. c\<lparr>mc_invalidated_at := Some t\<rparr>))"
  "sim env (update_challenges p (\<lambda>c. c\<lparr>mc_used_at := Some t\<rparr>))"
  by (rule run_update_challenges, simp add: challenge_update_def)+

lemma sim_recovery [sim_intros]:
  "sim env (statement (\<lambda>d. d\<lparr>recovery_codes := c d\<rparr>))" "sim env (delete_recovery_codes i)"
  unfolding delete_recovery_codes_def by (rule sim_statement, rule a_recovery)+

lemma sim_add_recovery_code [sim_intros]: "sim env (add_recovery_code env' i code)"
  unfolding add_recovery_code_def by (intro sim_intros)

lemma sim_recovery_codes [sim_intros]: "sim env (replace_recovery_codes env' i)"
  unfolding replace_recovery_codes_def generate_recovery_codes_def generate_recovery_code_def
  by (intro sim_intros)

lemma sim_mfa_reads [sim_intros]:
  "sim env (enabled_method i)" "sim env (available_mfa_methods i)" "sim env (challenge_by_token env' t)"
  "sim env (login_challenge_details env' t)" "sim env (security_status i)"
  "sim env (secret_encrypt env' s)" "sim env (secret_decrypt env' c)" "sim env (matching_counter env' s code)"
  unfolding login_challenge_details_def security_status_def secret_encrypt_def secret_decrypt_def encrypt_mfa_secret_def
    matching_counter_def enabled_method_def available_mfa_methods_def challenge_by_token_def
  by (intro sim_intros)+

lemma sim_revoke_other_sessions [sim_intros]: "sim env (revoke_other_sessions env' i rq why)"
  unfolding revoke_other_sessions_def current_family_def by (intro sim_intros)

lemma sim_create_login_challenge [sim_intros]: "sim env (create_login_challenge env' u rq p r)"
proof -
  have "sim env (statement (\<lambda>d. d\<lparr>mfa_challenges := mfa_challenges d @ [c]\<rparr>))" if "mc_attempt_count c = 0" for c
    by (rule sim_statement) (rule a_challenge, fact that)
  then show ?thesis unfolding create_login_challenge_def by (intro sim_intros) auto
qed

text \<open>A method that is about to be used: enabled, and the only row with its key.\<close>

definition usable :: "mfa_method \<Rightarrow> mfa_method list \<Rightarrow> bool" where
  "usable m ms \<longleftrightarrow> m \<in> set ms \<and> mm_is_enabled m \<and> distinct (map mm_id ms)"

lemma sim_consume_recovery_code [sim_intros]: "sim env (consume_recovery_code env' m now code)"
proof -
  have "sim env (update_methods p (\<lambda>q. q\<lparr>mm_last_used_at := Some now\<rparr>))" for p
    by (rule run_update_methods) (simp add: method_update_def)
  then show ?thesis unfolding consume_recovery_code_def by (intro sim_intros)
qed

lemma run_consume_totp:
  "run env (\<lambda>w. usable m (mfa_methods (working w))) (consume_totp env' m now code) (\<lambda>_ _. True)"
proof -
  let ?U = "\<lambda>w. usable m (mfa_methods (working w))"
  have reads: "run env ?U (secret_decrypt env' c) (\<lambda>_. ?U)" for c
    by (rule run_part, rule sim_intros, unfold secret_decrypt_def on_class_def) (intro same_intros same_prims)
  have counts: "run env ?U (matching_counter env' s cd) (\<lambda>_. ?U)" for s cd
    by (rule run_part, rule sim_intros, unfold matching_counter_def) (intro same_intros same_prims)
  have upd: "run env ?U (update_methods (\<lambda>q. mm_id q = mm_id m)
      (\<lambda>q. q\<lparr>mm_last_used_counter := Some counter, mm_last_used_at := Some now\<rparr>)) (\<lambda>_ _. True)"
    if "\<not> (case mm_last_used_counter m of None \<Rightarrow> False | Some used \<Rightarrow> counter \<le> used)" for counter
  proof (rule run_update_methods)
    fix w q
    assume "?U w" "q \<in> set (mfa_methods (working w))" "mm_id q = mm_id m"
    then have "q = m" by (auto simp: usable_def dest: same_key)
    with that show "method_update q (q\<lparr>mm_last_used_counter := Some counter, mm_last_used_at := Some now\<rparr>)"
      by (auto simp: method_update_def split: option.splits)
  qed
  show ?thesis
    unfolding consume_totp_def
    by (rule run_ebind [OF reads], rule run_ebind [OF counts], rule sim_cases(3), rule run_pre, rule sim_intros,
        rule sim_cases(1), rule run_pre, rule sim_intros, rule run_ebind [OF upd], assumption, rule run_pre, rule sim_intros)
qed

lemma run_consume_factor:
  "run env (\<lambda>w. usable m (mfa_methods (working w))) (consume_factor env' m code rc) (\<lambda>_ _. True)"
  unfolding consume_factor_def
  by (rule run_ebind [OF run_time], rule sim_cases(1), rule run_consume_totp, rule sim_cases(3); rule run_pre, rule sim_intros)


lemma run_enabled_method:
  "run env (\<lambda>w. keys_ok (working w)) (enabled_method i)
     (\<lambda>found w. keys_ok (working w) \<and> (\<forall>m. found = Some m \<longrightarrow> usable m (mfa_methods (working w))) \<and>
        (found = None \<longrightarrow> (\<forall>m \<in> set (mfa_methods (working w)). is_totp_of i m \<longrightarrow> \<not> mm_is_enabled m)))"
  by (rule run_result, rule sim_intros)
    (auto simp: enabled_method_def prim_simps usable_def keys_ok_def dest!: find_SomeD find_None_D)

lemma run_ensure: "(\<And>w. b \<Longrightarrow> P w \<Longrightarrow> Q w) \<Longrightarrow> run env P (eensure b e) (\<lambda>_. Q)"
  by (auto simp: run_def eensure_def)

lemma run_case_Some:
  assumes "q = None \<Longrightarrow> run env P m Q" and "\<And>x. q = Some x \<Longrightarrow> run env P (g x) Q"
  shows "run env P (case q of None \<Rightarrow> m | Some x \<Rightarrow> g x) Q"
  using assms by (auto split: option.splits)

lemma run_verify_sensitive_action:
  "run env (\<lambda>w. keys_ok (working w)) (verify_sensitive_action env' u pw code rc) (\<lambda>_ _. True)"
proof -
  have body: "run env (\<lambda>w. usable m (mfa_methods (working w))) (ebind (eensure b e) (\<lambda>_. ebind (consume_factor env' m code rc) (\<lambda>used.
         ebind (eensure (used \<noteq> None) e') (\<lambda>_. eret m)))) (\<lambda>_ _. True)" for m b e e'
    by (rule run_ebind, rule run_weaken [OF run_pure(2)], assumption, erule conjunct2,
        rule run_ebind [OF run_consume_factor]) (intro sim_intros)
  show ?thesis
    unfolding verify_sensitive_action_def
    by (rule run_ebind [OF run_enabled_method], rule run_case_Some, rule run_pure(1),
        rule run_weaken [OF body]) auto
qed

lemma run_regenerate:
  "run env (\<lambda>w. keys_ok (working w)) (regenerate_recovery_codes env' u pw code rc) (\<lambda>_ _. True)"
  unfolding regenerate_recovery_codes_def
  by (rule run_ebind [OF run_verify_sensitive_action]) (intro sim_intros)

lemma run_disable_mfa: "run env (\<lambda>w. keys_ok (working w)) (disable_mfa env' u pw code rc) (\<lambda>_ _. True)"
proof -
  have d: "sim env (statement (\<lambda>d. d\<lparr>mfa_methods := filter p (mfa_methods d)\<rparr>))" for p
    by (rule sim_statement) (rule a_drop_methods)
  show ?thesis
    unfolding disable_mfa_def
    by (rule run_ebind [OF run_verify_sensitive_action]) (intro sim_intros d)
qed

lemma run_update_disabled:
  assumes "\<And>q. mm_id (f q) = mm_id q \<and> mm_user_id (f q) = mm_user_id q \<and> mm_type (f q) = mm_type q"
  shows "run env (\<lambda>w. m \<in> set (mfa_methods (working w)) \<and> \<not> mm_is_enabled m \<and> keys_ok (working w))
    (update_methods (\<lambda>q. mm_id q = mm_id m) f) (\<lambda>_ _. True)"
proof (rule run_update_methods)
  fix w q
  assume "m \<in> set (mfa_methods (working w)) \<and> \<not> mm_is_enabled m \<and> keys_ok (working w)"
    "q \<in> set (mfa_methods (working w))" "mm_id q = mm_id m"
  then have "q = m" and "\<not> mm_is_enabled q" by (auto simp: keys_ok_def dest: same_key)
  with assms show "method_update q (f q)" by (auto simp: method_update_def)
qed


lemma run_db:
  assumes "sim env m" and "keeps (same (\<lambda>d. d)) m"
  shows "run env (\<lambda>w. A (working w)) m (\<lambda>_ w. A (working w))"
  using run_part [OF assms, where A = A] .

lemma run_add_method:
  assumes "\<And>i. mm_id (m i) = i \<and> \<not> mm_is_enabled (m i)"
  shows "sim env (ebind (draw (uuid4 env)) (\<lambda>i. statement (\<lambda>d. d\<lparr>mfa_methods := mfa_methods d @ [m i]\<rparr>)))"
proof -
  have "wsteps env w (w\<lparr>draws := Suc (draws w), working := (working w)\<lparr>mfa_methods := mfa_methods (working w) @ [m (uuid4 env (draws w))]\<rparr>\<rparr>)" for w
    by (rule wsteps_db) (use assms in \<open>auto intro: a_method\<close>)
  then show ?thesis by (auto simp: run_def ebind_def prim_simps)
qed

lemma run_find_method:
  "run env (\<lambda>w. A (working w)) (query (\<lambda>d. find p (mfa_methods d)))
     (\<lambda>found w. A (working w) \<and> (\<forall>m. found = Some m \<longrightarrow> p m \<and> m \<in> set (mfa_methods (working w))))"
  by (rule run_result, rule sim_intros) (auto simp: prim_simps dest: find_SomeD)

lemma run_start_totp_setup: "run env (\<lambda>w. keys_ok (working w)) (start_totp_setup env u) (\<lambda>_ _. True)"
proof -
  let ?A = "\<lambda>d. keys_ok d \<and> (\<forall>m \<in> set (mfa_methods d). is_totp_of (u_id u) m \<longrightarrow> \<not> mm_is_enabled m)"
  define rest where "rest = (\<lambda>secret. ebind (add_audit (user_audit (u_id u) ''MFA_SETUP_STARTED'' None)) (\<lambda>_.
     ebind commit (\<lambda>_. eret (secret, provisioning_uri env secret (u_email u)))))"
  have rest: "sim env (rest secret)" for secret unfolding rest_def by (intro sim_intros)
  have upd: "run env (\<lambda>w. m \<in> set (mfa_methods (working w)) \<and> \<not> mm_is_enabled m \<and> keys_ok (working w))
      (update_methods (\<lambda>q. mm_id q = mm_id m) (\<lambda>q. q\<lparr>mm_secret_encrypted := s, mm_setup_expires_at := t, mm_last_used_counter := None\<rparr>))
      (\<lambda>_ _. True)" for m s t
    by (rule run_update_disabled) simp
  have tail: "run env (\<lambda>w. ?A (working w) \<and> (\<forall>m. found = Some m \<longrightarrow> is_totp_of (u_id u) m \<and> m \<in> set (mfa_methods (working w))))
     (ebind (case found of
         Some m \<Rightarrow> update_methods (\<lambda>q. mm_id q = mm_id m) (\<lambda>q. q\<lparr>mm_secret_encrypted := encrypted,
             mm_setup_expires_at := Some expires, mm_last_used_counter := None\<rparr>)
       | None \<Rightarrow>
           ebind (draw (uuid4 env)) (\<lambda>i.
           statement (\<lambda>d. d\<lparr>mfa_methods := mfa_methods d @
             [\<lparr>mm_id = i, mm_user_id = u_id u, mm_type = ''totp'', mm_secret_encrypted = encrypted, mm_is_enabled = False,
               mm_verified_at = None, mm_setup_expires_at = Some expires, mm_last_used_at = None,
               mm_last_used_counter = None\<rparr>]\<rparr>))) (\<lambda>_. rest secret)) (\<lambda>_ _. True)"
    for found encrypted expires secret
    by (rule run_ebind, rule run_case_Some, rule run_pre, rule run_add_method, simp, rule run_weaken [OF upd])
      (auto intro: rest)
  have enc: "run env (\<lambda>w. A (working w)) (secret_encrypt env s) (\<lambda>_ w. A (working w))" for A s
    by (rule run_db, rule sim_intros, unfold secret_encrypt_def encrypt_mfa_secret_def on_class_def) (intro same_intros same_prims)
  have drw: "run env (\<lambda>w. A (working w)) (draw g) (\<lambda>_ w. A (working w))" for A and g :: "nat \<Rightarrow> string"
    by (rule run_db, rule sim_intros, rule same_prims)
  let ?B = "\<lambda>found d. ?A d \<and> (\<forall>m. found = Some m \<longrightarrow> is_totp_of (u_id u) m \<and> m \<in> set (mfa_methods d))"
  have ens: "run env (\<lambda>w. keys_ok (working w) \<and> (\<forall>m. e = Some m \<longrightarrow> usable m (mfa_methods (working w))) \<and>
        (e = None \<longrightarrow> (\<forall>m \<in> set (mfa_methods (working w)). is_totp_of (u_id u) m \<longrightarrow> \<not> mm_is_enabled m)))
     (eensure (e = None) x) (\<lambda>_ w. ?A (working w))" for e x
    by (rule run_ensure) auto
  show ?thesis
    unfolding start_totp_setup_def Let_def
    by (rule run_ebind [OF run_enabled_method], rule run_ebind [OF ens], rule run_ebind [OF drw [where A = "?A"]],
        rule run_ebind [OF run_find_method [where A = "?A"]], rule run_ebind [OF enc [where A = "?B _"]],
        rule run_ebind [OF run_time [where A = "?B _"]]) (rule tail [unfolded rest_def])
qed

lemma run_confirm_totp_setup: "run env (\<lambda>w. keys_ok (working w)) (confirm_totp_setup env u code) (\<lambda>_ _. True)"
proof -
  let ?B = "\<lambda>found d. keys_ok d \<and> (\<forall>m. found = Some m \<longrightarrow> is_totp_of (u_id u) m \<and> m \<in> set (mfa_methods d))"
  let ?C = "\<lambda>m d. m \<in> set (mfa_methods d) \<and> \<not> mm_is_enabled m \<and> keys_ok d"
  have ens: "run env (\<lambda>w. ?B (Some m) (working w)) (eensure (\<not> mm_is_enabled m \<and> b) x) (\<lambda>_ w. ?C m (working w))" for m b x
    by (rule run_ensure) auto
  have dec: "run env (\<lambda>w. A (working w)) (secret_decrypt env s) (\<lambda>_ w. A (working w))" for A s
    by (rule run_db, rule sim_intros, unfold secret_decrypt_def on_class_def) (intro same_intros same_prims)
  have cnt: "run env (\<lambda>w. A (working w)) (matching_counter env s c) (\<lambda>_ w. A (working w))" for A s c
    by (rule run_db, rule sim_intros, unfold matching_counter_def) (intro same_intros same_prims)
  have upd: "run env (\<lambda>w. ?C m (working w)) (update_methods (\<lambda>q. mm_id q = mm_id m) (\<lambda>q. q\<lparr>mm_is_enabled := True,
      mm_verified_at := Some now, mm_setup_expires_at := None, mm_last_used_counter := Some counter, mm_last_used_at := Some now\<rparr>))
      (\<lambda>_ _. True)" for m now counter
    by (rule run_update_disabled) simp
  show ?thesis
    unfolding confirm_totp_setup_def
    by (rule run_ebind [OF run_find_method [where A = keys_ok]], rule run_ebind [OF run_time [where A = "?B _"]],
        rule run_case_Some, rule run_pure(1), hypsubst, rule run_ebind [OF ens],
        rule run_ebind [OF dec [where A = "?C _"]], rule run_ebind [OF cnt [where A = "?C _"]],
        rule sim_cases(3), rule run_pure(1), rule run_ebind [OF upd]) (intro sim_intros)
qed

lemma run_challenge:
  "run env (\<lambda>w. keys_ok (working w)) (challenge_by_token env t)
     (\<lambda>found w. keys_ok (working w) \<and> (\<forall>c. found = Some c \<longrightarrow> c \<in> set (mfa_challenges (working w))))"
  by (rule run_result, rule sim_intros) (auto simp: challenge_by_token_def prim_simps dest: find_SomeD)

lemma run_failed_factor:
  assumes "mc_attempt_count c < mfa_max_attempts (conf env)"
  shows "run env (\<lambda>w. c \<in> set (mfa_challenges (working w)) \<and> distinct (map mc_id (mfa_challenges (working w))))
     (failed_factor env c u now rc) Q"
proof -
  have "run env (\<lambda>w. c \<in> set (mfa_challenges (working w)) \<and> distinct (map mc_id (mfa_challenges (working w))))
     (update_challenges (\<lambda>q. mc_id q = mc_id c) (\<lambda>q. q\<lparr>mc_attempt_count := mc_attempt_count c + 1,
         mc_invalidated_at := (if mfa_max_attempts (conf env) \<le> mc_attempt_count c + 1 then Some now else mc_invalidated_at q)\<rparr>)) (\<lambda>_ _. True)"
    using assms by (intro run_update_challenges) (auto simp: challenge_update_def dest: same_key)
  moreover have "run env (\<lambda>_. True) (ebind (add_audit a) (\<lambda>_. ebind commit (\<lambda>_. if b then eraise e1 else eraise e2))) Q" for a b e1 e2
    by (rule run_ebind, rule sim_intros, rule run_ebind, rule sim_intros) (intro run_intros)
  ultimately show ?thesis
    unfolding failed_factor_def Let_def by (rule run_ebind)
qed

lemma run_invalidate_challenge: "run env P (invalidate_challenge c now e) Q"
  unfolding invalidate_challenge_def
  by (rule run_ebind, rule run_pre, rule sim_intros, rule run_ebind, rule sim_intros) (rule run_pure)


lemma run_with_part:
  assumes "run env P m (\<lambda>_ _. True)" and "keeps (same part) m"
  shows "run env (\<lambda>w. P w \<and> A (part (working w))) m (\<lambda>_ w. A (part (working w)))"
  using assms by (auto simp: run_def keeps_def same_def)

lemma same_consume_factor: "keeps (same (\<lambda>d. (mfa_challenges d, users d))) (consume_factor env m code rc)"
  unfolding consume_factor_def consume_totp_def consume_recovery_code_def secret_decrypt_def on_class_def
    matching_counter_def update_methods_def
  by (intro same_intros same_prims) simp_all

lemma run_active:
  assumes "sim env m" and "keeps (same users) m"
  shows "run env (\<lambda>w. active_row i (working w)) m (\<lambda>_ w. active_row i (working w))"
  unfolding active_row_def by (rule run_part [OF assms])

lemma run_active_profile:
  assumes "profile f"
  shows "run env (\<lambda>w. active_row i (working w)) (set_user j f) (\<lambda>_ w. active_row i (working w))"
proof (rule run_result)
  show "sim env (set_user j f)" using assms by (rule sim_intros)
  fix w x v
  assume "active_row i (working w)" and "set_user j f w = (Inr x, v)"
  then show "active_row i (working v)"
    using assms by (auto simp: active_row_def set_user_def prim_simps intro: active_update)
qed

lemma run_login_success:
  "run env (\<lambda>w. active_row (u_id u) (working w))
     (ebind (update_challenges p (\<lambda>q. q\<lparr>mc_used_at := Some now\<rparr>)) (\<lambda>_.
      ebind (set_user (u_id u) (\<lambda>q. q\<lparr>u_last_login_at := Some now\<rparr>)) (\<lambda>_.
      ebind (add_audit a) (\<lambda>_.
      ebind commit (\<lambda>_. eret (u\<lparr>u_last_login_at := Some now\<rparr>, factor, primary))))))
     (\<lambda>(u, _) w. active_row (u_id u) (working w))"
proof -
  have c: "run env (\<lambda>w. active_row i (working w)) (update_challenges p (\<lambda>q. q\<lparr>mc_used_at := Some now\<rparr>)) (\<lambda>_ w. active_row i (working w))" for i
    by (rule run_active, rule sim_intros, unfold update_challenges_def, rule same_prims) simp
  have a: "run env (\<lambda>w. active_row i (working w)) (add_audit a) (\<lambda>_ w. active_row i (working w))" for i
    by (rule run_active, rule sim_intros, unfold add_audit_def, rule same_prims) simp
  have m: "run env (\<lambda>w. active_row i (working w)) commit (\<lambda>_ w. active_row i (working w))" for i
    by (rule run_active, rule sim_intros, rule same_prims)
  show ?thesis
    by (rule run_ebind [OF c], rule run_ebind [OF run_active_profile], rule profileI, rule run_ebind [OF a],
        rule run_ebind [OF m]) (auto simp: run_def eret_def)
qed

lemma run_query: "run env P (query q) (\<lambda>x w. x = q (working w) \<and> P w)"
  by (auto simp: run_def prim_simps)

lemma run_verify_login_challenge:
  "run env (\<lambda>w. keys_ok (working w)) (verify_login_challenge env token code rc) (\<lambda>(u, _) w. active_row (u_id u) (working w))"
proof -
  let ?Q = "\<lambda>(u, _) w. active_row (u_id u) (working w)"
  let ?F = "\<lambda>found d. keys_ok d \<and> (\<forall>c. found = Some c \<longrightarrow> c \<in> set (mfa_challenges d))"
  let ?D = "\<lambda>c w. keys_ok (working w) \<and> c \<in> set (mfa_challenges (working w))"
  let ?success = "\<lambda>c u now factor. ebind (update_challenges (\<lambda>q. mc_id q = mc_id c) (\<lambda>q. q\<lparr>mc_used_at := Some now\<rparr>)) (\<lambda>_.
      ebind (set_user (u_id u) (\<lambda>q. q\<lparr>u_last_login_at := Some now\<rparr>)) (\<lambda>_.
      ebind (add_audit (user_audit (u_id u)
          (if factor = ''recovery'' then ''MFA_RECOVERY_CODE_USED'' else ''MFA_LOGIN_SUCCESS'')
          (Some (JObj [(''method'', JStr factor), (''primary'', JStr (mc_primary_method c))])))) (\<lambda>_.
      ebind commit (\<lambda>_. eret (u\<lparr>u_last_login_at := Some now\<rparr>, factor, mc_primary_method c)))))"
  let ?E = "\<lambda>c u (cs, us). c \<in> set cs \<and> distinct (map mc_id cs) \<and> u \<in> set us"
  have factor: "run env (\<lambda>w. usable m (mfa_methods (working w)) \<and> ?E c u (mfa_challenges (working w), users (working w)))
     (ebind (consume_factor env m code rc) (\<lambda>used. case used of
         None \<Rightarrow> failed_factor env c u now rc | Some f \<Rightarrow> ?success c u now f)) ?Q"
    if "mc_attempt_count c < mfa_max_attempts (conf env)" and "u_is_active u" for m c u now
    by (rule run_ebind [OF run_with_part [OF run_consume_factor same_consume_factor, where A = "?E c u"]],
        rule run_case_Some, rule run_weaken [OF run_failed_factor [OF that(1)]], simp, assumption,
        rule run_weaken [OF run_login_success]) (use that(2) in \<open>auto simp: active_row_def\<close>)
  have owner: "run env (\<lambda>w. owner = find (\<lambda>u. u_id u = i) (users (working w)) \<and>
        enabled = find (\<lambda>m. is_totp_of j m \<and> mm_is_enabled m) (mfa_methods (working w)) \<and> ?D c w)
     (case (enabled, owner) of
        (Some m, Some u) \<Rightarrow>
          if \<not> u_is_active u then invalidate_challenge c now e
          else ebind (consume_factor env m code rc) (\<lambda>used. case used of
             None \<Rightarrow> failed_factor env c u now rc | Some f \<Rightarrow> ?success c u now f)
      | _ \<Rightarrow> invalidate_challenge c now e) ?Q"
    if "mc_attempt_count c < mfa_max_attempts (conf env)" for enabled owner c i j now e
    by (cases enabled; cases owner; simp add: run_invalidate_challenge)
      (auto intro!: sim_cases(1) run_invalidate_challenge run_weaken [OF factor [OF that]]
        simp: usable_def keys_ok_def eq_commute [of "Some _"] dest!: find_SomeD)
  show ?thesis
    unfolding verify_login_challenge_def enabled_method_def user_row_def
    by (rule run_ebind [OF run_challenge], rule run_ebind [OF run_time [where A = "?F _"]],
        rule run_case_Some, rule run_pure(1),
        rule run_ebind [OF run_ensure [where Q = "?D _"]], force,
        rule run_ebind [OF run_ensure [where Q = "?D _"]], force,
        rule sim_cases(1), rule run_invalidate_challenge, rule sim_cases(1), rule run_invalidate_challenge,
        rule run_ebind [OF run_query], rule run_ebind [OF run_query], rule owner) simp
qed


end
