(* ===== verification/Passkey_Steps.thy ===== *)
theory Passkey_Steps
  imports Auth_Steps
begin

text \<open>
  The passkey services go through the steps of the store only, and end with an active user where a
  session is issued; what a successful verification has checked and changed.
\<close>

lemma sim_call [sim_intros]: "sim env (call f)"
  by (auto simp: run_def call_def prim_simps ebind_def eget_def emodify_def elift_def intro: wsteps_parts)

lemma sim_credentials [sim_intros]: "sim env (statement (\<lambda>d. d\<lparr>credentials := k d\<rparr>))"
  by (rule sim_statement) (rule a_credentials)

lemma sim_update_passkey [sim_intros]: "sim env (update_passkey r f)"
  unfolding update_passkey_def by (rule sim_credentials)

lemma ceremony_update_refl: "ceremony_update c c"
  by (simp add: ceremony_update_def)

lemma sim_update_ceremony:
  assumes "\<And>q. ceremony_update q (f q)"
  shows "sim env (update_ceremony c f)"
  unfolding update_ceremony_def
  by (rule sim_statement, rule a_ceremonies, rule list_all2_update_where) (auto intro: assms ceremony_update_refl)

lemma sim_ceremony_marks [sim_intros]:
  "sim env (update_ceremony c (\<lambda>q. q\<lparr>wac_used_at := Some t\<rparr>))"
  "sim env (update_ceremony c (\<lambda>q. q\<lparr>wac_invalidated_at := Some t\<rparr>))"
  "sim env (update_ceremony c (\<lambda>q. q\<lparr>wac_attempt_count := wac_attempt_count q + 1\<rparr>))"
  by (rule sim_update_ceremony, simp add: ceremony_update_def)+

lemma sim_create_ceremony [sim_intros]: "sim env (create_ceremony env rq purpose challenge i m)"
proof -
  have "wsteps env w (snd (create_ceremony env rq purpose challenge i m w))" for w
  proof (rule wsteps_db)
    show "astep env (draws w, working w)
        (draws (snd (create_ceremony env rq purpose challenge i m w)), working (snd (create_ceremony env rq purpose challenge i m w)))"
      by (simp add: create_ceremony_def generate_token_def prim_simps ebind_def eret_def)
        (rule a_ceremony [of _ _ "draws w"], simp_all add: new_ceremony_def)
  qed (simp add: create_ceremony_def generate_token_def prim_simps ebind_def eret_def)
  then show ?thesis by (simp add: run_def)
qed

lemma sim_locked_ceremony [sim_intros]: "sim env (locked_ceremony env' token purpose)"
  unfolding locked_ceremony_def ceremony_by_token_def by (intro sim_intros)

lemma sim_failed_attempt [sim_intros]: "sim env (failed_attempt c a e)"
  unfolding failed_attempt_def by (intro sim_intros)

lemma sim_options [sim_intros]:
  "sim env (registration_options env u rq)" "sim env (authentication_options env rq i purpose m)"
  unfolding registration_options_def authentication_options_def by (intro sim_intros)+

lemma sim_verify_registration [sim_intros]: "sim env (verify_registration env' u token payload name)"
  unfolding verify_registration_def save_passkey_def by (intro sim_intros)

lemma sim_open_challenge [sim_intros]: "sim env (open_challenge env' token)"
  unfolding open_challenge_def by (intro sim_intros)

lemma sim_mfa_options [sim_intros]: "sim env (mfa_options env rq token)"
  unfolding mfa_options_def by (intro sim_intros)

lemma sim_passkeys [sim_intros]:
  "sim env (list_passkeys i)" "sim env (rename_passkey i j name)" "sim env (remove_passkey u j)"
  unfolding list_passkeys_def rename_passkey_def remove_passkey_def passkey_of_def by (intro sim_intros)+

lemma sim_verify_authentication [sim_intros]: "sim env (verify_authentication env' c payload i)"
  unfolding verify_authentication_def passkey_owner_def accept_passkey_def record_counter_def
  by (intro sim_intros profileI)

section \<open>What a verification has checked\<close>

lemma failed_attempt_Inr [simp]: "failed_attempt c a e w = (Inr x, v) \<longleftrightarrow> False"
  by (auto simp: failed_attempt_def)

lemma locked_ceremony_Inr:
  assumes "locked_ceremony env token purpose w = (Inr c, v)"
  shows "v = w\<lparr>ticks := Suc (ticks w)\<rparr> \<and> find (\<lambda>c. wac_token_hash c = hash_token env token) (webauthn_challenges (working w)) = Some c
    \<and> wac_purpose c = purpose \<and> wac_invalidated_at c = None \<and> wac_used_at c = None \<and> clock env (ticks w) < wac_expires_at c"
  using assms by (auto simp: locked_ceremony_def ceremony_by_token_def prim_simps split: option.splits if_splits)

lemma passkey_owner_Inr:
  assumes "passkey_owner env c payload i w = (Inr (u, r), v)"
  shows "v = w \<and> r \<in> set (credentials (working w)) \<and> credential_key env payload = Inr (wc_credential_id r)
    \<and> (i = None \<or> i = Some (wc_user_id r)) \<and> u \<in> set (users (working w)) \<and> u_id u = wc_user_id r \<and> u_is_active u"
proof -
  from assms obtain key where key: "credential_key env payload = Inr key" by (auto simp: passkey_owner_def)
  show ?thesis
  proof (cases "find (\<lambda>r. wc_credential_id r = key) (credentials (working w))")
    case (Some q)
    then have q: "q \<in> set (credentials (working w))" "wc_credential_id q = key" by (auto dest: find_SomeD)
    show ?thesis
    proof (cases "i \<noteq> None \<and> Some (wc_user_id q) \<noteq> i")
      case False
      show ?thesis
      proof (cases "find (\<lambda>u. u_id u = wc_user_id q) (users (working w))")
        case None
        with assms key Some False show ?thesis by (auto simp: passkey_owner_def user_row_def prim_simps)
      next
        case (Some a)
        from find_user [OF this] assms key q False Some \<open>find _ (credentials _) = Some q\<close> show ?thesis
          by (auto simp: passkey_owner_def user_row_def prim_simps)
      qed
    qed (use assms key Some in \<open>simp add: passkey_owner_def prim_simps\<close>)
  qed (use assms key in \<open>simp add: passkey_owner_def prim_simps\<close>)
qed

lemma accept_passkey_Inr:
  assumes "accept_passkey env c u r va w = (Inr u', v)"
  shows "\<exists>t t'. u' = u\<lparr>u_last_login_at := Some t\<rparr> \<and> committed v = committed w
    \<and> users (working v) = update_where (\<lambda>q. u_id q = u_id u) (\<lambda>q. q\<lparr>u_last_login_at := Some t\<rparr>) (users (working w))
    \<and> webauthn_challenges (working v) = update_where (\<lambda>q. wac_id q = wac_id c) (\<lambda>q. q\<lparr>wac_used_at := Some t'\<rparr>) (webauthn_challenges (working w))
    \<and> mfa_challenges (working v) = mfa_challenges (working w)"
  using assms
  by (auto simp: accept_passkey_def record_counter_def update_passkey_def update_ceremony_def set_user_def add_audit_def prim_simps
      split: if_splits)

lemma verify_authentication_Inr:
  assumes "verify_authentication env c payload i w = (Inr u', v)"
  obtains u r va t t' where "r \<in> set (credentials (working w))" and "credential_key env payload = Inr (wc_credential_id r)"
    and "i = None \<or> i = Some (wc_user_id r)" and "u \<in> set (users (working w))" and "u_id u = wc_user_id r" and "u_is_active u"
    and "verify_authentication_response env payload (wac_challenge c) (webauthn_rp_id (conf env)) (webauthn_origin (conf env))
        (wc_public_key r) = Inr va"
    and "u' = u\<lparr>u_last_login_at := Some t\<rparr>" and "committed v = committed w"
    and "users (working v) = update_where (\<lambda>q. u_id q = u_id u) (\<lambda>q. q\<lparr>u_last_login_at := Some t\<rparr>) (users (working w))"
    and "webauthn_challenges (working v) = update_where (\<lambda>q. wac_id q = wac_id c) (\<lambda>q. q\<lparr>wac_used_at := Some t'\<rparr>)
        (webauthn_challenges (working w))"
    and "mfa_challenges (working v) = mfa_challenges (working w)"
proof -
  from assms obtain u r x va where p: "passkey_owner env c payload i w = (Inr (u, r), x)"
    and v: "verify_authentication_response env payload (wac_challenge c) (webauthn_rp_id (conf env)) (webauthn_origin (conf env))
        (wc_public_key r) = Inr va"
    and a: "accept_passkey env c u r va x = (Inr u', v)"
    by (auto simp: verify_authentication_def ecatch_Inr split: if_splits prod.splits)
  from passkey_owner_Inr [OF p] accept_passkey_Inr [OF a] v that show ?thesis by blast
qed

lemma verify_authentication_active:
  assumes "verify_authentication env c payload i w = (Inr u', v)"
  shows "active_row (u_id u') (working v)"
proof -
  from assms obtain u t where u: "u \<in> set (users (working w))" "u_is_active u" and u': "u' = u\<lparr>u_last_login_at := Some t\<rparr>"
    and v: "users (working v) = update_where (\<lambda>q. u_id q = u_id u) (\<lambda>q. q\<lparr>u_last_login_at := Some t\<rparr>) (users (working w))"
    by (rule verify_authentication_Inr)
  from active_update [OF u profileI(1)] show ?thesis by (simp add: active_row_def u' v)
qed

lemma run_verify_authentication:
  "run env P (verify_authentication env c payload i) (\<lambda>u w. active_row (u_id u) (working w))"
  by (rule run_result, rule sim_intros) (rule verify_authentication_active)

lemma run_active_prims:
  "run env (\<lambda>w. active_row i (working w)) (add_audit a) (\<lambda>_ w. active_row i (working w))"
  "run env (\<lambda>w. active_row i (working w)) commit (\<lambda>_ w. active_row i (working w))"
  "run env (\<lambda>w. active_row i (working w)) (utcnow env') (\<lambda>_ w. active_row i (working w))"
  "run env (\<lambda>w. active_row i (working w)) (draw g) (\<lambda>_ w. active_row i (working w))"
  by (rule run_active, rule sim_intros, (unfold add_audit_def)?, rule same_prims, simp?)+

lemma run_passkey_logins:
  "run env P (verify_passwordless_login env token payload) (\<lambda>u w. active_row (u_id u) (working w))"
  "run env P (verify_reauthentication env i token payload) (\<lambda>u w. active_row (u_id u) (working w))"
  "run env P (verify_mfa env token' token payload) (\<lambda>(u, _) w. active_row (u_id u) (working w))"
proof -
  have ret: "run env (\<lambda>w. active_row (u_id u) (working w)) (eret u) (\<lambda>u w. active_row (u_id u) (working w))"
    "run env (\<lambda>w. active_row (u_id u) (working w)) (eret (u, m)) (\<lambda>(u, _) w. active_row (u_id u) (working w))" for u and m :: string
    by (auto simp: run_def eret_def)
  have used: "run env (\<lambda>w. active_row i (working w)) (statement (\<lambda>d. d\<lparr>mfa_challenges := update_where p (\<lambda>q. q\<lparr>mc_used_at := Some t\<rparr>)
      (mfa_challenges d)\<rparr>)) (\<lambda>_ w. active_row i (working w))" for i p t
    by (rule run_active, rule sim_challenge_marks(2) [unfolded update_challenges_def], rule same_prims) simp
  show "run env P (verify_passwordless_login env token payload) (\<lambda>u w. active_row (u_id u) (working w))"
    unfolding verify_passwordless_login_def
    by (rule run_ebind [OF run_pre [OF sim_locked_ceremony]], rule run_ebind [OF run_verify_authentication],
        rule run_ebind [OF run_active_prims(1)], rule run_ebind [OF run_active_prims(2)], rule ret)
  show "run env P (verify_reauthentication env i token payload) (\<lambda>u w. active_row (u_id u) (working w))"
    unfolding verify_reauthentication_def
    by (rule run_ebind [OF run_pre [OF sim_locked_ceremony]], rule run_ebind [OF run_pre [OF sim_pure(4)]],
        rule run_ebind [OF run_verify_authentication], rule run_ebind [OF run_active_prims(1)],
        rule run_ebind [OF run_active_prims(2)], rule ret)
  show "run env P (verify_mfa env token' token payload) (\<lambda>(u, _) w. active_row (u_id u) (working w))"
    unfolding verify_mfa_def
    by (rule run_ebind [OF run_pre [OF sim_open_challenge]], rule run_ebind [OF run_pre [OF sim_locked_ceremony]],
        rule run_ebind [OF run_pre [OF sim_pure(4)]], rule run_ebind [OF run_verify_authentication],
        rule run_ebind [OF run_active_prims(3)], rule run_ebind [OF used], rule run_ebind [OF run_active_prims(1)],
        rule run_ebind [OF run_active_prims(2)], rule ret)
qed

end
