(* ===== verification/OAuth_Steps.thy ===== *)
theory OAuth_Steps
  imports Passkey_Steps
begin

text \<open>The OAuth services go through the steps of the store only, and a login ends with an active user.\<close>

section \<open>Accounts\<close>

lemma sim_oauth_table [sim_intros]:
  "sim env (statement (\<lambda>d. d\<lparr>oauth_accounts := f d\<rparr>))" "sim env (statement (add_oauth_account a))" "sim env (set_account a g)"
  unfolding add_oauth_account_def set_account_def by (rule sim_statement, rule a_oauth)+

lemma sim_oauth_accounts [sim_intros]:
  "sim env (get_by_provider_subject p s)" "sim env (get_for_user i)" "sim env (get_for_user_provider i p)"
  "sim env (create_oauth_account env' i idn)" "sim env (update_oauth_account env' a idn)"
  "sim env (verify_matching_provider_email env' u idn)" "sim env (touch_last_login env' a u)"
  unfolding get_by_provider_subject_def get_for_user_def get_for_user_provider_def create_oauth_account_def
    update_oauth_account_def verify_matching_provider_email_def touch_last_login_def
  by (intro sim_intros profileI)+

lemma sim_linking [sim_intros]: "sim env (link_oauth_account env' u idn)" "sim env (unlink_oauth_account u p)"
  unfolding link_oauth_account_def unlink_oauth_account_def Let_def by (intro sim_intros)+

text \<open>None of them touches the users, but for the marks of a login.\<close>

lemma same_accounts:
  "keeps (same users) (create_oauth_account env i idn)" "keeps (same users) (update_oauth_account env a idn)"
  "keeps (same users) (set_account a f)" "keeps (same users) (add_audit l)"
  unfolding create_oauth_account_def update_oauth_account_def set_account_def add_oauth_account_def add_audit_def
  by (intro same_intros same_prims; simp)+

lemma run_active_accounts:
  "run env (\<lambda>w. active_row i (working w)) (create_oauth_account env' j idn) (\<lambda>_ w. active_row i (working w))"
  "run env (\<lambda>w. active_row i (working w)) (update_oauth_account env' a idn) (\<lambda>_ w. active_row i (working w))"
  "run env (\<lambda>w. active_row i (working w)) (set_account a f) (\<lambda>_ w. active_row i (working w))"
  by (rule run_active, rule sim_intros, rule same_accounts)+

lemma run_active_marks:
  "run env (\<lambda>w. active_row i (working w)) (verify_matching_provider_email env' u idn) (\<lambda>_ w. active_row i (working w))"
  "run env (\<lambda>w. active_row i (working w)) (touch_last_login env' a u) (\<lambda>_ w. active_row i (working w))"
proof -
  show "run env (\<lambda>w. active_row i (working w)) (verify_matching_provider_email env' u idn) (\<lambda>_ w. active_row i (working w))"
    unfolding verify_matching_provider_email_def
    by (rule sim_cases(1), rule run_active_profile, rule profileI) (auto simp: run_def eret_def)
  show "run env (\<lambda>w. active_row i (working w)) (touch_last_login env' a u) (\<lambda>_ w. active_row i (working w))"
    unfolding touch_last_login_def
    by (rule run_ebind [OF run_active_prims(3)], rule run_ebind [OF run_active_accounts(3)],
        rule run_ebind [OF run_active_profile], rule profileI) (auto simp: run_def eret_def)
qed

section \<open>Login\<close>

lemma run_login_linked:
  "run env (\<lambda>w. u \<in> set (users (working w))) (login_linked env a u idn provider) (\<lambda>u' w. active_row (u_id u') (working w))"
proof -
  have e: "run env (\<lambda>w. u \<in> set (users (working w))) (ensure_user_can_authenticate u provider True) (\<lambda>_ w. active_row (u_id u) (working w))"
    by (rule run_result, rule sim_intros) (auto simp: active_row_def dest!: ensure_user_eval)
  show ?thesis
    unfolding login_linked_def
    by (rule run_ebind [OF e], rule run_ebind [OF run_active_accounts(2)], rule run_ebind [OF run_active_marks(1)],
        rule run_ebind [OF run_active_marks(2)]) (auto simp: run_def eret_def seen_user_def)
qed

lemma oauth_user_new: "u_id (oauth_user env i idn) = i \<and> u_is_active (oauth_user env i idn) \<and> \<not> u_is_superuser (oauth_user env i idn)"
  by (simp add: oauth_user_def new_user_def)

lemma run_oauth_rival:
  "run env (\<lambda>w. active_row i (working w)) (oauth_rival_commits env rival) (\<lambda>_ w. active_row i (working w))"
proof (cases rival)
  case None
  then show ?thesis by (auto simp: run_def oauth_rival_commits_def eret_def)
next
  case (Some idn)
  show ?thesis
    unfolding run_def
  proof (intro allI impI)
    fix w :: world
    assume a: "active_row i (working w)"
    let ?u = "oauth_user env (uuid4 env (draws w)) idn"
    let ?a = "new_oauth_account (uuid4 env (Suc (draws w))) (uuid4 env (draws w)) idn (clock env (ticks w))"
    let ?f = "\<lambda>d. add_oauth_account ?a (insert_user ?u d)"
    let ?v = "w\<lparr>draws := Suc (Suc (draws w)), ticks := Suc (ticks w)\<rparr>"
    let ?x = "w\<lparr>draws := Suc (Suc (draws w)), committed := ?f (committed w), working := ?f (working w)\<rparr>"
    have r: "snd (oauth_rival_commits env rival w) =
        (if db_ok (?f (committed w)) then ?v\<lparr>committed := ?f (committed w), working := ?f (working w)\<rparr> else ?v)"
      by (simp add: Some oauth_rival_commits_def ebind_def prim_simps emodify_def Let_def)
    have act: "active_row i (?f (working w))"
      using a by (auto simp: active_row_def add_oauth_account_def insert_user_def)
    show "wsteps env w (snd (oauth_rival_commits env rival w)) \<and>
      (\<forall>x. fst (oauth_rival_commits env rival w) = Inr x \<longrightarrow> active_row i (working (snd (oauth_rival_commits env rival w))))"
    proof (cases "db_ok (?f (committed w))")
      case True
      then have "wstep env w ?x"
        using w_rival [of ?u env "draws w" w "Suc (Suc (draws w))" "oauth_accounts (committed w) @ [?a]" "oauth_accounts (working w) @ [?a]"]
        by (simp add: oauth_user_new add_oauth_account_def insert_user_def)
      moreover have "wsteps env ?x (?v\<lparr>committed := ?f (committed w), working := ?f (working w)\<rparr>)"
        by (rule wsteps_ext) simp_all
      ultimately have "wsteps env w (?v\<lparr>committed := ?f (committed w), working := ?f (working w)\<rparr>)"
        by (rule converse_rtranclp_into_rtranclp)
      with True act show ?thesis by (simp add: r)
    next
      case False
      have "wsteps env w (w\<lparr>draws := Suc (Suc (draws w))\<rparr>)"
        using wsteps_draw [of env w] wsteps_draw [of env "w\<lparr>draws := Suc (draws w)\<rparr>"] by (auto intro: rtranclp_trans)
      moreover have "wsteps env (w\<lparr>draws := Suc (Suc (draws w))\<rparr>) ?v" by (rule wsteps_ext) simp_all
      ultimately have "wsteps env w ?v" by (rule rtranclp_trans)
      with False a show ?thesis by (simp add: r)
    qed
  qed
qed

lemma run_create_oauth_user:
  "run env P (create_oauth_user env rival idn) (\<lambda>u w. active_row (u_id u) (working w))"
proof -
  have ret: "run env (\<lambda>w. active_row i (working w)) (eret ((oauth_user env i idn)\<lparr>u_last_login_at := t\<rparr>))
      (\<lambda>u w. active_row (u_id u) (working w))" for i t
    by (auto simp: run_def eret_def oauth_user_new)
  show ?thesis
    unfolding create_oauth_user_def
    by (rule run_ebind_pair [OF run_insert_user [OF oauth_user_new]], rule run_ebind [OF run_oauth_rival],
        rule run_ebind [OF run_active_accounts(1)], rule run_ebind [OF run_active_prims(3)],
        rule run_ebind [OF run_active_profile [OF profileI(1)]], rule run_ebind [OF run_active_prims(1)],
        rule run_ebind [OF run_active_prims(2)], rule ret)
qed

text \<open>The row of a user, if there is one.\<close>

lemma run_user_row: "run env P (user_row i) (\<lambda>found w. \<forall>u. found = Some u \<longrightarrow> u \<in> set (users (working w)))"
  by (rule run_result, rule sim_intros) (auto simp: user_row_def prim_simps dest: find_user)

lemma run_committed_login:
  "run env (\<lambda>w. active_row (u_id u) (working w)) (ebind commit (\<lambda>_. eret u)) (\<lambda>u w. active_row (u_id u) (working w))"
  by (rule run_ebind [OF run_active_prims(2)]) (auto simp: run_def eret_def)

lemma run_login_rival_account:
  "run env P (login_rival_account env idn) (\<lambda>u w. active_row (u_id u) (working w))"
  unfolding login_rival_account_def
  by (rule run_ebind [OF run_pre [OF sim_prims(6)]], rule run_ebind [OF run_pre [OF sim_oauth_accounts(1)]],
      rule run_case_Some, rule run_pure(1), rule run_ebind [OF run_user_row], rule run_case_Some, rule run_pure(1),
      rule run_ebind [OF run_weaken [OF run_login_linked]], simp, assumption, rule run_committed_login)

lemma run_authenticate_oauth:
  "run env P (authenticate_oauth_identity env rival idn) (\<lambda>u w. active_row (u_id u) (working w))"
proof -
  have on: "run env (\<lambda>_. True) (on_class IntegrityError (login_rival_account env idn) e) (\<lambda>u w. active_row (u_id u) (working w))" for e
    unfolding on_class_def by (rule sim_cases(1), rule run_login_rival_account, rule run_pure(1))
  have email: "sim env (if truthy (oi_email idn) then get_user_by_email (the (oi_email idn)) else eret None)"
    by (intro sim_intros)
  show ?thesis
    unfolding authenticate_oauth_identity_def Let_def
    by (rule run_ebind [OF run_pre [OF sim_oauth_accounts(1)]], rule run_case_Some,
        rule run_ebind [OF run_pre [OF email]], rule run_ebind [OF run_pre [OF sim_pure(4)]],
        rule run_ecatch_post, rule run_create_oauth_user, rule on,
        rule run_ebind [OF run_user_row], rule run_case_Some, rule run_pure(1),
        rule run_ebind [OF run_weaken [OF run_login_linked]], simp, assumption,
        rule run_ebind [OF run_active_prims(1)], rule run_committed_login)
qed

section \<open>The flow\<close>

lemma sim_flow [sim_intros]:
  "sim env (encode_oauth_flow env' f)" "sim env (decode_oauth_flow env' v)" "sim env (authorization_url env' p s)"
  "sim env (start_flow env' p g)" "sim env (flow_end p l)" "sim env (oauth_flow_error_redirect env' m p c)"
proof -
  show e: "sim env (encode_oauth_flow env' f)" and d: "sim env (decode_oauth_flow env' v)"
    and a: "sim env (authorization_url env' p s)" for f v p s
    unfolding encode_oauth_flow_def decode_oauth_flow_def authorization_url_def Let_def by (intro sim_intros)+
  show "sim env (start_flow env' p g)" unfolding start_flow_def set_oauth_cookie_def by (intro sim_intros e a)
  show f: "sim env (flow_end p l)" for l unfolding flow_end_def clear_oauth_cookie_def by (intro sim_intros)
  show "sim env (oauth_flow_error_redirect env' m p c)" unfolding oauth_flow_error_redirect_def by (rule f)
qed

lemma sim_exchange [sim_intros]: "sim env (exchanged env' p c)"
  unfolding exchanged_def exchange_oauth_code_def exchange_github_def exchange_google_def provider_token_def Let_def
  by (intro sim_intros)

lemma sim_on_http [sim_intros]: "(\<And>e. sim env (h e)) \<Longrightarrow> sim env (on_http h e)"
  unfolding on_http_def by (intro sim_intros)

end
