(* ===== verification/Auth_Run.thy ===== *)
theory Auth_Run
  imports OAuth_Steps
begin

text \<open>
  Every request handler runs through steps of the store only (\<open>run_handle\<close>), so a whole sequence of
  requests does (\<open>serve_all_steps\<close>), and what an \<open>auth_invariant\<close> keeps is kept by every sequence.
\<close>

section \<open>The handlers\<close>

lemma same_windows: "keeps (same part) (emodify (\<lambda>w. w\<lparr>memory_windows := ws\<rparr>))"
  by (auto simp: keeps_def same_def emodify_def)

lemma same_rate_limit: "keeps (same part) (check_rate_limit env key a b c code)" "keeps (same part) (limited env key x y)"
proof -
  show "keeps (same part) (check_rate_limit env key a b c code)" for a b c code
    unfolding check_rate_limit_def check_redis_def check_memory_def time_monotonic_def Let_def
    by (intro same_intros same_prims same_windows) (auto simp: keeps_def same_def emodify_def)
  then show "keeps (same part) (limited env key x y)" unfolding limited_def .
qed

lemma same_dependencies:
  "keeps (same part) (get_current_active_user env rq)"
  "keeps (same part) (get_csrf_protected_active_user env rq)" "keeps (same part) (require_recent_auth env rq)"
  unfolding get_current_active_user_def get_csrf_protected_active_user_def
    get_current_user_def require_recent_auth_def decode_jwt_def get_user_by_id_def user_row_def
  by (intro same_intros same_prims)+

lemma run_keys:
  assumes "sim env m" and "keeps (same (\<lambda>d. d)) m"
  shows "run env (\<lambda>w. keys_ok (working w)) m (\<lambda>_ w. keys_ok (working w))"
  by (rule run_db [OF assms])

lemmas run_keys_prims =
  run_keys [OF sim_dependencies(3) same_dependencies(2)] run_keys [OF sim_dependencies(4) same_dependencies(3)]
  run_keys [OF sim_limited same_rate_limit(2)] run_keys [OF sim_check_rate_limit same_rate_limit(1)]

lemma run_ignore [run_intros]: "run env P m (\<lambda>_ _. True) \<Longrightarrow> run env P (ignore m) (\<lambda>_ _. True)"
  unfolding ignore_def by (rule run_ebind [where R = "\<lambda>_ _. True"], assumption, rule sim_intros)

lemma sim_post_signup: "sim env (post_signup env rival rq email pw fname lname)"
  unfolding post_signup_def
  by (rule sim_ebind, rule sim_intros, rule sim_ebind, rule sim_intros, rule run_ebind [OF run_signup],
      rule run_ebind [OF run_issue_session]) (rule sim_intros)

lemma sim_post_login: "sim env (post_login env rq email pw)"
proof -
  have a: "run env (\<lambda>w. active_row i (working w)) (available_mfa_methods i) (\<lambda>_ w. active_row i (working w))" for i
    by (rule run_active, rule sim_intros, unfold available_mfa_methods_def, rule same_prims)
  show ?thesis
    unfolding post_login_def
    by (rule sim_ebind, rule sim_intros, rule run_ebind [OF run_authenticate], rule run_ebind [OF a], rule sim_cases(1),
        rule run_pre, (intro sim_intros)[1], rule run_ebind [OF run_issue_session]) (rule sim_intros)
qed

lemma run_post_mfa_verify: "run env (\<lambda>w. keys_ok (working w)) (post_mfa_verify env rq supplied code rc) (\<lambda>_ _. True)"
proof -
  have l: "run env (\<lambda>w. keys_ok (working w)) (elift q) (\<lambda>_ w. keys_ok (working w))" for q
    by (auto simp: run_def elift_def)
  have i: "run env (case p of (u, _) \<Rightarrow> \<lambda>w. active_row (u_id u) (working w)) (case p of (u, factor, primary) \<Rightarrow>
      ebind (issue_session env u rq (Some [primary_amr primary, if factor = ''totp'' then ''otp'' else ''recovery''])) (\<lambda>csrf.
      ebind (if factor = ''recovery'' then deliver env (Mfa_security_email (u_email u) ''recovery_used'') else eret ()) (\<lambda>_.
      ebind (clear_mfa_cookie env) (\<lambda>_. eret (u, csrf))))) (\<lambda>_ _. True)" for p
    by (cases p) (auto intro!: run_ebind [OF run_issue_session] sim_intros)
  show ?thesis
    unfolding post_mfa_verify_def
    by (rule run_ebind [OF l], rule run_ebind [OF run_keys_prims(4)], rule run_ebind [OF run_verify_login_challenge]) (rule i)
qed

lemma run_mfa_management:
  "run env (\<lambda>w. keys_ok (working w)) (post_totp_setup env rq) (\<lambda>_ _. True)"
  "run env (\<lambda>w. keys_ok (working w)) (post_totp_confirm env rq code) (\<lambda>_ _. True)"
  "run env (\<lambda>w. keys_ok (working w)) (post_recovery_codes env rq pw code' rc) (\<lambda>_ _. True)"
  "run env (\<lambda>w. keys_ok (working w)) (delete_totp env rq pw code' rc) (\<lambda>_ _. True)"
  unfolding post_totp_setup_def post_totp_confirm_def post_recovery_codes_def delete_totp_def
     apply (rule run_ebind [OF run_keys_prims(1)], rule run_ebind [OF run_keys_prims(2)], rule run_ebind [OF run_keys_prims(3)],
      rule run_start_totp_setup)
    apply (rule run_ebind [OF run_keys_prims(1)], rule run_ebind [OF run_keys_prims(3)],
      rule run_ebind [OF run_confirm_totp_setup], intro sim_intros)
   apply (rule run_ebind [OF run_keys_prims(1)], rule run_ebind [OF run_keys_prims(3)],
      rule run_ebind [OF run_regenerate], intro sim_intros)
  apply (rule run_ebind [OF run_keys_prims(1)], rule run_ebind [OF run_keys_prims(3)],
      rule run_ebind [OF run_disable_mfa], intro sim_intros)
  done

lemma sim_session_handlers:
  "sim env (post_refresh env rq)" "sim env (post_logout env rq)" "sim env (post_logout_all env rq)" "sim env (get_auth_session env rq)"
  unfolding post_refresh_def post_logout_def post_logout_all_def get_auth_session_def Let_def by (intro sim_intros)+

lemma sim_verification_result: "(\<And>x y z. sim env (f x y z)) \<Longrightarrow> sim env (case q of Verification_result x y z \<Rightarrow> f x y z)"
  by (simp split: verification_result.splits)

lemma sim_account_handlers:
  "sim env (post_verify_email env t)" "sim env (post_resend_verification env rq)" "sim env (post_forgot_password env rq email)"
  "sim env (post_reset_password env rq t pw)" "sim env (post_change_password env rq old new)"
  "sim env (get_mfa_challenge env rq)" "sim env (get_mfa_security env rq)"
  "sim env (post_deactivate_user_me env rq)" "sim env (delete_user_me env rq c pw')"
  unfolding post_verify_email_def post_resend_verification_def post_forgot_password_def post_reset_password_def
    post_change_password_def get_mfa_challenge_def get_mfa_security_def post_deactivate_user_me_def delete_user_me_def
  by (intro sim_intros sim_verification_result)+

lemma sim_patch_user_me: "sim env (patch_user_me env rq a b c)"
proof -
  have p: "profile (\<lambda>q. q\<lparr>u_first_name := f q, u_last_name := g q, u_display_name := h q\<rparr>)" for f g h
    by (simp add: profile_def)
  show ?thesis unfolding patch_user_me_def by (intro sim_intros p)
qed

lemma run_case_prod_active:
  assumes "\<And>u x. run env (\<lambda>w. active_row (u_id u) (working w)) (f u x) Q"
  shows "run env (case p of (u, _) \<Rightarrow> \<lambda>w. active_row (u_id u) (working w)) (case p of (u, x) \<Rightarrow> f u x) Q"
  using assms by (cases p) simp

lemma run_issue_then: "(\<And>csrf. sim env (k csrf)) \<Longrightarrow>
    run env (\<lambda>w. active_row (u_id u) (working w)) (ebind (issue_session env u rq amr) k) (\<lambda>_ _. True)"
  by (rule run_ebind [OF run_issue_session])

lemma sim_passkey_handlers:
  "sim env (post_passkey_registration_options env rq)" "sim env (post_passkey_registration_verify env rq t c n)"
  "sim env (post_passkey_login_options env rq)" "sim env (post_mfa_passkey_options env rq s)"
  "sim env (post_passkey_reauth_options env rq)" "sim env (get_user_passkeys env rq)"
  "sim env (patch_user_passkey env rq i n')" "sim env (delete_user_passkey env rq i)"
  unfolding post_passkey_registration_options_def post_passkey_registration_verify_def post_passkey_login_options_def
    post_mfa_passkey_options_def post_passkey_reauth_options_def get_user_passkeys_def patch_user_passkey_def
    delete_user_passkey_def
  by (intro sim_intros)+

lemma same_revoke_current: "keeps (same users) (revoke_current_session env t)"
  unfolding revoke_current_session_def revoke_token_family_def update_sessions_def decode_jwt_def session_by_jti_def
  by (intro same_intros same_prims) simp_all

lemma sim_passkey_logins:
  "sim env (post_passkey_login_verify env rq t c)" "sim env (post_mfa_passkey_verify env rq s t c)"
  "sim env (post_passkey_reauth_verify env rq t c)"
proof -
  show "sim env (post_passkey_login_verify env rq t c)"
    unfolding post_passkey_login_verify_def
    by (rule sim_ebind, rule sim_intros, rule run_ebind [OF run_passkey_logins(1)], rule run_issue_then, rule sim_intros)
  show "sim env (post_mfa_passkey_verify env rq s t c)"
    unfolding post_mfa_passkey_verify_def
    by (rule sim_ebind, rule sim_intros, rule sim_ebind, rule sim_intros, rule run_ebind [OF run_passkey_logins(3)],
        rule run_case_prod_active, rule run_issue_then) (intro sim_intros)
  show "sim env (post_passkey_reauth_verify env rq t c)"
    unfolding post_passkey_reauth_verify_def
    by (rule sim_ebind, rule sim_intros, rule sim_ebind, rule sim_intros, rule run_ebind [OF run_passkey_logins(2)],
        rule run_ebind [OF run_active [OF sim_revocation(1) same_revoke_current]], rule run_issue_then, rule sim_intros)
qed

lemma run_handle_passkey: "sim env (handle_passkey env rq q)"
  by (cases q) (simp_all add: sim_passkey_handlers sim_passkey_logins run_ignore)

lemma sim_oauth_handlers:
  "sim env (post_complete_oauth_email env rq e)" "sim env (oauth_login env rq p r)" "sim env (oauth_link env rq p)"
  "sim env (get_user_oauth_accounts env rq)" "sim env (delete_user_oauth_account env rq p)"
  "sim env (finish_link env rq p f idn)" "sim env (mfa_redirect env rq p u target)"
  unfolding post_complete_oauth_email_def oauth_login_def oauth_link_def get_user_oauth_accounts_def
    delete_user_oauth_account_def finish_link_def mfa_redirect_def Let_def
  by (intro sim_intros)+

lemma run_finish_login: "run env (\<lambda>w. active_row (u_id u) (working w)) (finish_login env rq p f u) (\<lambda>_ _. True)"
proof -
  have a: "run env (\<lambda>w. active_row i (working w)) (available_mfa_methods i) (\<lambda>_ w. active_row i (working w))" for i
    by (rule run_active, rule sim_intros, unfold available_mfa_methods_def, rule same_prims)
  show ?thesis
    unfolding finish_login_def Let_def
    by (rule run_ebind [OF a], rule sim_cases(1), rule run_pre [OF sim_oauth_handlers(7)], rule run_issue_then) (rule sim_intros)
qed

lemma sim_callback_login: "sim env (callback_login env rival rq p f idn)"
proof -
  let ?Q = "\<lambda>outcome w. \<forall>u. outcome = Inr u \<longrightarrow> active_row (u_id u) (working w)"
  have auth: "run env (\<lambda>_. True) (ebind (authenticate_oauth_identity env rival idn) (\<lambda>u. eret (Inr u))) ?Q"
    by (rule run_ebind [OF run_authenticate_oauth]) (auto simp: run_def eret_def)
  have caught: "run env (\<lambda>_. True) (on_http (\<lambda>e. eret (Inl e)) e) ?Q" for e
    by (auto simp: run_def on_http_def eret_def eraise_def)
  have after: "run env (?Q outcome) (case outcome of
       Inl e \<Rightarrow> oauth_flow_error_redirect env ''login'' p (detail_code ''OAUTH_LOGIN_FAILED'' e)
     | Inr u \<Rightarrow> finish_login env rq p f u) (\<lambda>_ _. True)" for outcome
    by (cases outcome) (auto intro: run_pre sim_flow run_weaken [OF run_finish_login])
  show ?thesis
    unfolding callback_login_def by (rule run_ebind [OF run_ecatch_post [OF auth caught]]) (rule after)
qed

lemma sim_oauth_callback: "sim env (oauth_callback env rival rq p s c e)"
  unfolding oauth_callback_def Let_def by (intro sim_intros sim_callback_login sim_oauth_handlers(6))

lemma run_handle_oauth: "sim env (handle_oauth env rq q)"
  by (cases q) (simp_all add: sim_oauth_handlers sim_oauth_callback run_ignore)

lemmas handler_runs = sim_post_signup sim_post_login run_post_mfa_verify run_mfa_management sim_session_handlers
  sim_account_handlers sim_patch_user_me run_handle_passkey run_handle_oauth

lemma run_handle: "run env (\<lambda>w. keys_ok (working w)) (handle env rq q) (\<lambda>_ _. True)"
  by (cases q) (simp_all, (rule run_ignore | rule handler_runs | rule run_pre, rule handler_runs)+)


section \<open>Requests\<close>

text \<open>
  Between requests the session is closed and the committed database satisfies the schema; every
  request keeps it so and is a sequence of steps.
\<close>

definition idle :: "world \<Rightarrow> bool" where
  "idle w \<longleftrightarrow> working w = committed w \<and> db_ok (committed w)"

lemma db_ok_keys: "db_ok d \<Longrightarrow> keys_ok d"
  by (simp add: db_ok_def unique_ok_def keys_ok_def)

lemma wstep_db_ok: "wstep env w v \<Longrightarrow> db_ok (committed w) \<Longrightarrow> db_ok (committed v)"
  by (induction rule: wstep.induct) auto

lemma wsteps_db_ok: "wsteps env w v \<Longrightarrow> db_ok (committed w) \<Longrightarrow> db_ok (committed v)"
  by (induction rule: rtranclp_induct) (auto intro: wstep_db_ok)

lemma wsteps_end: "wsteps env w (end_request w)"
proof -
  have "wstep env w (w\<lparr>working := committed w\<rparr>)" by (rule w_rollback)
  moreover have "wsteps env (w\<lparr>working := committed w\<rparr>) (end_request w)" by (rule wsteps_ext) (simp_all add: end_request_def)
  ultimately show ?thesis by (rule converse_rtranclp_into_rtranclp)
qed

lemma handle_steps: "idle w \<Longrightarrow> wsteps env w (snd (handle env rq q w))"
  using run_handle [of env rq q] by (auto simp: run_def idle_def dest: db_ok_keys)

lemma serve_steps: "idle w \<Longrightarrow> wsteps env w (serve env r w) \<and> idle (serve env r w)"
proof -
  assume i: "idle w"
  then have 1: "wsteps env w (snd (handle env (fst r) (snd r) w))" by (rule handle_steps)
  then have 2: "wsteps env w (serve env r w)" unfolding serve_def using wsteps_end by (rule rtranclp_trans)
  moreover have "db_ok (committed (serve env r w))" using wsteps_db_ok [OF 2] i by (simp add: idle_def)
  ultimately show ?thesis by (simp add: idle_def serve_def end_request_def)
qed

lemma serve_all_steps: "idle w \<Longrightarrow> wsteps env w (serve_all env rs w) \<and> idle (serve_all env rs w)"
proof (induction rs arbitrary: w)
  case (Cons r rs)
  from serve_steps [OF Cons.prems] have s: "wsteps env w (serve env r w)" "idle (serve env r w)" by auto
  from Cons.IH [OF s(2)] have "wsteps env (serve env r w) (serve_all env rs (serve env r w))" and
    "idle (serve_all env rs (serve env r w))" by auto
  with s show ?case by (auto intro: rtranclp_trans)
qed simp

context auth_invariant
begin

lemma holds_serve: "idle w \<Longrightarrow> holds w \<Longrightarrow> holds (serve env r w)"
  using serve_steps holds_wsteps by blast

lemma holds_handle: "idle w \<Longrightarrow> holds w \<Longrightarrow> holds (snd (handle env rq q w))"
  using handle_steps holds_wsteps by blast

lemma holds_serve_all: "idle w \<Longrightarrow> holds w \<Longrightarrow> holds (serve_all env rs w)"
  using serve_all_steps holds_wsteps by blast

lemma holds_idle: "idle w \<Longrightarrow> holds w \<longleftrightarrow> P (draws w) (committed w)"
  by (simp add: holds_def idle_def)

lemma stays:
  assumes "idle w" and "P (draws w) (committed w)"
  shows "P (draws (serve_all env rs w)) (committed (serve_all env rs w))"
  using holds_serve_all [OF assms(1)] assms holds_idle [OF assms(1)] by (simp add: holds_def)

end


end
