(* ===== verification/Auth_Sample.thy ===== *)
theory Auth_Sample
  imports Auth_Serve
begin

text \<open>
  A concrete environment and a small database: the instance on which the hypotheses of the
  properties of the authentication are shown to hold together. Random identifiers count upwards, a
  token or a hash is a readable text, the clock advances by one second per reading, and every token
  decodes to the claims of the sample session.
\<close>

definition hex_digit :: "nat \<Rightarrow> char" where
  "hex_digit n = ''0123456789abcdef'' ! (n mod 16)"

definition sample_uuid :: "nat \<Rightarrow> uuid" where
  "sample_uuid n = replicate 30 CHR ''0'' @ [hex_digit (n div 16), hex_digit n]"

definition user_uuid :: uuid where
  "user_uuid = replicate 32 CHR ''f''"

definition session_uuid :: uuid where
  "session_uuid = replicate 32 CHR ''e''"

definition family_uuid :: uuid where
  "family_uuid = replicate 32 CHR ''d''"

definition sample_settings :: settings where
  "sample_settings = \<lparr>cors_origins = ''https://ocp.test'', app_environment = ''test'', app_base_url = ''https://ocp.test'',
     jwt_issuer = ''ocp'', jwt_audience = ''ocp'', access_token_expire_minutes = 15, refresh_token_expire_days = 30,
     refresh_token_reuse_grace_seconds = 5, account_deletion_recent_auth_seconds = 600, refresh_rate_limit_attempts = 30,
     refresh_rate_limit_window_seconds = 60, refresh_require_origin = True, email_verification_expire_hours = 24,
     password_reset_expire_minutes = 30, auth_access_cookie_name = ''access'', auth_refresh_cookie_name = ''refresh'',
     auth_csrf_cookie_name = ''csrf'', auth_mfa_cookie_name = ''mfa'', auth_cookie_path = ''/'',
     auth_rate_limit_attempts = 5, auth_rate_limit_window_seconds = 60, auth_rate_limit_backend = ''memory'',
     rate_limit_fail_closed = False, rate_limit_memory_max_keys = 100, mfa_challenge_expire_seconds = 300,
     mfa_max_attempts = 5, mfa_totp_valid_window = 1, mfa_recovery_code_count = 2, mfa_setup_expire_seconds = 600,
     mfa_encryption_key = Some ''key'', redis_enabled = False, cache_prefix = ''ocp'', trusted_proxies = [],
     reauth_max_age_seconds = 300, api_base_url = ''https://ocp.test'', github_client_id = Some ''id'',
     github_client_secret = Some ''secret'', google_client_id = None, google_client_secret = None,
     oauth_redirect_base_url = None, webauthn_rp_id = ''ocp.test'', webauthn_rp_name = ''OCP'',
     webauthn_origin = ''https://ocp.test'', webauthn_challenge_expire_seconds = 300, webauthn_timeout_ms = 60000\<rparr>"

definition sample_claims :: json where
  "sample_claims = JObj [(''type'', JStr ''refresh''), (''sub'', JStr (uuid_str user_uuid)), (''jti'', JStr ''old'')]"

definition str_value :: "json \<Rightarrow> exn + string" where
  "str_value v = (case v of JStr s \<Rightarrow> Inr s | _ \<Rightarrow> Inl (Raise ValueError (Msg [])))"

definition sample_env :: auth_env where
  "sample_env = \<lparr>conf = sample_settings, clock = (\<lambda>n. int n * 1000000), monotonic = (\<lambda>n. int n * 1000000),
     uuid4 = sample_uuid, token_urlsafe = (\<lambda>n. ''tok'' @ [hex_digit (n div 16), hex_digit n]),
     sha256_hex = (\<lambda>s. s), pwd_hash = (\<lambda>n s. CHR ''h'' # s), pwd_verify = (\<lambda>s h. h = CHR ''h'' # s),
     jwt_encode = (\<lambda>_. ''jwt''), jwt_decode = (\<lambda>_ _. Inr sample_claims), mail_failure = (\<lambda>_. None),
     hmac_hex = (\<lambda>s. s), str_isdigit = list_all is_digit, totp_at = (\<lambda>_ t. if t = 0 then ''000000'' else ''111111''),
     random_base32 = (\<lambda>_. ''BASE32''), provisioning_uri = (\<lambda>s u. s), choice_index = (\<lambda>n. n),
     fernet_key_ok = (\<lambda>_. True), fernet_encrypt = (\<lambda>k n s. s), fernet_decrypt = (\<lambda>k s. Some s),
     redis_eval = (\<lambda>_ _ _. Inr (1, 60)), ip_address = Some, ip_in_network = (\<lambda>_ _. Some False),
     casefold = py_lower, parse_json = (\<lambda>s. Inr (JStr s)), token_bytes = (\<lambda>n. ''bytes'' @ [hex_digit (n div 16), hex_digit n]),
     base64url_to_bytes = (\<lambda>v. str_value v), transport_known = is_str,
     registration_options_json = (\<lambda>a. Inr (JStr (ra_challenge a))), authentication_options_json = (\<lambda>a. Inr (JStr (aa_challenge a))),
     verify_registration_response = (\<lambda>v c r origin. Inr \<lparr>vr_credential_id = ''credential'', vr_credential_public_key = ''key'',
       vr_sign_count = 0, vr_aaguid = [], vr_device_type = ''single_device'', vr_backed_up = False\<rparr>),
     verify_authentication_response = (\<lambda>v c r origin k. Inr \<lparr>va_new_sign_count = 1, va_device_type = ''single_device'', va_backed_up = False\<rparr>),
     state_hmac_hex = (\<lambda>s. ''mac''), oauth_nonce = (\<lambda>n. ''nonce''), fetch_token = (\<lambda>n p c. Inr (JObj [(''access_token'', JStr c)])),
     http_get = (\<lambda>n u t. Inr \<lparr>hr_status = 200, hr_json = Inr JNull\<rparr>), email_str = Some\<rparr>"

definition sample_user :: user where
  "sample_user = (new_user user_uuid ''ada@ocp.test'' (Some ''hcorrect horse'') ''Ada'' ''L'')\<lparr>u_is_superuser := True\<rparr>"

definition sample_session :: user_session where
  "sample_session = \<lparr>us_id = session_uuid, us_user_id = user_uuid, us_token_hash = ''jwt'', us_jti = ''old'',
     us_family_id = family_uuid, us_expires_at = 100000000000, us_last_used_at = None, us_revoked_at = None,
     us_rotated_at = None, us_replaced_by_jti = None, us_revocation_reason = None, us_ip_address = None, us_user_agent = None\<rparr>"

definition empty_db :: db where
  "empty_db = \<lparr>users = [], sessions = [], verification_tokens = [], reset_tokens = [], audit_logs = [], mfa_methods = [],
     recovery_codes = [], mfa_challenges = [], credentials = [], webauthn_challenges = [], oauth_accounts = []\<rparr>"

definition world_of :: "db \<Rightarrow> world" where
  "world_of d = \<lparr>committed = d, working = d, ticks = 20, draws = 0, outbox = [], response = [], memory_windows = []\<rparr>"

definition sample_db :: db where
  "sample_db = empty_db\<lparr>users := [sample_user], sessions := [sample_session]\<rparr>"

definition sample_request :: request where
  "sample_request = \<lparr>rq_method = ''POST'', rq_cookies = [(''refresh'', ''jwt''), (''csrf'', ''c'')],
     rq_headers = [(''x-csrf-token'', ''c''), (''origin'', ''https://ocp.test'')], rq_client = Some ''203.0.113.7''\<rparr>"

lemmas sample_defs = sample_settings_def sample_claims_def sample_env_def sample_user_def sample_session_def empty_db_def
  world_of_def sample_db_def str_value_def sample_request_def sample_uuid_def user_uuid_def session_uuid_def family_uuid_def hex_digit_def

end
