(* ===== verification/Auth_Props.thy ===== *)
theory Auth_Props
  imports Auth_Run Auth_Sample
begin

text \<open>
  What the authentication store guarantees over any sequence of requests: each invariant is an
  interpretation of \<open>auth_invariant\<close> (one lemma by cases on the steps), and the properties follow
  from it. That random identifiers and tokens do not repeat is a hypothesis (\<open>fresh_uuids\<close>,
  \<open>fresh_tokens\<close>) on the first \<open>N\<close> draws, and the properties are about worlds with at most \<open>N\<close> draws.
\<close>

section \<open>Invariants under a hypothesis on the draws\<close>

locale bounded_invariant =
  fixes env :: auth_env
    and N :: nat
    and C :: bool
    and I :: "nat \<Rightarrow> db \<Rightarrow> bool"
  assumes bounded_step: "C \<Longrightarrow> n \<le> m \<Longrightarrow> m \<le> N \<Longrightarrow> I n d \<Longrightarrow> astep env (n, d) (m, e) \<Longrightarrow> I m e"

sublocale bounded_invariant \<subseteq> auth_invariant env "\<lambda>n d. C \<longrightarrow> n \<le> N \<longrightarrow> I n d"
proof (unfold_locales, intro impI)
  fix n d m e
  assume a: "C \<longrightarrow> n \<le> N \<longrightarrow> I n d" "astep env (n, d) (m, e)" C "m \<le> N"
  from astep_mono [OF a(2)] have "n \<le> m" by simp
  with a show "I m e" using bounded_step by simp
qed

context bounded_invariant
begin

lemma kept:
  assumes "C" and "idle w" and "I (draws w) (committed w)" and "draws (serve_all env rs w) \<le> N"
  shows "I (draws (serve_all env rs w)) (committed (serve_all env rs w))"
proof -
  have "holds w" unfolding holds_idle [OF assms(2)] using assms(3) by simp
  from holds_serve_all [OF assms(2) this, of rs] assms(1,4) show ?thesis unfolding holds_def by simp
qed

end

section \<open>Fresh identifiers\<close>

definition fresh_uuids :: "auth_env \<Rightarrow> nat \<Rightarrow> bool" where
  "fresh_uuids env N \<longleftrightarrow> inj_on (uuid4 env) {..<N} \<and> (\<forall>k < N. is_uuid (uuid4 env k))"

definition fresh_tokens :: "auth_env \<Rightarrow> nat \<Rightarrow> bool" where
  "fresh_tokens env N \<longleftrightarrow> inj_on (\<lambda>k. hash_token env (token_urlsafe env k)) {..<N}"

lemma uuid_str_inj:
  assumes "length u = 32" and "length v = 32" and "uuid_str u = uuid_str v"
  shows "u = v"
proof -
  have s: "w = take 8 w @ take 4 (drop 8 w) @ take 4 (drop 12 w) @ take 4 (drop 16 w) @ drop 20 w" for w :: string
    using append_take_drop_id [of 8 w] append_take_drop_id [of 4 "drop 8 w"] append_take_drop_id [of 4 "drop 12 w"]
      append_take_drop_id [of 4 "drop 16 w"] by (simp add: add.commute)
  from assms have "take 8 u = take 8 v \<and> take 4 (drop 8 u) = take 4 (drop 8 v) \<and> take 4 (drop 12 u) = take 4 (drop 12 v) \<and>
      take 4 (drop 16 u) = take 4 (drop 16 v) \<and> drop 20 u = drop 20 v"
    by (simp add: uuid_str_def)
  then show ?thesis using s [of u] s [of v] by metis
qed

lemma fresh_uuidsD:
  assumes "fresh_uuids env N" and "j < N" and "k < N"
  shows "uuid4 env j = uuid4 env k \<longleftrightarrow> j = k" "uuid_str (uuid4 env j) = uuid_str (uuid4 env k) \<longleftrightarrow> j = k"
proof -
  show 1: "uuid4 env j = uuid4 env k \<longleftrightarrow> j = k" using assms by (auto simp: fresh_uuids_def inj_on_def)
  show "uuid_str (uuid4 env j) = uuid_str (uuid4 env k) \<longleftrightarrow> j = k"
    using assms 1 uuid_str_inj [of "uuid4 env j" "uuid4 env k"] by (auto simp: fresh_uuids_def is_uuid_def)
qed

section \<open>Sessions\<close>

abbreviation live :: "user_session \<Rightarrow> bool" where
  "live r \<equiv> us_revoked_at r = None"

text \<open>
  Keys that are still to be drawn are not in use, a rotated session is revoked, and a family has
  at most one session that is not revoked.
\<close>

definition session_inv :: "auth_env \<Rightarrow> nat \<Rightarrow> nat \<Rightarrow> user_session list \<Rightarrow> bool" where
  "session_inv env N n ss \<longleftrightarrow>
     (\<forall>k. n \<le> k \<and> k < N \<longrightarrow> (\<forall>r \<in> set ss. us_jti r \<noteq> uuid_str (uuid4 env k) \<and> us_family_id r \<noteq> uuid4 env k)) \<and>
     (\<forall>r \<in> set ss. us_rotated_at r \<noteq> None \<longrightarrow> \<not> live r) \<and>
     distinct (map us_family_id (filter live ss))"

lemma session_inv_later: "session_inv env N n ss \<Longrightarrow> n \<le> m \<Longrightarrow> session_inv env N m ss"
  by (auto simp: session_inv_def)

lemma filter_revoked: "filter live (update_where p (revoke t why) ss) = filter (\<lambda>r. live r \<and> \<not> p r) ss"
  by (induction ss) (auto simp: update_where_def revoke_def)

lemma distinct_filter_and: "distinct (map f (filter p xs)) \<Longrightarrow> distinct (map f (filter (\<lambda>x. p x \<and> q x) xs))"
  by (metis distinct_map_filter filter_filter conj_commute)

lemma session_inv_filter: "session_inv env N n ss \<Longrightarrow> session_inv env N n (filter p ss)"
  unfolding session_inv_def filter_filter by (auto simp: conj_commute [of "p x" for x] intro: distinct_filter_and)

lemma session_inv_revoke: "session_inv env N n ss \<Longrightarrow> session_inv env N n (update_where p (revoke t why) ss)"
  unfolding session_inv_def update_where_ball filter_revoked
  by (auto simp: revoke_def intro: distinct_filter_and)


lemma session_inv_add:
  assumes "session_inv env N n ss" and "fresh_uuids env N" and "m \<le> N" and "fresh_session env n m r"
    and "us_family_id r \<notin> us_family_id ` set (filter live ss)"
    and "\<And>k. m \<le> k \<Longrightarrow> k < N \<Longrightarrow> us_family_id r \<noteq> uuid4 env k"
  shows "session_inv env N m (ss @ [r])"
proof -
  from assms(4) obtain j where j: "n \<le> j" "j < m" "us_jti r = uuid_str (uuid4 env j)" "live r" "us_rotated_at r = None"
    by (auto simp: fresh_session_def)
  have "us_jti r \<noteq> uuid_str (uuid4 env k)" if "m \<le> k" "k < N" for k
    using fresh_uuidsD(2) [OF assms(2), of j k] j that assms(3) by simp
  with assms j show ?thesis by (auto simp: session_inv_def)
qed

text \<open>The session that a rotation replaces is the only live one of its family.\<close>

lemma session_inv_rotate:
  assumes i: "session_inv env N n ss" and "fresh_uuids env N" and "m \<le> N" and "fresh_session env n m r'"
    and r: "r \<in> set ss" "live r" and f: "us_family_id r' = us_family_id r"
  shows "session_inv env N m (update_where (\<lambda>q. us_id q = us_id r) (\<lambda>q. (revoke t why q)\<lparr>us_rotated_at := Some t,
      us_last_used_at := Some t, us_replaced_by_jti := Some j\<rparr>) ss @ [r'])"
proof (rule session_inv_add)
  let ?g = "\<lambda>q. (revoke t why q)\<lparr>us_rotated_at := Some t, us_last_used_at := Some t, us_replaced_by_jti := Some j\<rparr>"
  let ?ss = "update_where (\<lambda>q. us_id q = us_id r) ?g ss"
  have fl: "filter live ?ss = filter (\<lambda>q. live q \<and> us_id q \<noteq> us_id r) ss"
    by (induction ss) (auto simp: update_where_def revoke_def)
  from i have d: "distinct (map us_family_id (filter live ss))" by (simp add: session_inv_def)
  have "q = r" if "q \<in> set ss" "live q" "us_family_id q = us_family_id r" for q
    using same_key [OF d, of q r] that r by simp
  then show "us_family_id r' \<notin> us_family_id ` set (filter live ?ss)" unfolding fl f by auto
  show "session_inv env N n ?ss"
    using i unfolding session_inv_def fl update_where_ball by (auto simp: revoke_def intro: distinct_filter_and)
  show "us_family_id r' \<noteq> uuid4 env k" if "m \<le> k" "k < N" for k
  proof -
    from assms(4) that have "n \<le> k" by (auto simp: fresh_session_def)
    with i r that show ?thesis unfolding session_inv_def f by blast
  qed
qed (use assms in auto)

lemma session_inv_step:
  assumes "fresh_uuids env N" and "n \<le> m" and "m \<le> N" and "session_inv env N n (sessions d)" and "astep env (n, d) (m, e)"
  shows "session_inv env N m (sessions e)"
proof -
  note i = assms(4)
  then have later: "session_inv env N m (sessions d)" using assms(2) by (rule session_inv_later)
  from assms(5) show ?thesis
  proof cases
    case (a_issue r k)
    have "us_family_id r \<notin> us_family_id ` set (sessions d)"
      using i a_issue(4-6) assms(3) unfolding session_inv_def by (metis image_iff order_less_le_trans)
    moreover have "us_family_id r \<noteq> uuid4 env k'" if "m \<le> k'" "k' < N" for k'
      using fresh_uuidsD(1) [OF assms(1), of k k'] a_issue that assms(3) by simp
    ultimately have "session_inv env N m (sessions d @ [r])"
      using session_inv_add [OF i assms(1,3) a_issue(3)] by fastforce
    with a_issue show ?thesis by simp
  next
    case (a_rotate r r' t why j)
    then show ?thesis using session_inv_rotate [OF i assms(1,3)] by simp
  qed (use later i assms(2) in \<open>auto intro: session_inv_filter session_inv_revoke session_inv_later simp: insert_user_def cascade_delete_def Let_def\<close>)
qed

interpretation ses: bounded_invariant env N "fresh_uuids env N" "\<lambda>n d. session_inv env N n (sessions d)" for env N
  by unfold_locales (rule session_inv_step)

text \<open>A session whose token has been used stays rotated, and its identifier is never given to another session.\<close>

definition used_up :: "auth_env \<Rightarrow> nat \<Rightarrow> string \<Rightarrow> nat \<Rightarrow> user_session list \<Rightarrow> bool" where
  "used_up env N j n ss \<longleftrightarrow>
     (\<forall>k. n \<le> k \<and> k < N \<longrightarrow> uuid_str (uuid4 env k) \<noteq> j) \<and> (\<forall>q \<in> set ss. us_jti q = j \<longrightarrow> us_rotated_at q \<noteq> None)"

text \<open>A family all of whose sessions are revoked stays so, and its identifier is never drawn again.\<close>

definition dead_family :: "auth_env \<Rightarrow> nat \<Rightarrow> uuid \<Rightarrow> nat \<Rightarrow> user_session list \<Rightarrow> bool" where
  "dead_family env N f n ss \<longleftrightarrow>
     (\<forall>k. n \<le> k \<and> k < N \<longrightarrow> uuid4 env k \<noteq> f) \<and> (\<forall>q \<in> set ss. us_family_id q = f \<longrightarrow> \<not> live q)"

lemma used_up_step:
  assumes "m \<le> N" and "used_up env N j n (sessions d)" and s: "astep env (n, d) (m, e)"
  shows "used_up env N j m (sessions e)"
  using s assms(1,2) astep_mono [OF s]
  by cases (auto simp: used_up_def update_where_ball insert_user_def cascade_delete_def Let_def revoke_def fresh_session_def)

lemma dead_family_step:
  assumes "m \<le> N" and "dead_family env N f n (sessions d)" and s: "astep env (n, d) (m, e)"
  shows "dead_family env N f m (sessions e)"
  using s assms(1,2) astep_mono [OF s]
  by cases (auto simp: dead_family_def update_where_ball insert_user_def cascade_delete_def Let_def revoke_def)

interpretation used: bounded_invariant env N True "\<lambda>n d. used_up env N j n (sessions d)" for env N j
  by unfold_locales (rule used_up_step)

interpretation dead: bounded_invariant env N True "\<lambda>n d. dead_family env N f n (sessions d)" for env N f
  by unfold_locales (rule dead_family_step)

section \<open>Refreshing\<close>

lemma refresh_payload_Inr:
  assumes "refresh_payload env token w = (Inr payload, v)"
  shows "v = w\<lparr>ticks := Suc (ticks w)\<rparr> \<and> jwt_decode env (clock env (ticks w)) token = Inr payload \<and>
    get_field payload ''type'' = Some (JStr ''refresh'') \<and>
    json_truthy (get_or payload ''sub'' JNull) \<and> json_truthy (get_or payload ''jti'' JNull)"
  using assms by (auto simp: refresh_payload_def decode_jwt_def prim_simps ecatch_Inr split: if_splits)

lemma set_auth_cookies_db:
  "set_auth_cookies env a b c w = (r, v) \<Longrightarrow> committed v = committed w \<and> working v = working w \<and> draws v = draws w \<and> ticks v = ticks w"
  by (auto simp: set_auth_cookies_def set_cookie_def ebind_def Let_def emodify_def)

text \<open>A successful refresh: the stored session was live, it is now rotated, and one new session of its family was added.\<close>

lemma refresh_session_Inr:
  assumes "refresh_session env token rq w = (Inr x, v)"
  obtains payload r r' now where "jwt_decode env (clock env (ticks w)) token = Inr payload"
    and "find (\<lambda>r. JStr (us_jti r) = get_or payload ''jti'' JNull) (sessions (working w)) = Some r"
    and "live r" and "us_rotated_at r = None"
    and "committed v = (working w)\<lparr>sessions := update_where (\<lambda>q. us_id q = us_id r) (\<lambda>q. (revoke now ''rotated'' q)\<lparr>us_rotated_at := Some now,
         us_last_used_at := Some now, us_replaced_by_jti := Some (us_jti r')\<rparr>) (sessions (working w)) @ [r']\<rparr>"
    and "fresh_session env (draws w) (draws v) r'" and "us_family_id r' = us_family_id r" and "db_ok (committed v)"
    and "now = clock env (Suc (ticks w))"
proof -
  from assms obtain payload w1 where p: "refresh_payload env token w = (Inr payload, w1)"
      and rest: "ebind (session_by_jti (get_or payload ''jti'' JNull)) (\<lambda>found. ebind (utcnow env) (\<lambda>now.
        ebind (check_session_record env token (get_or payload ''sub'' JNull) now found) (\<lambda>r.
        ebind (refreshing_user r now) (rotate_tail env rq payload now r)))) w1 = (Inr x, v)"
    unfolding refresh_session_tail ebind_Inr by blast
  from refresh_payload_Inr [OF p] have w1: "w1 = w\<lparr>ticks := Suc (ticks w)\<rparr>" by simp
  from rest obtain r u w2 w3 where f: "check_session_record env token (get_or payload ''sub'' JNull) (clock env (Suc (ticks w)))
        (find (\<lambda>r. JStr (us_jti r) = get_or payload ''jti'' JNull) (sessions (working w))) (w\<lparr>ticks := ticks w + 2\<rparr>) = (Inr r, w2)"
      and u: "refreshing_user r (clock env (Suc (ticks w))) w2 = (Inr u, w3)"
      and t': "rotate_tail env rq payload (clock env (Suc (ticks w))) r u w3 = (Inr x, v)"
    unfolding w1 by (auto simp: session_by_jti_def prim_simps)
  from refreshing_user_Inr [OF u] t' have t: "rotate_tail env rq payload (clock env (Suc (ticks w))) r u w2 = (Inr x, v)" by simp
  from check_session_record_Inr [OF f] have w2: "w2 = w\<lparr>ticks := ticks w + 2\<rparr>" by simp
  obtain access refresh r' where c: "create_session_record env u rq (us_family_id r) (claimed_auth_time payload) (claimed_amr payload) w2 =
       (Inr (access, refresh, r'), w2\<lparr>ticks := ticks w2 + 3, draws := draws w2 + 3\<rparr>)"
      "us_family_id r' = us_family_id r" "us_jti r' = uuid_str (uuid4 env (draws w2 + 1))"
      "us_revoked_at r' = None" "us_rotated_at r' = None"
    using create_session_record_eval [of env u rq "us_family_id r" "claimed_auth_time payload" "claimed_amr payload" w2] by auto
  show ?thesis
  proof (rule that [where payload = payload and r = r and r' = r' and now = "clock env (Suc (ticks w))"])
    show "fresh_session env (draws w) (draws v) r'"
      using c(3-5) t c(1) w2
      by (auto simp: fresh_session_def rotate_tail_def create_csrf_token_def prim_simps add_session_def update_sessions_def
          dest!: set_auth_cookies_db split: if_splits intro: exI [of _ "draws w + 1"])
  qed (use refresh_payload_Inr [OF p] check_session_record_Inr [OF f] t c w2 in
      \<open>auto simp: rotate_tail_def create_csrf_token_def prim_simps add_session_def update_sessions_def
          dest!: set_auth_cookies_db split: if_splits\<close>)
qed

lemma refresh_result_Inr:
  assumes "fst (refresh_session env token rq w) = Inr x" and "jwt_decode env (clock env (ticks w)) token = Inr payload"
  shows "\<exists>q \<in> set (sessions (working w)). JStr (us_jti q) = get_or payload ''jti'' JNull \<and> us_rotated_at q = None \<and> live q"
proof -
  obtain v where "refresh_session env token rq w = (Inr x, v)" using assms(1) by (metis prod.collapse)
  then show ?thesis by (rule refresh_session_Inr) (use assms(2) in \<open>auto dest!: find_SomeD\<close>)
qed

lemma idle_end: "wsteps env w v \<Longrightarrow> idle w \<Longrightarrow> idle (end_request v)"
  using wsteps_db_ok by (auto simp: idle_def end_request_def)

lemma refresh_idle: "idle w \<Longrightarrow> refresh_session env token rq w = (y, v) \<Longrightarrow> wsteps env w v \<and> idle (end_request v)"
  using sim_refresh_session [of env token rq] idle_end unfolding run_def by (metis snd_conv)

text \<open>After a successful refresh the token that was sent is used up.\<close>

lemma refresh_uses_up:
  assumes "idle w" and "fresh_uuids env N" and "session_inv env N (draws w) (sessions (committed w))"
    and ok: "refresh_session env token rq w = (Inr x, v)" and "draws v \<le> N"
    and "jwt_decode env (clock env (ticks w)) token = Inr payload"
  shows "\<exists>j. get_or payload ''jti'' JNull = JStr j \<and> used_up env N j (draws v) (sessions (committed v))"
proof -
  from ok obtain r r' now where r: "find (\<lambda>r. JStr (us_jti r) = get_or payload ''jti'' JNull) (sessions (working w)) = Some r"
    and c: "committed v = (working w)\<lparr>sessions := update_where (\<lambda>q. us_id q = us_id r) (\<lambda>q. (revoke now ''rotated'' q)\<lparr>us_rotated_at := Some now,
         us_last_used_at := Some now, us_replaced_by_jti := Some (us_jti r')\<rparr>) (sessions (working w)) @ [r']\<rparr>"
    and f: "fresh_session env (draws w) (draws v) r'"
    by (rule refresh_session_Inr) (use assms(6) in auto)
  from r assms(1) have rs: "r \<in> set (sessions (committed w))" "get_or payload ''jti'' JNull = JStr (us_jti r)"
    by (auto dest!: find_SomeD simp: idle_def)
  have d: "distinct (map us_jti (sessions (committed w)))" using assms(1) by (simp add: idle_def db_ok_def unique_ok_def)
  have new: "uuid_str (uuid4 env k) \<noteq> us_jti r" if "draws w \<le> k" "k < N" for k
    using assms(3) rs that unfolding session_inv_def by metis
  from f obtain i where i: "draws w \<le> i" "i < draws v" "us_jti r' = uuid_str (uuid4 env i)" by (auto simp: fresh_session_def)
  have "us_jti r' \<noteq> us_jti r" using new [of i] i assms(5) by simp
  moreover have "q = r" if "q \<in> set (sessions (committed w))" "us_jti q = us_jti r" for q
    using same_key [OF d that(1) rs(1)] that(2) .
  ultimately have "\<forall>q \<in> set (sessions (committed v)). us_jti q = us_jti r \<longrightarrow> us_rotated_at q \<noteq> None"
    using assms(1) by (auto simp: c update_where_ball idle_def)
  with new i have "used_up env N (us_jti r) (draws v) (sessions (committed v))" by (auto simp: used_up_def)
  with rs(2) show ?thesis by auto
qed


lemma map_update_where: "(\<And>q. g (f q) = g q) \<Longrightarrow> map g (update_where p f xs) = map g xs"
  by (induction xs) (auto simp: update_where_def)

lemma list_all_update_where: "(\<And>q. P (f q) = P q) \<Longrightarrow> list_all P (update_where p f xs) = list_all P xs"
  by (induction xs) (auto simp: update_where_def)

text \<open>Changes of the session table that keep keys and owners satisfy the schema as before.\<close>

lemma db_ok_sessions:
  assumes "db_ok d" and "\<And>q. us_id (f q) = us_id q" and "\<And>q. us_jti (f q) = us_jti q" and "\<And>q. us_user_id (f q) = us_user_id q"
  shows "db_ok (d\<lparr>sessions := update_where p f (sessions d)\<rparr>)"
  using assms
  by (simp add: db_ok_def unique_ok_def references_ok_def checks_ok_def user_ids_def Let_def map_update_where list_all_update_where)

lemma db_ok_audit: "db_ok (d\<lparr>audit_logs := a\<rparr>) = db_ok d"
  by (simp add: db_ok_def unique_ok_def references_ok_def checks_ok_def user_ids_def Let_def)

lemma refresh_payload_ok:
  assumes "jwt_decode env (clock env (ticks w)) token = Inr payload" and "get_field payload ''type'' = Some (JStr ''refresh'')"
    and "json_truthy (get_or payload ''sub'' JNull)" and "json_truthy (get_or payload ''jti'' JNull)"
  shows "refresh_payload env token w = (Inr payload, w\<lparr>ticks := Suc (ticks w)\<rparr>)"
  using assms by (simp add: refresh_payload_def decode_jwt_def ebind_def ecatch_def prim_simps elift_def eensure_def eret_def)

text \<open>
  A refresh with a current token of a live session succeeds: the new session replaces the old one
  in one transaction, provided the two identifiers it draws are not in use.
\<close>

lemma create_session_record_exact:
  "\<exists>access refresh r. create_session_record env u rq fam at_time amr w =
       (Inr (access, refresh, r), w\<lparr>ticks := ticks w + 3, draws := draws w + 3\<rparr>) \<and>
     us_user_id r = u_id u \<and> us_family_id r = fam \<and> us_jti r = uuid_str (uuid4 env (draws w + 1)) \<and>
     us_id r = uuid4 env (draws w + 2)"
  by (auto simp: create_session_record_def create_jwt_def Let_def ebind_def prim_simps eret_def numeral_3_eq_3 numeral_2_eq_2)

lemma db_ok_add_session:
  assumes "db_ok d" and "us_user_id r \<in> set (user_ids d)"
    and "us_id r \<notin> us_id ` set (sessions d)" and "us_jti r \<notin> us_jti ` set (sessions d)"
  shows "db_ok (d\<lparr>sessions := sessions d @ [r]\<rparr>)"
  using assms by (simp add: db_ok_def unique_ok_def references_ok_def checks_ok_def user_ids_def Let_def)

lemma update_where_image: "(\<And>q. g (f q) = g q) \<Longrightarrow> g ` set (update_where p f xs) = g ` set xs"
  by (induction xs) (auto simp: update_where_def)

lemma rotate_tail_succeeds:
  assumes "db_ok (working w)" and "u \<in> set (users (working w))"
    and "uuid4 env (draws w + 2) \<notin> us_id ` set (sessions (working w))"
    and "uuid_str (uuid4 env (draws w + 1)) \<notin> us_jti ` set (sessions (working w))"
  shows "\<exists>csrf v. rotate_tail env rq payload now r u w = (Inr (u, csrf), v) \<and> draws v = draws w + 4"
proof -
  obtain access refresh r' where c: "create_session_record env u rq (us_family_id r) (claimed_auth_time payload) (claimed_amr payload) w =
       (Inr (access, refresh, r'), w\<lparr>ticks := ticks w + 3, draws := draws w + 3\<rparr>)"
      "us_user_id r' = u_id u" "us_jti r' = uuid_str (uuid4 env (draws w + 1))" "us_id r' = uuid4 env (draws w + 2)"
    using create_session_record_exact [of env u rq "us_family_id r" "claimed_auth_time payload" "claimed_amr payload" w] by auto
  let ?d = "(working w)\<lparr>sessions := update_where (\<lambda>q. us_id q = us_id r) (\<lambda>q. (revoke now ''rotated'' q)\<lparr>us_rotated_at := Some now,
         us_last_used_at := Some now, us_replaced_by_jti := Some (us_jti r')\<rparr>) (sessions (working w))\<rparr>"
  have "db_ok ?d" by (rule db_ok_sessions [OF assms(1)]) (simp_all add: revoke_def)
  then have "db_ok (?d\<lparr>sessions := sessions ?d @ [r']\<rparr>)"
    by (rule db_ok_add_session) (use assms c in \<open>auto simp: user_ids_def update_where_image revoke_def\<close>)
  then show ?thesis
    using c(1) by (simp add: rotate_tail_def ebind_def prim_simps add_session_def update_sessions_def create_csrf_token_def
        set_auth_cookies_def set_cookie_def Let_def emodify_def eret_def)
qed

lemma check_session_record_ok:
  assumes "us_token_hash r = hash_token env token" and "JStr (uuid_str (us_user_id r)) = subject" and "us_rotated_at r = None"
    and "live r" and "now < us_expires_at r"
  shows "check_session_record env token subject now (Some r) w = (Inr r, w)"
  using assms by (simp add: check_session_record_def ebind_def eensure_def eret_def)

lemma refreshing_user_ok:
  assumes "uuid_parse (uuid_str (us_user_id r)) = Some i" and "find (\<lambda>u. u_id u = i) (users (working w)) = Some u" and "u_is_active u"
  shows "refreshing_user r now w = (Inr u, w)"
  using assms by (simp add: refreshing_user_def get_user_by_id_def user_row_def ensure_user_can_authenticate_def
      ebind_def prim_simps ecatch_def eret_def)

definition refreshable :: "auth_env \<Rightarrow> string \<Rightarrow> world \<Rightarrow> json \<Rightarrow> user_session \<Rightarrow> user \<Rightarrow> bool" where
  "refreshable env token w payload r u \<longleftrightarrow>
     jwt_decode env (clock env (ticks w)) token = Inr payload \<and> get_field payload ''type'' = Some (JStr ''refresh'') \<and>
     json_truthy (get_or payload ''sub'' JNull) \<and> json_truthy (get_or payload ''jti'' JNull) \<and>
     find (\<lambda>r. JStr (us_jti r) = get_or payload ''jti'' JNull) (sessions (working w)) = Some r \<and>
     us_token_hash r = hash_token env token \<and> JStr (uuid_str (us_user_id r)) = get_or payload ''sub'' JNull \<and>
     us_rotated_at r = None \<and> us_revoked_at r = None \<and> clock env (Suc (ticks w)) < us_expires_at r \<and>
     uuid_parse (uuid_str (us_user_id r)) = Some (u_id u) \<and>
     find (\<lambda>q. u_id q = u_id u) (users (working w)) = Some u \<and> u_is_active u"

lemma refreshable_succeeds:
  assumes "db_ok (working w)" and "refreshable env token w payload r u"
    and "uuid4 env (draws w + 2) \<notin> us_id ` set (sessions (working w))"
    and "uuid_str (uuid4 env (draws w + 1)) \<notin> us_jti ` set (sessions (working w))"
  shows "\<exists>csrf v. refresh_session env token rq w = (Inr (u, csrf), v) \<and> draws v = draws w + 4"
proof -
  note a = assms(2) [unfolded refreshable_def]
  let ?w = "w\<lparr>ticks := Suc (Suc (ticks w))\<rparr>"
  have "u \<in> set (users (working ?w))" using a find_user [of "u_id u" "users (working w)" u] by simp
  then have "\<exists>csrf v. rotate_tail env rq payload (clock env (Suc (ticks w))) r u ?w = (Inr (u, csrf), v) \<and> draws v = draws ?w + 4"
    by (intro rotate_tail_succeeds) (use assms in simp_all)
  then obtain csrf v where
    "rotate_tail env rq payload (clock env (Suc (ticks w))) r u ?w = (Inr (u, csrf), v)" "draws v = draws w + 4" by auto
  then show ?thesis
    using a unfolding refresh_session_tail
    by (simp add: refresh_payload_ok [of env w token payload] ebind_def session_by_jti_def prim_simps check_session_record_ok refreshing_user_ok)
qed

section \<open>The sample instance\<close>

lemma all_less_code: "(\<forall>k < N. P k) \<longleftrightarrow> list_all P [0..<N]"
  by (auto simp: list_all_iff)

lemma inj_less_code: "inj_on f {..<N} \<longleftrightarrow> distinct (map f [0..<N])"
  by (simp add: distinct_map atLeast0LessThan)

lemma sample_fresh_uuids: "fresh_uuids sample_env 16"
  unfolding fresh_uuids_def inj_less_code all_less_code by code_simp

lemma sample_fresh_tokens: "fresh_tokens sample_env 16"
  unfolding fresh_tokens_def inj_less_code by code_simp

lemma sample_idle: "idle (world_of sample_db)"
  by code_simp

lemma between_code: "(\<forall>k. n \<le> k \<and> k < N \<longrightarrow> P k) \<longleftrightarrow> list_all P [n..<N]"
  by (auto simp: list_all_iff)

lemma sample_session_inv: "session_inv sample_env 16 (draws (world_of sample_db)) (sessions (committed (world_of sample_db)))"
  unfolding session_inv_def between_code by code_simp

section \<open>Properties\<close>



text \<open>C6. Whatever requests are served, in whatever order, every family of refresh sessions has at most one
  session that is not revoked.\<close>

theorem one_live_session_per_family:
  assumes "idle w" and "fresh_uuids env N" and "session_inv env N (draws w) (sessions (committed w))"
    and "draws (serve_all env rs w) \<le> N"
  shows "distinct (map us_family_id (filter (\<lambda>r. us_revoked_at r = None) (sessions (committed (serve_all env rs w)))))"
  using ses.kept [OF assms(2,1,3,4)] by (simp add: session_inv_def)




theorem one_live_session_per_family_witness:
  "sessions (committed (serve_all sample_env [(sample_request, Verify_email ''x'')] (world_of sample_db))) \<noteq> [] \<and>
   distinct (map us_family_id (filter (\<lambda>r. us_revoked_at r = None)
     (sessions (committed (serve_all sample_env [(sample_request, Verify_email ''x'')] (world_of sample_db))))))"
proof (rule conjI)
  show "sessions (committed (serve_all sample_env [(sample_request, Verify_email ''x'')] (world_of sample_db))) \<noteq> []"
    by code_simp
  show "distinct (map us_family_id (filter (\<lambda>r. us_revoked_at r = None)
     (sessions (committed (serve_all sample_env [(sample_request, Verify_email ''x'')] (world_of sample_db))))))"
    by (rule one_live_session_per_family [OF sample_idle sample_fresh_uuids sample_session_inv]) code_simp
qed

text \<open>C35. A refresh with a current token of a live session of an active user succeeds: the session is rotated,
  one new session of its family is added, and nothing else of the database changes.\<close>

theorem refresh_rotates_session:
  assumes "idle w" and "refreshable env token w payload r u"
    and "uuid4 env (draws w + 2) \<notin> us_id ` set (sessions (working w))"
    and "uuid_str (uuid4 env (draws w + 1)) \<notin> us_jti ` set (sessions (working w))"
  shows "\<exists>csrf v r' now. refresh_session env token rq w = (Inr (u, csrf), v) \<and> us_family_id r' = us_family_id r \<and>
    us_revoked_at r' = None \<and> committed v = (committed w)\<lparr>sessions :=
      update_where (\<lambda>q. us_id q = us_id r) (\<lambda>q. (revoke now ''rotated'' q)\<lparr>us_rotated_at := Some now,
         us_last_used_at := Some now, us_replaced_by_jti := Some (us_jti r')\<rparr>) (sessions (committed w)) @ [r']\<rparr>"
proof -
  from assms(1) have w: "db_ok (working w)" "working w = committed w" by (auto simp: idle_def)
  from refreshable_succeeds [OF w(1) assms(2-4)] obtain csrf v where
    ok: "refresh_session env token rq w = (Inr (u, csrf), v)" by blast
  then show ?thesis
    by (rule refresh_session_Inr) (use assms(2) w(2) ok in \<open>auto simp: refreshable_def fresh_session_def\<close>)
qed

lemma sample_refreshable: "refreshable sample_env ''jwt'' (world_of sample_db) sample_claims sample_session sample_user"
proof -
  have "jwt_decode sample_env t s = Inr sample_claims" for t s by (simp add: sample_env_def)
  moreover have "find (\<lambda>r. JStr (us_jti r) = get_or sample_claims ''jti'' JNull) (sessions (working (world_of sample_db))) = Some sample_session"
    "uuid_parse (uuid_str (us_user_id sample_session)) = Some (u_id sample_user)"
    "find (\<lambda>q. u_id q = u_id sample_user) (users (working (world_of sample_db))) = Some sample_user"
    "us_token_hash sample_session = hash_token sample_env ''jwt''"
    "JStr (uuid_str (us_user_id sample_session)) = get_or sample_claims ''sub'' JNull" by code_simp+
  ultimately show ?thesis unfolding refreshable_def by (simp del: find.simps) code_simp
qed

theorem refresh_rotates_session_witness:
  "\<exists>csrf v. refresh_session sample_env ''jwt'' sample_request (world_of sample_db) = (Inr (sample_user, csrf), v)"
proof -
  have "uuid4 sample_env (draws (world_of sample_db) + 2) \<notin> us_id ` set (sessions (working (world_of sample_db)))"
    "uuid_str (uuid4 sample_env (draws (world_of sample_db) + 1)) \<notin> us_jti ` set (sessions (working (world_of sample_db)))"
    by code_simp+
  from refresh_rotates_session [OF sample_idle sample_refreshable this, of sample_request] show ?thesis by blast
qed


lemma wsteps_draws: "wsteps env w v \<Longrightarrow> draws w \<le> draws v"
proof (induction rule: rtranclp_induct)
  case (step y z)
  from step.hyps(2) have "draws y \<le> draws z" by cases (auto dest: astep_mono)
  with step.IH show ?case by simp
qed simp

lemma serve_all_draws: "idle w \<Longrightarrow> draws w \<le> draws (serve_all env rs w)"
  using serve_all_steps wsteps_draws by blast

text \<open>C11. A refresh token is good for one refresh: after it succeeded, no later refresh with the same token
  succeeds, whatever requests are served in between (provided the token decodes to the same claims whenever it decodes).\<close>

theorem refresh_token_single_use:
  assumes "idle w" and "fresh_uuids env N" and "session_inv env N (draws w) (sessions (committed w))"
    and same: "\<And>t p. jwt_decode env t token = Inr p \<Longrightarrow> p = payload"
    and ok: "refresh_session env token rq w = (Inr x, v)"
    and N: "draws (serve_all env rs (end_request v)) \<le> N"
  shows "fst (refresh_session env token rq' (serve_all env rs (end_request v))) \<noteq> Inr y"
proof
  let ?e = "end_request v"
  let ?w = "serve_all env rs ?e"
  assume y: "fst (refresh_session env token rq' ?w) = Inr y"
  have i: "idle ?e" using refresh_idle [OF assms(1) ok] by simp
  have dv: "draws v \<le> N" using serve_all_draws [OF i, of env rs] N by (simp add: end_request_def)
  from ok obtain p where "jwt_decode env (clock env (ticks w)) token = Inr p" by (rule refresh_session_Inr)
  with same have "jwt_decode env (clock env (ticks w)) token = Inr payload" by blast
  from refresh_uses_up [OF assms(1-3) ok dv this] obtain j where
    j: "get_or payload ''jti'' JNull = JStr j" "used_up env N j (draws v) (sessions (committed v))" by blast
  have u: "used_up env N j (draws ?w) (sessions (committed ?w))"
    by (rule used.kept [OF _ i]) (use j N in \<open>simp_all add: end_request_def\<close>)
  obtain v' where y': "refresh_session env token rq' ?w = (Inr y, v')" using y by (metis prod.collapse)
  then obtain p' where "jwt_decode env (clock env (ticks ?w)) token = Inr p'" by (rule refresh_session_Inr)
  with same have "jwt_decode env (clock env (ticks ?w)) token = Inr payload" by blast
  from refresh_result_Inr [OF y this] u j(1) serve_all_steps [OF i, of env rs] show False by (auto simp: used_up_def idle_def)
qed

theorem refresh_token_single_use_witness:
  "\<exists>x v. refresh_session sample_env ''jwt'' sample_request (world_of sample_db) = (Inr x, v) \<and>
     (\<forall>y. fst (refresh_session sample_env ''jwt'' sample_request (end_request v)) \<noteq> Inr y)"
proof -
  have "uuid4 sample_env (draws (world_of sample_db) + 2) \<notin> us_id ` set (sessions (working (world_of sample_db)))"
    "uuid_str (uuid4 sample_env (draws (world_of sample_db) + 1)) \<notin> us_jti ` set (sessions (working (world_of sample_db)))"
    by code_simp+
  from refreshable_succeeds [OF _ sample_refreshable this, of sample_request] sample_idle
  obtain csrf v where v: "refresh_session sample_env ''jwt'' sample_request (world_of sample_db) = (Inr (sample_user, csrf), v)"
    "draws v = 4" by (auto simp: idle_def world_of_def)
  have "fst (refresh_session sample_env ''jwt'' sample_request (serve_all sample_env [] (end_request v))) \<noteq> Inr y" for y
    by (rule refresh_token_single_use [OF sample_idle sample_fresh_uuids sample_session_inv _ v(1), of sample_claims])
      (use v in \<open>auto simp: sample_env_def end_request_def\<close>)
  with v show ?thesis by auto
qed

text \<open>C5. A refresh with a token that was already rotated, after the grace period, answers
  REFRESH\_TOKEN\_REUSE\_DETECTED and revokes the session's whole family: no session of the family is ever live again,
  whatever requests follow.\<close>

theorem refresh_reuse_revokes_family:
  assumes "idle w" and "session_inv env N (draws w) (sessions (committed w))"
    and "jwt_decode env (clock env (ticks w)) token = Inr payload" and "get_field payload ''type'' = Some (JStr ''refresh'')"
    and "json_truthy (get_or payload ''sub'' JNull)" and "json_truthy (get_or payload ''jti'' JNull)"
    and found: "find (\<lambda>r. JStr (us_jti r) = get_or payload ''jti'' JNull) (sessions (committed w)) = Some r"
    and "us_token_hash r = hash_token env token" and "JStr (uuid_str (us_user_id r)) = get_or payload ''sub'' JNull"
    and "us_rotated_at r = Some t" and "microseconds (refresh_token_reuse_grace_seconds (conf env)) < clock env (Suc (ticks w)) - t"
    and v: "refresh_session env token rq w = (y, v)"
    and N: "draws (serve_all env rs (end_request v)) \<le> N"
  shows "y = Inl (http_error 401 ''REFRESH_TOKEN_REUSE_DETECTED'') \<and>
    (\<forall>q \<in> set (sessions (committed (serve_all env rs (end_request v)))). us_family_id q = us_family_id r \<longrightarrow> us_revoked_at q \<noteq> None)"
proof -
  let ?w = "serve_all env rs (end_request v)"
  let ?now = "clock env (Suc (ticks w))"
  let ?d = "(committed w)\<lparr>sessions := update_where (\<lambda>q. us_family_id q = us_family_id r \<and> us_revoked_at q = None)
      (revoke ?now ''refresh_token_reuse'') (sessions (committed w))\<rparr>"
  have ok: "db_ok ?d" using assms(1) by (intro db_ok_sessions) (simp_all add: idle_def revoke_def)
  have f: "find (\<lambda>r. JStr (us_jti r) = get_or payload ''jti'' JNull) (sessions (working w)) = Some r"
    using found assms(1) by (simp add: idle_def)
  have 1: "y = Inl (http_error 401 ''REFRESH_TOKEN_REUSE_DETECTED'')" "sessions (committed v) = sessions ?d" "draws v = draws w"
    using v ok assms(1,3-6,8-11) f unfolding refresh_session_def
    by (auto simp: refresh_payload_ok [of env w token payload] ebind_def session_by_jti_def prim_simps check_session_record_def
        eensure_def eraise_def revoke_token_family_def update_sessions_def add_audit_def idle_def db_ok_audit)
  have i: "idle (end_request v)" using refresh_idle [OF assms(1) v] by simp
  from found have "r \<in> set (sessions (committed w))" by (auto dest!: find_SomeD)
  with assms(2) have "\<forall>k. draws w \<le> k \<and> k < N \<longrightarrow> uuid4 env k \<noteq> us_family_id r" unfolding session_inv_def by metis
  with 1 have "dead_family env N (us_family_id r) (draws (end_request v)) (sessions (committed (end_request v)))"
    by (auto simp: dead_family_def end_request_def update_where_ball revoke_def)
  from dead.kept [OF TrueI i this N] 1(1) show ?thesis by (simp add: dead_family_def)
qed

definition reused_db :: db where
  "reused_db = sample_db\<lparr>sessions := [revoke 1000000 ''rotated'' sample_session\<lparr>us_rotated_at := Some 1000000\<rparr>,
     sample_session\<lparr>us_id := replicate 32 CHR ''c'', us_jti := ''new''\<rparr>]\<rparr>"

lemma sample_uuid_hd: "hd (uuid_str (sample_uuid k)) = CHR ''0''" "hd (sample_uuid k) = CHR ''0''"
  by (simp_all add: uuid_str_def sample_uuid_def hd_append)

lemma sample_uuid_other: "hd s \<noteq> CHR ''0'' \<Longrightarrow> s \<noteq> uuid_str (sample_uuid k) \<and> s \<noteq> sample_uuid k"
  using sample_uuid_hd by metis

lemma reused_session_inv: "session_inv sample_env N n (sessions (committed (world_of reused_db)))"
proof -
  have "list_all (\<lambda>r. hd (us_jti r) \<noteq> CHR ''0'' \<and> hd (us_family_id r) \<noteq> CHR ''0'') (sessions (committed (world_of reused_db)))"
    "list_all (\<lambda>r. us_rotated_at r \<noteq> None \<longrightarrow> us_revoked_at r \<noteq> None) (sessions (committed (world_of reused_db)))"
    "distinct (map us_family_id (filter live (sessions (committed (world_of reused_db)))))" by code_simp+
  moreover have "uuid4 sample_env = sample_uuid" by (simp add: sample_env_def)
  ultimately show ?thesis unfolding session_inv_def list_all_iff using sample_uuid_other by metis
qed

theorem refresh_reuse_revokes_family_witness:
  "\<exists>v. refresh_session sample_env ''jwt'' sample_request (world_of reused_db) = (Inl (http_error 401 ''REFRESH_TOKEN_REUSE_DETECTED''), v) \<and>
     (\<forall>q \<in> set (sessions (committed (serve_all sample_env [] (end_request v)))). us_family_id q = family_uuid \<longrightarrow> us_revoked_at q \<noteq> None)"
proof -
  let ?r = "revoke 1000000 ''rotated'' sample_session\<lparr>us_rotated_at := Some 1000000\<rparr>"
  obtain y v where v: "refresh_session sample_env ''jwt'' sample_request (world_of reused_db) = (y, v)" by fastforce
  have i: "idle (world_of reused_db)" by code_simp
  have s: "session_inv sample_env (draws v) (draws (world_of reused_db)) (sessions (committed (world_of reused_db)))"
    by (rule reused_session_inv)
  have dec: "jwt_decode sample_env t s = Inr sample_claims" for t s by (simp add: sample_env_def)
  have f: "find (\<lambda>r. JStr (us_jti r) = get_or sample_claims ''jti'' JNull) (sessions (committed (world_of reused_db))) = Some ?r"
    by code_simp
  have c: "get_field sample_claims ''type'' = Some (JStr ''refresh'')" "json_truthy (get_or sample_claims ''sub'' JNull)"
    "json_truthy (get_or sample_claims ''jti'' JNull)" "us_token_hash ?r = hash_token sample_env ''jwt''"
    "JStr (uuid_str (us_user_id ?r)) = get_or sample_claims ''sub'' JNull"
    "microseconds (refresh_token_reuse_grace_seconds (conf sample_env)) < clock sample_env (Suc (ticks (world_of reused_db))) - 1000000"
    by code_simp+
  have "us_rotated_at ?r = Some 1000000" "us_family_id ?r = family_uuid" by (simp_all add: revoke_def sample_session_def)
  with refresh_reuse_revokes_family [OF i s dec c(1-3) f c(4,5) _ c(6) v, of "[]"] v show ?thesis by (auto simp: end_request_def)
qed

end
