(* ===== verification/Limit_Props.thy ===== *)
theory Limit_Props
  imports Auth_Props
begin

text \<open>
  The rate limiter in memory: the dictionary stays within its bound, and as long as it does not
  overflow every check of a key within one window is counted.
\<close>

definition windows_ok :: "nat \<Rightarrow> (string \<times> memory_window) list \<Rightarrow> bool" where
  "windows_ok max_keys ws \<longleftrightarrow> distinct (map fst ws) \<and> length ws \<le> max_keys"

text \<open>A sequence of checks: when, which key, which window; the counts in order.\<close>

fun checks :: "nat \<Rightarrow> (int \<times> string \<times> int) list \<Rightarrow> (string \<times> memory_window) list \<Rightarrow> (string \<times> memory_window) list \<times> (string \<times> nat) list" where
  "checks max_keys [] ws = (ws, [])"
| "checks max_keys ((now, key, window) # es) ws =
     (let (ws', n, _) = memory_check max_keys now key window ws; (ws'', ns) = checks max_keys es ws' in (ws'', (key, n) # ns))"

abbreviation counts_of :: "string \<Rightarrow> (string \<times> nat) list \<Rightarrow> nat list" where
  "counts_of k ns \<equiv> map snd (filter (\<lambda>n. fst n = k) ns)"

abbreviation hits :: "string \<Rightarrow> (int \<times> string \<times> int) list \<Rightarrow> nat" where
  "hits k es \<equiv> length (filter (\<lambda>e. fst (snd e) = k) es)"

lemma map_of_filter_value:
  "distinct (map fst ws) \<Longrightarrow> map_of (filter (\<lambda>(n, v). p v) ws) k = (case map_of ws k of None \<Rightarrow> None | Some v \<Rightarrow> if p v then Some v else None)"
proof (induction ws)
  case (Cons nv ws)
  then show ?case by (cases nv) (auto split: option.splits simp: map_of_eq_None_iff image_iff dest: map_of_SomeD)
qed simp

lemma map_of_filter_key: "k \<noteq> key \<Longrightarrow> map_of (filter (\<lambda>(n, v). n \<noteq> key) ws) k = map_of ws k"
  by (induction ws) auto

lemma distinct_filter_fst: "distinct (map fst ws) \<Longrightarrow> distinct (map fst (filter p ws))"
  by (rule distinct_map_filter)

definition window_after :: "int \<Rightarrow> int \<Rightarrow> memory_window option \<Rightarrow> memory_window" where
  "window_after now window found =
     (let current = (case found of None \<Rightarrow> \<lparr>mw_count = 0, mw_expires_at = now + microseconds window\<rparr>
          | Some v \<Rightarrow> if mw_expires_at v \<le> now then \<lparr>mw_count = 0, mw_expires_at = now + microseconds window\<rparr> else v)
      in current\<lparr>mw_count := mw_count current + 1\<rparr>)"

text \<open>The dictionary before the eviction of its oldest keys.\<close>

definition moved_windows :: "int \<Rightarrow> string \<Rightarrow> int \<Rightarrow> (string \<times> memory_window) list \<Rightarrow> (string \<times> memory_window) list" where
  "moved_windows now key window ws =
     filter (\<lambda>(name, v). name \<noteq> key) (filter (\<lambda>(name, v). \<not> mw_expires_at v \<le> now) ws) @ [(key, window_after now window (map_of ws key))]"

lemma memory_check_eq:
  assumes "distinct (map fst ws)"
  shows "\<exists>r. memory_check max_keys now key window ws =
    (drop (length (moved_windows now key window ws) - max_keys) (moved_windows now key window ws),
     mw_count (window_after now window (map_of ws key)), r)"
proof -
  have "(case map_of (filter (\<lambda>(name, v). \<not> mw_expires_at v \<le> now) ws) key of
      None \<Rightarrow> \<lparr>mw_count = 0, mw_expires_at = now + microseconds window\<rparr> | Some v \<Rightarrow> v) =
    (case map_of ws key of None \<Rightarrow> \<lparr>mw_count = 0, mw_expires_at = now + microseconds window\<rparr>
      | Some v \<Rightarrow> if mw_expires_at v \<le> now then \<lparr>mw_count = 0, mw_expires_at = now + microseconds window\<rparr> else v)"
    using map_of_filter_value [OF assms, of "\<lambda>v. \<not> mw_expires_at v \<le> now"] by (auto split: option.splits)
  then show ?thesis by (simp add: memory_check_def moved_windows_def window_after_def Let_def)
qed

lemma moved_distinct: "distinct (map fst ws) \<Longrightarrow> distinct (map fst (moved_windows now key window ws))"
  by (auto simp: moved_windows_def distinct_filter_fst)

lemma memory_check_windows_ok: "distinct (map fst ws) \<Longrightarrow> windows_ok max_keys (fst (memory_check max_keys now key window ws))"
proof -
  assume d: "distinct (map fst ws)"
  obtain r where "fst (memory_check max_keys now key window ws) = drop (length (moved_windows now key window ws) - max_keys) (moved_windows now key window ws)"
    using memory_check_eq [OF d, of max_keys now key window] by auto
  then show ?thesis using moved_distinct [OF d] by (simp add: windows_ok_def distinct_drop flip: drop_map)
qed

text \<open>While at most \<open>max_keys\<close> keys are in use nothing is evicted.\<close>

lemma memory_check_no_eviction:
  assumes "distinct (map fst ws)" and "fst ` set ws \<subseteq> K" and "key \<in> K" and "finite K" and "card K \<le> max_keys"
  shows "\<exists>r. memory_check max_keys now key window ws = (moved_windows now key window ws, mw_count (window_after now window (map_of ws key)), r)"
    and "fst ` set (moved_windows now key window ws) \<subseteq> K"
proof -
  show k: "fst ` set (moved_windows now key window ws) \<subseteq> K" using assms(2,3) by (auto simp: moved_windows_def)
  have "length (moved_windows now key window ws) = card (fst ` set (moved_windows now key window ws))"
    using moved_distinct [OF assms(1)] by (metis distinct_card length_map set_map)
  with card_mono [OF assms(4) k] assms(5)
  show "\<exists>r. memory_check max_keys now key window ws = (moved_windows now key window ws, mw_count (window_after now window (map_of ws key)), r)"
    using memory_check_eq [OF assms(1), of max_keys now key window] by simp
qed

lemma moved_lookup:
  assumes "distinct (map fst ws)" and "map_of ws k = Some v" and "now < mw_expires_at v"
  shows "map_of (moved_windows now key window ws) k = Some (if k = key then v\<lparr>mw_count := mw_count v + 1\<rparr> else v)"
proof (cases "k = key")
  case True
  have "map_of (filter (\<lambda>(name, v). name \<noteq> key) xs @ [(key, y)]) key = Some y" for xs :: "(string \<times> memory_window) list" and y
    by (induction xs) auto
  with True assms show ?thesis unfolding moved_windows_def by (simp add: window_after_def del: filter_filter map_of_append)
next
  case False
  with assms show ?thesis
    using map_of_filter_value [OF assms(1), of "\<lambda>v. \<not> mw_expires_at v \<le> now" k]
    by (simp add: moved_windows_def map_of_filter_key map_add_def del: filter_filter)
qed

lemma counts_within_window:
  assumes "windows_ok max_keys ws" and "map_of ws k = Some v" and "\<forall>(now, _, _) \<in> set es. now < mw_expires_at v"
    and "fst ` set ws \<subseteq> K" and "(\<lambda>(_, key, _). key) ` set es \<subseteq> K" and "finite K" and "card K \<le> max_keys"
  shows "counts_of k (snd (checks max_keys es ws)) = [Suc (mw_count v)..<Suc (mw_count v + hits k es)]"
  using assms(1-5)
proof (induction es arbitrary: ws v)
  case (Cons e es)
  obtain now key window where e: "e = (now, key, window)" by (cases e)
  from Cons.prems have d: "distinct (map fst ws)" by (simp add: windows_ok_def)
  have "key \<in> K" using Cons.prems(5) e by auto
  note kept = memory_check_no_eviction [OF d Cons.prems(4) this assms(6,7), of now window]
  from kept(1) obtain r where
    m: "memory_check max_keys now key window ws = (moved_windows now key window ws, mw_count (window_after now window (map_of ws key)), r)" ..
  note sub = kept(2)
  let ?v = "if k = key then v\<lparr>mw_count := mw_count v + 1\<rparr> else v"
  have now: "now < mw_expires_at v" using Cons.prems(3) e by simp
  have "windows_ok max_keys (moved_windows now key window ws)" using memory_check_windows_ok [OF d, of max_keys now key window] m by simp
  from Cons.IH [OF this moved_lookup [OF d Cons.prems(2) now] _ sub] Cons.prems(3,5) e
  have IH: "counts_of k (snd (checks max_keys es (moved_windows now key window ws))) =
    [Suc (mw_count ?v)..<Suc (mw_count ?v + hits k es)]" by simp
  show ?case
  proof (cases "k = key")
    case True
    have "[Suc (mw_count v)..<Suc (mw_count v + Suc (hits k es))] = Suc (mw_count v) # [Suc (Suc (mw_count v))..<Suc (Suc (mw_count v) + hits k es)]"
      by (subst upt_conv_Cons) simp_all
    with IH True Cons.prems(2) now show ?thesis by (simp add: e m Let_def case_prod_beta window_after_def del: upt_Suc)
  next
    case False
    with IH show ?thesis by (simp add: e m Let_def case_prod_beta del: upt_Suc)
  qed
qed simp


lemma moved_fresh:
  assumes "distinct (map fst ws)" and "\<And>v. map_of ws k = Some v \<Longrightarrow> mw_expires_at v \<le> now"
  shows "map_of (moved_windows now k window ws) k = Some \<lparr>mw_count = 1, mw_expires_at = now + microseconds window\<rparr>"
proof -
  have "map_of (filter (\<lambda>(name, v). name \<noteq> k) xs @ [(k, y)]) k = Some y" for xs :: "(string \<times> memory_window) list" and y
    by (induction xs) auto
  with assms(2) show ?thesis
    unfolding moved_windows_def by (simp add: window_after_def Let_def del: filter_filter map_of_append split: option.splits)
qed

section \<open>Properties\<close>

text \<open>The limiter's dictionary never holds a key twice and never more than
  \<open>rate_limit_memory_max_keys\<close> keys, however many clients are checked.\<close>

theorem limiter_memory_bounded:
  assumes "windows_ok max_keys ws"
  shows "windows_ok max_keys (fst (checks max_keys es ws))"
  using assms
proof (induction es arbitrary: ws)
  case (Cons e es)
  obtain now key window where e: "e = (now, key, window)" by (cases e)
  from Cons.prems have "windows_ok max_keys (fst (memory_check max_keys now key window ws))"
    by (intro memory_check_windows_ok) (simp add: windows_ok_def)
  from Cons.IH [OF this] show ?case by (simp add: e Let_def case_prod_beta)
qed simp

theorem limiter_memory_bounded_witness:
  "windows_ok 2 (fst (checks 2 [(0, ''a'', 60), (1, ''b'', 60), (2, ''c'', 60)] [])) \<and>
   map fst (fst (checks 2 [(0, ''a'', 60), (1, ''b'', 60), (2, ''c'', 60)] [])) = [''b'', ''c'']"
proof -
  have "windows_ok 2 []" by (simp add: windows_ok_def)
  from limiter_memory_bounded [OF this] show ?thesis by code_simp
qed

text \<open>While no more keys are in use than the limiter can hold, all checks of a key until its window
  closes are counted one by one, so at most \<open>limit\<close> of them pass; checks of other keys, in any order, change nothing.\<close>

theorem limiter_counts_every_check:
  assumes "windows_ok max_keys ws" and "\<And>v. map_of ws k = Some v \<Longrightarrow> mw_expires_at v \<le> t0"
    and "\<forall>(now, _, _) \<in> set es. now < t0 + microseconds window"
    and K: "fst ` set ws \<subseteq> K" "k \<in> K" "(\<lambda>(_, key, _). key) ` set es \<subseteq> K" "finite K" "card K \<le> max_keys"
  shows "counts_of k (snd (checks max_keys ((t0, k, window) # es) ws)) = [1..<2 + hits k es] \<and>
    length (filter (\<lambda>n. \<not> limit < int n) (counts_of k (snd (checks max_keys ((t0, k, window) # es) ws)))) \<le> nat limit"
proof -
  have d: "distinct (map fst ws)" using assms(1) by (simp add: windows_ok_def)
  note kept = memory_check_no_eviction [OF d K(1,2,4,5), of t0 window]
  from kept(1) obtain r where
    m: "memory_check max_keys t0 k window ws = (moved_windows t0 k window ws, mw_count (window_after t0 window (map_of ws k)), r)" ..
  have f: "map_of (moved_windows t0 k window ws) k = Some \<lparr>mw_count = 1, mw_expires_at = t0 + microseconds window\<rparr>"
    by (rule moved_fresh [OF d assms(2)])
  have n: "mw_count (window_after t0 window (map_of ws k)) = 1"
    using assms(2) by (simp add: window_after_def Let_def split: option.splits)
  have "windows_ok max_keys (moved_windows t0 k window ws)" using memory_check_windows_ok [OF d, of max_keys t0 k window] m by simp
  from counts_within_window [OF this f _ kept(2) K(3-5)] assms(3)
  have c: "counts_of k (snd (checks max_keys es (moved_windows t0 k window ws))) = [2..<2 + hits k es]" by (simp add: numeral_2_eq_2)
  have "[1..<2 + hits k es] = 1 # [2..<2 + hits k es]" by (subst upt_conv_Cons) (simp_all add: numeral_2_eq_2)
  with c have 1: "counts_of k (snd (checks max_keys ((t0, k, window) # es) ws)) = [1..<2 + hits k es]"
    by (simp add: m n Let_def case_prod_beta del: upt_Suc)
  have "length (filter (\<lambda>n. \<not> limit < int n) [1..<b]) \<le> nat limit" for b
  proof -
    have "set (filter (\<lambda>n. \<not> limit < int n) [1..<b]) \<subseteq> {1..nat limit}" by auto
    then have "card (set (filter (\<lambda>n. \<not> limit < int n) [1..<b])) \<le> card {1..nat limit}" by (intro card_mono) auto
    moreover have "card (set (filter (\<lambda>n. \<not> limit < int n) [1..<b])) = length (filter (\<lambda>n. \<not> limit < int n) [1..<b])"
      by (rule distinct_card) simp
    ultimately show ?thesis by (simp only: card_atLeastAtMost diff_Suc_1)
  qed
  with 1 show ?thesis by (simp del: upt_Suc)
qed

theorem limiter_counts_every_check_witness:
  "counts_of ''login'' (snd (checks 10 [(5, ''login'', 60), (6, ''other'', 60), (7, ''login'', 60)] [])) = [1, 2] \<and>
   length (filter (\<lambda>n. \<not> 1 < int n) (counts_of ''login'' (snd (checks 10 [(5, ''login'', 60), (6, ''other'', 60), (7, ''login'', 60)] [])))) \<le> 1"
  using limiter_counts_every_check [of 10 "[]" "''login''" 5 "[(6, ''other'', 60), (7, ''login'', 60)]" 60 "{''login'', ''other''}" 1]
  by (simp add: windows_ok_def microseconds_def numeral_2_eq_2 del: checks.simps)

end
