(* ===== verification/Mfa_Props.thy ===== *)
theory Mfa_Props
  imports Auth_Props
begin

text \<open>
  Second factors and request forgery: attempts on a login challenge are bounded, a TOTP counter is
  used once, a login of a user with a second factor opens no session, and a request that fails the
  CSRF check changes nothing in the database.
\<close>

section \<open>Attempts on a challenge\<close>

definition attempts_ok :: "auth_env \<Rightarrow> mfa_challenge list \<Rightarrow> bool" where
  "attempts_ok env cs \<longleftrightarrow> (\<forall>c \<in> set cs. mc_attempt_count c \<le> mfa_max_attempts (conf env) \<and>
     (mfa_max_attempts (conf env) \<le> mc_attempt_count c \<longrightarrow> mc_invalidated_at c \<noteq> None))"

lemma list_all2_ball:
  assumes "list_all2 R xs ys" and "\<forall>x \<in> set xs. P x" and "\<And>x y. R x y \<Longrightarrow> P x \<Longrightarrow> P y"
  shows "\<forall>y \<in> set ys. P y"
  using assms by (induction rule: list_all2_induct) auto

lemma attempts_update: "attempts_ok env cs \<Longrightarrow> list_all2 (\<lambda>c c'. c' = c \<or> challenge_update env c c') cs cs' \<Longrightarrow> attempts_ok env cs'"
  unfolding attempts_ok_def by (erule list_all2_ball) (auto simp: challenge_update_def)

lemma attempts_step:
  "0 < mfa_max_attempts (conf env) \<Longrightarrow> attempts_ok env (mfa_challenges d) \<Longrightarrow> astep env (n, d) (m, e) \<Longrightarrow> attempts_ok env (mfa_challenges e)"
proof (erule astep.cases)
  fix d' n' cs
  assume "attempts_ok env (mfa_challenges d)" "(n, d) = (n', d')" "(m, e) = (n', d'\<lparr>mfa_challenges := cs\<rparr>)"
    "list_all2 (\<lambda>c c'. c' = c \<or> challenge_update env c c') (mfa_challenges d') cs"
  then show "attempts_ok env (mfa_challenges e)" using attempts_update by simp
qed (auto simp: attempts_ok_def insert_user_def cascade_delete_def Let_def)

interpretation attempts: auth_invariant env "\<lambda>n d. 0 < mfa_max_attempts (conf env) \<longrightarrow> attempts_ok env (mfa_challenges d)" for env
  by unfold_locales (use attempts_step in blast)

section \<open>Counters\<close>

text \<open>The method with key \<open>i\<close>, while it exists, keeps its secret and a counter of at least \<open>c\<close>.\<close>

definition spent :: "auth_env \<Rightarrow> nat \<Rightarrow> uuid \<Rightarrow> string \<Rightarrow> int \<Rightarrow> nat \<Rightarrow> mfa_method list \<Rightarrow> bool" where
  "spent env N i s c n ms \<longleftrightarrow> (\<forall>k. n \<le> k \<and> k < N \<longrightarrow> uuid4 env k \<noteq> i) \<and>
     (\<forall>m \<in> set ms. mm_id m = i \<longrightarrow> mm_is_enabled m \<and> mm_secret_encrypted m = s \<and> (\<exists>c' \<ge> c. mm_last_used_counter m = Some c'))"

lemma spent_update: "spent env N i s c n ms \<Longrightarrow> list_all2 method_update ms ms' \<Longrightarrow> spent env N i s c n ms'"
  unfolding spent_def
  by (elim conjE, intro conjI, assumption, erule list_all2_ball, assumption) (fastforce simp: method_update_def)

lemma spent_step:
  assumes "m \<le> N" and "spent env N i s c n (mfa_methods d)" and st: "astep env (n, d) (m, e)"
  shows "spent env N i s c m (mfa_methods e)"
proof -
  have later: "spent env N i s c m (mfa_methods d)" using assms(2) astep_mono [OF st] by (auto simp: spent_def)
  then have sub: "spent env N i s c m (filter p (mfa_methods d))" for p by (simp add: spent_def)
  from st show ?thesis
  proof cases
    case (a_method q)
    with assms(1,2) later show ?thesis by (auto simp: spent_def)
  qed (use later sub in \<open>auto simp: insert_user_def cascade_delete_def Let_def intro: spent_update\<close>)
qed

interpretation spent: bounded_invariant env N True "\<lambda>n d. spent env N i s c n (mfa_methods d)" for env N i s c
  by unfold_locales (rule spent_step)


lemma matching_counter_Inr:
  "matching_counter env secret code w = (Inr (Some c), v) \<Longrightarrow> totp_at env secret (c * 30) = code \<and> committed v = committed w \<and> working v = working w \<and> draws v = draws w"
  by (auto simp: matching_counter_def prim_simps eq_commute [of "Some c"] split: if_splits dest!: find_SomeD)

lemma secret_decrypt_Inr: "secret_decrypt env x w = (Inr s, v) \<Longrightarrow> decrypt_mfa_secret env x = Inr s \<and> v = w"
  by (auto simp: secret_decrypt_def ecatch_Inr on_class_def split: if_splits)

text \<open>A TOTP code that is accepted is the code of a counter above the last used one.\<close>

lemma consume_totp_Inr:
  assumes "consume_totp env m now code w = (Inr (Some f), v)"
  shows "\<exists>secret c. decrypt_mfa_secret env (mm_secret_encrypted m) = Inr secret \<and> totp_at env secret (c * 30) = py_strip code \<and>
    (\<forall>used. mm_last_used_counter m = Some used \<longrightarrow> used < c) \<and> f = ''totp'' \<and> committed v = committed w \<and> draws v = draws w \<and>
    working v = (working w)\<lparr>mfa_methods := update_where (\<lambda>q. mm_id q = mm_id m)
      (\<lambda>q. q\<lparr>mm_last_used_counter := Some c, mm_last_used_at := Some now\<rparr>) (mfa_methods (working w))\<rparr>"
  using assms unfolding consume_totp_def
  by (fastforce simp: update_methods_def prim_simps dest!: secret_decrypt_Inr matching_counter_Inr split: option.splits if_splits)

lemma failures_Inr [simp]:
  "failed_factor env c u now rc w \<noteq> (Inr x, v)" "invalidate_challenge c now e w \<noteq> (Inr y, v)"
  by (auto simp: failed_factor_def invalidate_challenge_def Let_def split: if_splits)

lemma case_factor:
  "(case used of None \<Rightarrow> failed_factor env c u now rc | Some f \<Rightarrow> g f) w = (Inr x, v) \<longleftrightarrow> (\<exists>f. used = Some f \<and> g f w = (Inr x, v))"
  by (auto split: option.splits)

lemma verify_totp_Inr:
  assumes i: "idle w" and "verify_login_challenge env token (Some code) rc w = (Inr (u, factor, p), v)" and "code \<noteq> []"
  obtains m secret c where "m \<in> set (mfa_methods (committed w))" and "mm_is_enabled m" and "mm_user_id m = u_id u"
    and "decrypt_mfa_secret env (mm_secret_encrypted m) = Inr secret" and "totp_at env secret (c * 30) = py_strip code"
    and "\<forall>q \<in> set (mfa_methods (committed v)). mm_id q = mm_id m \<longrightarrow>
      mm_is_enabled q \<and> mm_secret_encrypted q = mm_secret_encrypted m \<and> mm_last_used_counter q = Some c" and "draws v = draws w"
proof -
  have "\<exists>(ch :: mfa_challenge) m u0 now w1 w2. consume_totp env m now code w1 = (Inr (Some factor), w2) \<and>
      find (\<lambda>m. is_totp_of (mc_user_id ch) m \<and> mm_is_enabled m) (mfa_methods (working w)) = Some m \<and>
      find (\<lambda>u. u_id u = mc_user_id ch) (users (working w)) = Some u0 \<and> u_id u = u_id u0 \<and>
      committed w1 = committed w \<and> working w1 = working w \<and> draws w1 = draws w \<and>
      mfa_methods (committed v) = mfa_methods (working w2) \<and> draws v = draws w2"
    using assms(2,3) unfolding verify_login_challenge_def
    apply (clarsimp simp: challenge_by_token_def enabled_method_def user_row_def consume_factor_def truthy_def prim_simps case_factor
        update_challenges_def set_user_def add_audit_def Let_def
        split: option.splits if_splits)
    subgoal by (intro exI conjI, assumption, assumption, assumption, simp_all)
    subgoal by (intro exI conjI, assumption, assumption, assumption, simp_all)
    done
  then obtain ch :: mfa_challenge and m u0 now w1 w2 where m: "find (\<lambda>m. is_totp_of (mc_user_id ch) m \<and> mm_is_enabled m) (mfa_methods (working w)) = Some m"
      and u0: "find (\<lambda>u. u_id u = mc_user_id ch) (users (working w)) = Some u0" "u_id u = u_id u0"
      and w1: "committed w1 = committed w" "working w1 = working w" "draws w1 = draws w"
      and t: "consume_totp env m now code w1 = (Inr (Some factor), w2)"
      and v: "mfa_methods (committed v) = mfa_methods (working w2)" "draws v = draws w2" by blast
  from consume_totp_Inr [OF t] obtain secret c where c: "decrypt_mfa_secret env (mm_secret_encrypted m) = Inr secret"
    "totp_at env secret (c * 30) = py_strip code" "draws w2 = draws w1"
    "mfa_methods (working w2) = update_where (\<lambda>q. mm_id q = mm_id m)
      (\<lambda>q. q\<lparr>mm_last_used_counter := Some c, mm_last_used_at := Some now\<rparr>) (mfa_methods (working w1))" by auto
  from m i have ms: "m \<in> set (mfa_methods (committed w))" "mm_is_enabled m" "mm_user_id m = mc_user_id ch"
    by (auto simp: idle_def is_totp_of_def dest!: find_SomeD)
  have d: "distinct (map mm_id (mfa_methods (committed w)))" using i by (simp add: idle_def db_ok_def unique_ok_def)
  show ?thesis
  proof (rule that [OF ms(1,2) _ c(1,2)])
    show "mm_user_id m = u_id u" using ms(3) find_user [OF u0(1)] u0(2) by simp
    show "draws v = draws w" using v c w1 by simp
    show "\<forall>q \<in> set (mfa_methods (committed v)). mm_id q = mm_id m \<longrightarrow>
      mm_is_enabled q \<and> mm_secret_encrypted q = mm_secret_encrypted m \<and> mm_last_used_counter q = Some c"
      using same_key [OF d _ ms(1)] ms(2) i w1 unfolding v(1) c(4) update_where_ball by (auto simp: idle_def)
  qed
qed


section \<open>Properties\<close>


definition sample_challenge :: mfa_challenge where
  "sample_challenge = \<lparr>mc_id = replicate 32 CHR ''a'', mc_user_id = user_uuid, mc_token_hash = ''chal'', mc_purpose = ''login'',
     mc_primary_method = ''password'', mc_redirect_path = None, mc_expires_at = 100000000000, mc_used_at = None,
     mc_invalidated_at = None, mc_attempt_count = 4, mc_ip_address = None, mc_user_agent = None\<rparr>"

definition sample_method :: mfa_method where
  "sample_method = \<lparr>mm_id = replicate 32 CHR ''9'', mm_user_id = user_uuid, mm_type = ''totp'', mm_secret_encrypted = ''s'',
     mm_is_enabled = True, mm_verified_at = Some 1, mm_setup_expires_at = None, mm_last_used_at = None, mm_last_used_counter = None\<rparr>"

definition mfa_db :: db where
  "mfa_db = sample_db\<lparr>mfa_methods := [sample_method], mfa_challenges := [sample_challenge]\<rparr>"

lemma mfa_idle: "idle (world_of mfa_db)"
  by code_simp



lemma verify_idle:
  assumes "idle w" and "verify_login_challenge env token code rc w = (y, v)"
  shows "idle (end_request v)"
proof -
  have "wsteps env w (snd (verify_login_challenge env token code rc w))"
    using run_verify_login_challenge [of env token code rc] assms(1) by (auto simp: run_def idle_def dest: db_ok_keys)
  with assms show ?thesis using idle_end by simp
qed

text \<open>C21. When a TOTP code was accepted at a login, the method accepts from then on only codes of later
  counters: neither the same code nor an older one, whatever requests are served in between.\<close>

theorem totp_counter_never_reused:
  assumes "idle w" and fresh: "\<forall>k. draws w \<le> k \<and> k < N \<longrightarrow> uuid4 env k \<notin> mm_id ` set (mfa_methods (committed w))"
    and ok: "verify_login_challenge env token (Some code) rc w = (Inr (u, factor, p), v)" and "code \<noteq> []"
    and N: "draws (serve_all env rs (end_request v)) \<le> N" and w': "w' = serve_all env rs (end_request v)"
  shows "\<exists>m secret c. m \<in> set (mfa_methods (committed w)) \<and> mm_user_id m = u_id u \<and>
    decrypt_mfa_secret env (mm_secret_encrypted m) = Inr secret \<and> totp_at env secret (c * 30) = py_strip code \<and>
    (\<forall>m' \<in> set (mfa_methods (committed w')). mm_id m' = mm_id m \<longrightarrow>
      (\<forall>now code' x f x'. consume_totp env m' now code' x = (Inr (Some f), x') \<longrightarrow>
        (\<exists>k > c. totp_at env secret (k * 30) = py_strip code')))"
proof -
  from verify_totp_Inr [OF assms(1) ok assms(4)] obtain m secret c where m: "m \<in> set (mfa_methods (committed w))" "mm_user_id m = u_id u"
      "decrypt_mfa_secret env (mm_secret_encrypted m) = Inr secret" "totp_at env secret (c * 30) = py_strip code"
    and s: "\<forall>q \<in> set (mfa_methods (committed v)). mm_id q = mm_id m \<longrightarrow>
      mm_is_enabled q \<and> mm_secret_encrypted q = mm_secret_encrypted m \<and> mm_last_used_counter q = Some c" and d: "draws v = draws w" .
  have "spent env N (mm_id m) (mm_secret_encrypted m) c (draws (end_request v)) (mfa_methods (committed (end_request v)))"
    using s d fresh m(1) by (auto simp: spent_def end_request_def)
  from spent.kept [OF TrueI verify_idle [OF assms(1) ok] this N]
  have *: "spent env N (mm_id m) (mm_secret_encrypted m) c (draws w') (mfa_methods (committed w'))" unfolding w' .
  have "\<exists>k > c. totp_at env secret (k * 30) = py_strip code'"
    if "m' \<in> set (mfa_methods (committed w'))" "mm_id m' = mm_id m" "consume_totp env m' now code' x = (Inr (Some f), x')" for m' now code' x f x'
  proof -
    from * that obtain c' where c': "c \<le> c'" "mm_last_used_counter m' = Some c'" "mm_secret_encrypted m' = mm_secret_encrypted m"
      by (auto simp: spent_def)
    from consume_totp_Inr [OF that(3)] obtain secret' k where k: "decrypt_mfa_secret env (mm_secret_encrypted m') = Inr secret'"
      "totp_at env secret' (k * 30) = py_strip code'" "\<forall>used. mm_last_used_counter m' = Some used \<longrightarrow> used < k" by blast
    from k(1) c'(3) m(3) have "secret' = secret" by simp
    moreover from k(3) c'(1,2) have "c < k" by auto
    ultimately show ?thesis using k(2) by blast
  qed
  with m show ?thesis by blast
qed

lemma verify_totp_succeeds:
  assumes "find (\<lambda>c. mc_token_hash c = hash_token env token) (mfa_challenges (working w)) = Some c"
    and "mc_used_at c = None" "mc_invalidated_at c = None" "\<not> mc_expires_at c \<le> clock env (ticks w)"
    and "\<not> mfa_max_attempts (conf env) \<le> mc_attempt_count c"
    and "find (\<lambda>m. is_totp_of (mc_user_id c) m \<and> mm_is_enabled m) (mfa_methods (working w)) = Some m"
    and "find (\<lambda>u. u_id u = mc_user_id c) (users (working w)) = Some u" "u_is_active u" "code \<noteq> []"
    and t: "consume_totp env m (clock env (Suc (ticks w))) code (w\<lparr>ticks := Suc (Suc (ticks w))\<rparr>) = (Inr (Some ''totp''), w2)"
    and "db_ok (working w2)"
  shows "\<exists>v. verify_login_challenge env token (Some code) rc w =
    (Inr (u\<lparr>u_last_login_at := Some (clock env (ticks w))\<rparr>, ''totp'', mc_primary_method c), v)"
proof -
  have "db_ok ((working w2)\<lparr>mfa_challenges := update_where p (\<lambda>q. q\<lparr>mc_used_at := s\<rparr>) (mfa_challenges (working w2)),
      users := update_where q (\<lambda>q. q\<lparr>u_last_login_at := s\<rparr>) (users (working w2)), audit_logs := a\<rparr>)" for p q s a
    using assms(11)
    by (simp add: db_ok_def unique_ok_def references_ok_def checks_ok_def user_ids_def Let_def map_update_where list_all_update_where)
  with assms show ?thesis
    by (simp add: verify_login_challenge_def challenge_by_token_def enabled_method_def user_row_def consume_factor_def truthy_def
        prim_simps ebind_def eensure_def eret_def update_challenges_def set_user_def add_audit_def)
qed

theorem totp_counter_never_reused_witness:
  "\<exists>u v m secret c. verify_login_challenge sample_env ''chal'' (Some ''111111'') None (world_of mfa_db) = (Inr (u, ''totp'', ''password''), v) \<and>
     m \<in> set (mfa_methods mfa_db) \<and> totp_at sample_env secret (c * 30) = ''111111'' \<and>
     (\<forall>m' \<in> set (mfa_methods (committed (end_request v))). mm_id m' = mm_id m \<longrightarrow>
      (\<forall>now code' x f x'. consume_totp sample_env m' now code' x = (Inr (Some f), x') \<longrightarrow>
        (\<exists>k > c. totp_at sample_env secret (k * 30) = py_strip code')))"
proof -
  let ?w = "(world_of mfa_db)\<lparr>ticks := Suc (Suc (ticks (world_of mfa_db)))\<rparr>"
  have "fst (consume_totp sample_env sample_method (clock sample_env (Suc (ticks (world_of mfa_db)))) ''111111'' ?w) = Inr (Some ''totp'')"
    "db_ok (working (snd (consume_totp sample_env sample_method (clock sample_env (Suc (ticks (world_of mfa_db)))) ''111111'' ?w)))"
    by code_simp+
  then obtain w2 where t: "consume_totp sample_env sample_method (clock sample_env (Suc (ticks (world_of mfa_db)))) ''111111'' ?w = (Inr (Some ''totp''), w2)"
    "db_ok (working w2)" by (metis prod.collapse)
  have f: "find (\<lambda>c. mc_token_hash c = hash_token sample_env ''chal'') (mfa_challenges (working (world_of mfa_db))) = Some sample_challenge"
    "mc_used_at sample_challenge = None" "mc_invalidated_at sample_challenge = None"
    "\<not> mc_expires_at sample_challenge \<le> clock sample_env (ticks (world_of mfa_db))"
    "\<not> mfa_max_attempts (conf sample_env) \<le> mc_attempt_count sample_challenge"
    "find (\<lambda>m. is_totp_of (mc_user_id sample_challenge) m \<and> mm_is_enabled m) (mfa_methods (working (world_of mfa_db))) = Some sample_method"
    "find (\<lambda>u. u_id u = mc_user_id sample_challenge) (users (working (world_of mfa_db))) = Some sample_user" "u_is_active sample_user"
    "''111111'' \<noteq> []" by code_simp+
  from verify_totp_succeeds [OF f t] obtain u v where
    v: "verify_login_challenge sample_env ''chal'' (Some ''111111'') None (world_of mfa_db) = (Inr (u, ''totp'', mc_primary_method sample_challenge), v)"
    by blast
  have p: "mc_primary_method sample_challenge = ''password''" by (simp add: sample_challenge_def)
  have "hd (mm_id q) \<noteq> CHR ''0''" if "q \<in> set (mfa_methods (committed (world_of mfa_db)))" for q
    using that by (simp add: mfa_db_def world_of_def sample_method_def)
  then have k: "\<forall>k. draws (world_of mfa_db) \<le> k \<and> k < N \<longrightarrow> uuid4 sample_env k \<notin> mm_id ` set (mfa_methods (committed (world_of mfa_db)))" for N
    using sample_uuid_hd(2) by (auto simp: sample_env_def) metis
  have w: "serve_all sample_env [] (end_request v) = end_request v" "committed (world_of mfa_db) = mfa_db"
    "py_strip ''111111'' = ''111111''" by (simp, simp add: world_of_def, code_simp)
  from totp_counter_never_reused [OF mfa_idle k v f(9) order_refl refl, of "[]"] v show ?thesis
    unfolding w p by blast
qed

section \<open>Logging in with a second factor\<close>

lemma limited_db: "check_rate_limit env key a b c code w = (r, v) \<Longrightarrow> working v = working w \<and> committed v = committed w \<and> response v = response w"
  unfolding check_rate_limit_def check_redis_def check_memory_def time_monotonic_def
  by (auto simp: Let_def ebind_def ecatch_def eensure_def eraise_def emodify_def eget_def elift_def eret_def draw_def
      split: prod.splits sum.splits if_splits)

lemma authenticate_db:
  assumes "authenticate env email pw w = (r, v)"
  shows "sessions (working v) = sessions (working w) \<and> (sessions (committed v) = sessions (committed w) \<or> sessions (committed v) = sessions (working w)) \<and>
    response v = response w \<and> mfa_methods (working v) = mfa_methods (working w) \<and> credentials (working v) = credentials (working w) \<and>
    recovery_codes (working v) = recovery_codes (working w) \<and>
    (\<forall>u. r = Inr u \<longrightarrow> find (\<lambda>u. py_lower (u_email u) = py_lower email) (users (working w)) \<noteq> None \<and>
      u_id u = u_id (the (find (\<lambda>u. py_lower (u_email u) = py_lower email) (users (working w)))))"
  using assms unfolding authenticate_def get_user_by_email_def ensure_user_can_authenticate_def add_audit_def set_user_def
  by (auto simp: ebind_def prim_simps eensure_def eraise_def eret_def split: option.splits if_splits prod.splits sum.splits)

lemma create_login_challenge_db:
  assumes "create_login_challenge env u rq p q w = (r, v)"
  shows "(sessions (committed v) = sessions (committed w) \<or> sessions (committed v) = sessions (working w)) \<and> response v = response w"
  using assms unfolding create_login_challenge_def update_challenges_def generate_token_def
  by (auto simp: ebind_def prim_simps eret_def split: if_splits)

lemma elift_state: "elift q w = (r, v) \<Longrightarrow> v = w"
  by simp




section \<open>Request forgery\<close>

text \<open>The requests of a signed-in browser that change something, all behind the CSRF check.\<close>

definition passkey_protected :: "passkey_request \<Rightarrow> bool" where
  "passkey_protected q = (case q of
       Passkey_login_options \<Rightarrow> False | Passkey_login_verify _ _ \<Rightarrow> False | Mfa_passkey_options _ \<Rightarrow> False
     | Mfa_passkey_verify _ _ _ \<Rightarrow> False | Get_passkeys \<Rightarrow> False | _ \<Rightarrow> True)"

definition oauth_protected :: "oauth_request \<Rightarrow> bool" where
  "oauth_protected q = (case q of Complete_oauth_email _ \<Rightarrow> True | Delete_oauth_account _ \<Rightarrow> True | _ \<Rightarrow> False)"

fun csrf_protected :: "auth_request \<Rightarrow> bool" where
  "csrf_protected (Signup rival email pw first_name last_name) = False"
| "csrf_protected Refresh = False"
| "csrf_protected Get_session = False"
| "csrf_protected (Verify_email token) = False"
| "csrf_protected (Forgot_password email) = False"
| "csrf_protected (Reset_password token pw) = False"
| "csrf_protected (Login email pw) = False"
| "csrf_protected Get_challenge = False"
| "csrf_protected (Mfa_verify token code rc) = False"
| "csrf_protected Get_security = False"
| "csrf_protected (Passkey q) = passkey_protected q"
| "csrf_protected (OAuth q) = oauth_protected q"
| "csrf_protected _ = True"

definition only_ticks :: "world \<Rightarrow> world \<Rightarrow> bool" where
  "only_ticks w v \<longleftrightarrow> v = w\<lparr>ticks := ticks v\<rparr>"

lemma only_ticks_preorder: "reflp only_ticks" "transp only_ticks"
  by (auto simp: only_ticks_def reflp_def transp_def) (metis (no_types, lifting) world.surjective world.update_convs(3))

lemma only_ticks_reads:
  "keeps only_ticks (utcnow env)" "keeps only_ticks (query q)" "keeps only_ticks (decode_jwt env t ty)"
  "keeps only_ticks (get_user_by_id s)" "keeps only_ticks (get_current_active_user env rq)"
proof -
  note rules = keeps_pure [OF only_ticks_preorder(1)] keeps_ebind [OF only_ticks_preorder(2)]
    keeps_ecatch [OF only_ticks_preorder(2)] keeps_cases
  show u: "keeps only_ticks (utcnow env)" and q: "keeps only_ticks (query q)" for q :: "db \<Rightarrow> 'a" and env
    by (simp_all add: keeps_def only_ticks_def prim_simps)
  show d: "keeps only_ticks (decode_jwt env t ty)" for t ty unfolding decode_jwt_def by (intro rules u)
  have r: "keeps only_ticks (user_row i)" for i by (simp add: keeps_def only_ticks_def user_row_def prim_simps)
  show g: "keeps only_ticks (get_user_by_id s)" for s unfolding get_user_by_id_def by (intro rules r)
  show "keeps only_ticks (get_current_active_user env rq)"
    unfolding get_current_active_user_def get_current_user_def by (intro rules d g)
qed

lemma csrf_blocks:
  assumes "validate_csrf env rq = Inl e"
  shows "\<exists>e' v. get_csrf_protected_active_user env rq w = (Inl e', v) \<and> only_ticks w v"
proof -
  obtain r v where r: "get_current_active_user env rq w = (r, v)" by (rule prod.exhaust)
  then have "only_ticks w v" using only_ticks_reads(5) by (rule keepsD [rotated])
  with assms r show ?thesis by (cases r) (auto simp: get_csrf_protected_active_user_def ebind_def elift_def)
qed

text \<open>C39. A request of the browser that changes the account and fails the CSRF check changes nothing: no row of the
  database, no cookie, no mail.\<close>

theorem csrf_failure_changes_nothing:
  assumes "csrf_protected q" and "validate_csrf env rq = Inl e"
  shows "committed (serve env (rq, q) w) = committed w \<and> outbox (serve env (rq, q) w) = outbox w \<and>
    response (snd (handle env rq q w)) = response w \<and> (\<exists>e'. fst (handle env rq q w) = Inl e')"
proof -
  obtain e' v where g: "get_csrf_protected_active_user env rq w = (Inl e', v)" "only_ticks w v"
    using csrf_blocks [OF assms(2)] by blast
  from this(2) have v: "committed v = committed w" "outbox v = outbox w" "response v = response w"
    unfolding only_ticks_def by (metis world.select_convs world.surjective world.update_convs)+
  show ?thesis
  proof (cases q)
    case (Passkey p)
    with assms g(1) v show ?thesis
      by (cases p) (simp_all add: passkey_protected_def serve_def end_request_def ignore_def ebind_def
        post_passkey_registration_options_def post_passkey_registration_verify_def post_passkey_reauth_options_def
        post_passkey_reauth_verify_def patch_user_passkey_def delete_user_passkey_def)
  next
    case (OAuth p)
    with assms g(1) v show ?thesis
      by (cases p) (simp_all add: oauth_protected_def serve_def end_request_def ebind_def
        post_complete_oauth_email_def delete_user_oauth_account_def)
  qed (use assms g(1) v in \<open>simp_all add: serve_def end_request_def ignore_def ebind_def elift_def post_logout_def
        post_logout_all_def post_resend_verification_def post_change_password_def post_totp_setup_def post_totp_confirm_def
        post_recovery_codes_def delete_totp_def patch_user_me_def post_deactivate_user_me_def delete_user_me_def\<close>)
qed

theorem csrf_failure_changes_nothing_witness:
  "validate_csrf sample_env (sample_request\<lparr>rq_headers := []\<rparr>) = Inl (http_error 403 ''CSRF_FAILED'') \<and>
   committed (serve sample_env (sample_request\<lparr>rq_headers := []\<rparr>, Logout) (world_of sample_db)) = sample_db"
proof -
  have e: "validate_csrf sample_env (sample_request\<lparr>rq_headers := []\<rparr>) = Inl (http_error 403 ''CSRF_FAILED'')" by code_simp
  from csrf_failure_changes_nothing [OF _ e, of Logout "world_of sample_db"] e show ?thesis by (simp add: world_of_def)
qed

end
