(* ===== verification/Account_Props.thy ===== *)
theory Account_Props
  imports Auth_Props
begin

text \<open>
  Accounts over any sequence of requests: password reset tokens, the last superuser, accounts that
  were deactivated, and the concurrent sign-up.
\<close>

section \<open>Reset tokens\<close>

text \<open>A user has at most one reset token that can still be used.\<close>

definition one_reset :: "password_reset_token list \<Rightarrow> bool" where
  "one_reset ts \<longleftrightarrow> distinct (map prt_user_id (filter live_reset ts))"

lemma filter_unlive: "(\<And>t. \<not> live_reset (f t)) \<Longrightarrow> filter live_reset (update_where p f ts) = filter (\<lambda>t. live_reset t \<and> \<not> p t) ts"
  by (induction ts) (auto simp: update_where_def)

lemma one_reset_filter: "one_reset ts \<Longrightarrow> one_reset (filter p ts)"
  unfolding one_reset_def filter_filter by (auto simp: conj_commute [of "p x" for x] intro: distinct_filter_and)

lemma one_reset_update: "one_reset ts \<Longrightarrow> (\<And>t. \<not> live_reset (f t)) \<Longrightarrow> one_reset (update_where p f ts)"
  unfolding one_reset_def by (simp add: filter_unlive distinct_filter_and)

lemma one_reset_step: "one_reset (reset_tokens d) \<Longrightarrow> astep env (n, d) (m, e) \<Longrightarrow> one_reset (reset_tokens e)"
proof (erule astep.cases)
  fix d' t k n' m'
  assume "one_reset (reset_tokens d)" "(n, d) = (n', d')" "(m, e) = (m', d'\<lparr>reset_tokens := reset_tokens d' @ [t]\<rparr>)"
    "\<forall>q \<in> set (reset_tokens d'). prt_user_id q = prt_user_id t \<longrightarrow> \<not> live_reset q"
  then show "one_reset (reset_tokens e)" by (auto simp: one_reset_def)
qed (auto simp: insert_user_def cascade_delete_def Let_def not_live_reset intro: one_reset_filter one_reset_update)

interpretation resets: auth_invariant env "\<lambda>n d. one_reset (reset_tokens d)" for env
  by unfold_locales (rule one_reset_step)

text \<open>The tokens with one hash can no longer be used, and no later token has this hash.\<close>

definition dead_reset :: "auth_env \<Rightarrow> nat \<Rightarrow> string \<Rightarrow> nat \<Rightarrow> password_reset_token list \<Rightarrow> bool" where
  "dead_reset env N h n ts \<longleftrightarrow>
     (\<forall>k. n \<le> k \<and> k < N \<longrightarrow> hash_token env (token_urlsafe env k) \<noteq> h) \<and> (\<forall>t \<in> set ts. prt_token_hash t = h \<longrightarrow> \<not> live_reset t)"

lemma live_reset_marks: "\<not> live_reset t \<Longrightarrow> \<not> live_reset (t\<lparr>prt_used_at := Some now\<rparr>) \<and> \<not> live_reset (t\<lparr>prt_invalidated_at := Some now\<rparr>)"
  by (auto simp: live_reset_def)

lemma dead_reset_step:
  assumes "m \<le> N" and "dead_reset env N h n (reset_tokens d)" and s: "astep env (n, d) (m, e)"
  shows "dead_reset env N h m (reset_tokens e)"
  using s assms(1,2) astep_mono [OF s]
  by cases (auto simp: dead_reset_def update_where_ball insert_user_def cascade_delete_def Let_def live_reset_marks)

interpretation deadr: bounded_invariant env N True "\<lambda>n d. dead_reset env N h n (reset_tokens d)" for env N h
  by unfold_locales (rule dead_reset_step)

text \<open>A successful reset, in one piece.\<close>

lemma ensure_Inr [simp]: "(ensure b e = Inr x) = b" "(ensure b e = Inl x) = (\<not> b \<and> x = e)"
  by (auto simp: ensure_def)

lemma deliver_Inr: "deliver env m w = (Inr x, v) \<Longrightarrow> v = w\<lparr>outbox := outbox w @ [m]\<rparr>"
  by (auto simp: deliver_def split: option.splits)

definition after_reset :: "auth_env \<Rightarrow> string \<Rightarrow> password_reset_token \<Rightarrow> string \<Rightarrow> int \<Rightarrow> int \<Rightarrow> db \<Rightarrow> db" where
  "after_reset env pw r h now now' d = d\<lparr>
     users := update_where (\<lambda>q. u_id q = prt_user_id r) (\<lambda>q. q\<lparr>u_password_hash := Some h, u_updated_at := Some now\<rparr>) (users d),
     reset_tokens := update_where (\<lambda>t. (prt_user_id t = prt_user_id r \<and> prt_id t \<noteq> prt_id r) \<and> live_reset t)
       (\<lambda>t. t\<lparr>prt_invalidated_at := Some now\<rparr>)
       (update_where (\<lambda>t. prt_id t = prt_id r) (\<lambda>t. t\<lparr>prt_used_at := Some now\<rparr>) (reset_tokens d)),
     sessions := update_where (\<lambda>q. us_user_id q = prt_user_id r \<and> us_revoked_at q = None) (revoke now' ''password_reset'') (sessions d)\<rparr>"

lemma reset_password_Inr:
  assumes "idle w" and "reset_password env token pw w = (Inr u, v)"
  obtains r u0 where "find (\<lambda>t. prt_token_hash t = hash_token env token) (reset_tokens (committed w)) = Some r" and "live_reset r"
    and "clock env (ticks w) < prt_expires_at r"
    and "find (\<lambda>u. u_id u = prt_user_id r) (users (committed w)) = Some u0" and "u_id u = u_id u0"
    and "committed v = after_reset env pw r (pwd_hash env (draws w) pw) (clock env (ticks w)) (clock env (Suc (ticks w))) (committed w)"
    and "draws v = Suc (draws w)"
proof -
  have wk: "working w = committed w" using assms(1) by (simp add: idle_def)
  obtain r where r: "find (\<lambda>t. prt_token_hash t = hash_token env token) (reset_tokens (committed w)) = Some r" "live_reset r"
      "clock env (ticks w) < prt_expires_at r" and pw: "validate_password_policy pw = Inr ()"
    using assms(2) unfolding reset_password_def
    by (auto simp: prim_simps ecatch_Inr on_class_def wk split: option.splits if_splits)
  obtain u0 where u0: "find (\<lambda>u. u_id u = prt_user_id r) (users (committed w)) = Some u0"
    using assms(2) r unfolding reset_password_def
    by (auto simp: prim_simps ecatch_Inr on_class_def user_row_def wk split: option.splits if_splits)
  from find_user [OF u0] have id: "u_id u0 = prt_user_id r" by simp
  show ?thesis
    using assms(2) r u0 id pw that [OF r u0] unfolding reset_password_def
    by (auto simp: prim_simps ecatch_Inr on_class_def user_row_def wk hash_password_def set_user_def invalidate_resets_def
        revoke_all_sessions_def update_sessions_def after_reset_def split: option.splits if_splits dest!: deliver_Inr)
qed


text \<open>Hashes that are still to be drawn are not in use, and no two tokens share a hash.\<close>

definition reset_inv :: "auth_env \<Rightarrow> nat \<Rightarrow> nat \<Rightarrow> password_reset_token list \<Rightarrow> bool" where
  "reset_inv env N n ts \<longleftrightarrow>
     (\<forall>k. n \<le> k \<and> k < N \<longrightarrow> (\<forall>t \<in> set ts. prt_token_hash t \<noteq> hash_token env (token_urlsafe env k))) \<and>
     distinct (map prt_token_hash ts)"

lemma reset_inv_later: "reset_inv env N n ts \<Longrightarrow> n \<le> m \<Longrightarrow> reset_inv env N m ts"
  by (auto simp: reset_inv_def)

lemma reset_inv_update: "reset_inv env N n ts \<Longrightarrow> (\<And>t. prt_token_hash (f t) = prt_token_hash t) \<Longrightarrow> reset_inv env N n (update_where p f ts)"
  by (simp add: reset_inv_def map_update_where update_where_ball)

lemma reset_inv_filter: "reset_inv env N n ts \<Longrightarrow> reset_inv env N n (filter p ts)"
  by (auto simp: reset_inv_def distinct_map_filter)

lemma fresh_tokensD:
  assumes "fresh_tokens env N" and "j < N" and "k < N"
  shows "hash_token env (token_urlsafe env j) = hash_token env (token_urlsafe env k) \<longleftrightarrow> j = k"
  using assms by (auto simp: fresh_tokens_def inj_on_def)

lemma reset_inv_step:
  assumes "fresh_tokens env N" and "n \<le> m" and "m \<le> N" and "reset_inv env N n (reset_tokens d)" and "astep env (n, d) (m, e)"
  shows "reset_inv env N m (reset_tokens e)"
proof -
  note later = reset_inv_later [OF assms(4,2)]
  from assms(5) show ?thesis
  proof cases
    case (a_reset_issue t k)
    have "prt_token_hash t \<noteq> hash_token env (token_urlsafe env k')" if "m \<le> k'" "k' < N" for k'
      using a_reset_issue that fresh_tokensD [OF assms(1), of k k'] assms(3) by simp
    moreover have "prt_token_hash t \<notin> prt_token_hash ` set (reset_tokens d)"
      using a_reset_issue assms(3,4) by (fastforce simp: reset_inv_def)
    ultimately show ?thesis using a_reset_issue later by (auto simp: reset_inv_def)
  qed (use later in \<open>auto simp: insert_user_def cascade_delete_def Let_def intro: reset_inv_filter reset_inv_update\<close>)
qed

interpretation rinv: bounded_invariant env N "fresh_tokens env N" "\<lambda>n d. reset_inv env N n (reset_tokens d)" for env N
  by unfold_locales (rule reset_inv_step)

lemma reset_idle: "idle w \<Longrightarrow> reset_password env token pw w = (y, v) \<Longrightarrow> idle (end_request v)"
  using sim_passwords(1) [of env env token pw] idle_end unfolding run_def by (metis snd_conv)

lemma reset_kills_token:
  assumes "idle w" and "reset_inv env N (draws w) (reset_tokens (committed w))" and "reset_password env token pw w = (Inr u, v)"
  shows "dead_reset env N (hash_token env token) (draws v) (reset_tokens (committed v))"
proof -
  from assms(1,3) obtain r where r: "find (\<lambda>t. prt_token_hash t = hash_token env token) (reset_tokens (committed w)) = Some r"
    and c: "committed v = after_reset env pw r (pwd_hash env (draws w) pw) (clock env (ticks w)) (clock env (Suc (ticks w))) (committed w)"
    and d: "draws v = Suc (draws w)" by (rule reset_password_Inr)
  from r have rs: "r \<in> set (reset_tokens (committed w))" "prt_token_hash r = hash_token env token" by (auto dest!: find_SomeD)
  have d': "distinct (map prt_token_hash (reset_tokens (committed w)))" using assms(2) by (simp add: reset_inv_def)
  have "t = r" if "t \<in> set (reset_tokens (committed w))" "prt_token_hash t = hash_token env token" for t
    using same_key [OF d' that(1) rs(1)] rs(2) that(2) by simp
  moreover have "hash_token env (token_urlsafe env k) \<noteq> hash_token env token" if "draws w \<le> k" "k < N" for k
    using assms(2) rs that unfolding reset_inv_def by metis
  ultimately show ?thesis using d by (auto simp: dead_reset_def c after_reset_def update_where_ball not_live_reset)
qed

lemma db_ok_after_reset: "db_ok d \<Longrightarrow> db_ok (after_reset env pw r h now now' d)"
  by (simp add: db_ok_def unique_ok_def references_ok_def checks_ok_def user_ids_def Let_def after_reset_def map_update_where
      list_all_update_where revoke_def)

lemma reset_password_succeeds:
  assumes "idle w" and "12 \<le> py_len pw"
    and "find (\<lambda>t. prt_token_hash t = hash_token env token) (reset_tokens (committed w)) = Some r" and "live_reset r"
    and "clock env (ticks w) < prt_expires_at r"
    and "find (\<lambda>u. u_id u = prt_user_id r) (users (committed w)) = Some u0" and "mail_failure env (length (outbox w)) = None"
  shows "\<exists>u v. reset_password env token pw w = (Inr u, v) \<and> u_id u = u_id u0 \<and> draws v = Suc (draws w)"
proof -
  let ?d = "after_reset env pw r (pwd_hash env (draws w) pw) (clock env (ticks w)) (clock env (Suc (ticks w))) (committed w)"
  have "db_ok ?d" using assms(1) by (intro db_ok_after_reset) (simp add: idle_def)
  with assms find_user [OF assms(6)] show ?thesis
    by (simp add: reset_password_def validate_password_policy_def ensure_def hash_password_def set_user_def invalidate_resets_def
        revoke_all_sessions_def update_sessions_def user_row_def deliver_def idle_def prim_simps ebind_def ecatch_def
        elift_def eensure_def eget_def emodify_def eret_def after_reset_def)
qed

section \<open>Properties of the password reset\<close>

text \<open>C22. A successful password reset stores the hash of the new password, ends every session of the user
  and leaves no other reset token of his that could be used.\<close>

theorem password_reset_takes_over:
  assumes "idle w" and "reset_password env token pw w = (Inr u, v)"
  shows "(\<forall>q \<in> set (users (committed v)). u_id q = u_id u \<longrightarrow> u_password_hash q = Some (pwd_hash env (draws w) pw)) \<and>
    (\<forall>s \<in> set (sessions (committed v)). us_user_id s = u_id u \<longrightarrow> us_revoked_at s \<noteq> None) \<and>
    (\<forall>t \<in> set (reset_tokens (committed v)). prt_user_id t = u_id u \<longrightarrow> prt_used_at t \<noteq> None \<or> prt_invalidated_at t \<noteq> None)"
proof -
  from assms obtain r u0 where u: "find (\<lambda>u. u_id u = prt_user_id r) (users (committed w)) = Some u0" "u_id u = u_id u0"
    and c: "committed v = after_reset env pw r (pwd_hash env (draws w) pw) (clock env (ticks w)) (clock env (Suc (ticks w))) (committed w)"
    by (rule reset_password_Inr)
  from find_user [OF u(1)] u(2) have "u_id u = prt_user_id r" by simp
  then show ?thesis by (auto simp: c after_reset_def update_where_ball revoke_def live_reset_def)
qed

definition sample_reset :: password_reset_token where
  "sample_reset = \<lparr>prt_id = replicate 32 CHR ''b'', prt_user_id = user_uuid, prt_token_hash = ''secret'',
     prt_expires_at = 100000000000, prt_used_at = None, prt_invalidated_at = None, prt_requested_ip = None\<rparr>"

definition reset_db :: db where
  "reset_db = sample_db\<lparr>reset_tokens := [sample_reset]\<rparr>"


lemma sample_reset_ok:
  "idle (world_of reset_db)" "12 \<le> py_len ''new password 1''"
  "find (\<lambda>t. prt_token_hash t = hash_token sample_env ''secret'') (reset_tokens (committed (world_of reset_db))) = Some sample_reset"
  "live_reset sample_reset" "clock sample_env (ticks (world_of reset_db)) < prt_expires_at sample_reset"
  "find (\<lambda>u. u_id u = prt_user_id sample_reset) (users (committed (world_of reset_db))) = Some sample_user"
  "mail_failure sample_env (length (outbox (world_of reset_db))) = None"
  by code_simp+

theorem password_reset_takes_over_witness:
  "\<exists>u v. reset_password sample_env ''secret'' ''new password 1'' (world_of reset_db) = (Inr u, v) \<and> u_id u = user_uuid \<and>
     (\<forall>s \<in> set (sessions (committed v)). us_user_id s = user_uuid \<longrightarrow> us_revoked_at s \<noteq> None)"
proof -
  from reset_password_succeeds [OF sample_reset_ok] obtain u v where
    v: "reset_password sample_env ''secret'' ''new password 1'' (world_of reset_db) = (Inr u, v)" "u_id u = user_uuid"
    by (auto simp: sample_user_def new_user_def)
  with password_reset_takes_over [OF sample_reset_ok(1) v(1)] show ?thesis by auto
qed

text \<open>C30. A reset token is good for one reset: after it succeeded, no later reset with the same token succeeds,
  whatever requests are served in between.\<close>

theorem reset_token_single_use:
  assumes "idle w" and "reset_inv env N (draws w) (reset_tokens (committed w))"
    and ok: "reset_password env token pw w = (Inr u, v)"
    and N: "draws (serve_all env rs (end_request v)) \<le> N"
  shows "fst (reset_password env token pw' (serve_all env rs (end_request v))) \<noteq> Inr u'"
proof
  let ?w = "serve_all env rs (end_request v)"
  assume a: "fst (reset_password env token pw' ?w) = Inr u'"
  have i: "idle (end_request v)" by (rule reset_idle [OF assms(1) ok])
  have "dead_reset env N (hash_token env token) (draws (end_request v)) (reset_tokens (committed (end_request v)))"
    using reset_kills_token [OF assms(1,2) ok] by (simp add: end_request_def)
  from deadr.kept [OF TrueI i this N]
  have dead: "t \<in> set (reset_tokens (committed ?w)) \<Longrightarrow> prt_token_hash t = hash_token env token \<Longrightarrow> \<not> live_reset t" for t
    by (simp add: dead_reset_def)
  obtain v' where "reset_password env token pw' ?w = (Inr u', v')" using a by (metis prod.collapse)
  with serve_all_steps [OF i, of env rs] show False by (auto elim!: reset_password_Inr dest!: find_SomeD dead)
qed

theorem reset_token_single_use_witness:
  "\<exists>u v. reset_password sample_env ''secret'' ''new password 1'' (world_of reset_db) = (Inr u, v) \<and>
     (\<forall>u'. fst (reset_password sample_env ''secret'' ''other password'' (end_request v)) \<noteq> Inr u')"
proof -
  from reset_password_succeeds [OF sample_reset_ok] obtain u v where
    v: "reset_password sample_env ''secret'' ''new password 1'' (world_of reset_db) = (Inr u, v)" "draws v = 1"
    by (auto simp: world_of_def)
  have "reset_inv sample_env 16 (draws (world_of reset_db)) (reset_tokens (committed (world_of reset_db)))"
    unfolding reset_inv_def between_code by code_simp
  from reset_token_single_use [OF sample_reset_ok(1) this v(1), of "[]"] v show ?thesis by (auto simp: end_request_def)
qed

text \<open>Whatever requests are served, a user never has two reset tokens that can be used.\<close>

theorem one_usable_reset_token:
  assumes "idle w" and "one_reset (reset_tokens (committed w))"
  shows "distinct (map prt_user_id (filter live_reset (reset_tokens (committed (serve_all env rs w)))))"
  using resets.stays [OF assms] by (simp add: one_reset_def)

theorem one_usable_reset_token_witness:
  "distinct (map prt_user_id (filter live_reset (reset_tokens (committed
     (serve_all sample_env [(sample_request, Forgot_password ''ada@ocp.test'')] (world_of reset_db))))))"
proof -
  have "one_reset (reset_tokens (committed (world_of reset_db)))" by code_simp
  from one_usable_reset_token [OF sample_reset_ok(1) this] show ?thesis .
qed


section \<open>The last superuser\<close>

definition user_inv :: "auth_env \<Rightarrow> nat \<Rightarrow> nat \<Rightarrow> user list \<Rightarrow> bool" where
  "user_inv env N n us \<longleftrightarrow>
     (\<forall>k. n \<le> k \<and> k < N \<longrightarrow> (\<forall>u \<in> set us. u_id u \<noteq> uuid4 env k)) \<and> distinct (map u_id us)"

definition superuser_inv :: "auth_env \<Rightarrow> nat \<Rightarrow> nat \<Rightarrow> user list \<Rightarrow> bool" where
  "superuser_inv env N n us \<longleftrightarrow> user_inv env N n us \<and> (\<exists>u \<in> set us. u_is_superuser u \<and> u_is_active u)"

lemma user_inv_later: "user_inv env N n us \<Longrightarrow> n \<le> m \<Longrightarrow> user_inv env N m us"
  by (auto simp: user_inv_def)

lemma user_inv_update: "user_inv env N n us \<Longrightarrow> (\<And>u. u_id (f u) = u_id u) \<Longrightarrow> user_inv env N n (update_where p f us)"
  by (simp add: user_inv_def map_update_where update_where_ball)

lemma user_inv_filter: "user_inv env N n us \<Longrightarrow> user_inv env N n (filter p us)"
  by (auto simp: user_inv_def distinct_map_filter)

lemma user_inv_signup:
  assumes "fresh_uuids env N" and "Suc n \<le> N" and "user_inv env N n us"
    and "u_id u = uuid4 env n"
  shows "user_inv env N (Suc n) (us @ [u])"
proof -
  have "uuid4 env n \<notin> u_id ` set us" using assms(2,3) unfolding user_inv_def by (metis Suc_le_lessD imageE order_refl)
  moreover have "uuid4 env n \<noteq> uuid4 env k" if "Suc n \<le> k" "k < N" for k
    using fresh_uuidsD(1) [OF assms(1), of n k] assms(2) that by simp
  ultimately show ?thesis using assms(3,4) by (auto simp: user_inv_def)
qed

lemma another:
  assumes "distinct (map g xs)" and "1 < length (filter p xs)"
  shows "\<exists>x \<in> set xs. p x \<and> g x \<noteq> i"
proof (rule ccontr)
  assume "\<not> ?thesis"
  then have "set (map g (filter p xs)) \<subseteq> {i}" by auto
  then have "card (set (map g (filter p xs))) \<le> card {i}" by (intro card_mono) auto
  moreover have "distinct (map g (filter p xs))" using assms(1) by (rule distinct_map_filter)
  ultimately show False using assms(2) distinct_card [of "map g (filter p xs)"] by simp
qed

lemma superuser_stays:
  assumes "superuser_inv env N n (users d)" and "may_leave i d"
  shows "\<exists>u \<in> set (users d). u_is_superuser u \<and> u_is_active u \<and> u_id u \<noteq> i"
proof -
  from assms have d: "distinct (map u_id (users d))" by (simp add: superuser_inv_def user_inv_def)
  from assms(2) obtain v where v: "v \<in> set (users d)" "u_id v = i" "u_is_superuser v \<Longrightarrow> 1 < length (active_superusers d)"
    by (auto simp: may_leave_def dest: find_user)
  show ?thesis
  proof (cases "u_is_superuser v")
    case True
    with v have "1 < length (filter (\<lambda>u. u_is_superuser u \<and> u_is_active u) (users d))" by (simp add: active_superusers_def)
    from another [OF d this] show ?thesis by auto
  next
    case False
    from assms(1) obtain u where "u \<in> set (users d)" "u_is_superuser u" "u_is_active u" by (auto simp: superuser_inv_def)
    with False same_key [OF d v(1)] v(2) show ?thesis by metis
  qed
qed

lemma superuser_step:
  assumes "fresh_uuids env N" and "n \<le> m" and "m \<le> N" and i: "superuser_inv env N n (users d)" and "astep env (n, d) (m, e)"
  shows "superuser_inv env N m (users e)"
proof -
  from i have u: "user_inv env N n (users d)" by (simp add: superuser_inv_def)
  have later: "superuser_inv env N m (users d)" using i user_inv_later [OF u assms(2)] by (simp add: superuser_inv_def)
  from assms(5) show ?thesis
  proof cases
    case (a_profile f i)
    then show ?thesis using later user_inv_update [of env N m "users d" f]
      by (auto simp: superuser_inv_def profile_def update_where_def)
  next
    case (a_signup q)
    then show ?thesis using i user_inv_signup [OF assms(1) _ u] assms(3) by (auto simp: superuser_inv_def insert_user_def)
  next
    case (a_deactivate i t why)
    with superuser_stays [OF i] later show ?thesis
      by (fastforce simp: superuser_inv_def update_where_def intro: user_inv_update [unfolded update_where_def])
  next
    case (a_delete i)
    with superuser_stays [OF i] later show ?thesis
      by (auto simp: superuser_inv_def cascade_delete_def Let_def intro: user_inv_filter)
  qed (use later in simp_all)
qed

interpretation super: bounded_invariant env N "fresh_uuids env N" "\<lambda>n d. superuser_inv env N n (users d)" for env N
  by unfold_locales (rule superuser_step)

text \<open>C10. As long as there is an active superuser, no sequence of requests (deactivations and deletions of
  own accounts included) leaves the application without one.\<close>

theorem superuser_never_lost:
  assumes "idle w" and "fresh_uuids env N" and "superuser_inv env N (draws w) (users (committed w))"
    and "draws (serve_all env rs w) \<le> N"
  shows "\<exists>u \<in> set (users (committed (serve_all env rs w))). u_is_superuser u \<and> u_is_active u"
  using super.kept [OF assms(2,1,3,4)] by (simp add: superuser_inv_def)

theorem superuser_never_lost_witness:
  "\<exists>u \<in> set (users (committed (serve_all sample_env [(sample_request, Deactivate_me)] (world_of sample_db)))).
     u_is_superuser u \<and> u_is_active u"
proof -
  have i: "superuser_inv sample_env 16 (draws (world_of sample_db)) (users (committed (world_of sample_db)))"
    unfolding superuser_inv_def user_inv_def between_code by code_simp
  have "draws (serve_all sample_env [(sample_request, Deactivate_me)] (world_of sample_db)) \<le> 16" by code_simp
  from superuser_never_lost [OF sample_idle sample_fresh_uuids i this] show ?thesis .
qed


section \<open>Deactivated accounts\<close>

definition shut_out :: "auth_env \<Rightarrow> nat \<Rightarrow> uuid \<Rightarrow> nat \<Rightarrow> db \<Rightarrow> bool" where
  "shut_out env N i n d \<longleftrightarrow> (\<forall>k. n \<le> k \<and> k < N \<longrightarrow> uuid4 env k \<noteq> i) \<and>
     (\<forall>u \<in> set (users d). u_id u = i \<longrightarrow> \<not> u_is_active u) \<and> (\<forall>s \<in> set (sessions d). us_user_id s = i \<longrightarrow> \<not> live s)"

lemma shut_out_step:
  assumes "m \<le> N" and "shut_out env N i n d" and s: "astep env (n, d) (m, e)"
  shows "shut_out env N i m e"
  using s assms(1,2) astep_mono [OF s]
  by cases (auto simp: shut_out_def update_where_ball insert_user_def new_user_def cascade_delete_def Let_def revoke_def
      active_row_def profile_def)

interpretation shut: bounded_invariant env N True "shut_out env N i" for env N i
  by unfold_locales (rule shut_out_step)

lemma authenticate_active:
  assumes "authenticate env email pw w = (Inr u, v)"
  shows "\<exists>q \<in> set (users (working w)). u_id q = u_id u \<and> u_is_active q"
  using assms unfolding authenticate_def
  by (auto simp: get_user_by_email_def prim_simps split: option.splits dest!: find_SomeD ensure_user_eval)

lemma current_user_active:
  assumes "get_current_user env rq w = (Inr u, v)"
  shows "u \<in> set (users (working w)) \<and> u_is_active u"
  using assms unfolding get_current_user_def
  by (auto simp: get_user_by_id_def user_row_def decode_jwt_def prim_simps ecatch_Inr split: option.splits if_splits dest!: find_user)

lemma refresh_session_active:
  assumes "refresh_session env token rq w = (Inr (u, csrf), v)"
  shows "u \<in> set (users (working w)) \<and> u_is_active u"
  using assms unfolding refresh_session_def
  by (auto simp: session_by_jti_def prim_simps add_session_def update_sessions_def
      dest!: refreshing_user_Inr check_session_record_Inr refresh_payload_Inr)

lemma update_where_set: "s \<in> set (update_where p f xs) \<longleftrightarrow> s \<in> set xs \<and> \<not> p s \<or> (\<exists>q \<in> set xs. p q \<and> s = f q)"
  by (auto simp: update_where_def)

lemma deactivate_Inr:
  assumes "idle w" and "deactivate_own_account env i w = (Inr (), v)"
    and "find (\<lambda>u. u_id u = i) (users (committed w)) = Some u" and "u_is_active u"
  shows "(\<forall>u \<in> set (users (committed v)). u_id u = i \<longrightarrow> \<not> u_is_active u) \<and>
    (\<forall>s \<in> set (sessions (committed v)). us_user_id s = i \<longrightarrow> \<not> live s) \<and> draws v = draws w"
  using assms find_user [OF assms(3)] unfolding deactivate_own_account_def lock_user_and_protect_last_superuser_def
  by (auto simp: user_row_def prim_simps set_user_def update_sessions_def add_audit_def update_where_set revoke_def idle_def
      split: option.splits if_splits)


text \<open>C16. Once a user has deactivated his account it stays closed, whatever requests are served: he has no live
  session, no login, refresh or access token gives him back, and the account is never active again.\<close>

theorem deactivated_user_stays_out:
  assumes "idle w" and "\<forall>k. draws w \<le> k \<and> k < N \<longrightarrow> uuid4 env k \<noteq> i"
    and "find (\<lambda>u. u_id u = i) (users (committed w)) = Some u" and "u_is_active u"
    and ok: "deactivate_own_account env i w = (Inr (), v)"
    and N: "draws (serve_all env rs (end_request v)) \<le> N" and w': "w' = serve_all env rs (end_request v)"
  shows "(\<forall>s \<in> set (sessions (committed w')). us_user_id s = i \<longrightarrow> us_revoked_at s \<noteq> None) \<and>
    (\<forall>u \<in> set (users (committed w')). u_id u = i \<longrightarrow> \<not> u_is_active u) \<and>
    (\<forall>email pw q. fst (authenticate env email pw w') = Inr q \<longrightarrow> u_id q \<noteq> i) \<and>
    (\<forall>token rq q csrf. fst (refresh_session env token rq w') = Inr (q, csrf) \<longrightarrow> u_id q \<noteq> i) \<and>
    (\<forall>rq q. fst (get_current_user env rq w') = Inr q \<longrightarrow> u_id q \<noteq> i)"
proof -
  have e: "idle (end_request v)"
    using sim_deactivate [of env env i] ok idle_end assms(1) unfolding run_def by (metis snd_conv)
  have "shut_out env N i (draws (end_request v)) (committed (end_request v))"
    using deactivate_Inr [OF assms(1) ok assms(3,4)] assms(2) by (simp add: shut_out_def end_request_def)
  from shut.kept [OF TrueI e this N] have s: "shut_out env N i (draws w') (committed w')" unfolding w' .
  have "working w' = committed w'" using serve_all_steps [OF e, of env rs] unfolding w' idle_def by blast
  with s have n: "\<And>q. q \<in> set (users (working w')) \<Longrightarrow> u_is_active q \<Longrightarrow> u_id q \<noteq> i" by (auto simp: shut_out_def)
  have "u_id q \<noteq> i" if "fst (authenticate env email pw w') = Inr q" for email pw q
    using authenticate_active [of env email pw w' q] n that by (metis prod.collapse)
  moreover have "u_id q \<noteq> i" if "fst (refresh_session env token rq w') = Inr (q, csrf)" for token rq q csrf
    using refresh_session_active [of env token rq w' q csrf] n that by (metis prod.collapse)
  moreover have "u_id q \<noteq> i" if "fst (get_current_user env rq w') = Inr q" for rq q
    using current_user_active [of env rq w' q] n that by (metis prod.collapse)
  ultimately show ?thesis using s unfolding shut_out_def by blast
qed

definition plain_db :: db where
  "plain_db = sample_db\<lparr>users := [sample_user\<lparr>u_is_superuser := False\<rparr>]\<rparr>"

theorem deactivated_user_stays_out_witness:
  "\<exists>v. deactivate_own_account sample_env user_uuid (world_of plain_db) = (Inr (), v) \<and>
     (\<forall>s \<in> set (sessions (committed (serve_all sample_env [] (end_request v)))). us_user_id s = user_uuid \<longrightarrow> us_revoked_at s \<noteq> None)"
proof -
  have i: "idle (world_of plain_db)" by code_simp
  have f: "find (\<lambda>u. u_id u = user_uuid) (users (committed (world_of plain_db))) = Some (sample_user\<lparr>u_is_superuser := False\<rparr>)"
    "u_is_active (sample_user\<lparr>u_is_superuser := False\<rparr>)" by code_simp+
  have k: "\<forall>k. draws (world_of plain_db) \<le> k \<and> k < 16 \<longrightarrow> uuid4 sample_env k \<noteq> user_uuid"
    unfolding between_code by code_simp
  have "fst (deactivate_own_account sample_env user_uuid (world_of plain_db)) = Inr ()" by code_simp
  then obtain v where v: "deactivate_own_account sample_env user_uuid (world_of plain_db) = (Inr (), v)" by (metis prod.collapse)
  have "draws v \<le> 16" using deactivate_Inr [OF i v f] by (simp add: world_of_def)
  with deactivated_user_stays_out [OF i k f v, of "[]"] v show ?thesis by (auto simp: end_request_def)
qed


section \<open>Sign-up\<close>

lemma db_ok_email: "db_ok d \<Longrightarrow> distinct (map (\<lambda>u. py_lower (u_email u)) (users d))"
  by (simp add: db_ok_def unique_ok_def)

text \<open>When a rival sign-up takes the same e-mail address (in any case) between the check and the insert,
  the request answers EMAIL\_ALREADY\_REGISTERED and of the two only the rival's account exists.\<close>

theorem signup_race_one_account:
  assumes "idle w" and "12 \<le> py_len pw"
    and "find (\<lambda>u. py_lower (u_email u) = py_lower email) (users (committed w)) = None"
    and "py_lower email' = py_lower email"
    and r: "r = new_user (uuid4 env (draws w + 2)) email' (Some h) fname' lname'" and "db_ok (insert_user r (committed w))"
  shows "\<exists>v. signup env (Some (email', h, fname', lname')) email pw fname lname w =
      (Inl (http_error 409 ''EMAIL_ALREADY_REGISTERED''), v) \<and> committed v = insert_user r (committed w) \<and> working v = committed v"
proof -
  let ?u = "new_user (uuid4 env (draws w + 1)) email (Some (pwd_hash env (draws w) pw)) fname lname"
  have "\<not> db_ok (insert_user r (insert_user ?u (committed w)))"
    using db_ok_email [of "insert_user r (insert_user ?u (committed w))"] r assms(4) by (auto simp: insert_user_def new_user_def)
  with assms(1-3,6) r show ?thesis
    by (simp add: signup_def get_user_by_email_def hash_password_def validate_password_policy_def ensure_def rival_commits_def
        on_class_def http_error_def idle_def ebind_def ecatch_def prim_simps elift_def eensure_def emodify_def eraise_def eret_def Let_def)
qed

theorem signup_race_one_account_witness:
  "\<exists>v. signup sample_env (Some (''Bob@ocp.test'', ''h'', ''B'', ''O'')) ''bob@ocp.test'' ''correct horse'' ''B'' ''O'' (world_of sample_db) =
      (Inl (http_error 409 ''EMAIL_ALREADY_REGISTERED''), v) \<and> length (users (committed v)) = 2"
proof -
  have "12 \<le> py_len ''correct horse''" "py_lower ''Bob@ocp.test'' = py_lower ''bob@ocp.test''"
    "find (\<lambda>u. py_lower (u_email u) = py_lower ''bob@ocp.test'') (users (committed (world_of sample_db))) = None"
    "db_ok (insert_user (new_user (uuid4 sample_env (draws (world_of sample_db) + 2)) ''Bob@ocp.test'' (Some ''h'') ''B'' ''O'') (committed (world_of sample_db)))"
    by code_simp+
  from signup_race_one_account [OF sample_idle this(1,3,2) refl this(4), of "''B''" "''O''"] show ?thesis
    by (auto simp: insert_user_def world_of_def sample_db_def)
qed

end
