(* ===== verification/Passkey_Props.thy ===== *)
theory Passkey_Props
  imports Account_Props
begin

text \<open>
  Passkey logins: what a successful one has checked, and that a WebAuthn ceremony is good for one
  verification only, whatever requests are served in between.
\<close>

section \<open>A sample\<close>

definition sample_passkey :: webauthn_credential where
  "sample_passkey = \<lparr>wc_id = replicate 32 CHR ''a'', wc_user_id = user_uuid, wc_credential_id = ''credential'', wc_public_key = ''key'',
     wc_sign_count = 0, wc_name = ''Passkey 1'', wc_aaguid = None, wc_transports = None, wc_device_type = None,
     wc_backed_up = None, wc_last_used_at = None\<rparr>"

definition sample_ceremony :: webauthn_challenge where
  "sample_ceremony = \<lparr>wac_id = replicate 32 CHR ''c'', wac_user_id = None, wac_mfa_challenge_id = None, wac_token_hash = ''secret'',
     wac_challenge = ''bytes'', wac_purpose = ''passkey_authenticate'', wac_expires_at = 100000000000, wac_used_at = None,
     wac_invalidated_at = None, wac_attempt_count = 0, wac_ip_address = None, wac_user_agent = None\<rparr>"

definition passkey_db :: db where
  "passkey_db = sample_db\<lparr>credentials := [sample_passkey], webauthn_challenges := [sample_ceremony]\<rparr>"

definition sample_assertion :: json where
  "sample_assertion = JObj [(''id'', JStr ''credential''), (''response'', JObj [])]"

lemma passkey_idle: "idle (world_of passkey_db)"
  by code_simp

lemma passwordless_succeeds:
  assumes "idle w" and "find (\<lambda>c. wac_token_hash c = hash_token env token) (webauthn_challenges (committed w)) = Some c"
    and "wac_purpose c = ''passkey_authenticate''" and "wac_invalidated_at c = None" and "wac_used_at c = None"
    and "clock env (ticks w) < wac_expires_at c" and "credential_key env payload = Inr key"
    and "find (\<lambda>r. wc_credential_id r = key) (credentials (committed w)) = Some r"
    and "find (\<lambda>u. u_id u = wc_user_id r) (users (committed w)) = Some u" and "u_is_active u"
    and "payload_response payload ''userHandle'' = Inr user_handle" and "\<not> json_truthy user_handle"
    and "verify_authentication_response env payload (wac_challenge c) (webauthn_rp_id (conf env)) (webauthn_origin (conf env))
        (wc_public_key r) = Inr a"
  shows "\<exists>u' v. verify_passwordless_login env token payload w = (Inr u', v) \<and> draws v = draws w"
proof -
  have w: "working w = committed w" "db_ok (committed w)" using assms(1) by (simp_all add: idle_def)
  have l: "locked_ceremony env token ''passkey_authenticate'' w = (Inr c, w\<lparr>ticks := Suc (ticks w)\<rparr>)"
    using assms(2-6) w(1) by (simp add: locked_ceremony_def ceremony_by_token_def prim_simps ebind_def eensure_def eret_def)
  have o': "passkey_owner env c payload None (w\<lparr>ticks := Suc (ticks w)\<rparr>) = (Inr (u, r), w\<lparr>ticks := Suc (ticks w)\<rparr>)"
    using assms(7-12) w(1) by (simp add: passkey_owner_def user_row_def prim_simps ebind_def eensure_def eret_def elift_def)
  show ?thesis
    using assms(13) w
    by (simp add: verify_passwordless_login_def verify_authentication_def ebind_def l o' ecatch_def elift_def accept_passkey_def
        record_counter_def update_passkey_def update_ceremony_def set_user_def add_audit_def prim_simps eret_def
        db_ok_def unique_ok_def references_ok_def checks_ok_def user_ids_def Let_def map_update_where list_all_update_where
        update_where_image)
qed

lemma passkey_login_succeeds:
  "\<exists>u v. verify_passwordless_login sample_env ''secret'' sample_assertion (world_of passkey_db) = (Inr u, v) \<and> draws v = 0"
proof -
  have f: "find (\<lambda>c. wac_token_hash c = hash_token sample_env ''secret'') (webauthn_challenges (committed (world_of passkey_db))) = Some sample_ceremony"
    "wac_purpose sample_ceremony = ''passkey_authenticate''" "wac_invalidated_at sample_ceremony = None" "wac_used_at sample_ceremony = None"
    "clock sample_env (ticks (world_of passkey_db)) < wac_expires_at sample_ceremony"
    "credential_key sample_env sample_assertion = Inr ''credential''"
    "find (\<lambda>r. wc_credential_id r = ''credential'') (credentials (committed (world_of passkey_db))) = Some sample_passkey"
    "find (\<lambda>u. u_id u = wc_user_id sample_passkey) (users (committed (world_of passkey_db))) = Some sample_user"
    "u_is_active sample_user" "payload_response sample_assertion ''userHandle'' = Inr JNull" "\<not> json_truthy JNull"
    by code_simp+
  have "verify_authentication_response sample_env sample_assertion (wac_challenge sample_ceremony) (webauthn_rp_id (conf sample_env))
      (webauthn_origin (conf sample_env)) (wc_public_key sample_passkey) =
      Inr \<lparr>va_new_sign_count = 1, va_device_type = ''single_device'', va_backed_up = False\<rparr>"
    by (simp add: sample_env_def)
  from passwordless_succeeds [OF passkey_idle f this] show ?thesis by (simp add: world_of_def)
qed

section \<open>A login\<close>

lemma passwordless_Inr:
  assumes "verify_passwordless_login env token payload w = (Inr u', v)"
  obtains c r u a t t' where "locked_ceremony env token ''passkey_authenticate'' w = (Inr c, w\<lparr>ticks := Suc (ticks w)\<rparr>)"
    and "r \<in> set (credentials (working w))" and "credential_key env payload = Inr (wc_credential_id r)"
    and "u_id u = wc_user_id r" and "u_is_active u"
    and "verify_authentication_response env payload (wac_challenge c) (webauthn_rp_id (conf env)) (webauthn_origin (conf env))
        (wc_public_key r) = Inr a"
    and "u' = u\<lparr>u_last_login_at := Some t\<rparr>"
    and "webauthn_challenges (committed v) = update_where (\<lambda>q. wac_id q = wac_id c) (\<lambda>q. q\<lparr>wac_used_at := Some t'\<rparr>)
        (webauthn_challenges (working w))"
proof -
  from assms obtain c x y where c: "locked_ceremony env token ''passkey_authenticate'' w = (Inr c, x)"
    and a: "verify_authentication env c payload None x = (Inr u', y)"
    and v: "webauthn_challenges (committed v) = webauthn_challenges (working y)"
    by (auto simp: verify_passwordless_login_def add_audit_def prim_simps split: if_splits)
  from locked_ceremony_Inr [OF c] have x: "x = w\<lparr>ticks := Suc (ticks w)\<rparr>" by simp
  note done_c = that [OF c [unfolded x]]
  from a show ?thesis
    by (rule verify_authentication_Inr) (rule done_c, (simp add: x v; fail)+)
qed

text \<open>C33. A passkey login that succeeds found a stored ceremony of this purpose that is neither
  used nor invalidated nor expired, and a stored credential of the active user who is logged in whose public
  key verifies the response to the ceremony's own challenge; the ceremony is used afterwards.\<close>

theorem passkey_login_sound:
  assumes "verify_passwordless_login env token payload w = (Inr u, v)"
  shows "\<exists>c \<in> set (webauthn_challenges (working w)). \<exists>r \<in> set (credentials (working w)). \<exists>a.
    wac_token_hash c = hash_token env token \<and> wac_purpose c = ''passkey_authenticate'' \<and>
    wac_used_at c = None \<and> wac_invalidated_at c = None \<and> clock env (ticks w) < wac_expires_at c \<and>
    credential_key env payload = Inr (wc_credential_id r) \<and> wc_user_id r = u_id u \<and> u_is_active u \<and>
    verify_authentication_response env payload (wac_challenge c) (webauthn_rp_id (conf env)) (webauthn_origin (conf env))
      (wc_public_key r) = Inr a \<and>
    (\<forall>q \<in> set (webauthn_challenges (committed v)). wac_id q = wac_id c \<longrightarrow> wac_used_at q \<noteq> None)"
proof -
  from assms obtain c r u0 a t t' where l: "locked_ceremony env token ''passkey_authenticate'' w = (Inr c, w\<lparr>ticks := Suc (ticks w)\<rparr>)"
    and r: "r \<in> set (credentials (working w))" "credential_key env payload = Inr (wc_credential_id r)"
      "u_id u0 = wc_user_id r" "u_is_active u0"
      "verify_authentication_response env payload (wac_challenge c) (webauthn_rp_id (conf env)) (webauthn_origin (conf env))
        (wc_public_key r) = Inr a"
      "u = u0\<lparr>u_last_login_at := Some t\<rparr>"
    and v: "webauthn_challenges (committed v) = update_where (\<lambda>q. wac_id q = wac_id c) (\<lambda>q. q\<lparr>wac_used_at := Some t'\<rparr>)
        (webauthn_challenges (working w))"
    by (rule passwordless_Inr)
  from locked_ceremony_Inr [OF l] have "c \<in> set (webauthn_challenges (working w))" "wac_token_hash c = hash_token env token"
    by (auto dest: find_SomeD)
  with locked_ceremony_Inr [OF l] r show ?thesis by (intro bexI exI conjI) (auto simp: v update_where_ball)
qed

theorem passkey_login_sound_witness:
  "\<exists>c \<in> set (webauthn_challenges passkey_db). \<exists>r \<in> set (credentials passkey_db). \<exists>u v.
    verify_passwordless_login sample_env ''secret'' sample_assertion (world_of passkey_db) = (Inr u, v) \<and>
    wac_token_hash c = ''secret'' \<and> wc_user_id r = u_id u \<and> u_is_active u"
proof -
  from passkey_login_succeeds obtain u v where
    v: "verify_passwordless_login sample_env ''secret'' sample_assertion (world_of passkey_db) = (Inr u, v)" by blast
  have w: "working (world_of passkey_db) = passkey_db" "hash_token sample_env ''secret'' = ''secret''" by code_simp+
  from passkey_login_sound [OF v] v show ?thesis unfolding w by blast
qed

section \<open>The ceremony afterwards\<close>

text \<open>The ceremonies with one token hash are used, and no later ceremony has this hash.\<close>

definition dead_ceremony :: "auth_env \<Rightarrow> nat \<Rightarrow> string \<Rightarrow> nat \<Rightarrow> webauthn_challenge list \<Rightarrow> bool" where
  "dead_ceremony env N h n cs \<longleftrightarrow>
     (\<forall>k. n \<le> k \<and> k < N \<longrightarrow> hash_token env (token_urlsafe env k) \<noteq> h) \<and> (\<forall>c \<in> set cs. wac_token_hash c = h \<longrightarrow> wac_used_at c \<noteq> None)"

lemma dead_ceremonies:
  assumes "list_all2 ceremony_update cs cs'" and "dead_ceremony env N h n cs"
  shows "dead_ceremony env N h n cs'"
  using assms by (force simp: dead_ceremony_def ceremony_update_def list_all2_conv_all_nth in_set_conv_nth)

lemma dead_ceremony_step:
  assumes "m \<le> N" and "dead_ceremony env N h n (webauthn_challenges d)" and s: "astep env (n, d) (m, e)"
  shows "dead_ceremony env N h m (webauthn_challenges e)"
  using s assms(1,2) astep_mono [OF s]
  by cases (auto simp: insert_user_def cascade_delete_def Let_def intro: dead_ceremonies, auto simp: dead_ceremony_def)

interpretation deadc: bounded_invariant env N True "\<lambda>n d. dead_ceremony env N h n (webauthn_challenges d)" for env N h
  by unfold_locales (rule dead_ceremony_step)

lemma passwordless_kills:
  assumes "idle w" and "\<forall>k. draws w \<le> k \<and> k < N \<longrightarrow> hash_token env (token_urlsafe env k) \<noteq> hash_token env token"
    and ok: "verify_passwordless_login env token payload w = (Inr u, v)" and "draws w \<le> draws v"
  shows "dead_ceremony env N (hash_token env token) (draws v) (webauthn_challenges (committed v))"
proof -
  from ok obtain c t' where l: "locked_ceremony env token ''passkey_authenticate'' w = (Inr c, w\<lparr>ticks := Suc (ticks w)\<rparr>)"
    and v: "webauthn_challenges (committed v) = update_where (\<lambda>q. wac_id q = wac_id c) (\<lambda>q. q\<lparr>wac_used_at := Some t'\<rparr>)
        (webauthn_challenges (working w))"
    by (rule passwordless_Inr)
  from locked_ceremony_Inr [OF l] have c: "c \<in> set (webauthn_challenges (working w))" "wac_token_hash c = hash_token env token"
    by (auto dest: find_SomeD)
  have d: "distinct (map wac_token_hash (webauthn_challenges (working w)))"
    using assms(1) by (simp add: idle_def db_ok_def unique_ok_def)
  have "q = c" if "q \<in> set (webauthn_challenges (working w))" "wac_token_hash q = hash_token env token" for q
    using same_key [OF d that(1) c(1)] c(2) that(2) by simp
  with assms(2,4) show ?thesis by (auto simp: dead_ceremony_def v update_where_ball)
qed

text \<open>Every verification opens the ceremony of its token first.\<close>

lemma open_challenge_Inr: "open_challenge env token w = (Inr m, v) \<Longrightarrow> working v = working w"
  by (auto simp: open_challenge_def prim_simps split: option.splits)

lemma locked_first:
  "verify_passwordless_login env token p w = (Inr u, v) \<Longrightarrow> \<exists>purpose x c y. locked_ceremony env token purpose x = (Inr c, y) \<and> working x = working w"
  "verify_reauthentication env i token p w = (Inr u, v) \<Longrightarrow> \<exists>purpose x c y. locked_ceremony env token purpose x = (Inr c, y) \<and> working x = working w"
  "verify_mfa env mfa_token token p w = (Inr (u, m), v) \<Longrightarrow> \<exists>purpose x c y. locked_ceremony env token purpose x = (Inr c, y) \<and> working x = working w"
  "verify_registration env u token p label w = (Inr r, v) \<Longrightarrow> \<exists>purpose x c y. locked_ceremony env token purpose x = (Inr c, y) \<and> working x = working w"
  unfolding verify_passwordless_login_def verify_reauthentication_def verify_mfa_def verify_registration_def ebind_Inr
  by (elim exE conjE, (drule open_challenge_Inr)?, (rule exI)+, rule conjI, assumption, (assumption | rule refl))+

text \<open>C31. A WebAuthn ceremony is good for one verification: after a login with it
  succeeded, neither a login nor a re-authentication, a second factor or a registration with the same
  ceremony token succeeds, whatever requests are served in between and whatever response is sent.\<close>

theorem passkey_ceremony_single_use:
  assumes "idle w" and "\<forall>k. draws w \<le> k \<and> k < N \<longrightarrow> hash_token env (token_urlsafe env k) \<noteq> hash_token env token"
    and ok: "verify_passwordless_login env token payload w = (Inr u, v)"
    and N: "draws (serve_all env rs (end_request v)) \<le> N"
  shows "fst (verify_passwordless_login env token payload' (serve_all env rs (end_request v))) \<noteq> Inr u' \<and>
    fst (verify_reauthentication env i token payload' (serve_all env rs (end_request v))) \<noteq> Inr u' \<and>
    fst (verify_mfa env mfa_token token payload' (serve_all env rs (end_request v))) \<noteq> Inr (u', primary) \<and>
    fst (verify_registration env u' token payload' label (serve_all env rs (end_request v))) \<noteq> Inr r"
proof -
  let ?w = "serve_all env rs (end_request v)"
  have s: "wsteps env w v" using run_passkey_logins(1) [of env "\<lambda>_. True" token payload] ok unfolding run_def by (metis snd_conv)
  have i: "idle (end_request v)" by (rule idle_end [OF s assms(1)])
  have "dead_ceremony env N (hash_token env token) (draws (end_request v)) (webauthn_challenges (committed (end_request v)))"
    using passwordless_kills [OF assms(1,2) ok wsteps_draws [OF s]] by (simp add: end_request_def)
  from deadc.kept [OF TrueI i this N] serve_all_steps [OF i, of env rs]
  have dead: "c \<in> set (webauthn_challenges (working ?w)) \<Longrightarrow> wac_token_hash c = hash_token env token \<Longrightarrow> wac_used_at c \<noteq> None" for c
    by (simp add: dead_ceremony_def idle_def)
  have no: "False" if "locked_ceremony env token purpose x = (Inr c, y)" "working x = working ?w" for purpose x c y
    using locked_ceremony_Inr [OF that(1)] find_SomeD [of _ "webauthn_challenges (working x)" c] dead [of c] that(2) by auto
  show ?thesis
    using locked_first(1) [of env token payload' ?w u'] locked_first(2) [of env i token payload' ?w u']
      locked_first(3) [of env mfa_token token payload' ?w u' primary] locked_first(4) [of env u' token payload' label ?w r] no
    by (metis prod.collapse)
qed

theorem passkey_ceremony_single_use_witness:
  "\<exists>u v. verify_passwordless_login sample_env ''secret'' sample_assertion (world_of passkey_db) = (Inr u, v) \<and>
     (\<forall>u'. fst (verify_passwordless_login sample_env ''secret'' sample_assertion (end_request v)) \<noteq> Inr u')"
proof -
  from passkey_login_succeeds obtain u v where
    v: "verify_passwordless_login sample_env ''secret'' sample_assertion (world_of passkey_db) = (Inr u, v)" "draws v = 0" by blast
  have "\<forall>k. draws (world_of passkey_db) \<le> k \<and> k < 16 \<longrightarrow>
      hash_token sample_env (token_urlsafe sample_env k) \<noteq> hash_token sample_env ''secret''"
    unfolding between_code by code_simp
  from passkey_ceremony_single_use [OF passkey_idle this v(1), of "[]"] v show ?thesis by (auto simp: end_request_def)
qed

end
