(* ===== verification/OAuth_Props.thy ===== *)
theory OAuth_Props
  imports Account_Props
begin

text \<open>
  Logins through an external provider: whose account an identity opens, the signed flow cookie, and
  the redirect targets.
\<close>

section \<open>Whose account\<close>

lemma login_linked_Inr:
  assumes "login_linked env a u idn p w = (Inr u', v)"
  shows "u_id u' = u_id u \<and> u_is_active u"
  using assms by (auto simp: login_linked_def seen_user_def dest!: ensure_user_eval)

lemma create_user_Inr: "create_oauth_user env rival idn w = (Inr u, v) \<Longrightarrow> u_id u = uuid4 env (draws w)"
  by (auto simp: create_oauth_user_def prim_simps oauth_user_new)

lemma rival_accounts:
  assumes "oauth_rival_commits env rival w = (Inr (), v)"
  shows "set (oauth_accounts (committed v)) \<subseteq> set (oauth_accounts (committed w)) \<union> {a. oa_user_id a = uuid4 env (draws w)}"
  using assms by (auto simp: oauth_rival_commits_def prim_simps Let_def add_oauth_account_def new_oauth_account_def insert_user_def
      emodify_def split: option.splits if_splits)

lemma create_user_Inl:
  assumes "create_oauth_user env rival idn w = (Inl e, v)"
  shows "set (oauth_accounts (committed v)) \<subseteq> set (oauth_accounts (committed w)) \<union> {a. oa_user_id a = uuid4 env (Suc (draws w))}"
proof -
  let ?x = "w\<lparr>draws := Suc (draws w), working := insert_user (oauth_user env (uuid4 env (draws w)) idn) (working w)\<rparr>"
  obtain r y where y: "oauth_rival_commits env rival ?x = (r, y)" by (rule prod.exhaust)
  have "r = Inr ()"
    using y by (auto simp: oauth_rival_commits_def ebind_def prim_simps Let_def emodify_def eret_def split: option.splits)
  with rival_accounts [of env rival ?x y] y have
    "set (oauth_accounts (committed y)) \<subseteq> set (oauth_accounts (committed w)) \<union> {a. oa_user_id a = uuid4 env (Suc (draws w))}"
    by simp
  moreover have "committed v = committed y"
    using assms y \<open>r = Inr ()\<close>
    by (auto simp: create_oauth_user_def create_oauth_account_def set_user_def add_audit_def ebind_def prim_simps eret_def split: if_splits)
  ultimately show ?thesis by simp
qed

lemma provider_names: "p \<in> {''github'', ''google''} \<Longrightarrow> normalize_provider p = p"
proof -
  have "normalize_provider ''github'' = ''github''" "normalize_provider ''google'' = ''google''" by code_simp+
  then show "p \<in> {''github'', ''google''} \<Longrightarrow> normalize_provider p = p" by auto
qed

lemma account_Some:
  assumes "get_by_provider_subject p s w = (Inr (Some a), v)"
  shows "v = w \<and> a \<in> set (oauth_accounts (working w)) \<and> oa_provider a = normalize_provider p \<and> oa_provider_subject a = s"
  using assms by (auto simp: get_by_provider_subject_def prim_simps dest: find_SomeD)

lemma row_Some: "user_row i w = (Inr (Some u), v) \<Longrightarrow> v = w \<and> u \<in> set (users (working w)) \<and> u_id u = i"
  by (auto simp: user_row_def prim_simps dest: find_user)

lemma rival_login:
  assumes "login_rival_account env idn w = (Inr u, v)"
  shows "\<exists>a \<in> set (oauth_accounts (committed w)). oa_provider a = normalize_provider (normalize_provider (oi_provider idn)) \<and>
    oa_provider_subject a = oi_subject idn \<and> oa_user_id a = u_id u"
proof -
  from assms obtain a u0 x y z where a: "get_by_provider_subject (normalize_provider (oi_provider idn)) (oi_subject idn)
      (w\<lparr>working := committed w\<rparr>) = (Inr (Some a), x)"
    and u: "user_row (oa_user_id a) x = (Inr (Some u0), y)" and l: "login_linked env a u0 idn (normalize_provider (oi_provider idn)) y = (Inr u, z)"
    by (auto simp: login_rival_account_def prim_simps split: option.splits if_splits)
  from account_Some [OF a] row_Some [OF u] login_linked_Inr [OF l] show ?thesis by auto
qed

text \<open>C32. A login through an external provider gives back an existing user only if the
  provider's own subject identifier was linked to this user before, and only an active one: neither the
  e-mail address the provider vouches for nor a concurrent first login opens an account of somebody else.\<close>

theorem oauth_login_own_account:
  assumes "idle w" and "oi_provider idn \<in> {''github'', ''google''}"
    and "uuid4 env (draws w) \<notin> set (user_ids (committed w))" and "uuid4 env (Suc (draws w)) \<notin> set (user_ids (committed w))"
    and ok: "authenticate_oauth_identity env rival idn w = (Inr u, v)" and "u_id u \<in> set (user_ids (committed w))"
  shows "\<exists>a \<in> set (oauth_accounts (committed w)). oa_provider a = oi_provider idn \<and> oa_provider_subject a = oi_subject idn \<and>
    oa_user_id a = u_id u \<and> (\<exists>q \<in> set (users (committed w)). u_id q = u_id u \<and> u_is_active q)"
proof -
  let ?p = "normalize_provider (oi_provider idn)"
  note p = provider_names [OF assms(2)]
  have w: "working w = committed w" using assms(1) by (simp add: idle_def)
  obtain found where g: "get_by_provider_subject ?p (oi_subject idn) w = (Inr found, w)"
    by (simp add: get_by_provider_subject_def prim_simps)
  show ?thesis
  proof (cases found)
    case (Some a)
    with ok g obtain u0 x y where "user_row (oa_user_id a) w = (Inr (Some u0), x)" "login_linked env a u0 idn ?p x = (Inr u, y)"
      by (auto simp: authenticate_oauth_identity_def Let_def split: option.splits)
    with account_Some [OF g [unfolded Some]] row_Some login_linked_Inr p w show ?thesis by metis
  next
    case None
    then have none: "a \<in> set (oauth_accounts (committed w)) \<Longrightarrow> \<not> (oa_provider a = oi_provider idn \<and> oa_provider_subject a = oi_subject idn)" for a
      using g find_None_D [of _ "oauth_accounts (committed w)" a] by (auto simp: get_by_provider_subject_def prim_simps w p)
    have "fst ((if truthy (oi_email idn) then get_user_by_email (the (oi_email idn)) else eret None) w) = Inr found'
        \<Longrightarrow> snd ((if truthy (oi_email idn) then get_user_by_email (the (oi_email idn)) else eret None) w) = w" for found'
      by (auto simp: get_user_by_email_def prim_simps eret_def)
    with ok g None have "create_oauth_user env rival idn w = (Inr u, v) \<or>
        (\<exists>e x. create_oauth_user env rival idn w = (Inl e, x) \<and> login_rival_account env idn x = (Inr u, v))"
      by (auto simp: authenticate_oauth_identity_def Let_def ecatch_Inr on_class_def split: if_splits)
    then show ?thesis
    proof (elim disjE exE conjE)
      assume "create_oauth_user env rival idn w = (Inr u, v)"
      from create_user_Inr [OF this] assms(3,6) show ?thesis by simp
    next
      fix e x
      assume c: "create_oauth_user env rival idn w = (Inl e, x)" and r: "login_rival_account env idn x = (Inr u, v)"
      from rival_login [OF r] p obtain a where a: "a \<in> set (oauth_accounts (committed x))" "oa_provider a = oi_provider idn"
          "oa_provider_subject a = oi_subject idn" "oa_user_id a = u_id u" by auto
      with create_user_Inl [OF c] none assms(4,6) have False by auto
      then show ?thesis ..
    qed
  qed
qed

text \<open>A linked identity of an active user logs him in.\<close>

lemma linked_login_succeeds:
  assumes "idle w" and "find (\<lambda>a. oa_provider a = normalize_provider (normalize_provider (oi_provider idn)) \<and>
      oa_provider_subject a = oi_subject idn) (oauth_accounts (committed w)) = Some a"
    and "find (\<lambda>u. u_id u = oa_user_id a) (users (committed w)) = Some u" and "u_is_active u"
  shows "\<exists>u' v. authenticate_oauth_identity env rival idn w = (Inr u', v) \<and> u_id u' = u_id u"
proof -
  have w: "working w = committed w" "db_ok (committed w)" using assms(1) by (simp_all add: idle_def)
  show ?thesis
    using assms(2-4) w
    by (simp add: authenticate_oauth_identity_def get_by_provider_subject_def user_row_def Let_def ebind_def login_linked_def
        ensure_user_can_authenticate_def update_oauth_account_def verify_matching_provider_email_def touch_last_login_def
        set_account_def set_user_def add_audit_def prim_simps eret_def seen_user_def
        db_ok_def unique_ok_def references_ok_def checks_ok_def user_ids_def map_update_where list_all_update_where update_where_image)
qed

definition sample_account :: oauth_account where
  "sample_account = \<lparr>oa_id = replicate 32 CHR ''9'', oa_user_id = user_uuid, oa_provider = ''github'', oa_provider_subject = ''42'',
     oa_provider_email = None, oa_provider_username = None, oa_provider_avatar_url = None, oa_provider_profile_url = None,
     oa_last_login_at = None\<rparr>"

definition sample_identity :: oauth_identity where
  "sample_identity = \<lparr>oi_provider = ''github'', oi_subject = ''42'', oi_email = Some ''eve@ocp.test'', oi_email_verified = True,
     oi_username = None, oi_display_name = None, oi_avatar_url = None, oi_profile_url = None\<rparr>"

definition linked_db :: db where
  "linked_db = sample_db\<lparr>oauth_accounts := [sample_account]\<rparr>"

theorem oauth_login_own_account_witness:
  "\<exists>u v. authenticate_oauth_identity sample_env None sample_identity (world_of linked_db) = (Inr u, v) \<and> u_id u = user_uuid \<and>
     (\<exists>a \<in> set (oauth_accounts linked_db). oa_provider_subject a = ''42'' \<and> oa_user_id a = user_uuid)"
proof -
  have i: "idle (world_of linked_db)" by code_simp
  have f: "find (\<lambda>a. oa_provider a = normalize_provider (normalize_provider (oi_provider sample_identity)) \<and>
      oa_provider_subject a = oi_subject sample_identity) (oauth_accounts (committed (world_of linked_db))) = Some sample_account"
    "find (\<lambda>u. u_id u = oa_user_id sample_account) (users (committed (world_of linked_db))) = Some sample_user" "u_is_active sample_user"
    by code_simp+
  have u: "u_id sample_user = user_uuid" by code_simp
  from linked_login_succeeds [OF i f, of sample_env None] obtain u v where
    v: "authenticate_oauth_identity sample_env None sample_identity (world_of linked_db) = (Inr u, v)" "u_id u = user_uuid" by (auto simp: u)
  have c: "oi_provider sample_identity \<in> {''github'', ''google''}"
    "uuid4 sample_env (draws (world_of linked_db)) \<notin> set (user_ids (committed (world_of linked_db)))"
    "uuid4 sample_env (Suc (draws (world_of linked_db))) \<notin> set (user_ids (committed (world_of linked_db)))"
    "user_uuid \<in> set (user_ids (committed (world_of linked_db)))" "oi_subject sample_identity = ''42''"
    "committed (world_of linked_db) = linked_db"
    by code_simp+
  from oauth_login_own_account [OF i c(1-3) v(1)] v c(4-6) show ?thesis by auto
qed

section \<open>Redirect targets\<close>

text \<open>Whatever redirect target a client asks for, the path that is used has neither a scheme nor
  an authority, starts with a slash and has no backslash: the browser stays on the application's own host.\<close>

theorem safe_redirect:
  "\<exists>r. urlsplit (safe_redirect_path p) = Inr r \<and> scheme r = [] \<and> netloc r = [] \<and> py_startswith (safe_redirect_path p) ''/'' \<and>
     CHR 0x5C \<notin> set (safe_redirect_path p)"
proof -
  let ?s = "safe_redirect_path p"
  have s: "py_startswith ?s ''/'' \<and> \<not> py_startswith ?s ''//'' \<and> list_all (\<lambda>c. 32 \<le> byte c) ?s"
    by (auto simp: safe_redirect_path_def Let_def py_startswith_iff list_ex_iff list_all_iff not_less)
  have b: "CHR 0x5C \<notin> set ?s" by (auto simp: safe_redirect_path_def Let_def)
  from s obtain t where t: "?s = CHR ''/'' # t" by (auto simp: py_startswith_iff)
  have ctl: "byte CHR 0x09 < 32" "byte CHR 0x0D < 32" "byte CHR 0x0A < 32" by code_simp+
  have "filter (\<lambda>c. c \<notin> {CHR 0x09, CHR 0x0D, CHR 0x0A}) ?s = ?s"
    using s ctl by (intro filter_True) (auto simp: list_all_iff not_le [symmetric])
  moreover have "dropWhile (\<lambda>c. byte c \<le> 32) ?s = ?s" using t by simp
  ultimately have c: "url_clean ?s = ?s" by (simp add: url_clean_def)
  have h: "split_scheme ?s = ([], ?s)"
    by (simp add: t split_scheme_def py_partition_def Let_def is_lower_def is_upper_def)
  have "take 2 ?s \<noteq> ''//''" using s append_take_drop_id [of 2 ?s] unfolding py_startswith_iff by metis
  then have n: "split_netloc ?s = ([], ?s)" by (simp add: split_netloc_def)
  show ?thesis
    using s b by (simp add: urlsplit_def c h n bracket_ok_def split: prod.splits)
qed

section \<open>The flow cookie\<close>

lemma py_rpartition_iff: "py_rpartition c s = (a, True, b) \<longleftrightarrow> s = a @ c # b \<and> c \<notin> set b"
proof -
  have "py_rpartition c s = (a, True, b) \<longleftrightarrow> py_partition c (rev s) = (rev b, True, rev a)"
    by (auto simp: py_rpartition_def split: prod.splits)
  also have "\<dots> \<longleftrightarrow> rev s = rev (a @ c # b) \<and> c \<notin> set b" by (simp add: py_partition_found)
  finally show ?thesis by (simp only: rev_is_rev_conv)
qed

lemma signed_payload_Some:
  assumes "signed_payload env v = Inr (Some payload)"
  shows "\<exists>encoded text. v = encoded @ ''.'' @ state_hmac_hex env encoded \<and>
    urlsafe_b64decode (encoded @ b64_padding encoded) = Inr text \<and> parse_json env text = Inr payload"
proof -
  obtain encoded found signature where r: "py_rpartition CHR ''.'' v = (encoded, found, signature)" by (metis prod_cases3)
  with assms have f: found and s: "signature = state_hmac_hex env encoded"
    and t: "\<exists>text. urlsafe_b64decode (encoded @ b64_padding encoded) = Inr text \<and> parse_json env text = Inr payload"
    by (auto simp: signed_payload_def compare_digest_def split: if_splits)
  from r f have "v = encoded @ CHR ''.'' # signature" using py_rpartition_iff [of "CHR ''.''" v encoded signature] by simp
  with s t show ?thesis by auto
qed

lemma flow_of_payload_Some:
  assumes "flow_of_payload payload now = Some f"
  shows "\<exists>issued_at p. int_of (get_or payload ''issued_at'' JNull) = Some issued_at \<and>
    0 \<le> now - microseconds issued_at \<and> now - microseconds issued_at \<le> microseconds 600 \<and>
    get_or payload ''state'' JNull = JStr (of_state f) \<and>
    (of_mode f = ''login'' \<or> of_mode f = ''link'' \<and> truthy (of_user_id f)) \<and> of_redirect_path f = safe_redirect_path p"
proof -
  have str: "is_str j \<Longrightarrow> JStr (the (str_option j)) = j" for j by (cases j) auto
  have link: "json_truthy j \<Longrightarrow> is_str j \<Longrightarrow> truthy (str_option j)" for j by (cases j) (auto simp: truthy_def)
  show ?thesis
    using assms
    by (auto simp: flow_of_payload_def Let_def str split: option.splits if_splits intro: link)
qed

text \<open>What \<open>json.loads\<close> makes of the payload of a flow.\<close>

definition flow_json :: "oauth_flow \<Rightarrow> int \<Rightarrow> json" where
  "flow_json f issued_at = JObj [(''issued_at'', JInt issued_at), (''mode'', JStr (of_mode f)),
     (''redirect_path'', JStr (safe_redirect_path (Some (of_redirect_path f)))), (''state'', JStr (of_state f)),
     (''user_id'', case of_user_id f of None \<Rightarrow> JNull | Some i \<Rightarrow> JStr i)]"

lemma flow_of_json:
  assumes "of_mode f = ''login'' \<or> of_mode f = ''link'' \<and> truthy (of_user_id f)"
    and "safe_redirect_path (Some (of_redirect_path f)) = of_redirect_path f"
    and "0 \<le> now - microseconds t" and "now - microseconds t \<le> microseconds 600"
  shows "flow_of_payload (flow_json f t) now = Some f"
proof -
  have g: "get_or (flow_json f t) ''state'' JNull = JStr (of_state f)" "get_or (flow_json f t) ''mode'' JNull = JStr (of_mode f)"
    "get_or (flow_json f t) ''redirect_path'' JNull = JStr (of_redirect_path f)"
    "get_or (flow_json f t) ''issued_at'' JNull = JInt t"
    "get_or (flow_json f t) ''user_id'' JNull = (case of_user_id f of None \<Rightarrow> JNull | Some i \<Rightarrow> JStr i)"
    by (simp_all add: get_or_def flow_json_def assms(2))
  show ?thesis
    using assms by (cases "of_user_id f") (auto simp: flow_of_payload_def g Let_def truthy_def)
qed

lemma flow_decodes:
  assumes "of_mode f = ''login'' \<or> of_mode f = ''link'' \<and> truthy (of_user_id f)"
    and "safe_redirect_path (Some (of_redirect_path f)) = of_redirect_path f"
    and parse: "parse_json env (flow_payload f t) = Inr (flow_json f t)"
    and mac: "\<And>s. is_ascii (state_hmac_hex env s)" "\<And>s. CHR ''.'' \<notin> set (state_hmac_hex env s)"
    and "0 \<le> clock env (ticks v) - microseconds t" and "clock env (ticks v) - microseconds t \<le> microseconds 600"
    and e: "e = rstrip_pads (urlsafe_b64encode (flow_payload f t))"
  shows "decode_oauth_flow env (Some (e @ ''.'' @ state_hmac_hex env e)) v = (Inr (Some f), v\<lparr>ticks := Suc (ticks v)\<rparr>)"
proof -
  define c where "c = e @ ''.'' @ state_hmac_hex env e"
  have r: "py_rpartition CHR ''.'' c = (e, True, state_hmac_hex env e)"
    using mac(2) by (simp add: c_def py_rpartition_iff)
  have p: "signed_payload env c = Inr (Some (flow_json f t))"
    using r mac(1) parse by (simp add: signed_payload_def compare_digest_def urlsafe_roundtrip ensure_def e) (simp add: flow_json_def)
  have i: "int_of (get_or (flow_json f t) ''issued_at'' JNull) = Some t" by (simp add: flow_json_def get_or_def)
  have "truthy (Some c)" by (simp add: truthy_def c_def)
  with flow_of_json [OF assms(1,2,6,7)] show ?thesis
    unfolding c_def [symmetric]
    by (simp add: decode_oauth_flow_def p i ecatch_def elift_def ebind_def prim_simps eret_def)
qed

definition sample_flow :: oauth_flow where
  "sample_flow = \<lparr>of_state = ''s'', of_mode = ''login'', of_redirect_path = ''/hub'', of_user_id = None\<rparr>"

definition flow_env :: auth_env where
  "flow_env = sample_env\<lparr>parse_json := (\<lambda>s. if s = flow_payload sample_flow 20 then Inr (flow_json sample_flow 20)
     else Inl (Raise ValueError (Msg [])))\<rparr>"

lemma sample_flow_ok:
  "of_mode sample_flow = ''login'' \<or> of_mode sample_flow = ''link'' \<and> truthy (of_user_id sample_flow)"
  "safe_redirect_path (Some (of_redirect_path sample_flow)) = of_redirect_path sample_flow"
  "parse_json flow_env (flow_payload sample_flow 20) = Inr (flow_json sample_flow 20)"
  "is_ascii (state_hmac_hex flow_env s)" "CHR ''.'' \<notin> set (state_hmac_hex flow_env s)"
  "20 = timestamp (clock flow_env (ticks (world_of sample_db)))"
  "0 \<le> clock flow_env (ticks (world_of sample_db)) - microseconds 20"
  "clock flow_env (ticks (world_of sample_db)) - microseconds 20 \<le> microseconds 600"
proof -
  show "safe_redirect_path (Some (of_redirect_path sample_flow)) = of_redirect_path sample_flow" by code_simp
qed (simp_all add: sample_flow_def flow_env_def sample_env_def world_of_def timestamp_def microseconds_def is_ascii_def)



text \<open>C38. The flow put into the cookie at the redirect is the flow read back at the callback,
  within ten minutes: nothing is lost in the base64 text, whose padding is dropped, or in the signature.\<close>

theorem oauth_flow_roundtrip:
  assumes "of_mode f = ''login'' \<or> of_mode f = ''link'' \<and> truthy (of_user_id f)"
    and "safe_redirect_path (Some (of_redirect_path f)) = of_redirect_path f"
    and parse: "parse_json env (flow_payload f t) = Inr (flow_json f t)"
    and mac: "\<And>s. is_ascii (state_hmac_hex env s)" "\<And>s. CHR ''.'' \<notin> set (state_hmac_hex env s)"
    and t: "t = timestamp (clock env (ticks w))"
    and "0 \<le> clock env (ticks v) - microseconds t" and "clock env (ticks v) - microseconds t \<le> microseconds 600"
  shows "\<exists>c x y. encode_oauth_flow env f w = (Inr c, x) \<and> decode_oauth_flow env (Some c) v = (Inr (Some f), y)"
proof -
  let ?e = "rstrip_pads (urlsafe_b64encode (flow_payload f t))"
  have "encode_oauth_flow env f w = (Inr (?e @ ''.'' @ state_hmac_hex env ?e), w\<lparr>ticks := Suc (ticks w)\<rparr>)"
    by (simp add: encode_oauth_flow_def ebind_def prim_simps Let_def eret_def t)
  with flow_decodes [OF assms(1-5,7,8) refl] show ?thesis by blast
qed

theorem oauth_flow_roundtrip_witness:
  "\<exists>c x y. encode_oauth_flow flow_env sample_flow (world_of sample_db) = (Inr c, x) \<and>
     decode_oauth_flow flow_env (Some c) (world_of sample_db) = (Inr (Some sample_flow), y)"
  by (rule oauth_flow_roundtrip [OF sample_flow_ok])

end
