(* ===== verification/Registry_Schema.thy ===== *)
theory Registry_Schema
  imports Registry Effects
begin

text \<open>
  The relational registry of \<open>web/backend/app/db/models.py\<close>: one record per mapped class, one
  \<open>table\<close> value per table with its column types, CHECK, UNIQUE and FOREIGN KEY constraints, the
  statements the repository issues on it (insert, insert with \<open>ON CONFLICT DO NOTHING\<close>, update of
  a loaded object, with the \<open>before_flush\<close> guard \<open>protect_history\<close>), and the transaction around
  them. A failed transaction restores every table; the sequences behind the generated ids are not
  transactional in PostgreSQL and keep their values. \<open>created_at\<close> and \<open>updated_at\<close>, written by the
  server and read by no code, are left out. Text is UTF-8, ordered by its bytes.
\<close>

section \<open>Rows\<close>

record db_publisher =
  pb_id :: string
  pb_name :: string

record db_module =
  mo_id :: string
  mo_name :: string
  mo_description :: "string option"
  mo_homepage :: "string option"
  mo_documentation_url :: "string option"
  mo_publisher_id :: string
  mo_classification :: string
  mo_license :: string
  mo_source_repository :: string

record db_artifact =
  ar_id :: nat
  ar_digest_algorithm :: string
  ar_digest :: string
  ar_byte_size :: "int option"
  ar_storage_locator :: "string option"

record db_provenance =
  bp_id :: nat
  bp_source_repository :: string
  bp_source_tag :: "string option"
  bp_source_commit :: string
  bp_builder_version :: "string option"
  bp_builder_commit :: "string option"
  bp_host_commit :: "string option"
  bp_reproducible :: "bool option"
  bp_host_contract_status :: "string option"
  bp_environment_json :: "json option"
  bp_imported_at :: "int option"

record db_version =
  mv_module_id :: string
  mv_version :: string
  mv_artifact_id :: nat
  mv_artifact_original_url :: string
  mv_historical_order :: int
  mv_build_provenance_id :: "nat option"
  mv_bundle_format_version :: int
  mv_source_tag :: "string option"
  mv_source_commit :: string
  mv_host_compatibility :: string
  mv_sdk_compatibility :: string
  mv_channel :: string
  mv_published_at :: "int option"
  mv_imported_at :: int

record db_channel =
  mc_module_id :: string
  mc_channel :: string
  mc_version :: string
  mc_revision :: int

record db_dependency =
  dp_owner_module_id :: string
  dp_owner_version :: string
  dp_module_id :: string
  dp_specifier :: string

record db_promotion =
  pe_idempotency_key :: string
  pe_module_id :: string
  pe_version :: string
  pe_channel :: string
  pe_candidate_digest :: string
  pe_approval_reference :: string
  pe_approval_identity :: string
  pe_previous_channel_version :: "string option"
  pe_new_channel_version :: string
  pe_intent :: json
  pe_result :: json

record registry_db =
  t_publishers :: "db_publisher list"
  t_modules :: "db_module list"
  t_artifacts :: "db_artifact list"
  t_provenance :: "db_provenance list"
  t_versions :: "db_version list"
  t_channels :: "db_channel list"
  t_dependencies :: "db_dependency list"
  t_promotions :: "db_promotion list"
  alembic_version :: "string list"
  seq_artifact :: nat
  seq_provenance :: nat

section \<open>Column types and constraints\<close>

definition is_blank :: "string \<Rightarrow> bool" where
  "is_blank s = list_all (\<lambda>c. c = CHR '' '') s"

definition text_ok :: "string \<Rightarrow> bool" where
  "text_ok s = list_all (\<lambda>c. c \<noteq> CHR 0x00) s"

abbreviation opt_all :: "('a \<Rightarrow> bool) \<Rightarrow> 'a option \<Rightarrow> bool" where
  "opt_all P m \<equiv> (case m of None \<Rightarrow> True | Some x \<Rightarrow> P x)"

definition int4 :: "int \<Rightarrow> bool" where
  "int4 i = (- (2 ^ 31) \<le> i \<and> i < 2 ^ 31)"

definition int8 :: "int \<Rightarrow> bool" where
  "int8 i = (- (2 ^ 63) \<le> i \<and> i < 2 ^ 63)"

fun jsonb_ok :: "json \<Rightarrow> bool" where
  "jsonb_ok (JFloat r) = (\<not> is_special r)"
| "jsonb_ok (JStr s) = text_ok s"
| "jsonb_ok (JList xs) = list_all jsonb_ok xs"
| "jsonb_ok (JObj d) = list_all (\<lambda>(k, v). text_ok k \<and> jsonb_ok v) d"
| "jsonb_ok _ = True"

definition stable_ok :: "string \<Rightarrow> string \<Rightarrow> bool" where
  "stable_ok channel version = (channel \<noteq> ''stable'' \<or> CHR ''-'' \<notin> set (fst (py_partition CHR ''+'' version)))"

text \<open>
  A table: its rows in the database and how they are replaced, the values its columns can hold,
  its CHECK constraints, the rows that would violate its primary key or a UNIQUE constraint, and
  its references to other tables.
\<close>

record 'r table =
  tb_rows :: "registry_db \<Rightarrow> 'r list"
  tb_put :: "'r list \<Rightarrow> registry_db \<Rightarrow> registry_db"
  tb_types :: "'r \<Rightarrow> bool"
  tb_check :: "'r \<Rightarrow> bool"
  tb_clash :: "'r \<Rightarrow> 'r \<Rightarrow> bool"
  tb_refs :: "registry_db \<Rightarrow> 'r \<Rightarrow> bool"

definition Publisher :: "db_publisher table" where
  "Publisher = \<lparr>tb_rows = t_publishers, tb_put = (\<lambda>rs db. db\<lparr>t_publishers := rs\<rparr>),
     tb_types = (\<lambda>r. text_ok (pb_id r) \<and> text_ok (pb_name r)),
     tb_check = (\<lambda>r. \<not> is_blank (pb_id r) \<and> \<not> is_blank (pb_name r)),
     tb_clash = (\<lambda>r r'. pb_id r = pb_id r'),
     tb_refs = (\<lambda>_ _. True)\<rparr>"

definition Module :: "db_module table" where
  "Module = \<lparr>tb_rows = t_modules, tb_put = (\<lambda>rs db. db\<lparr>t_modules := rs\<rparr>),
     tb_types = (\<lambda>r. list_all text_ok [mo_id r, mo_name r, mo_publisher_id r, mo_classification r, mo_license r, mo_source_repository r]
       \<and> list_all (opt_all text_ok) [mo_description r, mo_homepage r, mo_documentation_url r]),
     tb_check = (\<lambda>r. fullmatch MODULE_ID_RE (mo_id r) \<and> mo_classification r \<in> set CLASSIFICATIONS
       \<and> \<not> is_blank (mo_source_repository r) \<and> \<not> is_blank (mo_name r) \<and> \<not> is_blank (mo_license r)),
     tb_clash = (\<lambda>r r'. mo_id r = mo_id r'),
     tb_refs = (\<lambda>db r. list_ex (\<lambda>p. pb_id p = mo_publisher_id r) (t_publishers db))\<rparr>"

definition Artifact :: "db_artifact table" where
  "Artifact = \<lparr>tb_rows = t_artifacts, tb_put = (\<lambda>rs db. db\<lparr>t_artifacts := rs\<rparr>),
     tb_types = (\<lambda>r. int8 (int (ar_id r)) \<and> text_ok (ar_digest_algorithm r) \<and> text_ok (ar_digest r)
       \<and> opt_all int8 (ar_byte_size r) \<and> opt_all text_ok (ar_storage_locator r)),
     tb_check = (\<lambda>r. ar_digest_algorithm r = ''sha256'' \<and> fullmatch SHA256_RE (ar_digest r)
       \<and> opt_all (\<lambda>n. 0 \<le> n) (ar_byte_size r) \<and> opt_all (\<lambda>l. \<not> is_blank l) (ar_storage_locator r)),
     tb_clash = (\<lambda>r r'. ar_id r = ar_id r'
       \<or> (ar_digest_algorithm r = ar_digest_algorithm r' \<and> ar_digest r = ar_digest r')),
     tb_refs = (\<lambda>_ _. True)\<rparr>"

definition BuildProvenance :: "db_provenance table" where
  "BuildProvenance = \<lparr>tb_rows = t_provenance, tb_put = (\<lambda>rs db. db\<lparr>t_provenance := rs\<rparr>),
     tb_types = (\<lambda>r. int8 (int (bp_id r)) \<and> text_ok (bp_source_repository r) \<and> text_ok (bp_source_commit r)
       \<and> list_all (opt_all text_ok) [bp_source_tag r, bp_builder_version r, bp_builder_commit r,
            bp_host_commit r, bp_host_contract_status r]
       \<and> opt_all jsonb_ok (bp_environment_json r)),
     tb_check = (\<lambda>r. \<not> is_blank (bp_source_repository r) \<and> fullmatch COMMIT_RE (bp_source_commit r)
       \<and> opt_all (\<lambda>s. s \<in> {''passed'', ''failed''}) (bp_host_contract_status r)),
     tb_clash = (\<lambda>r r'. bp_id r = bp_id r'),
     tb_refs = (\<lambda>_ _. True)\<rparr>"

definition ModuleVersion :: "db_version table" where
  "ModuleVersion = \<lparr>tb_rows = t_versions, tb_put = (\<lambda>rs db. db\<lparr>t_versions := rs\<rparr>),
     tb_types = (\<lambda>r. list_all text_ok [mv_module_id r, mv_version r, mv_artifact_original_url r, mv_source_commit r,
            mv_host_compatibility r, mv_sdk_compatibility r, mv_channel r]
       \<and> opt_all text_ok (mv_source_tag r) \<and> int4 (mv_historical_order r) \<and> int4 (mv_bundle_format_version r)),
     tb_check = (\<lambda>r. \<not> is_blank (mv_version r) \<and> 0 \<le> mv_historical_order r \<and> mv_bundle_format_version r = 1
       \<and> fullmatch COMMIT_RE (mv_source_commit r) \<and> \<not> is_blank (mv_artifact_original_url r)
       \<and> \<not> is_blank (mv_host_compatibility r) \<and> \<not> is_blank (mv_sdk_compatibility r)
       \<and> mv_channel r \<in> set CHANNELS \<and> stable_ok (mv_channel r) (mv_version r)),
     tb_clash = (\<lambda>r r'. mv_module_id r = mv_module_id r' \<and> mv_version r = mv_version r'),
     tb_refs = (\<lambda>db r. list_ex (\<lambda>m. mo_id m = mv_module_id r) (t_modules db)
       \<and> list_ex (\<lambda>a. ar_id a = mv_artifact_id r) (t_artifacts db)
       \<and> opt_all (\<lambda>i. list_ex (\<lambda>p. bp_id p = i) (t_provenance db)) (mv_build_provenance_id r))\<rparr>"

text \<open>The reference to \<open>(module_versions.module_id, module_versions.version)\<close>.\<close>

definition version_exists :: "registry_db \<Rightarrow> string \<Rightarrow> string \<Rightarrow> bool" where
  "version_exists db m v = list_ex (\<lambda>r. mv_module_id r = m \<and> mv_version r = v) (t_versions db)"

definition ModuleChannel :: "db_channel table" where
  "ModuleChannel = \<lparr>tb_rows = t_channels, tb_put = (\<lambda>rs db. db\<lparr>t_channels := rs\<rparr>),
     tb_types = (\<lambda>r. list_all text_ok [mc_module_id r, mc_channel r, mc_version r] \<and> int8 (mc_revision r)),
     tb_check = (\<lambda>r. mc_channel r \<in> set CHANNELS \<and> 1 \<le> mc_revision r \<and> stable_ok (mc_channel r) (mc_version r)),
     tb_clash = (\<lambda>r r'. mc_module_id r = mc_module_id r' \<and> mc_channel r = mc_channel r'),
     tb_refs = (\<lambda>db r. version_exists db (mc_module_id r) (mc_version r))\<rparr>"

definition ModuleDependency :: "db_dependency table" where
  "ModuleDependency = \<lparr>tb_rows = t_dependencies, tb_put = (\<lambda>rs db. db\<lparr>t_dependencies := rs\<rparr>),
     tb_types = (\<lambda>r. list_all text_ok [dp_owner_module_id r, dp_owner_version r, dp_module_id r, dp_specifier r]),
     tb_check = (\<lambda>r. \<not> is_blank (dp_specifier r) \<and> dp_owner_module_id r \<noteq> dp_module_id r),
     tb_clash = (\<lambda>r r'. dp_owner_module_id r = dp_owner_module_id r' \<and> dp_owner_version r = dp_owner_version r'
       \<and> dp_module_id r = dp_module_id r'),
     tb_refs = (\<lambda>db r. list_ex (\<lambda>m. mo_id m = dp_module_id r) (t_modules db)
       \<and> version_exists db (dp_owner_module_id r) (dp_owner_version r))\<rparr>"

definition PromotionEvent :: "db_promotion table" where
  "PromotionEvent = \<lparr>tb_rows = t_promotions, tb_put = (\<lambda>rs db. db\<lparr>t_promotions := rs\<rparr>),
     tb_types = (\<lambda>r. list_all text_ok [pe_idempotency_key r, pe_module_id r, pe_version r, pe_channel r,
            pe_candidate_digest r, pe_approval_reference r, pe_approval_identity r, pe_new_channel_version r]
       \<and> opt_all text_ok (pe_previous_channel_version r) \<and> jsonb_ok (pe_intent r) \<and> jsonb_ok (pe_result r)),
     tb_check = (\<lambda>r. pe_channel r \<in> set CHANNELS \<and> fullmatch SHA256_RE (pe_candidate_digest r)
       \<and> pe_new_channel_version r = pe_version r),
     tb_clash = (\<lambda>r r'. pe_idempotency_key r = pe_idempotency_key r'
       \<or> (pe_module_id r = pe_module_id r' \<and> pe_version r = pe_version r')),
     tb_refs = (\<lambda>db r. version_exists db (pe_module_id r) (pe_version r))\<rparr>"

section \<open>Published history\<close>

text \<open>
  The mapped objects of a session, and the attributes \<open>protect_history\<close> finds changed between the
  loaded and the pending state. \<open>created_at\<close> is not in the model, so it never changes.
\<close>

datatype orm_object =
    Orm_Publisher db_publisher
  | Orm_Module db_module
  | Orm_Artifact db_artifact
  | Orm_BuildProvenance db_provenance
  | Orm_ModuleVersion db_version
  | Orm_ModuleChannel db_channel
  | Orm_ModuleDependency db_dependency
  | Orm_PromotionEvent db_promotion

fun is_immutable :: "orm_object \<Rightarrow> bool" where
  "is_immutable (Orm_ModuleVersion _) = True"
| "is_immutable (Orm_ModuleDependency _) = True"
| "is_immutable (Orm_BuildProvenance _) = True"
| "is_immutable (Orm_PromotionEvent _) = True"
| "is_immutable _ = False"

fun is_artifact :: "orm_object \<Rightarrow> bool" where
  "is_artifact (Orm_Artifact _) = True"
| "is_artifact _ = False"

text \<open>A protected attribute differs between the two states of an object.\<close>

fun protected_changed :: "orm_object \<Rightarrow> orm_object \<Rightarrow> bool" where
  "protected_changed (Orm_Artifact a) (Orm_Artifact b) =
     (ar_id a \<noteq> ar_id b \<or> ar_digest_algorithm a \<noteq> ar_digest_algorithm b \<or> ar_digest a \<noteq> ar_digest b)"
| "protected_changed (Orm_Module a) (Orm_Module b) =
     (mo_id a \<noteq> mo_id b \<or> mo_publisher_id a \<noteq> mo_publisher_id b \<or> mo_classification a \<noteq> mo_classification b
      \<or> mo_license a \<noteq> mo_license b \<or> mo_source_repository a \<noteq> mo_source_repository b)"
| "protected_changed (Orm_Publisher a) (Orm_Publisher b) = (pb_id a \<noteq> pb_id b)"
| "protected_changed _ _ = False"

definition protect_history :: "orm_object list \<Rightarrow> (orm_object \<times> orm_object) list \<Rightarrow> exn + unit" where
  "protect_history deleted dirty =
     rbind (rall (\<lambda>obj. ensure (\<not> (is_immutable obj \<or> is_artifact obj))
         (Raise ImmutableRecordError (Msg ''cannot be deleted''))) deleted) (\<lambda>_.
     rall (\<lambda>(old, new).
         rbind (ensure (\<not> (is_immutable old \<and> new \<noteq> old)) (Raise ImmutableRecordError (Msg ''immutable''))) (\<lambda>_.
         ensure (\<not> protected_changed old new) (Raise ImmutableRecordError (Msg ''protected'')))) dirty)"

section \<open>Statements\<close>

abbreviation data_error :: exn where
  "data_error \<equiv> Raise SQLAlchemyError (Msg ''DataError'')"

abbreviation integrity_error :: exn where
  "integrity_error \<equiv> Raise IntegrityError (Msg ''registry'')"

definition is_SQLAlchemyError :: "exn \<Rightarrow> bool" where
  "is_SQLAlchemyError e = (exn_class e \<in> {SQLAlchemyError, IntegrityError})"

text \<open>\<open>INSERT\<close>, with or without \<open>ON CONFLICT DO NOTHING\<close>.\<close>

definition insert_row :: "('r, 'z) table_scheme \<Rightarrow> bool \<Rightarrow> 'r \<Rightarrow> (registry_db, unit) op" where
  "insert_row T do_nothing r =
     ebind (eensure (tb_types T r) data_error) (\<lambda>_.
     ebind (eensure (tb_check T r) integrity_error) (\<lambda>_.
     ebind (eget (\<lambda>db. list_ex (tb_clash T r) (tb_rows T db))) (\<lambda>clash.
     if clash then (if do_nothing then eret () else eraise integrity_error)
     else
       ebind (eget (\<lambda>db. tb_refs T db r)) (\<lambda>ok.
       ebind (eensure ok integrity_error) (\<lambda>_.
       emodify (\<lambda>db. tb_put T (tb_rows T db @ [r]) db))))))"

text \<open>The flush of a loaded object with pending changes: nothing is written when it is unchanged.\<close>

definition update_row ::
    "('r, 'z) table_scheme \<Rightarrow> ('r \<Rightarrow> orm_object) \<Rightarrow> 'r \<Rightarrow> 'r \<Rightarrow> (registry_db, unit) op" where
  "update_row T orm old new =
     ebind (elift (protect_history [] [(orm old, orm new)])) (\<lambda>_.
     if new = old then eret ()
     else
       ebind (eensure (tb_types T new) data_error) (\<lambda>_.
       ebind (eensure (tb_check T new) integrity_error) (\<lambda>_.
       ebind (eget (\<lambda>db. tb_refs T db new)) (\<lambda>ok.
       ebind (eensure ok integrity_error) (\<lambda>_.
       emodify (\<lambda>db. tb_put T (map (\<lambda>r. if r = old then new else r) (tb_rows T db)) db))))))"

definition rollback :: "registry_db \<Rightarrow> registry_db \<Rightarrow> registry_db" where
  "rollback db db' = db\<lparr>seq_artifact := seq_artifact db', seq_provenance := seq_provenance db'\<rparr>"

text \<open>\<open>with Session(engine) as session, session.begin()\<close>.\<close>

definition transaction :: "(registry_db, 'a) op \<Rightarrow> (registry_db, 'a) op" where
  "transaction m db = (case m db of (Inl e, db') \<Rightarrow> (Inl e, rollback db db') | (Inr x, db') \<Rightarrow> (Inr x, db'))"

text \<open>The tables of a database, without the sequences.\<close>

definition same_tables :: "registry_db \<Rightarrow> registry_db \<Rightarrow> bool" where
  "same_tables db db' = (rollback db db' = db')"

end
