(* ===== verification/Registry_Db.thy ===== *)
theory Registry_Db
  imports Registry_Schema
begin

text \<open>
  \<open>RegistryDatabaseRepository\<close> (\<open>web/backend/app/db/repository.py\<close>) over the tables of
  \<open>Registry_Schema\<close>: \<open>ensure_record\<close>, the two structures of registry v1, \<open>insert_published_version\<close>,
  the projection \<open>project_v1\<close>, the channel pointers and the queries of the read API. \<open>sch\<close> is the JSON
  Schema validator and \<open>now\<close> the transaction time of the server. A query without \<open>ORDER BY\<close> returns
  the rows in the order of the table.
\<close>

abbreviation conflict :: "string \<Rightarrow> exn" where
  "conflict m \<equiv> Raise RegistryConflict (Msg m)"

section \<open>Records\<close>

text \<open>
  \<open>ensure_record(model, key, **values)\<close>: \<open>is_key\<close> selects the row of the key, \<open>agrees\<close> compares every
  expected attribute, \<open>new\<close> is the row of the insert, with its server defaults.
\<close>

definition ensure_record ::
    "('r, 'z) table_scheme \<Rightarrow> ('r \<Rightarrow> bool) \<Rightarrow> ('r \<Rightarrow> bool) \<Rightarrow> (registry_db, 'r) op \<Rightarrow> (registry_db, 'r) op" where
  "ensure_record T is_key agrees new =
     ebind (eget (\<lambda>db. py_next is_key (tb_rows T db))) (\<lambda>record.
     ebind (case record of
         Some r \<Rightarrow> eret (Some r)
       | None \<Rightarrow>
           ebind new (\<lambda>r.
           ebind (insert_row T True r) (\<lambda>_.
           eget (\<lambda>db. py_next is_key (tb_rows T db))))) (\<lambda>record.
     case record of
       None \<Rightarrow> eraise (conflict ''Conflicting record'')
     | Some r \<Rightarrow> if agrees r then eret r else eraise (conflict ''Conflicting record'')))"

text \<open>\<open>session.get(Model, key)\<close>.\<close>

definition get_publisher :: "string \<Rightarrow> (registry_db, db_publisher option) op" where
  "get_publisher i = eget (\<lambda>db. py_next (\<lambda>p. pb_id p = i) (t_publishers db))"

definition get_module :: "string \<Rightarrow> (registry_db, db_module option) op" where
  "get_module i = eget (\<lambda>db. py_next (\<lambda>m. mo_id m = i) (t_modules db))"

definition get_artifact :: "nat \<Rightarrow> (registry_db, db_artifact option) op" where
  "get_artifact i = eget (\<lambda>db. py_next (\<lambda>a. ar_id a = i) (t_artifacts db))"

definition get_provenance :: "nat option \<Rightarrow> (registry_db, db_provenance option) op" where
  "get_provenance k = (case k of None \<Rightarrow> eret None
     | Some i \<Rightarrow> eget (\<lambda>db. py_next (\<lambda>p. bp_id p = i) (t_provenance db)))"

definition get_version :: "string \<Rightarrow> string \<Rightarrow> (registry_db, db_version option) op" where
  "get_version m v = eget (\<lambda>db. py_next (\<lambda>r. mv_module_id r = m \<and> mv_version r = v) (t_versions db))"

definition get_channel :: "string \<Rightarrow> string \<Rightarrow> (registry_db, db_channel option) op" where
  "get_channel m c = eget (\<lambda>db. py_next (\<lambda>r. mc_module_id r = m \<and> mc_channel r = c) (t_channels db))"

text \<open>An attribute of \<open>None\<close>.\<close>

definition deref :: "'a option \<Rightarrow> (registry_db, 'a) op" where
  "deref m = (case m of None \<Rightarrow> eraise (Raise AttributeError (Msg ''NoneType'')) | Some x \<Rightarrow> eret x)"

text \<open>The object \<open>ensure_record(Artifact, {"digest_algorithm": "sha256", "digest": digest})\<close>.\<close>

definition new_artifact :: "string \<Rightarrow> (registry_db, db_artifact) op" where
  "new_artifact digest =
     ebind (eget seq_artifact) (\<lambda>i.
     ebind (emodify (\<lambda>db. db\<lparr>seq_artifact := Suc i\<rparr>)) (\<lambda>_.
     eret \<lparr>ar_id = i, ar_digest_algorithm = ''sha256'', ar_digest = digest, ar_byte_size = None,
       ar_storage_locator = None\<rparr>))"

definition ensure_artifact :: "string \<Rightarrow> (registry_db, db_artifact) op" where
  "ensure_artifact digest =
     ensure_record Artifact (\<lambda>a. ar_digest_algorithm a = ''sha256'' \<and> ar_digest a = digest)
       (\<lambda>a. ar_digest_algorithm a = ''sha256'' \<and> ar_digest a = digest) (new_artifact digest)"

section \<open>Registry v1 structures\<close>

definition optional_field :: "string \<Rightarrow> string option \<Rightarrow> (string \<times> json) list" where
  "optional_field k m = (case m of None \<Rightarrow> [] | Some s \<Rightarrow> [(k, JStr s)])"

definition module_structure :: "db_module \<Rightarrow> db_publisher \<Rightarrow> (string \<times> json) list" where
  "module_structure m p =
     [(''schema_version'', JInt 1), (''id'', JStr (mo_id m)), (''name'', JStr (mo_name m)),
      (''publisher'', JObj [(''id'', JStr (pb_id p)), (''name'', JStr (pb_name p))]),
      (''classification'', JStr (mo_classification m)), (''license'', JStr (mo_license m)),
      (''source_repository'', JStr (mo_source_repository m))]
     @ optional_field ''description'' (mo_description m)
     @ optional_field ''homepage'' (mo_homepage m)
     @ optional_field ''documentation_url'' (mo_documentation_url m)"

definition load_module_structure :: "db_module \<Rightarrow> (registry_db, (string \<times> json) list) op" where
  "load_module_structure m =
     ebind (get_publisher (mo_publisher_id m)) (\<lambda>p.
     ebind (deref p) (\<lambda>p. eret (module_structure m p)))"

definition release_structure :: "db_version \<Rightarrow> db_artifact \<Rightarrow> db_dependency list \<Rightarrow> json" where
  "release_structure v a ds =
     JObj ([(''version'', JStr (mv_version v)), (''channel'', JStr (mv_channel v)),
       (''artifact'', JObj [(''url'', JStr (mv_artifact_original_url v)), (''sha256'', JStr (ar_digest a))]),
       (''bundle_format_version'', JInt (mv_bundle_format_version v)),
       (''source_commit'', JStr (mv_source_commit v)),
       (''requires'', JObj [(''host'', JStr (mv_host_compatibility v)), (''sdk'', JStr (mv_sdk_compatibility v)),
          (''modules'', JObj (dict_of (map (\<lambda>d. (dp_module_id d, JStr (dp_specifier d))) ds)))])]
       @ optional_field ''source_tag'' (mv_source_tag v))"

definition owned_dependencies :: "registry_db \<Rightarrow> string \<Rightarrow> string \<Rightarrow> db_dependency list" where
  "owned_dependencies db m v =
     filter (\<lambda>d. dp_owner_module_id d = m \<and> dp_owner_version d = v) (t_dependencies db)"

definition load_release_structure :: "db_version \<Rightarrow> (registry_db, json) op" where
  "load_release_structure v =
     ebind (get_artifact (mv_artifact_id v)) (\<lambda>a.
     ebind (deref a) (\<lambda>a.
     ebind (eget (\<lambda>db. owned_dependencies db (mv_module_id v) (mv_version v))) (\<lambda>ds.
     eret (release_structure v a ds))))"

section \<open>Publishing a version\<close>

definition historical_provenance :: "db_module \<Rightarrow> json \<Rightarrow> exn + (string \<times> json) list" where
  "historical_provenance m release =
     rbind (getitem release ''source_commit'') (\<lambda>commit.
     Inr [(''source_repository'', JStr (mo_source_repository m)), (''source_tag'', get_or release ''source_tag'' JNull),
       (''source_commit'', commit), (''builder_version'', JNull), (''builder_commit'', JNull),
       (''host_commit'', JNull), (''reproducible'', JNull), (''host_contract_status'', JNull),
       (''environment_json'', JNull)])"

fun json_opt :: "('a \<Rightarrow> json) \<Rightarrow> 'a option \<Rightarrow> json" where
  "json_opt f None = JNull"
| "json_opt f (Some x) = f x"

text \<open>The attributes of a provenance row, as the values \<open>getattr\<close> returns.\<close>

definition provenance_fields :: "db_provenance \<Rightarrow> (string \<times> json) list" where
  "provenance_fields p =
     [(''source_repository'', JStr (bp_source_repository p)), (''source_tag'', json_opt JStr (bp_source_tag p)),
      (''source_commit'', JStr (bp_source_commit p)), (''builder_version'', json_opt JStr (bp_builder_version p)),
      (''builder_commit'', json_opt JStr (bp_builder_commit p)), (''host_commit'', json_opt JStr (bp_host_commit p)),
      (''reproducible'', json_opt JBool (bp_reproducible p)),
      (''host_contract_status'', json_opt JStr (bp_host_contract_status p)),
      (''environment_json'', json_opt id (bp_environment_json p))]"

definition same_evidence :: "db_provenance \<Rightarrow> (string \<times> json) list \<Rightarrow> bool" where
  "same_evidence p evidence =
     list_all (\<lambda>(field, v). case dict_get (provenance_fields p) field of None \<Rightarrow> False | Some w \<Rightarrow> py_eq w v) evidence"

text \<open>Binding a value to a column: text, nullable text and nullable boolean. JSON \<open>null\<close> reads as \<open>None\<close>.\<close>

fun text_param :: "json \<Rightarrow> exn + string" where
  "text_param (JStr s) = Inr s"
| "text_param JNull = Inl integrity_error"
| "text_param _ = Inl data_error"

fun null_text_param :: "json \<Rightarrow> exn + string option" where
  "null_text_param (JStr s) = Inr (Some s)"
| "null_text_param JNull = Inr None"
| "null_text_param _ = Inl data_error"

fun null_bool_param :: "json \<Rightarrow> exn + bool option" where
  "null_bool_param (JBool b) = Inr (Some b)"
| "null_bool_param JNull = Inr None"
| "null_bool_param _ = Inl data_error"

fun json_param :: "json \<Rightarrow> json option" where
  "json_param JNull = None"
| "json_param v = Some v"

text \<open>An integer column accepts an integer, and a float by assignment; a boolean is rejected.\<close>

definition int_param :: "json \<Rightarrow> exn + int" where
  "int_param v = (case v of
       JInt i \<Rightarrow> Inr i
     | JFloat r \<Rightarrow> if is_special r then Inl data_error else Inr (round (float_val r))
     | _ \<Rightarrow> Inl data_error)"

definition provenance_row :: "(string \<times> json) list \<Rightarrow> nat \<Rightarrow> int option \<Rightarrow> exn + db_provenance" where
  "provenance_row evidence i imported =
     (let field = (\<lambda>k. get_or (JObj evidence) k JNull) in
      rbind (text_param (field ''source_repository'')) (\<lambda>repository.
      rbind (null_text_param (field ''source_tag'')) (\<lambda>tag.
      rbind (text_param (field ''source_commit'')) (\<lambda>commit.
      rbind (null_text_param (field ''builder_version'')) (\<lambda>bv.
      rbind (null_text_param (field ''builder_commit'')) (\<lambda>bc.
      rbind (null_text_param (field ''host_commit'')) (\<lambda>hc.
      rbind (null_bool_param (field ''reproducible'')) (\<lambda>rep.
      rbind (null_text_param (field ''host_contract_status'')) (\<lambda>hs.
      Inr \<lparr>bp_id = i, bp_source_repository = repository, bp_source_tag = tag, bp_source_commit = commit,
        bp_builder_version = bv, bp_builder_commit = bc, bp_host_commit = hc, bp_reproducible = rep,
        bp_host_contract_status = hs, bp_environment_json = json_param (field ''environment_json''),
        bp_imported_at = imported\<rparr>)))))))))"

definition add_provenance :: "(string \<times> json) list \<Rightarrow> int option \<Rightarrow> (registry_db, nat) op" where
  "add_provenance evidence imported =
     ebind (eget seq_provenance) (\<lambda>i.
     ebind (emodify (\<lambda>db. db\<lparr>seq_provenance := Suc i\<rparr>)) (\<lambda>_.
     ebind (elift (provenance_row evidence i imported)) (\<lambda>row.
     ebind (insert_row BuildProvenance False row) (\<lambda>_. eret i))))"

definition version_row ::
    "string \<Rightarrow> json \<Rightarrow> int \<Rightarrow> nat \<Rightarrow> nat \<Rightarrow> int \<Rightarrow> int option \<Rightarrow> exn + db_version" where
  "version_row module_id release order artifact_id provenance_id now published =
     rbind (str_item release ''version'') (\<lambda>version.
     rbind (getitem release ''artifact'') (\<lambda>artifact.
     rbind (str_item artifact ''url'') (\<lambda>url.
     rbind (getitem release ''bundle_format_version'') (\<lambda>bfv.
     rbind (int_param bfv) (\<lambda>bundle_format.
     rbind (null_text_param (get_or release ''source_tag'' JNull)) (\<lambda>tag.
     rbind (str_item release ''source_commit'') (\<lambda>commit.
     rbind (getitem release ''requires'') (\<lambda>requires.
     rbind (str_item requires ''host'') (\<lambda>host.
     rbind (str_item requires ''sdk'') (\<lambda>sdk.
     rbind (str_item release ''channel'') (\<lambda>channel.
     Inr \<lparr>mv_module_id = module_id, mv_version = version, mv_artifact_id = artifact_id,
       mv_artifact_original_url = url, mv_historical_order = order,
       mv_build_provenance_id = Some provenance_id, mv_bundle_format_version = bundle_format,
       mv_source_tag = tag, mv_source_commit = commit, mv_host_compatibility = host,
       mv_sdk_compatibility = sdk, mv_channel = channel, mv_published_at = published,
       mv_imported_at = now\<rparr>)))))))))))"

text \<open>\<open>func.max(historical_order)\<close> of a module, plus one.\<close>

definition next_order :: "registry_db \<Rightarrow> string \<Rightarrow> int" where
  "next_order db module_id =
     (case py_max id (map mv_historical_order (filter (\<lambda>r. mv_module_id r = module_id) (t_versions db))) of
        None \<Rightarrow> 0 | Some n \<Rightarrow> n + 1)"

text \<open>The branch for a version that exists: every attribute and its evidence must agree.\<close>

definition confirm_version ::
    "db_version \<Rightarrow> json \<Rightarrow> int option \<Rightarrow> bool \<Rightarrow> (string \<times> json) list \<Rightarrow> (registry_db, bool) op" where
  "confirm_version previous release order promoted evidence =
     ebind (eensure (opt_all (\<lambda>n. mv_historical_order previous = n) order)
         (conflict ''Historical version order conflict'')) (\<lambda>_.
     ebind (load_release_structure previous) (\<lambda>structure.
     ebind (eensure (py_eq structure release \<and> (mv_published_at previous \<noteq> None) = promoted)
         (conflict ''Immutable version conflict'')) (\<lambda>_.
     ebind (get_provenance (mv_build_provenance_id previous)) (\<lambda>provenance.
     ebind (eensure (case provenance of None \<Rightarrow> False | Some p \<Rightarrow> same_evidence p evidence)
         (conflict ''Historical provenance conflict'')) (\<lambda>_.
     ebind (get_artifact (mv_artifact_id previous)) (\<lambda>a.
     ebind (deref a) (\<lambda>a.
     ebind (eensure (ar_digest_algorithm a = ''sha256'') (conflict ''Artifact digest algorithm conflict'')) (\<lambda>_.
     eret False))))))))"

definition add_version ::
    "int \<Rightarrow> string \<Rightarrow> json \<Rightarrow> int option \<Rightarrow> bool \<Rightarrow> (string \<times> json) list \<Rightarrow> (registry_db, bool) op" where
  "add_version now module_id release order promoted evidence =
     ebind (case order of Some n \<Rightarrow> eret n | None \<Rightarrow> eget (\<lambda>db. next_order db module_id)) (\<lambda>position.
     ebind (elift (rbind (getitem release ''requires'') (\<lambda>r. getitem r ''modules''))) (\<lambda>dependencies.
     ebind (emap (\<lambda>(target, _).
         ebind (get_module target) (\<lambda>m.
         eensure (m \<noteq> None) (conflict ''Missing dependency module''))) (obj_items dependencies)) (\<lambda>_.
     ebind (elift (rbind (getitem release ''artifact'') (\<lambda>a. str_item a ''sha256''))) (\<lambda>digest.
     ebind (ensure_artifact digest) (\<lambda>artifact.
     ebind (add_provenance evidence (if promoted then None else Some now)) (\<lambda>provenance_id.
     ebind (elift (version_row module_id release position (ar_id artifact) provenance_id now
         (if promoted then Some now else None))) (\<lambda>row.
     ebind (insert_row ModuleVersion False row) (\<lambda>_.
     ebind (emap (\<lambda>(target, specifier).
         ebind (elift (text_param specifier)) (\<lambda>s.
         insert_row ModuleDependency False \<lparr>dp_owner_module_id = module_id, dp_owner_version = mv_version row,
           dp_module_id = target, dp_specifier = s\<rparr>)) (py_sorted fst (obj_items dependencies))) (\<lambda>_.
     eret True)))))))))"

definition insert_published_version ::
    "(string \<Rightarrow> json \<Rightarrow> bool) \<Rightarrow> int \<Rightarrow> string \<Rightarrow> json \<Rightarrow> int option \<Rightarrow> (string \<times> json) list option
      \<Rightarrow> (registry_db, bool) op" where
  "insert_published_version sch now module_id release order provenance_values =
     ebind (get_module module_id) (\<lambda>md.
     case md of
       None \<Rightarrow> eraise (conflict ''Missing module'')
     | Some m \<Rightarrow>
         ebind (load_module_structure m) (\<lambda>structure.
         ebind (elift (validate_module sch (JObj (structure @ [(''versions'', JList [release])])) None)) (\<lambda>_.
         ebind (case provenance_values of
             Some e \<Rightarrow> eret e | None \<Rightarrow> elift (historical_provenance m release)) (\<lambda>evidence.
         ebind (elift (str_item release ''version'')) (\<lambda>version.
         ebind (get_version module_id version) (\<lambda>previous.
         case previous of
           Some p \<Rightarrow> confirm_version p release order (provenance_values \<noteq> None) evidence
         | None \<Rightarrow> add_version now module_id release order (provenance_values \<noteq> None) evidence))))))"

section \<open>Queries\<close>

text \<open>
  \<open>LIKE\<close> with the escape character \<open>!\<close>, and \<open>ILIKE\<close>, which compares lower case: \<open>%\<close> matches any
  text and \<open>_\<close> any one character. Lower case is that of the C locale.
\<close>

fun like :: "string \<Rightarrow> string \<Rightarrow> bool" where
  "like [] s = (s = [])"
| "like (p # ps) s =
     (if p = CHR ''%'' then like ps s \<or> (case s of [] \<Rightarrow> False | c # cs \<Rightarrow> like (p # ps) cs)
      else if p = CHR ''_'' then (case s of [] \<Rightarrow> False | c # cs \<Rightarrow> like ps cs)
      else if p = CHR ''!'' \<and> ps \<noteq> [] then
        (case s of [] \<Rightarrow> False | c # cs \<Rightarrow> c = hd ps \<and> like (tl ps) cs)
      else (case s of [] \<Rightarrow> False | c # cs \<Rightarrow> c = p \<and> like ps cs))"

definition ilike :: "string \<Rightarrow> string \<Rightarrow> bool" where
  "ilike pattern s = like (py_lower pattern) (py_lower s)"

definition replace_char :: "char \<Rightarrow> string \<Rightarrow> string \<Rightarrow> string" where
  "replace_char c r s = concat (map (\<lambda>x. if x = c then r else [x]) s)"

definition search_pattern :: "string \<Rightarrow> string" where
  "search_pattern q = ''%'' @ replace_char CHR ''_'' ''!_'' (replace_char CHR ''%'' ''!%'' (replace_char CHR ''!'' ''!!'' q)) @ ''%''"

definition has_version :: "registry_db \<Rightarrow> string \<Rightarrow> bool" where
  "has_version db m = list_ex (\<lambda>v. mv_module_id v = m) (t_versions db)"

text \<open>The join of a module with its publisher.\<close>

definition module_publishers :: "registry_db \<Rightarrow> (db_module \<times> db_publisher) list" where
  "module_publishers db =
     concat (map (\<lambda>m. map (\<lambda>p. (m, p)) (filter (\<lambda>p. pb_id p = mo_publisher_id m) (t_publishers db))) (t_modules db))"

definition module_candidates ::
    "registry_db \<Rightarrow> string option \<Rightarrow> string option \<Rightarrow> string option \<Rightarrow> string option
      \<Rightarrow> (db_module \<times> db_publisher) list" where
  "module_candidates db module_id publisher classification q =
     py_sorted (\<lambda>(m, p). (mo_name m, mo_id m))
       (filter (\<lambda>(m, p). has_version db (mo_id m)
           \<and> opt_all (\<lambda>i. mo_id m = i) module_id
           \<and> opt_all (\<lambda>i. mo_publisher_id m = i) publisher
           \<and> opt_all (\<lambda>c. mo_classification m = c) classification
           \<and> opt_all (\<lambda>s. ilike (search_pattern s) (mo_id m) \<or> ilike (search_pattern s) (mo_name m)
               \<or> (case mo_description m of None \<Rightarrow> False | Some d \<Rightarrow> ilike (search_pattern s) d)
               \<or> ilike (search_pattern s) (pb_name p)) q)
         (module_publishers db))"

text \<open>The join of a version with its artifact.\<close>

definition version_artifacts :: "registry_db \<Rightarrow> (db_version \<times> db_artifact) list" where
  "version_artifacts db =
     concat (map (\<lambda>v. map (\<lambda>a. (v, a)) (filter (\<lambda>a. ar_id a = mv_artifact_id v) (t_artifacts db))) (t_versions db))"

definition module_releases :: "registry_db \<Rightarrow> string \<Rightarrow> json list" where
  "module_releases db module_id =
     map (\<lambda>(v, a). release_structure v a (owned_dependencies db (mv_module_id v) (mv_version v)))
       (filter (\<lambda>(v, a). mv_module_id v = module_id)
         (py_sorted (\<lambda>(v, a). (mv_module_id v, mv_historical_order v)) (version_artifacts db)))"

definition project_v1 :: "registry_db \<Rightarrow> string option \<Rightarrow> json list" where
  "project_v1 db module_id =
     map (\<lambda>(m, p). JObj (module_structure m p @ [(''versions'', JList (module_releases db (mo_id m)))]))
       (py_sorted (\<lambda>(m, p). mo_id m) (module_candidates db module_id None None None))"

text \<open>The join of a channel pointer with its version and artifact.\<close>

definition channel_rows :: "registry_db \<Rightarrow> string list option \<Rightarrow> (db_channel \<times> string) list" where
  "channel_rows db module_ids =
     concat (map (\<lambda>c. map (\<lambda>(v, a). (c, ar_digest a))
         (filter (\<lambda>(v, a). mc_module_id c = mv_module_id v \<and> mc_version c = mv_version v) (version_artifacts db)))
       (py_sorted (\<lambda>c. (mc_module_id c, mc_channel c))
         (filter (\<lambda>c. opt_all (\<lambda>ids. mc_module_id c \<in> set ids) module_ids) (t_channels db))))"

definition add_target :: "(string \<times> json) list \<Rightarrow> db_channel \<times> string \<Rightarrow> (string \<times> json) list" where
  "add_target result row =
     (case row of (c, digest) \<Rightarrow>
      let targets = (case dict_get result (mc_module_id c) of None \<Rightarrow> [] | Some t \<Rightarrow> obj_items t);
          target = JObj [(''version'', JStr (mc_version c)), (''sha256'', JStr digest)] in
      dict_set (mc_module_id c) (JObj (dict_set (mc_channel c) target targets)) result)"

definition channel_targets :: "registry_db \<Rightarrow> string list option \<Rightarrow> (string \<times> json) list" where
  "channel_targets db module_ids = foldl add_target [] (channel_rows db module_ids)"

definition counts :: "registry_db \<Rightarrow> (string \<times> json) list" where
  "counts db =
     [(''publishers'', JInt (int (length (t_publishers db)))), (''modules'', JInt (int (length (t_modules db)))),
      (''artifacts'', JInt (int (length (t_artifacts db)))), (''build_provenance'', JInt (int (length (t_provenance db)))),
      (''module_versions'', JInt (int (length (t_versions db)))),
      (''module_dependencies'', JInt (int (length (t_dependencies db)))),
      (''module_channels'', JInt (int (length (t_channels db))))]"

definition version_summaries :: "registry_db \<Rightarrow> string list \<Rightarrow> db_version list" where
  "version_summaries db module_ids = filter (\<lambda>v. mv_module_id v \<in> set module_ids) (t_versions db)"

record published_row =
  pr_version :: db_version
  pr_artifact :: db_artifact
  pr_source_repository :: string
  pr_evidence :: "db_provenance option"

definition published_versions :: "registry_db \<Rightarrow> string \<Rightarrow> string option \<Rightarrow> published_row list" where
  "published_versions db module_id version =
     concat (map (\<lambda>(v, a). map (\<lambda>m. \<lparr>pr_version = v, pr_artifact = a, pr_source_repository = mo_source_repository m,
           pr_evidence = (case mv_build_provenance_id v of None \<Rightarrow> None
             | Some i \<Rightarrow> py_next (\<lambda>p. bp_id p = i) (t_provenance db))\<rparr>)
         (filter (\<lambda>m. mo_id m = mv_module_id v) (t_modules db)))
       (filter (\<lambda>(v, a). mv_module_id v = module_id \<and> opt_all (\<lambda>s. mv_version v = s) version) (version_artifacts db)))"

definition version_dependencies :: "registry_db \<Rightarrow> string \<Rightarrow> string list \<Rightarrow> db_dependency list" where
  "version_dependencies db module_id vs =
     py_sorted dp_module_id
       (filter (\<lambda>d. dp_owner_module_id d = module_id \<and> dp_owner_version d \<in> set vs) (t_dependencies db))"

text \<open>The published modules of a publisher; a publisher without any has no row.\<close>

definition published_modules :: "registry_db \<Rightarrow> db_publisher \<Rightarrow> db_module list" where
  "published_modules db p = filter (\<lambda>m. mo_publisher_id m = pb_id p \<and> has_version db (mo_id m)) (t_modules db)"

definition published_publishers :: "registry_db \<Rightarrow> string option \<Rightarrow> (string \<times> string \<times> nat) list" where
  "published_publishers db publisher_id =
     map (\<lambda>p. (pb_id p, pb_name p, length (published_modules db p)))
       (py_sorted (\<lambda>p. (pb_name p, pb_id p))
         (filter (\<lambda>p. published_modules db p \<noteq> [] \<and> opt_all (\<lambda>i. pb_id p = i) publisher_id) (t_publishers db)))"

definition schema_revision :: "registry_db \<Rightarrow> string option" where
  "schema_revision db = (case alembic_version db of [r] \<Rightarrow> Some r | _ \<Rightarrow> None)"

end
