(* ===== verification/Registry_Compat.thy ===== *)
theory Registry_Compat
  imports Registry_Db
begin

text \<open>
  Registry v1 over the database: \<open>web/backend/app/api/registry_compatibility.py\<close> (the projection is
  served only when the channel pointers are those of the v1 selection), the shadow import
  \<open>web/backend/app/registry_import_v1.py\<close> and the byte parity check
  \<open>web/backend/app/registry_verify_v1.py\<close>. A read runs on one snapshot, so it is a function of the
  database.
\<close>

section \<open>Representability\<close>

definition index_channels :: "json \<Rightarrow> exn + (string \<times> json) list" where
  "index_channels index =
     rbind (list_item index ''modules'') (\<lambda>entries.
     rbind (rmap (\<lambda>entry. rbind (str_item entry ''id'') (\<lambda>i.
         rbind (getitem entry ''channels'') (\<lambda>c. Inr (i, c)))) entries) (\<lambda>ps.
     Inr (dict_of ps)))"

definition validate_v1_representability ::
    "(string \<Rightarrow> json \<Rightarrow> bool) \<Rightarrow> json list \<Rightarrow> (string \<times> json) list \<Rightarrow> exn + json" where
  "validate_v1_representability sch modules targets =
     rbind (rall (\<lambda>m. validate_module sch m None) modules) (\<lambda>_.
     rbind (build_index sch modules) (\<lambda>index.
     rbind (index_channels index) (\<lambda>expected.
     rbind (ensure (py_eq (JObj expected) (JObj targets))
         (Raise V1RepresentabilityError (Msg ''Current channels are not representable in Registry v1''))) (\<lambda>_.
     rbind (list_item index ''modules'') (\<lambda>entries.
     rbind (rmap (\<lambda>entry. rbind (str_item entry ''id'') (\<lambda>i.
         rbind (getitem (JObj targets) i) (\<lambda>t.
         Inr (set_field ''channels'' t entry)))) entries) (\<lambda>es.
     Inr (set_field ''modules'' (JList es) index)))))))"

definition compatibility_index :: "(string \<Rightarrow> json \<Rightarrow> bool) \<Rightarrow> registry_db \<Rightarrow> exn + json" where
  "compatibility_index sch db =
     validate_v1_representability sch (project_v1 db None) (channel_targets db None)"

definition compatibility_module :: "(string \<Rightarrow> json \<Rightarrow> bool) \<Rightarrow> registry_db \<Rightarrow> string \<Rightarrow> exn + json" where
  "compatibility_module sch db module_id =
     rbind (validate_module_id (JStr module_id)) (\<lambda>_.
     case project_v1 db (Some module_id) of
       [] \<Rightarrow> Inl (Raise NotFound (Msg ''Published module not found''))
     | m # ms \<Rightarrow>
         rbind (validate_v1_representability sch (m # ms) (channel_targets db (Some [module_id]))) (\<lambda>_.
         Inr m))"

section \<open>Import\<close>

definition opt_str :: "json \<Rightarrow> string \<Rightarrow> exn + string option" where
  "opt_str v k = null_text_param (get_or v k JNull)"

definition import_publisher :: "json \<Rightarrow> (registry_db, db_publisher) op" where
  "import_publisher md =
     ebind (elift (getitem md ''publisher'')) (\<lambda>publisher.
     ebind (elift (str_item publisher ''id'')) (\<lambda>i.
     ebind (elift (str_item publisher ''name'')) (\<lambda>name.
     ensure_record Publisher (\<lambda>p. pb_id p = i) (\<lambda>p. p = \<lparr>pb_id = i, pb_name = name\<rparr>)
       (eret \<lparr>pb_id = i, pb_name = name\<rparr>))))"

definition import_module_row :: "json \<Rightarrow> exn + db_module" where
  "import_module_row md =
     rbind (str_item md ''id'') (\<lambda>i.
     rbind (str_item md ''name'') (\<lambda>name.
     rbind (opt_str md ''description'') (\<lambda>description.
     rbind (str_item md ''classification'') (\<lambda>classification.
     rbind (str_item md ''license'') (\<lambda>license.
     rbind (str_item md ''source_repository'') (\<lambda>repository.
     rbind (opt_str md ''homepage'') (\<lambda>homepage.
     rbind (opt_str md ''documentation_url'') (\<lambda>documentation.
     rbind (rbind (getitem md ''publisher'') (\<lambda>p. str_item p ''id'')) (\<lambda>publisher_id.
     Inr \<lparr>mo_id = i, mo_name = name, mo_description = description, mo_homepage = homepage,
       mo_documentation_url = documentation, mo_publisher_id = publisher_id,
       mo_classification = classification, mo_license = license, mo_source_repository = repository\<rparr>)))))))))"

definition import_module :: "json \<Rightarrow> (registry_db, db_module) op" where
  "import_module md =
     ebind (elift (import_module_row md)) (\<lambda>row.
     ensure_record Module (\<lambda>m. mo_id m = mo_id row) (\<lambda>m. m = row) (eret row))"

definition import_versions :: "(string \<Rightarrow> json \<Rightarrow> bool) \<Rightarrow> int \<Rightarrow> json \<Rightarrow> (registry_db, bool list) op" where
  "import_versions sch now md =
     ebind (elift (str_item md ''id'')) (\<lambda>i.
     ebind (elift (list_item md ''versions'')) (\<lambda>vs.
     emap (\<lambda>(position, release). insert_published_version sch now i release (Some (int position)) None)
       (zip [0..<length vs] vs)))"

definition import_channel :: "string \<Rightarrow> string \<times> json \<Rightarrow> (registry_db, db_channel) op" where
  "import_channel module_id ct =
     (case ct of (channel, target) \<Rightarrow>
      ebind (elift (str_item target ''version'')) (\<lambda>version.
      ensure_record ModuleChannel (\<lambda>c. mc_module_id c = module_id \<and> mc_channel c = channel)
        (\<lambda>c. mc_module_id c = module_id \<and> mc_channel c = channel \<and> mc_version c = version)
        (eret \<lparr>mc_module_id = module_id, mc_channel = channel, mc_version = version, mc_revision = 1\<rparr>)))"

definition import_body ::
    "(string \<Rightarrow> json \<Rightarrow> bool) \<Rightarrow> int \<Rightarrow> json list \<Rightarrow> json list \<Rightarrow> (string \<times> json) list \<Rightarrow> (registry_db, json) op" where
  "import_body sch now modules expected channels =
     ebind (emap import_publisher modules) (\<lambda>_.
     ebind (emap import_module modules) (\<lambda>_.
     ebind (emap (import_versions sch now) expected) (\<lambda>inserted.
     ebind (emap (\<lambda>(module_id, targets). emap (import_channel module_id) (obj_items targets)) channels) (\<lambda>_.
     ebind (eget (\<lambda>db. project_v1 db None)) (\<lambda>projection.
     ebind (eensure (canonical_json (JList projection) = canonical_json (JList expected))
         (conflict ''DB projection differs from complete Registry v1 source'')) (\<lambda>_.
     ebind (eget (\<lambda>db. channel_targets db None)) (\<lambda>targets.
     ebind (eensure (py_eq (JObj targets) (JObj channels))
         (conflict ''DB channel pointers differ from Registry v1 index'')) (\<lambda>_.
     ebind (eget counts) (\<lambda>cs.
     eret (JObj [(''inserted_versions'', JInt (int (length (filter id (concat inserted))))),
       (''counts'', JObj cs), (''channels'', JObj channels), (''v1_parity'', JBool True),
       (''mode'', JStr ''shadow'')]))))))))))"

definition import_registry ::
    "(string \<Rightarrow> json \<Rightarrow> bool) \<Rightarrow> int \<Rightarrow> registry_source \<Rightarrow> (registry_db, json) op" where
  "import_registry sch now tree =
     ebind (elift (load_registry sch tree)) (\<lambda>modules.
     ebind (elift (rmap canonical_module modules)) (\<lambda>expected.
     ebind (elift (rbind (build_index sch modules) index_channels)) (\<lambda>channels.
     transaction (import_body sch now modules expected channels))))"

text \<open>
  A command: the exit status and what it prints when it succeeds; \<open>config\<close> is the outcome of
  \<open>database_engine\<close>. An exception of another class leaves the command.
\<close>

definition import_main ::
    "(string \<Rightarrow> json \<Rightarrow> bool) \<Rightarrow> int \<Rightarrow> exn + unit \<Rightarrow> registry_source \<Rightarrow> (registry_db, nat \<times> json option) op" where
  "import_main sch now config tree =
     ecatch (ebind (elift config) (\<lambda>_. ebind (import_registry sch now tree) (\<lambda>report. eret (0, Some report))))
       (\<lambda>e. if is_SQLAlchemyError e \<or> is_OSError e \<or> is_ValueError e then eret (1, None) else eraise e)"

section \<open>Byte parity\<close>

text \<open>The frozen output directory: the bytes of \<open>index.json\<close> and of the files \<open>modules/*.json\<close>.\<close>

record dist_dir =
  dist_index :: "string option"
  dist_modules :: "(string \<times> string) list"

definition EXPECTED_SCHEMA_REVISION :: string where
  "EXPECTED_SCHEMA_REVISION = ''0049_promotions''"

definition read_dist :: "string option \<Rightarrow> exn + string" where
  "read_dist f = of_option (Raise FileNotFoundError (Msg [])) f"

definition verify_v1 :: "(string \<Rightarrow> json \<Rightarrow> bool) \<Rightarrow> registry_db \<Rightarrow> dist_dir \<Rightarrow> exn + json" where
  "verify_v1 sch db out =
     rbind (ensure (schema_revision db = Some EXPECTED_SCHEMA_REVISION)
         (Raise ValueError (Msg ''Registry database schema is not ready''))) (\<lambda>_.
     let modules = project_v1 db None in
     rbind (validate_v1_representability sch modules (channel_targets db None)) (\<lambda>index.
     rbind (rmap (\<lambda>m. rbind (str_item m ''id'') (\<lambda>i. Inr (i @ ''.json'', m))) modules) (\<lambda>documents.
     rbind (ensure (set (map fst (dist_modules out)) = set (map fst documents))
         (Raise ValueError (Msg ''Module file set differs from DB projection''))) (\<lambda>_.
     rbind (rall (\<lambda>(file, document). rbind (read_dist file) (\<lambda>bytes.
         ensure (bytes = canonical_json document) (Raise ValueError (Msg ''Byte parity failed''))))
         ((dist_index out, index)
           # map (\<lambda>(name, m). (dict_get (dist_modules out) name, m)) documents)) (\<lambda>_.
     rbind (rmap (\<lambda>m. list_item m ''versions'') modules) (\<lambda>vss.
     Inr (JObj [(''index_byte_parity'', JBool True), (''module_byte_parity'', JInt (int (length modules))),
       (''published_versions'', JInt (int (sum_list (map length vss)))), (''representable'', JBool True),
       (''schema_revision'', JStr EXPECTED_SCHEMA_REVISION)])))))))"

definition verify_v1_main ::
    "(string \<Rightarrow> json \<Rightarrow> bool) \<Rightarrow> exn + unit \<Rightarrow> registry_db \<Rightarrow> dist_dir \<Rightarrow> exn + (nat \<times> json option)" where
  "verify_v1_main sch config db out =
     rcatch (rbind config (\<lambda>_. rbind (verify_v1 sch db out) (\<lambda>report. Inr (0, Some report))))
       (\<lambda>e. if is_SQLAlchemyError e \<or> is_OSError e \<or> is_ValueError e then Inr (1, None) else Inl e)"

end
