(* ===== verification/Reviewed_Candidate.thy ===== *)
theory Reviewed_Candidate
  imports Candidate Json_Access Base64
begin

text \<open>
  The evidence behind a promotion, \<open>scripts/reviewed_candidate.py\<close>: a candidate is accepted when a
  human merged the pull request that reviews its file and the file is the same in the reviewed head,
  in the merge commit and in today's main; its bundle is taken from the archive of the workflow run
  that built it. The GitHub API is the parameter \<open>api\<close> (the value of a response, or the exception of
  \<open>github_json\<close>), SHA-256 the parameter \<open>H\<close>, \<open>parse\<close> the syntax tree of a JSON text. \<open>ZipFile\<close> gives the
  entries of an archive. The text \<open>canonical\<close> of a reviewed candidate is represented by the value that
  \<open>json.loads\<close> reads from it.
\<close>

definition REPOSITORY :: string where
  "REPOSITORY = ''oklabflensburg/open-city-planner-packages''"

definition MAX_ARCHIVE_BYTES :: nat where
  "MAX_ARCHIVE_BYTES = 256 * 1024 * 1024"

abbreviation approval_error :: "string \<Rightarrow> exn" where
  "approval_error m \<equiv> Raise CandidateApprovalError (Msg m)"

definition candidate_digest :: "(string \<Rightarrow> string) \<Rightarrow> json \<Rightarrow> string" where
  "candidate_digest H candidate = H (canonical_json candidate)"

record reviewed =
  rv_value :: json
  rv_candidate_sha256 :: string
  rv_approval_reference :: string
  rv_approval_identity :: json
  rv_merge_commit :: json

section \<open>Commits\<close>

definition COMMIT40_RE :: regex where
  "COMMIT40_RE = rtimes 40 re_hex"

text \<open>\<open>re.fullmatch(r, commit or "")\<close>.\<close>

definition commit_ok :: "json \<Rightarrow> exn + bool" where
  "commit_ok c = full_match COMMIT40_RE (if json_truthy c then c else JStr [])"

text \<open>\<open>bytes.decode("utf-8")\<close>.\<close>

definition decode_utf8 :: "string \<Rightarrow> exn + string" where
  "decode_utf8 s = (if of_code_points (code_points s) = s then Inr s else Inl (Raise ValueError (Msg ''utf-8'')))"

section \<open>The review\<close>

definition human_merged :: "json \<Rightarrow> exn + bool" where
  "human_merged pr =
     and_then (rbind (py_get pr ''merged'' JNull) (\<lambda>m. Inr (json_truthy m)))
       (and_then (item_eq (getitem2 pr ''base'' ''ref'') (JStr ''main''))
         (and_then (item_eq (getitem3 pr ''base'' ''repo'' ''full_name'') (JStr REPOSITORY))
           (item_eq (rbind (py_get pr ''merged_by'' (JObj [])) (\<lambda>m. py_get m ''type'' JNull)) (JStr ''User''))))"

definition reviews_file :: "string \<Rightarrow> json \<Rightarrow> exn + bool" where
  "reviews_file file files =
     rbind (iterate files) (first_true (\<lambda>f.
       and_then (item_eq (getitem f ''filename'') (JStr file))
         (rbind (getitem f ''status'') (\<lambda>s. in_set s [''added'', ''modified'']))))"

definition candidate_at ::
    "json option \<Rightarrow> json \<Rightarrow> (string \<Rightarrow> ptree option) \<Rightarrow> (string \<Rightarrow> exn + json) \<Rightarrow> string \<Rightarrow> string \<Rightarrow> exn + json" where
  "candidate_at config env_policy parse api file ref =
     rbind (api (''contents/'' @ file @ ''?ref='' @ ref)) (\<lambda>content.
     rbind (py_get content ''encoding'' JNull) (\<lambda>encoding.
     rbind (ensure (py_eq encoding (JStr ''base64'')) (approval_error ''Candidate evidence has no file contents'')) (\<lambda>_.
     rbind (rbind (getitem content ''content'') b64decode) (\<lambda>bytes.
     rbind (decode_utf8 bytes) (\<lambda>raw.
     rbind (decode_json (parse raw)) (\<lambda>v.
     validate_candidate config env_policy v))))))"

text \<open>\<open>str(commit)\<close> in the query of the second request: both commits are strings there.\<close>

definition github_load ::
    "(string \<Rightarrow> string) \<Rightarrow> json option \<Rightarrow> json \<Rightarrow> (string \<Rightarrow> ptree option) \<Rightarrow> (string \<Rightarrow> exn + json) \<Rightarrow>
      string \<Rightarrow> string \<Rightarrow> int \<Rightarrow> string \<Rightarrow> exn + reviewed" where
  "github_load H config env_policy parse api module_id version approval_pr expected =
     rbind (validate_module_id (JStr module_id)) (\<lambda>_.
     rbind (validate_semver (JStr version)) (\<lambda>_.
     rbind (ensure (0 < approval_pr) (approval_error ''A merged candidate PR is required'')) (\<lambda>_.
     rbind (api (''pulls/'' @ py_str_int approval_pr)) (\<lambda>pr.
     rbind (human_merged pr) (\<lambda>merged.
     rbind (ensure merged (approval_error ''Candidate requires a human-merged PR into Registry main'')) (\<lambda>_.
     rbind (getitem2 pr ''head'' ''sha'') (\<lambda>head.
     rbind (getitem pr ''merge_commit_sha'') (\<lambda>merge.
     rbind (and_then (commit_ok head) (commit_ok merge)) (\<lambda>ok.
     rbind (ensure ok (approval_error ''Invalid review commit identity'')) (\<lambda>_.
     let file = ''candidates/'' @ module_id @ ''/'' @ version @ ''/provenance.json'' in
     rbind (api (''pulls/'' @ py_str_int approval_pr @ ''/files?per_page=100'')) (\<lambda>files.
     rbind (reviews_file file files) (\<lambda>ok.
     rbind (ensure ok (approval_error ''Approval PR does not contain this candidate'')) (\<lambda>_.
     rbind (candidate_at config env_policy parse api file (py_str head)) (\<lambda>v1.
     rbind (candidate_at config env_policy parse api file (py_str merge)) (\<lambda>v2.
     rbind (candidate_at config env_policy parse api file ''main'') (\<lambda>v3.
     rbind (ensure (list_all (\<lambda>v. candidate_digest H v = expected) [v1, v2, v3])
         (approval_error ''Candidate differs from approved digest or current main'')) (\<lambda>_.
     rbind (getitem v1 ''module_id'') (\<lambda>mid.
     rbind (getitem v1 ''version'') (\<lambda>ver.
     rbind (ensure (mid = JStr module_id \<and> ver = JStr version) (approval_error ''Candidate path/identity mismatch'')) (\<lambda>_.
     rbind (rbind (getitem v1 ''builder_commit'') (full_match COMMIT40_RE)) (\<lambda>ok.
     rbind (ensure ok (approval_error ''Promotion requires a known builder commit'')) (\<lambda>_.
     rbind (getitem2 pr ''merged_by'' ''login'') (\<lambda>login.
     Inr \<lparr>rv_value = sort_keys v1, rv_candidate_sha256 = expected,
       rv_approval_reference = ''https://github.com/'' @ REPOSITORY @ ''/pull/'' @ py_str_int approval_pr,
       rv_approval_identity = login, rv_merge_commit = merge\<rparr>)))))))))))))))))))))))"

section \<open>The reviewed archive\<close>

record zip_entry =
  ze_filename :: string
  ze_file_size :: nat
  ze_external_attr :: nat
  ze_read :: "exn + string"

text \<open>An archive: its size in bytes and its entries, or \<open>BadZipFile\<close>.\<close>

record zip_archive =
  za_size :: nat
  za_entries :: "zip_entry list option"

definition is_symlink :: "zip_entry \<Rightarrow> bool" where
  "is_symlink e = (and (ze_external_attr e div 65536) 61440 = (40960 :: nat))"

definition zip_read :: "zip_entry list \<Rightarrow> string \<Rightarrow> exn + string" where
  "zip_read es name = (case py_next (\<lambda>e. ze_filename e = name) (rev es) of
       None \<Rightarrow> Inl (Raise KeyError (No_key name)) | Some e \<Rightarrow> ze_read e)"

text \<open>\<open>str.split()\<close>: the words between white space.\<close>

fun words_from :: "nat list \<Rightarrow> nat list \<Rightarrow> nat list list" where
  "words_from acc [] = (if acc = [] then [] else [acc])"
| "words_from acc (c # cs) =
     (if is_space c then (if acc = [] then words_from [] cs else acc # words_from [] cs)
      else words_from (acc @ [c]) cs)"

definition py_words :: "string \<Rightarrow> string list" where
  "py_words s = map of_code_points (words_from [] (code_points s))"

definition bundle_name :: "json \<Rightarrow> exn + string" where
  "bundle_name v = rbind (str_item v ''module_id'') (\<lambda>mid.
     rbind (str_item v ''version'') (\<lambda>ver. Inr (mid @ ''-'' @ ver @ ''.ocp'')))"

definition read_reviewed_archive ::
    "(string \<Rightarrow> string) \<Rightarrow> (string \<Rightarrow> ptree option) \<Rightarrow> zip_archive \<Rightarrow> reviewed \<Rightarrow> exn + string \<times> string" where
  "read_reviewed_archive H parse archive rv =
     (let v = rv_value rv in
      rbind (bundle_name v) (\<lambda>filename.
      rbind (ensure (za_size archive \<le> MAX_ARCHIVE_BYTES) (approval_error ''Candidate archive exceeds limit'')) (\<lambda>_.
      rbind (of_option (Raise BadZipFile (Msg [])) (za_entries archive)) (\<lambda>entries.
      rbind (ensure (length entries = 3 \<and>
            set (map ze_filename entries) = {''provenance.json'', filename, filename @ ''.sha256''})
          (approval_error ''Unexpected candidate archive contents'')) (\<lambda>_.
      rbind (ensure (\<not> list_ex (\<lambda>e. MAX_ARCHIVE_BYTES < ze_file_size e \<or> is_symlink e) entries)
          (approval_error ''Unsafe candidate archive member'')) (\<lambda>_.
      rbind (rbind (zip_read entries ''provenance.json'') decode_utf8) (\<lambda>text.
      rbind (decode_json (parse text)) (\<lambda>evidence.
      rbind (ensure (candidate_digest H evidence = rv_candidate_sha256 rv)
          (approval_error ''Archive provenance differs from reviewed candidate'')) (\<lambda>_.
      rbind (zip_read entries filename) (\<lambda>payload.
      rbind (str_item v ''bundle_sha256'') (\<lambda>sha.
      rbind (ensure (H payload = sha) (approval_error ''Candidate bundle digest mismatch'')) (\<lambda>_.
      rbind (rbind (zip_read entries (filename @ ''.sha256'')) decode_utf8) (\<lambda>checksum.
      rbind (ensure (py_words checksum = [sha, filename])
          (approval_error ''Candidate checksum sidecar mismatch'')) (\<lambda>_.
      Inr (filename, payload)))))))))))))))"

text \<open>The files of a private directory, by name; \<open>open("xb")\<close> refuses an existing one.\<close>

definition open_xb :: "string \<Rightarrow> string \<Rightarrow> (string \<Rightarrow> string option, unit) op" where
  "open_xb name data =
     ebind (eget (\<lambda>files. files name)) (\<lambda>old.
     ebind (eensure (old = None) (Raise FileExistsError (Msg []))) (\<lambda>_.
     emodify (\<lambda>files. files(name \<mapsto> data))))"

definition extract_reviewed_archive ::
    "(string \<Rightarrow> string) \<Rightarrow> (string \<Rightarrow> ptree option) \<Rightarrow> zip_archive \<Rightarrow> reviewed \<Rightarrow> string \<Rightarrow>
      (string \<Rightarrow> string option, string) op" where
  "extract_reviewed_archive H parse archive rv destination =
     ebind (elift (read_reviewed_archive H parse archive rv)) (\<lambda>(filename, payload).
     let target = destination @ ''/'' @ filename in
     ebind (open_xb target payload) (\<lambda>_. eret target))"

section \<open>The workflow run\<close>

definition split_item :: "string list \<Rightarrow> nat \<Rightarrow> exn + string" where
  "split_item ps i = (if i < length ps then Inr (ps ! i) else Inl (Raise IndexError (Msg [])))"

definition num_le :: "json \<Rightarrow> nat \<Rightarrow> exn + bool" where
  "num_le v n = (case num_val v of Some x \<Rightarrow> Inr (x \<le> of_nat n) | None \<Rightarrow> Inl (Raise TypeError (Msg [])))"

definition builder_run :: "json \<Rightarrow> json \<Rightarrow> exn + bool" where
  "builder_run run bc =
     and_then (item_eq (getitem run ''conclusion'') (JStr ''success''))
       (and_then (item_eq (getitem run ''head_sha'') bc)
         (and_then (item_eq (getitem2 run ''repository'' ''full_name'') (JStr REPOSITORY))
           (item_eq (getitem run ''path'') (JStr ''.github/workflows/ocp-builder.yml''))))"

definition run_artifact ::
    "(string \<Rightarrow> exn + json) \<Rightarrow> json \<Rightarrow> exn + json" where
  "run_artifact api v =
     rbind (str_item v ''artifact_candidate'') (\<lambda>locator.
     rbind (split_item (py_split CHR ''/'' locator) 3) (\<lambda>run_id.
     rbind (api (''actions/runs/'' @ run_id)) (\<lambda>run.
     rbind (getitem v ''builder_commit'') (\<lambda>bc.
     rbind (builder_run run bc) (\<lambda>ok.
     rbind (ensure ok (approval_error ''Candidate run identity does not match builder evidence'')) (\<lambda>_.
     rbind (str_item v ''module_id'') (\<lambda>mid.
     rbind (str_item v ''version'') (\<lambda>ver.
     rbind (ensure (locator = ''github-actions://run/'' @ run_id @ ''/'' @ mid @ ''-'' @ ver)
         (approval_error ''Unexpected candidate artifact locator'')) (\<lambda>_.
     rbind (api (''actions/runs/'' @ run_id @ ''/artifacts?per_page=100'')) (\<lambda>listing.
     rbind (rbind (getitem listing ''artifacts'') iterate) (\<lambda>artifacts.
     rbind (str_item v ''source_tag'') (\<lambda>tag.
     rbind (rmap (\<lambda>a. rbind (getitem a ''name'') (\<lambda>n. Inr (n, a))) artifacts) (\<lambda>named.
     (case map snd (filter (\<lambda>(n, a). n = JStr (mid @ ''-'' @ tag)) named) of
        [a] \<Rightarrow>
          rbind (getitem a ''expired'') (\<lambda>expired.
          rbind (ensure (\<not> json_truthy expired) (approval_error ''Reviewed artifact unavailable; no rebuild recovery'')) (\<lambda>_.
          rbind (rbind (getitem a ''size_in_bytes'') (\<lambda>n. num_le n MAX_ARCHIVE_BYTES)) (\<lambda>small.
          rbind (if small then item_eq (getitem2 a ''workflow_run'' ''head_sha'') bc else Inr False) (\<lambda>ok.
          rbind (ensure ok (approval_error ''Artifact identity/size mismatch'')) (\<lambda>_. Inr a)))))
      | _ \<Rightarrow> Inl (approval_error ''Reviewed artifact unavailable; no rebuild recovery'')))))))))))))))"

text \<open>
  \<open>int(value)\<close>, and the download: \<open>gh_zip\<close> is the archive \<open>gh api .../zip\<close> writes for an artifact,
  \<open>None\<close> when the command fails. Paths are below the destination; the archive is passed on as a
  value, so its file stays empty in the model.
\<close>

definition py_int :: "json \<Rightarrow> exn + int" where
  "py_int v = (case v of
       JFloat r \<Rightarrow> if is_special r then Inl (Raise ValueError (Msg ''int'')) else
         Inr (if float_val r < 0 then - \<lfloor>- float_val r\<rfloor> else \<lfloor>float_val r\<rfloor>)
     | JStr s \<Rightarrow> of_option (Raise ValueError (Msg ''int'')) (parse_int s)
     | _ \<Rightarrow> of_option (Raise TypeError (Msg ''int'')) (int_of v))"

definition download_reviewed_artifact ::
    "(string \<Rightarrow> string) \<Rightarrow> (string \<Rightarrow> ptree option) \<Rightarrow> (string \<Rightarrow> exn + json) \<Rightarrow> (int \<Rightarrow> zip_archive option) \<Rightarrow>
      reviewed \<Rightarrow> (string \<Rightarrow> string option, string) op" where
  "download_reviewed_artifact H parse api gh_zip rv =
     ebind (elift (run_artifact api (rv_value rv))) (\<lambda>a.
     ebind (open_xb ''candidate.zip'' []) (\<lambda>_.
     ebind (elift (rbind (getitem a ''id'') py_int)) (\<lambda>i.
     case gh_zip i of
       None \<Rightarrow> eraise (approval_error ''Reviewed artifact download failed'')
     | Some archive \<Rightarrow> extract_reviewed_archive H parse archive rv ''materialized'')))"

end
