(* ===== verification/Promotion.thy ===== *)
theory Promotion
  imports Registry_Compat Reviewed_Candidate
begin

text \<open>
  The promotion of a reviewed candidate into the database registry:
  \<open>RegistryPromotionService.promote\<close> (\<open>web/backend/app/registry_promotion.py\<close>) and the command
  \<open>web/backend/app/registry_promote.py\<close>. The store is passed to the service, as in the code: \<open>publish\<close>
  and \<open>verify\<close> are operations on a store state, and the state of a promotion is the pair of the store
  and the database. The two advisory and row locks serialize the promotions of one key and of one
  module; transactions are atomic in the model, and promotions of different modules run one after the
  other.
\<close>

record promotion_intent =
  in_module_id :: string
  in_version :: string
  in_approval_pr :: int
  in_candidate_sha256 :: string
  in_bundle_sha256 :: string
  in_channel :: string
  in_expected_channel_revision :: json
  in_idempotency_key :: string

definition KEY_RE :: regex where
  "KEY_RE = RSeq (RClass [(CHR ''A'', CHR ''Z''), (CHR ''a'', CHR ''z''), (CHR ''0'', CHR ''9'')])
     (RStar (RClass [(CHR ''A'', CHR ''Z''), (CHR ''a'', CHR ''z''), (CHR ''0'', CHR ''9''),
       (CHR '':'', CHR '':''), (CHR ''.'', CHR ''.''), (CHR ''_'', CHR ''_''), (CHR ''-'', CHR ''-'')]))"

text \<open>\<open>re.fullmatch(r"[A-Za-z0-9][A-Za-z0-9:._-]{0,199}", key)\<close>.\<close>

definition key_ok :: "string \<Rightarrow> bool" where
  "key_ok s = (length s \<le> 200 \<and> fullmatch KEY_RE s)"

fun revision_of :: "json \<Rightarrow> int option" where
  "revision_of (JInt i) = (if 0 \<le> i then Some i else None)"
| "revision_of _ = None"

definition intent_json :: "promotion_intent \<Rightarrow> (string \<times> json) list" where
  "intent_json i =
     [(''module_id'', JStr (in_module_id i)), (''version'', JStr (in_version i)),
      (''approval_pr'', JInt (in_approval_pr i)), (''candidate_sha256'', JStr (in_candidate_sha256 i)),
      (''bundle_sha256'', JStr (in_bundle_sha256 i)), (''channel'', JStr (in_channel i)),
      (''expected_channel_revision'', in_expected_channel_revision i),
      (''idempotency_key'', JStr (in_idempotency_key i))]"

text \<open>What \<open>promote\<close> binds before it touches the store or the database.\<close>

record binding =
  bi_value :: json
  bi_revision :: int
  bi_release :: json
  bi_url :: json
  bi_provenance :: "(string \<times> json) list"
  bi_intent :: json
  bi_reference :: string
  bi_identity :: json

definition promotion_provenance :: "json \<Rightarrow> exn + (string \<times> json) list" where
  "promotion_provenance v =
     (let environment = get_or v ''build_environment'' JNull in
      rbind (getitem v ''source_repository'') (\<lambda>repository.
      rbind (getitem v ''source_tag'') (\<lambda>tag.
      rbind (getitem v ''source_commit'') (\<lambda>commit.
      rbind (getitem v ''builder_version'') (\<lambda>bv.
      rbind (getitem v ''builder_commit'') (\<lambda>bc.
      rbind (if json_truthy environment then py_get environment ''host_commit'' JNull else Inr JNull) (\<lambda>hc.
      Inr [(''source_repository'', repository), (''source_tag'', tag), (''source_commit'', commit),
        (''builder_version'', JStr (py_str bv)), (''builder_commit'', bc), (''host_commit'', hc),
        (''reproducible'', JBool True), (''host_contract_status'', JStr ''passed''),
        (''environment_json'', environment)])))))))"

definition bind_intent ::
    "(string \<Rightarrow> string) \<Rightarrow> (string \<Rightarrow> string \<Rightarrow> int \<Rightarrow> string \<Rightarrow> exn + reviewed) \<Rightarrow> promotion_intent \<Rightarrow> exn + binding" where
  "bind_intent H load i =
     rbind (of_option (conflict ''Invalid promotion key or expected channel revision'')
         (if key_ok (in_idempotency_key i) then revision_of (in_expected_channel_revision i) else None)) (\<lambda>revision.
     rbind (load (in_module_id i) (in_version i) (in_approval_pr i) (in_candidate_sha256 i)) (\<lambda>rv.
     let v = rv_value rv in
     rbind (if candidate_digest H v = in_candidate_sha256 i
         then and_then (item_eq (getitem v ''planned_channel'') (JStr (in_channel i)))
                (item_eq (getitem v ''bundle_sha256'') (JStr (in_bundle_sha256 i)))
         else Inr False) (\<lambda>ok.
     rbind (ensure ok (conflict ''Intent does not match reviewed candidate'')) (\<lambda>_.
     rbind (candidate_release v) (\<lambda>release.
     rbind (promotion_provenance v) (\<lambda>provenance.
     rbind (getitem2 release ''artifact'' ''url'') (\<lambda>url.
     Inr \<lparr>bi_value = v, bi_revision = revision, bi_release = release, bi_url = url,
       bi_provenance = provenance,
       bi_intent = JObj (intent_json i @ [(''approval_reference'', JStr (rv_approval_reference rv)),
         (''approval_identity'', rv_approval_identity rv), (''merge_commit'', rv_merge_commit rv),
         (''candidate'', v)]),
       bi_reference = rv_approval_reference rv, bi_identity = rv_approval_identity rv\<rparr>)))))))"

section \<open>The transaction\<close>

text \<open>Unknown storage metadata is completed, known metadata is never replaced.\<close>

definition complete_storage :: "stored_artifact \<Rightarrow> (registry_db, unit) op" where
  "complete_storage sa =
     ebind (ensure_artifact (sa_digest sa)) (\<lambda>old.
     let size = Some (int (byte_size sa)); locator = Some (storage_locator sa) in
     ebind (eensure (ar_byte_size old \<in> {None, size}) (conflict ''Existing artifact storage binding conflicts'')) (\<lambda>_.
     ebind (eensure (ar_storage_locator old \<in> {None, locator}) (conflict ''Existing artifact storage binding conflicts'')) (\<lambda>_.
     update_row Artifact Orm_Artifact old (old\<lparr>ar_byte_size := size, ar_storage_locator := locator\<rparr>))))"

definition move_channel :: "promotion_intent \<Rightarrow> db_channel option \<Rightarrow> (registry_db, unit) op" where
  "move_channel i channel =
     (case channel of
        None \<Rightarrow> insert_row ModuleChannel False
          \<lparr>mc_module_id = in_module_id i, mc_channel = in_channel i, mc_version = in_version i, mc_revision = 1\<rparr>
      | Some c \<Rightarrow> update_row ModuleChannel Orm_ModuleChannel c
          (c\<lparr>mc_version := in_version i, mc_revision := mc_revision c + 1\<rparr>))"

definition promotion_result :: "promotion_intent \<Rightarrow> string option \<Rightarrow> int \<Rightarrow> stored_artifact \<Rightarrow> json" where
  "promotion_result i previous revision sa =
     JObj [(''promotion_id'', JStr (in_idempotency_key i)), (''module'', JStr (in_module_id i)),
       (''version'', JStr (in_version i)), (''channel'', JStr (in_channel i)),
       (''previous_channel_target'', json_opt JStr previous), (''new_channel_target'', JStr (in_version i)),
       (''channel_revision'', JInt (revision + 1)), (''artifact_sha256'', JStr (sa_digest sa)),
       (''artifact_url'', JStr (public_url sa)), (''storage_locator'', JStr (storage_locator sa)),
       (''byte_size'', JInt (int (byte_size sa))), (''status'', JStr ''published'')]"

text \<open>The branch of a new key, after the checks on the module.\<close>

definition new_promotion ::
    "(string \<Rightarrow> json \<Rightarrow> bool) \<Rightarrow> int \<Rightarrow> promotion_intent \<Rightarrow> binding \<Rightarrow> stored_artifact \<Rightarrow> (registry_db, json) op" where
  "new_promotion sch now i b sa =
     ebind (eget (\<lambda>db. list_ex (\<lambda>e. pe_module_id e = in_module_id i \<and> pe_version e = in_version i) (t_promotions db))) (\<lambda>taken.
     ebind (eensure (\<not> taken) (conflict ''Version already belongs to another promotion intent'')) (\<lambda>_.
     ebind (get_channel (in_module_id i) (in_channel i)) (\<lambda>channel.
     let revision = (case channel of None \<Rightarrow> 0 | Some c \<Rightarrow> mc_revision c);
         previous = map_option mc_version channel in
     ebind (eensure (revision = bi_revision b) (conflict ''Stale channel revision; fresh approval required'')) (\<lambda>_.
     ebind (complete_storage sa) (\<lambda>_.
     ebind (insert_published_version sch now (in_module_id i) (bi_release b) None (Some (bi_provenance b))) (\<lambda>inserted.
     ebind (eensure inserted (conflict ''Existing version has no matching committed promotion intent'')) (\<lambda>_.
     ebind (move_channel i channel) (\<lambda>_.
     ebind (eget (\<lambda>db. validate_v1_representability sch (project_v1 db None) (channel_targets db None))) (\<lambda>future.
     ebind (elift future) (\<lambda>_.
     ebind (elift (text_param (bi_identity b))) (\<lambda>identity.
     let result = promotion_result i previous revision sa in
     ebind (insert_row PromotionEvent False
       \<lparr>pe_idempotency_key = in_idempotency_key i, pe_module_id = in_module_id i, pe_version = in_version i,
        pe_channel = in_channel i, pe_candidate_digest = in_candidate_sha256 i,
        pe_approval_reference = bi_reference b, pe_approval_identity = identity,
        pe_previous_channel_version = previous, pe_new_channel_version = in_version i,
        pe_intent = bi_intent b, pe_result = result\<rparr>) (\<lambda>_.
     eret result))))))))))))"

definition repeated_promotion ::
    "(string \<Rightarrow> json \<Rightarrow> bool) \<Rightarrow> int \<Rightarrow> promotion_intent \<Rightarrow> binding \<Rightarrow> db_promotion \<Rightarrow> (registry_db, json) op" where
  "repeated_promotion sch now i b event =
     ebind (eensure (canonical_json (pe_intent event) = canonical_json (bi_intent b))
         (conflict ''Idempotency key conflicts with committed intent'')) (\<lambda>_.
     ebind (insert_published_version sch now (in_module_id i) (bi_release b) None (Some (bi_provenance b))) (\<lambda>_.
     eret (set_field ''status'' (JStr ''already-published'') (pe_result event))))"

definition promotion_body ::
    "(string \<Rightarrow> json \<Rightarrow> bool) \<Rightarrow> int \<Rightarrow> promotion_intent \<Rightarrow> binding \<Rightarrow> stored_artifact \<Rightarrow> (registry_db, json) op" where
  "promotion_body sch now i b sa =
     ebind (eget schema_revision) (\<lambda>schema.
     ebind (eensure (schema = Some EXPECTED_SCHEMA_REVISION) (conflict ''Registry schema is not ready for promotion'')) (\<lambda>_.
     ebind (get_module (in_module_id i)) (\<lambda>md.
     case md of
       None \<Rightarrow> eraise (conflict ''Candidate does not match registered module identity'')
     | Some m \<Rightarrow>
         ebind (elift (getitem (bi_value b) ''source_repository'')) (\<lambda>repository.
         ebind (eensure (repository = JStr (mo_source_repository m)) (conflict ''Candidate does not match registered module identity'')) (\<lambda>_.
         ebind (elift (getitem (bi_value b) ''classification'')) (\<lambda>classification.
         ebind (eensure (classification = JStr (mo_classification m)) (conflict ''Candidate classification differs from registered module'')) (\<lambda>_.
         ebind (load_module_structure m) (\<lambda>structure.
         ebind (elift (validate_module sch (JObj (structure @ [(''versions'', JList [bi_release b])])) None)) (\<lambda>_.
         ebind (eget (\<lambda>db. py_next (\<lambda>e. pe_idempotency_key e = in_idempotency_key i) (t_promotions db))) (\<lambda>event.
         case event of
           Some e \<Rightarrow> repeated_promotion sch now i b e
         | None \<Rightarrow> new_promotion sch now i b sa))))))))))"

section \<open>The service\<close>

definition on_store :: "('s, 'a) op \<Rightarrow> ('s \<times> registry_db, 'a) op" where
  "on_store m = (\<lambda>(s, db). case m s of (r, t) \<Rightarrow> (r, (t, db)))"

definition on_db :: "(registry_db, 'a) op \<Rightarrow> ('s \<times> registry_db, 'a) op" where
  "on_db m = (\<lambda>(s, db). case m db of (r, t) \<Rightarrow> (r, (s, t)))"

definition promote_db ::
    "(string \<Rightarrow> json \<Rightarrow> bool) \<Rightarrow> (string \<Rightarrow> string) \<Rightarrow> (string \<Rightarrow> string \<Rightarrow> int \<Rightarrow> string \<Rightarrow> exn + reviewed) \<Rightarrow>
      (string \<Rightarrow> string \<Rightarrow> 'src \<Rightarrow> string \<Rightarrow> ('s, publication) op) \<Rightarrow>
      (string \<Rightarrow> string \<Rightarrow> string \<Rightarrow> ('s, stored_artifact) op) \<Rightarrow>
      int \<Rightarrow> promotion_intent \<Rightarrow> 'src \<Rightarrow> ('s \<times> registry_db, json) op" where
  "promote_db sch H load publish verify now i source =
     ebind (elift (bind_intent H load i)) (\<lambda>b.
     ebind (on_store (publish (in_module_id i) (in_version i) source (in_bundle_sha256 i))) (\<lambda>_.
     ebind (on_store (verify (in_module_id i) (in_version i) (in_bundle_sha256 i))) (\<lambda>sa.
     ebind (eensure (sa_digest sa = in_bundle_sha256 i \<and> bi_url b = JStr (public_url sa))
         (conflict ''Stored artifact differs from approved binding'')) (\<lambda>_.
     on_db (transaction (promotion_body sch now i b sa))))))"

text \<open>
  \<open>registry_promote.main\<close>: \<open>parser.error\<close> is the exit status 2. The environment gives the writer
  cutover gate and the database URL of the mode; \<open>engine\<close> is the outcome of \<open>database_engine(url)\<close>.
\<close>

datatype promotion_source = Private_file pypath | Download_reviewed

record promote_args =
  pa_intent :: promotion_intent
  pa_source :: promotion_source
  pa_production :: bool
  pa_confirm :: bool

definition is_promotion_failure :: "exn \<Rightarrow> bool" where
  "is_promotion_failure e = (is_SQLAlchemyError e \<or> is_ArtifactStoreError e \<or> is_ValueError e \<or> is_OSError e
     \<or> exn_class e \<in> {SubprocessError, BadZipFile})"

definition promote_main ::
    "(string \<Rightarrow> string option) \<Rightarrow> (string \<Rightarrow> exn + unit) \<Rightarrow>
      (string \<Rightarrow> string \<Rightarrow> int \<Rightarrow> string \<Rightarrow> exn + reviewed) \<Rightarrow> (reviewed \<Rightarrow> ('s, pypath) op) \<Rightarrow>
      (promotion_intent \<Rightarrow> pypath \<Rightarrow> ('s \<times> registry_db, json) op) \<Rightarrow>
      promote_args \<Rightarrow> ('s \<times> registry_db, nat \<times> json option) op" where
  "promote_main environ engine load download service args =
     (if pa_production args
          \<and> \<not> (pa_confirm args \<and> environ ''PACKAGES_REGISTRY_WRITER_CUTOVER_ENABLED'' = Some ''true'') then eret (2, None)
      else if \<not> pa_production args \<and> pa_confirm args then eret (2, None)
      else
        ecatch
          (let url = environ (if pa_production args then ''PACKAGES_REGISTRY_PROMOTION_DATABASE_URL''
                 else ''PACKAGES_REGISTRY_STAGING_PROMOTION_DATABASE_URL'');
               i = pa_intent args in
           ebind (eensure (url \<notin> {None, Some []}) (Raise ValueError (Msg ''Explicit promotion database configuration is required''))) (\<lambda>_.
           ebind (elift (engine (case url of None \<Rightarrow> [] | Some u \<Rightarrow> u))) (\<lambda>_.
           ebind (case pa_source args of
               Private_file p \<Rightarrow> eret p
             | Download_reviewed \<Rightarrow>
                 ebind (elift (load (in_module_id i) (in_version i) (in_approval_pr i) (in_candidate_sha256 i))) (\<lambda>rv.
                 on_store (download rv))) (\<lambda>source.
           ebind (service i source) (\<lambda>report. eret (0, Some report))))))
          (\<lambda>e. if is_promotion_failure e then eret (1, None) else eraise e))"

end
