(* ===== verification/Registry_Integrity.thy ===== *)
theory Registry_Integrity
  imports Registry_Db "HOL-Library.Sublist"
begin

text \<open>
  Two invariants of the database registry. \<open>db_wf\<close> is its type: every row satisfies the column types,
  the CHECK constraints and the references of its table, no two rows share a key, and the generated ids
  stay below their sequence. \<open>history_le\<close> is the order in which published history grows: versions,
  provenance, dependencies of a published version and promotion events are only appended, an artifact
  keeps its digest and only gains storage metadata that was unknown. Every operation of the repository
  is shown to keep the first and to move along the second.
\<close>

section \<open>Rows and keys\<close>

definition table_ok :: "('r, 'z) table_scheme \<Rightarrow> registry_db \<Rightarrow> bool" where
  "table_ok T db =
     ((\<forall>r \<in> set (tb_rows T db). tb_types T r \<and> tb_check T r \<and> tb_refs T db r)
      \<and> sorted_wrt (\<lambda>a b. \<not> tb_clash T b a) (tb_rows T db))"

definition db_wf :: "registry_db \<Rightarrow> bool" where
  "db_wf db =
     (table_ok Publisher db \<and> table_ok Module db \<and> table_ok Artifact db \<and> table_ok BuildProvenance db
      \<and> table_ok ModuleVersion db \<and> table_ok ModuleChannel db \<and> table_ok ModuleDependency db
      \<and> table_ok PromotionEvent db
      \<and> (\<forall>a \<in> set (t_artifacts db). ar_id a < seq_artifact db)
      \<and> (\<forall>p \<in> set (t_provenance db). bp_id p < seq_provenance db))"

definition version_key :: "db_version \<Rightarrow> string \<times> string" where
  "version_key v = (mv_module_id v, mv_version v)"

definition dependency_owner :: "db_dependency \<Rightarrow> string \<times> string" where
  "dependency_owner d = (dp_owner_module_id d, dp_owner_version d)"

definition promotion_key :: "db_promotion \<Rightarrow> string \<times> string" where
  "promotion_key e = (pe_module_id e, pe_version e)"

definition keys_le :: "registry_db \<Rightarrow> registry_db \<Rightarrow> bool" where
  "keys_le s t =
     (pb_id ` set (t_publishers s) \<subseteq> pb_id ` set (t_publishers t)
      \<and> mo_id ` set (t_modules s) \<subseteq> mo_id ` set (t_modules t)
      \<and> ar_id ` set (t_artifacts s) \<subseteq> ar_id ` set (t_artifacts t)
      \<and> bp_id ` set (t_provenance s) \<subseteq> bp_id ` set (t_provenance t)
      \<and> version_key ` set (t_versions s) \<subseteq> version_key ` set (t_versions t))"

named_theorems table_defs

lemmas [table_defs] = Publisher_def Module_def Artifact_def BuildProvenance_def ModuleVersion_def
  ModuleChannel_def ModuleDependency_def PromotionEvent_def

lemma tb_rows_eq [simp]:
  "tb_rows Publisher = t_publishers" "tb_rows Module = t_modules" "tb_rows Artifact = t_artifacts"
  "tb_rows BuildProvenance = t_provenance" "tb_rows ModuleVersion = t_versions" "tb_rows ModuleChannel = t_channels"
  "tb_rows ModuleDependency = t_dependencies" "tb_rows PromotionEvent = t_promotions"
  by (simp_all add: table_defs)

lemma tb_put_eq [simp]:
  "tb_put Publisher a db = db\<lparr>t_publishers := a\<rparr>" "tb_put Module b db = db\<lparr>t_modules := b\<rparr>"
  "tb_put Artifact c db = db\<lparr>t_artifacts := c\<rparr>" "tb_put BuildProvenance d db = db\<lparr>t_provenance := d\<rparr>"
  "tb_put ModuleVersion e db = db\<lparr>t_versions := e\<rparr>" "tb_put ModuleChannel f db = db\<lparr>t_channels := f\<rparr>"
  "tb_put ModuleDependency g db = db\<lparr>t_dependencies := g\<rparr>" "tb_put PromotionEvent h db = db\<lparr>t_promotions := h\<rparr>"
  by (simp_all add: table_defs)

lemma version_exists_iff: "version_exists db m v \<longleftrightarrow> (m, v) \<in> version_key ` set (t_versions db)"
  by (auto simp: version_exists_def version_key_def list_ex_iff)

lemma keys_le_refl [simp]: "keys_le s s"
  by (simp add: keys_le_def)

lemma keys_le_trans: "keys_le s t \<Longrightarrow> keys_le t u \<Longrightarrow> keys_le s u"
  unfolding keys_le_def by (meson order_trans)

lemma list_ex_key: "k ` set xs \<subseteq> k ` set ys \<Longrightarrow> list_ex (\<lambda>x. k x = i) xs \<Longrightarrow> list_ex (\<lambda>x. k x = i) ys"
  by (force simp: list_ex_iff)

lemma refs_mono:
  assumes "keys_le s t"
  shows "tb_refs Publisher s a \<Longrightarrow> tb_refs Publisher t a"
    and "tb_refs Module s b \<Longrightarrow> tb_refs Module t b"
    and "tb_refs Artifact s c \<Longrightarrow> tb_refs Artifact t c"
    and "tb_refs BuildProvenance s d \<Longrightarrow> tb_refs BuildProvenance t d"
    and "tb_refs ModuleVersion s e \<Longrightarrow> tb_refs ModuleVersion t e"
    and "tb_refs ModuleChannel s f \<Longrightarrow> tb_refs ModuleChannel t f"
    and "tb_refs ModuleDependency s g \<Longrightarrow> tb_refs ModuleDependency t g"
    and "tb_refs PromotionEvent s h \<Longrightarrow> tb_refs PromotionEvent t h"
proof -
  from assms have le: "pb_id ` set (t_publishers s) \<subseteq> pb_id ` set (t_publishers t)"
    "mo_id ` set (t_modules s) \<subseteq> mo_id ` set (t_modules t)"
    "ar_id ` set (t_artifacts s) \<subseteq> ar_id ` set (t_artifacts t)"
    "bp_id ` set (t_provenance s) \<subseteq> bp_id ` set (t_provenance t)"
    and ve: "version_exists s m v \<Longrightarrow> version_exists t m v" for m v
    unfolding keys_le_def version_exists_iff by (auto dest: subsetD)
  note le = le [THEN list_ex_key]
  show "tb_refs Publisher s a \<Longrightarrow> tb_refs Publisher t a" by (simp add: Publisher_def)
  show "tb_refs Module s b \<Longrightarrow> tb_refs Module t b" by (simp add: Module_def le)
  show "tb_refs Artifact s c \<Longrightarrow> tb_refs Artifact t c" by (simp add: Artifact_def)
  show "tb_refs BuildProvenance s d \<Longrightarrow> tb_refs BuildProvenance t d" by (simp add: BuildProvenance_def)
  show "tb_refs ModuleVersion s e \<Longrightarrow> tb_refs ModuleVersion t e"
    by (simp add: ModuleVersion_def le split: option.splits)
  show "tb_refs ModuleChannel s f \<Longrightarrow> tb_refs ModuleChannel t f" by (simp add: ModuleChannel_def ve)
  show "tb_refs ModuleDependency s g \<Longrightarrow> tb_refs ModuleDependency t g" by (simp add: ModuleDependency_def ve le)
  show "tb_refs PromotionEvent s h \<Longrightarrow> tb_refs PromotionEvent t h" by (simp add: PromotionEvent_def ve)
qed

lemma table_ok_keep:
  assumes "table_ok T s" and "tb_rows T t = tb_rows T s" and "\<And>r. tb_refs T s r \<Longrightarrow> tb_refs T t r"
  shows "table_ok T t"
  using assms by (auto simp: table_ok_def)

lemma table_ok_append:
  assumes "table_ok T s" and "tb_rows T t = tb_rows T s @ [r]" and "\<And>r. tb_refs T s r \<Longrightarrow> tb_refs T t r"
    and "tb_types T r" "tb_check T r" "tb_refs T s r" "\<not> list_ex (tb_clash T r) (tb_rows T s)"
  shows "table_ok T t"
  using assms by (auto simp: table_ok_def sorted_wrt_append list_ex_iff)

lemma insert_row_cases:
  assumes "insert_row T d r s = (x, t)"
  obtains (same) "t = s" "x = Inr () \<Longrightarrow> list_ex (tb_clash T r) (tb_rows T s) \<and> d \<and> tb_types T r \<and> tb_check T r"
  | (added) "x = Inr ()" "t = tb_put T (tb_rows T s @ [r]) s" "tb_types T r" "tb_check T r" "tb_refs T s r"
      "\<not> list_ex (tb_clash T r) (tb_rows T s)"
  using assms unfolding insert_row_def
  by (cases "tb_types T r"; cases "tb_check T r"; cases "list_ex (tb_clash T r) (tb_rows T s)";
      cases "tb_refs T s r"; cases d)
    (auto simp: ebind_def eensure_def eget_def eret_def eraise_def emodify_def)

text \<open>An insert leaves the other tables alone and extends the keys.\<close>

lemma wf_insert:
  assumes "db_wf s"
  shows "insert_row Publisher k a s = (x, t) \<Longrightarrow> db_wf t"
    and "insert_row Module k b s = (x, t) \<Longrightarrow> db_wf t"
    and "ar_id c < seq_artifact s \<Longrightarrow> insert_row Artifact k c s = (x, t) \<Longrightarrow> db_wf t"
    and "bp_id d < seq_provenance s \<Longrightarrow> insert_row BuildProvenance k d s = (x, t) \<Longrightarrow> db_wf t"
    and "insert_row ModuleVersion k e s = (x, t) \<Longrightarrow> db_wf t"
    and "insert_row ModuleChannel k f s = (x, t) \<Longrightarrow> db_wf t"
    and "insert_row ModuleDependency k g s = (x, t) \<Longrightarrow> db_wf t"
    and "insert_row PromotionEvent k h s = (x, t) \<Longrightarrow> db_wf t"
proof -
  have le: "keys_le s (tb_put Publisher (tb_rows Publisher s @ [a]) s)"
    "keys_le s (tb_put Module (tb_rows Module s @ [b]) s)"
    "keys_le s (tb_put Artifact (tb_rows Artifact s @ [c]) s)"
    "keys_le s (tb_put BuildProvenance (tb_rows BuildProvenance s @ [d]) s)"
    "keys_le s (tb_put ModuleVersion (tb_rows ModuleVersion s @ [e]) s)"
    "keys_le s (tb_put ModuleChannel (tb_rows ModuleChannel s @ [f]) s)"
    "keys_le s (tb_put ModuleDependency (tb_rows ModuleDependency s @ [g]) s)"
    "keys_le s (tb_put PromotionEvent (tb_rows PromotionEvent s @ [h]) s)"
    by (auto simp: keys_le_def)
  show "insert_row Publisher k a s = (x, t) \<Longrightarrow> db_wf t"
    using assms by (auto elim!: insert_row_cases simp: db_wf_def
        intro: table_ok_keep [of _ s] table_ok_append [of _ s] refs_mono [OF le(1)])
  show "insert_row Module k b s = (x, t) \<Longrightarrow> db_wf t"
    using assms by (auto elim!: insert_row_cases simp: db_wf_def
        intro: table_ok_keep [of _ s] table_ok_append [of _ s] refs_mono [OF le(2)])
  show "ar_id c < seq_artifact s \<Longrightarrow> insert_row Artifact k c s = (x, t) \<Longrightarrow> db_wf t"
    using assms by (auto elim!: insert_row_cases simp: db_wf_def
        intro: table_ok_keep [of _ s] table_ok_append [of _ s] refs_mono [OF le(3)])
  show "bp_id d < seq_provenance s \<Longrightarrow> insert_row BuildProvenance k d s = (x, t) \<Longrightarrow> db_wf t"
    using assms by (auto elim!: insert_row_cases simp: db_wf_def
        intro: table_ok_keep [of _ s] table_ok_append [of _ s] refs_mono [OF le(4)])
  show "insert_row ModuleVersion k e s = (x, t) \<Longrightarrow> db_wf t"
    using assms by (auto elim!: insert_row_cases simp: db_wf_def
        intro: table_ok_keep [of _ s] table_ok_append [of _ s] refs_mono [OF le(5)])
  show "insert_row ModuleChannel k f s = (x, t) \<Longrightarrow> db_wf t"
    using assms by (auto elim!: insert_row_cases simp: db_wf_def
        intro: table_ok_keep [of _ s] table_ok_append [of _ s] refs_mono [OF le(6)])
  show "insert_row ModuleDependency k g s = (x, t) \<Longrightarrow> db_wf t"
    using assms by (auto elim!: insert_row_cases simp: db_wf_def
        intro: table_ok_keep [of _ s] table_ok_append [of _ s] refs_mono [OF le(7)])
  show "insert_row PromotionEvent k h s = (x, t) \<Longrightarrow> db_wf t"
    using assms by (auto elim!: insert_row_cases simp: db_wf_def
        intro: table_ok_keep [of _ s] table_ok_append [of _ s] refs_mono [OF le(8)])
qed

lemma update_row_cases:
  assumes "update_row T orm old new s = (x, t)"
  obtains (same) "t = s" "x = Inr () \<Longrightarrow> new = old"
  | (changed) "x = Inr ()" "t = tb_put T (map (\<lambda>r. if r = old then new else r) (tb_rows T s)) s"
      "tb_types T new" "tb_check T new" "tb_refs T s new" "protect_history [] [(orm old, orm new)] = Inr ()"
proof (cases "protect_history [] [(orm old, orm new)]")
  case (Inl e)
  with assms show ?thesis by (auto simp: update_row_def ebind_def elift_def intro: same)
next
  case (Inr u)
  with assms show ?thesis
    unfolding update_row_def
    by (cases "new = old"; cases "tb_types T new"; cases "tb_check T new"; cases "tb_refs T s new")
      (auto simp: ebind_def eensure_def eget_def eret_def eraise_def emodify_def elift_def intro: same changed)
qed

text \<open>An update that keeps the key of the row.\<close>

lemma table_ok_update:
  assumes "table_ok T s" and "tb_rows T t = map (\<lambda>r. if r = old then new else r) (tb_rows T s)"
    and "\<And>r. tb_refs T s r \<Longrightarrow> tb_refs T t r"
    and "tb_types T new" "tb_check T new" "tb_refs T s new"
    and "\<And>r. tb_clash T new r = tb_clash T old r" and "\<And>r. tb_clash T r new = tb_clash T r old"
  shows "table_ok T t"
proof -
  have "sorted_wrt (\<lambda>a b. \<not> tb_clash T b a) (map (\<lambda>r. if r = old then new else r) (tb_rows T s))"
    using assms(1,7,8) unfolding table_ok_def sorted_wrt_map
    by (auto elim!: sorted_wrt_mono_rel [rotated])
  with assms(1-6) show ?thesis by (auto simp: table_ok_def)
qed

section \<open>Growth\<close>

definition artifact_le :: "db_artifact \<Rightarrow> db_artifact \<Rightarrow> bool" where
  "artifact_le a b =
     (ar_id b = ar_id a \<and> ar_digest_algorithm b = ar_digest_algorithm a \<and> ar_digest b = ar_digest a
      \<and> ar_byte_size a \<in> {None, ar_byte_size b} \<and> ar_storage_locator a \<in> {None, ar_storage_locator b})"

definition channel_le :: "db_channel \<Rightarrow> db_channel \<Rightarrow> bool" where
  "channel_le c d = (mc_module_id d = mc_module_id c \<and> mc_channel d = mc_channel c \<and> mc_revision c \<le> mc_revision d)"

text \<open>Every row of the first list has its successor, and rows are added at the end.\<close>

definition ext_by :: "('a \<Rightarrow> 'a \<Rightarrow> bool) \<Rightarrow> 'a list \<Rightarrow> 'a list \<Rightarrow> bool" where
  "ext_by R xs ys = (\<exists>as bs. ys = as @ bs \<and> list_all2 R xs as)"

text \<open>What was there stays; dependencies are only added to the versions of \<open>K\<close>.\<close>

definition db_grow :: "(string \<times> string) set \<Rightarrow> registry_db \<Rightarrow> registry_db \<Rightarrow> bool" where
  "db_grow K s t =
     (prefix (t_publishers s) (t_publishers t) \<and> prefix (t_modules s) (t_modules t)
      \<and> prefix (t_provenance s) (t_provenance t) \<and> prefix (t_versions s) (t_versions t)
      \<and> prefix (t_promotions s) (t_promotions t)
      \<and> ext_by artifact_le (t_artifacts s) (t_artifacts t)
      \<and> ext_by channel_le (t_channels s) (t_channels t)
      \<and> (\<exists>ds. t_dependencies t = t_dependencies s @ ds \<and> (\<forall>d \<in> set ds. dependency_owner d \<in> K))
      \<and> alembic_version t = alembic_version s
      \<and> seq_artifact s \<le> seq_artifact t \<and> seq_provenance s \<le> seq_provenance t)"

lemma artifact_le_refl [simp]: "artifact_le a a"
  by (simp add: artifact_le_def)

lemma channel_le_refl [simp]: "channel_le c c"
  by (simp add: channel_le_def)

lemma artifact_le_transp: "transp artifact_le"
  by (auto simp: transp_def artifact_le_def)

lemma channel_le_transp: "transp channel_le"
  by (auto simp: transp_def channel_le_def)

lemma ext_byI: "ys = as @ bs \<Longrightarrow> list_all2 R xs as \<Longrightarrow> ext_by R xs ys"
  by (auto simp: ext_by_def)

lemma ext_by_refl: "(\<And>x. R x x) \<Longrightarrow> ext_by R xs xs"
  by (rule ext_byI [of xs xs "[]"]) (auto intro: list.rel_refl)

lemma ext_by_append: "(\<And>x. R x x) \<Longrightarrow> ext_by R xs (xs @ ys)"
  by (rule ext_byI [of _ xs ys]) (auto intro: list.rel_refl)

lemma ext_by_trans:
  assumes "transp R" and "ext_by R xs ys" and "ext_by R ys us"
  shows "ext_by R xs us"
proof -
  from assms(2,3) obtain as bs vs ws where ys: "ys = as @ bs" "list_all2 R xs as"
    and us: "us = vs @ ws" "list_all2 R ys vs" by (auto simp: ext_by_def)
  then obtain v1 v2 where v: "vs = v1 @ v2" "list_all2 R as v1" by (auto simp: list_all2_append1)
  have "list_all2 R xs v1"
    by (rule list_all2_trans [OF _ ys(2) v(2)]) (use assms(1) in \<open>auto dest: transpD\<close>)
  with us v show ?thesis by (auto simp: ext_by_def)
qed

lemma ext_by_map: "(\<And>x. x \<in> set xs \<Longrightarrow> R x (f x)) \<Longrightarrow> ext_by R xs (map f xs)"
  by (rule ext_byI [of _ "map f xs" "[]"]) (auto simp: list_all2_conv_all_nth)

lemma ext_by_image:
  assumes "ext_by R xs ys" and "\<And>x y. R x y \<Longrightarrow> k y = k x"
  shows "k ` set xs \<subseteq> k ` set ys"
proof -
  from assms(1) obtain as bs where "ys = as @ bs" "list_all2 R xs as" by (auto simp: ext_by_def)
  moreover from this(2) assms(2) have "map k as = map k xs" by (induction rule: list_all2_induct) auto
  then have "k ` set as = k ` set xs" by (metis set_map)
  ultimately show ?thesis by (simp add: image_Un)
qed

lemma db_grow_refl [simp]: "db_grow K s s"
  by (simp add: db_grow_def ext_by_refl)

lemma db_grow_trans:
  assumes "db_grow K s t" and "db_grow L t u"
  shows "db_grow (K \<union> L) s u"
proof -
  have "ext_by artifact_le (t_artifacts s) (t_artifacts u)" "ext_by channel_le (t_channels s) (t_channels u)"
    using assms unfolding db_grow_def
    by (auto intro: ext_by_trans [OF artifact_le_transp] ext_by_trans [OF channel_le_transp])
  moreover from assms obtain ds es where
    "t_dependencies t = t_dependencies s @ ds" "\<forall>d \<in> set ds. dependency_owner d \<in> K"
    "t_dependencies u = t_dependencies t @ es" "\<forall>d \<in> set es. dependency_owner d \<in> L"
    by (auto simp: db_grow_def)
  then have "\<exists>ds. t_dependencies u = t_dependencies s @ ds \<and> (\<forall>d \<in> set ds. dependency_owner d \<in> K \<union> L)"
    by auto
  ultimately show ?thesis
    using assms unfolding db_grow_def by (simp add: prefix_order.order_trans [of _ "_ t"])
      (meson prefix_order.order_trans)
qed

lemma db_grow_keys: "db_grow K s t \<Longrightarrow> keys_le s t"
  unfolding db_grow_def keys_le_def
  by (auto dest!: set_mono_prefix [THEN image_mono] dest: ext_by_image [where k = ar_id] simp: artifact_le_def
      elim!: subsetD)

text \<open>The relation every operation of the repository keeps.\<close>

definition sound :: "(string \<times> string) set \<Rightarrow> registry_db \<Rightarrow> registry_db \<Rightarrow> bool" where
  "sound K s t = (db_wf s \<longrightarrow> db_wf t \<and> db_grow K s t)"

lemma sound_preorder [simp]: "reflp (sound K)" "transp (sound K)"
  using db_grow_trans [of K _ _ K] by (auto simp: sound_def reflp_def transp_def)

lemma sound_refl [simp]: "sound K s s"
  by (simp add: sound_def)

text \<open>Statements.\<close>

lemma insert_row_grow:
  shows "insert_row Publisher k a s = (x, t) \<Longrightarrow> db_grow K s t"
    and "insert_row Module k b s = (x, t) \<Longrightarrow> db_grow K s t"
    and "insert_row Artifact k c s = (x, t) \<Longrightarrow> db_grow K s t"
    and "insert_row BuildProvenance k d s = (x, t) \<Longrightarrow> db_grow K s t"
    and "insert_row ModuleVersion k e s = (x, t) \<Longrightarrow> db_grow K s t"
    and "insert_row ModuleChannel k f s = (x, t) \<Longrightarrow> db_grow K s t"
    and "dependency_owner g \<in> K \<Longrightarrow> insert_row ModuleDependency k g s = (x, t) \<Longrightarrow> db_grow K s t"
    and "insert_row PromotionEvent k h s = (x, t) \<Longrightarrow> db_grow K s t"
  by (erule insert_row_cases; auto simp: db_grow_def ext_by_refl ext_by_append; fail)+

lemma keeps_insert [keeps_intros]:
  shows "keeps (sound K) (insert_row Publisher k a)"
    and "keeps (sound K) (insert_row Module k b)"
    and "keeps (sound K) (insert_row ModuleVersion k e)"
    and "keeps (sound K) (insert_row ModuleChannel k f)"
    and "dependency_owner g \<in> K \<Longrightarrow> keeps (sound K) (insert_row ModuleDependency k g)"
    and "keeps (sound K) (insert_row PromotionEvent k h)"
  unfolding keeps_def sound_def
  by (metis insert_row_grow wf_insert prod.collapse)+

lemma sequences_wf:
  "db_wf s \<Longrightarrow> seq_artifact s \<le> n \<Longrightarrow> db_wf (s\<lparr>seq_artifact := n\<rparr>)"
  "db_wf s \<Longrightarrow> seq_provenance s \<le> n \<Longrightarrow> db_wf (s\<lparr>seq_provenance := n\<rparr>)"
  "seq_artifact s \<le> n \<Longrightarrow> db_grow K s (s\<lparr>seq_artifact := n\<rparr>)"
  "seq_provenance s \<le> n \<Longrightarrow> db_grow K s (s\<lparr>seq_provenance := n\<rparr>)"
proof -
  have le: "keys_le s (s\<lparr>seq_artifact := n\<rparr>)" "keys_le s (s\<lparr>seq_provenance := n\<rparr>)" by (simp_all add: keys_le_def)
  show "db_wf s \<Longrightarrow> seq_artifact s \<le> n \<Longrightarrow> db_wf (s\<lparr>seq_artifact := n\<rparr>)"
    by (auto simp: db_wf_def intro: table_ok_keep [of _ s] refs_mono [OF le(1)])
  show "db_wf s \<Longrightarrow> seq_provenance s \<le> n \<Longrightarrow> db_wf (s\<lparr>seq_provenance := n\<rparr>)"
    by (auto simp: db_wf_def intro: table_ok_keep [of _ s] refs_mono [OF le(2)])
  show "seq_artifact s \<le> n \<Longrightarrow> db_grow K s (s\<lparr>seq_artifact := n\<rparr>)"
    "seq_provenance s \<le> n \<Longrightarrow> db_grow K s (s\<lparr>seq_provenance := n\<rparr>)"
    by (simp_all add: db_grow_def ext_by_refl)
qed

lemma keeps_ensure_record:
  assumes "keeps (sound K) (ebind new (\<lambda>r. insert_row T True r))"
  shows "keeps (sound K) (ensure_record T is_key agrees new)"
proof -
  have "keeps (sound K) (ebind new (\<lambda>r. ebind (insert_row T True r) (\<lambda>_. eget (\<lambda>db. py_next is_key (tb_rows T db)))))"
  proof -
    have "ebind new (\<lambda>r. ebind (insert_row T True r) (\<lambda>_. eget (\<lambda>db. py_next is_key (tb_rows T db))))
      = ebind (ebind new (\<lambda>r. insert_row T True r)) (\<lambda>_. eget (\<lambda>db. py_next is_key (tb_rows T db)))"
      by (auto simp: ebind_def fun_eq_iff split: prod.splits sum.splits)
    then show ?thesis using assms by (auto intro!: keeps_intros)
  qed
  then show ?thesis
    unfolding ensure_record_def by (auto intro!: keeps_intros split: option.splits)
qed

lemma keeps_ensure_artifact [keeps_intros]: "keeps (sound K) (ensure_artifact digest)"
  unfolding ensure_artifact_def
proof (rule keeps_ensure_record)
  show "keeps (sound K) (ebind (new_artifact digest) (\<lambda>r. insert_row Artifact True r))"
    unfolding keeps_def
  proof
    fix s :: registry_db
    let ?s = "s\<lparr>seq_artifact := Suc (seq_artifact s)\<rparr>"
    let ?a = "\<lparr>ar_id = seq_artifact s, ar_digest_algorithm = ''sha256'', ar_digest = digest, ar_byte_size = None,
      ar_storage_locator = None\<rparr>"
    obtain x t where i: "insert_row Artifact True ?a ?s = (x, t)" by fastforce
    have "sound K s t"
      unfolding sound_def
    proof (intro impI conjI)
      assume "db_wf s"
      then have "db_wf ?s" by (rule sequences_wf) simp
      then show "db_wf t" by (rule wf_insert(3) [OF _ _ i]) simp
      show "db_grow K s t"
        using db_grow_trans [OF sequences_wf(3) insert_row_grow(3) [OF i], of K K] by simp
    qed
    with i show "sound K s (snd (ebind (new_artifact digest) (\<lambda>r. insert_row Artifact True r) s))"
      by (simp add: ebind_def new_artifact_def eget_def emodify_def eret_def)
  qed
qed

lemma keeps_add_provenance [keeps_intros]: "keeps (sound K) (add_provenance evidence imported)"
  unfolding keeps_def
proof
  fix s :: registry_db
  let ?s = "s\<lparr>seq_provenance := Suc (seq_provenance s)\<rparr>"
  have start: "sound K s ?s"
    using sequences_wf(2) [of s "Suc (seq_provenance s)"] sequences_wf(4) [of s "Suc (seq_provenance s)" K] by (simp add: sound_def)
  show "sound K s (snd (add_provenance evidence imported s))"
  proof (cases "provenance_row evidence (seq_provenance s) imported")
    case (Inl e)
    with start show ?thesis by (simp add: add_provenance_def ebind_def eget_def emodify_def elift_def)
  next
    case (Inr p)
    then have p: "bp_id p = seq_provenance s" by (auto simp: provenance_row_def Let_def)
    obtain x t where i: "insert_row BuildProvenance False p ?s = (x, t)" by fastforce
    have "sound K ?s t"
      using wf_insert(4) [OF _ _ i] insert_row_grow(4) [OF i, of K] p by (simp add: sound_def)
    with start have "sound K s t" using sound_preorder(2) by (meson transpD)
    with Inr i show ?thesis
      by (cases x) (simp_all add: add_provenance_def ebind_def eget_def emodify_def elift_def eret_def)
  qed
qed

lemma keeps_elift_bind:
  assumes "reflp R" and "\<And>x. q = Inr x \<Longrightarrow> keeps R (f x)"
  shows "keeps R (ebind (elift q) f)"
  using assms by (cases q) (auto simp: keeps_def ebind_def elift_def reflp_def)

lemma keeps_readers [keeps_intros]:
  assumes "reflp R"
  shows "keeps R (get_publisher i)" "keeps R (get_module i)" "keeps R (get_artifact n)" "keeps R (get_provenance k)"
    "keeps R (get_version m v)" "keeps R (get_channel m c)" "keeps R (deref q)"
  using assms
  by (auto simp: get_publisher_def get_module_def get_artifact_def get_provenance_def get_version_def get_channel_def
      deref_def intro!: keeps_intros split: option.splits)

lemma keeps_structures [keeps_intros]:
  assumes "reflp R" "transp R"
  shows "keeps R (load_module_structure m)" "keeps R (load_release_structure v)"
    "keeps R (confirm_version p release order promoted evidence)"
  using assms unfolding load_module_structure_def load_release_structure_def confirm_version_def
  by (auto intro!: keeps_intros split: option.splits)

lemma keeps_add_version [keeps_intros]:
  assumes "\<And>v. get_field release ''version'' = Some (JStr v) \<Longrightarrow> (module_id, v) \<in> K"
  shows "keeps (sound K) (add_version now module_id release order promoted evidence)"
  unfolding add_version_def
  by (intro keeps_intros keeps_elift_bind sound_preorder)
    (auto intro!: keeps_intros assms simp: dependency_owner_def version_row_def split: option.splits)

lemma readers_iff [eff_simps]:
  "get_publisher i s = (r, t) \<longleftrightarrow> t = s \<and> r = Inr (py_next (\<lambda>p. pb_id p = i) (t_publishers s))"
  "get_module i s = (r2, t) \<longleftrightarrow> t = s \<and> r2 = Inr (py_next (\<lambda>m. mo_id m = i) (t_modules s))"
  "get_artifact n s = (r3, t) \<longleftrightarrow> t = s \<and> r3 = Inr (py_next (\<lambda>a. ar_id a = n) (t_artifacts s))"
  "get_version m v s = (r4, t) \<longleftrightarrow> t = s \<and> r4 = Inr (py_next (\<lambda>r. mv_module_id r = m \<and> mv_version r = v) (t_versions s))"
  "get_channel m c s = (r5, t) \<longleftrightarrow> t = s \<and> r5 = Inr (py_next (\<lambda>r. mc_module_id r = m \<and> mc_channel r = c) (t_channels s))"
  "deref q s = (Inr y, t) \<longleftrightarrow> t = s \<and> q = Some y"
  by (auto simp: get_publisher_def get_module_def get_artifact_def get_version_def get_channel_def deref_def
      split: option.splits)

lemma readonly_structures:
  "load_module_structure m s = (r, t) \<Longrightarrow> t = s"
  "load_release_structure v s = (r2, t) \<Longrightarrow> t = s"
  "confirm_version p release order promoted evidence s = (r3, t) \<Longrightarrow> t = s"
  using keeps_structures [OF eq_preorder] by (metis keeps_def snd_conv)+

lemma version_key_next:
  "py_next (\<lambda>r. mv_module_id r = m \<and> mv_version r = v) (t_versions s) = None \<longleftrightarrow> (m, v) \<notin> version_key ` set (t_versions s)"
  by (auto simp: find_None_iff version_key_def)

lemma insert_version_cases:
  assumes "insert_published_version sch now module_id release order ev s = (x, t)"
  obtains (same) "t = s"
  | (added) v e where "get_field release ''version'' = Some (JStr v)" "(module_id, v) \<notin> version_key ` set (t_versions s)"
      "add_version now module_id release order (ev \<noteq> None) e s = (x, t)"
proof -
  note run = assms [unfolded insert_published_version_def]
  show ?thesis
  proof (cases "py_next (\<lambda>m. mo_id m = module_id) (t_modules s)")
    case None
    with run same show ?thesis by (simp add: ebind_def get_module_def eget_def eraise_def)
  next
    case (Some m)
    obtain r u where st: "load_module_structure m s = (r, u)" by fastforce
    have u: "u = s" using st by (rule readonly_structures)
    let ?valid = "validate_module sch (JObj (projr r @ [(''versions'', JList [release])])) None"
    let ?evidence = "case ev of None \<Rightarrow> historical_provenance m release | Some e \<Rightarrow> Inr e"
    have start: "t = s" if "\<nexists>st w e v. r = Inr st \<and> ?valid = Inr w \<and> ?evidence = Inr e \<and> str_item release ''version'' = Inr v"
      using run Some st u that
      by (cases r; cases ?valid; cases ?evidence; cases "str_item release ''version''")
        (auto simp: ebind_def get_module_def eget_def elift_def eret_def split: option.splits)
    show ?thesis
    proof (cases "\<exists>st w e v. r = Inr st \<and> ?valid = Inr w \<and> ?evidence = Inr e \<and> str_item release ''version'' = Inr v")
      case False
      with start same show ?thesis by blast
    next
      case True
      then obtain st' w e v where ok: "r = Inr st'" "?valid = Inr w" "?evidence = Inr e" "str_item release ''version'' = Inr v"
        by blast
      show ?thesis
      proof (cases "py_next (\<lambda>r. mv_module_id r = module_id \<and> mv_version r = v) (t_versions s)")
        case None
        with run Some st u ok have "add_version now module_id release order (ev \<noteq> None) e s = (x, t)"
          by (cases ev) (simp_all add: ebind_def get_module_def eget_def elift_def eret_def get_version_def)
        with added ok(4) None show ?thesis by (simp add: version_key_next)
      next
        case (Some p)
        with run st u ok \<open>py_next _ (t_modules s) = Some m\<close>
        have "confirm_version p release order (ev \<noteq> None) e s = (x, t)"
          by (cases ev) (simp_all add: ebind_def get_module_def eget_def elift_def eret_def get_version_def)
        then show ?thesis using same readonly_structures(3) by blast
      qed
    qed
  qed
qed

text \<open>History grows: what is added belongs to versions that were not there.\<close>

definition history_le :: "registry_db \<Rightarrow> registry_db \<Rightarrow> bool" where
  "history_le s t = (\<exists>K. db_grow K s t \<and> K \<inter> version_key ` set (t_versions s) = {})"

lemma history_le_refl [simp]: "history_le s s"
  unfolding history_le_def by (rule exI [of _ "{}"]) simp

lemma history_le_trans: "history_le s t \<Longrightarrow> history_le t u \<Longrightarrow> history_le s u"
proof -
  assume "history_le s t" "history_le t u"
  then obtain K L where K: "db_grow K s t" "K \<inter> version_key ` set (t_versions s) = {}"
    and L: "db_grow L t u" "L \<inter> version_key ` set (t_versions t) = {}" by (auto simp: history_le_def)
  have "version_key ` set (t_versions s) \<subseteq> version_key ` set (t_versions t)"
    using db_grow_keys [OF K(1)] by (simp add: keys_le_def)
  with K(2) L(2) have "(K \<union> L) \<inter> version_key ` set (t_versions s) = {}" by blast
  with db_grow_trans [OF K(1) L(1)] show ?thesis unfolding history_le_def by blast
qed

definition advance :: "registry_db \<Rightarrow> registry_db \<Rightarrow> bool" where
  "advance s t = (db_wf s \<longrightarrow> db_wf t \<and> history_le s t)"

lemma advance_preorder [simp]: "reflp advance" "transp advance"
  by (auto simp: advance_def reflp_def transp_def intro: history_le_trans)

lemma advance_refl [simp]: "advance s s"
  by (simp add: advance_def)

lemma sound_advance: "sound {} s t \<Longrightarrow> advance s t"
  by (auto simp: sound_def advance_def history_le_def)

lemma keeps_advance: "keeps (sound {}) m \<Longrightarrow> keeps advance m"
  by (auto simp: keeps_def intro: sound_advance)

lemma keeps_insert_version [keeps_intros]:
  "keeps advance (insert_published_version sch now module_id release order ev)"
  unfolding keeps_def
proof
  fix s
  obtain x t where run: "insert_published_version sch now module_id release order ev s = (x, t)" by fastforce
  have "advance s t"
    using run
  proof (cases rule: insert_version_cases)
    case (added v e)
    have "keeps (sound {(module_id, v)}) (add_version now module_id release order (ev \<noteq> None) e)"
      by (rule keeps_add_version) (use added(1) in simp)
    then have "sound {(module_id, v)} s t" using added(3) by (rule keepsD)
    with added(2) show ?thesis by (auto simp: sound_def advance_def history_le_def)
  qed simp
  with run show "advance s (snd (insert_published_version sch now module_id release order ev s))" by simp
qed

text \<open>The two updates of the program: storage metadata of an artifact, and a channel pointer.\<close>

lemma wf_update_artifact:
  assumes "db_wf s" and "artifact_le a b" and "update_row Artifact orm a b s = (x, t)"
  shows "db_wf t \<and> history_le s t"
  using assms(3)
proof (cases rule: update_row_cases)
  case changed
  let ?f = "\<lambda>r. if r = a then b else r"
  from changed have t: "t = s\<lparr>t_artifacts := map ?f (t_artifacts s)\<rparr>" by simp
  have grow: "db_grow {} s t"
    using assms(2) by (auto simp: t db_grow_def ext_by_refl intro: ext_by_map)
  then have le: "keys_le s t" by (rule db_grow_keys)
  have "table_ok Artifact t"
    by (rule table_ok_update [of _ s _ a b])
      (use assms(1,2) changed le in \<open>auto simp: db_wf_def t Artifact_def artifact_le_def\<close>)
  moreover have "\<forall>c \<in> set (t_artifacts t). ar_id c < seq_artifact t"
    using assms(1,2) by (auto simp: db_wf_def t artifact_le_def)
  ultimately have "db_wf t"
    using assms(1) by (auto simp: db_wf_def t intro: table_ok_keep [of _ s] refs_mono [OF le [unfolded t]])
  with grow show ?thesis by (auto simp: history_le_def)
qed (use assms in simp)

lemma wf_update_channel:
  assumes "db_wf s" and "channel_le c d" and "update_row ModuleChannel orm c d s = (x, t)"
  shows "db_wf t \<and> history_le s t"
  using assms(3)
proof (cases rule: update_row_cases)
  case changed
  let ?f = "\<lambda>r. if r = c then d else r"
  from changed have t: "t = s\<lparr>t_channels := map ?f (t_channels s)\<rparr>" by simp
  have grow: "db_grow {} s t"
    using assms(2) by (auto simp: t db_grow_def ext_by_refl intro: ext_by_map)
  then have le: "keys_le s t" by (rule db_grow_keys)
  have "table_ok ModuleChannel t"
    by (rule table_ok_update [of _ s _ c d])
      (use assms(1,2) changed refs_mono(6) [OF le] in \<open>auto simp: db_wf_def t ModuleChannel_def channel_le_def\<close>)
  then have "db_wf t"
    using assms(1) by (auto simp: db_wf_def t intro: table_ok_keep [of _ s] refs_mono [OF le [unfolded t]])
  with grow show ?thesis by (auto simp: history_le_def)
qed (use assms in simp)

text \<open>A transaction.\<close>

lemma transaction_Inr [simp, eff_simps]: "transaction m s = (Inr x, t) \<longleftrightarrow> m s = (Inr x, t)"
  by (auto simp: transaction_def split: prod.splits sum.splits)

lemma transaction_Inl: "transaction m s = (Inl e, t) \<Longrightarrow> same_tables s t"
  by (auto simp: transaction_def same_tables_def rollback_def split: prod.splits sum.splits)

lemma keeps_transaction [keeps_intros]:
  assumes "keeps advance m"
  shows "keeps advance (transaction m)"
  unfolding keeps_def
proof
  fix s
  obtain x t where m: "m s = (x, t)" by fastforce
  with assms have adv: "advance s t" by (rule keepsD)
  show "advance s (snd (transaction m s))"
  proof (cases x)
    case (Inr y)
    with m adv show ?thesis by (simp add: transaction_def)
  next
    case (Inl e)
    have "db_wf (rollback s t) \<and> history_le s (rollback s t)" if wf: "db_wf s"
    proof -
      from adv wf obtain K where "db_grow K s t" by (auto simp: advance_def history_le_def)
      then have le: "seq_artifact s \<le> seq_artifact t" "seq_provenance s \<le> seq_provenance t"
        by (simp_all add: db_grow_def)
      let ?u = "s\<lparr>seq_artifact := seq_artifact t\<rparr>"
      have u: "db_wf ?u" "db_grow {} s ?u" using wf le sequences_wf(1,3) by auto
      moreover have "db_wf (rollback s t)" "db_grow {} ?u (rollback s t)"
        using sequences_wf(2) [OF u(1), of "seq_provenance t"] sequences_wf(4) [of ?u "seq_provenance t" "{}"] le
        by (simp_all add: rollback_def)
      ultimately show ?thesis using db_grow_trans [of "{}" s ?u "{}"] by (auto simp: history_le_def)
    qed
    with Inl m show ?thesis by (simp add: transaction_def advance_def)
  qed
qed

text \<open>What a later reader of a published version sees.\<close>

lemma find_ext_by:
  assumes "list_all2 R xs as" and "\<And>x y. R x y \<Longrightarrow> P y = P x" and "py_next P xs = Some x"
  shows "\<exists>y. py_next P (as @ bs) = Some y \<and> R x y"
  using assms by (induction xs as rule: list_all2_induct) (auto split: if_splits)

lemma find_prefix: "prefix xs ys \<Longrightarrow> py_next P xs = Some x \<Longrightarrow> py_next P ys = Some x"
  by (auto simp: prefix_def find_Some_iff nth_append)

lemma release_kept:
  assumes "history_le s t" and "v \<in> set (t_versions s)" and "load_release_structure v s = (Inr r, s)"
  shows "load_release_structure v t = (Inr r, t)"
proof -
  from assms(1) obtain K where K: "db_grow K s t" "K \<inter> version_key ` set (t_versions s) = {}"
    by (auto simp: history_le_def)
  from assms(3) obtain a where a: "py_next (\<lambda>a. ar_id a = mv_artifact_id v) (t_artifacts s) = Some a"
    and r: "r = release_structure v a (owned_dependencies s (mv_module_id v) (mv_version v))"
    by (auto simp: load_release_structure_def eff_simps)
  from K(1) obtain as bs where "t_artifacts t = as @ bs" "list_all2 artifact_le (t_artifacts s) as"
    by (auto simp: db_grow_def ext_by_def)
  with find_ext_by [OF _ _ a] obtain b where b: "py_next (\<lambda>a. ar_id a = mv_artifact_id v) (t_artifacts t) = Some b" "artifact_le a b"
    by (metis artifact_le_def)
  from K(1) obtain ds where ds: "t_dependencies t = t_dependencies s @ ds" "\<forall>d \<in> set ds. dependency_owner d \<in> K"
    by (auto simp: db_grow_def)
  have "filter (\<lambda>d. dp_owner_module_id d = mv_module_id v \<and> dp_owner_version d = mv_version v) ds = []"
    using ds(2) K(2) assms(2) by (auto simp: filter_empty_conv dependency_owner_def version_key_def)
  then have "owned_dependencies t (mv_module_id v) (mv_version v) = owned_dependencies s (mv_module_id v) (mv_version v)"
    by (simp add: owned_dependencies_def ds(1))
  with b r show ?thesis
    by (auto simp: load_release_structure_def eff_simps release_structure_def artifact_le_def)
qed

lemma history_le_prefix:
  assumes "history_le s t"
  shows "prefix (t_versions s) (t_versions t)" "prefix (t_provenance s) (t_provenance t)"
    "prefix (t_promotions s) (t_promotions t)" "prefix (t_modules s) (t_modules t)"
    "prefix (t_publishers s) (t_publishers t)" "alembic_version t = alembic_version s"
    "ext_by channel_le (t_channels s) (t_channels t)"
  using assms by (auto simp: history_le_def db_grow_def)

end
