(* ===== verification/Release_Rows.thy ===== *)
theory Release_Rows
  imports Registry_Integrity
begin

text \<open>
  The round trip of a release through the database: the rows that \<open>insert_published_version\<close> writes for
  a validated release project back to a document equal to it, and a second insertion of the same
  release and evidence confirms them.
\<close>

section \<open>The shape of a validated release\<close>

lemma exact_keys_Inr:
  "exact_keys v allowed required = Inr u \<longleftrightarrow>
     set (dict_keys (obj_items v)) \<subseteq> set allowed \<and> set required \<subseteq> set (dict_keys (obj_items v))"
proof -
  have "py_sorted id xs = [] \<longleftrightarrow> xs = []" for xs :: "string list"
    by (metis length_0_conv length_sort)
  then show ?thesis by (auto simp: exact_keys_def Let_def filter_empty_conv)
qed

lemma py_eq_objI:
  assumes "distinct (dict_keys d)" and "distinct (dict_keys e)" and "set (dict_keys d) = set (dict_keys e)"
    and "\<And>k v w. dict_get d k = Some v \<Longrightarrow> dict_get e k = Some w \<Longrightarrow> py_eq v w"
  shows "py_eq (JObj d) (JObj e)"
proof -
  have "length d = length e" using assms(1-3) distinct_card by (metis length_map)
  moreover have "case dict_get e (fst p) of None \<Rightarrow> False | Some w \<Rightarrow> py_eq (snd p) w" if "p \<in> set d" for p
  proof -
    from that assms(1) have p: "dict_get d (fst p) = Some (snd p)" by (simp add: map_of_is_SomeI)
    from that assms(3) have "fst p \<in> set (dict_keys e)" by (metis image_eqI set_map)
    then obtain w where "dict_get e (fst p) = Some w" by (metis map_of_eq_None_iff not_None_eq set_map)
    with assms(4) p show ?thesis by simp
  qed
  ultimately show ?thesis by simp
qed

lemma json_wf_field: "json_wf j \<Longrightarrow> get_field j k = Some v \<Longrightarrow> json_wf v"
  by (cases j) (auto dest: map_of_SomeD)

lemma version_range_str: "version_range v = Inr u \<Longrightarrow> \<exists>s. v = JStr s"
  by (cases v) (auto simp: version_range_def)

lemma obj_keys: "dict_get d k = Some v \<Longrightarrow> k \<in> set (dict_keys d)"
  by (metis map_of_eq_None_iff option.distinct(1) set_map)

definition json_strings :: "(string \<times> string) list \<Rightarrow> (string \<times> json) list" where
  "json_strings m = map (\<lambda>(k, v). (k, JStr v)) m"

lemma dict_keys_json_strings [simp]: "dict_keys (json_strings m) = map fst m"
  by (simp add: json_strings_def case_prod_beta comp_def)

lemma json_strings_SomeD: "dict_get (json_strings m) k = Some y \<Longrightarrow> \<exists>s. y = JStr s"
  by (auto simp: json_strings_def dest!: map_of_SomeD)

text \<open>The documents of a release, taken apart.\<close>

record release_doc =
  rd_version :: string
  rd_channel :: string
  rd_url :: string
  rd_sha256 :: string
  rd_bundle_format :: json
  rd_commit :: string
  rd_tag :: "string option"
  rd_host :: string
  rd_sdk :: string
  rd_modules :: "(string \<times> string) list"

definition reads_as :: "json \<Rightarrow> release_doc \<Rightarrow> bool" where
  "reads_as v r =
     (get_field v ''version'' = Some (JStr (rd_version r)) \<and> get_field v ''channel'' = Some (JStr (rd_channel r))
      \<and> (\<exists>a. get_field v ''artifact'' = Some a \<and> get_field a ''url'' = Some (JStr (rd_url r))
           \<and> get_field a ''sha256'' = Some (JStr (rd_sha256 r)))
      \<and> get_field v ''bundle_format_version'' = Some (rd_bundle_format r)
      \<and> get_field v ''source_commit'' = Some (JStr (rd_commit r))
      \<and> get_field v ''source_tag'' = map_option JStr (rd_tag r)
      \<and> (\<exists>q. get_field v ''requires'' = Some q \<and> get_field q ''host'' = Some (JStr (rd_host r))
           \<and> get_field q ''sdk'' = Some (JStr (rd_sdk r))
           \<and> get_field q ''modules'' = Some (JObj (json_strings (rd_modules r)))))"

lemma optional_string_Inr:
  "optional_string v k n = Inr u \<Longrightarrow> \<exists>t. get_field v k = map_option JStr t"
  using nonempty_string_str [of "the (get_field v k)" n u]
  by (cases "get_field v k") (auto simp: optional_string_def intro: exI [of _ None] exI [of _ "Some _"])

lemma constraints_str:
  assumes "\<forall>p \<in> set d. version_range (snd p) = Inr ()"
  shows "\<exists>m. d = json_strings m"
  using assms
proof (induction d)
  case (Cons p d)
  then obtain m s where "d = json_strings m" "snd p = JStr s" using version_range_str by force
  then have "p # d = json_strings ((fst p, s) # m)" by (cases p) (simp add: json_strings_def)
  then show ?case by (rule exI)
qed (simp add: json_strings_def)

lemma requires_reads_as:
  assumes "validate_requires q mid = Inr u" and "json_wf q"
  obtains h s m where "get_field q ''host'' = Some (JStr h)" "get_field q ''sdk'' = Some (JStr s)"
    "get_field q ''modules'' = Some (JObj (json_strings m))" "distinct (map fst m)"
    "set (dict_keys (obj_items q)) = {''host'', ''sdk'', ''modules''}" "is_obj q"
proof -
  from assms(1) obtain h s m where q: "is_obj q" "exact_keys q [''host'', ''sdk'', ''modules''] [''host'', ''sdk'', ''modules''] = Inr ()"
    "get_field q ''host'' = Some h" "version_range h = Inr ()" "get_field q ''sdk'' = Some s" "version_range s = Inr ()"
    "get_field q ''modules'' = Some m" "is_obj m"
    "\<forall>p \<in> set (obj_items m). version_range (snd p) = Inr ()"
    by (auto simp: validate_requires_def) fastforce
  from q(9) obtain ms where ms: "obj_items m = json_strings ms" using constraints_str by blast
  with q(8) have m: "m = JObj (json_strings ms)" by (cases m) auto
  have "json_wf m" using assms(2) q(7) by (rule json_wf_field)
  then have "distinct (map fst ms)" by (simp add: m)
  moreover obtain h' s' where "h = JStr h'" "s = JStr s'" using q(4,6) version_range_str by metis
  moreover have "set (dict_keys (obj_items q)) = {''host'', ''sdk'', ''modules''}"
    using q(2) by (simp only: exact_keys_Inr) auto
  ultimately show thesis using q(1,3,5,7) m by (intro that [of h' s' ms]) simp_all
qed

lemma release_reads_as:
  assumes "validate_release v mid cls = Inr u" and "json_wf v"
  shows "\<exists>r. reads_as v r \<and> distinct (map fst (rd_modules r)) \<and> py_eq (rd_bundle_format r) (JInt 1)
    \<and> py_eq (JInt 1) (rd_bundle_format r)"
proof -
  from validate_release_wf [OF assms(1)] obtain ver c a ur h commit q where
    f: "get_field v ''version'' = Some (JStr ver)" "get_field v ''channel'' = Some (JStr c)"
      "get_field v ''artifact'' = Some a" "get_field a ''url'' = Some (JStr ur)" "get_field a ''sha256'' = Some (JStr h)"
      "get_field v ''source_commit'' = Some (JStr commit)" "get_field v ''requires'' = Some q" "validate_requires q mid = Inr ()"
    by (auto simp: release_wf_def)
  from assms(1) obtain b where b: "get_field v ''bundle_format_version'' = Some b" "py_eq b (JInt 1)"
    and "optional_string v ''source_tag'' 255 = Inr ()"
    by (auto simp: validate_release_def)
  then obtain t where t: "get_field v ''source_tag'' = map_option JStr t" using optional_string_Inr by blast
  have wq: "json_wf q" using assms(2) f(7) by (rule json_wf_field)
  obtain ho sd m where
    q: "get_field q ''host'' = Some (JStr ho)" "get_field q ''sdk'' = Some (JStr sd)"
      "get_field q ''modules'' = Some (JObj (json_strings m))" "distinct (map fst m)"
      "set (dict_keys (obj_items q)) = {''host'', ''sdk'', ''modules''}" "is_obj q"
    by (rule requires_reads_as [OF f(8) wq])
  let ?r = "\<lparr>rd_version = ver, rd_channel = c, rd_url = ur, rd_sha256 = h, rd_bundle_format = b, rd_commit = commit,
    rd_tag = t, rd_host = ho, rd_sdk = sd, rd_modules = m\<rparr>"
  have "reads_as v ?r" using f b(1) t q by (auto simp: reads_as_def)
  moreover have "py_eq (JInt 1) b" using b(2) by (cases b) (auto simp: py_eq.simps [of _ "JInt 1"] py_eq.simps [of "JInt 1"] split: if_splits)
  ultimately show ?thesis using b(2) q(4) by (intro exI [of _ ?r]) auto
qed

text \<open>A document with the values of the release equals the release.\<close>

lemma doc_py_eq:
  assumes "validate_release v mid cls = Inr u" and "json_wf v" and "reads_as v r" and "py_eq n (rd_bundle_format r)"
    and "map_of ms = map_of (json_strings (rd_modules r))" "distinct (map fst ms)"
  shows "py_eq (JObj ([(''version'', JStr (rd_version r)), (''channel'', JStr (rd_channel r)),
       (''artifact'', JObj [(''url'', JStr (rd_url r)), (''sha256'', JStr (rd_sha256 r))]),
       (''bundle_format_version'', n), (''source_commit'', JStr (rd_commit r)),
       (''requires'', JObj [(''host'', JStr (rd_host r)), (''sdk'', JStr (rd_sdk r)), (''modules'', JObj ms)])]
       @ optional_field ''source_tag'' (rd_tag r))) v"
proof -
  from assms(1) have keys: "is_obj v" "exact_keys v RELEASE_KEYS (filter (\<lambda>k. k \<noteq> ''source_tag'') RELEASE_KEYS) = Inr ()"
    and ak: "\<And>a. get_field v ''artifact'' = Some a \<Longrightarrow> is_obj a \<and> exact_keys a [''url'', ''sha256''] [''url'', ''sha256''] = Inr ()"
    and rq: "\<And>q. get_field v ''requires'' = Some q \<Longrightarrow> validate_requires q mid = Inr ()"
    by (auto simp: validate_release_def)
  from keys(1) obtain d where d: "v = JObj d" by (cases v) auto
  from assms(3) obtain a q where a: "get_field v ''artifact'' = Some a" "get_field a ''url'' = Some (JStr (rd_url r))"
      "get_field a ''sha256'' = Some (JStr (rd_sha256 r))"
    and q: "get_field v ''requires'' = Some q" "get_field q ''host'' = Some (JStr (rd_host r))"
      "get_field q ''sdk'' = Some (JStr (rd_sdk r))"
      "get_field q ''modules'' = Some (JObj (json_strings (rd_modules r)))"
    by (auto simp: reads_as_def)
  have wa: "json_wf a" and wq: "json_wf q" using assms(2) a(1) q(1) json_wf_field by blast+
  from ak [OF a(1)] obtain da where da: "a = JObj da" by (cases a) auto
  with ak [OF a(1)] have da: "a = JObj da" "set (dict_keys da) = {''url'', ''sha256''}"
    by (simp_all only: exact_keys_Inr obj_items.simps) auto
  have ea: "py_eq (JObj [(''url'', JStr (rd_url r)), (''sha256'', JStr (rd_sha256 r))]) a"
    unfolding da(1)
  proof (rule py_eq_objI)
    show "distinct (dict_keys da)" using wa by (simp add: da(1))
    show "set (dict_keys [(''url'', JStr (rd_url r)), (''sha256'', JStr (rd_sha256 r))]) = set (dict_keys da)"
      using da(2) by simp
  qed (use a(2,3) in \<open>auto simp: da(1) split: if_splits\<close>)
  have "is_obj q" "set (dict_keys (obj_items q)) = {''host'', ''sdk'', ''modules''}"
    by (rule requires_reads_as [OF rq [OF q(1)] wq]; simp)+
  then obtain dq where dq: "q = JObj dq" "set (dict_keys dq) = {''host'', ''sdk'', ''modules''}" by (cases q) auto
  have "json_wf (JObj (json_strings (rd_modules r)))" using wq q(4) by (rule json_wf_field)
  then have em: "py_eq (JObj ms) (JObj (json_strings (rd_modules r)))"
  proof (intro py_eq_objI)
    show "set (dict_keys ms) = set (dict_keys (json_strings (rd_modules r)))"
      using arg_cong [OF assms(5), of dom] by (simp only: dom_map_of_conv_image_fst set_map)
  next
    fix k x y
    assume "dict_get ms k = Some x" and y: "dict_get (json_strings (rd_modules r)) k = Some y"
    with assms(5) have "x = y" by simp
    then show "py_eq x y" using json_strings_SomeD [OF y] by auto
  qed (use assms(6) in simp_all)
  have eq: "py_eq (JObj [(''host'', JStr (rd_host r)), (''sdk'', JStr (rd_sdk r)), (''modules'', JObj ms)]) q"
    unfolding dq(1)
  proof (rule py_eq_objI)
    show "distinct (dict_keys dq)" using wq by (simp add: dq(1))
    show "set (dict_keys [(''host'', JStr (rd_host r)), (''sdk'', JStr (rd_sdk r)), (''modules'', JObj ms)]) = set (dict_keys dq)"
      using dq(2) by simp
  qed (use q(2-4) em in \<open>auto simp: dq(1) simp del: py_eq_simps(4) split: if_splits\<close>)
  have diff: "K = R - (if b then {} else {x})" if "{y \<in> R. y \<noteq> x} \<subseteq> K" "K \<subseteq> R" "x \<in> K \<longleftrightarrow> b"
    for K R :: "string set" and x b
    using that by auto
  have dk: "set (dict_keys d) = set RELEASE_KEYS - (if rd_tag r \<noteq> None then {} else {''source_tag''})"
  proof (rule diff)
    show "{y \<in> set RELEASE_KEYS. y \<noteq> ''source_tag''} \<subseteq> set (dict_keys d)" "set (dict_keys d) \<subseteq> set RELEASE_KEYS"
      using keys(2) by (simp_all only: exact_keys_Inr d obj_items.simps set_filter)
    have "dict_get d ''source_tag'' = map_option JStr (rd_tag r)" using assms(3) by (simp add: reads_as_def d)
    moreover have "dict_get d ''source_tag'' = None \<longleftrightarrow> ''source_tag'' \<notin> set (dict_keys d)"
      by (metis map_of_eq_None_iff set_map)
    ultimately show "''source_tag'' \<in> set (dict_keys d) \<longleftrightarrow> rd_tag r \<noteq> None" by simp
  qed
  let ?d = "[(''version'', JStr (rd_version r)), (''channel'', JStr (rd_channel r)),
       (''artifact'', JObj [(''url'', JStr (rd_url r)), (''sha256'', JStr (rd_sha256 r))]),
       (''bundle_format_version'', n), (''source_commit'', JStr (rd_commit r)),
       (''requires'', JObj [(''host'', JStr (rd_host r)), (''sdk'', JStr (rd_sdk r)), (''modules'', JObj ms)])]
       @ optional_field ''source_tag'' (rd_tag r)"
  have fields: "dict_get d ''version'' = Some (JStr (rd_version r))" "dict_get d ''channel'' = Some (JStr (rd_channel r))"
    "dict_get d ''artifact'' = Some a" "dict_get d ''bundle_format_version'' = Some (rd_bundle_format r)"
    "dict_get d ''source_commit'' = Some (JStr (rd_commit r))" "dict_get d ''requires'' = Some q"
    "dict_get d ''source_tag'' = map_option JStr (rd_tag r)"
    using assms(3) a(1) q(1) by (auto simp: reads_as_def d)
  show ?thesis
    unfolding d
  proof (rule py_eq_objI)
    show "distinct (dict_keys d)" using assms(2) by (simp add: d)
    show "distinct (dict_keys ?d)" by (cases "rd_tag r") (simp_all add: optional_field_def)
    show "set (dict_keys ?d) = set (dict_keys d)"
      unfolding dk by (cases "rd_tag r") (auto simp: optional_field_def RELEASE_KEYS_def)
  next
    fix k x y
    assume x: "dict_get ?d k = Some x" and y: "dict_get d k = Some y"
    have "k \<in> set (dict_keys ?d)" using obj_keys [OF x] .
    then have "k = ''version'' \<or> k = ''channel'' \<or> k = ''artifact'' \<or> k = ''bundle_format_version''
      \<or> k = ''source_commit'' \<or> k = ''requires'' \<or> k = ''source_tag'' \<and> rd_tag r \<noteq> None"
      by (cases "rd_tag r") (simp_all add: optional_field_def)
    then consider "k = ''version''" | "k = ''channel''" | "k = ''artifact''" | "k = ''bundle_format_version''"
      | "k = ''source_commit''" | "k = ''requires''" | "k = ''source_tag''" "rd_tag r \<noteq> None"
      by (elim disjE conjE)
    then show "py_eq x y"
    proof cases
      case 7
      with x y fields(7) show ?thesis by (auto simp: optional_field_def)
    qed (use x y fields ea eq assms(4) in \<open>auto simp del: py_eq_simps(4)\<close>)
  qed
qed

section \<open>The rows of a new version\<close>

lemma insert_new:
  "insert_row T False r s = (Inr u, t) \<Longrightarrow> t = tb_put T (tb_rows T s @ [r]) s"
  by (erule insert_row_cases) auto

lemma add_provenance_Inr:
  assumes "add_provenance e imported s = (Inr i, t)"
  shows "\<exists>p. provenance_row e i imported = Inr p \<and> i = seq_provenance s
    \<and> t = s\<lparr>seq_provenance := Suc i, t_provenance := t_provenance s @ [p]\<rparr>"
  using assms by (auto simp: add_provenance_def dest!: insert_new)

lemma ensure_record_Inr:
  assumes "ensure_record T is_key agrees new s = (Inr r, t)"
  shows "py_next is_key (tb_rows T t) = Some r \<and> agrees r"
proof -
  have last: "py_next is_key (tb_rows T t) = Some r \<and> agrees r"
    if "(case m of None \<Rightarrow> eraise (conflict ''Conflicting record'')
        | Some r \<Rightarrow> if agrees r then eret r else eraise (conflict ''Conflicting record'')) u = (Inr r, t)"
      and "py_next is_key (tb_rows T u) = m" for m u
    using that by (cases m) (auto split: if_splits)
  show ?thesis
  proof (cases "py_next is_key (tb_rows T s)")
    case None
    with assms obtain r' v w u where "insert_row T True r' v = (w, u)"
      "(case py_next is_key (tb_rows T u) of None \<Rightarrow> eraise (conflict ''Conflicting record'')
        | Some r \<Rightarrow> if agrees r then eret r else eraise (conflict ''Conflicting record'')) u = (Inr r, t)"
      unfolding ensure_record_def by auto
    with last show ?thesis by blast
  next
    case (Some r')
    with assms last [of "Some r'" s] show ?thesis unfolding ensure_record_def by auto
  qed
qed

lemma ensure_artifact_Inr:
  assumes "ensure_artifact d s = (Inr a, t)"
  shows "py_next (\<lambda>a. ar_digest_algorithm a = ''sha256'' \<and> ar_digest a = d) (t_artifacts t) = Some a"
    and "ar_digest a = d" "ar_digest_algorithm a = ''sha256''" "a \<in> set (t_artifacts t)"
  using ensure_record_Inr [OF assms [unfolded ensure_artifact_def]] by (auto dest: find_SomeD)

lemma ensure_artifact_tables:
  assumes "ensure_artifact d s = (x, t)"
  shows "\<exists>as n. t = s\<lparr>seq_artifact := n, t_artifacts := as\<rparr>"
proof -
  have ins: "\<exists>as. u' = u\<lparr>t_artifacts := as\<rparr>" if "insert_row Artifact True r u = (y, u')" for r u y u'
    using that by (cases rule: insert_row_cases) (auto intro: exI [of _ "t_artifacts u"])
  obtain y u' where i: "insert_row Artifact True \<lparr>ar_id = seq_artifact s, ar_digest_algorithm = ''sha256'',
      ar_digest = d, ar_byte_size = None, ar_storage_locator = None\<rparr> (s\<lparr>seq_artifact := Suc (seq_artifact s)\<rparr>) = (y, u')"
    by fastforce
  from ins [OF i] obtain as where u': "u' = s\<lparr>seq_artifact := Suc (seq_artifact s), t_artifacts := as\<rparr>" by auto
  have st: "s = s\<lparr>seq_artifact := seq_artifact s, t_artifacts := t_artifacts s\<rparr>" by simp
  from assms i have "t = s \<or> t = u'"
    unfolding ensure_artifact_def ensure_record_def new_artifact_def
    by (cases y) (auto simp: ebind_def eget_def emodify_def eret_def eraise_def split: option.splits if_splits)
  with u' st show ?thesis by metis
qed

definition dependency_row :: "string \<Rightarrow> string \<Rightarrow> string \<times> string \<Rightarrow> db_dependency" where
  "dependency_row m v p = \<lparr>dp_owner_module_id = m, dp_owner_version = v, dp_module_id = fst p, dp_specifier = snd p\<rparr>"

lemma add_dependencies:
  assumes "emap (\<lambda>(target, specifier).
      ebind (elift (text_param specifier)) (\<lambda>x.
      insert_row ModuleDependency False \<lparr>dp_owner_module_id = m, dp_owner_version = v, dp_module_id = target, dp_specifier = x\<rparr>))
      (map (\<lambda>(k, w). (k, JStr w)) ps) s = (Inr us, t)"
  shows "t = s\<lparr>t_dependencies := t_dependencies s @ map (dependency_row m v) ps\<rparr>"
  using assms
proof (induction ps arbitrary: s us)
  case (Cons p ps)
  obtain k w where p: "p = (k, w)" by (cases p)
  from Cons.prems obtain u vs where "insert_row ModuleDependency False (dependency_row m v p) s = (Inr (), u)"
    "emap (\<lambda>(target, specifier). ebind (elift (text_param specifier)) (\<lambda>x.
      insert_row ModuleDependency False \<lparr>dp_owner_module_id = m, dp_owner_version = v, dp_module_id = target, dp_specifier = x\<rparr>))
      (map (\<lambda>(k, w). (k, JStr w)) ps) u = (Inr vs, t)"
    by (auto simp: p dependency_row_def)
  with Cons.IH insert_new have "t = u\<lparr>t_dependencies := t_dependencies u @ map (dependency_row m v) ps\<rparr>"
    "u = s\<lparr>t_dependencies := t_dependencies s @ [dependency_row m v p]\<rparr>" by fastforce+
  then show ?case by simp
qed simp

lemma sorted_json_strings: "py_sorted fst (json_strings m) = json_strings (py_sorted fst m)"
proof -
  have "py_sorted fst (map (\<lambda>(k, v). (k, JStr v)) m) = map (\<lambda>(k, v). (k, JStr v)) (py_sorted fst m)"
  proof (induction m)
    case (Cons p m)
    have ins: "insort_key fst (fst p, JStr (snd p)) (map (\<lambda>(k, v). (k, JStr v)) xs) = map (\<lambda>(k, v). (k, JStr v)) (insort_key fst p xs)" for xs
      by (induction xs) (auto simp: case_prod_beta)
    from Cons ins show ?case by (cases p) simp
  qed simp
  then show ?thesis by (simp add: json_strings_def)
qed

lemma unique_find:
  assumes "sorted_wrt (\<lambda>x y. \<not> P y x) xs" and "a \<in> set xs" and "\<And>x y. k x = k y \<Longrightarrow> P x y"
  shows "py_next (\<lambda>x. k x = k a) xs = Some a"
  using assms by (induction xs) auto

lemma artifact_by_id:
  assumes "db_wf s" and "a \<in> set (t_artifacts s)"
  shows "py_next (\<lambda>x. ar_id x = ar_id a) (t_artifacts s) = Some a"
  by (rule unique_find [of "tb_clash Artifact"]) (use assms in \<open>auto simp: db_wf_def table_ok_def Artifact_def\<close>)

lemma version_row_Inr:
  assumes "version_row mid v order aid pid now published = Inr row" and "reads_as v r"
  shows "mv_module_id row = mid \<and> mv_version row = rd_version r \<and> mv_artifact_id row = aid
    \<and> mv_artifact_original_url row = rd_url r \<and> mv_historical_order row = order \<and> mv_build_provenance_id row = Some pid
    \<and> int_param (rd_bundle_format r) = Inr (mv_bundle_format_version row) \<and> mv_source_tag row = rd_tag r
    \<and> mv_source_commit row = rd_commit r \<and> mv_host_compatibility row = rd_host r
    \<and> mv_sdk_compatibility row = rd_sdk r \<and> mv_channel row = rd_channel r \<and> mv_published_at row = published"
  using assms by (cases "rd_tag r") (auto simp: version_row_def reads_as_def get_or_def)

lemma int_param_one:
  "py_eq b (JInt 1) \<Longrightarrow> int_param b = Inr n \<Longrightarrow> n = 1"
  by (cases b) (auto simp: int_param_def py_eq.simps [of _ "JInt 1"] split: if_splits)

text \<open>What \<open>add_version\<close> leaves in the tables for a release that reads as \<open>r\<close>.\<close>

definition published_as ::
    "registry_db \<Rightarrow> string \<Rightarrow> release_doc \<Rightarrow> bool \<Rightarrow> (string \<times> json) list \<Rightarrow> db_version \<Rightarrow> bool" where
  "published_as t mid r promoted e row =
     (row \<in> set (t_versions t) \<and> version_key row = (mid, rd_version r)
      \<and> (\<exists>a. py_next (\<lambda>a. ar_id a = mv_artifact_id row) (t_artifacts t) = Some a
           \<and> ar_digest_algorithm a = ''sha256'' \<and> ar_digest a = rd_sha256 r)
      \<and> mv_artifact_original_url row = rd_url r \<and> int_param (rd_bundle_format r) = Inr (mv_bundle_format_version row)
      \<and> mv_source_tag row = rd_tag r \<and> mv_source_commit row = rd_commit r \<and> mv_host_compatibility row = rd_host r
      \<and> mv_sdk_compatibility row = rd_sdk r \<and> mv_channel row = rd_channel r
      \<and> (mv_published_at row \<noteq> None) = promoted
      \<and> owned_dependencies t mid (rd_version r) = map (dependency_row mid (rd_version r)) (py_sorted fst (rd_modules r))
      \<and> (\<exists>i p imported. mv_build_provenance_id row = Some i \<and> py_next (\<lambda>p. bp_id p = i) (t_provenance t) = Some p
           \<and> provenance_row e i imported = Inr p))"

lemma find_append_skip: "\<forall>x \<in> set xs. \<not> P x \<Longrightarrow> py_next P (xs @ ys) = py_next P ys"
  by (induction xs) auto

lemma no_owned:
  assumes "db_wf s" and "(m, v) \<notin> version_key ` set (t_versions s)"
  shows "owned_dependencies s m v = []"
proof -
  have "table_ok ModuleDependency s" using assms(1) by (simp add: db_wf_def)
  then have "version_exists s (dp_owner_module_id d) (dp_owner_version d)" if "d \<in> set (t_dependencies s)" for d
    using that by (auto simp: table_ok_def ModuleDependency_def)
  with assms(2) show ?thesis by (auto simp: owned_dependencies_def filter_empty_conv version_exists_iff)
qed

lemma add_version_rows:
  assumes run: "add_version now mid v order promoted e s = (Inr b, t)" and r: "reads_as v r"
    and wf: "db_wf s" and new: "(mid, rd_version r) \<notin> version_key ` set (t_versions s)"
  shows "b \<and> t_channels t = t_channels s \<and> t_promotions t = t_promotions s
    \<and> (\<exists>row. t_versions t = t_versions s @ [row] \<and> published_as t mid r promoted e row)"
proof -
  from r obtain q a where q: "get_field v ''requires'' = Some q" "get_field q ''modules'' = Some (JObj (json_strings (rd_modules r)))"
    and a: "get_field v ''artifact'' = Some a" "get_field a ''sha256'' = Some (JStr (rd_sha256 r))"
    by (auto simp: reads_as_def)
  from run q a obtain position us u1 u2 u3 art pid row ws u4 where
    pos: "(case order of None \<Rightarrow> eget (\<lambda>db. next_order db mid) | Some n \<Rightarrow> eret n) s = (Inr position, s)"
    and mods: "emap (\<lambda>(target, _). ebind (get_module target) (\<lambda>m. eensure (m \<noteq> None) (conflict ''Missing dependency module'')))
        (json_strings (rd_modules r)) s = (Inr us, u1)"
    and art: "ensure_artifact (rd_sha256 r) u1 = (Inr art, u2)"
    and prov: "add_provenance e (if promoted then None else Some now) u2 = (Inr pid, u3)"
    and row: "version_row mid v position (ar_id art) pid now (if promoted then Some now else None) = Inr row"
    and ins: "insert_row ModuleVersion False row u3 = (Inr (), u4)"
    and deps: "emap (\<lambda>(target, specifier). ebind (elift (text_param specifier)) (\<lambda>x.
        insert_row ModuleDependency False \<lparr>dp_owner_module_id = mid, dp_owner_version = mv_version row, dp_module_id = target, dp_specifier = x\<rparr>))
        (py_sorted fst (json_strings (rd_modules r))) u4 = (Inr ws, t)"
    and b: b
    unfolding add_version_def by (cases order) auto
  have "keeps (=) (emap (\<lambda>(target, _). ebind (get_module target) (\<lambda>m. eensure (m \<noteq> None) (conflict ''Missing dependency module'')))
        (json_strings (rd_modules r)))"
    by (intro keeps_intros eq_preorder)
  from keepsD [OF this mods] have u1: "u1 = s" by simp
  from ensure_artifact_tables [OF art] u1 obtain as n where u2: "u2 = s\<lparr>seq_artifact := n, t_artifacts := as\<rparr>" by auto
  from add_provenance_Inr [OF prov] obtain p where p: "provenance_row e pid (if promoted then None else Some now) = Inr p"
    and pid: "pid = seq_provenance u2" and u3: "u3 = u2\<lparr>seq_provenance := Suc pid, t_provenance := t_provenance u2 @ [p]\<rparr>" by auto
  have u4: "u4 = u3\<lparr>t_versions := t_versions u3 @ [row]\<rparr>" using insert_new [OF ins] by simp
  have t: "t = u4\<lparr>t_dependencies := t_dependencies u4 @ map (dependency_row mid (mv_version row)) (py_sorted fst (rd_modules r))\<rparr>"
    using add_dependencies [of mid "mv_version row"] deps unfolding sorted_json_strings by (simp add: json_strings_def)
  note rowf = version_row_Inr [OF row r]
  have "sound {} s u2" by (rule keepsD [OF keeps_ensure_artifact art [unfolded u1]])
  with wf have wf2: "db_wf u2" by (simp add: sound_def)
  have art': "ar_digest art = rd_sha256 r" "ar_digest_algorithm art = ''sha256''" "art \<in> set as"
    using ensure_artifact_Inr [OF art] by (simp_all add: u2)
  then have "py_next (\<lambda>x. ar_id x = ar_id art) as = Some art" using artifact_by_id [OF wf2, of art] u2 by simp
  moreover have "py_next (\<lambda>x. bp_id x = pid) (t_provenance u2 @ [p]) = Some p"
  proof -
    have "bp_id p = pid" using p by (auto simp: provenance_row_def Let_def)
    moreover have "\<forall>x \<in> set (t_provenance u2). bp_id x \<noteq> pid" using wf2 pid by (auto simp: db_wf_def)
    ultimately show ?thesis by (simp add: find_append_skip)
  qed
  moreover have "owned_dependencies s mid (rd_version r) = []" using no_owned [OF wf new] .
  ultimately have "published_as t mid r promoted e row"
    using rowf p art' unfolding published_as_def
    by (auto simp: t u4 u3 u2 version_key_def owned_dependencies_def dependency_row_def)
  with b show ?thesis by (auto simp: t u4 u3 u2)
qed

section \<open>Reading the rows back\<close>

lemma dict_of_distinct: "distinct (map fst ps) \<Longrightarrow> dict_of ps = ps"
proof (induction ps rule: rev_induct)
  case (snoc p ps)
  have "AList.update (fst p) (snd p) ps = ps @ [p]" if "fst p \<notin> fst ` set ps"
    using that by (induction ps) auto
  with snoc show ?case by (simp add: dict_of_snoc)
qed (simp add: dict_of_def)

lemma published_structure:
  assumes "published_as t mid r promoted e row" and "validate_release v mid cls = Inr u" and "json_wf v"
    and "reads_as v r" and "distinct (map fst (rd_modules r))" and "py_eq (rd_bundle_format r) (JInt 1)" "py_eq (JInt 1) (rd_bundle_format r)"
  shows "\<exists>x. load_release_structure row t = (Inr x, t) \<and> py_eq x v"
proof -
  from assms(1) obtain a where a: "py_next (\<lambda>a. ar_id a = mv_artifact_id row) (t_artifacts t) = Some a" "ar_digest a = rd_sha256 r"
    and row: "mv_module_id row = mid" "mv_version row = rd_version r" "mv_artifact_original_url row = rd_url r"
      "int_param (rd_bundle_format r) = Inr (mv_bundle_format_version row)" "mv_source_tag row = rd_tag r"
      "mv_source_commit row = rd_commit r" "mv_host_compatibility row = rd_host r" "mv_sdk_compatibility row = rd_sdk r"
      "mv_channel row = rd_channel r"
    and own: "owned_dependencies t mid (rd_version r) = map (dependency_row mid (rd_version r)) (py_sorted fst (rd_modules r))"
    by (auto simp: published_as_def version_key_def)
  let ?ms = "json_strings (py_sorted fst (rd_modules r))"
  have ms: "dict_of (map (\<lambda>d. (dp_module_id d, JStr (dp_specifier d))) (owned_dependencies t mid (rd_version r))) = ?ms"
  proof -
    have "map (\<lambda>d. (dp_module_id d, JStr (dp_specifier d))) (owned_dependencies t mid (rd_version r)) = ?ms"
      by (simp add: own dependency_row_def json_strings_def comp_def case_prod_beta)
    moreover have "distinct (map fst ?ms)" using assms(5) by (simp add: distinct_map_sort_key)
    ultimately show ?thesis by (simp add: dict_of_distinct)
  qed
  have one: "mv_bundle_format_version row = 1" using int_param_one [OF assms(6) row(4)] .
  have "map_of ?ms = map_of (json_strings (rd_modules r))"
    using assms(5) by (subst map_of_inject_set) (auto simp: distinct_map_sort_key json_strings_def comp_def case_prod_beta)
  moreover have "distinct (map fst ?ms)" using assms(5) by (simp add: distinct_map_sort_key)
  moreover have "py_eq (JInt (mv_bundle_format_version row)) (rd_bundle_format r)" using one assms(7) by simp
  ultimately have "py_eq (release_structure row a (owned_dependencies t mid (rd_version r))) v"
    using doc_py_eq [OF assms(2-4), of "JInt (mv_bundle_format_version row)" ?ms] a row ms
    by (simp add: release_structure_def)
  moreover have "load_release_structure row t = (Inr (release_structure row a (owned_dependencies t mid (rd_version r))), t)"
    using a row by (simp add: load_release_structure_def eff_simps)
  ultimately show ?thesis by blast
qed

text \<open>The evidence compares equal to the row made from it.\<close>

lemma jsonb_no_nan: "jsonb_ok j \<Longrightarrow> no_nan j"
  by (induction j rule: jsonb_ok.induct) (auto simp: is_special_def list_all_iff)

definition PROVENANCE_FIELDS :: "string list" where
  "PROVENANCE_FIELDS = [''source_repository'', ''source_tag'', ''source_commit'', ''builder_version'', ''builder_commit'',
     ''host_commit'', ''reproducible'', ''host_contract_status'', ''environment_json'']"

lemma params_back:
  "text_param v = Inr s \<Longrightarrow> v = JStr s" "null_text_param v = Inr m \<Longrightarrow> v = json_opt JStr m"
  "null_bool_param v = Inr b \<Longrightarrow> v = json_opt JBool b" "json_opt id (json_param v) = v"
  by (cases v; auto)+

lemma same_evidence_row:
  assumes "provenance_row e i imported = Inr p" and "map fst e = PROVENANCE_FIELDS" and "opt_all jsonb_ok (bp_environment_json p)"
    and "\<forall>x \<in> set e. json_wf (snd x)"
  shows "same_evidence p e"
proof -
  from assms(2) obtain v1 v2 v3 v4 v5 v6 v7 v8 v9 where e: "e = [(''source_repository'', v1), (''source_tag'', v2),
      (''source_commit'', v3), (''builder_version'', v4), (''builder_commit'', v5), (''host_commit'', v6),
      (''reproducible'', v7), (''host_contract_status'', v8), (''environment_json'', v9)]"
    unfolding PROVENANCE_FIELDS_def by (auto simp: map_eq_Cons_conv)
  have p: "text_param v1 = Inr (bp_source_repository p)" "null_text_param v2 = Inr (bp_source_tag p)"
    "text_param v3 = Inr (bp_source_commit p)" "null_text_param v4 = Inr (bp_builder_version p)"
    "null_text_param v5 = Inr (bp_builder_commit p)" "null_text_param v6 = Inr (bp_host_commit p)"
    "null_bool_param v7 = Inr (bp_reproducible p)" "null_text_param v8 = Inr (bp_host_contract_status p)"
    "bp_environment_json p = json_param v9"
    using assms(1) by (auto simp: provenance_row_def e get_or_def Let_def)
  have str: "py_eq (json_opt JStr m) (json_opt JStr m)" "py_eq (json_opt JBool m') (json_opt JBool m')" for m m'
    by (cases m; simp) (cases m'; simp)
  have "py_eq v9 v9"
  proof (rule py_eq_refl)
    show "json_wf v9" using assms(4) by (simp add: e)
    have "opt_all jsonb_ok (json_param v9)" using assms(3) p(9) by simp
    then have "v9 = JNull \<or> jsonb_ok v9" by (cases v9) simp_all
    then show "no_nan v9" using jsonb_no_nan by auto
  qed
  then show ?thesis
    using params_back(1) [OF p(1)] params_back(2) [OF p(2)] params_back(1) [OF p(3)] params_back(2) [OF p(4)]
      params_back(2) [OF p(5)] params_back(2) [OF p(6)] params_back(3) [OF p(7)] params_back(2) [OF p(8)]
      params_back(4) [of v9] p(9) str
    by (simp add: same_evidence_def provenance_fields_def e)
qed

lemma confirm_published:
  assumes "published_as t mid r promoted e row" and "validate_release v mid cls = Inr u" and "json_wf v"
    and "reads_as v r" and "distinct (map fst (rd_modules r))" and "py_eq (rd_bundle_format r) (JInt 1)" "py_eq (JInt 1) (rd_bundle_format r)"
    and "db_wf t" and "map fst e = PROVENANCE_FIELDS" and "\<forall>x \<in> set e. json_wf (snd x)"
  shows "confirm_version row v None promoted e t = (Inr False, t)"
proof -
  from published_structure [OF assms(1-7)] obtain x where x: "load_release_structure row t = (Inr x, t)" "py_eq x v" by blast
  from assms(1) obtain a i p imported where a: "py_next (\<lambda>a. ar_id a = mv_artifact_id row) (t_artifacts t) = Some a"
      "ar_digest_algorithm a = ''sha256''"
    and p: "mv_build_provenance_id row = Some i" "py_next (\<lambda>p. bp_id p = i) (t_provenance t) = Some p"
      "provenance_row e i imported = Inr p"
    and pub: "(mv_published_at row \<noteq> None) = promoted"
    by (auto simp: published_as_def)
  from p(2) have "p \<in> set (t_provenance t)" by (simp add: find_SomeD)
  with assms(8) have "opt_all jsonb_ok (bp_environment_json p)"
    by (auto simp: db_wf_def table_ok_def BuildProvenance_def)
  with same_evidence_row [OF p(3) assms(9)] assms(10) have "same_evidence p e" by blast
  with x a p pub show ?thesis
    by (auto simp: confirm_version_def ebind_def eensure_def get_provenance_def eget_def get_artifact_def deref_def eret_def)
qed

text \<open>Published rows stay published as history grows.\<close>

lemma published_later:
  assumes "published_as s mid r promoted e row" and "history_le s t"
  shows "published_as t mid r promoted e row"
proof -
  from assms(1) obtain a i p imported where row: "row \<in> set (t_versions s)" "version_key row = (mid, rd_version r)"
    and a: "py_next (\<lambda>a. ar_id a = mv_artifact_id row) (t_artifacts s) = Some a"
      "ar_digest_algorithm a = ''sha256''" "ar_digest a = rd_sha256 r"
    and p: "mv_build_provenance_id row = Some i" "py_next (\<lambda>p. bp_id p = i) (t_provenance s) = Some p"
      "provenance_row e i imported = Inr p"
    and own: "owned_dependencies s mid (rd_version r) = map (dependency_row mid (rd_version r)) (py_sorted fst (rd_modules r))"
    by (auto simp: published_as_def)
  from assms(2) obtain K where K: "db_grow K s t" "K \<inter> version_key ` set (t_versions s) = {}"
    by (auto simp: history_le_def)
  from K(1) obtain as bs where "t_artifacts t = as @ bs" "list_all2 artifact_le (t_artifacts s) as"
    by (auto simp: db_grow_def ext_by_def)
  with find_ext_by [OF _ _ a(1)] obtain a' where a': "py_next (\<lambda>a. ar_id a = mv_artifact_id row) (t_artifacts t) = Some a'" "artifact_le a a'"
    by (metis artifact_le_def)
  moreover have "py_next (\<lambda>p. bp_id p = i) (t_provenance t) = Some p"
    using history_le_prefix(2) [OF assms(2)] p(2) by (rule find_prefix)
  moreover have "row \<in> set (t_versions t)" using history_le_prefix(1) [OF assms(2)] row(1) by (auto dest: set_mono_prefix)
  moreover have "owned_dependencies t mid (rd_version r) = owned_dependencies s mid (rd_version r)"
  proof -
    from K(1) obtain ds where ds: "t_dependencies t = t_dependencies s @ ds" "\<forall>d \<in> set ds. dependency_owner d \<in> K"
      by (auto simp: db_grow_def)
    have "(mid, rd_version r) \<notin> K" using K(2) row by (metis disjoint_iff image_eqI)
    with ds show ?thesis by (auto simp: owned_dependencies_def filter_empty_conv dependency_owner_def)
  qed
  ultimately show ?thesis
    using assms(1) a p own row(2) by (auto simp: published_as_def artifact_le_def)
qed

text \<open>A successful insertion: the version was confirmed, or it is new.\<close>

lemma insert_version_Inr:
  assumes "insert_published_version sch now mid release order (Some e) s = (Inr b, t)"
  shows "\<exists>cls v. validate_release release mid cls = Inr () \<and> get_field release ''version'' = Some (JStr v)
    \<and> (if b then (mid, v) \<notin> version_key ` set (t_versions s) \<and> add_version now mid release order True e s = (Inr True, t)
       else t = s)"
proof -
  from assms obtain m st u x where m: "py_next (\<lambda>m. mo_id m = mid) (t_modules s) = Some m"
    and st: "load_module_structure m s = (Inr st, u)"
    and v: "validate_module sch (JObj (st @ [(''versions'', JList [release])])) None = Inr ()"
    and ver: "get_field release ''version'' = Some (JStr x)"
    and rest: "(case py_next (\<lambda>r. mv_module_id r = mid \<and> mv_version r = x) (t_versions u) of
        None \<Rightarrow> add_version now mid release order True e | Some p \<Rightarrow> confirm_version p release order True e) u = (Inr b, t)"
    unfolding insert_published_version_def by (auto simp: readers_iff split: option.splits)
  have u: "u = s" using st by (rule readonly_structures)
  obtain md cls vs where f: "get_field (JObj (st @ [(''versions'', JList [release])])) ''id'' = Some (JStr md)"
    "get_field (JObj (st @ [(''versions'', JList [release])])) ''versions'' = Some (JList vs)"
    "validate_versions vs md cls [] = Inr ()"
    using validate_module_fields [OF v] by metis
  have mo: "mo_id m = mid" using m by (auto dest: find_SomeD)
  obtain p where s: "st = module_structure m p" using st by (auto simp: load_module_structure_def readers_iff)
  have "map_of (optional_field k o1) ''versions'' = None" if "k \<noteq> ''versions''" for k o1
    using that by (cases o1) (auto simp: optional_field_def)
  then have "md = mid" "vs = [release]" using f(1,2) mo
    by (auto simp: s module_structure_def map_add_def split: option.splits)
  with f(3) have "validate_release release mid cls = Inr ()" by auto
  moreover have "if b then (mid, x) \<notin> version_key ` set (t_versions s) \<and> add_version now mid release order True e s = (Inr True, t) else t = s"
  proof (cases "py_next (\<lambda>r. mv_module_id r = mid \<and> mv_version r = x) (t_versions s)")
    case None
    with rest u have run: "add_version now mid release order True e s = (Inr b, t)" by simp
    then have b unfolding add_version_def by auto
    with None run show ?thesis by (simp add: version_key_next)
  next
    case (Some p)
    with rest u have run: "confirm_version p release order True e s = (Inr b, t)" by simp
    then have "\<not> b" unfolding confirm_version_def by auto
    with readonly_structures(3) [OF run] show ?thesis by simp
  qed
  ultimately show ?thesis using ver by blast
qed

end
