(* ===== verification/Promotion_Props.thy ===== *)
theory Promotion_Props
  imports Promotion Release_Rows Publish_Artifacts
begin

text \<open>
  What promotions and imports guarantee: the database stays well formed and published history only
  grows; a failed promotion changes no table; a successful one publishes exactly the reviewed release
  and moves one channel by one revision; a retry of a committed intent changes nothing. The
  locale \<open>promotion_service\<close> states what the service relies on, the laws of an artifact store and
  well-formed evidence; it is interpreted on the filesystem store and the GitHub evidence source.
\<close>

section \<open>Every operation advances history\<close>

lemma keeps_elift_advance [keeps_intros]: "keeps advance (elift q)"
  by (simp add: keeps_pure)

lemma keeps_ensure_rows [keeps_intros]:
  shows "keeps advance (ensure_record Publisher k a (eret p))"
    and "keeps advance (ensure_record Module k2 a2 (eret m))"
    and "keeps advance (ensure_record ModuleChannel k3 a3 (eret c))"
  by (rule keeps_advance keeps_ensure_record keeps_intros sound_preorder)+

lemma keeps_ensure_artifact_advance [keeps_intros]: "keeps advance (ensure_artifact d)"
  by (rule keeps_advance keeps_ensure_artifact)+

lemma keeps_complete_storage [keeps_intros]: "keeps advance (complete_storage sa)"
  unfolding keeps_def
proof
  fix s
  obtain x t where run: "complete_storage sa s = (x, t)" by fastforce
  obtain y u where e: "ensure_artifact (sa_digest sa) s = (y, u)" by fastforce
  have su: "advance s u" using keeps_ensure_artifact_advance e by (rule keepsD)
  show "advance s (snd (complete_storage sa s))"
  proof (cases y)
    case (Inl er)
    with e su show ?thesis by (simp add: complete_storage_def ebind_def)
  next
    case (Inr a)
    let ?b = "a\<lparr>ar_byte_size := Some (int (byte_size sa)), ar_storage_locator := Some (storage_locator sa)\<rparr>"
    show ?thesis
    proof (cases "ar_byte_size a \<in> {None, Some (int (byte_size sa))} \<and> ar_storage_locator a \<in> {None, Some (storage_locator sa)}")
      case False
      with e Inr su show ?thesis by (auto simp: complete_storage_def ebind_def eensure_def Let_def)
    next
      case True
      obtain z v where up: "update_row Artifact Orm_Artifact a ?b u = (z, v)" by fastforce
      from True have "artifact_le a ?b" by (auto simp: artifact_le_def)
      with up have "advance u v" using wf_update_artifact by (auto simp: advance_def)
      with su have "advance s v" using advance_preorder(2) by (meson transpD)
      with e Inr up True show ?thesis by (auto simp: complete_storage_def ebind_def eensure_def Let_def)
    qed
  qed
qed

lemma keeps_move_channel [keeps_intros]: "keeps advance (move_channel i channel)"
proof (cases channel)
  case None
  then show ?thesis by (simp add: move_channel_def) (rule keeps_advance keeps_intros)+
next
  case (Some c)
  have "channel_le c (c\<lparr>mc_version := in_version i, mc_revision := mc_revision c + 1\<rparr>)" by (simp add: channel_le_def)
  with Some show ?thesis
    unfolding keeps_def move_channel_def
    by (auto simp: advance_def) (metis wf_update_channel prod.collapse)+
qed

lemma keeps_readers_advance [keeps_intros]:
  "keeps advance (get_publisher i)" "keeps advance (get_module i)" "keeps advance (get_channel m c)"
  "keeps advance (load_module_structure md)"
  by (intro keeps_readers keeps_structures advance_preorder)+

lemma keeps_promotion_body [keeps_intros]: "keeps advance (promotion_body sch now i b sa)"
  unfolding promotion_body_def repeated_promotion_def new_promotion_def Let_def
  by (intro keeps_intros advance_preorder allI; rule keeps_advance; intro keeps_intros)

lemma keeps_import [keeps_intros]: "keeps advance (import_registry sch now tree)"
  unfolding import_registry_def import_body_def import_publisher_def import_module_def import_versions_def
    import_channel_def
  by (intro keeps_intros advance_preorder)

section \<open>The pieces of a new promotion\<close>

lemma update_row_Inr:
  assumes "update_row T orm old new s = (Inr u, t)"
  shows "t = (if new = old then s else tb_put T (map (\<lambda>r. if r = old then new else r) (tb_rows T s)) s)"
  using assms unfolding update_row_def by (auto split: if_splits)

lemma complete_storage_Inr:
  assumes "complete_storage sa s = (Inr u, t)"
  shows "\<exists>n as. t = s\<lparr>seq_artifact := n, t_artifacts := as\<rparr>"
proof -
  from assms obtain old v w where e: "ensure_artifact (sa_digest sa) s = (Inr old, v)"
    and up: "update_row Artifact Orm_Artifact old (old\<lparr>ar_byte_size := Some (int (byte_size sa)),
      ar_storage_locator := Some (storage_locator sa)\<rparr>) v = (Inr w, t)"
    by (auto simp: complete_storage_def Let_def)
  from ensure_artifact_tables [OF e] obtain as n where v: "v = s\<lparr>seq_artifact := n, t_artifacts := as\<rparr>" by blast
  from update_row_Inr [OF up] have "t = v \<or> (\<exists>bs. t = v\<lparr>t_artifacts := bs\<rparr>)" by (auto split: if_splits)
  then show ?thesis
  proof
    assume "t = v"
    with v show ?thesis by blast
  next
    assume "\<exists>bs. t = v\<lparr>t_artifacts := bs\<rparr>"
    then obtain bs where "t = s\<lparr>seq_artifact := n, t_artifacts := bs\<rparr>" using v by auto
    then show ?thesis by blast
  qed
qed

lemma distinct_keys:
  assumes "sorted_wrt (\<lambda>a b. \<not> P b a) xs" and "\<And>a b. k a = k b \<Longrightarrow> P a b"
  shows "distinct (map k xs)"
  using assms(1)
proof (induction xs)
  case (Cons x xs)
  have "k x \<noteq> k y" if "y \<in> set xs" for y using Cons.prems that assms(2) [of y x] by auto
  with Cons show ?case by auto
qed simp

abbreviation channel_of :: "registry_db \<Rightarrow> string \<Rightarrow> string \<Rightarrow> db_channel option" where
  "channel_of db m c \<equiv> py_next (\<lambda>r. mc_module_id r = m \<and> mc_channel r = c) (t_channels db)"

lemma find_replace:
  assumes "py_next P xs = Some x" and "\<And>y. P y \<Longrightarrow> y \<in> set xs \<Longrightarrow> y = x" and "P x'"
  shows "py_next P (map (\<lambda>r. if r = x then x' else r) xs) = Some x'"
  using assms(1,2)
proof (induction xs)
  case (Cons y ys)
  show ?case
  proof (cases "P y")
    case True
    with Cons.prems(1) have "y = x" by simp
    with assms(3) show ?thesis by simp
  next
    case False
    moreover from this Cons.prems have "y \<noteq> x" by (auto dest: find_SomeD)
    ultimately show ?thesis using Cons by simp
  qed
qed simp

lemma find_replace_other:
  assumes "\<not> P x" and "\<not> P x'"
  shows "py_next P (map (\<lambda>r. if r = x then x' else r) xs) = py_next P xs"
  using assms by (induction xs) auto

lemma find_append_Some: "py_next P (xs @ ys) = (case py_next P xs of None \<Rightarrow> py_next P ys | Some x \<Rightarrow> Some x)"
  by (induction xs) auto

lemma move_channel_Inr:
  assumes "move_channel i (channel_of s (in_module_id i) (in_channel i)) s = (Inr u, t)" and "db_wf s"
  shows "\<exists>cs. t = s\<lparr>t_channels := cs\<rparr>"
    and "channel_of t m c =
      (if m = in_module_id i \<and> c = in_channel i
       then Some \<lparr>mc_module_id = m, mc_channel = c, mc_version = in_version i,
         mc_revision = (case channel_of s m c of None \<Rightarrow> 1 | Some r \<Rightarrow> mc_revision r + 1)\<rparr>
       else channel_of s m c)"
proof -
  let ?c = "channel_of s (in_module_id i) (in_channel i)"
  have "(\<exists>cs. t = s\<lparr>t_channels := cs\<rparr>) \<and> channel_of t m c =
      (if m = in_module_id i \<and> c = in_channel i
       then Some \<lparr>mc_module_id = m, mc_channel = c, mc_version = in_version i,
         mc_revision = (case channel_of s m c of None \<Rightarrow> 1 | Some r \<Rightarrow> mc_revision r + 1)\<rparr>
       else channel_of s m c)"
  proof (cases ?c)
    case None
    then have t: "t = s\<lparr>t_channels := t_channels s @ [\<lparr>mc_module_id = in_module_id i, mc_channel = in_channel i,
        mc_version = in_version i, mc_revision = 1\<rparr>]\<rparr>"
      using assms(1) by (auto simp: move_channel_def dest!: insert_new)
    with None show ?thesis by (auto simp: find_append_Some split: option.splits)
  next
    case (Some r)
    let ?r = "r\<lparr>mc_version := in_version i, mc_revision := mc_revision r + 1\<rparr>"
    have key: "mc_module_id r = in_module_id i" "mc_channel r = in_channel i" "r \<in> set (t_channels s)"
      using find_SomeD [OF Some] by auto
    have "?r \<noteq> r" by (metis add_cancel_right_right db_channel.select_convs(4) db_channel.surjective db_channel.update_convs(4) zero_neq_one)
    with Some assms(1) have t: "t = s\<lparr>t_channels := map (\<lambda>x. if x = r then ?r else x) (t_channels s)\<rparr>"
      by (auto simp: move_channel_def dest!: update_row_Inr)
    have uniq: "y = r" if "mc_module_id y = in_module_id i \<and> mc_channel y = in_channel i" "y \<in> set (t_channels s)" for y
    proof -
      have "distinct (map (\<lambda>c. (mc_module_id c, mc_channel c)) (t_channels s))"
        by (rule distinct_keys [of "tb_clash ModuleChannel"])
          (use assms(2) in \<open>auto simp: db_wf_def table_ok_def ModuleChannel_def\<close>)
      then show ?thesis using that key by (auto simp: distinct_map dest!: inj_onD [of _ _ y r])
    qed
    show ?thesis
    proof (cases "m = in_module_id i \<and> c = in_channel i")
      case True
      with find_replace [OF Some uniq, of ?r] key Some t show ?thesis by auto
    next
      case False
      with find_replace_other [of "\<lambda>x. mc_module_id x = m \<and> mc_channel x = c" r ?r "t_channels s"] key t
      show ?thesis by auto
    qed
  qed
  then show "\<exists>cs. t = s\<lparr>t_channels := cs\<rparr>" "channel_of t m c =
      (if m = in_module_id i \<and> c = in_channel i
       then Some \<lparr>mc_module_id = m, mc_channel = c, mc_version = in_version i,
         mc_revision = (case channel_of s m c of None \<Rightarrow> 1 | Some r \<Rightarrow> mc_revision r + 1)\<rparr>
       else channel_of s m c)" by auto
qed

section \<open>What a binding carries\<close>

lemma json_wf_str [simp]: "json_wf (JStr s)" "json_wf (JInt n)" "json_wf (JBool b)" "json_wf JNull"
  by simp_all

lemma candidate_release_fields:
  assumes "candidate_release v = Inr r" and "json_wf v"
  shows "json_wf r" and "get_field r ''version'' = get_field v ''version''"
  using assms by (auto simp: candidate_release_def dest: json_wf_field [of v])

lemma promotion_provenance_wf:
  assumes "promotion_provenance v = Inr e" and "json_wf v"
  shows "map fst e = PROVENANCE_FIELDS" and "\<forall>x \<in> set e. json_wf (snd x)"
proof -
  have env: "json_wf (get_or v ''build_environment'' JNull)"
    using assms(2) by (auto simp: get_or_def dest: json_wf_field split: option.splits)
  then have hc: "json_wf h" if "(if json_truthy (get_or v ''build_environment'' JNull)
      then py_get (get_or v ''build_environment'' JNull) ''host_commit'' JNull else Inr JNull) = Inr h" for h
    using that by (auto simp: py_get_def get_or_def [of _ "''host_commit''"] dest: json_wf_field split: if_splits option.splits)
  show "map fst e = PROVENANCE_FIELDS"
    using assms(1) by (auto simp: promotion_provenance_def PROVENANCE_FIELDS_def Let_def)
  show "\<forall>x \<in> set e. json_wf (snd x)"
    using assms(1) env hc by (auto simp: promotion_provenance_def Let_def dest: json_wf_field [OF assms(2)] split del: if_split)
qed

definition bound ::
    "(string \<Rightarrow> string) \<Rightarrow> (string \<Rightarrow> string \<Rightarrow> int \<Rightarrow> string \<Rightarrow> exn + reviewed) \<Rightarrow> promotion_intent \<Rightarrow> binding \<Rightarrow> bool" where
  "bound H load i b =
     (\<exists>rv. load (in_module_id i) (in_version i) (in_approval_pr i) (in_candidate_sha256 i) = Inr rv
       \<and> bi_value b = rv_value rv \<and> candidate_digest H (rv_value rv) = in_candidate_sha256 i
       \<and> candidate_release (rv_value rv) = Inr (bi_release b)
       \<and> revision_of (in_expected_channel_revision i) = Some (bi_revision b)
       \<and> json_wf (bi_release b) \<and> get_field (bi_release b) ''version'' = Some (JStr (in_version i))
       \<and> map fst (bi_provenance b) = PROVENANCE_FIELDS \<and> (\<forall>x \<in> set (bi_provenance b). json_wf (snd x)))"

lemma bind_intent_bound:
  assumes "bind_intent H load i = Inr b"
    and "\<And>rv. load (in_module_id i) (in_version i) (in_approval_pr i) (in_candidate_sha256 i) = Inr rv \<Longrightarrow>
      json_wf (rv_value rv) \<and> get_field (rv_value rv) ''version'' = Some (JStr (in_version i))"
  shows "bound H load i b"
proof -
  from assms(1) obtain rv where l: "load (in_module_id i) (in_version i) (in_approval_pr i) (in_candidate_sha256 i) = Inr rv"
    and b: "bi_value b = rv_value rv" "candidate_digest H (rv_value rv) = in_candidate_sha256 i"
      "candidate_release (rv_value rv) = Inr (bi_release b)" "promotion_provenance (rv_value rv) = Inr (bi_provenance b)"
      "revision_of (in_expected_channel_revision i) = Some (bi_revision b)"
    by (auto simp: bind_intent_def Let_def split: if_splits)
  with assms(2) [OF l] candidate_release_fields [OF b(3)] promotion_provenance_wf [OF b(4)] show ?thesis
    unfolding bound_def by auto
qed

section \<open>A new promotion\<close>

lemma new_promotion_Inr:
  assumes run: "new_promotion sch now i b sa s = (Inr res, t)" and wf: "db_wf s" and b: "bound H load i b"
  shows "\<exists>row r event cls. t_versions t = t_versions s @ [row]
      \<and> (in_module_id i, in_version i) \<notin> version_key ` set (t_versions s)
      \<and> validate_release (bi_release b) (in_module_id i) cls = Inr ()
      \<and> reads_as (bi_release b) r \<and> distinct (map fst (rd_modules r)) \<and> py_eq (rd_bundle_format r) (JInt 1)
      \<and> py_eq (JInt 1) (rd_bundle_format r)
      \<and> published_as t (in_module_id i) r True (bi_provenance b) row
      \<and> (case channel_of s (in_module_id i) (in_channel i) of None \<Rightarrow> 0 | Some c \<Rightarrow> mc_revision c) = bi_revision b
      \<and> (\<forall>m c. channel_of t m c =
          (if m = in_module_id i \<and> c = in_channel i
           then Some \<lparr>mc_module_id = m, mc_channel = c, mc_version = in_version i, mc_revision = bi_revision b + 1\<rparr>
           else channel_of s m c))
      \<and> is_ok (validate_v1_representability sch (project_v1 t None) (channel_targets t None))
      \<and> t_promotions t = t_promotions s @ [event] \<and> pe_idempotency_key event = in_idempotency_key i
      \<and> promotion_key event = (in_module_id i, in_version i) \<and> pe_intent event = bi_intent b
      \<and> pe_result event = res \<and> is_obj res \<and> get_field res ''status'' = Some (JStr ''published'')"
proof -
  let ?c = "channel_of s (in_module_id i) (in_channel i)"
  from run obtain s1 s2 s3 identity event where
    taken: "\<not> list_ex (\<lambda>e. pe_module_id e = in_module_id i \<and> pe_version e = in_version i) (t_promotions s)"
    and rev: "(case ?c of None \<Rightarrow> 0 | Some c \<Rightarrow> mc_revision c) = bi_revision b"
    and st: "complete_storage sa s = (Inr (), s1)"
    and ins: "insert_published_version sch now (in_module_id i) (bi_release b) None (Some (bi_provenance b)) s1 = (Inr True, s2)"
    and mv: "move_channel i ?c s2 = (Inr (), s3)"
    and v1: "is_ok (validate_v1_representability sch (project_v1 s3 None) (channel_targets s3 None))"
    and ev: "event = \<lparr>pe_idempotency_key = in_idempotency_key i, pe_module_id = in_module_id i, pe_version = in_version i,
        pe_channel = in_channel i, pe_candidate_digest = in_candidate_sha256 i,
        pe_approval_reference = bi_reference b, pe_approval_identity = identity,
        pe_previous_channel_version = map_option mc_version ?c, pe_new_channel_version = in_version i,
        pe_intent = bi_intent b, pe_result = res\<rparr>"
    and pe: "insert_row PromotionEvent False event s3 = (Inr (), t)"
    and res: "res = promotion_result i (map_option mc_version ?c) (bi_revision b) sa"
    unfolding new_promotion_def by (auto simp: Let_def get_channel_def)
  have adv: "advance s s1" by (rule keepsD [OF keeps_complete_storage st])
  from complete_storage_Inr [OF st] obtain n as where s1: "s1 = s\<lparr>seq_artifact := n, t_artifacts := as\<rparr>" by blast
  from adv wf have wf1: "db_wf s1" by (simp add: advance_def)
  from insert_version_Inr [OF ins] obtain cls where vr: "validate_release (bi_release b) (in_module_id i) cls = Inr ()"
    and new: "(in_module_id i, in_version i) \<notin> version_key ` set (t_versions s1)"
    and add: "add_version now (in_module_id i) (bi_release b) None True (bi_provenance b) s1 = (Inr True, s2)"
    using b by (auto simp: bound_def)
  have rwf: "json_wf (bi_release b)" using b by (auto simp: bound_def)
  from release_reads_as [OF vr rwf] obtain r where r: "reads_as (bi_release b) r" "distinct (map fst (rd_modules r))"
    "py_eq (rd_bundle_format r) (JInt 1)" "py_eq (JInt 1) (rd_bundle_format r)" by blast
  have rv: "rd_version r = in_version i" using b r(1) by (auto simp: bound_def reads_as_def)
  from add_version_rows [OF add r(1) wf1] new rv obtain row where
    row: "t_channels s2 = t_channels s1" "t_promotions s2 = t_promotions s1" "t_versions s2 = t_versions s1 @ [row]"
      "published_as s2 (in_module_id i) r True (bi_provenance b) row" by auto
  have wf2: "db_wf s2" using keepsD [OF keeps_insert_version ins] wf1 by (simp add: advance_def)
  have c: "?c = channel_of s2 (in_module_id i) (in_channel i)" using row(1) s1 by simp
  note mv' = move_channel_Inr [OF mv [unfolded c] wf2]
  from mv'(1) obtain cs where s3: "s3 = s2\<lparr>t_channels := cs\<rparr>" by blast
  have t: "t = s3\<lparr>t_promotions := t_promotions s3 @ [event]\<rparr>" using insert_new [OF pe] by simp
  have same: "project_v1 t None = project_v1 s3 None" "channel_targets t None = channel_targets s3 None"
    by (simp_all add: t project_v1_def module_candidates_def module_publishers_def has_version_def module_releases_def
        version_artifacts_def owned_dependencies_def channel_targets_def channel_rows_def)
  have pub: "published_as t (in_module_id i) r True (bi_provenance b) row"
    using row(4) by (simp add: published_as_def t s3 owned_dependencies_def)
  have ch: "channel_of t m c' = (if m = in_module_id i \<and> c' = in_channel i
      then Some \<lparr>mc_module_id = m, mc_channel = c', mc_version = in_version i, mc_revision = bi_revision b + 1\<rparr>
      else channel_of s m c')" for m c'
    using mv'(2) [of m c'] rev row(1) s1 by (auto simp: t split: option.splits)
  have "t_versions t = t_versions s @ [row]" "t_promotions t = t_promotions s @ [event]"
    using row s1 by (simp_all add: t s3)
  moreover have "(in_module_id i, in_version i) \<notin> version_key ` set (t_versions s)" using new s1 by simp
  moreover have "is_obj res" "get_field res ''status'' = Some (JStr ''published'')"
    by (simp_all add: res promotion_result_def)
  ultimately show ?thesis
    using vr r pub rev ch v1 same by (intro exI [of _ row] exI [of _ r] exI [of _ event] exI [of _ cls])
      (simp add: ev promotion_key_def)
qed

section \<open>The transaction as a whole\<close>

lemma promotion_body_Inr:
  assumes "promotion_body sch now i b sa s = (Inr res, t)"
  obtains m p where "schema_revision s = Some EXPECTED_SCHEMA_REVISION"
    "py_next (\<lambda>m. mo_id m = in_module_id i) (t_modules s) = Some m"
    "py_next (\<lambda>p. pb_id p = mo_publisher_id m) (t_publishers s) = Some p"
    "get_field (bi_value b) ''source_repository'' = Some (JStr (mo_source_repository m))"
    "get_field (bi_value b) ''classification'' = Some (JStr (mo_classification m))"
    "validate_module sch (JObj (module_structure m p @ [(''versions'', JList [bi_release b])])) None = Inr ()"
    "(case py_next (\<lambda>e. pe_idempotency_key e = in_idempotency_key i) (t_promotions s) of
        Some e \<Rightarrow> repeated_promotion sch now i b e | None \<Rightarrow> new_promotion sch now i b sa) s = (Inr res, t)"
  using assms unfolding promotion_body_def load_module_structure_def
  by (auto simp: readers_iff split: option.splits)

lemma promotion_body_run:
  assumes "schema_revision s = Some EXPECTED_SCHEMA_REVISION"
    "py_next (\<lambda>m. mo_id m = in_module_id i) (t_modules s) = Some m"
    "py_next (\<lambda>p. pb_id p = mo_publisher_id m) (t_publishers s) = Some p"
    "get_field (bi_value b) ''source_repository'' = Some (JStr (mo_source_repository m))"
    "get_field (bi_value b) ''classification'' = Some (JStr (mo_classification m))"
    "validate_module sch (JObj (module_structure m p @ [(''versions'', JList [bi_release b])])) None = Inr ()"
  shows "promotion_body sch now i b sa s =
    (case py_next (\<lambda>e. pe_idempotency_key e = in_idempotency_key i) (t_promotions s) of
       Some e \<Rightarrow> repeated_promotion sch now i b e s | None \<Rightarrow> new_promotion sch now i b sa s)"
  using assms
  by (simp add: promotion_body_def ebind_def eget_def eensure_def get_module_def elift_def load_module_structure_def
      get_publisher_def deref_def eret_def flip: getitem_Inr_iff split: option.split)

text \<open>A committed intent is confirmed on every later database.\<close>

lemma version_by_key:
  assumes "db_wf t" and "row \<in> set (t_versions t)"
  shows "py_next (\<lambda>r. mv_module_id r = mv_module_id row \<and> mv_version r = mv_version row) (t_versions t) = Some row"
proof -
  have "py_next (\<lambda>x. version_key x = version_key row) (t_versions t) = Some row"
    by (rule unique_find [of "tb_clash ModuleVersion"])
      (use assms in \<open>auto simp: db_wf_def table_ok_def ModuleVersion_def version_key_def\<close>)
  then show ?thesis by (simp add: version_key_def)
qed

lemma insert_confirmed:
  assumes m: "py_next (\<lambda>m. mo_id m = mid) (t_modules t) = Some m"
    and p: "py_next (\<lambda>p. pb_id p = mo_publisher_id m) (t_publishers t) = Some p"
    and v: "validate_module sch (JObj (module_structure m p @ [(''versions'', JList [release])])) None = Inr ()"
    and ver: "get_field release ''version'' = Some (JStr x)"
    and row: "row \<in> set (t_versions t)" "version_key row = (mid, x)"
    and c: "confirm_version row release None True e t = (Inr False, t)" and wf: "db_wf t"
  shows "insert_published_version sch now mid release None (Some e) t = (Inr False, t)"
proof -
  have "py_next (\<lambda>r. mv_module_id r = mid \<and> mv_version r = x) (t_versions t) = Some row"
    using version_by_key [OF wf row(1)] row(2) by (simp add: version_key_def)
  moreover have "str_item release ''version'' = Inr x" using ver by simp
  ultimately show ?thesis
    using m p v c
    by (simp add: insert_published_version_def ebind_def eget_def get_module_def elift_def load_module_structure_def
        get_publisher_def deref_def eret_def get_version_def del: str_item_Inr_iff)
qed

lemma promotion_repeated:
  assumes run: "promotion_body sch now i b sa s = (Inr res, t)"
    and new: "py_next (\<lambda>e. pe_idempotency_key e = in_idempotency_key i) (t_promotions s) = None"
    and wf: "db_wf s" and b: "bound H load i b" and later: "history_le t u" "db_wf u"
  shows "promotion_body sch now' i b sa' u = (Inr (set_field ''status'' (JStr ''already-published'') res), u)"
proof -
  obtain m p where
    f: "schema_revision s = Some EXPECTED_SCHEMA_REVISION"
      "py_next (\<lambda>m. mo_id m = in_module_id i) (t_modules s) = Some m"
      "py_next (\<lambda>p. pb_id p = mo_publisher_id m) (t_publishers s) = Some p"
      "get_field (bi_value b) ''source_repository'' = Some (JStr (mo_source_repository m))"
      "get_field (bi_value b) ''classification'' = Some (JStr (mo_classification m))"
      "validate_module sch (JObj (module_structure m p @ [(''versions'', JList [bi_release b])])) None = Inr ()"
    and "(case py_next (\<lambda>e. pe_idempotency_key e = in_idempotency_key i) (t_promotions s) of
        Some e \<Rightarrow> repeated_promotion sch now i b e | None \<Rightarrow> new_promotion sch now i b sa) s = (Inr res, t)"
    by (rule promotion_body_Inr [OF run])
  then have np: "new_promotion sch now i b sa s = (Inr res, t)" using new by simp
  from new_promotion_Inr [OF np wf b] obtain row r event cls where
    row: "t_versions t = t_versions s @ [row]" "validate_release (bi_release b) (in_module_id i) cls = Inr ()"
      "reads_as (bi_release b) r" "distinct (map fst (rd_modules r))" "py_eq (rd_bundle_format r) (JInt 1)"
      "py_eq (JInt 1) (rd_bundle_format r)" "published_as t (in_module_id i) r True (bi_provenance b) row"
    and ev: "t_promotions t = t_promotions s @ [event]" "pe_idempotency_key event = in_idempotency_key i"
      "pe_intent event = bi_intent b" "pe_result event = res"
    by blast
  have su: "history_le s u"
    using keepsD [OF keeps_promotion_body run] wf later(1) by (auto simp: advance_def intro: history_le_trans)
  note pre = history_le_prefix [OF su]
  have bo: "json_wf (bi_release b)" "get_field (bi_release b) ''version'' = Some (JStr (in_version i))"
    "map fst (bi_provenance b) = PROVENANCE_FIELDS" "\<forall>x \<in> set (bi_provenance b). json_wf (snd x)"
    using b by (auto simp: bound_def)
  have pub: "published_as u (in_module_id i) r True (bi_provenance b) row" using row(7) later(1) by (rule published_later)
  have "confirm_version row (bi_release b) None True (bi_provenance b) u = (Inr False, u)"
    by (rule confirm_published [OF pub row(2) bo(1) row(3-6) later(2) bo(3,4)])
  moreover have "rd_version r = in_version i" using bo(2) row(3) by (simp add: reads_as_def)
  ultimately have ins: "insert_published_version sch now' (in_module_id i) (bi_release b) None (Some (bi_provenance b)) u = (Inr False, u)"
    using insert_confirmed [of "in_module_id i" u m p sch "bi_release b" "in_version i" row "bi_provenance b" now']
      find_prefix [OF pre(4) f(2)] find_prefix [OF pre(5) f(3)] f(6) bo(2) pub later(2)
    by (simp add: published_as_def)
  have "py_next (\<lambda>e. pe_idempotency_key e = in_idempotency_key i) (t_promotions t) = Some event"
    using new ev(1,2) by (simp add: find_append_Some)
  then have "py_next (\<lambda>e. pe_idempotency_key e = in_idempotency_key i) (t_promotions u) = Some event"
    using history_le_prefix(3) [OF later(1)] by (rule find_prefix [rotated])
  moreover have "schema_revision u = Some EXPECTED_SCHEMA_REVISION" using f(1) pre(6) by (simp add: schema_revision_def)
  ultimately have "promotion_body sch now' i b sa' u = repeated_promotion sch now' i b event u"
    using promotion_body_run [OF _ find_prefix [OF pre(4) f(2)] find_prefix [OF pre(5) f(3)] f(4-6)] by simp
  with ins ev show ?thesis by (simp add: repeated_promotion_def ebind_def eensure_def eret_def)
qed

section \<open>The service\<close>

lemma promote_db_cases:
  assumes "promote_db sch H load publish verify now i src (s, db) = (x, (s', db'))"
  obtains (early) e where "x = Inl e" "db' = db"
      "s' = s \<or> (\<exists>r. publish (in_module_id i) (in_version i) src (in_bundle_sha256 i) s = (r, s'))
        \<or> (\<exists>p u r. publish (in_module_id i) (in_version i) src (in_bundle_sha256 i) s = (Inr p, u)
          \<and> verify (in_module_id i) (in_version i) (in_bundle_sha256 i) u = (r, s'))"
  | (body) b p u a where "bind_intent H load i = Inr b"
      "publish (in_module_id i) (in_version i) src (in_bundle_sha256 i) s = (Inr p, u)"
      "verify (in_module_id i) (in_version i) (in_bundle_sha256 i) u = (Inr a, s')"
      "sa_digest a = in_bundle_sha256 i" "bi_url b = JStr (public_url a)"
      "transaction (promotion_body sch now i b a) db = (x, db')"
proof -
  note run = assms [unfolded promote_db_def]
  show thesis
  proof (cases "bind_intent H load i")
    case (Inl e)
    with run early show ?thesis by (auto simp: ebind_def elift_def)
  next
    case (Inr b)
    obtain q u where p: "publish (in_module_id i) (in_version i) src (in_bundle_sha256 i) s = (q, u)" by fastforce
    show ?thesis
    proof (cases q)
      case (Inl e)
      with run p \<open>bind_intent H load i = Inr b\<close> early show ?thesis by (auto simp: ebind_def elift_def on_store_def)
    next
      case (Inr q')
      obtain a w where v: "verify (in_module_id i) (in_version i) (in_bundle_sha256 i) u = (a, w)" by fastforce
      with p Inr \<open>bind_intent H load i = Inr b\<close> run
      have r: "(case a of Inl e \<Rightarrow> (Inl e, w, db) | Inr a \<Rightarrow>
          ebind (eensure (sa_digest a = in_bundle_sha256 i \<and> bi_url b = JStr (public_url a))
            (conflict ''Stored artifact differs from approved binding''))
          (\<lambda>_. on_db (transaction (promotion_body sch now i b a))) (w, db)) = (x, s', db')"
        by (cases a) (simp_all add: ebind_def elift_def on_store_def)
      show ?thesis
      proof (cases a)
        case (Inl e)
        with r p v \<open>q = Inr q'\<close> early show ?thesis by auto
      next
        case (Inr a')
        show ?thesis
        proof (cases "sa_digest a' = in_bundle_sha256 i \<and> bi_url b = JStr (public_url a')")
          case True
          with r Inr have "transaction (promotion_body sch now i b a') db = (x, db') \<and> s' = w"
            by (auto simp: ebind_def eensure_def on_db_def split: prod.splits)
          with True body \<open>bind_intent H load i = Inr b\<close> p v Inr \<open>q = Inr q'\<close> show ?thesis by auto
        next
          case False
          with r Inr p v \<open>q = Inr q'\<close> early show ?thesis by (auto simp: ebind_def eensure_def)
        qed
      qed
    qed
  qed
qed

text \<open>One run of the service or of the import, whatever its outcome.\<close>

inductive registry_step ::
    "(string \<Rightarrow> json \<Rightarrow> bool) \<Rightarrow> (string \<Rightarrow> string) \<Rightarrow> (string \<Rightarrow> string \<Rightarrow> int \<Rightarrow> string \<Rightarrow> exn + reviewed) \<Rightarrow>
      (string \<Rightarrow> string \<Rightarrow> 'src \<Rightarrow> string \<Rightarrow> ('s, publication) op) \<Rightarrow>
      (string \<Rightarrow> string \<Rightarrow> string \<Rightarrow> ('s, stored_artifact) op) \<Rightarrow> 's \<times> registry_db \<Rightarrow> 's \<times> registry_db \<Rightarrow> bool"
  for sch H load publish verify where
  Promotion: "promote_db sch H load publish verify now i src w = (r, w') \<Longrightarrow> registry_step sch H load publish verify w w'"
| Import: "import_registry sch now tree db = (r, db') \<Longrightarrow> registry_step sch H load publish verify (s, db) (s, db')"

locale promotion_service = artifact_store publish verify inv
  for publish :: "string \<Rightarrow> string \<Rightarrow> 'src \<Rightarrow> string \<Rightarrow> ('s, publication) op"
    and verify :: "string \<Rightarrow> string \<Rightarrow> string \<Rightarrow> ('s, stored_artifact) op"
    and inv :: "'s \<Rightarrow> bool" +
  fixes load :: "string \<Rightarrow> string \<Rightarrow> int \<Rightarrow> string \<Rightarrow> exn + reviewed"
  assumes evidence: "load m v pr c = Inr rv \<Longrightarrow>
      json_wf (rv_value rv) \<and> get_field (rv_value rv) ''version'' = Some (JStr v)"
    and verify_readonly: "verify m v h s = (x, t) \<Longrightarrow> t = s"
begin

lemma bound_intent: "bind_intent H load i = Inr b \<Longrightarrow> bound H load i b"
  using bind_intent_bound evidence by blast

lemma step_advance:
  assumes "registry_step sch H load publish verify w w'"
  shows "advance (snd w) (snd w')"
  using assms
proof (cases rule: registry_step.cases)
  case (Promotion now i src r)
  obtain s db s' db' where w: "w = (s, db)" "w' = (s', db')" by (cases w; cases w')
  from Promotion [unfolded w] show ?thesis
  proof (cases rule: promote_db_cases)
    case (body b p u a)
    have "advance db db'" by (rule keepsD [OF keeps_transaction [OF keeps_promotion_body] body(6)])
    then show ?thesis by (simp add: w)
  qed (simp add: w)
next
  case (Import now tree db r db' s)
  then show ?thesis using keepsD [OF keeps_import] by simp
qed

lemma steps_advance: "(registry_step sch H load publish verify)\<^sup>*\<^sup>* w w' \<Longrightarrow> advance (snd w) (snd w')"
  by (induction rule: rtranclp_induct) (auto intro: step_advance transpD [OF advance_preorder(2)])

lemma step_store:
  assumes "registry_step sch H load publish verify w w'" and "inv (fst w)"
  shows "inv (fst w') \<and> (verify m v h (fst w) = (Inr a, fst w) \<longrightarrow> verify m v h (fst w') = (Inr a, fst w'))"
  using assms(1)
proof (cases rule: registry_step.cases)
  case (Promotion now i src r)
  obtain s db s' db' where w: "w = (s, db)" "w' = (s', db')" by (cases w; cases w')
  from Promotion [unfolded w] consider (same) "s' = s"
    | (pub) r where "publish (in_module_id i) (in_version i) src (in_bundle_sha256 i) s = (r, s')"
  proof (cases rule: promote_db_cases)
    case (early e)
    then show ?thesis using that verify_readonly by metis
  next
    case (body b p u a)
    then show ?thesis using that verify_readonly by metis
  qed
  then show ?thesis
  proof cases
    case same
    with assms(2) show ?thesis by (simp add: w)
  next
    case (pub r)
    have "inv s" using assms(2) by (simp add: w)
    with publish_inv [OF _ pub] publish_keeps [OF _ _ pub] show ?thesis by (simp add: w)
  qed
qed (use assms(2) in simp)

lemma steps_store:
  assumes "(registry_step sch H load publish verify)\<^sup>*\<^sup>* w w'" and "inv (fst w)" and "verify m v h (fst w) = (Inr a, fst w)"
  shows "inv (fst w') \<and> verify m v h (fst w') = (Inr a, fst w')"
  using assms by (induction rule: rtranclp_induct) (auto dest: step_store)

text \<open>Whatever the outcome, published releases and stored artifacts stay.\<close>

lemma history_kept:
  assumes "(registry_step sch H load publish verify)\<^sup>*\<^sup>* (s, db) (s', db')" and "db_wf db" and "v \<in> set (t_versions db)"
  shows "db_wf db' \<and> v \<in> set (t_versions db')
    \<and> (\<exists>r. load_release_structure v db = (Inr r, db) \<and> load_release_structure v db' = (Inr r, db'))
    \<and> (\<forall>i p. py_next (\<lambda>p. bp_id p = i) (t_provenance db) = Some p \<longrightarrow> py_next (\<lambda>p. bp_id p = i) (t_provenance db') = Some p)"
proof -
  from steps_advance [OF assms(1)] assms(2) have wf: "db_wf db'" and h: "history_le db db'" by (auto simp: advance_def)
  have "table_ok ModuleVersion db" using assms(2) by (simp add: db_wf_def)
  with assms(3) have "list_ex (\<lambda>a. ar_id a = mv_artifact_id v) (t_artifacts db)"
    by (auto simp: table_ok_def ModuleVersion_def)
  then obtain a where "py_next (\<lambda>a. ar_id a = mv_artifact_id v) (t_artifacts db) = Some a"
    by (metis find_None_iff list_ex_iff not_None_eq)
  then obtain r where r: "load_release_structure v db = (Inr r, db)"
    by (simp add: load_release_structure_def ebind_def get_artifact_def eget_def deref_def eret_def)
  with release_kept [OF h assms(3)] wf history_le_prefix(1) [OF h] assms(3) find_prefix [OF history_le_prefix(2) [OF h]]
  show ?thesis by (auto dest: set_mono_prefix)
qed

text \<open>A promotion that published.\<close>

lemma published_run:
  assumes "promote_db sch H load publish verify now i src (s, db) = (Inr res, (s', db'))"
    and "get_field res ''status'' = Some (JStr ''published'')" and "inv s"
  shows "\<exists>b a. bind_intent H load i = Inr b \<and> bound H load i b \<and> inv s'
      \<and> verify (in_module_id i) (in_version i) (in_bundle_sha256 i) s' = (Inr a, s') \<and> sa_digest a = in_bundle_sha256 i
      \<and> bi_url b = JStr (public_url a)
      \<and> promotion_body sch now i b a db = (Inr res, db')
      \<and> py_next (\<lambda>e. pe_idempotency_key e = in_idempotency_key i) (t_promotions db) = None
      \<and> new_promotion sch now i b a db = (Inr res, db')"
  using assms(1)
proof (cases rule: promote_db_cases)
  case (body b p u a)
  have run: "promotion_body sch now i b a db = (Inr res, db')" using body(6) by simp
  obtain m p' where "(case py_next (\<lambda>e. pe_idempotency_key e = in_idempotency_key i) (t_promotions db) of
        Some e \<Rightarrow> repeated_promotion sch now i b e | None \<Rightarrow> new_promotion sch now i b a) db = (Inr res, db')"
    by (rule promotion_body_Inr [OF run])
  moreover have False if "repeated_promotion sch now i b e db = (Inr res, db')" for e
  proof -
    from that have "res = set_field ''status'' (JStr ''already-published'') (pe_result e)"
      by (auto simp: repeated_promotion_def)
    with assms(2) show False by (cases "pe_result e") auto
  qed
  ultimately have "py_next (\<lambda>e. pe_idempotency_key e = in_idempotency_key i) (t_promotions db) = None
      \<and> new_promotion sch now i b a db = (Inr res, db')"
    by (auto split: option.splits)
  moreover have "s' = u" using body(3) verify_readonly by blast
  moreover from this body(3) have "verify (in_module_id i) (in_version i) (in_bundle_sha256 i) s' = (Inr a, s')" by simp
  moreover have "inv s'" using publish_inv [OF assms(3) body(2)] \<open>s' = u\<close> by simp
  ultimately show ?thesis using body run bound_intent by blast
qed simp

lemma retry_run:
  assumes run: "promote_db sch H load publish verify now i src (s, db) = (Inr res, (s', db'))"
    and st: "get_field res ''status'' = Some (JStr ''published'')" and "inv s" and wf: "db_wf db"
    and later: "(registry_step sch H load publish verify)\<^sup>*\<^sup>* (s', db') (s2, db2)"
    and up: "publish (in_module_id i) (in_version i) src2 (in_bundle_sha256 i) s2 = (Inr p, s3)"
  shows "promote_db sch H load publish verify now2 i src2 (s2, db2)
      = (Inr (set_field ''status'' (JStr ''already-published'') res), (s3, db2))"
proof -
  from published_run [OF run st \<open>inv s\<close>] obtain b a where b: "bind_intent H load i = Inr b" "bound H load i b" "inv s'"
    and a: "verify (in_module_id i) (in_version i) (in_bundle_sha256 i) s' = (Inr a, s')" "sa_digest a = in_bundle_sha256 i"
      "bi_url b = JStr (public_url a)"
    and body: "promotion_body sch now i b a db = (Inr res, db')"
      "py_next (\<lambda>e. pe_idempotency_key e = in_idempotency_key i) (t_promotions db) = None" by blast
  have "advance db db'" by (rule keepsD [OF keeps_promotion_body body(1)])
  with wf have "db_wf db'" by (simp add: advance_def)
  with steps_advance [OF later] have h: "history_le db' db2" "db_wf db2" by (auto simp: advance_def)
  from steps_store [OF later, of "in_module_id i" "in_version i" "in_bundle_sha256 i" a] b(3) a(1)
  have s2: "inv s2" "verify (in_module_id i) (in_version i) (in_bundle_sha256 i) s2 = (Inr a, s2)" by auto
  have v3: "verify (in_module_id i) (in_version i) (in_bundle_sha256 i) s3 = (Inr a, s3)"
    using publish_keeps [OF s2 up] .
  have "transaction (promotion_body sch now2 i b a) db2 = (Inr (set_field ''status'' (JStr ''already-published'') res), db2)"
    using promotion_repeated [OF body wf b(2) h] by simp
  with b(1) up v3 a show ?thesis
    by (simp add: promote_db_def ebind_def elift_def on_store_def eensure_def on_db_def del: transaction_Inr)
qed

end

section \<open>The evidence of GitHub\<close>

lemma sort_keys_field:
  assumes "json_wf v"
  shows "get_field (sort_keys v) k = map_option sort_keys (get_field v k)"
proof (cases v)
  case (JObj d)
  let ?d = "map (\<lambda>(k, v). (k, sort_keys v)) d"
  have dist: "distinct (map fst ?d)" using assms JObj by (simp add: comp_def case_prod_beta)
  have "map_of (py_sorted fst ?d) = map_of ?d"
    using dist by (subst map_of_inject_set) (simp_all add: distinct_map_sort_key)
  moreover have "map_of ?d k = map_option sort_keys (map_of d k)" by (induction d) auto
  ultimately show ?thesis by (simp add: JObj)
qed simp_all

lemma json_wf_sort_keys: "json_wf v \<Longrightarrow> json_wf (sort_keys v)"
proof (induction v rule: sort_keys.induct)
  case (2 d)
  then show ?case by (auto simp: distinct_map_sort_key comp_def case_prod_beta)
qed auto

lemma candidate_at_wf:
  assumes "candidate_at config env_policy parse api file ref = Inr v"
  shows "json_wf v"
  using assms validate_candidate_wf(1) decode_json_ok(2) by (fastforce simp: candidate_at_def)

lemma github_load_evidence:
  assumes "github_load H config env_policy parse api m ver pr c = Inr rv"
  shows "json_wf (rv_value rv) \<and> get_field (rv_value rv) ''version'' = Some (JStr ver)"
proof -
  from assms obtain ref v where "candidate_at config env_policy parse api
      (''candidates/'' @ m @ ''/'' @ ver @ ''/provenance.json'') ref = Inr v"
    and v: "get_field v ''version'' = Some (JStr ver)" "rv_value rv = sort_keys v"
    unfolding github_load_def Let_def by auto
  then have "json_wf v" by (simp add: candidate_at_wf)
  with v show ?thesis by (simp add: json_wf_sort_keys sort_keys_field)
qed

lemma github_load_merged:
  assumes "github_load H config env_policy parse api m ver pr c = Inr rv"
  shows "\<exists>v. api (''pulls/'' @ py_str_int pr) = Inr v \<and> human_merged v = Inr True"
proof -
  from assms obtain v where "api (''pulls/'' @ py_str_int pr) = Inr v" "human_merged v = Inr True"
    unfolding github_load_def Let_def by auto
  then show ?thesis by blast
qed

abbreviation fs_publish ::
    "(string \<Rightarrow> string) \<Rightarrow> string list \<Rightarrow> string list \<Rightarrow> string \<Rightarrow> string \<Rightarrow> pypath \<times> string \<Rightarrow> string \<Rightarrow> (fsys, publication) op" where
  "fs_publish H cwd rt \<equiv> (\<lambda>m v (src, u) h. store_publish H cwd rt m v src h u)"

interpretation github: promotion_service "fs_publish H cwd rt" "store_verify H rt" fs_wf
    "github_load H config env_policy parse api"
  for H cwd rt config env_policy parse api
proof
  show "github_load H config env_policy parse api m v pr c = Inr rv \<Longrightarrow>
      json_wf (rv_value rv) \<and> get_field (rv_value rv) ''version'' = Some (JStr v)" for m v pr c rv
    by (rule github_load_evidence)
  show "store_verify H rt m v h s = (x, t) \<Longrightarrow> t = s" for m v h s x t
    using readonlyD [OF store_verify_readonly] .
qed

end
