(* ===== verification/Promotion_History.thy ===== *)
theory Promotion_History
  imports Promotion_Props Artifact_Props
begin

text \<open>
  The properties of the database registry under promotions and imports, with a concrete promotion
  as witness.
\<close>

section \<open>A concrete promotion\<close>

text \<open>The evidence of a merged pull request for version 2.0.0 of \<open>maps\<close>, and an empty registry with that module.\<close>

fun to_ptree :: "json \<Rightarrow> ptree" where
  "to_ptree JNull = PNull"
| "to_ptree (JBool b) = PBool b"
| "to_ptree (JInt i) = PInt i"
| "to_ptree (JFloat r) = PFloat r"
| "to_ptree (JStr s) = PStr s"
| "to_ptree (JList xs) = PList (map to_ptree xs)"
| "to_ptree (JObj d) = PObj (map (\<lambda>(k, v). (k, to_ptree v)) d)"

definition reviewed_provenance :: json where
  "reviewed_provenance = set_field ''bundle_sha256'' (JStr (replicate 64 CHR ''a'')) sample_provenance"

definition reviewed_hash :: "string \<Rightarrow> string" where
  "reviewed_hash b = replicate 64 (case b of [] \<Rightarrow> CHR ''0'' | c # _ \<Rightarrow> if c = CHR ''A'' then CHR ''a'' else CHR ''f'')"

definition reviewed_pr :: json where
  "reviewed_pr = JObj
     [(''merged'', JBool True),
      (''base'', JObj [(''ref'', JStr ''main''), (''repo'', JObj [(''full_name'', JStr REPOSITORY)])]),
      (''merged_by'', JObj [(''type'', JStr ''User''), (''login'', JStr ''reviewer'')]),
      (''head'', JObj [(''sha'', JStr (replicate 40 CHR ''1''))]), (''merge_commit_sha'', JStr (replicate 40 CHR ''2''))]"

definition reviewed_files :: json where
  "reviewed_files = JList [JObj [(''filename'', JStr ''candidates/maps/2.0.0/provenance.json''), (''status'', JStr ''added'')]]"

definition reviewed_contents :: json where
  "reviewed_contents = JObj [(''encoding'', JStr ''base64''), (''content'', JStr [])]"

definition reviewed_api :: "string \<Rightarrow> exn + json" where
  "reviewed_api p =
     (if p = ''pulls/7'' then Inr reviewed_pr
      else if p = ''pulls/7/files?per_page=100'' then Inr reviewed_files
      else Inr reviewed_contents)"

definition reviewed_intent :: promotion_intent where
  "reviewed_intent = \<lparr>in_module_id = ''maps'', in_version = ''2.0.0'', in_approval_pr = 7,
     in_candidate_sha256 = replicate 64 CHR ''f'', in_bundle_sha256 = replicate 64 CHR ''a'', in_channel = ''beta'',
     in_expected_channel_revision = JInt 0, in_idempotency_key = ''pr-7''\<rparr>"

definition empty_registry :: registry_db where
  "empty_registry = \<lparr>t_publishers = [\<lparr>pb_id = ''oklab'', pb_name = ''OK Lab''\<rparr>],
     t_modules = [\<lparr>mo_id = ''maps'', mo_name = ''Maps'', mo_description = None, mo_homepage = None,
       mo_documentation_url = None, mo_publisher_id = ''oklab'', mo_classification = ''first-party'', mo_license = ''MIT'',
       mo_source_repository = ''https://github.com/oklabflensburg/maps''\<rparr>],
     t_artifacts = [], t_provenance = [], t_versions = [], t_channels = [], t_dependencies = [], t_promotions = [],
     alembic_version = [''0049_promotions''], seq_artifact = 1, seq_provenance = 1\<rparr>"

abbreviation reviewed_load :: "string \<Rightarrow> string \<Rightarrow> int \<Rightarrow> string \<Rightarrow> exn + reviewed" where
  "reviewed_load \<equiv> github_load reviewed_hash (Some sample_config) (JObj []) (\<lambda>_. Some (to_ptree reviewed_provenance)) reviewed_api"

definition reviewed_source :: "pypath \<times> string" where
  "reviewed_source = (\<lparr>is_absolute = True, parts = [''in'', ''a.ocp'']\<rparr>, ''u1'')"

abbreviation reviewed_promotion :: "(fsys \<times> registry_db, json) op" where
  "reviewed_promotion \<equiv> promote_db (\<lambda>_ _. True) reviewed_hash reviewed_load (fs_publish reviewed_hash [] [''srv'', ''store''])
     (store_verify reviewed_hash [''srv'', ''store'']) 0 reviewed_intent reviewed_source"



lemma reviewed_file:
  "candidate_at (Some sample_config) (JObj []) (\<lambda>_. Some (to_ptree reviewed_provenance)) reviewed_api file ref = Inr reviewed_provenance"
proof -
  have api: "reviewed_api (''contents/'' @ file @ ''?ref='' @ ref) = Inr reviewed_contents"
    by (simp add: reviewed_api_def)
  have "decode_json (Some (to_ptree reviewed_provenance)) = Inr reviewed_provenance" by code_simp
  moreover have "validate_candidate (Some sample_config) (JObj []) reviewed_provenance = Inr reviewed_provenance" by code_simp
  moreover have "py_get reviewed_contents ''encoding'' JNull = Inr (JStr ''base64'')" by code_simp
  moreover have "rbind (getitem reviewed_contents ''content'') b64decode = Inr []" by code_simp
  moreover have "decode_utf8 [] = Inr []" by code_simp
  moreover have "py_eq (JStr ''base64'') (JStr ''base64'')" by code_simp
  ultimately show ?thesis unfolding candidate_at_def by (simp only: api rbind_simps ensure_def if_True)
qed

definition reviewed_record :: reviewed where
  "reviewed_record = \<lparr>rv_value = sort_keys reviewed_provenance, rv_candidate_sha256 = replicate 64 CHR ''f'',
     rv_approval_reference = ''https://github.com/oklabflensburg/open-city-planner-packages/pull/7'',
     rv_approval_identity = JStr ''reviewer'', rv_merge_commit = JStr (replicate 40 CHR ''2'')\<rparr>"

lemma reviewed_loaded:
  "reviewed_load ''maps'' ''2.0.0'' 7 (replicate 64 CHR ''f'') = Inr reviewed_record"
proof -
  let ?file = "''candidates/'' @ ''maps'' @ ''/'' @ ''2.0.0'' @ ''/provenance.json''"
  have steps: "is_ok (validate_module_id (JStr ''maps''))" "is_ok (validate_semver (JStr ''2.0.0''))"
    "reviewed_api (''pulls/'' @ py_str_int 7) = Inr reviewed_pr" "human_merged reviewed_pr = Inr True"
    "getitem2 reviewed_pr ''head'' ''sha'' = Inr (JStr (replicate 40 CHR ''1''))"
    "getitem reviewed_pr ''merge_commit_sha'' = Inr (JStr (replicate 40 CHR ''2''))"
    "and_then (commit_ok (JStr (replicate 40 CHR ''1''))) (commit_ok (JStr (replicate 40 CHR ''2''))) = Inr True"
    "reviewed_api (''pulls/'' @ py_str_int 7 @ ''/files?per_page=100'') = Inr reviewed_files"
    "reviews_file ?file reviewed_files = Inr True"
    "candidate_digest reviewed_hash reviewed_provenance = replicate 64 CHR ''f''"
    "getitem reviewed_provenance ''module_id'' = Inr (JStr ''maps'')"
    "getitem reviewed_provenance ''version'' = Inr (JStr ''2.0.0'')"
    "rbind (getitem reviewed_provenance ''builder_commit'') (full_match COMMIT40_RE) = Inr True"
    "getitem2 reviewed_pr ''merged_by'' ''login'' = Inr (JStr ''reviewer'')"
    "''https://github.com/'' @ REPOSITORY @ ''/pull/'' @ py_str_int 7
      = ''https://github.com/oklabflensburg/open-city-planner-packages/pull/7''"
    by code_simp+
  from steps(1,2) obtain u1 u2 where valid: "validate_module_id (JStr ''maps'') = Inr u1" "validate_semver (JStr ''2.0.0'') = Inr u2"
    by (auto simp: is_ok_iff)
  have all: "list_all (\<lambda>v. candidate_digest reviewed_hash v = replicate 64 CHR ''f'')
      [reviewed_provenance, reviewed_provenance, reviewed_provenance]"
    by (simp only: list.pred_inject steps simp_thms)
  show ?thesis
    unfolding github_load_def Let_def reviewed_file reviewed_record_def
    by (simp only: valid steps(3-) all rbind_simps ensure_def if_True zero_less_numeral simp_thms)
qed

definition reviewed_release :: json where
  "reviewed_release = JObj
     [(''version'', JStr ''2.0.0''), (''channel'', JStr ''beta''),
      (''artifact'', JObj [(''url'', JStr (mirror_url ''maps'' ''2.0.0'')), (''sha256'', JStr (replicate 64 CHR ''a''))]),
      (''bundle_format_version'', JInt 1), (''source_commit'', JStr (replicate 40 CHR ''c'')), (''source_tag'', JStr ''v2.0.0''),
      (''requires'', JObj [(''host'', JStr ''>=1.0.0''), (''modules'', JObj []), (''sdk'', JStr ''>=1.0.0'')])]"

definition reviewed_build :: "(string \<times> json) list" where
  "reviewed_build =
     [(''source_repository'', JStr ''https://github.com/oklabflensburg/maps''), (''source_tag'', JStr ''v2.0.0''),
      (''source_commit'', JStr (replicate 40 CHR ''c'')), (''builder_version'', JStr ''1''),
      (''builder_commit'', JStr (replicate 40 CHR ''d'')), (''host_commit'', JNull),
      (''reproducible'', JBool True), (''host_contract_status'', JStr ''passed''), (''environment_json'', JNull)]"

definition reviewed_binding :: binding where
  "reviewed_binding = \<lparr>bi_value = sort_keys reviewed_provenance, bi_revision = 0, bi_release = reviewed_release,
     bi_url = JStr (mirror_url ''maps'' ''2.0.0''), bi_provenance = reviewed_build,
     bi_intent = JObj (intent_json reviewed_intent @
       [(''approval_reference'', JStr ''https://github.com/oklabflensburg/open-city-planner-packages/pull/7''),
        (''approval_identity'', JStr ''reviewer''), (''merge_commit'', JStr (replicate 40 CHR ''2'')),
        (''candidate'', sort_keys reviewed_provenance)]),
     bi_reference = ''https://github.com/oklabflensburg/open-city-planner-packages/pull/7'', bi_identity = JStr ''reviewer''\<rparr>"

lemma reviewed_bound: "bind_intent reviewed_hash reviewed_load reviewed_intent = Inr reviewed_binding"
proof -
  have "bind_intent reviewed_hash reviewed_load reviewed_intent = bind_intent reviewed_hash (\<lambda>_ _ _ _. Inr reviewed_record) reviewed_intent"
    by (simp add: bind_intent_def reviewed_intent_def reviewed_loaded)
  moreover have "bind_intent reviewed_hash (\<lambda>_ _ _ _. Inr reviewed_record) reviewed_intent = Inr reviewed_binding"
    unfolding bind_intent_def rbind_def Let_def by code_simp
  ultimately show ?thesis by simp
qed

definition reviewed_artifact :: stored_artifact where
  "reviewed_artifact = \<lparr>sa_module_id = ''maps'', sa_version = ''2.0.0'', digest_algorithm = ''sha256'',
     sa_digest = replicate 64 CHR ''a'', byte_size = 4, storage_locator = ''modules/maps/2.0.0/maps-2.0.0.ocp'',
     public_url = mirror_url ''maps'' ''2.0.0''\<rparr>"

lemma reviewed_stored: "\<exists>p t. fs_publish reviewed_hash [] [''srv'', ''store''] ''maps'' ''2.0.0'' reviewed_source (replicate 64 CHR ''a'') sample_fs = (Inr p, t)
    \<and> artifact p = reviewed_artifact"
proof -
  have "case fst (fs_publish reviewed_hash [] [''srv'', ''store''] ''maps'' ''2.0.0'' reviewed_source (replicate 64 CHR ''a'') sample_fs)
      of Inr p \<Rightarrow> artifact p = reviewed_artifact | Inl _ \<Rightarrow> False"
    by code_simp
  moreover obtain r t where run: "fs_publish reviewed_hash [] [''srv'', ''store''] ''maps'' ''2.0.0'' reviewed_source (replicate 64 CHR ''a'') sample_fs = (r, t)"
    by (rule prod.exhaust)
  ultimately show ?thesis unfolding run by (cases r) auto
qed

definition stored_registry :: registry_db where
  "stored_registry = empty_registry\<lparr>seq_artifact := 2, t_artifacts :=
     [\<lparr>ar_id = 1, ar_digest_algorithm = ''sha256'', ar_digest = replicate 64 CHR ''a'', ar_byte_size = Some 4,
       ar_storage_locator = Some ''modules/maps/2.0.0/maps-2.0.0.ocp''\<rparr>]\<rparr>"

definition versioned_registry :: registry_db where
  "versioned_registry = stored_registry\<lparr>seq_provenance := 2, t_provenance :=
     [\<lparr>bp_id = 1, bp_source_repository = ''https://github.com/oklabflensburg/maps'', bp_source_tag = Some ''v2.0.0'',
       bp_source_commit = replicate 40 CHR ''c'', bp_builder_version = Some ''1'', bp_builder_commit = Some (replicate 40 CHR ''d''),
       bp_host_commit = None, bp_reproducible = Some True, bp_host_contract_status = Some ''passed'',
       bp_environment_json = None, bp_imported_at = None\<rparr>],
     t_versions := [\<lparr>mv_module_id = ''maps'', mv_version = ''2.0.0'', mv_artifact_id = 1,
       mv_artifact_original_url = mirror_url ''maps'' ''2.0.0'', mv_historical_order = 0, mv_build_provenance_id = Some 1,
       mv_bundle_format_version = 1, mv_source_tag = Some ''v2.0.0'', mv_source_commit = replicate 40 CHR ''c'',
       mv_host_compatibility = ''>=1.0.0'', mv_sdk_compatibility = ''>=1.0.0'', mv_channel = ''beta'',
       mv_published_at = Some 0, mv_imported_at = 0\<rparr>]\<rparr>"

definition channel_registry :: registry_db where
  "channel_registry = versioned_registry\<lparr>t_channels :=
     [\<lparr>mc_module_id = ''maps'', mc_channel = ''beta'', mc_version = ''2.0.0'', mc_revision = 1\<rparr>]\<rparr>"

definition reviewed_result :: json where
  "reviewed_result = promotion_result reviewed_intent None 0 reviewed_artifact"

definition promoted_registry :: registry_db where
  "promoted_registry = channel_registry\<lparr>t_promotions :=
     [\<lparr>pe_idempotency_key = ''pr-7'', pe_module_id = ''maps'', pe_version = ''2.0.0'', pe_channel = ''beta'',
       pe_candidate_digest = replicate 64 CHR ''f'',
       pe_approval_reference = ''https://github.com/oklabflensburg/open-city-planner-packages/pull/7'',
       pe_approval_identity = ''reviewer'', pe_previous_channel_version = None, pe_new_channel_version = ''2.0.0'',
       pe_intent = bi_intent reviewed_binding, pe_result = reviewed_result\<rparr>]\<rparr>"

lemma reviewed_release_valid:
  "validate_module (\<lambda>_ _. True) (JObj (module_structure (hd (t_modules empty_registry)) (hd (t_publishers empty_registry))
     @ [(''versions'', JList [reviewed_release])])) None = Inr ()"
  by code_simp

lemma reviewed_rows:
  "complete_storage reviewed_artifact empty_registry = (Inr (), stored_registry)"
  "insert_published_version (\<lambda>_ _. True) 0 ''maps'' reviewed_release None (Some reviewed_build) stored_registry
     = (Inr True, versioned_registry)"
  "move_channel reviewed_intent None versioned_registry = (Inr (), channel_registry)"
proof -
  show "complete_storage reviewed_artifact empty_registry = (Inr (), stored_registry)" by code_simp
  show "move_channel reviewed_intent None versioned_registry = (Inr (), channel_registry)" by code_simp
  let ?m = "hd (t_modules empty_registry)" and ?p = "hd (t_publishers empty_registry)"
  have m: "get_module ''maps'' stored_registry = (Inr (Some ?m), stored_registry)" by code_simp
  have st: "load_module_structure ?m stored_registry = (Inr (module_structure ?m ?p), stored_registry)" by code_simp
  have v: "str_item reviewed_release ''version'' = Inr ''2.0.0''" by code_simp
  have g: "get_version ''maps'' ''2.0.0'' stored_registry = (Inr None, stored_registry)" by code_simp
  have "add_version 0 ''maps'' reviewed_release None True reviewed_build stored_registry = (Inr True, versioned_registry)"
    unfolding add_version_def ebind_def by code_simp
  with m st v g show "insert_published_version (\<lambda>_ _. True) 0 ''maps'' reviewed_release None (Some reviewed_build) stored_registry
     = (Inr True, versioned_registry)"
    unfolding insert_published_version_def ebind_def elift_def eret_def by (simp add: reviewed_release_valid del: str_item_Inr_iff)
qed

lemma reviewed_representable:
  "is_ok (validate_v1_representability (\<lambda>_ _. True) (project_v1 channel_registry None) (channel_targets channel_registry None))"
  unfolding validate_v1_representability_def rbind_def by code_simp
lemma reviewed_event:
  "insert_row PromotionEvent False (hd (t_promotions promoted_registry)) channel_registry = (Inr (), promoted_registry)"
  by code_simp
lemma reviewed_body:
  "promotion_body (\<lambda>_ _. True) 0 reviewed_intent reviewed_binding reviewed_artifact empty_registry
     = (Inr reviewed_result, promoted_registry)"
proof -
  let ?m = "hd (t_modules empty_registry)" and ?p = "hd (t_publishers empty_registry)"
  from reviewed_representable obtain v where v: "validate_v1_representability (\<lambda>_ _. True)
      (project_v1 channel_registry None) (channel_targets channel_registry None) = Inr v" by (auto simp: is_ok_iff)
  have c: "get_channel ''maps'' ''beta'' empty_registry = (Inr None, empty_registry)" by code_simp
  have taken: "\<not> list_ex (\<lambda>e. pe_module_id e = ''maps'' \<and> pe_version e = ''2.0.0'') (t_promotions empty_registry)" by code_simp
  have ev: "insert_row PromotionEvent False
       \<lparr>pe_idempotency_key = ''pr-7'', pe_module_id = ''maps'', pe_version = ''2.0.0'',
        pe_channel = ''beta'', pe_candidate_digest = replicate 64 CHR ''f'',
        pe_approval_reference = bi_reference reviewed_binding, pe_approval_identity = ''reviewer'',
        pe_previous_channel_version = None, pe_new_channel_version = ''2.0.0'',
        pe_intent = bi_intent reviewed_binding, pe_result = reviewed_result\<rparr> channel_registry = (Inr (), promoted_registry)"
    using reviewed_event by (simp add: promoted_registry_def reviewed_binding_def)
  have new: "new_promotion (\<lambda>_ _. True) 0 reviewed_intent reviewed_binding reviewed_artifact empty_registry
     = (Inr reviewed_result, promoted_registry)"
    unfolding new_promotion_def ebind_def eget_def eensure_def elift_def eret_def
    using taken c ev reviewed_rows v
    by (simp add: reviewed_intent_def Let_def reviewed_binding_def reviewed_result_def)
  have "schema_revision empty_registry = Some EXPECTED_SCHEMA_REVISION"
    "py_next (\<lambda>m. mo_id m = in_module_id reviewed_intent) (t_modules empty_registry) = Some ?m"
    "py_next (\<lambda>p. pb_id p = mo_publisher_id ?m) (t_publishers empty_registry) = Some ?p"
    "get_field (bi_value reviewed_binding) ''source_repository'' = Some (JStr (mo_source_repository ?m))"
    "get_field (bi_value reviewed_binding) ''classification'' = Some (JStr (mo_classification ?m))"
    "py_next (\<lambda>e. pe_idempotency_key e = in_idempotency_key reviewed_intent) (t_promotions empty_registry) = None"
    by code_simp+
  with new reviewed_release_valid show ?thesis
    by (subst promotion_body_run [where m = ?m and p = ?p]) (simp_all add: reviewed_binding_def)
qed

lemma reviewed_run:
  "\<exists>t. reviewed_promotion (sample_fs, empty_registry) = (Inr reviewed_result, (t, promoted_registry))
     \<and> store_verify reviewed_hash [''srv'', ''store''] ''maps'' ''2.0.0'' (replicate 64 CHR ''a'') t = (Inr reviewed_artifact, t)
     \<and> (\<exists>q. fs_publish reviewed_hash [] [''srv'', ''store''] ''maps'' ''2.0.0'' reviewed_source (replicate 64 CHR ''a'') t = (Inr q, t))"
proof -
  from reviewed_stored obtain p t where p: "fs_publish reviewed_hash [] [''srv'', ''store''] ''maps'' ''2.0.0'' reviewed_source
      (replicate 64 CHR ''a'') sample_fs = (Inr p, t)" "artifact p = reviewed_artifact" by blast
  obtain src u where src: "reviewed_source = (src, u)" by (cases reviewed_source)
  have v: "store_verify reviewed_hash [''srv'', ''store''] ''maps'' ''2.0.0'' (replicate 64 CHR ''a'') t = (Inr reviewed_artifact, t)"
    using store_publish_stored [OF p(1) [unfolded src split] sample_fs_wf] p(2) by (simp add: store_verify_iff)
  have "in_module_id reviewed_intent = ''maps''" "in_version reviewed_intent = ''2.0.0''"
    "in_bundle_sha256 reviewed_intent = replicate 64 CHR ''a''" "sa_digest reviewed_artifact = replicate 64 CHR ''a''"
    "bi_url reviewed_binding = JStr (public_url reviewed_artifact)"
    by (simp_all add: reviewed_intent_def reviewed_artifact_def reviewed_binding_def)
  then have "reviewed_promotion (sample_fs, empty_registry) = (Inr reviewed_result, (t, promoted_registry))"
    using p v reviewed_bound reviewed_body
    by (simp add: promote_db_def ebind_def elift_def on_store_def eensure_def on_db_def transaction_def)
  moreover have "\<exists>q. fs_publish reviewed_hash [] [''srv'', ''store''] ''maps'' ''2.0.0'' reviewed_source (replicate 64 CHR ''a'') t = (Inr q, t)"
    using store_publish_again [OF p(1) [unfolded src split] sample_fs_wf] unfolding src split by blast
  ultimately show ?thesis using v by blast
qed

lemma empty_registry_wf: "db_wf empty_registry"
proof -
  have "tb_types Publisher (hd (t_publishers empty_registry))" "tb_check Publisher (hd (t_publishers empty_registry))"
    "tb_types Module (hd (t_modules empty_registry))" "tb_check Module (hd (t_modules empty_registry))"
    "tb_refs Module empty_registry (hd (t_modules empty_registry))" by code_simp+
  then show ?thesis
    by (simp add: db_wf_def table_ok_def empty_registry_def Publisher_def [THEN arg_cong, of tb_refs])
qed

section \<open>Properties\<close>

text \<open>The registry served by the filesystem store, with evidence from GitHub.\<close>

abbreviation fs_registry_step ::
    "(string \<Rightarrow> json \<Rightarrow> bool) \<Rightarrow> (string \<Rightarrow> string) \<Rightarrow> string list \<Rightarrow> string list \<Rightarrow> json option \<Rightarrow> json \<Rightarrow>
      (string \<Rightarrow> ptree option) \<Rightarrow> (string \<Rightarrow> exn + json) \<Rightarrow> fsys \<times> registry_db \<Rightarrow> fsys \<times> registry_db \<Rightarrow> bool" where
  "fs_registry_step sch H cwd rt config env_policy parse api \<equiv>
     registry_step sch H (github_load H config env_policy parse api) (fs_publish H cwd rt) (store_verify H rt)"

abbreviation fs_promote ::
    "(string \<Rightarrow> json \<Rightarrow> bool) \<Rightarrow> (string \<Rightarrow> string) \<Rightarrow> string list \<Rightarrow> string list \<Rightarrow> json option \<Rightarrow> json \<Rightarrow>
      (string \<Rightarrow> ptree option) \<Rightarrow> (string \<Rightarrow> exn + json) \<Rightarrow> int \<Rightarrow> promotion_intent \<Rightarrow> pypath \<times> string \<Rightarrow>
      (fsys \<times> registry_db, json) op" where
  "fs_promote sch H cwd rt config env_policy parse api \<equiv>
     promote_db sch H (github_load H config env_policy parse api) (fs_publish H cwd rt) (store_verify H rt)"

text \<open>C3. Published history never changes: whatever sequence of promotions and imports runs,
  successful or not, a published version keeps its row, the release document read from the database
  and its build provenance, and an artifact that the store verifies stays verifiable.\<close>

theorem published_history_kept:
  assumes "(fs_registry_step sch H cwd rt config env_policy parse api)\<^sup>*\<^sup>* (s, db) (s', db')"
    and "db_wf db" and "fs_wf s" and "v \<in> set (t_versions db)"
    and "store_verify H rt (mv_module_id v) (mv_version v) h s = (Inr a, s)"
  shows "v \<in> set (t_versions db')
    \<and> (\<exists>r. load_release_structure v db = (Inr r, db) \<and> load_release_structure v db' = (Inr r, db'))
    \<and> (\<exists>p. get_provenance (mv_build_provenance_id v) db = (Inr p, db)
          \<and> get_provenance (mv_build_provenance_id v) db' = (Inr p, db'))
    \<and> store_verify H rt (mv_module_id v) (mv_version v) h s' = (Inr a, s')"
proof -
  note kept = github.history_kept [OF assms(1,2,4)]
  have "table_ok ModuleVersion db" using assms(2) by (simp add: db_wf_def)
  with assms(4) have refs: "opt_all (\<lambda>i. list_ex (\<lambda>p. bp_id p = i) (t_provenance db)) (mv_build_provenance_id v)"
    by (auto simp: table_ok_def ModuleVersion_def)
  have "\<exists>p. get_provenance (mv_build_provenance_id v) db = (Inr p, db)
      \<and> get_provenance (mv_build_provenance_id v) db' = (Inr p, db')"
  proof (cases "mv_build_provenance_id v")
    case (Some i)
    with refs have "list_ex (\<lambda>p. bp_id p = i) (t_provenance db)" by simp
    then obtain p where "py_next (\<lambda>p. bp_id p = i) (t_provenance db) = Some p"
      by (metis find_None_iff list_ex_iff not_None_eq)
    moreover from this kept have "py_next (\<lambda>p. bp_id p = i) (t_provenance db') = Some p" by blast
    ultimately show ?thesis using Some by (simp add: get_provenance_def eget_def)
  qed (simp add: get_provenance_def eret_def eget_def)
  moreover have "store_verify H rt (mv_module_id v) (mv_version v) h s' = (Inr a, s')"
    using github.steps_store [OF assms(1), of "mv_module_id v" "mv_version v" h a] assms(3,5) by (simp only: fst_conv)
  ultimately show ?thesis using kept by blast
qed

theorem published_history_kept_witness:
  "\<exists>t u r. fs_registry_step (\<lambda>_ _. True) reviewed_hash [] [''srv'', ''store''] (Some sample_config) (JObj [])
       (\<lambda>_. Some (to_ptree reviewed_provenance)) reviewed_api (sample_fs, empty_registry) (t, promoted_registry)
     \<and> fs_registry_step (\<lambda>_ _. True) reviewed_hash [] [''srv'', ''store''] (Some sample_config) (JObj [])
       (\<lambda>_. Some (to_ptree reviewed_provenance)) reviewed_api (t, promoted_registry) (t, u)
     \<and> load_release_structure (hd (t_versions promoted_registry)) promoted_registry = (Inr r, promoted_registry)
     \<and> load_release_structure (hd (t_versions promoted_registry)) u = (Inr r, u)"
proof -
  let ?step = "fs_registry_step (\<lambda>_ _. True) reviewed_hash [] [''srv'', ''store''] (Some sample_config) (JObj [])
    (\<lambda>_. Some (to_ptree reviewed_provenance)) reviewed_api"
  let ?v = "hd (t_versions promoted_registry)"
  from reviewed_run obtain t where run: "reviewed_promotion (sample_fs, empty_registry) = (Inr reviewed_result, (t, promoted_registry))"
    and v: "store_verify reviewed_hash [''srv'', ''store''] ''maps'' ''2.0.0'' (replicate 64 CHR ''a'') t = (Inr reviewed_artifact, t)"
    by blast
  have first: "?step (sample_fs, empty_registry) (t, promoted_registry)" using run by (rule registry_step.Promotion)
  obtain x u where imp: "import_registry (\<lambda>_ _. True) 1 (sample_tree sample_v1) promoted_registry = (x, u)" by fastforce
  have second: "?step (t, promoted_registry) (t, u)" using imp by (rule registry_step.Import)
  have "fs_wf sample_fs" "db_wf empty_registry" by (rule sample_fs_wf empty_registry_wf)+
  with github.step_advance [OF first] github.step_store [OF first]
  have "db_wf promoted_registry" "fs_wf t" by (simp_all only: advance_def fst_conv snd_conv)
  moreover have "?v \<in> set (t_versions promoted_registry)" "mv_module_id ?v = ''maps''" "mv_version ?v = ''2.0.0''"
    by code_simp+
  ultimately have "\<exists>r. load_release_structure ?v promoted_registry = (Inr r, promoted_registry) \<and> load_release_structure ?v u = (Inr r, u)"
    using published_history_kept [OF r_into_rtranclp [of ?step, OF second], of ?v "replicate 64 CHR ''a''" reviewed_artifact] v
    by (simp only:)
  with first second show ?thesis by blast
qed





text \<open>C18. A promotion that fails changes no table of the registry, wherever it failed (only numbers drawn from
  a sequence are lost), and every artifact the store verified before stays verifiable.\<close>

theorem failed_promotion_rolls_back:
  assumes "fs_promote sch H cwd rt config env_policy parse api now i src (s, db) = (Inl e, (s', db'))" and "fs_wf s"
  shows "same_tables db db' \<and> fs_wf s'
    \<and> (\<forall>m v h a. store_verify H rt m v h s = (Inr a, s) \<longrightarrow> store_verify H rt m v h s' = (Inr a, s'))"
proof -
  have "same_tables db db'" using assms(1)
  proof (cases rule: promote_db_cases)
    case (early e)
    then show ?thesis by (simp add: same_tables_def rollback_def)
  next
    case (body b p u a)
    from transaction_Inl [OF body(6)] show ?thesis .
  qed
  moreover have "fs_registry_step sch H cwd rt config env_policy parse api (s, db) (s', db')"
    using assms(1) by (rule registry_step.Promotion)
  then have "fs_wf s' \<and> (store_verify H rt m v h s = (Inr a, s) \<longrightarrow> store_verify H rt m v h s' = (Inr a, s'))" for m v h a
    using github.step_store assms(2) by (metis fst_conv)
  ultimately show ?thesis by blast
qed

text \<open>A file whose bytes are not the approved ones: the candidate is accepted, the store refuses.\<close>

theorem failed_promotion_rolls_back_witness:
  "\<exists>e t db. promote_db (\<lambda>_ _. True) reviewed_hash reviewed_load (fs_publish reviewed_hash [] [''srv'', ''store''])
       (store_verify reviewed_hash [''srv'', ''store'']) 0 reviewed_intent (\<lparr>is_absolute = True, parts = [''in'', ''b.ocp'']\<rparr>, ''u1'')
       (sample_fs, promoted_registry) = (Inl e, (t, db))
     \<and> same_tables promoted_registry db"
proof -
  let ?src = "(\<lparr>is_absolute = True, parts = [''in'', ''b.ocp'']\<rparr>, ''u1'')"
  have i: "in_module_id reviewed_intent = ''maps''" "in_version reviewed_intent = ''2.0.0''"
    "in_bundle_sha256 reviewed_intent = replicate 64 CHR ''a''" by code_simp+
  have "\<not> is_ok (fst (fs_publish reviewed_hash [] [''srv'', ''store''] ''maps'' ''2.0.0'' ?src (replicate 64 CHR ''a'') sample_fs))"
    by code_simp
  then obtain e t where "fs_publish reviewed_hash [] [''srv'', ''store''] ''maps'' ''2.0.0'' ?src (replicate 64 CHR ''a'') sample_fs = (Inl e, t)"
    by (metis is_ok_simps(2) obj_sumE prod.collapse)
  then have run: "promote_db (\<lambda>_ _. True) reviewed_hash reviewed_load (fs_publish reviewed_hash [] [''srv'', ''store''])
      (store_verify reviewed_hash [''srv'', ''store'']) 0 reviewed_intent ?src (sample_fs, promoted_registry) = (Inl e, (t, promoted_registry))"
    by (simp only: promote_db_def ebind_def elift_def on_store_def reviewed_bound i prod.case sum.case)
  from failed_promotion_rolls_back [OF run sample_fs_wf] run show ?thesis by blast
qed



end
