(* ===== verification/Api_Models.thy ===== *)
theory Api_Models
  imports Registry
begin

text \<open>
  The response models of the read API, \<open>web/backend/app/models.py\<close> and
  \<open>web/backend/app/api/models_registry_v2.py\<close>: each class is the list of its fields, a field its
  name, its default (\<open>None\<close> when it is required) and the check of its type, which returns the stored
  value. \<open>model_validate\<close> is pydantic's validation with \<open>extra="forbid"\<close>; an instance is
  represented by its \<open>model_dump\<close>. The text that \<open>HttpUrl\<close> makes of a URL is the parameter \<open>http_url\<close>
  (\<open>None\<close>: not a URL). A value of type \<open>datetime\<close> is the text it is encoded as.
\<close>

abbreviation validation_error :: exn where
  "validation_error \<equiv> Raise ValueError (Msg ''ValidationError'')"

type_synonym field_check = "json \<Rightarrow> exn + json"
type_synonym model = "(string \<times> json option \<times> field_check) list"

definition model_validate :: "model \<Rightarrow> json \<Rightarrow> exn + json" where
  "model_validate fs v = (case v of
       JObj d \<Rightarrow>
         rbind (ensure (list_all (\<lambda>k. k \<in> set (map fst fs)) (dict_keys d)) validation_error) (\<lambda>_.
         rbind (rmap (\<lambda>(name, default, check).
             rbind (case dict_get d name of
                 Some x \<Rightarrow> check x
               | None \<Rightarrow> of_option validation_error default) (\<lambda>y. Inr (name, y))) fs) (\<lambda>d'.
         Inr (JObj d')))
     | _ \<Rightarrow> Inl validation_error)"

section \<open>Types of fields\<close>

fun as_str :: field_check where
  "as_str (JStr s) = Inr (JStr s)"
| "as_str _ = Inl validation_error"

text \<open>An integer, a boolean, or a float without fraction; no text is used for an integer field here.\<close>

definition as_int :: "(int \<Rightarrow> bool) \<Rightarrow> field_check" where
  "as_int P v = (case num_val v of
       None \<Rightarrow> Inl validation_error
     | Some x \<Rightarrow> if x = of_int \<lfloor>x\<rfloor> \<and> P \<lfloor>x\<rfloor> then Inr (JInt \<lfloor>x\<rfloor>) else Inl validation_error)"

fun as_bool :: field_check where
  "as_bool (JBool b) = Inr (JBool b)"
| "as_bool _ = Inl validation_error"

definition as_literal :: "string list \<Rightarrow> field_check" where
  "as_literal xs v = (if str_in v xs then Inr v else Inl validation_error)"

definition as_pattern :: "regex \<Rightarrow> field_check" where
  "as_pattern r v = (if matches r v then Inr v else Inl validation_error)"

definition as_url :: "(string \<Rightarrow> string option) \<Rightarrow> field_check" where
  "as_url http_url v = (case v of
       JStr s \<Rightarrow> (case http_url s of Some t \<Rightarrow> Inr (JStr t) | None \<Rightarrow> Inl validation_error)
     | _ \<Rightarrow> Inl validation_error)"

definition as_opt :: "field_check \<Rightarrow> field_check" where
  "as_opt check v = (if v = JNull then Inr JNull else check v)"

definition as_list :: "field_check \<Rightarrow> field_check" where
  "as_list check v = (case v of
       JList xs \<Rightarrow> rbind (rmap check xs) (\<lambda>ys. Inr (JList ys))
     | _ \<Rightarrow> Inl validation_error)"

definition as_dict :: "(string \<Rightarrow> bool) \<Rightarrow> field_check \<Rightarrow> field_check" where
  "as_dict key check v = (case v of
       JObj d \<Rightarrow> rbind (rmap (\<lambda>(k, x). rbind (ensure (key k) validation_error) (\<lambda>_.
                    rbind (check x) (\<lambda>y. Inr (k, y)))) d) (\<lambda>d'. Inr (JObj d'))
     | _ \<Rightarrow> Inl validation_error)"

abbreviation required :: "string \<Rightarrow> field_check \<Rightarrow> string \<times> json option \<times> field_check" where
  "required name check \<equiv> (name, None, check)"

abbreviation optional :: "string \<Rightarrow> field_check \<Rightarrow> string \<times> json option \<times> field_check" where
  "optional name check \<equiv> (name, Some JNull, as_opt check)"

abbreviation any_key :: "string \<Rightarrow> bool" where
  "any_key \<equiv> (\<lambda>_. True)"

section \<open>Models of the package hub\<close>

definition Publisher_model :: model where
  "Publisher_model = [required ''id'' as_str, required ''name'' as_str]"

definition Compatibility_model :: model where
  "Compatibility_model = [required ''host'' as_str, required ''sdk'' as_str, required ''modules'' (as_dict any_key as_str)]"

definition Artifact_model :: "(string \<Rightarrow> string option) \<Rightarrow> model" where
  "Artifact_model http_url = [required ''url'' (as_url http_url), required ''sha256'' as_str]"

definition PackageRelease_model :: "(string \<Rightarrow> string option) \<Rightarrow> model" where
  "PackageRelease_model http_url =
     [required ''version'' as_str, required ''channel'' (as_literal CHANNELS),
      required ''artifact'' (model_validate (Artifact_model http_url)),
      required ''bundle_format_version'' (as_int (\<lambda>_. True)), required ''source_commit'' as_str,
      optional ''source_tag'' as_str, required ''requires'' (model_validate Compatibility_model)]"

definition PackageSummary_model :: model where
  "PackageSummary_model =
     [required ''id'' as_str, required ''name'' as_str, optional ''description'' as_str,
      required ''publisher'' (model_validate Publisher_model), required ''classification'' (as_literal CLASSIFICATIONS),
      required ''latest_version'' as_str, required ''latest_channel'' (as_literal CHANNELS),
      required ''compatibility'' (model_validate Compatibility_model),
      required ''channels'' (as_list (as_literal CHANNELS))]"

definition PackageDetail_model :: "(string \<Rightarrow> string option) \<Rightarrow> model" where
  "PackageDetail_model http_url = PackageSummary_model @
     [required ''source_repository'' (as_url http_url), required ''license'' as_str,
      optional ''homepage'' (as_url http_url), optional ''documentation_url'' (as_url http_url),
      required ''versions'' (as_list (model_validate (PackageRelease_model http_url)))]"

definition page_fields :: "field_check \<Rightarrow> model" where
  "page_fields item =
     [required ''items'' (as_list item), required ''total'' (as_int (\<lambda>i. 0 \<le> i)),
      required ''limit'' (as_int (\<lambda>i. 1 \<le> i \<and> i \<le> 100)), required ''offset'' (as_int (\<lambda>i. 0 \<le> i))]"

definition PackagePage_model :: model where
  "PackagePage_model = page_fields (model_validate PackageSummary_model)"

definition SearchResult_model :: model where
  "SearchResult_model = PackagePage_model @ [required ''query'' as_str]"

definition PublisherSummary_model :: model where
  "PublisherSummary_model =
     [required ''id'' as_str, required ''name'' as_str, required ''classifications'' (as_list (as_literal CLASSIFICATIONS)),
      required ''package_count'' (as_int (\<lambda>i. 0 \<le> i)), required ''release_count'' (as_int (\<lambda>i. 0 \<le> i))]"

definition PublisherDetail_model :: model where
  "PublisherDetail_model = PublisherSummary_model @
     [required ''packages'' (as_list (model_validate PackageSummary_model))]"

definition HealthResponse_model :: model where
  "HealthResponse_model =
     [(''status'', Some (JStr ''ok''), as_literal [''ok'']),
      (''registry_schema'', Some (JInt 1), as_int (\<lambda>i. i = 1)), required ''packages'' (as_int (\<lambda>i. 0 \<le> i))]"

section \<open>Models of the database registry\<close>

definition ChannelTarget_model :: model where
  "ChannelTarget_model = [required ''version'' as_str, required ''sha256'' (as_pattern SHA256_RE)]"

definition channels_field :: field_check where
  "channels_field = as_dict (\<lambda>k. k \<in> set CHANNELS) (model_validate ChannelTarget_model)"

abbreviation nullable :: "string \<Rightarrow> field_check \<Rightarrow> string \<times> json option \<times> field_check" where
  "nullable name check \<equiv> (name, None, as_opt check)"

definition ModuleSummary_model :: model where
  "ModuleSummary_model =
     [required ''id'' as_str, required ''name'' as_str, nullable ''description'' as_str,
      required ''publisher'' (model_validate Publisher_model), required ''classification'' (as_literal CLASSIFICATIONS),
      required ''license'' as_str, required ''source_repository'' as_str, nullable ''homepage'' as_str,
      nullable ''documentation_url'' as_str, nullable ''stable_version'' as_str, required ''channels'' channels_field,
      required ''version_count'' (as_int (\<lambda>i. 1 \<le> i))]"

definition ModuleDetail_model :: model where
  "ModuleDetail_model = ModuleSummary_model @ [required ''versions_url'' as_str]"

definition VersionArtifact_model :: model where
  "VersionArtifact_model =
     [required ''url'' as_str, required ''sha256'' (as_pattern SHA256_RE), nullable ''byte_size'' (as_int (\<lambda>i. 0 \<le> i)),
      nullable ''storage_locator'' as_str]"

definition VersionSource_model :: model where
  "VersionSource_model = [required ''repository'' as_str, nullable ''tag'' as_str, required ''commit'' as_str]"

definition VersionCompatibility_model :: model where
  "VersionCompatibility_model = [required ''host'' as_str, required ''sdk'' as_str]"

definition VersionProvenance_model :: model where
  "VersionProvenance_model =
     [optional ''builder_version'' as_str, optional ''builder_commit'' as_str, optional ''host_commit'' as_str,
      optional ''reproducible'' as_bool, optional ''host_contract_status'' (as_literal [''passed'', ''failed'']),
      optional ''environment'' (as_dict any_key Inr)]"

definition PublishedVersion_model :: model where
  "PublishedVersion_model =
     [required ''module_id'' as_str, required ''version'' as_str,
      required ''historical_publication_channel'' (as_literal CHANNELS), required ''bundle_format_version'' (as_int (\<lambda>_. True)),
      required ''artifact'' (model_validate VersionArtifact_model), required ''source'' (model_validate VersionSource_model),
      required ''compatibility'' (model_validate VersionCompatibility_model),
      required ''dependencies'' (as_dict any_key as_str), nullable ''published_at'' as_str,
      required ''provenance'' (model_validate VersionProvenance_model)]"

definition ModulePage_model :: model where
  "ModulePage_model = page_fields (model_validate ModuleSummary_model)"

definition VersionPage_model :: model where
  "VersionPage_model = page_fields (model_validate PublishedVersion_model)"

definition ModuleSearch_model :: model where
  "ModuleSearch_model = ModulePage_model @ [required ''query'' as_str]"

definition RegistryPublisher_model :: model where
  "RegistryPublisher_model = Publisher_model @ [required ''module_count'' (as_int (\<lambda>i. 1 \<le> i))]"

definition PublisherPage_model :: model where
  "PublisherPage_model = page_fields (model_validate RegistryPublisher_model)"

definition RegistryPublisherDetail_model :: model where
  "RegistryPublisherDetail_model = RegistryPublisher_model @ [required ''modules'' (model_validate ModulePage_model)]"

definition Readiness_model :: model where
  "Readiness_model =
     [(''status'', Some (JStr ''ok''), as_literal [''ok'']), (''source'', Some (JStr ''postgresql''), as_literal [''postgresql'']),
      required ''schema_revision'' as_str]"

end
