(* ===== verification/Hub.thy ===== *)
theory Hub
  imports Api_Models Json_Access
begin

text \<open>
  The package hub over the JSON registry: \<open>RegistryRepository\<close> of \<open>web/backend/app/repository.py\<close> and
  the routes of \<open>web/backend/app/main.py\<close>. The snapshot is the value of \<open>load_registry\<close>. Unicode case
  folding is the parameter \<open>casefold\<close>; \<open>accepts version requirement\<close> is the outcome of
  \<open>Version(version) in SpecifierSet(requirement)\<close> of the packaging library; \<open>http_url\<close> as in
  \<open>Api_Models\<close>.
\<close>

section \<open>The repository\<close>

record package_query =
  pq_q :: string
  pq_publisher :: "string option"
  pq_classification :: "string option"
  pq_channel :: "string option"
  pq_host :: "string option"
  pq_sdk :: "string option"
  pq_sort :: string

definition default_query :: package_query where
  "default_query = \<lparr>pq_q = [], pq_publisher = None, pq_classification = None, pq_channel = None, pq_host = None,
     pq_sdk = None, pq_sort = ''relevance''\<rparr>"

record hub =
  hub_modules :: "json list"
  hub_by_id :: "(string, json) dict"

definition hub_init :: "(string \<Rightarrow> json \<Rightarrow> bool) \<Rightarrow> registry_source \<Rightarrow> exn + hub" where
  "hub_init sch source =
     rbind (load_registry sch source) (\<lambda>modules.
     rbind (rmap (\<lambda>m. rbind (str_item m ''id'') (\<lambda>i. Inr (i, m))) modules) (\<lambda>ps.
     Inr \<lparr>hub_modules = modules, hub_by_id = dict_of ps\<rparr>))"

definition package_count :: "hub \<Rightarrow> nat" where
  "package_count h = length (hub_modules h)"

definition sorted_releases :: "json \<Rightarrow> exn + json list" where
  "sorted_releases md = rbind (list_item md ''versions'') (sorted_by_reverse release_key)"

definition latest_release :: "json \<Rightarrow> exn + json" where
  "latest_release md = rbind (sorted_releases md) (\<lambda>rs.
     case rs of [] \<Rightarrow> Inl (Raise IndexError (Msg [])) | r # _ \<Rightarrow> Inr r)"

definition release_model :: "(string \<Rightarrow> string option) \<Rightarrow> json \<Rightarrow> exn + json" where
  "release_model http_url release = model_validate (PackageRelease_model http_url) release"

definition package_summary :: "json \<Rightarrow> exn + json" where
  "package_summary md =
     rbind (latest_release md) (\<lambda>latest.
     rbind (getitem md ''id'') (\<lambda>i.
     rbind (getitem md ''name'') (\<lambda>name.
     rbind (rbind (getitem md ''publisher'') (model_validate Publisher_model)) (\<lambda>publisher.
     rbind (getitem md ''classification'') (\<lambda>classification.
     rbind (getitem latest ''version'') (\<lambda>version.
     rbind (getitem latest ''channel'') (\<lambda>channel.
     rbind (rbind (getitem latest ''requires'') (model_validate Compatibility_model)) (\<lambda>compatibility.
     rbind (list_item md ''versions'') (\<lambda>versions.
     rbind (rmap (\<lambda>r. str_item r ''channel'') versions) (\<lambda>channels.
     model_validate PackageSummary_model (JObj
       [(''id'', i), (''name'', name), (''description'', get_or md ''description'' JNull), (''publisher'', publisher),
        (''classification'', classification), (''latest_version'', version), (''latest_channel'', channel),
        (''compatibility'', compatibility),
        (''channels'', JList (map JStr (sorted_set channels)))])))))))))))"

definition package_detail :: "(string \<Rightarrow> string option) \<Rightarrow> json \<Rightarrow> exn + json" where
  "package_detail http_url md =
     rbind (package_summary md) (\<lambda>summary.
     rbind (getitem md ''source_repository'') (\<lambda>repository.
     rbind (getitem md ''license'') (\<lambda>license.
     rbind (sorted_releases md) (\<lambda>releases.
     rbind (rmap (release_model http_url) releases) (\<lambda>versions.
     model_validate (PackageDetail_model http_url) (JObj (obj_items summary @
       [(''source_repository'', repository), (''license'', license),
        (''homepage'', get_or md ''homepage'' JNull), (''documentation_url'', get_or md ''documentation_url'' JNull),
        (''versions'', JList versions)])))))))"

definition compatible :: "(string \<Rightarrow> string \<Rightarrow> exn + bool) \<Rightarrow> string \<Rightarrow> string option \<Rightarrow> exn + bool" where
  "compatible accepts requirement requested = (case requested of
       None \<Rightarrow> Inr True
     | Some v \<Rightarrow> rcatch (accepts v requirement) (\<lambda>e.
         if exn_class e \<in> {InvalidSpecifier, InvalidVersion} then Inr False else Inl e))"

text \<open>A filter is applied when its text is not empty.\<close>

definition chosen :: "string option \<Rightarrow> bool" where
  "chosen s = (s \<noteq> None \<and> s \<noteq> Some [])"

definition matches_filters :: "(string \<Rightarrow> string \<Rightarrow> exn + bool) \<Rightarrow> json \<Rightarrow> package_query \<Rightarrow> exn + bool" where
  "matches_filters accepts md pq =
     rbind (if chosen (pq_publisher pq)
         then item_eq (getitem2 md ''publisher'' ''id'') (JStr (the (pq_publisher pq))) else Inr True) (\<lambda>ok1.
     if \<not> ok1 then Inr False else
     rbind (if chosen (pq_classification pq)
         then item_eq (getitem md ''classification'') (JStr (the (pq_classification pq))) else Inr True) (\<lambda>ok2.
     if \<not> ok2 then Inr False else
     rbind (list_item md ''versions'') (\<lambda>releases.
     rbind (if chosen (pq_channel pq)
         then first_true (\<lambda>r. item_eq (getitem r ''channel'') (JStr (the (pq_channel pq)))) releases else Inr True) (\<lambda>ok3.
     if \<not> ok3 then Inr False else
     first_true (\<lambda>r.
         and_then (rbind (rbind (getitem r ''requires'') (\<lambda>q. str_item q ''host'')) (\<lambda>s. compatible accepts s (pq_host pq)))
           (rbind (rbind (getitem r ''requires'') (\<lambda>q. str_item q ''sdk'')) (\<lambda>s. compatible accepts s (pq_sdk pq))))
       releases))))"

definition search_rank :: "(string \<Rightarrow> string) \<Rightarrow> json \<Rightarrow> string \<Rightarrow> exn + (nat \<times> string) option" where
  "search_rank casefold md raw_query =
     (let pq = casefold (py_strip raw_query) in
      rbind (str_item md ''id'') (\<lambda>i.
      if pq = [] then Inr (Some (0, i))
      else
        let module_id = casefold i; found = (\<lambda>bucket. Inr (Some (bucket, module_id))) in
        rbind (str_item md ''name'') (\<lambda>n.
        let name = casefold n in
        if pq = module_id then found 0
        else if pq = name then found 1
        else if py_startswith module_id pq then found 2
        else if py_startswith name pq then found 3
        else if py_in pq module_id \<or> py_in pq name then found 4
        else
          rbind (let d = get_or md ''description'' JNull in
              if json_truthy d then (case d of JStr s \<Rightarrow> Inr s | _ \<Rightarrow> Inl (Raise AttributeError (Msg ''casefold''))) else Inr []) (\<lambda>d.
          if py_in pq (casefold d) then found 5
          else
            rbind (getitem md ''publisher'') (\<lambda>p.
            rbind (str_item p ''id'') (\<lambda>pid.
            rbind (if py_in pq (casefold pid) then Inr True
                else rbind (str_item p ''name'') (\<lambda>pn. Inr (py_in pq (casefold pn)))) (\<lambda>hit.
            if hit then found 6
            else
              rbind (getitem md ''classification'') (\<lambda>c.
              rbind (list_item md ''versions'') (\<lambda>releases.
              rbind (rmap (\<lambda>r. getitem r ''channel'') releases) (\<lambda>cs.
              rbind (rmap (\<lambda>r. getitem r ''version'') releases) (\<lambda>vs.
              if list_ex (\<lambda>v. py_in pq (casefold (py_str v))) ([c] @ cs @ vs) then found 7
              else Inr None)))))))))))"

definition ranked_modules ::
    "(string \<Rightarrow> string) \<Rightarrow> (string \<Rightarrow> string \<Rightarrow> exn + bool) \<Rightarrow> json list \<Rightarrow> package_query \<Rightarrow>
      exn + ((nat \<times> string) \<times> json) list" where
  "ranked_modules casefold accepts modules pq =
     rbind (rmap (\<lambda>md.
         rbind (matches_filters accepts md pq) (\<lambda>ok.
         if ok then rbind (search_rank casefold md (pq_q pq)) (\<lambda>rank. Inr (map_option (\<lambda>r. (r, md)) rank))
         else Inr None)) modules) (\<lambda>found.
     Inr (List.map_filter id found))"

definition sort_ranked ::
    "(string \<Rightarrow> string) \<Rightarrow> string \<Rightarrow> ((nat \<times> string) \<times> json) list \<Rightarrow> exn + ((nat \<times> string) \<times> json) list" where
  "sort_ranked casefold order ranked =
     (if order = ''name'' then
        sorted_by (\<lambda>(_, md). rbind (str_item md ''name'') (\<lambda>n. rbind (str_item md ''id'') (\<lambda>i. Inr (casefold n, i)))) ranked
      else if order = ''id'' then sorted_by (\<lambda>(_, md). str_item md ''id'') ranked
      else if order = ''version'' then
        sorted_by_reverse (\<lambda>(_, md). rbind (latest_release md) release_key) ranked
      else sorted_by (\<lambda>(rank, md). rbind (str_item md ''id'') (\<lambda>i. Inr (rank, i))) ranked)"

definition list_packages ::
    "(string \<Rightarrow> string) \<Rightarrow> (string \<Rightarrow> string \<Rightarrow> exn + bool) \<Rightarrow> hub \<Rightarrow> package_query \<Rightarrow> exn + json list" where
  "list_packages casefold accepts h pq =
     rbind (ranked_modules casefold accepts (hub_modules h) pq) (\<lambda>ranked.
     rbind (sort_ranked casefold (pq_sort pq) ranked) (\<lambda>ordered.
     rmap (\<lambda>(_, md). package_summary md) ordered))"

definition hub_package :: "(string \<Rightarrow> string option) \<Rightarrow> hub \<Rightarrow> string \<Rightarrow> exn + json option" where
  "hub_package http_url h module_id = (case dict_get (hub_by_id h) module_id of
       None \<Rightarrow> Inr None
     | Some md \<Rightarrow> rbind (package_detail http_url md) (\<lambda>d. Inr (Some d)))"

definition hub_versions :: "(string \<Rightarrow> string option) \<Rightarrow> hub \<Rightarrow> string \<Rightarrow> exn + json list option" where
  "hub_versions http_url h module_id = (case dict_get (hub_by_id h) module_id of
       None \<Rightarrow> Inr None
     | Some md \<Rightarrow> rbind (sorted_releases md) (\<lambda>rs. rbind (rmap (release_model http_url) rs) (\<lambda>vs. Inr (Some vs))))"

definition hub_version :: "(string \<Rightarrow> string option) \<Rightarrow> hub \<Rightarrow> string \<Rightarrow> string \<Rightarrow> exn + json option" where
  "hub_version http_url h module_id version = (case dict_get (hub_by_id h) module_id of
       None \<Rightarrow> Inr None
     | Some md \<Rightarrow>
         rbind (list_item md ''versions'') (\<lambda>releases.
         rbind (rmap (\<lambda>r. rbind (item_eq (getitem r ''version'') (JStr version)) (\<lambda>b. Inr (b, r))) releases) (\<lambda>tagged.
         case py_next fst tagged of
           None \<Rightarrow> Inr None
         | Some (_, r) \<Rightarrow> rbind (release_model http_url r) (\<lambda>v. Inr (Some v)))))"

definition publisher_summary :: "json list \<Rightarrow> exn + json" where
  "publisher_summary modules =
     (case modules of
        [] \<Rightarrow> Inl (Raise IndexError (Msg []))
      | md # _ \<Rightarrow>
          rbind (getitem md ''publisher'') (\<lambda>publisher.
          rbind (getitem publisher ''id'') (\<lambda>i.
          rbind (getitem publisher ''name'') (\<lambda>name.
          rbind (rmap (\<lambda>m. str_item m ''classification'') modules) (\<lambda>classifications.
          rbind (rmap (\<lambda>m. list_item m ''versions'') modules) (\<lambda>versions.
          model_validate PublisherSummary_model (JObj
            [(''id'', i), (''name'', name),
             (''classifications'', JList (map JStr (sorted_set classifications))),
             (''package_count'', JInt (int (length modules))),
             (''release_count'', JInt (int (sum_list (map length versions))))])))))))"

definition group_modules :: "json list \<Rightarrow> exn + (string, json list) dict" where
  "group_modules modules =
     rfold (\<lambda>md grouped. rbind (getitem md ''publisher'') (\<lambda>p. rbind (str_item p ''id'') (\<lambda>k.
         Inr (dict_set k ((case dict_get grouped k of None \<Rightarrow> [] | Some ms \<Rightarrow> ms) @ [md]) grouped)))) modules []"

definition hub_publishers :: "hub \<Rightarrow> exn + json list" where
  "hub_publishers h =
     rbind (group_modules (hub_modules h)) (\<lambda>grouped.
     rmap (\<lambda>(_, ms). publisher_summary ms) (py_sorted fst grouped))"

definition hub_publisher :: "hub \<Rightarrow> string \<Rightarrow> exn + json option" where
  "hub_publisher h publisher_id =
     rbind (rmap (\<lambda>md. rbind (item_eq (getitem2 md ''publisher'' ''id'') (JStr publisher_id)) (\<lambda>b. Inr (b, md)))
         (hub_modules h)) (\<lambda>tagged.
     let modules = map snd (filter fst tagged) in
     if modules = [] then Inr None
     else
       rbind (publisher_summary modules) (\<lambda>summary.
       rbind (rmap package_summary modules) (\<lambda>packages.
       rbind (model_validate PublisherDetail_model (JObj (obj_items summary @ [(''packages'', JList packages)]))) (\<lambda>d.
       Inr (Some d)))))"

section \<open>The routes\<close>

abbreviation not_found :: "string \<Rightarrow> exn" where
  "not_found m \<equiv> Raise HTTPException (Http 404 m)"

text \<open>The request validation of the framework answers 422.\<close>

abbreviation unprocessable :: exn where
  "unprocessable \<equiv> Raise HTTPException (Http 422 [])"

definition page :: "'a list \<Rightarrow> nat \<Rightarrow> nat \<Rightarrow> 'a list \<times> nat" where
  "page items limit offset = (slice offset limit items, length items)"

definition limit_ok :: "int \<Rightarrow> int \<Rightarrow> bool" where
  "limit_ok limit offset = (1 \<le> limit \<and> limit \<le> 100 \<and> 0 \<le> offset)"

abbreviation opt_within :: "nat \<Rightarrow> string option \<Rightarrow> bool" where
  "opt_within n s \<equiv> (case s of None \<Rightarrow> True | Some t \<Rightarrow> py_len t \<le> n)"

abbreviation opt_in :: "string list \<Rightarrow> string option \<Rightarrow> bool" where
  "opt_in xs s \<equiv> (case s of None \<Rightarrow> True | Some t \<Rightarrow> t \<in> set xs)"

definition page_document :: "json list \<times> nat \<Rightarrow> int \<Rightarrow> int \<Rightarrow> (string \<times> json) list" where
  "page_document p limit offset =
     [(''items'', JList (fst p)), (''total'', JInt (int (snd p))), (''limit'', JInt limit), (''offset'', JInt offset)]"

definition health_route :: "hub \<Rightarrow> exn + json" where
  "health_route h = model_validate HealthResponse_model (JObj [(''packages'', JInt (int (package_count h)))])"

definition packages_route ::
    "(string \<Rightarrow> string) \<Rightarrow> (string \<Rightarrow> string \<Rightarrow> exn + bool) \<Rightarrow> hub \<Rightarrow> package_query \<Rightarrow> int \<Rightarrow> int \<Rightarrow> exn + json" where
  "packages_route casefold accepts h pq limit offset =
     rbind (ensure (py_len (pq_q pq) \<le> 200 \<and> opt_within 100 (pq_publisher pq)
         \<and> opt_in CLASSIFICATIONS (pq_classification pq) \<and> opt_in CHANNELS (pq_channel pq)
         \<and> opt_within 50 (pq_host pq) \<and> opt_within 50 (pq_sdk pq)
         \<and> pq_sort pq \<in> set [''relevance'', ''name'', ''id'', ''version''] \<and> limit_ok limit offset) unprocessable) (\<lambda>_.
     rbind (list_packages casefold accepts h pq) (\<lambda>found.
     model_validate PackagePage_model (JObj (page_document (page found (nat limit) (nat offset)) limit offset))))"

definition legacy_search ::
    "(string \<Rightarrow> string) \<Rightarrow> (string \<Rightarrow> string \<Rightarrow> exn + bool) \<Rightarrow> hub \<Rightarrow> string \<Rightarrow> int \<Rightarrow> int \<Rightarrow> exn + json" where
  "legacy_search casefold accepts h q limit offset =
     rbind (list_packages casefold accepts h (default_query\<lparr>pq_q := q\<rparr>)) (\<lambda>found.
     model_validate SearchResult_model
       (JObj (page_document (page found (nat limit) (nat offset)) limit offset @ [(''query'', JStr q)])))"

definition search_params_ok :: "string \<Rightarrow> int \<Rightarrow> int \<Rightarrow> bool" where
  "search_params_ok q limit offset = (1 \<le> py_len q \<and> py_len q \<le> 200 \<and> limit_ok limit offset)"

definition search_route ::
    "(string \<Rightarrow> string) \<Rightarrow> (string \<Rightarrow> string \<Rightarrow> exn + bool) \<Rightarrow> hub \<Rightarrow> string \<Rightarrow> int \<Rightarrow> int \<Rightarrow> exn + json" where
  "search_route casefold accepts h q limit offset =
     rbind (ensure (search_params_ok q limit offset) unprocessable) (\<lambda>_. legacy_search casefold accepts h q limit offset)"

definition package_route :: "(string \<Rightarrow> string option) \<Rightarrow> hub \<Rightarrow> string \<Rightarrow> exn + json" where
  "package_route http_url h module_id =
     rbind (hub_package http_url h module_id) (of_option (not_found ''Package not found''))"

definition versions_route :: "(string \<Rightarrow> string option) \<Rightarrow> hub \<Rightarrow> string \<Rightarrow> exn + json" where
  "versions_route http_url h module_id =
     rbind (hub_versions http_url h module_id) (\<lambda>r.
     rbind (of_option (not_found ''Package not found'') r) (\<lambda>vs. Inr (JList vs)))"

definition version_route :: "(string \<Rightarrow> string option) \<Rightarrow> hub \<Rightarrow> string \<Rightarrow> string \<Rightarrow> exn + json" where
  "version_route http_url h module_id version =
     rbind (hub_package http_url h module_id) (\<lambda>p.
     rbind (ensure (p \<noteq> None) (not_found ''Package not found'')) (\<lambda>_.
     rbind (hub_version http_url h module_id version) (of_option (not_found ''Version not found''))))"

definition publishers_route :: "hub \<Rightarrow> exn + json" where
  "publishers_route h = rbind (hub_publishers h) (\<lambda>ps. Inr (JList ps))"

definition publisher_route :: "hub \<Rightarrow> string \<Rightarrow> exn + json" where
  "publisher_route h publisher_id =
     rbind (hub_publisher h publisher_id) (of_option (not_found ''Publisher not found''))"

section \<open>The application\<close>

text \<open>The switches of \<open>create_app\<close>: an argument, or the environment variable.\<close>

definition env_flag :: "(string \<Rightarrow> string) \<Rightarrow> string option \<Rightarrow> string \<Rightarrow> bool option \<Rightarrow> exn + bool" where
  "env_flag lower env variable arg = (case arg of
       Some b \<Rightarrow> Inr b
     | None \<Rightarrow>
         let v = lower (case env of None \<Rightarrow> ''false'' | Some s \<Rightarrow> s) in
         rbind (ensure (v \<in> {''true'', ''false''}) (Raise ValueError (Msg (variable @ '' must be true or false'')))) (\<lambda>_.
         Inr (v = ''true'')))"

record app_config =
  v2_enabled :: bool
  v1_compat_enabled :: bool
  auth_enabled :: bool

definition create_app ::
    "(string \<Rightarrow> string) \<Rightarrow> (string \<Rightarrow> string option) \<Rightarrow> bool option \<Rightarrow> bool option \<Rightarrow> bool option \<Rightarrow> exn + app_config" where
  "create_app lower environ v2 v1 auth =
     rbind (env_flag lower (environ ''PACKAGES_REGISTRY_V2_API_ENABLED'') ''PACKAGES_REGISTRY_V2_API_ENABLED'' v2) (\<lambda>a.
     rbind (env_flag lower (environ ''PACKAGES_REGISTRY_V1_DB_COMPAT_ENABLED'') ''PACKAGES_REGISTRY_V1_DB_COMPAT_ENABLED'' v1) (\<lambda>b.
     rbind (env_flag lower (environ ''AUTH_ENABLED'') ''AUTH_ENABLED'' auth) (\<lambda>c.
     Inr \<lparr>v2_enabled = a, v1_compat_enabled = b, auth_enabled = c\<rparr>)))"

end
