(* ===== verification/Hub_Props.thy ===== *)
theory Hub_Props
  imports Release_Rows Hub Registry_Props
begin

text \<open>
  The package hub on a loaded registry (\<open>RegistryRepository\<close> of \<open>web/backend/app/repository.py\<close>): every
  module of the snapshot has what the projections read, so a listing cannot fail, and what a
  listing holds, in which order.
\<close>

section \<open>Modules of a loaded registry\<close>

text \<open>What the hub reads of a module, and of a release.\<close>

definition hub_release :: "json \<Rightarrow> bool" where
  "hub_release r \<longleftrightarrow> (\<exists>v c q h s ms. get_field r ''version'' = Some (JStr v) \<and> is_ok (release_key r)
     \<and> get_field r ''channel'' = Some (JStr c) \<and> c \<in> set CHANNELS \<and> get_field r ''requires'' = Some q
     \<and> get_field q ''host'' = Some (JStr h) \<and> get_field q ''sdk'' = Some (JStr s)
     \<and> get_field q ''modules'' = Some (JObj (json_strings ms))
     \<and> is_obj q \<and> set (dict_keys (obj_items q)) = {''host'', ''sdk'', ''modules''})"

definition hub_module :: "json \<Rightarrow> bool" where
  "hub_module m \<longleftrightarrow> (\<exists>n d p pi pn c vs. get_field m ''id'' = Some (JStr (mod_id m))
     \<and> get_field m ''name'' = Some (JStr n) \<and> get_field m ''description'' = map_option JStr d
     \<and> get_field m ''publisher'' = Some p \<and> is_obj p \<and> set (dict_keys (obj_items p)) = {''id'', ''name''}
     \<and> get_field p ''id'' = Some (JStr pi) \<and> get_field p ''name'' = Some (JStr pn)
     \<and> get_field m ''classification'' = Some (JStr c) \<and> c \<in> set CLASSIFICATIONS
     \<and> get_field m ''versions'' = Some (JList vs) \<and> vs \<noteq> [] \<and> (\<forall>r \<in> set vs. hub_release r))"

lemma hub_releaseI:
  assumes "release_wf mid cls r" and "json_wf r"
  shows "hub_release r"
proof -
  from assms(1) obtain v c q where r: "get_field r ''version'' = Some (JStr v)" "get_field r ''channel'' = Some (JStr c)"
      "c \<in> set CHANNELS" "get_field r ''requires'' = Some q" "validate_requires q mid = Inr ()"
    by (auto simp: release_wf_def)
  have "json_wf q" using assms(2) r(4) by (rule json_wf_field)
  with r(5) obtain h s ms where "get_field q ''host'' = Some (JStr h)" "get_field q ''sdk'' = Some (JStr s)"
      "get_field q ''modules'' = Some (JObj (json_strings ms))"
      "set (dict_keys (obj_items q)) = {''host'', ''sdk'', ''modules''}" "is_obj q"
    by (rule requires_reads_as)
  with r release_wf_key [OF assms(1)] show ?thesis unfolding hub_release_def by blast
qed

lemma validate_publisher_reads:
  assumes "validate_publisher p = Inr u"
  shows "\<exists>i n. get_field p ''id'' = Some (JStr i) \<and> get_field p ''name'' = Some (JStr n) \<and> is_obj p
    \<and> set (dict_keys (obj_items p)) = {''id'', ''name''}"
proof -
  from assms obtain i n where p: "is_obj p" "exact_keys p [''id'', ''name''] [''id'', ''name''] = Inr ()"
      "get_field p ''id'' = Some (JStr i)" "get_field p ''name'' = Some n" "nonempty_string n 120 = Inr ()"
    by (auto simp: validate_publisher_def)
  from p(2) have "set (dict_keys (obj_items p)) = {''id'', ''name''}" by (simp only: exact_keys_Inr) auto
  moreover obtain t where "n = JStr t" using nonempty_string_str [OF p(5)] by blast
  ultimately show ?thesis using p(1,3,4) by blast
qed

lemma hub_moduleI:
  assumes "validate_module sch m e = Inr u" and "json_wf m"
  shows "hub_module m"
proof -
  from assms(1) obtain mid cls p s vs n l where m: "get_field m ''id'' = Some (JStr mid)"
      "get_field m ''publisher'' = Some p" "validate_publisher p = Inr ()"
      "get_field m ''name'' = Some (JStr n)"
      "get_field m ''classification'' = Some (JStr cls)" "cls \<in> set CLASSIFICATIONS"
      "get_field m ''versions'' = Some (JList vs)" "vs \<noteq> []" "validate_versions vs mid cls [] = Inr ()"
    by (rule validate_module_fields)
  have "optional_string m ''description'' 1000 = Inr ()" using assms(1) unfolding validate_module_def rbind_Inr_iff by (elim exE conjE) simp
  then obtain d where d: "get_field m ''description'' = map_option JStr d" using optional_string_Inr by blast
  have "json_wf (JList vs)" using assms(2) m(7) by (rule json_wf_field)
  then have "\<forall>r \<in> set vs. hub_release r"
    using validate_versions_wf [OF m(9)] hub_releaseI by auto
  moreover have "mod_id m = mid" using m(1) by (rule mod_id_eq)
  moreover obtain i pn where "get_field p ''id'' = Some (JStr i)" "get_field p ''name'' = Some (JStr pn)" "is_obj p"
      "set (dict_keys (obj_items p)) = {''id'', ''name''}"
    using validate_publisher_reads [OF m(3)] by blast
  ultimately show ?thesis unfolding hub_module_def
    using m(1,2,4-8) d by (intro exI [of _ n] exI [of _ d] exI [of _ p] exI [of _ i] exI [of _ pn] exI [of _ cls] exI [of _ vs] conjI) simp_all
qed

lemma hub_init_modules:
  assumes "hub_init sch tree = Inr h"
  shows "load_registry sch tree = Inr (hub_modules h)" and "\<forall>m \<in> set (hub_modules h). hub_module m"
    and "\<And>i. dict_get (hub_by_id h) i = find_module (hub_modules h) i"
proof -
  from assms obtain ps where l: "load_registry sch tree = Inr (hub_modules h)"
      and ps: "rmap (\<lambda>m. rbind (str_item m ''id'') (\<lambda>i. Inr (i, m))) (hub_modules h) = Inr ps" "hub_by_id h = dict_of ps"
    by (auto simp: hub_init_def)
  show "load_registry sch tree = Inr (hub_modules h)" by (rule l)
  note ok = load_registry_ok [OF l]
  show hm: "\<forall>m \<in> set (hub_modules h). hub_module m" using ok(1) hub_moduleI by blast
  have "get_field m ''id'' = Some (JStr (mod_id m))" if "m \<in> set (hub_modules h)" for m
    using hm that by (auto simp: hub_module_def)
  then have "map (\<lambda>m. get_field m ''id'') (hub_modules h) = map (Some \<circ> JStr) (map mod_id (hub_modules h))" by simp
  then have "distinct (map (\<lambda>m. get_field m ''id'') (hub_modules h))"
    using ok(3) by (simp add: distinct_map inj_on_def)
  then show "dict_get (hub_by_id h) i = find_module (hub_modules h) i" for i
    using dict_of_keyed [OF ps(1)] ps(2) by (simp add: find_module_def)
qed

section \<open>Sorting by a key that may fail\<close>

lemma sorted_by_reverse_ok:
  assumes "\<And>x. x \<in> set xs \<Longrightarrow> is_ok (f x)"
  shows "sorted_by_reverse f xs = Inr (py_sorted_reverse (\<lambda>x. projr (f x)) xs)"
proof -
  have "rmap (\<lambda>x. rbind (f x) (\<lambda>k. Inr (k, x))) xs = Inr (map (\<lambda>x. (projr (f x), x)) xs)"
    using assms by (intro rmap_ok) (auto simp: is_ok_projr)
  then show ?thesis
    by (simp add: sorted_by_reverse_def py_sorted_reverse_def flip: rev_map) (simp add: rev_map sort_key_map_snd)
qed

section \<open>The parts of a listing never fail\<close>

lemma model_validate_keys:
  assumes "set (dict_keys d) \<subseteq> set (map fst fs)"
    and "rmap (\<lambda>(name, default, check). rbind (case dict_get d name of Some x \<Rightarrow> check x
          | None \<Rightarrow> of_option validation_error default) (\<lambda>y. Inr (name, y))) fs = Inr d'"
  shows "model_validate fs (JObj d) = Inr (JObj d')"
  using assms by (auto simp: model_validate_def list_all_iff)

lemma as_dict_strings: "as_dict any_key as_str (JObj (json_strings ms)) = Inr (JObj (json_strings ms))"
proof -
  have "rmap (\<lambda>(k, x). rbind (as_str x) (\<lambda>y. Inr (k, y))) (json_strings ms) = Inr (map id (json_strings ms))"
    by (rule rmap_ok) (auto simp: json_strings_def)
  then show ?thesis by (simp add: as_dict_def)
qed

definition requires_doc :: "string \<Rightarrow> string \<Rightarrow> (string \<times> string) list \<Rightarrow> json" where
  "requires_doc h s ms = JObj [(''host'', JStr h), (''sdk'', JStr s), (''modules'', JObj (json_strings ms))]"

lemma compatibility_ok:
  assumes "is_obj q" and "set (dict_keys (obj_items q)) = {''host'', ''sdk'', ''modules''}"
    and "get_field q ''host'' = Some (JStr h)" and "get_field q ''sdk'' = Some (JStr s)"
    and "get_field q ''modules'' = Some (JObj (json_strings ms))"
  shows "model_validate Compatibility_model q = Inr (requires_doc h s ms)"
proof -
  from assms(1) obtain d where "q = JObj d" by (cases q) auto
  with assms have assms: "set (dict_keys d) = {''host'', ''sdk'', ''modules''}" "dict_get d ''host'' = Some (JStr h)"
    "dict_get d ''sdk'' = Some (JStr s)" "dict_get d ''modules'' = Some (JObj (json_strings ms))" by simp_all
  show ?thesis unfolding requires_doc_def
  proof (simp only: \<open>q = JObj d\<close>, rule model_validate_keys)
    show "set (dict_keys d) \<subseteq> set (map fst Compatibility_model)" using assms(1) by (simp add: Compatibility_model_def)
  qed (use assms(2-) in \<open>simp add: Compatibility_model_def as_dict_strings\<close>)
qed

lemma compatibility_idem: "model_validate Compatibility_model (requires_doc h s ms) = Inr (requires_doc h s ms)"
  by (rule compatibility_ok) (simp_all add: requires_doc_def)

lemma publisher_ok:
  assumes "is_obj p" and "set (dict_keys (obj_items p)) = {''id'', ''name''}"
    and "get_field p ''id'' = Some (JStr i)" and "get_field p ''name'' = Some (JStr n)"
  shows "model_validate Publisher_model p = Inr (JObj [(''id'', JStr i), (''name'', JStr n)])"
proof -
  from assms(1) obtain d where "p = JObj d" by (cases p) auto
  with assms have assms: "set (dict_keys d) = {''id'', ''name''}" "dict_get d ''id'' = Some (JStr i)"
    "dict_get d ''name'' = Some (JStr n)" by simp_all
  show ?thesis
  proof (simp only: \<open>p = JObj d\<close>, rule model_validate_keys)
    show "set (dict_keys d) \<subseteq> set (map fst Publisher_model)" using assms(1) by (simp add: Publisher_model_def)
  qed (use assms(2-) in \<open>simp add: Publisher_model_def\<close>)
qed

section \<open>Summaries\<close>

text \<open>The newest release of a module by SemVer precedence.\<close>

definition newest_release :: "json \<Rightarrow> json \<Rightarrow> bool" where
  "newest_release m r \<longleftrightarrow> (\<exists>vs. get_field m ''versions'' = Some (JList vs) \<and> r \<in> set vs
     \<and> (\<forall>r' \<in> set vs. projr (release_key r') \<le> projr (release_key r)))"

text \<open>\<open>s\<close> is the summary of module \<open>m\<close>.\<close>

definition summarises :: "json \<Rightarrow> json \<Rightarrow> bool" where
  "summarises m s \<longleftrightarrow> get_field s ''id'' = get_field m ''id'' \<and> get_field s ''name'' = get_field m ''name''
     \<and> get_field s ''classification'' = get_field m ''classification''
     \<and> (\<exists>r. newest_release m r \<and> get_field s ''latest_version'' = get_field r ''version''
          \<and> get_field s ''latest_channel'' = get_field r ''channel'')
     \<and> (\<exists>vs cs. get_field m ''versions'' = Some (JList vs) \<and> get_field s ''channels'' = Some (JList (map JStr cs))
          \<and> sorted cs \<and> distinct cs \<and> (\<forall>c. c \<in> set cs \<longleftrightarrow> (\<exists>r \<in> set vs. get_field r ''channel'' = Some (JStr c))))"

lemma latest_release_ok:
  assumes "hub_module m"
  obtains r where "latest_release m = Inr r" "newest_release m r" "hub_release r"
proof -
  from assms obtain vs where vs: "get_field m ''versions'' = Some (JList vs)" "vs \<noteq> []" "\<forall>r \<in> set vs. hub_release r"
    by (auto simp: hub_module_def)
  define rs where "rs = py_sorted_reverse (\<lambda>r. projr (release_key r)) vs"
  have "sorted_by_reverse release_key vs = Inr rs"
    unfolding rs_def using vs(3) by (intro sorted_by_reverse_ok) (auto simp: hub_release_def)
  with vs(1) have s: "sorted_releases m = Inr rs" by (simp add: sorted_releases_def)
  have ne: "rs \<noteq> []" using vs(2) by (simp add: rs_def)
  then have "latest_release m = Inr (hd rs)" using s by (cases rs) (simp_all add: latest_release_def)
  moreover have h: "hd rs \<in> set vs" using hd_in_set [OF ne] by (simp add: rs_def)
  then have "newest_release m (hd rs)"
    unfolding newest_release_def rs_def using vs(1,2) by (auto intro!: py_sorted_reverse_hd_max)
  ultimately show thesis using vs(3) h by (intro that) auto
qed

lemma channels_ok:
  assumes "\<forall>r \<in> set vs. hub_release r"
  obtains cs where "rmap (\<lambda>r. str_item r ''channel'') vs = Inr cs" "set cs \<subseteq> set CHANNELS"
    "\<And>c. c \<in> set cs \<longleftrightarrow> (\<exists>r \<in> set vs. get_field r ''channel'' = Some (JStr c))"
proof -
  from assms have "\<forall>r \<in> set vs. \<exists>c. get_field r ''channel'' = Some (JStr c) \<and> c \<in> set CHANNELS"
    unfolding hub_release_def by blast
  then obtain f where f: "\<forall>r \<in> set vs. get_field r ''channel'' = Some (JStr (f r)) \<and> f r \<in> set CHANNELS" by metis
  show thesis
  proof (rule that)
    show "rmap (\<lambda>r. str_item r ''channel'') vs = Inr (map f vs)" using f by (intro rmap_ok) simp
    show "set (map f vs) \<subseteq> set CHANNELS" using f by auto
    show "c \<in> set (map f vs) \<longleftrightarrow> (\<exists>r \<in> set vs. get_field r ''channel'' = Some (JStr c))" for c using f by auto
  qed
qed

lemma literals_ok: "set cs \<subseteq> set xs \<Longrightarrow> as_list (as_literal xs) (JList (map JStr cs)) = Inr (JList (map JStr cs))"
proof -
  assume "set cs \<subseteq> set xs"
  then have "rmap (as_literal xs) (map JStr cs) = Inr (map id (map JStr cs))"
    by (intro rmap_ok) (auto simp: as_literal_def)
  then show ?thesis by (simp add: as_list_def)
qed

lemma set_sorted_set [simp]: "set (sorted_set xs) = set xs" "sorted (sorted_set xs)" "distinct (sorted_set xs)"
  by (simp_all add: sorted_set_def)

lemma get_or_option: "get_field m k = map_option JStr d \<Longrightarrow> get_or m k JNull = json_opt JStr d"
  by (cases d) (simp_all add: get_or_def)

lemma optional_str_ok: "as_opt as_str (json_opt JStr d) = Inr (json_opt JStr d)"
  by (cases d) (simp_all add: as_opt_def)

lemma package_summary_ok:
  assumes "hub_module m"
  shows "\<exists>s. package_summary m = Inr s \<and> summarises m s"
proof -
  from assms obtain n d p i pn c vs where m: "get_field m ''id'' = Some (JStr (mod_id m))"
      "get_field m ''name'' = Some (JStr n)" "get_field m ''description'' = map_option JStr d"
      "get_field m ''publisher'' = Some p" "is_obj p" "set (dict_keys (obj_items p)) = {''id'', ''name''}"
      "get_field p ''id'' = Some (JStr i)" "get_field p ''name'' = Some (JStr pn)"
      "get_field m ''classification'' = Some (JStr c)" "c \<in> set CLASSIFICATIONS"
      "get_field m ''versions'' = Some (JList vs)" "\<forall>r \<in> set vs. hub_release r"
    by (auto simp: hub_module_def)
  from assms obtain r where r: "latest_release m = Inr r" "newest_release m r" "hub_release r" by (rule latest_release_ok)
  from r(3) obtain v ch q h s ms where f: "get_field r ''version'' = Some (JStr v)" "get_field r ''channel'' = Some (JStr ch)"
      "ch \<in> set CHANNELS" "get_field r ''requires'' = Some q" "is_obj q"
      "set (dict_keys (obj_items q)) = {''host'', ''sdk'', ''modules''}" "get_field q ''host'' = Some (JStr h)"
      "get_field q ''sdk'' = Some (JStr s)" "get_field q ''modules'' = Some (JObj (json_strings ms))"
    by (auto simp: hub_release_def)
  from m(12) obtain cs where cs: "rmap (\<lambda>r. str_item r ''channel'') vs = Inr cs" "set cs \<subseteq> set CHANNELS"
      "\<And>c. c \<in> set cs \<longleftrightarrow> (\<exists>r \<in> set vs. get_field r ''channel'' = Some (JStr c))"
    by (rule channels_ok) blast
  let ?pub = "JObj [(''id'', JStr i), (''name'', JStr pn)]"
  let ?s = "JObj [(''id'', JStr (mod_id m)), (''name'', JStr n), (''description'', json_opt JStr d), (''publisher'', ?pub),
     (''classification'', JStr c), (''latest_version'', JStr v), (''latest_channel'', JStr ch),
     (''compatibility'', requires_doc h s ms), (''channels'', JList (map JStr (sorted_set cs)))]"
  note p = publisher_ok [OF m(5-8)]
  have p': "model_validate Publisher_model ?pub = Inr ?pub" by (rule publisher_ok) simp_all
  have l: "as_list (as_literal CHANNELS) (JList (map JStr (sorted_set cs))) = Inr (JList (map JStr (sorted_set cs)))"
    using cs(2) by (intro literals_ok) simp
  have "model_validate PackageSummary_model ?s = Inr ?s"
    using m(10) f(3)
    by (intro model_validate_keys) (simp_all add: PackageSummary_model_def p' l compatibility_idem optional_str_ok as_literal_def)
  then have "package_summary m = Inr ?s"
    using m r(1) f cs(1) p compatibility_ok [OF f(5-9)] by (simp add: package_summary_def get_or_option)
  moreover have "summarises m ?s"
    unfolding summarises_def using m(1,2,9,11) r(2) f(1,2) cs(3)
    by (auto intro!: exI [of _ r] exI [of _ "sorted_set cs"])
  ultimately show ?thesis by blast
qed

section \<open>Filters and ranks\<close>

text \<open>The documented errors of \<open>Version\<close> and \<open>SpecifierSet\<close>.\<close>

definition documented_errors :: "(string \<Rightarrow> string \<Rightarrow> exn + bool) \<Rightarrow> bool" where
  "documented_errors accepts \<longleftrightarrow> (\<forall>v q e. accepts v q = Inl e \<longrightarrow> exn_class e \<in> {InvalidSpecifier, InvalidVersion})"

lemma compatible_ok: "documented_errors accepts \<Longrightarrow> is_ok (compatible accepts q v)"
  by (cases v; cases "accepts (the v) q") (auto simp: compatible_def documented_errors_def)

lemma and_then_ok: "is_ok p \<Longrightarrow> is_ok q \<Longrightarrow> is_ok (and_then p q)"
  by (auto simp: is_ok_iff and_then_def split: if_splits)

lemma first_true_ok: "(\<And>x. x \<in> set xs \<Longrightarrow> is_ok (f x)) \<Longrightarrow> is_ok (first_true f xs)"
proof (induction xs)
  case (Cons x xs)
  then have "is_ok (f x)" "is_ok (first_true f xs)" by simp_all
  then show ?case by (cases "f x"; cases "first_true f xs") (simp_all add: or_else_def)
qed simp

lemma is_ok_rbind: "is_ok m \<Longrightarrow> (\<And>x. m = Inr x \<Longrightarrow> is_ok (f x)) \<Longrightarrow> is_ok (rbind m f)"
  by (cases m) simp_all

lemma item_eq_ok: "is_ok m \<Longrightarrow> is_ok (item_eq m v)"
  by (auto simp: item_eq_def is_ok_iff)

lemma getitem_ok: "get_field m k = Some v \<Longrightarrow> is_ok (getitem m k)"
  by (auto simp: is_ok_iff)

lemma matches_filters_ok:
  assumes "hub_module m" and "documented_errors accepts"
  shows "is_ok (matches_filters accepts m pq)"
proof -
  from assms(1) obtain p i c vs where m: "get_field m ''publisher'' = Some p" "get_field p ''id'' = Some (JStr i)"
      "get_field m ''classification'' = Some (JStr c)" "get_field m ''versions'' = Some (JList vs)"
      and rs: "\<forall>r \<in> set vs. hub_release r"
    by (auto simp: hub_module_def)
  have p: "is_ok (getitem2 m ''publisher'' ''id'')" using m(1,2) by (auto simp: getitem2_def is_ok_iff)
  have ch: "is_ok (first_true (\<lambda>r. item_eq (getitem r ''channel'') j) vs)" for j
    using rs by (intro first_true_ok item_eq_ok) (auto simp: hub_release_def is_ok_iff)
  have co: "is_ok (first_true (\<lambda>r.
         and_then (rbind (rbind (getitem r ''requires'') (\<lambda>q. str_item q ''host'')) (\<lambda>s. compatible accepts s (pq_host pq)))
           (rbind (rbind (getitem r ''requires'') (\<lambda>q. str_item q ''sdk'')) (\<lambda>s. compatible accepts s (pq_sdk pq)))) vs)"
    using rs assms(2)
    by (intro first_true_ok and_then_ok is_ok_rbind compatible_ok) (auto simp: hub_release_def is_ok_iff)
  have lv: "list_item m ''versions'' = Inr vs" using m(4) by simp
  show ?thesis unfolding matches_filters_def
    by (intro is_ok_rbind item_eq_ok if_split [where P = is_ok, THEN iffD2] conjI impI)
      (use p ch co lv m(3) in \<open>auto simp: is_ok_iff intro: item_eq_ok\<close>)
qed

lemma search_rank_ok:
  assumes "hub_module m"
  shows "is_ok (search_rank casefold m q)"
proof -
  from assms obtain n d p i pn c vs where m: "get_field m ''id'' = Some (JStr (mod_id m))"
      "get_field m ''name'' = Some (JStr n)" "get_field m ''description'' = map_option JStr d"
      "get_field m ''publisher'' = Some p" "get_field p ''id'' = Some (JStr i)" "get_field p ''name'' = Some (JStr pn)"
      "get_field m ''classification'' = Some (JStr c)" "get_field m ''versions'' = Some (JList vs)"
      and rs: "\<forall>r \<in> set vs. hub_release r"
    by (auto simp: hub_module_def)
  have f: "getitem r ''channel'' = Inr (the (get_field r ''channel''))"
      "getitem r ''version'' = Inr (the (get_field r ''version''))" if "r \<in> set vs" for r
    using rs [rule_format, OF that] unfolding hub_release_def by (metis getitem_Inr_iff option.sel)+
  have "\<exists>cs ws. rmap (\<lambda>r. getitem r ''channel'') vs = Inr cs \<and> rmap (\<lambda>r. getitem r ''version'') vs = Inr ws"
    by (intro exI conjI; rule rmap_ok; rule f; assumption)
  then obtain cs ws where "rmap (\<lambda>r. getitem r ''channel'') vs = Inr cs" "rmap (\<lambda>r. getitem r ''version'') vs = Inr ws"
    by blast
  moreover have "str_item m ''id'' = Inr (mod_id m)" "str_item m ''name'' = Inr n" "getitem m ''publisher'' = Inr p"
      "str_item p ''id'' = Inr i" "str_item p ''name'' = Inr pn" "getitem m ''classification'' = Inr (JStr c)"
      "list_item m ''versions'' = Inr vs"
    using m by simp_all
  moreover have "(let d = get_or m ''description'' JNull in
      if json_truthy d then (case d of JStr s \<Rightarrow> Inr s | _ \<Rightarrow> Inl (Raise AttributeError (Msg ''casefold''))) else Inr [])
      = Inr (case d of None \<Rightarrow> [] | Some t \<Rightarrow> t)"
    using m(3) by (cases d) (simp_all add: get_or_def Let_def)
  ultimately show ?thesis unfolding search_rank_def
    by (simp add: Let_def del: str_item_Inr_iff list_item_Inr_iff getitem_Inr_iff)
qed

section \<open>Listings\<close>

definition listed :: "(string \<Rightarrow> string) \<Rightarrow> (string \<Rightarrow> string \<Rightarrow> exn + bool) \<Rightarrow> package_query \<Rightarrow> json \<Rightarrow> bool" where
  "listed casefold accepts pq m \<longleftrightarrow> matches_filters accepts m pq = Inr True \<and> search_rank casefold m (pq_q pq) \<noteq> Inr None"

definition listing_rank :: "(string \<Rightarrow> string) \<Rightarrow> package_query \<Rightarrow> json \<Rightarrow> nat \<times> string" where
  "listing_rank casefold pq m = the (projr (search_rank casefold m (pq_q pq)))"

lemma ranked_modules_ok:
  assumes "\<forall>m \<in> set ms. hub_module m" and "documented_errors accepts"
  shows "ranked_modules casefold accepts ms pq =
    Inr (map (\<lambda>m. (listing_rank casefold pq m, m)) (filter (listed casefold accepts pq) ms))"
proof -
  let ?f = "\<lambda>m. if listed casefold accepts pq m then Some (listing_rank casefold pq m, m) else None"
  have "rmap (\<lambda>md. rbind (matches_filters accepts md pq) (\<lambda>ok.
         if ok then rbind (search_rank casefold md (pq_q pq)) (\<lambda>rank. Inr (map_option (\<lambda>r. (r, md)) rank))
         else Inr None)) ms = Inr (map ?f ms)"
  proof (rule rmap_ok)
    fix m assume "m \<in> set ms"
    with assms have "hub_module m" by blast
    then obtain b rank where "matches_filters accepts m pq = Inr b" "search_rank casefold m (pq_q pq) = Inr rank"
      using matches_filters_ok assms(2) search_rank_ok by (meson is_ok_iff)
    then show "rbind (matches_filters accepts m pq) (\<lambda>ok.
         if ok then rbind (search_rank casefold m (pq_q pq)) (\<lambda>rank. Inr (map_option (\<lambda>r. (r, m)) rank))
         else Inr None) = Inr (?f m)"
      by (cases b; cases rank) (simp_all add: listed_def listing_rank_def)
  qed
  moreover have "List.map_filter id (map ?f ms) = map (\<lambda>m. (listing_rank casefold pq m, m)) (filter (listed casefold accepts pq) ms)"
    by (induction ms) (simp_all add: map_filter_def)
  ultimately show ?thesis by (simp add: ranked_modules_def)
qed

text \<open>The key by which a listing is ordered.\<close>

definition mod_name :: "json \<Rightarrow> string" where
  "mod_name m = (case get_field m ''name'' of Some (JStr n) \<Rightarrow> n | _ \<Rightarrow> [])"

definition latest_key :: "json \<Rightarrow> version_key" where
  "latest_key m = projr (rbind (latest_release m) release_key)"

definition listing_order :: "(string \<Rightarrow> string) \<Rightarrow> package_query \<Rightarrow> json list \<Rightarrow> bool" where
  "listing_order casefold pq ms \<longleftrightarrow>
     (if pq_sort pq = ''name'' then sorted (map (\<lambda>m. (casefold (mod_name m), mod_id m)) ms)
      else if pq_sort pq = ''id'' then sorted (map mod_id ms)
      else if pq_sort pq = ''version'' then sorted (rev (map latest_key ms))
      else sorted (map (\<lambda>m. (listing_rank casefold pq m, mod_id m)) ms))"

lemma hub_module_keys:
  assumes "hub_module m"
  shows "str_item m ''id'' = Inr (mod_id m)" and "str_item m ''name'' = Inr (mod_name m)"
    and "rbind (latest_release m) release_key = Inr (latest_key m)"
proof -
  from assms obtain n where "get_field m ''id'' = Some (JStr (mod_id m))" "get_field m ''name'' = Some (JStr n)"
    unfolding hub_module_def by blast
  then show "str_item m ''id'' = Inr (mod_id m)" and "str_item m ''name'' = Inr (mod_name m)"
    by (simp_all add: mod_name_def)
  obtain r where "latest_release m = Inr r" "hub_release r" using assms by (rule latest_release_ok)
  then show "rbind (latest_release m) release_key = Inr (latest_key m)"
    by (cases "release_key r") (simp_all add: hub_release_def latest_key_def)
qed

lemma sorted_by_keys:
  assumes "\<And>x. x \<in> set xs \<Longrightarrow> f x = Inr (g x)"
  obtains ys where "sorted_by f xs = Inr ys" "mset ys = mset xs" "sorted (map g ys)"
proof -
  have "rmap (\<lambda>x. rbind (f x) (\<lambda>k. Inr (k, x))) xs = Inr (map (\<lambda>x. (g x, x)) xs)"
    using assms by (intro rmap_ok) simp
  then have "sorted_by f xs = Inr (py_sorted g xs)" by (simp add: sorted_by_def sort_key_map_snd)
  then show thesis by (rule that) simp_all
qed

lemma sorted_by_reverse_keys:
  assumes "\<And>x. x \<in> set xs \<Longrightarrow> f x = Inr (g x)"
  obtains ys where "sorted_by_reverse f xs = Inr ys" "mset ys = mset xs" "sorted (rev (map g ys))"
proof -
  have "rmap (\<lambda>x. rbind (f x) (\<lambda>k. Inr (k, x))) xs = Inr (map (\<lambda>x. (g x, x)) xs)"
    using assms by (intro rmap_ok) simp
  then have "sorted_by_reverse f xs = Inr (py_sorted_reverse g xs)"
    by (simp add: sorted_by_reverse_def py_sorted_reverse_def flip: rev_map) (simp add: rev_map sort_key_map_snd)
  then show thesis by (rule that) (simp_all add: sorted_py_sorted_reverse)
qed

lemma sort_ranked_ok:
  assumes "\<forall>m \<in> set ms. hub_module m"
  shows "\<exists>rs. sort_ranked casefold (pq_sort pq) (map (\<lambda>m. (listing_rank casefold pq m, m)) ms) = Inr rs
    \<and> mset (map snd rs) = mset ms \<and> listing_order casefold pq (map snd rs)"
proof -
  let ?rs = "map (\<lambda>m. (listing_rank casefold pq m, m)) ms"
  have h: "hub_module (snd p)" and l: "fst p = listing_rank casefold pq (snd p)" if "p \<in> set ?rs" for p
    using that assms by auto
  have m: "mset (map snd rs) = mset ms" if "mset rs = mset ?rs" for rs
    using that by (simp add: mset_map flip: image_mset.compositionality)
       (simp add: image_mset.compositionality comp_def)
  show ?thesis
  proof (cases "pq_sort pq = ''name''")
    case True
    have "(\<lambda>(_, md). rbind (str_item md ''name'') (\<lambda>n. rbind (str_item md ''id'') (\<lambda>i. Inr (casefold n, i)))) p
        = Inr (casefold (mod_name (snd p)), mod_id (snd p))" if "p \<in> set ?rs" for p
      using hub_module_keys [OF h [OF that]] by (cases p) simp
    then obtain rs where "sorted_by (\<lambda>(_, md). rbind (str_item md ''name'') (\<lambda>n. rbind (str_item md ''id'') (\<lambda>i. Inr (casefold n, i)))) ?rs
        = Inr rs" "mset rs = mset ?rs" "sorted (map (\<lambda>p. (casefold (mod_name (snd p)), mod_id (snd p))) rs)"
      by (rule sorted_by_keys)
    with True m show ?thesis by (simp add: sort_ranked_def listing_order_def comp_def)
  next
    case name: False
    show ?thesis
    proof (cases "pq_sort pq = ''id''")
      case True
      have "(\<lambda>(_, md). str_item md ''id'') p = Inr (mod_id (snd p))" if "p \<in> set ?rs" for p
        using hub_module_keys [OF h [OF that]] by (cases p) simp
      then obtain rs where "sorted_by (\<lambda>(_, md). str_item md ''id'') ?rs = Inr rs" "mset rs = mset ?rs"
          "sorted (map (\<lambda>p. mod_id (snd p)) rs)"
        by (rule sorted_by_keys)
      with True m show ?thesis by (simp add: sort_ranked_def listing_order_def comp_def)
    next
      case id: False
      show ?thesis
      proof (cases "pq_sort pq = ''version''")
        case True
        have "(\<lambda>(_, md). rbind (latest_release md) release_key) p = Inr (latest_key (snd p))" if "p \<in> set ?rs" for p
          using hub_module_keys [OF h [OF that]] by (cases p) simp
        then obtain rs where "sorted_by_reverse (\<lambda>(_, md). rbind (latest_release md) release_key) ?rs = Inr rs"
            "mset rs = mset ?rs" "sorted (rev (map (\<lambda>p. latest_key (snd p)) rs))"
          by (rule sorted_by_reverse_keys)
        with True m show ?thesis by (simp add: sort_ranked_def listing_order_def comp_def)
      next
        case False
        have "(\<lambda>(rank, md). rbind (str_item md ''id'') (\<lambda>i. Inr (rank, i))) p
            = Inr (listing_rank casefold pq (snd p), mod_id (snd p))" if "p \<in> set ?rs" for p
          using hub_module_keys [OF h [OF that]] l [OF that] by (cases p) simp
        then obtain rs where "sorted_by (\<lambda>(rank, md). rbind (str_item md ''id'') (\<lambda>i. Inr (rank, i))) ?rs = Inr rs"
            "mset rs = mset ?rs" "sorted (map (\<lambda>p. (listing_rank casefold pq (snd p), mod_id (snd p))) rs)"
          by (rule sorted_by_keys)
        with name id False m show ?thesis by (simp add: sort_ranked_def listing_order_def comp_def)
      qed
    qed
  qed
qed

lemma list_packages_ok:
  assumes "\<forall>m \<in> set (hub_modules h). hub_module m" and "documented_errors accepts"
  obtains ms found where "list_packages casefold accepts h pq = Inr found" "list_all2 summarises ms found"
    "mset ms = mset (filter (listed casefold accepts pq) (hub_modules h))" "listing_order casefold pq ms"
proof -
  let ?ms = "filter (listed casefold accepts pq) (hub_modules h)"
  have hm: "\<forall>m \<in> set ?ms. hub_module m" using assms(1) by simp
  then obtain rs where rs: "sort_ranked casefold (pq_sort pq) (map (\<lambda>m. (listing_rank casefold pq m, m)) ?ms) = Inr rs"
      "mset (map snd rs) = mset ?ms" "listing_order casefold pq (map snd rs)"
    using sort_ranked_ok by blast
  let ?s = "\<lambda>m. projr (package_summary m)"
  have s: "package_summary m = Inr (?s m) \<and> summarises m (?s m)" if "m \<in> set (map snd rs)" for m
  proof -
    have "hub_module m" using that hm rs(2) by (metis set_mset_mset)
    then show ?thesis using package_summary_ok by force
  qed
  have "rmap (\<lambda>(_, md). package_summary md) rs = Inr (map (\<lambda>p. ?s (snd p)) rs)"
    using s by (intro rmap_ok) (auto simp: case_prod_beta)
  then have "list_packages casefold accepts h pq = Inr (map (\<lambda>p. ?s (snd p)) rs)"
    using rs(1) by (simp add: list_packages_def ranked_modules_ok [OF assms])
  moreover have "list_all2 summarises (map snd rs) (map (\<lambda>p. ?s (snd p)) rs)"
    using s by (simp add: list_all2_conv_all_nth)
  ultimately show thesis using rs(2,3) by (intro that)
qed

section \<open>Properties\<close>


lemma sample_hub: "hub_init (\<lambda>_ _. True) (sample_tree sample_v2) = Inr \<lparr>hub_modules = [sample_v2], hub_by_id = [(''maps'', sample_v2)]\<rparr>"
proof -
  have "get_field sample_v2 ''id'' = Some (JStr ''maps'')" by code_simp
  then have "str_item sample_v2 ''id'' = Inr ''maps''" by simp
  then show ?thesis by (simp add: hub_init_def sample_load dict_of_def del: str_item_Inr_iff)
qed


end
