(* ===== verification/Registry_Api.thy ===== *)
theory Registry_Api
  imports Registry_Compat Hub
begin

text \<open>
  The read API over the registry database: \<open>RegistryReadService\<close> (\<open>web/backend/app/api/registry_queries.py\<close>),
  the routes of \<open>registry_v2.py\<close> and \<open>registry_v1.py\<close> with their conditional responses, and the choice of a
  representation (\<open>representations.py\<close>). A request runs on one read-only snapshot, the argument \<open>db\<close>.
  \<open>version_of\<close> is \<open>Version(text)\<close> and \<open>admits v spec\<close> is \<open>v in SpecifierSet(spec)\<close> of the packaging
  library, \<open>lower\<close> is \<open>str.lower\<close>, \<open>isoformat\<close> the text of a timestamp, \<open>H\<close> SHA-256.
\<close>

section \<open>The choice of a representation\<close>

definition MEDIA_TYPE :: string where
  "MEDIA_TYPE = ''application/vnd.ocp.registry.v2+json''"

text \<open>
  \<open>float(text)\<close> of a quality: \<open>None\<close> when it raises \<open>ValueError\<close>, \<open>Some None\<close> for an infinity or NaN.
  \<open>round_double\<close> rounds a number in \<open>[0, 2)\<close> to the nearest double, ties to even; a larger one stays above 1.
\<close>

definition digit_part :: regex where
  "digit_part = RSeq (RClass [(CHR ''0'', CHR ''9'')]) (RStar (RSeq (RAlt REps (rchar CHR ''_'')) (RClass [(CHR ''0'', CHR ''9'')])))"

definition FLOAT_RE :: regex where
  "FLOAT_RE = rseqs [ropt (RClass [(CHR ''+'', CHR ''+''), (CHR ''-'', CHR ''-'')]),
     RAlt (RSeq digit_part (ropt (RSeq (rchar CHR ''.'') (ropt digit_part)))) (RSeq (rchar CHR ''.'') digit_part),
     ropt (rseqs [rchar CHR ''e'', ropt (RClass [(CHR ''+'', CHR ''+''), (CHR ''-'', CHR ''-'')]), digit_part])]"

definition drop_sign :: "string \<Rightarrow> string" where
  "drop_sign s = (case s of c # cs \<Rightarrow> if c = CHR ''+'' \<or> c = CHR ''-'' then cs else s | [] \<Rightarrow> [])"

definition half_even :: "rat \<Rightarrow> int" where
  "half_even x = (let f = \<lfloor>x\<rfloor>; d = x - of_int f in
     if d < 1 / 2 then f else if 1 / 2 < d then f + 1 else if even f then f else f + 1)"

primrec scale_bits :: "nat \<Rightarrow> rat \<Rightarrow> nat" where
  "scale_bits 0 x = 0"
| "scale_bits (Suc n) x = (if 2 ^ 52 \<le> x then 0 else Suc (scale_bits n (2 * x)))"

definition round_double :: "rat \<Rightarrow> rat" where
  "round_double x = (let k = scale_bits 1074 x in of_int (half_even (x * 2 ^ k)) / 2 ^ k)"

definition quality_value :: "string \<Rightarrow> rat option option" where
  "quality_value s =
     (let t = py_strip s in
      if drop_sign t \<in> {''inf'', ''infinity'', ''nan''} then Some None
      else if fullmatch FLOAT_RE t then
        let x = float_val (filter (\<lambda>c. c \<noteq> CHR ''_'') (drop_sign t)) in
        Some (Some (if py_startswith t ''-'' then - round_double x else round_double x))
      else None)"

text \<open>The parameters of one entry of the header; the last \<open>q=\<close> decides.\<close>

definition entry_quality :: "string list \<Rightarrow> rat" where
  "entry_quality parameters =
     foldl (\<lambda>q p. let p = py_strip p in
         if py_startswith p ''q='' then
           (case quality_value (drop 2 p) of
              None \<Rightarrow> 0
            | Some None \<Rightarrow> 2
            | Some (Some x) \<Rightarrow> x)
         else q) 1 parameters"

definition add_quality :: "(string, rat) dict \<Rightarrow> string \<Rightarrow> (string, rat) dict" where
  "add_quality qualities entry =
     (case py_split CHR '';'' (py_lower (py_strip entry)) of
        [] \<Rightarrow> qualities
      | media # parameters \<Rightarrow>
          let q = entry_quality parameters in
          dict_set media (if 0 \<le> q \<and> q \<le> 1 then q else 0) qualities)"

definition accept_qualities :: "string \<Rightarrow> (string, rat) dict" where
  "accept_qualities accept = foldl add_quality [] (py_split CHR '','' accept)"

definition wants_v2 :: "string \<Rightarrow> bool" where
  "wants_v2 accept =
     (let quality = (\<lambda>m. case dict_get (accept_qualities accept) m of None \<Rightarrow> 0 | Some q \<Rightarrow> q) in
      0 < quality MEDIA_TYPE \<and> quality ''application/json'' \<le> quality MEDIA_TYPE)"

section \<open>Queries\<close>

definition api_search_rank :: "(string \<Rightarrow> string) \<Rightarrow> db_module \<Rightarrow> string \<Rightarrow> nat" where
  "api_search_rank lower m q =
     (let module_id = lower (mo_id m); name = lower (mo_name m); q = lower q in
      if module_id = q then 0
      else if name = q then 1
      else if py_startswith module_id q \<or> py_startswith name q then 2
      else if py_in q module_id \<or> py_in q name then 3
      else 4)"

record module_query =
  mq_limit :: nat
  mq_offset :: nat
  mq_module_id :: "string option"
  mq_publisher :: "string option"
  mq_classification :: "string option"
  mq_channel :: "string option"
  mq_host :: "string option"
  mq_sdk :: "string option"
  mq_q :: "string option"

definition any_module :: module_query where
  "any_module = \<lparr>mq_limit = 50, mq_offset = 0, mq_module_id = None, mq_publisher = None, mq_classification = None,
     mq_channel = None, mq_host = None, mq_sdk = None, mq_q = None\<rparr>"

definition opt_version :: "(string \<Rightarrow> exn + 'v) \<Rightarrow> string option \<Rightarrow> exn + 'v option" where
  "opt_version version_of s = (case s of None \<Rightarrow> Inr None | Some t \<Rightarrow> rbind (version_of t) (\<lambda>v. Inr (Some v)))"

definition admits_opt :: "('v \<Rightarrow> string \<Rightarrow> exn + bool) \<Rightarrow> 'v option \<Rightarrow> string \<Rightarrow> exn + bool" where
  "admits_opt admits v spec = (case v of None \<Rightarrow> Inr True | Some x \<Rightarrow> admits x spec)"

text \<open>\<open>channels.get(module.id, {})\<close>.\<close>

definition targets_of :: "(string \<times> json) list \<Rightarrow> string \<Rightarrow> json" where
  "targets_of channels m = (case dict_get channels m of None \<Rightarrow> JObj [] | Some t \<Rightarrow> t)"

definition module_matches ::
    "('v \<Rightarrow> string \<Rightarrow> exn + bool) \<Rightarrow> (string \<times> json) list \<Rightarrow> db_version list \<Rightarrow> string option \<Rightarrow>
      'v option \<Rightarrow> 'v option \<Rightarrow> db_module \<Rightarrow> exn + bool" where
  "module_matches admits channels summaries channel host sdk m =
     (let targets = targets_of channels (mo_id m) in
      if (case channel of None \<Rightarrow> False | Some c \<Rightarrow> get_field targets c = None) then Inr False
      else
        first_true (\<lambda>row.
            and_then (case channel of None \<Rightarrow> Inr True
                | Some c \<Rightarrow> item_eq (getitem2 targets c ''version'') (JStr (mv_version row)))
              (and_then (admits_opt admits host (mv_host_compatibility row))
                (admits_opt admits sdk (mv_sdk_compatibility row))))
          (filter (\<lambda>row. mv_module_id row = mo_id m) summaries))"

definition module_summary ::
    "(string \<times> json) list \<Rightarrow> db_version list \<Rightarrow> db_module \<times> db_publisher \<Rightarrow> exn + json" where
  "module_summary channels summaries mp = (case mp of (m, p) \<Rightarrow>
     let targets = targets_of channels (mo_id m) in
     rbind (py_get (get_or targets ''stable'' (JObj [])) ''version'' JNull) (\<lambda>stable.
     model_validate ModuleSummary_model (JObj
       [(''id'', JStr (mo_id m)), (''name'', JStr (mo_name m)), (''description'', json_opt JStr (mo_description m)),
        (''publisher'', JObj [(''id'', JStr (pb_id p)), (''name'', JStr (pb_name p))]),
        (''classification'', JStr (mo_classification m)), (''license'', JStr (mo_license m)),
        (''source_repository'', JStr (mo_source_repository m)), (''homepage'', json_opt JStr (mo_homepage m)),
        (''documentation_url'', json_opt JStr (mo_documentation_url m)), (''stable_version'', stable),
        (''channels'', targets),
        (''version_count'', JInt (int (length (filter (\<lambda>row. mv_module_id row = mo_id m) summaries))))])))"

definition api_page :: "json list \<Rightarrow> nat \<Rightarrow> nat \<Rightarrow> nat \<Rightarrow> (string \<times> json) list" where
  "api_page items n limit offset = page_document (items, n) (int limit) (int offset)"

definition found_modules ::
    "(string \<Rightarrow> string) \<Rightarrow> (string \<Rightarrow> exn + 'v) \<Rightarrow> ('v \<Rightarrow> string \<Rightarrow> exn + bool) \<Rightarrow> registry_db \<Rightarrow> module_query \<Rightarrow>
      exn + (db_module \<times> db_publisher) list" where
  "found_modules lower version_of admits db mq =
     (let candidates = module_candidates db (mq_module_id mq) (mq_publisher mq) (mq_classification mq) (mq_q mq);
          ids = map (\<lambda>(m, _). mo_id m) candidates;
          summaries = version_summaries db ids;
          channels = channel_targets db (Some ids) in
      rbind (opt_version version_of (mq_host mq)) (\<lambda>host.
      rbind (opt_version version_of (mq_sdk mq)) (\<lambda>sdk.
      rbind (rmap (\<lambda>mp. rbind (module_matches admits channels summaries (mq_channel mq) host sdk (fst mp)) (\<lambda>b. Inr (b, mp)))
          candidates) (\<lambda>tagged.
      let matching = map snd (filter fst tagged) in
      Inr (case mq_q mq of None \<Rightarrow> matching
        | Some q \<Rightarrow> py_sorted (\<lambda>(m, _). (api_search_rank lower m q, mo_id m)) matching)))))"

definition list_modules ::
    "(string \<Rightarrow> string) \<Rightarrow> (string \<Rightarrow> exn + 'v) \<Rightarrow> ('v \<Rightarrow> string \<Rightarrow> exn + bool) \<Rightarrow> registry_db \<Rightarrow> module_query \<Rightarrow> exn + json" where
  "list_modules lower version_of admits db mq =
     (let ids = map (\<lambda>(m, _). mo_id m)
            (module_candidates db (mq_module_id mq) (mq_publisher mq) (mq_classification mq) (mq_q mq)) in
      rbind (found_modules lower version_of admits db mq) (\<lambda>found.
      rbind (rmap (module_summary (channel_targets db (Some ids)) (version_summaries db ids))
          (slice (mq_offset mq) (mq_limit mq) found)) (\<lambda>items.
      let values = api_page items (length found) (mq_limit mq) (mq_offset mq) in
      case mq_q mq of
        None \<Rightarrow> model_validate ModulePage_model (JObj values)
      | Some q \<Rightarrow> model_validate ModuleSearch_model (JObj (values @ [(''query'', JStr q)])))))"

definition api_get_module ::
    "(string \<Rightarrow> string) \<Rightarrow> (string \<Rightarrow> exn + 'v) \<Rightarrow> ('v \<Rightarrow> string \<Rightarrow> exn + bool) \<Rightarrow> registry_db \<Rightarrow> string \<Rightarrow> exn + json" where
  "api_get_module lower version_of admits db module_id =
     rbind (list_modules lower version_of admits db (any_module\<lparr>mq_module_id := Some module_id\<rparr>)) (\<lambda>p.
     rbind (list_item p ''items'') (\<lambda>items.
     case items of
       [] \<Rightarrow> Inl (Raise NotFound (Msg ''Module not found''))
     | item # _ \<Rightarrow> model_validate ModuleDetail_model (JObj (obj_items item @
         [(''versions_url'', JStr (''/api/v1/modules/'' @ module_id @ ''/versions''))]))))"

definition api_get_channels ::
    "(string \<Rightarrow> string) \<Rightarrow> (string \<Rightarrow> exn + 'v) \<Rightarrow> ('v \<Rightarrow> string \<Rightarrow> exn + bool) \<Rightarrow> registry_db \<Rightarrow> string \<Rightarrow> exn + json" where
  "api_get_channels lower version_of admits db module_id =
     rbind (api_get_module lower version_of admits db module_id) (\<lambda>d. getitem d ''channels'')"

section \<open>Versions\<close>

definition sorted_versions :: "published_row list \<Rightarrow> exn + published_row list" where
  "sorted_versions rows =
     sorted_by_reverse (\<lambda>r. semver_key (mv_version (pr_version r))) (py_sorted (\<lambda>r. mv_version (pr_version r)) rows)"

definition evidence_document :: "db_provenance option \<Rightarrow> json" where
  "evidence_document evidence = (case evidence of
       None \<Rightarrow> JObj []
     | Some p \<Rightarrow> JObj
         [(''builder_version'', json_opt JStr (bp_builder_version p)), (''builder_commit'', json_opt JStr (bp_builder_commit p)),
          (''host_commit'', json_opt JStr (bp_host_commit p)), (''reproducible'', json_opt JBool (bp_reproducible p)),
          (''host_contract_status'', json_opt JStr (bp_host_contract_status p)),
          (''environment'', json_opt id (bp_environment_json p))])"

definition version_document ::
    "(int \<Rightarrow> string) \<Rightarrow> string \<Rightarrow> db_dependency list \<Rightarrow> published_row \<Rightarrow> exn + json" where
  "version_document isoformat module_id dependencies r =
     (let v = pr_version r; a = pr_artifact r in
      model_validate PublishedVersion_model (JObj
       [(''module_id'', JStr module_id), (''version'', JStr (mv_version v)),
        (''historical_publication_channel'', JStr (mv_channel v)),
        (''bundle_format_version'', JInt (mv_bundle_format_version v)),
        (''artifact'', JObj [(''url'', JStr (mv_artifact_original_url v)), (''sha256'', JStr (ar_digest a)),
          (''byte_size'', json_opt JInt (ar_byte_size a)), (''storage_locator'', json_opt JStr (ar_storage_locator a))]),
        (''source'', JObj [(''repository'', JStr (pr_source_repository r)), (''tag'', json_opt JStr (mv_source_tag v)),
          (''commit'', JStr (mv_source_commit v))]),
        (''compatibility'', JObj [(''host'', JStr (mv_host_compatibility v)), (''sdk'', JStr (mv_sdk_compatibility v))]),
        (''dependencies'', JObj (dict_of (map (\<lambda>d. (dp_module_id d, JStr (dp_specifier d)))
          (filter (\<lambda>d. dp_owner_version d = mv_version v) dependencies)))),
        (''published_at'', json_opt (\<lambda>t. JStr (isoformat t)) (mv_published_at v)),
        (''provenance'', evidence_document (pr_evidence r))]))"

definition versions_page ::
    "(int \<Rightarrow> string) \<Rightarrow> registry_db \<Rightarrow> string \<Rightarrow> string option \<Rightarrow> nat \<Rightarrow> nat \<Rightarrow> exn + json" where
  "versions_page isoformat db module_id version limit offset =
     rbind (ensure (module_candidates db (Some module_id) None None None \<noteq> []) (Raise NotFound (Msg ''Module not found''))) (\<lambda>_.
     rbind (sorted_versions (published_versions db module_id version)) (\<lambda>rows.
     let selected = slice offset limit rows;
         dependencies = version_dependencies db module_id (map (\<lambda>r. mv_version (pr_version r)) selected) in
     rbind (rmap (version_document isoformat module_id dependencies) selected) (\<lambda>items.
     model_validate VersionPage_model (JObj (api_page items (length rows) limit offset)))))"

definition list_versions :: "(int \<Rightarrow> string) \<Rightarrow> registry_db \<Rightarrow> string \<Rightarrow> nat \<Rightarrow> nat \<Rightarrow> exn + json" where
  "list_versions isoformat db module_id limit offset = versions_page isoformat db module_id None limit offset"

definition api_get_version :: "(int \<Rightarrow> string) \<Rightarrow> registry_db \<Rightarrow> string \<Rightarrow> string \<Rightarrow> exn + json" where
  "api_get_version isoformat db module_id version =
     rbind (versions_page isoformat db module_id (Some version) 1 0) (\<lambda>p.
     rbind (list_item p ''items'') (\<lambda>items.
     case items of [] \<Rightarrow> Inl (Raise NotFound (Msg ''Version not found'')) | item # _ \<Rightarrow> Inr item))"

section \<open>Publishers\<close>

definition publisher_row :: "string \<times> string \<times> nat \<Rightarrow> (string \<times> json) list" where
  "publisher_row r = (case r of (i, n, c) \<Rightarrow>
     [(''id'', JStr i), (''name'', JStr n), (''module_count'', JInt (int c))])"

definition list_publishers :: "registry_db \<Rightarrow> nat \<Rightarrow> nat \<Rightarrow> exn + json" where
  "list_publishers db limit offset =
     (let rows = published_publishers db None in
      rbind (rmap (\<lambda>r. model_validate RegistryPublisher_model (JObj (publisher_row r))) (slice offset limit rows)) (\<lambda>items.
      model_validate PublisherPage_model (JObj (api_page items (length rows) limit offset))))"

definition api_get_publisher ::
    "(string \<Rightarrow> string) \<Rightarrow> (string \<Rightarrow> exn + 'v) \<Rightarrow> ('v \<Rightarrow> string \<Rightarrow> exn + bool) \<Rightarrow> registry_db \<Rightarrow> string \<Rightarrow> nat \<Rightarrow> nat
      \<Rightarrow> exn + json" where
  "api_get_publisher lower version_of admits db publisher_id limit offset =
     (case published_publishers db (Some publisher_id) of
        [] \<Rightarrow> Inl (Raise NotFound (Msg ''Publisher not found''))
      | r # _ \<Rightarrow>
          rbind (list_modules lower version_of admits db
              (any_module\<lparr>mq_publisher := Some publisher_id, mq_limit := limit, mq_offset := offset\<rparr>)) (\<lambda>modules.
          model_validate RegistryPublisherDetail_model (JObj (publisher_row r @ [(''modules'', modules)]))))"

section \<open>Responses\<close>

record response =
  rs_status :: int
  rs_headers :: "(string, string) dict"
  rs_body :: "string option"

record api_request =
  rq_path :: string
  rq_accept :: string
  rq_if_none_match :: string

text \<open>\<open>s.removeprefix("W/")\<close>.\<close>

definition remove_weak :: "string \<Rightarrow> string" where
  "remove_weak s = (if py_startswith s ''W/'' then drop 2 s else s)"

definition validators :: "api_request \<Rightarrow> string list" where
  "validators rq = map (\<lambda>v. remove_weak (py_strip v)) (py_split CHR '','' (rq_if_none_match rq))"

definition etag_of :: "(string \<Rightarrow> string) \<Rightarrow> json \<Rightarrow> string" where
  "etag_of H v = [CHR 0x22] @ H (canonical_json v) @ [CHR 0x22]"

definition response_metadata :: "(string \<Rightarrow> string) \<Rightarrow> api_request \<Rightarrow> json \<Rightarrow> bool \<Rightarrow> response" where
  "response_metadata H rq v negotiated =
     (let etag = etag_of H v;
          headers = [(''Cache-Control'', ''no-cache''), (''ETag'', etag)]
            @ (if negotiated then [(''Vary'', ''Accept'')] else []) in
      if etag \<in> set (validators rq) \<or> ''*'' \<in> set (validators rq)
      then \<lparr>rs_status = 304, rs_headers = headers, rs_body = None\<rparr>
      else \<lparr>rs_status = 200,
        rs_headers = headers @ [(''Content-Type'', if negotiated then MEDIA_TYPE else ''application/json'')],
        rs_body = Some (canonical_json v)\<rparr>)"

definition error_response :: "int \<Rightarrow> string \<Rightarrow> (string, string) dict \<Rightarrow> response" where
  "error_response code detail headers =
     \<lparr>rs_status = code, rs_headers = headers, rs_body = Some (''{'' @ json_string ''detail'' @ '':'' @ json_string detail @ ''}'')\<rparr>"

text \<open>The exception handlers of \<open>configure_database\<close> and \<open>configure_compatibility\<close>.\<close>

definition handle_exception :: "app_config \<Rightarrow> exn \<Rightarrow> response" where
  "handle_exception config e =
     (let no_cache = [(''Cache-Control'', ''no-cache'')] in
      case e of Raise cls reason \<Rightarrow>
        if is_SQLAlchemyError e then error_response 503 ''Registry database unavailable'' no_cache
        else if cls = NotFound then error_response 404 (case reason of Msg m \<Rightarrow> m | _ \<Rightarrow> []) no_cache
        else if v1_compat_enabled config \<and> cls \<in> {V1RepresentabilityError, RegistryValidationError}
        then error_response 503 ''Registry v1 compatibility verification failed'' no_cache
        else (case reason of Http code detail \<Rightarrow> error_response (int code) detail []
              | _ \<Rightarrow> error_response 500 ''Internal Server Error'' []))"

definition respond :: "app_config \<Rightarrow> exn + response \<Rightarrow> response" where
  "respond config r = (case r of Inl e \<Rightarrow> handle_exception config e | Inr rs \<Rightarrow> rs)"

section \<open>Parameters\<close>

definition complete_semver :: "string \<Rightarrow> exn + string" where
  "complete_semver value = rcatch (rbind (validate_semver (JStr value)) (\<lambda>_. Inr value))
     (\<lambda>e. if exn_class e = RegistryValidationError then Inl (Raise ValueError (Msg ''Must be a complete SemVer version'')) else Inl e)"

definition compatibility_version :: "(string \<Rightarrow> exn + 'v) \<Rightarrow> string \<Rightarrow> exn + string" where
  "compatibility_version version_of value =
     rbind (complete_semver value) (\<lambda>_.
     rcatch (rbind (version_of value) (\<lambda>_. Inr value))
       (\<lambda>e. if exn_class e = InvalidVersion
         then Inl (Raise ValueError (Msg ''Version cannot be evaluated by the compatibility library'')) else Inl e))"

text \<open>A \<open>ValueError\<close> of a validator is the framework's answer 422.\<close>

definition validated :: "(string \<Rightarrow> exn + string) \<Rightarrow> string option \<Rightarrow> exn + unit" where
  "validated check s = (case s of
       None \<Rightarrow> Inr ()
     | Some t \<Rightarrow> rcatch (rbind (check t) (\<lambda>_. Inr ())) (\<lambda>e. if is_ValueError e then Inl unprocessable else Inl e))"

section \<open>Routes of registry v2\<close>

definition ready_route :: "registry_db \<Rightarrow> exn + json" where
  "ready_route db = (case schema_revision db of
       Some r \<Rightarrow> if r = EXPECTED_SCHEMA_REVISION then model_validate Readiness_model (JObj [(''schema_revision'', JStr r)])
                 else Inl (Raise HTTPException (Http 503 ''Registry database schema is not ready''))
     | None \<Rightarrow> Inl (Raise HTTPException (Http 503 ''Registry database schema is not ready'')))"

definition modules_route ::
    "(string \<Rightarrow> string) \<Rightarrow> (string \<Rightarrow> string) \<Rightarrow> (string \<Rightarrow> exn + 'v) \<Rightarrow> ('v \<Rightarrow> string \<Rightarrow> exn + bool) \<Rightarrow> registry_db \<Rightarrow>
      api_request \<Rightarrow> module_query \<Rightarrow> exn + response" where
  "modules_route H lower version_of admits db rq mq =
     rbind (ensure (limit_ok (int (mq_limit mq)) (int (mq_offset mq))
         \<and> (case mq_publisher mq of None \<Rightarrow> True | Some p \<Rightarrow> 1 \<le> py_len p \<and> py_len p \<le> 100)
         \<and> opt_in CLASSIFICATIONS (mq_classification mq) \<and> opt_in CHANNELS (mq_channel mq)) unprocessable) (\<lambda>_.
     rbind (validated (compatibility_version version_of) (mq_host mq)) (\<lambda>_.
     rbind (validated (compatibility_version version_of) (mq_sdk mq)) (\<lambda>_.
     rbind (list_modules lower version_of admits db (mq\<lparr>mq_module_id := None, mq_q := None\<rparr>)) (\<lambda>p.
     Inr (response_metadata H rq p False)))))"

definition module_route ::
    "(string \<Rightarrow> string) \<Rightarrow> (string \<Rightarrow> string) \<Rightarrow> (string \<Rightarrow> exn + 'v) \<Rightarrow> ('v \<Rightarrow> string \<Rightarrow> exn + bool) \<Rightarrow> registry_db \<Rightarrow>
      api_request \<Rightarrow> string \<Rightarrow> exn + response" where
  "module_route H lower version_of admits db rq module_id =
     rbind (api_get_module lower version_of admits db module_id) (\<lambda>d. Inr (response_metadata H rq d False))"

definition module_versions_route ::
    "(string \<Rightarrow> string) \<Rightarrow> (int \<Rightarrow> string) \<Rightarrow> registry_db \<Rightarrow> api_request \<Rightarrow> string \<Rightarrow> int \<Rightarrow> int \<Rightarrow> exn + response" where
  "module_versions_route H isoformat db rq module_id limit offset =
     rbind (ensure (limit_ok limit offset) unprocessable) (\<lambda>_.
     rbind (list_versions isoformat db module_id (nat limit) (nat offset)) (\<lambda>p.
     Inr (response_metadata H rq p False)))"

definition module_version_route ::
    "(string \<Rightarrow> string) \<Rightarrow> (int \<Rightarrow> string) \<Rightarrow> registry_db \<Rightarrow> api_request \<Rightarrow> string \<Rightarrow> string \<Rightarrow> exn + response" where
  "module_version_route H isoformat db rq module_id version =
     rbind (validated complete_semver (Some version)) (\<lambda>_.
     rbind (api_get_version isoformat db module_id version) (\<lambda>v.
     Inr (response_metadata H rq v False)))"

definition module_channels_route ::
    "(string \<Rightarrow> string) \<Rightarrow> (string \<Rightarrow> string) \<Rightarrow> (string \<Rightarrow> exn + 'v) \<Rightarrow> ('v \<Rightarrow> string \<Rightarrow> exn + bool) \<Rightarrow> registry_db \<Rightarrow>
      api_request \<Rightarrow> string \<Rightarrow> exn + response" where
  "module_channels_route H lower version_of admits db rq module_id =
     rbind (api_get_channels lower version_of admits db module_id) (\<lambda>c. Inr (response_metadata H rq c False))"

text \<open>The plain response of a route of the hub, as JSON.\<close>

definition plain_response :: "json \<Rightarrow> response" where
  "plain_response v = \<lparr>rs_status = 200, rs_headers = [(''Content-Type'', ''application/json'')], rs_body = Some (canonical_json v)\<rparr>"

definition v2_search_route ::
    "(string \<Rightarrow> string) \<Rightarrow> (string \<Rightarrow> string) \<Rightarrow> (string \<Rightarrow> string) \<Rightarrow> (string \<Rightarrow> exn + 'v) \<Rightarrow> ('v \<Rightarrow> string \<Rightarrow> exn + bool) \<Rightarrow>
      hub \<Rightarrow> registry_db \<Rightarrow> api_request \<Rightarrow> string \<Rightarrow> int \<Rightarrow> int \<Rightarrow> exn + response" where
  "v2_search_route H lower casefold version_of admits h db rq q limit offset =
     rbind (ensure (search_params_ok q limit offset) unprocessable) (\<lambda>_.
     if \<not> wants_v2 (rq_accept rq) then
       rbind (legacy_search casefold (\<lambda>v spec. rbind (version_of v) (\<lambda>x. admits x spec)) h q limit offset) (\<lambda>r.
       Inr (plain_response r))
     else
       rbind (ensure (py_strip q \<noteq> []) (Raise HTTPException (Http 422 ''Search query must not be blank''))) (\<lambda>_.
       rbind (list_modules lower version_of admits db
           (any_module\<lparr>mq_q := Some q, mq_limit := nat limit, mq_offset := nat offset\<rparr>)) (\<lambda>p.
       Inr (response_metadata H rq p True))))"

definition v2_publishers_route ::
    "(string \<Rightarrow> string) \<Rightarrow> hub \<Rightarrow> registry_db \<Rightarrow> api_request \<Rightarrow> int \<Rightarrow> int \<Rightarrow> exn + response" where
  "v2_publishers_route H h db rq limit offset =
     rbind (ensure (limit_ok limit offset) unprocessable) (\<lambda>_.
     if \<not> wants_v2 (rq_accept rq) then rbind (publishers_route h) (\<lambda>r. Inr (plain_response r))
     else rbind (list_publishers db (nat limit) (nat offset)) (\<lambda>p. Inr (response_metadata H rq p True)))"

definition v2_publisher_route ::
    "(string \<Rightarrow> string) \<Rightarrow> (string \<Rightarrow> string) \<Rightarrow> (string \<Rightarrow> exn + 'v) \<Rightarrow> ('v \<Rightarrow> string \<Rightarrow> exn + bool) \<Rightarrow>
      hub \<Rightarrow> registry_db \<Rightarrow> api_request \<Rightarrow> string \<Rightarrow> int \<Rightarrow> int \<Rightarrow> exn + response" where
  "v2_publisher_route H lower version_of admits h db rq publisher_id limit offset =
     rbind (ensure (limit_ok limit offset) unprocessable) (\<lambda>_.
     if \<not> wants_v2 (rq_accept rq) then rbind (publisher_route h publisher_id) (\<lambda>r. Inr (plain_response r))
     else
       rbind (api_get_publisher lower version_of admits db publisher_id (nat limit) (nat offset)) (\<lambda>p.
       Inr (response_metadata H rq p True)))"

section \<open>Routes of registry v1\<close>

definition compatibility_ready :: "registry_db \<Rightarrow> exn + unit" where
  "compatibility_ready db = ensure (schema_revision db = Some EXPECTED_SCHEMA_REVISION)
     (Raise HTTPException (Http 503 ''Registry database schema is not ready''))"

definition v1_index_route ::
    "(string \<Rightarrow> string) \<Rightarrow> (string \<Rightarrow> json \<Rightarrow> bool) \<Rightarrow> registry_db \<Rightarrow> api_request \<Rightarrow> exn + response" where
  "v1_index_route H sch db rq =
     rbind (compatibility_ready db) (\<lambda>_.
     rbind (compatibility_index sch db) (\<lambda>index. Inr (response_metadata H rq index False)))"

definition v1_module_route ::
    "(string \<Rightarrow> string) \<Rightarrow> (string \<Rightarrow> json \<Rightarrow> bool) \<Rightarrow> registry_db \<Rightarrow> api_request \<Rightarrow> string \<Rightarrow> exn + response" where
  "v1_module_route H sch db rq module_id =
     rbind (compatibility_ready db) (\<lambda>_.
     rbind (rcatch (validate_module_id (JStr module_id)) (\<lambda>e.
         if exn_class e = RegistryValidationError then Inl (Raise HTTPException (Http 404 ''Published module not found''))
         else Inl e)) (\<lambda>_.
     rbind (compatibility_module sch db module_id) (\<lambda>m. Inr (response_metadata H rq m False))))"

section \<open>Middleware\<close>

definition shared_path :: "string \<Rightarrow> bool" where
  "shared_path p = (p = ''/api/v1/search'' \<or> py_startswith p ''/api/v1/publishers'')"

definition set_header :: "string \<Rightarrow> string \<Rightarrow> response \<Rightarrow> response" where
  "set_header k v rs = rs\<lparr>rs_headers := dict_set k v (rs_headers rs)\<rparr>"

definition add_vary :: "response \<Rightarrow> response" where
  "add_vary rs = (case dict_get (rs_headers rs) ''Vary'' of
       None \<Rightarrow> set_header ''Vary'' ''Accept'' rs
     | Some previous \<Rightarrow> set_header ''Vary'' (if previous = [] then ''Accept'' else previous @ '', Accept'') rs)"

text \<open>\<open>previous.lower().split(", ")\<close> contains \<open>accept\<close>.\<close>

fun split_comma_space :: "string \<Rightarrow> string \<Rightarrow> string list" where
  "split_comma_space acc (c # d # s) =
     (if c = CHR '','' \<and> d = CHR '' '' then acc # split_comma_space [] s else split_comma_space (acc @ [c]) (d # s))"
| "split_comma_space acc s = [acc @ s]"

definition v2_cache_boundary :: "api_request \<Rightarrow> response \<Rightarrow> response" where
  "v2_cache_boundary rq rs =
     (let shared = shared_path (rq_path rq);
          rs = (if shared \<and> (case dict_get (rs_headers rs) ''Vary'' of None \<Rightarrow> True
                  | Some previous \<Rightarrow> previous = [] \<or> ''accept'' \<notin> set (split_comma_space [] (py_lower previous)))
                then add_vary rs else rs) in
      if py_startswith (rq_path rq) ''/api/v1/modules'' \<or> (shared \<and> wants_v2 (rq_accept rq)) \<or> rq_path rq = ''/ready''
      then set_header ''Cache-Control'' ''no-cache'' rs else rs)"

definition v1_cache_boundary :: "api_request \<Rightarrow> response \<Rightarrow> response" where
  "v1_cache_boundary rq rs =
     (if rq_path rq \<in> {''/index.json'', ''/ready''}
         \<or> (py_startswith (rq_path rq) ''/modules/'' \<and> py_endswith (rq_path rq) ''.json'')
      then set_header ''Cache-Control'' ''no-cache'' rs else rs)"

text \<open>The middleware of an application without registry v2.\<close>

definition disabled_representation :: "api_request \<Rightarrow> response \<Rightarrow> response" where
  "disabled_representation rq rs =
     (if shared_path (rq_path rq) \<and> wants_v2 (rq_accept rq)
      then error_response 406 ''Registry v2 representation is not enabled'' [(''Vary'', ''Accept''), (''Cache-Control'', ''no-cache'')]
      else if shared_path (rq_path rq) then add_vary rs else rs)"

end
