(* ===== verification/Api_Props.thy ===== *)
theory Api_Props
  imports Promotion_History Hub_Props Registry_Api
begin

text \<open>
  The read API over the registry database (\<open>web/backend/app/api\<close>): channels agree with the v1 index, the
  version history is complete and pages are slices of it, conditional requests are exact.
\<close>

section \<open>Joins\<close>

lemma filter_join:
  "filter (\<lambda>p. R (fst p)) (concat (map (\<lambda>x. map (\<lambda>y. (x, y)) (g x)) xs))
   = concat (map (\<lambda>x. map (\<lambda>y. (x, y)) (g x)) (filter R xs))"
  by (induction xs) (simp_all add: filter_map comp_def)

lemma unique_filter:
  assumes "sorted_wrt (\<lambda>x y. \<not> P y x) xs" and "a \<in> set xs" and "\<And>x y. k x = k y \<Longrightarrow> P x y"
  shows "filter (\<lambda>x. k x = k a) xs = [a]"
  using assms
proof (induction xs)
  case (Cons x xs)
  show ?case
  proof (cases "x = a")
    case True
    with Cons.prems have "\<forall>y \<in> set xs. k y \<noteq> k a" by auto
    with True show ?thesis by (simp add: filter_empty_conv)
  next
    case False
    with Cons.prems have "a \<in> set xs" "k x \<noteq> k a" by auto
    with Cons show ?thesis by simp
  qed
qed simp

lemma rows_by_key:
  assumes "db_wf db"
  shows "m \<in> set (t_modules db) \<Longrightarrow> filter (\<lambda>x. mo_id x = mo_id m) (t_modules db) = [m]"
    and "p \<in> set (t_publishers db) \<Longrightarrow> filter (\<lambda>x. pb_id x = pb_id p) (t_publishers db) = [p]"
    and "a \<in> set (t_artifacts db) \<Longrightarrow> filter (\<lambda>x. ar_id x = ar_id a) (t_artifacts db) = [a]"
  using assms
  by (auto simp: db_wf_def table_ok_def Module_def Publisher_def Artifact_def
      intro!: unique_filter [where P = "tb_clash Module"] unique_filter [where P = "tb_clash Publisher"]
        unique_filter [where P = "tb_clash Artifact"])

lemma publisher_of_module:
  assumes "db_wf db" and "m \<in> set (t_modules db)"
  obtains p where "p \<in> set (t_publishers db)" "filter (\<lambda>x. pb_id x = mo_publisher_id m) (t_publishers db) = [p]"
proof -
  from assms obtain p where "p \<in> set (t_publishers db)" "pb_id p = mo_publisher_id m"
    by (auto simp: db_wf_def table_ok_def Module_def list_ex_iff)
  with rows_by_key(2) [OF assms(1)] that show thesis by fastforce
qed

lemma artifact_of_version:
  assumes "db_wf db" and "v \<in> set (t_versions db)"
  obtains a where "a \<in> set (t_artifacts db)" "filter (\<lambda>x. ar_id x = mv_artifact_id v) (t_artifacts db) = [a]"
proof -
  from assms obtain a where "a \<in> set (t_artifacts db)" "ar_id a = mv_artifact_id v"
    by (auto simp: db_wf_def table_ok_def ModuleVersion_def list_ex_iff)
  with rows_by_key(3) [OF assms(1)] that show thesis by fastforce
qed

lemma candidate_of_id:
  assumes "db_wf db" and "m \<in> set (t_modules db)" and "has_version db (mo_id m)"
  obtains p where "module_candidates db (Some (mo_id m)) None None None = [(m, p)]"
proof -
  obtain p where p: "filter (\<lambda>x. pb_id x = mo_publisher_id m) (t_publishers db) = [p]"
    using assms(1,2) by (rule publisher_of_module)
  have "filter (\<lambda>x. has_version db (mo_id x) \<and> mo_id x = mo_id m) (t_modules db)
      = filter (\<lambda>x. mo_id x = mo_id m) (t_modules db)"
    using assms(3) by (intro filter_cong) auto
  then have "filter (\<lambda>x. has_version db (mo_id x) \<and> mo_id x = mo_id m) (t_modules db) = [m]"
    using rows_by_key(1) [OF assms(1,2)] by simp
  then have "filter (\<lambda>q. has_version db (mo_id (fst q)) \<and> mo_id (fst q) = mo_id m) (module_publishers db) = [(m, p)]"
    unfolding module_publishers_def
    by (subst filter_join [where R = "\<lambda>x. has_version db (mo_id x) \<and> mo_id x = mo_id m"]) (simp add: p)
  then have "module_candidates db (Some (mo_id m)) None None None = [(m, p)]"
    by (simp add: module_candidates_def case_prod_unfold)
  then show thesis by (rule that)
qed

section \<open>Channel pointers\<close>

lemma add_target_other: "mc_module_id (fst row) \<noteq> i \<Longrightarrow> dict_get (add_target acc row) i = dict_get acc i"
  by (simp add: add_target_def case_prod_beta Let_def)

lemma add_target_cong:
  "dict_get acc i = dict_get acc' i \<Longrightarrow> dict_get (add_target acc row) i = dict_get (add_target acc' row) i"
  by (cases "mc_module_id (fst row) = i") (simp_all add: add_target_def case_prod_beta Let_def)

lemma targets_by_module:
  "dict_get acc i = dict_get acc' i \<Longrightarrow>
   dict_get (foldl add_target acc rows) i
     = dict_get (foldl add_target acc' (filter (\<lambda>r. mc_module_id (fst r) = i) rows)) i"
proof (induction rows arbitrary: acc acc')
  case (Cons r rows)
  show ?case
  proof (cases "mc_module_id (fst r) = i")
    case True
    with Cons.IH [OF add_target_cong [OF Cons.prems]] show ?thesis by simp
  next
    case False
    with Cons.prems have "dict_get (add_target acc r) i = dict_get acc' i" by (simp add: add_target_other)
    with Cons.IH False show ?thesis by simp
  qed
qed simp

lemma channel_rows_module:
  "filter (\<lambda>r. mc_module_id (fst r) = i) (channel_rows db (Some [i])) = filter (\<lambda>r. mc_module_id (fst r) = i) (channel_rows db None)"
proof -
  let ?g = "\<lambda>c. map snd (map (\<lambda>(v, a). (c, ar_digest a)) (filter (\<lambda>(v, a). mc_module_id c = mv_module_id v \<and> mc_version c = mv_version v) (version_artifacts db)))"
  have r: "channel_rows db ids = concat (map (\<lambda>c. map (\<lambda>d. (c, d)) (?g c))
      (py_sorted (\<lambda>c. (mc_module_id c, mc_channel c)) (filter (\<lambda>c. opt_all (\<lambda>ids. mc_module_id c \<in> set ids) ids) (t_channels db))))" for ids
    by (simp add: channel_rows_def case_prod_unfold comp_def)
  show ?thesis
    unfolding r filter_join [where R = "\<lambda>c. mc_module_id c = i"] by (simp add: filter_sort conj_commute)
qed

lemma targets_of_module: "dict_get (channel_targets db (Some [i])) i = dict_get (channel_targets db None) i"
  unfolding channel_targets_def
  using targets_by_module [of "[]" i "[]" "channel_rows db (Some [i])"] targets_by_module [of "[]" i "[]" "channel_rows db None"]
  by (simp add: channel_rows_module)

section \<open>Documents that pass their model\<close>

definition target_ok :: "json \<Rightarrow> bool" where
  "target_ok t \<longleftrightarrow> (\<exists>v d. t = JObj [(''version'', JStr v), (''sha256'', JStr d)] \<and> fullmatch SHA256_RE d)"

definition targets_ok :: "json \<Rightarrow> bool" where
  "targets_ok ts \<longleftrightarrow> (\<exists>d. ts = JObj d \<and> (\<forall>(c, t) \<in> set d. c \<in> set CHANNELS \<and> target_ok t))"

lemma dict_set_all:
  "\<forall>p \<in> set d. P (fst p) (snd p) \<Longrightarrow> P k v \<Longrightarrow> \<forall>p \<in> set (dict_set k v d). P (fst p) (snd p)"
  by (induction d) auto

lemma add_target_ok:
  assumes "\<forall>p \<in> set acc. targets_ok (snd p)" and "mc_channel (fst row) \<in> set CHANNELS" and "fullmatch SHA256_RE (snd row)"
  shows "\<forall>p \<in> set (add_target acc row). targets_ok (snd p)"
proof -
  obtain c d where row: "row = (c, d)" by (cases row)
  let ?old = "case dict_get acc (mc_module_id c) of None \<Rightarrow> [] | Some t \<Rightarrow> obj_items t"
  have "\<forall>p \<in> set ?old. fst p \<in> set CHANNELS \<and> target_ok (snd p)"
  proof (cases "dict_get acc (mc_module_id c)")
    case (Some t)
    then have "targets_ok t" using assms(1) map_of_SomeD by fastforce
    with Some show ?thesis by (auto simp: targets_ok_def)
  qed simp
  then have "\<forall>p \<in> set (dict_set (mc_channel c) (JObj [(''version'', JStr (mc_version c)), (''sha256'', JStr d)]) ?old).
      fst p \<in> set CHANNELS \<and> target_ok (snd p)"
    using assms(2,3) row by (intro dict_set_all [where P = "\<lambda>k v. k \<in> set CHANNELS \<and> target_ok v"]) (auto simp: target_ok_def)
  then have "targets_ok (JObj (dict_set (mc_channel c) (JObj [(''version'', JStr (mc_version c)), (''sha256'', JStr d)]) ?old))"
    by (auto simp: targets_ok_def)
  then show ?thesis unfolding row add_target_def prod.case Let_def
    using assms(1) by (intro dict_set_all [where P = "\<lambda>_. targets_ok"])
qed

lemma channel_rows_ok:
  assumes "db_wf db" and "row \<in> set (channel_rows db ids)"
  shows "mc_channel (fst row) \<in> set CHANNELS \<and> fullmatch SHA256_RE (snd row)"
proof -
  from assms(2) obtain c v a where "row = (c, ar_digest a)" "c \<in> set (t_channels db)" "a \<in> set (t_artifacts db)"
    by (auto simp: channel_rows_def version_artifacts_def)
  with assms(1) show ?thesis by (auto simp: db_wf_def table_ok_def ModuleChannel_def Artifact_def)
qed

lemma channel_targets_ok:
  assumes "db_wf db"
  shows "targets_ok (targets_of (channel_targets db ids) i)"
proof -
  have f: "\<forall>p \<in> set (foldl add_target acc rows). targets_ok (snd p)"
    if "\<forall>row \<in> set rows. mc_channel (fst row) \<in> set CHANNELS \<and> fullmatch SHA256_RE (snd row)"
      "\<forall>p \<in> set acc. targets_ok (snd p)" for rows acc
    using that
  proof (induction rows arbitrary: acc)
    case (Cons r rows)
    then have "\<forall>p \<in> set (add_target acc r). targets_ok (snd p)" by (intro add_target_ok) simp_all
    with Cons show ?case by simp
  qed simp
  have ok: "\<forall>p \<in> set (channel_targets db ids). targets_ok (snd p)"
    unfolding channel_targets_def by (rule f) (use channel_rows_ok [OF assms] in auto)
  show ?thesis
  proof (cases "dict_get (channel_targets db ids) i")
    case (Some t)
    then have "(i, t) \<in> set (channel_targets db ids)" by (rule map_of_SomeD)
    with ok Some show ?thesis by (force simp: targets_of_def)
  qed (simp add: targets_of_def targets_ok_def)
qed

lemma target_model: "target_ok t \<Longrightarrow> model_validate ChannelTarget_model t = Inr t"
  by (auto simp: target_ok_def ChannelTarget_model_def as_pattern_def model_validate_def)

lemma channels_model:
  assumes "targets_ok ts"
  shows "channels_field ts = Inr ts"
proof -
  from assms obtain d where d: "ts = JObj d" "\<forall>(c, t) \<in> set d. c \<in> set CHANNELS \<and> target_ok t"
    by (auto simp: targets_ok_def)
  have "rmap (\<lambda>(k, x). rbind (ensure (k \<in> set CHANNELS) validation_error) (\<lambda>_.
      rbind (model_validate ChannelTarget_model x) (\<lambda>y. Inr (k, y)))) d = Inr (map id d)"
    using d(2) by (intro rmap_ok) (auto simp: target_model)
  then show ?thesis by (simp add: channels_field_def as_dict_def d(1))
qed

lemma as_int_JInt [simp]: "as_int P (JInt n) = (if P n then Inr (JInt n) else Inl validation_error)"
  by (simp add: as_int_def)

definition module_document :: "json \<Rightarrow> nat \<Rightarrow> db_module \<Rightarrow> db_publisher \<Rightarrow> (string \<times> json) list" where
  "module_document targets n m p =
     [(''id'', JStr (mo_id m)), (''name'', JStr (mo_name m)), (''description'', json_opt JStr (mo_description m)),
      (''publisher'', JObj [(''id'', JStr (pb_id p)), (''name'', JStr (pb_name p))]),
      (''classification'', JStr (mo_classification m)), (''license'', JStr (mo_license m)),
      (''source_repository'', JStr (mo_source_repository m)), (''homepage'', json_opt JStr (mo_homepage m)),
      (''documentation_url'', json_opt JStr (mo_documentation_url m)),
      (''stable_version'', get_or (get_or targets ''stable'' (JObj [])) ''version'' JNull),
      (''channels'', targets), (''version_count'', JInt (int n))]"

lemma stable_ok':
  assumes "targets_ok targets"
  shows "is_obj (get_or targets ''stable'' (JObj []))"
    and "as_opt as_str (get_or (get_or targets ''stable'' (JObj [])) ''version'' JNull)
      = Inr (get_or (get_or targets ''stable'' (JObj [])) ''version'' JNull)"
proof -
  from assms obtain d where d: "targets = JObj d" "\<forall>(c, t) \<in> set d. c \<in> set CHANNELS \<and> target_ok t"
    by (auto simp: targets_ok_def)
  have "dict_get d ''stable'' = None \<or> (\<exists>t. dict_get d ''stable'' = Some t \<and> target_ok t)"
    using d(2) map_of_SomeD by (cases "dict_get d ''stable''") fastforce+
  then show "is_obj (get_or targets ''stable'' (JObj []))"
    and "as_opt as_str (get_or (get_or targets ''stable'' (JObj [])) ''version'' JNull)
      = Inr (get_or (get_or targets ''stable'' (JObj [])) ''version'' JNull)"
    by (auto simp: d(1) target_ok_def get_or_def as_opt_def)
qed

lemma module_document_ok:
  assumes "targets_ok targets" and "mo_classification m \<in> set CLASSIFICATIONS" and "1 \<le> n"
  shows "model_validate ModuleSummary_model (JObj (module_document targets n m p)) = Inr (JObj (module_document targets n m p))"
    and "model_validate ModuleDetail_model (JObj (module_document targets n m p @ [(''versions_url'', JStr u)]))
      = Inr (JObj (module_document targets n m p @ [(''versions_url'', JStr u)]))"
proof -
  have p': "model_validate Publisher_model (JObj [(''id'', JStr (pb_id p)), (''name'', JStr (pb_name p))])
      = Inr (JObj [(''id'', JStr (pb_id p)), (''name'', JStr (pb_name p))])"
    by (rule publisher_ok) simp_all
  note facts = p' channels_model [OF assms(1)] stable_ok' [OF assms(1)] assms(2,3)
  show "model_validate ModuleSummary_model (JObj (module_document targets n m p)) = Inr (JObj (module_document targets n m p))"
    using assms(3) by (intro model_validate_keys)
      (simp_all add: ModuleSummary_model_def module_document_def facts optional_str_ok as_literal_def)
  show "model_validate ModuleDetail_model (JObj (module_document targets n m p @ [(''versions_url'', JStr u)]))
      = Inr (JObj (module_document targets n m p @ [(''versions_url'', JStr u)]))"
    using assms(3) by (intro model_validate_keys)
      (simp_all add: ModuleDetail_model_def ModuleSummary_model_def module_document_def facts optional_str_ok as_literal_def)
qed

lemma page_ok:
  assumes "\<forall>v \<in> set items. item v = Inr v" and "1 \<le> limit" and "limit \<le> 100"
  shows "model_validate (page_fields item) (JObj (api_page items n limit offset)) = Inr (JObj (api_page items n limit offset))"
proof -
  have "rmap item items = Inr (map id items)" using assms(1) by (intro rmap_ok) simp
  then show ?thesis using assms(2,3)
    by (intro model_validate_keys) (simp_all add: page_fields_def api_page_def page_document_def as_list_def)
qed

section \<open>The document of a published module\<close>

lemma first_true_all: "xs \<noteq> [] \<Longrightarrow> first_true (\<lambda>_. Inr True) xs = Inr True"
  by (cases xs) (simp_all add: or_else_def)

lemma api_module_ok:
  fixes version_of :: "string \<Rightarrow> exn + 'v"
  assumes "db_wf db" and "m \<in> set (t_modules db)" and "has_version db (mo_id m)"
  shows "api_get_channels lower version_of admits db (mo_id m) = Inr (targets_of (channel_targets db None) (mo_id m))"
proof -
  let ?i = "mo_id m"
  let ?t = "targets_of (channel_targets db None) ?i"
  obtain p where c: "module_candidates db (Some ?i) None None None = [(m, p)]"
    using assms by (rule candidate_of_id)
  let ?vs = "filter (\<lambda>v. mv_module_id v = ?i) (t_versions db)"
  have vs: "?vs \<noteq> []" using assms(3) by (auto simp: has_version_def list_ex_iff filter_empty_conv)
  have cls: "mo_classification m \<in> set CLASSIFICATIONS"
    using assms(1,2) by (auto simp: db_wf_def table_ok_def Module_def)
  have t: "targets_of (channel_targets db (Some [?i])) ?i = ?t" by (simp add: targets_of_def targets_of_module)
  note ok = channel_targets_ok [OF assms(1), of None ?i]
  let ?doc = "module_document ?t (length ?vs) m p"
  note doc = module_document_ok [OF ok cls, of "length ?vs" p]
  have n: "1 \<le> length ?vs" using vs by (cases ?vs) auto
  have matching: "module_matches admits (channel_targets db (Some [?i])) ?vs None None (None :: 'v option) m = Inr True"
    using vs by (simp add: module_matches_def and_then_def admits_opt_def first_true_all Let_def)
  have "module_summary (channel_targets db (Some [?i])) ?vs (m, p) = Inr (JObj ?doc)"
    using doc(1) [OF n] stable_ok'(1) [OF ok] by (simp add: module_summary_def t py_get_def module_document_def Let_def)
  then have "list_modules lower version_of admits db (any_module\<lparr>mq_module_id := Some ?i\<rparr>)
      = model_validate ModulePage_model (JObj (api_page [JObj ?doc] 1 50 0))"
    using matching
    by (simp add: list_modules_def found_modules_def any_module_def c version_summaries_def opt_version_def slice_def Let_def)
  also have "\<dots> = Inr (JObj (api_page [JObj ?doc] 1 50 0))"
    unfolding ModulePage_model_def by (rule page_ok) (simp_all add: doc(1) [OF n])
  finally have "list_modules lower version_of admits db (any_module\<lparr>mq_module_id := Some ?i\<rparr>)
      = Inr (JObj (api_page [JObj ?doc] 1 50 0))" .
  moreover have "list_item (JObj (api_page [JObj ?doc] 1 50 0)) ''items'' = Inr [JObj ?doc]"
    by (simp add: api_page_def page_document_def)
  ultimately have "api_get_module lower version_of admits db ?i
      = Inr (JObj (?doc @ [(''versions_url'', JStr (''/api/v1/modules/'' @ ?i @ ''/versions''))]))"
    using doc(2) [OF n] by (simp add: api_get_module_def del: list_item_Inr_iff)
  then show ?thesis by (simp add: api_get_channels_def module_document_def)
qed

lemma projected_module:
  assumes "x \<in> set (project_v1 db None)" and "get_field x ''id'' = Some (JStr i)"
  obtains m where "m \<in> set (t_modules db)" "mo_id m = i" "has_version db i"
proof -
  from assms(1) obtain m p where m: "(m, p) \<in> set (module_candidates db None None None None)"
      "x = JObj (module_structure m p @ [(''versions'', JList (module_releases db (mo_id m)))])"
    by (auto simp: project_v1_def)
  then have "m \<in> set (t_modules db)" "has_version db (mo_id m)"
    by (auto simp: module_candidates_def module_publishers_def)
  moreover have "mo_id m = i" using assms(2) by (simp add: m(2) module_structure_def)
  ultimately show thesis using that by blast
qed

lemma compatibility_entry:
  assumes "compatibility_index sch db = Inr index" and "get_field index ''modules'' = Some (JList es)" and "e \<in> set es"
  obtains m t where "m \<in> set (t_modules db)" "has_version db (mo_id m)" "get_field e ''id'' = Some (JStr (mo_id m))"
    "get_field e ''channels'' = Some t" "dict_get (channel_targets db None) (mo_id m) = Some t"
proof -
  from assms(1) obtain index0 entries es' where
    valid: "\<forall>x \<in> set (project_v1 db None). validate_module sch x None = Inr ()"
    and index0: "build_index sch (project_v1 db None) = Inr index0" "get_field index0 ''modules'' = Some (JList entries)"
    and es': "rmap (\<lambda>entry. rbind (str_item entry ''id'') (\<lambda>i. rbind (getitem (JObj (channel_targets db None)) i) (\<lambda>t.
         Inr (set_field ''channels'' t entry)))) entries = Inr es'"
    and index: "index = set_field ''modules'' (JList es') index0"
    by (auto simp: compatibility_index_def validate_v1_representability_def)
  have "es' = es" using assms(2) index0(2) by (cases index0) (simp_all add: index)
  then obtain x where x: "x \<in> set entries" "rbind (str_item x ''id'') (\<lambda>i. rbind (getitem (JObj (channel_targets db None)) i) (\<lambda>t.
         Inr (set_field ''channels'' t x))) = Inr e"
    using rmap_Inr_set [OF es'] assms(3) by blast
  then obtain i t where e: "get_field x ''id'' = Some (JStr i)" "dict_get (channel_targets db None) i = Some t"
      "e = set_field ''channels'' t x"
    by auto
  have wf: "\<forall>x \<in> set (project_v1 db None). module_wf x" using valid validate_module_wf by blast
  obtain entries' where es0: "get_field index0 ''modules'' = Some (JList entries')"
      "rmap index_entry (py_sorted mod_id (project_v1 db None)) = Inr entries'"
    using build_index_entries [OF index0(1) wf] by blast
  have "entries' = entries" using es0(1) index0(2) by simp
  then obtain y where "y \<in> set (py_sorted mod_id (project_v1 db None))" and ix: "index_entry y = Inr x"
    using rmap_Inr_set [OF es0(2)] x(1) by blast
  then have y: "y \<in> set (project_v1 db None)" "index_entry y = Inr x" by simp_all
  have "get_field y ''id'' = Some (JStr i)" using index_entry_fields [OF y(2)] wf y(1) e(1) by metis
  then obtain m where m: "m \<in> set (t_modules db)" "mo_id m = i" "has_version db i"
    using projected_module y(1) by blast
  have "is_obj x" using e(1) by (cases x) auto
  then have "get_field e ''id'' = Some (JStr i)" "get_field e ''channels'' = Some t"
    using e(1) by (simp_all add: e(3))
  with m e(2) that show thesis by blast
qed

text \<open>C14. The two read APIs show the same current releases: whenever the v1 index can be served,
  the v2 channels of every module in it are the channel map of its v1 entry, byte for byte, so a
  client that reads either of them installs the same versions and digests.\<close>

theorem channels_agree:
  assumes "db_wf db" and "compatibility_index sch db = Inr index"
    and "get_field index ''modules'' = Some (JList es)" and "e \<in> set es"
  shows "\<exists>i t. get_field e ''id'' = Some (JStr i) \<and> get_field e ''channels'' = Some t
    \<and> api_get_channels lower version_of admits db i = Inr t"
proof -
  obtain m t where m: "m \<in> set (t_modules db)" "has_version db (mo_id m)" "get_field e ''id'' = Some (JStr (mo_id m))"
    "get_field e ''channels'' = Some t" "dict_get (channel_targets db None) (mo_id m) = Some t"
    using assms(2-4) by (rule compatibility_entry)
  have "api_get_channels lower version_of admits db (mo_id m) = Inr t"
    using api_module_ok [OF assms(1) m(1,2)] m(5) by (simp add: targets_of_def)
  with m(3,4) show ?thesis by blast
qed

section \<open>Conditional requests\<close>

lemma py_strip_ascii:
  assumes "is_ascii s" and "s \<noteq> []" and "\<not> is_space (byte (hd s))" and "\<not> is_space (byte (last s))"
  shows "py_strip s = s"
proof -
  obtain c cs where s: "s = c # cs" using assms(2) by (cases s) auto
  have "rev (map byte (butlast s @ [last s])) = byte (last s) # rev (map byte (butlast s))" by simp
  then have l: "rev (map byte s) = byte (last s) # rev (map byte (butlast s))"
    by (simp only: append_butlast_last_id [OF assms(2)])
  have "dropWhile is_space (map byte s) = map byte s" using assms(3) by (simp add: s)
  moreover have "dropWhile is_space (rev (map byte s)) = rev (map byte s)" unfolding l using assms(4) by simp
  ultimately have "py_strip s = of_code_points (map byte s)"
    using assms(1) by (simp add: py_strip_def code_points_ascii)
  also have "concat (map utf8_encode1 (map byte s)) = map byte s"
    using assms(1) by (intro utf8_encode_ascii) (simp add: is_ascii_def list_all_iff)
  then have "of_code_points (map byte s) = s" by (simp add: of_code_points_def comp_def)
  finally show ?thesis .
qed

text \<open>What a client sends back: the entity tags of representations it has, weak or not.\<close>

definition sent_tag :: "(string \<Rightarrow> string) \<Rightarrow> bool \<times> json \<Rightarrow> string" where
  "sent_tag H t = (if fst t then ''W/'' else []) @ etag_of H (snd t)"

lemma hex_chars:
  assumes "c \<in> set ''0123456789abcdef''"
  shows "byte c < 128 \<and> c \<noteq> CHR '',''"
  using assms by auto

lemma sent_tag_ok:
  assumes "\<And>s. set (H s) \<subseteq> set ''0123456789abcdef''"
  shows "CHR '','' \<notin> set (sent_tag H t)" and "remove_weak (py_strip (sent_tag H t)) = etag_of H (snd t)"
proof -
  have h: "byte c < 128 \<and> c \<noteq> CHR '',''" if "c \<in> set (H s)" for c s
    using that assms hex_chars by blast
  show "CHR '','' \<notin> set (sent_tag H t)" using h by (auto simp: sent_tag_def etag_of_def)
  have "is_ascii (sent_tag H t)" using h by (auto simp: sent_tag_def etag_of_def is_ascii_def list_all_iff)
  moreover have "sent_tag H t \<noteq> []" "last (sent_tag H t) = CHR 0x22"
    "hd (sent_tag H t) = CHR 0x22 \<or> hd (sent_tag H t) = CHR ''W''"
    by (auto simp: sent_tag_def etag_of_def)
  ultimately have "py_strip (sent_tag H t) = sent_tag H t"
    by (intro py_strip_ascii) (auto simp: is_space_def)
  then show "remove_weak (py_strip (sent_tag H t)) = etag_of H (snd t)"
    by (simp add: remove_weak_def sent_tag_def etag_of_def py_startswith_def)
qed

text \<open>C26. Conditional requests are exact: when a client sends back the entity tags of representations it
  cached, weak or strong, the answer is 304 without a body exactly when the current representation is
  one of them, byte for byte, and otherwise 200 with the current canonical JSON and its own tag; a
  cache never shows stale data (\<open>H\<close> is SHA-256 in hexadecimal, which here does not collide).\<close>

theorem conditional_get:
  assumes "\<And>s. set (H s) \<subseteq> set ''0123456789abcdef''" and "cached \<noteq> []"
    and "rq_if_none_match rq = py_join '','' (map (sent_tag H) cached)"
    and "\<And>t. t \<in> set cached \<Longrightarrow> H (canonical_json (snd t)) = H (canonical_json v) \<Longrightarrow> canonical_json (snd t) = canonical_json v"
  shows "if canonical_json v \<in> (canonical_json \<circ> snd) ` set cached
    then rs_status (response_metadata H rq v negotiated) = 304 \<and> rs_body (response_metadata H rq v negotiated) = None
    else rs_status (response_metadata H rq v negotiated) = 200
      \<and> rs_body (response_metadata H rq v negotiated) = Some (canonical_json v)
      \<and> dict_get (rs_headers (response_metadata H rq v negotiated)) ''ETag'' = Some (etag_of H v)"
proof -
  have "py_split CHR '','' (rq_if_none_match rq) = map (sent_tag H) cached"
    unfolding assms(3) using assms(2) sent_tag_ok(1) [OF assms(1)] by (intro py_split_join) auto
  then have v: "validators rq = map (\<lambda>t. etag_of H (snd t)) cached"
    using sent_tag_ok(2) [OF assms(1)] by (simp add: validators_def comp_def)
  have star: "''*'' \<notin> set (validators rq)" by (auto simp: v etag_of_def)
  have "etag_of H v \<in> set (validators rq) \<longleftrightarrow> canonical_json v \<in> (canonical_json \<circ> snd) ` set cached"
  proof
    assume "etag_of H v \<in> set (validators rq)"
    then obtain t where "t \<in> set cached" "H (canonical_json (snd t)) = H (canonical_json v)" by (auto simp: v etag_of_def)
    with assms(4) [OF this] show "canonical_json v \<in> (canonical_json \<circ> snd) ` set cached" by (auto simp: image_iff intro: bexI [of _ t])
  next
    assume "canonical_json v \<in> (canonical_json \<circ> snd) ` set cached"
    then obtain t where "t \<in> set cached" "canonical_json v = canonical_json (snd t)" by auto
    then show "etag_of H v \<in> set (validators rq)" by (auto simp: v etag_of_def image_iff intro: bexI [of _ t])
  qed
  then show ?thesis using star by (simp add: response_metadata_def Let_def)
qed

section \<open>Version history\<close>

text \<open>Rows that the response models accept: a SemVer version, an object as environment.\<close>

definition readable :: "registry_db \<Rightarrow> bool" where
  "readable db \<longleftrightarrow> (\<forall>v \<in> set (t_versions db). is_ok (semver_key (mv_version v)))
     \<and> (\<forall>p \<in> set (t_provenance db). opt_all is_obj (bp_environment_json p))"

lemma join_single:
  "(\<And>x. x \<in> set xs \<Longrightarrow> g x = [y x]) \<Longrightarrow> concat (map (\<lambda>x. map (\<lambda>z. (x, z)) (g x)) xs) = map (\<lambda>x. (x, y x)) xs"
  by (induction xs) auto

definition artifact_row :: "registry_db \<Rightarrow> db_version \<Rightarrow> db_artifact" where
  "artifact_row db v = hd (filter (\<lambda>a. ar_id a = mv_artifact_id v) (t_artifacts db))"

definition history_row :: "registry_db \<Rightarrow> db_module \<Rightarrow> db_version \<Rightarrow> published_row" where
  "history_row db m v = \<lparr>pr_version = v, pr_artifact = artifact_row db v, pr_source_repository = mo_source_repository m,
     pr_evidence = (case mv_build_provenance_id v of None \<Rightarrow> None | Some i \<Rightarrow> py_next (\<lambda>p. bp_id p = i) (t_provenance db))\<rparr>"

lemma row_artifact:
  assumes "db_wf db" and "v \<in> set (t_versions db)"
  shows "filter (\<lambda>a. ar_id a = mv_artifact_id v) (t_artifacts db) = [artifact_row db v]"
    and "artifact_row db v \<in> set (t_artifacts db)"
proof -
  obtain a where "a \<in> set (t_artifacts db)" "filter (\<lambda>x. ar_id x = mv_artifact_id v) (t_artifacts db) = [a]"
    using assms by (rule artifact_of_version)
  then show "filter (\<lambda>a. ar_id a = mv_artifact_id v) (t_artifacts db) = [artifact_row db v]"
    and "artifact_row db v \<in> set (t_artifacts db)" by (simp_all add: artifact_row_def)
qed

lemma published_versions_rows:
  assumes "db_wf db" and "m \<in> set (t_modules db)"
  shows "published_versions db (mo_id m) version
    = map (history_row db m) (filter (\<lambda>v. mv_module_id v = mo_id m \<and> opt_all (\<lambda>s. mv_version v = s) version) (t_versions db))"
proof -
  let ?R = "\<lambda>v. mv_module_id v = mo_id m \<and> opt_all (\<lambda>s. mv_version v = s) version"
  let ?row = "\<lambda>v a m. \<lparr>pr_version = v, pr_artifact = a, pr_source_repository = mo_source_repository m,
     pr_evidence = (case mv_build_provenance_id v of None \<Rightarrow> None | Some i \<Rightarrow> py_next (\<lambda>p. bp_id p = i) (t_provenance db))\<rparr>"
  have "filter (\<lambda>q. ?R (fst q)) (version_artifacts db) = map (\<lambda>v. (v, artifact_row db v)) (filter ?R (t_versions db))"
    unfolding version_artifacts_def
    by (subst filter_join [where R = ?R], rule join_single) (use row_artifact(1) [OF assms(1)] in auto)
  then have "published_versions db (mo_id m) version
      = concat (map (\<lambda>v. map (?row v (artifact_row db v)) (filter (\<lambda>x. mo_id x = mv_module_id v) (t_modules db))) (filter ?R (t_versions db)))"
    by (simp add: published_versions_def case_prod_unfold comp_def)
  also have "\<dots> = concat (map (\<lambda>v. [history_row db m v]) (filter ?R (t_versions db)))"
    using rows_by_key(1) [OF assms] by (intro arg_cong [of _ _ concat] map_cong) (auto simp: history_row_def)
  finally show ?thesis by simp
qed

text \<open>The document of a version does not depend on the page it is on.\<close>

definition all_dependencies :: "registry_db \<Rightarrow> db_version \<Rightarrow> db_dependency list" where
  "all_dependencies db v =
     py_sorted dp_module_id (filter (\<lambda>d. dp_owner_module_id d = mv_module_id v \<and> dp_owner_version d = mv_version v) (t_dependencies db))"

lemma page_dependencies:
  assumes "mv_version v \<in> set vs" and "mv_module_id v = i"
  shows "filter (\<lambda>d. dp_owner_version d = mv_version v) (version_dependencies db i vs) = all_dependencies db v"
proof -
  have "filter (\<lambda>d. dp_owner_module_id d = i \<and> dp_owner_version d \<in> set vs \<and> dp_owner_version d = mv_version v) (t_dependencies db)
      = filter (\<lambda>d. dp_owner_module_id d = i \<and> dp_owner_version d = mv_version v) (t_dependencies db)"
    using assms(1) by (intro filter_cong) auto
  then show ?thesis using assms(2) by (simp add: version_dependencies_def all_dependencies_def filter_sort)
qed

definition version_doc :: "(int \<Rightarrow> string) \<Rightarrow> registry_db \<Rightarrow> published_row \<Rightarrow> json" where
  "version_doc isoformat db r = projr (version_document isoformat (mv_module_id (pr_version r)) (all_dependencies db (pr_version r)) r)"

lemma version_document_cong:
  assumes "mv_version (pr_version r) \<in> set vs" and "mv_module_id (pr_version r) = i"
  shows "version_document isoformat i (version_dependencies db i vs) r
    = version_document isoformat i (all_dependencies db (pr_version r)) r"
proof -
  have "filter (\<lambda>d. dp_owner_version d = mv_version (pr_version r)) (all_dependencies db (pr_version r))
      = all_dependencies db (pr_version r)"
    by (simp add: all_dependencies_def filter_sort conj_ac)
  with page_dependencies [OF assms] show ?thesis by (simp add: version_document_def)
qed

lemma dependencies_ok:
  "as_dict any_key as_str (JObj (dict_of (map (\<lambda>d. (k d, JStr (s d))) ds))) = Inr (JObj (dict_of (map (\<lambda>d. (k d, JStr (s d))) ds)))"
proof -
  have strs: "\<forall>p \<in> set (dict_of ps). \<exists>s. snd p = JStr s" if "\<forall>p \<in> set ps. \<exists>s. snd p = JStr s" for ps :: "(string \<times> json) list"
    using that
  proof (induction ps rule: rev_induct)
    case (snoc p ps)
    then have "\<forall>q \<in> set (dict_of ps). \<exists>s. snd q = JStr s" "\<exists>s. snd p = JStr s" by simp_all
    then show ?case unfolding dict_of_snoc by (rule dict_set_all [where P = "\<lambda>_ v. \<exists>s. v = JStr s"])
  qed (simp add: dict_of_def)
  have "\<forall>p \<in> set (dict_of (map (\<lambda>d. (k d, JStr (s d))) ds)). \<exists>s. snd p = JStr s" by (rule strs) auto
  then have "rmap (\<lambda>(k, x). rbind (as_str x) (\<lambda>y. Inr (k, y))) (dict_of (map (\<lambda>d. (k d, JStr (s d))) ds))
      = Inr (map id (dict_of (map (\<lambda>d. (k d, JStr (s d))) ds)))"
    by (intro rmap_ok) auto
  then show ?thesis by (simp add: as_dict_def)
qed

lemma optional_ok:
  shows "as_opt as_str (json_opt (\<lambda>x. JStr (f x)) t) = Inr (json_opt (\<lambda>x. JStr (f x)) t)"
    and "as_opt as_bool (json_opt JBool b) = Inr (json_opt JBool b)"
    and "opt_all (\<lambda>n. 0 \<le> n) n \<Longrightarrow> as_opt (as_int (\<lambda>i. 0 \<le> i)) (json_opt JInt n) = Inr (json_opt JInt n)"
    and "opt_all (\<lambda>s. s \<in> set xs) s \<Longrightarrow> as_opt (as_literal xs) (json_opt JStr s) = Inr (json_opt JStr s)"
    and "opt_all is_obj e \<Longrightarrow> as_opt (as_dict any_key Inr) (json_opt id e) = Inr (json_opt id e)"
proof -
  show "as_opt as_str (json_opt (\<lambda>x. JStr (f x)) t) = Inr (json_opt (\<lambda>x. JStr (f x)) t)"
    by (cases t) (simp_all add: as_opt_def)
  show "as_opt as_bool (json_opt JBool b) = Inr (json_opt JBool b)" by (cases b) (simp_all add: as_opt_def)
  show "opt_all (\<lambda>n. 0 \<le> n) n \<Longrightarrow> as_opt (as_int (\<lambda>i. 0 \<le> i)) (json_opt JInt n) = Inr (json_opt JInt n)"
    by (cases n) (simp_all add: as_opt_def)
  show "opt_all (\<lambda>s. s \<in> set xs) s \<Longrightarrow> as_opt (as_literal xs) (json_opt JStr s) = Inr (json_opt JStr s)"
    by (cases s) (simp_all add: as_opt_def as_literal_def)
  have "rmap (\<lambda>(k, x). rbind (ensure (any_key k) validation_error) (\<lambda>_. rbind (Inr x) (\<lambda>y. Inr (k, y)))) d = Inr (map id d)" for d :: "(string \<times> json) list"
    by (rule rmap_ok) auto
  then have "as_dict any_key Inr (JObj d) = Inr (JObj d)" for d by (simp add: as_dict_def)
  then show "opt_all is_obj e \<Longrightarrow> as_opt (as_dict any_key Inr) (json_opt id e) = Inr (json_opt id e)"
    by (cases e; cases "the e") (simp_all add: as_opt_def)
qed

text \<open>What the response shows: a missing provenance has every field null.\<close>

definition provenance_doc :: "db_provenance option \<Rightarrow> json" where
  "provenance_doc e = JObj
     [(''builder_version'', json_opt JStr (Option.bind e bp_builder_version)), (''builder_commit'', json_opt JStr (Option.bind e bp_builder_commit)),
      (''host_commit'', json_opt JStr (Option.bind e bp_host_commit)), (''reproducible'', json_opt JBool (Option.bind e bp_reproducible)),
      (''host_contract_status'', json_opt JStr (Option.bind e bp_host_contract_status)),
      (''environment'', json_opt id (Option.bind e bp_environment_json))]"

definition version_fields :: "(int \<Rightarrow> string) \<Rightarrow> db_dependency list \<Rightarrow> json \<Rightarrow> published_row \<Rightarrow> (string \<times> json) list" where
  "version_fields isoformat ds evidence r = (let v = pr_version r; a = pr_artifact r in
     [(''module_id'', JStr (mv_module_id v)), (''version'', JStr (mv_version v)),
      (''historical_publication_channel'', JStr (mv_channel v)), (''bundle_format_version'', JInt (mv_bundle_format_version v)),
      (''artifact'', JObj [(''url'', JStr (mv_artifact_original_url v)), (''sha256'', JStr (ar_digest a)),
        (''byte_size'', json_opt JInt (ar_byte_size a)), (''storage_locator'', json_opt JStr (ar_storage_locator a))]),
      (''source'', JObj [(''repository'', JStr (pr_source_repository r)), (''tag'', json_opt JStr (mv_source_tag v)),
        (''commit'', JStr (mv_source_commit v))]),
      (''compatibility'', JObj [(''host'', JStr (mv_host_compatibility v)), (''sdk'', JStr (mv_sdk_compatibility v))]),
      (''dependencies'', JObj (dict_of (map (\<lambda>d. (dp_module_id d, JStr (dp_specifier d))) ds))),
      (''published_at'', json_opt (\<lambda>t. JStr (isoformat t)) (mv_published_at v)),
      (''provenance'', evidence)])"

lemma provenance_model:
  assumes "\<And>p. e = Some p \<Longrightarrow> opt_all (\<lambda>s. s \<in> {''passed'', ''failed''}) (bp_host_contract_status p) \<and> opt_all is_obj (bp_environment_json p)"
  shows "model_validate VersionProvenance_model (evidence_document e) = Inr (provenance_doc e)"
    and "model_validate VersionProvenance_model (provenance_doc e) = Inr (provenance_doc e)"
proof -
  have l: "opt_all (\<lambda>s. s \<in> set [''passed'', ''failed'']) (Option.bind e bp_host_contract_status)"
    and o: "opt_all is_obj (Option.bind e bp_environment_json)"
    using assms by (cases e; auto split: option.splits)+
  note facts = optional_ok(1) [where f = id, simplified] optional_ok(2) optional_ok(4) [OF l] optional_ok(5) [OF o]
  show "model_validate VersionProvenance_model (provenance_doc e) = Inr (provenance_doc e)"
    unfolding provenance_doc_def
    by (intro model_validate_keys) (simp_all add: VersionProvenance_model_def optional_str_ok facts)
  then show "model_validate VersionProvenance_model (evidence_document e) = Inr (provenance_doc e)"
    by (cases e) (simp_all add: evidence_document_def provenance_doc_def VersionProvenance_model_def model_validate_def)
qed

lemma history_row_ok:
  assumes "db_wf db" and "readable db" and "v \<in> set (t_versions db)"
  shows "mv_channel v \<in> set CHANNELS" and "fullmatch SHA256_RE (ar_digest (artifact_row db v))"
    and "opt_all (\<lambda>n. 0 \<le> n) (ar_byte_size (artifact_row db v))"
    and "\<And>p. pr_evidence (history_row db m v) = Some p \<Longrightarrow>
      opt_all (\<lambda>s. s \<in> {''passed'', ''failed''}) (bp_host_contract_status p) \<and> opt_all is_obj (bp_environment_json p)"
proof -
  show "mv_channel v \<in> set CHANNELS" using assms(1,3) by (auto simp: db_wf_def table_ok_def ModuleVersion_def)
  show "fullmatch SHA256_RE (ar_digest (artifact_row db v))" and "opt_all (\<lambda>n. 0 \<le> n) (ar_byte_size (artifact_row db v))"
    using assms(1) row_artifact(2) [OF assms(1,3)] by (auto simp: db_wf_def table_ok_def Artifact_def)
  fix p assume "pr_evidence (history_row db m v) = Some p"
  then have "p \<in> set (t_provenance db)" by (auto simp: history_row_def split: option.splits dest: find_SomeD)
  then show "opt_all (\<lambda>s. s \<in> {''passed'', ''failed''}) (bp_host_contract_status p) \<and> opt_all is_obj (bp_environment_json p)"
    using assms(1,2) by (auto simp: db_wf_def table_ok_def BuildProvenance_def readable_def)
qed

text \<open>The document of a version, and that it is what the response model makes of the row.\<close>

definition history_doc :: "(int \<Rightarrow> string) \<Rightarrow> registry_db \<Rightarrow> db_module \<Rightarrow> db_version \<Rightarrow> json" where
  "history_doc isoformat db m v = JObj (version_fields isoformat (all_dependencies db v)
     (provenance_doc (pr_evidence (history_row db m v))) (history_row db m v))"

lemma history_doc_ok:
  assumes "db_wf db" and "readable db" and "v \<in> set (t_versions db)" and "mv_module_id v = mo_id m"
  shows "version_document isoformat (mo_id m) (all_dependencies db v) (history_row db m v) = Inr (history_doc isoformat db m v)"
    and "model_validate PublishedVersion_model (history_doc isoformat db m v) = Inr (history_doc isoformat db m v)"
proof -
  note row = history_row_ok [OF assms(1-3)]
  let ?r = "history_row db m v"
  let ?a = "JObj [(''url'', JStr (mv_artifact_original_url v)), (''sha256'', JStr (ar_digest (artifact_row db v))),
     (''byte_size'', json_opt JInt (ar_byte_size (artifact_row db v))), (''storage_locator'', json_opt JStr (ar_storage_locator (artifact_row db v)))]"
  let ?s = "JObj [(''repository'', JStr (mo_source_repository m)), (''tag'', json_opt JStr (mv_source_tag v)), (''commit'', JStr (mv_source_commit v))]"
  let ?c = "JObj [(''host'', JStr (mv_host_compatibility v)), (''sdk'', JStr (mv_sdk_compatibility v))]"
  have a: "model_validate VersionArtifact_model ?a = Inr ?a"
    using row(2) by (intro model_validate_keys)
      (simp_all add: VersionArtifact_model_def as_pattern_def optional_ok(3) [OF row(3)] optional_str_ok)
  have s: "model_validate VersionSource_model ?s = Inr ?s"
    by (intro model_validate_keys) (simp_all add: VersionSource_model_def optional_str_ok)
  have c: "model_validate VersionCompatibility_model ?c = Inr ?c"
    by (intro model_validate_keys) (simp_all add: VersionCompatibility_model_def)
  have f: "filter (\<lambda>d. dp_owner_version d = mv_version v) (all_dependencies db v) = all_dependencies db v"
    by (simp add: all_dependencies_def filter_sort conj_ac)
  have r: "pr_version ?r = v" "pr_artifact ?r = artifact_row db v" "pr_source_repository ?r = mo_source_repository m"
    by (simp_all add: history_row_def)
  have l: "as_literal CHANNELS (JStr (mv_channel v)) = Inr (JStr (mv_channel v))" using row(1) by (simp add: as_literal_def)
  have ok: "model_validate PublishedVersion_model (JObj (version_fields isoformat (all_dependencies db v) e ?r)) = Inr (history_doc isoformat db m v)"
    if "model_validate VersionProvenance_model e = Inr (provenance_doc (pr_evidence ?r))" for e
    unfolding history_doc_def using that
    by (intro model_validate_keys) (simp_all add: version_fields_def PublishedVersion_model_def Let_def r a s c l
        dependencies_ok [of dp_module_id dp_specifier] optional_ok(1) [of isoformat])
  show "model_validate PublishedVersion_model (history_doc isoformat db m v) = Inr (history_doc isoformat db m v)"
    unfolding history_doc_def [of isoformat db m v] using ok [OF provenance_model(2) [OF row(4)]] by (simp only: history_doc_def)
  show "version_document isoformat (mo_id m) (all_dependencies db v) ?r = Inr (history_doc isoformat db m v)"
    using ok [OF provenance_model(1) [OF row(4)]]
    by (simp add: version_document_def version_fields_def Let_def r f assms(4))
qed

lemma sorted_versions_ok:
  assumes "\<And>v. v \<in> set vs \<Longrightarrow> is_ok (semver_key (mv_version v))" and "\<And>v. pr_version (f v) = v"
  shows "\<exists>ws. sorted_versions (map f vs) = Inr (map f ws) \<and> mset ws = mset vs
    \<and> sorted (rev (map (\<lambda>v. projr (semver_key (mv_version v))) ws))"
proof -
  let ?k = "\<lambda>r. semver_key (mv_version (pr_version r))"
  let ?rows = "py_sorted_reverse (\<lambda>r. projr (?k r)) (py_sorted (\<lambda>r. mv_version (pr_version r)) (map f vs))"
  have s: "sorted_versions (map f vs) = Inr ?rows"
    unfolding sorted_versions_def using assms by (intro sorted_by_reverse_ok) auto
  have "map (f \<circ> pr_version) ?rows = ?rows" using assms(2) by (intro map_idI) auto
  then have r: "map f (map pr_version ?rows) = ?rows" by (simp only: map_map)
  have "mset (map pr_version ?rows) = image_mset pr_version (image_mset f (mset vs))" by (simp only: mset_map mset_py_sorted_reverse mset_sort)
  then have "mset (map pr_version ?rows) = mset vs" by (simp add: image_mset.compositionality comp_def assms(2))
  moreover have "sorted (rev (map (\<lambda>v. projr (semver_key (mv_version v))) (map pr_version ?rows)))"
    using sorted_py_sorted_reverse [of "\<lambda>r. projr (?k r)"] by (simp add: comp_def)
  ultimately show ?thesis using s r by metis
qed

lemma versions_page_ok:
  assumes "db_wf db" and "readable db" and "m \<in> set (t_modules db)" and "has_version db (mo_id m)"
    and "1 \<le> limit" and "limit \<le> 100"
    and s: "sorted_versions (published_versions db (mo_id m) version) = Inr (map (history_row db m) ws)"
    and ws: "\<And>v. v \<in> set ws \<Longrightarrow> v \<in> set (t_versions db) \<and> mv_module_id v = mo_id m"
  shows "versions_page isoformat db (mo_id m) version limit offset
    = Inr (JObj (api_page (map (history_doc isoformat db m) (slice offset limit ws)) (length ws) limit offset))"
proof -
  obtain p where c: "module_candidates db (Some (mo_id m)) None None None = [(m, p)]"
    using assms(1,3,4) by (rule candidate_of_id)
  have sl: "slice offset limit (map (history_row db m) ws) = map (history_row db m) (slice offset limit ws)"
    by (simp add: slice_def take_map drop_map)
  have sub: "v \<in> set ws" if "v \<in> set (slice offset limit ws)" for v
    using that by (auto simp: slice_def dest: in_set_takeD in_set_dropD)
  let ?deps = "version_dependencies db (mo_id m) (map (\<lambda>r. mv_version (pr_version r)) (map (history_row db m) (slice offset limit ws)))"
  have "rmap (version_document isoformat (mo_id m) ?deps) (map (history_row db m) (slice offset limit ws))
      = Inr (map (\<lambda>r. history_doc isoformat db m (pr_version r)) (map (history_row db m) (slice offset limit ws)))"
  proof (rule rmap_ok)
    fix r assume "r \<in> set (map (history_row db m) (slice offset limit ws))"
    then obtain v where v: "v \<in> set (slice offset limit ws)" "r = history_row db m v" by auto
    have pv: "pr_version r = v" by (simp add: v(2) history_row_def)
    note vm = ws [OF sub [OF v(1)]]
    have "version_document isoformat (mo_id m) ?deps r = version_document isoformat (mo_id m) (all_dependencies db (pr_version r)) r"
      using v vm by (intro version_document_cong) (auto simp: history_row_def image_image)
    also have "\<dots> = Inr (history_doc isoformat db m v)"
      unfolding pv unfolding v(2) using history_doc_ok(1) [OF assms(1,2)] vm by blast
    finally show "version_document isoformat (mo_id m) ?deps r = Inr (history_doc isoformat db m (pr_version r))" by (simp only: pv)
  qed
  also have "map (\<lambda>r. history_doc isoformat db m (pr_version r)) (map (history_row db m) (slice offset limit ws))
      = map (history_doc isoformat db m) (slice offset limit ws)"
    by (simp add: history_row_def comp_def)
  finally have items: "rmap (version_document isoformat (mo_id m) ?deps) (map (history_row db m) (slice offset limit ws))
      = Inr (map (history_doc isoformat db m) (slice offset limit ws))" .
  have "\<forall>d \<in> set (map (history_doc isoformat db m) (slice offset limit ws)). model_validate PublishedVersion_model d = Inr d"
    using history_doc_ok(2) [OF assms(1,2)] ws sub by auto
  then have "model_validate VersionPage_model (JObj (api_page (map (history_doc isoformat db m) (slice offset limit ws)) (length ws) limit offset))
      = Inr (JObj (api_page (map (history_doc isoformat db m) (slice offset limit ws)) (length ws) limit offset))"
    unfolding VersionPage_model_def using assms(5,6) by (rule page_ok)
  then show ?thesis using items by (simp add: versions_page_def c s sl Let_def del: map_map)
qed

text \<open>C20. The version history of a published module is complete, ordered and stable: there is one
  sequence of all its versions, each once, newest first by SemVer precedence, and every page is the
  slice of it that the limit and the offset select, with the full length as total; a single version
  reads as the same document that the pages show, and an unknown one is the answer 404.\<close>

theorem version_pages:
  assumes "db_wf db" and "readable db" and "m \<in> set (t_modules db)" and "has_version db (mo_id m)"
  shows "\<exists>vs. mset vs = mset (filter (\<lambda>v. mv_module_id v = mo_id m) (t_versions db))
    \<and> sorted (rev (map (\<lambda>v. projr (semver_key (mv_version v))) vs))
    \<and> (\<forall>limit offset. 1 \<le> limit \<and> limit \<le> 100 \<longrightarrow> list_versions isoformat db (mo_id m) limit offset
         = Inr (JObj (api_page (map (history_doc isoformat db m) (slice offset limit vs)) (length vs) limit offset)))
    \<and> (\<forall>v \<in> set vs. api_get_version isoformat db (mo_id m) (mv_version v) = Inr (history_doc isoformat db m v))
    \<and> (\<forall>s. s \<notin> mv_version ` set vs \<longrightarrow> api_get_version isoformat db (mo_id m) s = Inl (Raise NotFound (Msg ''Version not found'')))"
proof -
  let ?hs = "\<lambda>version. filter (\<lambda>v. mv_module_id v = mo_id m \<and> opt_all (\<lambda>s. mv_version v = s) version) (t_versions db)"
  have page: "\<exists>ws. mset ws = mset (?hs version) \<and> sorted (rev (map (\<lambda>v. projr (semver_key (mv_version v))) ws))
      \<and> (\<forall>limit offset. 1 \<le> limit \<and> limit \<le> 100 \<longrightarrow> versions_page isoformat db (mo_id m) version limit offset
           = Inr (JObj (api_page (map (history_doc isoformat db m) (slice offset limit ws)) (length ws) limit offset)))" for version
  proof -
    have "\<And>v. v \<in> set (?hs version) \<Longrightarrow> is_ok (semver_key (mv_version v))" using assms(2) by (simp add: readable_def)
    then obtain ws where ws: "sorted_versions (map (history_row db m) (?hs version)) = Inr (map (history_row db m) ws)"
        "mset ws = mset (?hs version)" "sorted (rev (map (\<lambda>v. projr (semver_key (mv_version v))) ws))"
      using sorted_versions_ok [of "?hs version" "history_row db m"] by (auto simp: history_row_def)
    have sub: "\<And>v. v \<in> set ws \<Longrightarrow> v \<in> set (t_versions db) \<and> mv_module_id v = mo_id m"
      using mset_eq_setD [OF ws(2)] by simp
    have "sorted_versions (published_versions db (mo_id m) version) = Inr (map (history_row db m) ws)"
      using ws(1) by (simp only: published_versions_rows [OF assms(1,3)])
    note page = versions_page_ok [OF assms _ _ this sub]
    show ?thesis by (intro exI [of _ ws] conjI allI impI ws(2,3) page) auto
  qed
  have single: "api_get_version isoformat db (mo_id m) s = (case ws of [] \<Rightarrow> Inl (Raise NotFound (Msg ''Version not found''))
      | v # _ \<Rightarrow> Inr (history_doc isoformat db m v))"
    if "versions_page isoformat db (mo_id m) (Some s) 1 0
      = Inr (JObj (api_page (map (history_doc isoformat db m) (slice 0 1 ws)) (length ws) 1 0))" for s ws
    using that by (cases ws) (simp_all add: api_get_version_def api_page_def page_document_def slice_def list_item_def)
  have all: "?hs None = filter (\<lambda>v. mv_module_id v = mo_id m) (t_versions db)" by simp
  obtain vs where vs: "mset vs = mset (filter (\<lambda>v. mv_module_id v = mo_id m) (t_versions db))"
      "sorted (rev (map (\<lambda>v. projr (semver_key (mv_version v))) vs))"
      "\<forall>limit offset. 1 \<le> limit \<and> limit \<le> 100 \<longrightarrow> versions_page isoformat db (mo_id m) None limit offset
         = Inr (JObj (api_page (map (history_doc isoformat db m) (slice offset limit vs)) (length vs) limit offset))"
    using page [of None] unfolding all by blast
  note mem = mset_eq_setD [OF vs(1)]
  have one: "?hs (Some (mv_version v)) = [v]" if "v \<in> set vs" for v
  proof -
    from that mem have v: "v \<in> set (t_versions db)" "mv_module_id v = mo_id m" by auto
    have "filter (\<lambda>x. version_key x = version_key v) (t_versions db) = [v]"
    proof (rule unique_filter)
      show "sorted_wrt (\<lambda>x y. \<not> tb_clash ModuleVersion y x) (t_versions db)"
        using assms(1) by (simp add: db_wf_def table_ok_def)
    qed (use v(1) in \<open>auto simp: ModuleVersion_def version_key_def\<close>)
    then show ?thesis using v(2) by (simp add: version_key_def)
  qed
  have "api_get_version isoformat db (mo_id m) (mv_version v) = Inr (history_doc isoformat db m v)" if v: "v \<in> set vs" for v
  proof -
    obtain ws where ws: "mset ws = mset (?hs (Some (mv_version v)))"
      and pg: "versions_page isoformat db (mo_id m) (Some (mv_version v)) 1 0
         = Inr (JObj (api_page (map (history_doc isoformat db m) (slice 0 1 ws)) (length ws) 1 0))"
      using page [of "Some (mv_version v)"] by auto
    from ws have "ws = [v]" unfolding one [OF v] by simp
    then show ?thesis using single [OF pg] by simp
  qed
  moreover have "api_get_version isoformat db (mo_id m) s = Inl (Raise NotFound (Msg ''Version not found''))"
    if "s \<notin> mv_version ` set vs" for s
  proof -
    have "?hs (Some s) = []" using that mem by (auto simp: filter_empty_conv)
    moreover obtain ws where ws: "mset ws = mset (?hs (Some s))"
      and pg: "versions_page isoformat db (mo_id m) (Some s) 1 0
         = Inr (JObj (api_page (map (history_doc isoformat db m) (slice 0 1 ws)) (length ws) 1 0))"
      using page [of "Some s"] by auto
    ultimately have "ws = []" by simp
    then show ?thesis using single [OF pg] by simp
  qed
  ultimately show ?thesis using vs by (intro exI [of _ vs]) (simp add: list_versions_def)
qed

section \<open>A concrete database\<close>

lemma promoted_registry_wf: "db_wf promoted_registry"
proof -
  from reviewed_run obtain t where "reviewed_promotion (sample_fs, empty_registry) = (Inr reviewed_result, (t, promoted_registry))"
    by blast
  then have "fs_registry_step (\<lambda>_ _. True) reviewed_hash [] [''srv'', ''store''] (Some sample_config) (JObj [])
       (\<lambda>_. Some (to_ptree reviewed_provenance)) reviewed_api (sample_fs, empty_registry) (t, promoted_registry)"
    by (rule registry_step.Promotion)
  from github.steps_advance [OF r_into_rtranclp, OF this] empty_registry_wf show ?thesis by (simp add: advance_def)
qed

lemma promoted_readable: "readable promoted_registry"
proof -
  have "is_ok (semver_key ''2.0.0'')" by code_simp
  then show ?thesis
    by (simp add: readable_def promoted_registry_def channel_registry_def versioned_registry_def)
qed

lemma promoted_module: "hd (t_modules promoted_registry) \<in> set (t_modules promoted_registry)"
  "has_version promoted_registry (mo_id (hd (t_modules promoted_registry)))"
  "mo_id (hd (t_modules promoted_registry)) = ''maps''"
  "filter (\<lambda>v. mv_module_id v = ''maps'') (t_versions promoted_registry) = t_versions promoted_registry"
  by code_simp+

lemma promoted_index:
  "case compatibility_index (\<lambda>_ _. True) promoted_registry of
     Inr index \<Rightarrow> (case get_field index ''modules'' of Some (JList [e]) \<Rightarrow> get_field e ''id'' = Some (JStr ''maps'') | _ \<Rightarrow> False)
   | _ \<Rightarrow> False"
  unfolding compatibility_index_def validate_v1_representability_def rbind_def by code_simp

theorem version_pages_witness:
  "\<exists>vs. mset vs = mset (t_versions promoted_registry)
    \<and> list_versions (\<lambda>_. ''1970-01-01T00:00:00Z'') promoted_registry ''maps'' 50 0 = Inr (JObj (api_page
        (map (history_doc (\<lambda>_. ''1970-01-01T00:00:00Z'') promoted_registry (hd (t_modules promoted_registry))) (slice 0 50 vs)) (length vs) 50 0))
    \<and> api_get_version (\<lambda>_. ''1970-01-01T00:00:00Z'') promoted_registry ''maps'' ''9.9.9'' = Inl (Raise NotFound (Msg ''Version not found''))"
proof -
  have none: "list_all (\<lambda>v. mv_version v \<noteq> ''9.9.9'') (t_versions promoted_registry)" by code_simp
  note version_pages [OF promoted_registry_wf promoted_readable promoted_module(1,2), of "\<lambda>_. ''1970-01-01T00:00:00Z''",
    unfolded promoted_module(3,4)]
  then obtain vs where vs: "mset vs = mset (t_versions promoted_registry)"
    "\<forall>limit offset. 1 \<le> limit \<and> limit \<le> 100 \<longrightarrow> list_versions (\<lambda>_. ''1970-01-01T00:00:00Z'') promoted_registry ''maps'' limit offset
         = Inr (JObj (api_page (map (history_doc (\<lambda>_. ''1970-01-01T00:00:00Z'') promoted_registry (hd (t_modules promoted_registry))) (slice offset limit vs)) (length vs) limit offset))"
    "\<forall>s. s \<notin> mv_version ` set vs \<longrightarrow> api_get_version (\<lambda>_. ''1970-01-01T00:00:00Z'') promoted_registry ''maps'' s = Inl (Raise NotFound (Msg ''Version not found''))"
    by blast
  have "''9.9.9'' \<notin> mv_version ` set vs" using none mset_eq_setD [OF vs(1)] by (auto simp: list_all_iff)
  with vs show ?thesis by (intro exI [of _ vs]) simp
qed

theorem channels_agree_witness:
  "\<exists>index e i t. compatibility_index (\<lambda>_ _. True) promoted_registry = Inr index
    \<and> get_field index ''modules'' = Some (JList [e]) \<and> get_field e ''id'' = Some (JStr i)
    \<and> get_field e ''channels'' = Some t \<and> api_get_channels id Inr (\<lambda>_ _. Inr True) promoted_registry i = Inr t"
proof -
  from promoted_index obtain index e where i: "compatibility_index (\<lambda>_ _. True) promoted_registry = Inr index"
      "get_field index ''modules'' = Some (JList [e])"
    by (auto split: sum.splits option.splits json.splits list.splits)
  have "e \<in> set [e]" by simp
  from channels_agree [OF promoted_registry_wf i this, of id Inr "\<lambda>_ _. Inr True"] i show ?thesis by blast
qed

definition sample_digest :: "string \<Rightarrow> string" where
  "sample_digest s = (if s = canonical_json (JInt 1) then ''a1'' else ''b2'')"

definition sample_conditional :: api_request where
  "sample_conditional = \<lparr>rq_path = ''/index.json'', rq_accept = [], rq_if_none_match = sent_tag sample_digest (True, JInt 1)\<rparr>"

theorem conditional_get_witness:
  "rs_status (response_metadata sample_digest sample_conditional (JInt 1) False) = 304
    \<and> rs_body (response_metadata sample_digest sample_conditional (JInt 2) False) = Some (canonical_json (JInt 2))"
proof -
  have ne: "canonical_json (JInt 2) \<noteq> canonical_json (JInt 1)" by code_simp
  have hex: "\<And>s. set (sample_digest s) \<subseteq> set ''0123456789abcdef''" by (simp add: sample_digest_def)
  have rq: "rq_if_none_match sample_conditional = py_join '','' (map (sent_tag sample_digest) [(True, JInt 1)])"
    by (simp add: sample_conditional_def)
  have c: "[(True, JInt 1)] \<noteq> []" by simp
  have same: "canonical_json (snd t) = canonical_json (JInt 1)" if "t \<in> set [(True, JInt 1)]" for t using that by simp
  have other: "canonical_json (snd t) = canonical_json (JInt 2)"
    if "t \<in> set [(True, JInt 1)]" "sample_digest (canonical_json (snd t)) = sample_digest (canonical_json (JInt 2))" for t
    using that ne by (simp add: sample_digest_def)
  show ?thesis
    using conditional_get [OF hex c rq same, of False] conditional_get [OF hex c rq other, of False] ne by simp
qed

end
