(* ===== verification/Spec2Isabelle.thy ===== *)
theory Spec2Isabelle
  imports Artifact_Race Publish_Artifacts Candidate Limit_Props Mfa_Props Passkey_Props OAuth_Props Api_Props
begin

text \<open>
  Verification of the package registry of Open City Planner (repository
  open-city-planner-packages): the registry of module releases with its tools, the web hub and its
  database registry, and the accounts and sessions of the hub.

  The program. Modules and their releases are JSON documents under \<open>registry/\<close>.
  \<open>scripts/registry.py\<close> validates them, orders versions, builds the index that clients read and
  checks that published history never changes. A release enters as a candidate
  (\<open>registry_candidate.py\<close>, against the allowlist of \<open>ocp_builder.py\<close>) and is promoted
  (\<open>promote_candidate.py\<close>). Its artifact is downloaded and verified by a pinned host program
  (\<open>verify_artifacts.py\<close>) and mirrored (\<open>publish_artifacts.py\<close>, \<open>publish_artifact.py\<close>) into an
  immutable store in the file system (\<open>artifact_store.py\<close>), possibly by several jobs at once.
  \<open>build_registry.py\<close> writes the static site. The web application (\<open>web/backend/app\<close>) serves a hub
  over the static registry (\<open>repository.py\<close>, \<open>main.py\<close>) and a relational registry (\<open>db\<close>): the
  static registry is imported into it (\<open>registry_import_v1.py\<close>) and compared with it
  (\<open>registry_verify_v1.py\<close>), reviewed candidates are promoted into it
  (\<open>registry_promotion.py\<close>, with the evidence of \<open>reviewed_candidate.py\<close>) and read back through two
  APIs (\<open>api/registry_v2.py\<close>, \<open>api/registry_v1.py\<close>). It also has user accounts (\<open>auth\<close>) with
  rotating refresh sessions, password reset, second factors, passkeys, login through GitHub and
  Google, and rate limits.

  Theories, bottom up.
  \<^item> \<open>Prelude\<close>, \<open>Pystr\<close>, \<open>Regex\<close>, \<open>Json\<close>, \<open>Json_Access\<close>, \<open>Url\<close>, \<open>Effects\<close>: the parts of Python and
    its standard library the code uses. Results that may raise are sums; texts are their UTF-8
    bytes; \<open>re.fullmatch\<close> is matching by derivatives, proved equal to the language; dictionaries are
    association lists in insertion order; \<open>urlsplit\<close> with the hostname and port of its result;
    \<open>Effects\<close> has operations on a state that persists when they raise.
  \<^item> \<open>Semver\<close>, \<open>Registry\<close>, \<open>Registry_Props\<close>: \<open>registry.py\<close>. The lemmas give the sort key of a
    version its order (an instance of \<open>linorder\<close>), what a valid module is, the loaded registry, the
    index, and that every accepted change of the registry keeps all published history.
  \<^item> \<open>Artifact_Store\<close>, \<open>Artifact_Props\<close>, \<open>Artifact_Race\<close>: the file system as inodes, directory
    entries and modes; the store's operations call by call; publications are immutable and
    verifiable; and a step relation whose steps are single system calls of any number of
    publishers, for what holds under every interleaving and after every failure.
  \<^item> \<open>Verify_Artifacts\<close>, \<open>Publish_Artifacts\<close>, \<open>Build_Registry\<close>, \<open>Candidate\<close>: the jobs, over
    \<open>Registry\<close> and \<open>Artifact_Store\<close>; the bounded download, the mirror, the atomic replacement of the
    output directory, candidates and the gates of promotion.
  \<^item> \<open>Api_Models\<close> (the pydantic response models of \<open>models.py\<close> and \<open>api/models_registry_v2.py\<close> as
    checks of a document), \<open>Hub\<close> (\<open>RegistryRepository\<close> of \<open>repository.py\<close>, the routes of \<open>main.py\<close>)
    and \<open>Hub_Props\<close> (on a loaded registry every listing succeeds, and what it holds and its order).
  \<^item> \<open>Registry_Schema\<close>: the tables of \<open>db/models.py\<close> as records; a \<open>table\<close> carries its column
    types, CHECK constraints, keys and references, and \<open>protect_history\<close> its guard against change.
    \<open>Registry_Db\<close>: \<open>RegistryDatabaseRepository\<close> of \<open>db/repository.py\<close>. \<open>Registry_Compat\<close>: the
    projection of a stored release to the document of registry v1, the import and the parity check.
    \<open>Reviewed_Candidate\<close>: \<open>reviewed_candidate.py\<close>. \<open>Promotion\<close>: \<open>registry_promotion.py\<close>,
    \<open>registry_promote.py\<close>. \<open>Registry_Api\<close>: the routes of both read APIs with media negotiation,
    entity tags and error responses.
  \<^item> \<open>Registry_Integrity\<close> (the type \<open>db_wf\<close> of the database and the order \<open>extends\<close> in which it only
    grows, both kept by every operation), \<open>Release_Rows\<close> (the rows of a release read back as its
    document), \<open>Promotion_Props\<close> (the promotion service on any artifact store),
    \<open>Promotion_History\<close> (its properties over a history of promotions and imports) and \<open>Api_Props\<close>
    (the read APIs agree with each other and with the tables).
  \<^item> \<open>Auth_Base\<close>: the tables of \<open>web/backend/app/auth/models\<close> as records, the schema's constraints
    (\<open>db_ok\<close>), transactions (\<open>working\<close> and \<open>committed\<close> database), tokens, passwords, JWTs, CSRF
    (\<open>tokens.py\<close>, \<open>passwords.py\<close>, \<open>jwt.py\<close>, \<open>csrf.py\<close>). \<open>Auth_Service\<close>: \<open>auth_service.py\<close>.
    \<open>Mfa_Service\<close>: \<open>mfa_service.py\<close>, \<open>encryption.py\<close>. \<open>Account_Service\<close>: \<open>account_service.py\<close>,
    \<open>dependencies.py\<close>, \<open>recent_auth.py\<close>. \<open>Rate_Limit\<close>: \<open>rate_limit.py\<close>. \<open>Passkey_Service\<close>:
    \<open>passkey_service.py\<close>. \<open>OAuth_Service\<close>: \<open>oauth_account_service.py\<close>. \<open>OAuth_Flow\<close>: \<open>oauth.py\<close>, on
    \<open>Base64\<close>. \<open>Auth_Api\<close>, \<open>Passkey_Api\<close>, \<open>OAuth_Api\<close>: the handlers of \<open>api.py\<close>, \<open>users_api.py\<close> and
    \<open>oauth_api.py\<close>. \<open>Auth_Serve\<close>: the application; \<open>serve_all\<close> runs a list of requests.
  \<^item> \<open>Auth_Steps\<close>: the abstract store. Its steps (\<open>astep\<close>, \<open>wstep\<close>) are the guarded changes of the
    database that services may make; with \<open>Passkey_Steps\<close> and \<open>OAuth_Steps\<close> it shows that every
    service makes such steps only, and \<open>Auth_Run\<close> that every request does. The locale
    \<open>auth_invariant\<close> turns a property kept by each step into one of every sequence of requests.
  \<^item> \<open>Auth_Props\<close> (sessions), \<open>Account_Props\<close> (password reset, superusers, deactivation, sign-up),
    \<open>Mfa_Props\<close> (second factors, CSRF), \<open>Limit_Props\<close> (rate limits), \<open>Passkey_Props\<close> (WebAuthn
    ceremonies), \<open>OAuth_Props\<close> (external identities, the flow cookie, redirects): the interpretations
    and the properties. \<open>Auth_Sample\<close> is the concrete instance of the witnesses.

  Interfaces. Locales state what a client relies on and are interpreted on the model:
  \<open>artifact_store\<close> is the contract of a store (interpreted on the file system store as \<open>fstore\<close>);
  \<open>promotion_service\<close> extends it by what a promotion relies on in its source of evidence
  (interpreted on the file system store and \<open>GitHubCandidateSource\<close> as \<open>github\<close>);
  \<open>auth_invariant\<close> is that of a property kept by the steps of the authentication store, and
  \<open>bounded_invariant\<close>, with a \<open>sublocale\<close> into it, one that holds for the first \<open>N\<close> draws.

  Bounds and termination. All recursions are structural or have a termination proof, and no result
  depends on fuel: \<open>remove_sub\<close> (\<open>str.replace\<close> with the empty text) counts down from the length of
  the text. The download loop ends at the byte limit or the deadline (\<open>download_terminates\<close>: no
  more than \<open>max_bytes + 1\<close> bytes of a body matter, so an endless one does not keep it running);
  redirects at \<open>max_redirects\<close>. Integers of the program are Python's and unbounded; there is no
  wrap-around. The range checks of integer columns are part of the schema (\<open>tb_types\<close>).

  Parameters and hypotheses. SHA-256, the network, the host verifier, GitHub's answers, the JSON
  parser, JSON Schema validation, PyJWT, pwdlib, pyotp, Fernet, HMAC, py\_webauthn, the HTTP clients
  of the OAuth providers, e-mail validation, Redis, \<open>ipaddress\<close>, Unicode case folding, \<open>packaging\<close>'s
  \<open>Version\<close> and \<open>SpecifierSet\<close>, pydantic's \<open>HttpUrl\<close>, clocks, random generators and mail delivery are functions the definitions take as arguments; \<open>ORDER BY\<close>
  compares texts by code points. What properties assume of them is documented: \<open>SpecifierSet\<close> and
  \<open>Version\<close> raise only their own errors (\<open>documented_errors\<close>), a database is \<open>readable\<close> when its
  versions are SemVer and its build environments objects, which the tables alone do not enforce,
  and where an
  entity tag must tell two documents apart SHA-256 does not collide on them. The properties of
  sessions and accounts assume that identifiers drawn at random do not repeat (\<open>fresh_uuids\<close>,
  \<open>fresh_tokens\<close>, for the first \<open>N\<close> draws; a bound is needed since there are finitely many UUIDs),
  and say of which worlds (at most \<open>N\<close> draws) they speak. Witnesses instantiate all of them.

  Requests are served one after the other. The services serialise writers of a row with
  \<open>SELECT ... FOR UPDATE\<close> and promotions with an advisory lock, so this is the order of those locks;
  the races the code handles itself are modelled: two sign-ups with one address or two first logins
  with one identity (\<open>rival\<close>), and publishers of one artifact (\<open>Artifact_Race\<close>).

  Not modelled. Of \<open>ocp_builder.py\<close> only the policy file is modelled; the rest drives git, npm,
  containers and the lifecycle of a host. \<open>candidate_pr_body.py\<close>, \<open>application_changes.py\<close>,
  \<open>compare_ocp.py\<close>, \<open>check_cross_run.py\<close> and \<open>run_auth_e2e.py\<close> are helpers of the continuous
  integration. Mail rendering, start-up checks
  (\<open>validate_security\<close>, \<open>preflight.py\<close>, \<open>setup.py\<close>), logging, migrations, the engine set-up of
  \<open>db/config.py\<close>, CORS, the patches of the OpenAPI schema, the texts of the framework's own 422
  responses, the front end and the deployment are out. Of the user table the columns no modelled
  service reads (language, time zone, creation time) are left out, as is \<open>onupdate\<close> of
  \<open>updated_at\<close>; the German texts of error messages are not kept, their codes and status are.
\<close>

end
